(* ===== verification/Prelude.thy ===== *)
theory Prelude
  imports Main "HOL-Library.Sublist" "HOL-Library.List_Lexorder" "HOL-Library.Char_ord"
    "HOL-Library.Product_Lexorder"
begin

section \<open>Prelude: the Python runtime the components share\<close>

text \<open>
  What every component of the harness uses of Python and of its database session: exceptions as
  values, the string operations of \<^verbatim>\<open>str\<close>, decoded JSON, tables as row lists with the queries
  the services issue (\<^verbatim>\<open>session.get\<close>, \<^verbatim>\<open>select(...).where(...)\<close>, attribute assignment on the
  selected rows, \<^verbatim>\<open>session.add\<close>), and the lemmas on them that carry the component proofs.

  Text is a list of characters (code points up to 255); \<^verbatim>\<open>lower\<close> changes ASCII letters. A time
  is an integer. An identifier that the code draws from \<^verbatim>\<open>uuid4\<close> and a time it reads from the
  clock are arguments of the operation that uses them.
\<close>

named_theorems table_simps \<open>queries on tables after an update\<close>
named_theorems py_string \<open>unfolding the string operations of str\<close>

subsection \<open>Exceptions\<close>

datatype py_error =
    ValueError string
  | KeyError string
  | AttributeError string
  | TypeError string
  | ProjectPathError string
  | TransactionPrepareError string
  | RollbackError string
  | RollbackConflict string
  | CreateFileError string
  | DeleteFileError string
  | ApplyPatchError string
  | ShellToolError string
  | ConfigMergeError string
  | EvidenceBundleError string
  | FileSystemError string
  | TokenBudgetPaused string
  | ProviderError string string
  | CancellationRequested string
  | ExecutionPipelineUnavailable string
  | AgentActionParseExhausted string
  | AgentMaxIterationsExceeded string
  | AgentStalled string
  | AgentStalledReadOnlyLoop string
  | ToolExecutionFailed string
  | GovernancePaused string
  | ImpactReportGenerationError string
  | ExecutionRejected string string
  | CompletionInvariantViolation string
  | TargetGroundingError string
  | ProposalGenerationError string string
  | OnlineSessionRequired string
  | OnlineSessionExpired string
  | OnlineSessionLimitExceeded string
  | OnlineCredentialValidationError string
  | OnlineProviderEndpointError string string
  | OnlineWorkspaceError string string
  | RuntimeProfileError string
  | GitToolError string
  | ProjectRegistrationError string
  | HarnessError string string
  | UnicodeDecodeError string
  | KeyringUnavailable string
  | OnlineSessionUnavailable string
  | OnlineSafeNotReadyError string

type_synonym 'a result = "py_error + 'a"

text \<open>The text of an exception, \<^verbatim>\<open>str(exc)\<close>; that of a \<^verbatim>\<open>KeyError\<close> is the quoted key.\<close>

fun err_message :: "py_error \<Rightarrow> string" where
  "err_message (ValueError m) = m"
| "err_message (KeyError m) = CHR 0x27 # m @ [CHR 0x27]"
| "err_message (AttributeError m) = m"
| "err_message (TypeError m) = m"
| "err_message (ProjectPathError m) = m"
| "err_message (TransactionPrepareError m) = m"
| "err_message (RollbackError m) = m"
| "err_message (RollbackConflict m) = m"
| "err_message (CreateFileError m) = m"
| "err_message (DeleteFileError m) = m"
| "err_message (ApplyPatchError m) = m"
| "err_message (ShellToolError m) = m"
| "err_message (ConfigMergeError m) = m"
| "err_message (EvidenceBundleError m) = m"
| "err_message (FileSystemError m) = m"
| "err_message (TokenBudgetPaused m) = m"
| "err_message (ProviderError c m) = m"
| "err_message (CancellationRequested m) = m"
| "err_message (ExecutionPipelineUnavailable m) = m"
| "err_message (AgentActionParseExhausted m) = m"
| "err_message (AgentMaxIterationsExceeded m) = m"
| "err_message (AgentStalled m) = m"
| "err_message (AgentStalledReadOnlyLoop m) = m"
| "err_message (ToolExecutionFailed m) = m"
| "err_message (GovernancePaused m) = m"
| "err_message (ImpactReportGenerationError m) = m"
| "err_message (ExecutionRejected c m) = m"
| "err_message (CompletionInvariantViolation m) = m"
| "err_message (TargetGroundingError m) = m"
| "err_message (ProposalGenerationError c m) = m"
| "err_message (OnlineSessionRequired m) = m"
| "err_message (OnlineSessionExpired m) = m"
| "err_message (OnlineSessionLimitExceeded m) = m"
| "err_message (OnlineCredentialValidationError m) = m"
| "err_message (OnlineProviderEndpointError c m) = m"
| "err_message (OnlineWorkspaceError c m) = m"
| "err_message (RuntimeProfileError m) = m"
| "err_message (GitToolError m) = m"
| "err_message (ProjectRegistrationError m) = m"
| "err_message (HarnessError c m) = m"
| "err_message (UnicodeDecodeError m) = m"
| "err_message (KeyringUnavailable m) = m"
| "err_message (OnlineSessionUnavailable m) = m"
| "err_message (OnlineSafeNotReadyError m) = m"

text \<open>
  The class attribute or field \<^verbatim>\<open>code\<close> of an exception, where its class has one, and the name of its class. The
  provider errors and the errors of the proposal generator are classes that differ in their code.
\<close>

fun err_code :: "py_error \<Rightarrow> string option" where
  "err_code (ExecutionPipelineUnavailable m) = Some ''EXECUTION_PIPELINE_UNAVAILABLE''"
| "err_code (AgentActionParseExhausted m) = Some ''ACTION_PARSE_FAILED''"
| "err_code (AgentMaxIterationsExceeded m) = Some ''MAX_ITERATIONS''"
| "err_code (AgentStalled m) = Some ''STALLED''"
| "err_code (AgentStalledReadOnlyLoop m) = Some ''STALLED_READ_ONLY_LOOP''"
| "err_code (ToolExecutionFailed m) = Some ''TOOL_EXECUTION_FAILED''"
| "err_code (GovernancePaused m) = Some ''GOVERNANCE_PAUSED''"
| "err_code (CompletionInvariantViolation m) = Some ''NO_CODE_CHANGE_PRODUCED''"
| "err_code (TargetGroundingError m) = Some ''TARGET_MISMATCH''"
| "err_code (ProviderError c m) = Some c"
| "err_code (ExecutionRejected c m) = Some c"
| "err_code (ProposalGenerationError c m) = Some c"
| "err_code (OnlineProviderEndpointError c m) = Some c"
| "err_code (OnlineWorkspaceError c m) = Some c"
| "err_code (OnlineSafeNotReadyError m) = Some ''PROVIDER_CONFIG_INVALID''"
| "err_code (HarnessError c m) = Some c"
| "err_code e = None"

definition provider_class :: "string \<Rightarrow> string" where
  "provider_class c =
     (case map_of [(''PROVIDER_TIMEOUT'', ''ProviderTimeout''),
        (''PROVIDER_CANCELLED'', ''ProviderCancelled''),
        (''PROVIDER_AUTH'', ''ProviderAuthError''),
        (''PROVIDER_RATE_LIMIT'', ''ProviderRateLimitError''),
        (''PROVIDER_INVALID_RESPONSE'', ''ProviderInvalidResponse''),
        (''PROVIDER_REQUEST_FAILED'', ''ProviderRequestError''),
        (''PROVIDER_CONNECTION_ERROR'', ''ProviderConnectionError''),
        (''PROVIDER_CONFIG_INVALID'', ''ProviderConfigError''),
        (''PROVIDER_REQUEST_BUILD_FAILED'', ''ProviderRequestBuildError''),
        (''PROVIDER_ERROR'', ''ProviderError'')] c of
        Some n \<Rightarrow> n | None \<Rightarrow> ''ProviderHTTPError'')"

definition generation_class :: "string \<Rightarrow> string" where
  "generation_class c =
     (case map_of [(''PROPOSAL_RESPONSE_EMPTY'', ''ProposalResponseEmpty''),
        (''PROPOSAL_RESPONSE_INVALID'', ''ProposalResponseInvalid''),
        (''PROPOSAL_SCHEMA_VALIDATION_FAILED'', ''ProposalSchemaInvalid''),
        (''PROPOSAL_PERSIST_FAILED'', ''ProposalPersistenceError'')] c of
        Some n \<Rightarrow> n | None \<Rightarrow> ''ProposalGenerationError'')"

fun err_class :: "py_error \<Rightarrow> string" where
  "err_class (ValueError m) = ''ValueError''"
| "err_class (KeyError m) = ''KeyError''"
| "err_class (AttributeError m) = ''AttributeError''"
| "err_class (TypeError m) = ''TypeError''"
| "err_class (ProjectPathError m) = ''ProjectPathError''"
| "err_class (TransactionPrepareError m) = ''TransactionPrepareError''"
| "err_class (RollbackError m) = ''RollbackError''"
| "err_class (RollbackConflict m) = ''RollbackConflict''"
| "err_class (CreateFileError m) = ''CreateFileError''"
| "err_class (DeleteFileError m) = ''DeleteFileError''"
| "err_class (ApplyPatchError m) = ''ApplyPatchError''"
| "err_class (ShellToolError m) = ''ShellToolError''"
| "err_class (ConfigMergeError m) = ''ConfigMergeError''"
| "err_class (EvidenceBundleError m) = ''EvidenceBundleError''"
| "err_class (TokenBudgetPaused m) = ''TokenBudgetPaused''"
| "err_class (CancellationRequested m) = ''CancellationRequested''"
| "err_class (ExecutionPipelineUnavailable m) = ''ExecutionPipelineUnavailable''"
| "err_class (AgentActionParseExhausted m) = ''AgentActionParseExhausted''"
| "err_class (AgentMaxIterationsExceeded m) = ''AgentMaxIterationsExceeded''"
| "err_class (AgentStalled m) = ''AgentStalled''"
| "err_class (AgentStalledReadOnlyLoop m) = ''AgentStalledReadOnlyLoop''"
| "err_class (ToolExecutionFailed m) = ''ToolExecutionFailed''"
| "err_class (GovernancePaused m) = ''GovernancePaused''"
| "err_class (ImpactReportGenerationError m) = ''ImpactReportGenerationError''"
| "err_class (FileSystemError m) = ''OSError''"
| "err_class (ProviderError c m) = provider_class c"
| "err_class (ExecutionRejected c m) = ''ExecutionRejected''"
| "err_class (CompletionInvariantViolation m) = ''CompletionInvariantViolation''"
| "err_class (TargetGroundingError m) = ''TargetGroundingError''"
| "err_class (ProposalGenerationError c m) = generation_class c"
| "err_class (OnlineSessionRequired m) = ''OnlineSessionRequired''"
| "err_class (OnlineSessionExpired m) = ''OnlineSessionExpired''"
| "err_class (OnlineSessionLimitExceeded m) = ''OnlineSessionLimitExceeded''"
| "err_class (OnlineCredentialValidationError m) = ''OnlineCredentialValidationError''"
| "err_class (OnlineProviderEndpointError c m) = ''OnlineProviderEndpointError''"
| "err_class (OnlineWorkspaceError c m) = ''OnlineWorkspaceError''"
| "err_class (RuntimeProfileError m) = ''RuntimeProfileError''"
| "err_class (GitToolError m) = ''GitToolError''"
| "err_class (ProjectRegistrationError m) = ''ProjectRegistrationError''"
| "err_class (HarnessError c m) = ''HarnessError''"
| "err_class (UnicodeDecodeError m) = ''UnicodeDecodeError''"
| "err_class (KeyringUnavailable m) = ''KeyringUnavailable''"
| "err_class (OnlineSessionUnavailable m) = ''OnlineSessionUnavailable''"
| "err_class (OnlineSafeNotReadyError m) = ''OnlineSafeNotReadyError''"

text \<open>Sequencing of fallible computations: the first error wins, as a raised exception would.\<close>

definition rbind :: "'a result \<Rightarrow> ('a \<Rightarrow> 'b result) \<Rightarrow> 'b result" where
  "rbind r f = (case r of Inl e \<Rightarrow> Inl e | Inr x \<Rightarrow> f x)"

lemma rbind_simps [simp]:
  "rbind (Inl e) f = Inl e"
  "rbind (Inr x) f = f x"
  by (simp_all add: rbind_def)

lemma rbind_eq_Inr: "rbind r f = Inr y \<longleftrightarrow> (\<exists>x. r = Inr x \<and> f x = Inr y)"
  by (cases r) auto

fun rmap :: "('a \<Rightarrow> 'b result) \<Rightarrow> 'a list \<Rightarrow> 'b list result" where
  "rmap f [] = Inr []"
| "rmap f (x # xs) =
     (case f x of Inl e \<Rightarrow> Inl e
      | Inr y \<Rightarrow> (case rmap f xs of Inl e \<Rightarrow> Inl e | Inr ys \<Rightarrow> Inr (y # ys)))"

lemma rmap_Inr: "rmap f xs = Inr ys \<longleftrightarrow> list_all2 (\<lambda>x y. f x = Inr y) xs ys"
proof (induction xs arbitrary: ys)
  case Nil
  then show ?case by auto
next
  case (Cons x xs)
  have "rmap f (x # xs) = Inr ys \<longleftrightarrow> (\<exists>y zs. f x = Inr y \<and> rmap f xs = Inr zs \<and> ys = y # zs)"
    by (auto split: sum.splits)
  with Cons show ?case by (simp add: list_all2_Cons1) blast
qed

subsection \<open>Strings\<close>

definition is_space :: "char \<Rightarrow> bool" where
  "is_space c = (let n = (of_char c :: nat) in
     (9 \<le> n \<and> n \<le> 13) \<or> (28 \<le> n \<and> n \<le> 32) \<or> n = 133 \<or> n = 160)"

definition strip :: "string \<Rightarrow> string" where
  "strip s = rev (dropWhile is_space (rev (dropWhile is_space s)))"

definition lower_char :: "char \<Rightarrow> char" where
  "lower_char c = (let n = (of_char c :: nat) in if 65 \<le> n \<and> n \<le> 90 then char_of (n + 32) else c)"

definition lower :: "string \<Rightarrow> string" where
  "lower s = map lower_char s"

definition upper_char :: "char \<Rightarrow> char" where
  "upper_char c = (let n = (of_char c :: nat) in if 97 \<le> n \<and> n \<le> 122 then char_of (n - 32) else c)"

definition upper :: "string \<Rightarrow> string" where
  "upper s = map upper_char s"

text \<open>The substring test \<^verbatim>\<open>needle in text\<close>, and \<^verbatim>\<open>str.startswith\<close>, \<^verbatim>\<open>str.endswith\<close>.\<close>

fun py_in :: "string \<Rightarrow> string \<Rightarrow> bool" where
  "py_in needle [] = (needle = [])"
| "py_in needle (c # cs) = (prefix needle (c # cs) \<or> py_in needle cs)"

abbreviation startswith :: "string \<Rightarrow> string \<Rightarrow> bool" where
  "startswith s p \<equiv> prefix p s"

abbreviation endswith :: "string \<Rightarrow> string \<Rightarrow> bool" where
  "endswith s p \<equiv> suffix p s"

lemma py_in_iff: "py_in needle s \<longleftrightarrow> (\<exists>ps ss. s = ps @ needle @ ss)"
proof (induction s)
  case Nil
  then show ?case by auto
next
  case (Cons c cs)
  have "(\<exists>ps ss. c # cs = ps @ needle @ ss) \<longleftrightarrow>
    (\<exists>ss. c # cs = needle @ ss) \<or> (\<exists>ps ss. cs = ps @ needle @ ss)"
    by (metis append_Cons append_Nil list.exhaust list.inject)
  with Cons show ?case by (auto simp: prefix_def)
qed

lemma py_in_append: "py_in needle (ps @ needle @ ss)"
  by (auto simp: py_in_iff)

text \<open>\<^verbatim>\<open>text.replace(old, new, 1)\<close>: the leftmost occurrence.\<close>

fun replace_first :: "string \<Rightarrow> string \<Rightarrow> string \<Rightarrow> string" where
  "replace_first old new [] = (if old = [] then new else [])"
| "replace_first old new (c # cs) =
     (if prefix old (c # cs) then new @ drop (length old) (c # cs)
      else c # replace_first old new cs)"

lemma replace_first_split:
  assumes "py_in old s"
  obtains ps ss where "s = ps @ old @ ss" and "replace_first old new s = ps @ new @ ss"
proof -
  have "\<exists>ps ss. s = ps @ old @ ss \<and> replace_first old new s = ps @ new @ ss"
    using assms
  proof (induction s)
    case Nil
    then show ?case by auto
  next
    case (Cons c cs)
    show ?case
    proof (cases "prefix old (c # cs)")
      case True
      then obtain ss where "c # cs = old @ ss" by (auto simp: prefix_def)
      moreover have "replace_first old new (c # cs) = new @ drop (length old) (c # cs)"
        using True by simp
      ultimately have "c # cs = [] @ old @ ss \<and> replace_first old new (c # cs) = [] @ new @ ss"
        by (simp only: append_Nil append_eq_conv_conj) simp
      then show ?thesis by blast
    next
      case False
      with Cons obtain ps ss where "cs = ps @ old @ ss" "replace_first old new cs = ps @ new @ ss"
        by auto
      with False have "c # cs = (c # ps) @ old @ ss \<and>
        replace_first old new (c # cs) = (c # ps) @ new @ ss" by simp
      then show ?thesis by blast
    qed
  qed
  with that show thesis by blast
qed

text \<open>\<^verbatim>\<open>str.replace\<close> of one character, \<^verbatim>\<open>str.split\<close> on one character, \<^verbatim>\<open>sep.join\<close>.\<close>

definition replace_char :: "char \<Rightarrow> char \<Rightarrow> string \<Rightarrow> string" where
  "replace_char a b s = map (\<lambda>c. if c = a then b else c) s"

fun split_on :: "char \<Rightarrow> string \<Rightarrow> string list" where
  "split_on d [] = [[]]"
| "split_on d (c # cs) =
     (if c = d then [] # split_on d cs
      else (case split_on d cs of [] \<Rightarrow> [[c]] | p # ps \<Rightarrow> (c # p) # ps))"

text \<open>\<^verbatim>\<open>text.split()\<close>: the runs of characters that are not white space.\<close>

fun split_space :: "string \<Rightarrow> string list" where
  "split_space [] = [[]]"
| "split_space (c # cs) =
     (if is_space c then [] # split_space cs
      else (case split_space cs of [] \<Rightarrow> [[c]] | w # ws \<Rightarrow> (c # w) # ws))"

definition py_split :: "string \<Rightarrow> string list" where
  "py_split s = filter (\<lambda>w. w \<noteq> []) (split_space s)"

fun join :: "string \<Rightarrow> string list \<Rightarrow> string" where
  "join sep [] = []"
| "join sep [x] = x"
| "join sep (x # y # ys) = x @ sep @ join sep (y # ys)"

lemma split_on_nonempty [simp]: "split_on d s \<noteq> []"
  by (induction s) (auto split: list.splits)

lemma split_on_parts: "p \<in> set (split_on d s) \<Longrightarrow> d \<notin> set p"
proof (induction s arbitrary: p)
  case Nil
  then show ?case by simp
next
  case (Cons c cs)
  then show ?case by (auto split: list.splits if_splits)
qed

lemma split_on_no_delim: "d \<notin> set s \<Longrightarrow> split_on d s = [s]"
  by (induction s) auto

lemma split_on_append: "d \<notin> set s \<Longrightarrow> split_on d (s @ d # t) = s # split_on d t"
  by (induction s) auto

lemma split_join:
  assumes "ps \<noteq> []" and "\<forall>p \<in> set ps. d \<notin> set p"
  shows "split_on d (join [d] ps) = ps"
  using assms
proof (induction "[d]" ps rule: join.induct)
  case 1
  then show ?case by simp
next
  case (2 x)
  then show ?case by (simp add: split_on_no_delim)
next
  case (3 x y ys)
  then show ?case by (simp add: split_on_append)
qed

lemma join_Cons: "ps \<noteq> [] \<Longrightarrow> join sep (p # ps) = p @ sep @ join sep ps"
  by (cases ps) auto

lemma join_first: "join sep ((c # p) # ps) = c # join sep (p # ps)"
  by (cases ps) auto

lemma join_split [simp]: "join [d] (split_on d s) = s"
proof (induction s)
  case Nil
  then show ?case by simp
next
  case (Cons c cs)
  then show ?case
    by (cases "split_on d cs") (auto simp: join_Cons join_first)
qed

lemma split_on_subset: "p \<in> set (split_on d s) \<Longrightarrow> set p \<subseteq> set s"
proof (induction s arbitrary: p)
  case Nil
  then show ?case by simp
next
  case (Cons c cs)
  then show ?case by (cases "split_on d cs") (fastforce split: if_splits)+
qed

lemma join_eq_Nil: "join sep ps = [] \<Longrightarrow> sep \<noteq> [] \<Longrightarrow> ps = [] \<or> ps = [[]]"
  by (induction sep ps rule: join.induct) auto

lemma set_join: "set (join sep ps) \<subseteq> set sep \<union> \<Union> (set ` set ps)"
  by (induction sep ps rule: join.induct) auto

lemma strip_idem_if:
  assumes "\<not> is_space (hd s)" and "\<not> is_space (last s)"
  shows "strip s = s"
proof -
  from assms(1) have "dropWhile is_space s = s" by (simp add: dropWhile_eq_self_iff)
  moreover from assms(2) have "dropWhile is_space (rev s) = rev s"
    by (simp add: dropWhile_eq_self_iff hd_rev)
  ultimately show ?thesis by (simp add: strip_def)
qed

text \<open>\<^verbatim>\<open>str.splitlines\<close>: a carriage return and the line feed after it are one boundary, and text that ends
  with a boundary has no empty last line.\<close>

definition is_line_break :: "char \<Rightarrow> bool" where
  "is_line_break c = (let n = (of_char c :: nat) in (10 \<le> n \<and> n \<le> 13) \<or> (28 \<le> n \<and> n \<le> 30) \<or> n = 133)"

fun lines_from :: "string \<Rightarrow> string \<Rightarrow> string list" where
  "lines_from cur [] = (if cur = [] then [] else [rev cur])"
| "lines_from cur [c] = (if is_line_break c then [rev cur] else [rev (c # cur)])"
| "lines_from cur (c # d # cs) =
     (if c = CHR 0x0D \<and> d = CHR 0x0A then rev cur # lines_from [] cs
      else if is_line_break c then rev cur # lines_from [] (d # cs)
      else lines_from (c # cur) (d # cs))"

definition splitlines :: "string \<Rightarrow> string list" where
  "splitlines s = lines_from [] s"

lemma lines_from_sublist: "l \<in> set (lines_from cur s) \<Longrightarrow> sublist l (rev cur @ s)"
proof (induction cur s rule: lines_from.induct)
  case (1 cur)
  then show ?case by (simp split: if_splits)
next
  case (2 cur c)
  then show ?case by (auto split: if_splits)
next
  case (3 cur c d cs)
  have "suffix (d # cs) (rev cur @ c # d # cs)" "suffix cs (rev cur @ c # d # cs)"
    by (auto simp: suffix_def)
  then have tails: "sublist l (rev cur @ c # d # cs)" if "sublist l (d # cs) \<or> sublist l cs"
    using that sublist_order.order.trans suffix_imp_sublist by blast
  have heads: "sublist (rev cur) (rev cur @ c # d # cs)" by (simp add: prefix_imp_sublist)
  from 3 tails heads show ?case by (auto split: if_splits)
qed

lemma splitlines_sublist: "l \<in> set (splitlines s) \<Longrightarrow> sublist l s"
  using lines_from_sublist [of l "[]" s] by (simp add: splitlines_def)

lemma strip_sublist: "sublist (strip s) s"
proof -
  let ?d = "dropWhile is_space s"
  have "suffix (dropWhile is_space (rev ?d)) (rev ?d)" by (rule suffix_dropWhile)
  then have "prefix (strip s) ?d" by (simp add: strip_def suffix_to_prefix)
  then show ?thesis
    by (meson prefix_imp_sublist sublist_order.order.trans suffix_dropWhile suffix_imp_sublist)
qed

text \<open>Decimal text of a natural number, and the reading of it by \<^verbatim>\<open>int(...)\<close>.\<close>

definition digit_char :: "nat \<Rightarrow> char" where
  "digit_char n = char_of (48 + n)"

definition digit_value :: "char \<Rightarrow> nat option" where
  "digit_value c = (let n = (of_char c :: nat) in if 48 \<le> n \<and> n \<le> 57 then Some (n - 48) else None)"

fun show_nat :: "nat \<Rightarrow> string" where
  "show_nat n = (if n < 10 then [digit_char n] else show_nat (n div 10) @ [digit_char (n mod 10)])"

declare show_nat.simps [simp del]

fun read_digits :: "nat \<Rightarrow> string \<Rightarrow> nat option" where
  "read_digits acc [] = Some acc"
| "read_digits acc (c # cs) =
     (case digit_value c of None \<Rightarrow> None | Some d \<Rightarrow> read_digits (10 * acc + d) cs)"

definition read_nat :: "string \<Rightarrow> nat option" where
  "read_nat s = (if s = [] then None else read_digits 0 s)"

definition show_int :: "int \<Rightarrow> string" where
  "show_int i = (if i < 0 then CHR ''-'' # show_nat (nat (- i)) else show_nat (nat i))"

lemma digit_value_char [simp]: "n < 10 \<Longrightarrow> digit_value (digit_char n) = Some n"
  by (simp add: digit_value_def digit_char_def)

lemma read_digits_append:
  "read_digits acc (s @ t) = (case read_digits acc s of None \<Rightarrow> None | Some v \<Rightarrow> read_digits v t)"
  by (induction s arbitrary: acc) (auto split: option.splits)

lemma show_nat_nonempty [simp]: "show_nat n \<noteq> []"
  by (subst show_nat.simps) simp

lemma read_digits_show_nat: "read_digits 0 (show_nat n) = Some n"
proof (induction n rule: show_nat.induct)
  case (1 n)
  show ?case
  proof (cases "n < 10")
    case True
    then show ?thesis by (subst show_nat.simps) simp
  next
    case False
    with "1" have IH: "read_digits 0 (show_nat (n div 10)) = Some (n div 10)" by simp
    from False have "show_nat n = show_nat (n div 10) @ [digit_char (n mod 10)]"
      by (subst show_nat.simps) simp
    with IH show ?thesis by (simp add: read_digits_append)
  qed
qed

lemma read_show_nat [simp]: "read_nat (show_nat n) = Some n"
  by (simp add: read_nat_def read_digits_show_nat)

lemma digits_show_nat: "c \<in> set (show_nat n) \<Longrightarrow> digit_value c \<noteq> None"
proof (induction n rule: show_nat.induct)
  case (1 n)
  then show ?case
    by (cases "n < 10") (auto simp: show_nat.simps [of n])
qed

text \<open>Order-preserving removal of duplicates, \<^verbatim>\<open>list(dict.fromkeys(xs))\<close>.\<close>

fun dedupe :: "'a list \<Rightarrow> 'a list" where
  "dedupe [] = []"
| "dedupe (x # xs) = x # removeAll x (dedupe xs)"

lemma set_dedupe [simp]: "set (dedupe xs) = set xs"
  by (induction xs) auto

lemma distinct_dedupe [simp]: "distinct (dedupe xs)"
  by (induction xs) (auto simp: distinct_removeAll)

lemma dedupe_id: "distinct xs \<Longrightarrow> dedupe xs = xs"
  by (induction xs) auto

text \<open>\<^verbatim>\<open>sorted(set(xs))\<close>.\<close>

definition sorted_set :: "'a::linorder list \<Rightarrow> 'a list" where
  "sorted_set xs = sort (remdups xs)"

lemma sorted_set_props [simp]:
  "set (sorted_set xs) = set xs" "sorted (sorted_set xs)" "distinct (sorted_set xs)"
  by (simp_all add: sorted_set_def)

subsection \<open>Decoded JSON\<close>

text \<open>
  A JSON value. A text column that holds JSON is \<open>JText v\<close> where \<open>json.loads\<close> decodes it to \<open>v\<close>,
  \<open>JGarbage\<close> where decoding raises \<^verbatim>\<open>JSONDecodeError\<close>, and \<open>JBlank\<close> where the text is empty or
  white space (which does not decode either); \<open>json.dumps\<close> makes \<open>JText\<close>. Numbers with a fraction
  are not among the values; no component computes with one.
\<close>

datatype json = JNull | JBool bool | JInt int | JStr string | JList "json list"
  | JObj "(string \<times> json) list"

datatype json_text = JText json | JGarbage | JBlank

definition json_dumps_strings :: "string list \<Rightarrow> json_text" where
  "json_dumps_strings xs = JText (JList (map JStr xs))"

fun json_loads :: "json_text \<Rightarrow> json option" where
  "json_loads (JText v) = Some v"
| "json_loads JGarbage = None"
| "json_loads JBlank = None"

text \<open>
  \<^verbatim>\<open>repr\<close> of text: single quotes unless the text has one and no double quote; backslashes, the
  quote and the characters that are not printable are escaped.
\<close>

definition hex_digit :: "nat \<Rightarrow> char" where
  "hex_digit n = (if n < 10 then char_of (48 + n) else char_of (87 + n))"

definition repr_char :: "char \<Rightarrow> char \<Rightarrow> string" where
  "repr_char q c =
     (let n = (of_char c :: nat)
      in if c = q \<or> n = 92 then [CHR 0x5C, c]
         else if n = 10 then CHR 0x5C # ''n''
         else if n = 13 then CHR 0x5C # ''r''
         else if n = 9 then CHR 0x5C # ''t''
         else if n < 32 \<or> (127 \<le> n \<and> n \<le> 160) \<or> n = 173
              then CHR 0x5C # ''x'' @ [hex_digit (n div 16), hex_digit (n mod 16)]
         else [c])"

definition py_repr :: "string \<Rightarrow> string" where
  "py_repr s =
     (let q = (if CHR 0x27 \<in> set s \<and> CHR 0x22 \<notin> set s then CHR 0x22 else CHR 0x27)
      in [q] @ concat (map (repr_char q) s) @ [q])"

text \<open>\<^verbatim>\<open>str(item)\<close> on a decoded value: a string is itself; other values print as Python does.\<close>

fun json_repr :: "json \<Rightarrow> string" where
  "json_repr (JStr s) = py_repr s"
| "json_repr JNull = ''None''"
| "json_repr (JBool True) = ''True''"
| "json_repr (JBool False) = ''False''"
| "json_repr (JInt i) = show_int i"
| "json_repr (JList xs) = ''['' @ join '', '' (map json_repr xs) @ '']''"
| "json_repr (JObj kvs) =
     ''{'' @ join '', '' (map (\<lambda>kv. py_repr (fst kv) @ '': '' @ json_repr (snd kv)) kvs) @ ''}''"

fun json_str :: "json \<Rightarrow> string" where
  "json_str (JStr s) = s"
| "json_str v = json_repr v"

lemma map_json_str_JStr [simp]: "map json_str (map JStr xs) = xs"
  by (induction xs) auto

subsection \<open>The text of a JSON value\<close>

definition escape_char :: "char \<Rightarrow> string" where
  "escape_char c =
     (let n = (of_char c :: nat)
      in if n = 34 then [CHR 0x5C, c] else if n = 92 then [CHR 0x5C, c]
         else if n = 10 then CHR 0x5C # ''n'' else if n = 13 then CHR 0x5C # ''r'' else if n = 9 then CHR 0x5C # ''t''
         else if n = 8 then CHR 0x5C # ''b'' else if n = 12 then CHR 0x5C # ''f''
         else if n < 32 then CHR 0x5C # ''u00'' @ [hex_digit (n div 16), hex_digit (n mod 16)]
         else [c])"

text \<open>\<^verbatim>\<open>ensure_ascii=True\<close>, the default: everything outside the printable ASCII characters is escaped.\<close>

definition escape_ascii :: "char \<Rightarrow> string" where
  "escape_ascii c =
     (let n = (of_char c :: nat)
      in if n < 127 then escape_char c else CHR 0x5C # ''u00'' @ [hex_digit (n div 16), hex_digit (n mod 16)])"

definition quote_with :: "(char \<Rightarrow> string) \<Rightarrow> string \<Rightarrow> string" where
  "quote_with escape s = CHR 0x22 # concat (map escape s) @ [CHR 0x22]"

text \<open>\<^verbatim>\<open>json.dumps(value, sort_keys=True)\<close>, over the escaping of a character.\<close>

fun json_dumps_with :: "(char \<Rightarrow> string) \<Rightarrow> json \<Rightarrow> string" where
  "json_dumps_with e JNull = ''null''"
| "json_dumps_with e (JBool b) = (if b then ''true'' else ''false'')"
| "json_dumps_with e (JInt i) = show_int i"
| "json_dumps_with e (JStr s) = quote_with e s"
| "json_dumps_with e (JList xs) = ''['' @ join '', '' (map (json_dumps_with e) xs) @ '']''"
| "json_dumps_with e (JObj kvs) =
     ''{'' @ join '', '' (map snd (sort_key fst
       (map (\<lambda>kv. (fst kv, quote_with e (fst kv) @ '': '' @ json_dumps_with e (snd kv))) kvs))) @ ''}''"

abbreviation json_dumps :: "json \<Rightarrow> string" where
  "json_dumps \<equiv> json_dumps_with escape_char"

abbreviation json_dumps_ascii :: "json \<Rightarrow> string" where
  "json_dumps_ascii \<equiv> json_dumps_with escape_ascii"

text \<open>
  The texts that iterating over a decoded value gives, with \<^verbatim>\<open>str\<close> of each: the items of a list, the keys of a
  dictionary, the characters of a string.
\<close>

fun json_iter :: "json \<Rightarrow> string list result" where
  "json_iter (JList xs) = Inr (map json_str xs)"
| "json_iter (JObj kvs) = Inr (map fst kvs)"
| "json_iter (JStr s) = Inr (map (\<lambda>c. [c]) s)"
| "json_iter v = Inl (TypeError ''object is not iterable'')"

subsection \<open>Tables\<close>

text \<open>
  A table is the list of its rows in insertion order. \<open>get_row\<close> is \<^verbatim>\<open>session.get(Model, id)\<close>, a
  query is a \<open>filter\<close> and \<^verbatim>\<open>session.scalar(select(...))\<close> is \<open>find\<close>; assigning attributes of the
  selected rows is \<open>set_where\<close>; \<^verbatim>\<open>session.add\<close> appends.
\<close>

definition get_row :: "('r \<Rightarrow> string) \<Rightarrow> string \<Rightarrow> 'r list \<Rightarrow> 'r option" where
  "get_row key i rows = find (\<lambda>r. key r = i) rows"

definition set_where :: "('r \<Rightarrow> bool) \<Rightarrow> ('r \<Rightarrow> 'r) \<Rightarrow> 'r list \<Rightarrow> 'r list" where
  "set_where P f rows = map (\<lambda>r. if P r then f r else r) rows"

definition set_row :: "('r \<Rightarrow> string) \<Rightarrow> string \<Rightarrow> ('r \<Rightarrow> 'r) \<Rightarrow> 'r list \<Rightarrow> 'r list" where
  "set_row key i f rows = set_where (\<lambda>r. key r = i) f rows"

definition keys_distinct :: "('r \<Rightarrow> string) \<Rightarrow> 'r list \<Rightarrow> bool" where
  "keys_distinct key rows = distinct (map key rows)"

lemma get_row_Some [dest]: "get_row key i rows = Some r \<Longrightarrow> r \<in> set rows \<and> key r = i"
  by (auto simp: get_row_def find_Some_iff)

lemma get_row_Some_iff:
  "keys_distinct key rows \<Longrightarrow> get_row key i rows = Some r \<longleftrightarrow> r \<in> set rows \<and> key r = i"
proof (induction rows)
  case Nil
  then show ?case by (simp add: get_row_def)
next
  case (Cons x xs)
  then show ?case by (auto simp: get_row_def keys_distinct_def)
qed

lemma get_row_None_iff: "get_row key i rows = None \<longleftrightarrow> (\<forall>r \<in> set rows. key r \<noteq> i)"
  by (auto simp: get_row_def find_None_iff)

lemma set_set_where: "set (set_where P f rows) = {if P r then f r else r | r. r \<in> set rows}"
  by (auto simp: set_where_def)

lemma in_set_where_iff [table_simps]:
  "x \<in> set (set_where P f rows) \<longleftrightarrow> (\<exists>r \<in> set rows. x = (if P r then f r else r))"
  by (auto simp: set_where_def)

lemma filter_set_where_none:
  "(\<And>r. P r \<Longrightarrow> \<not> Q (f r)) \<Longrightarrow> (\<And>r. Q r \<Longrightarrow> P r) \<Longrightarrow> filter Q (set_where P f rows) = []"
  by (induction rows) (auto simp: set_where_def)

lemma get_row_set_row [table_simps]:
  "(\<And>r. key (f r) = key r) \<Longrightarrow>
   get_row key i (set_row key j f rows) =
     (if i = j then map_option f (get_row key i rows) else get_row key i rows)"
  by (induction rows) (auto simp: get_row_def set_row_def set_where_def)

lemma get_row_set_where [table_simps]:
  "(\<And>r. key (f r) = key r) \<Longrightarrow>
   get_row key i (set_where P f rows) =
     map_option (\<lambda>r. if P r then f r else r) (get_row key i rows)"
  by (induction rows) (auto simp: get_row_def set_where_def)

lemma get_row_append [table_simps]:
  "get_row key i (rows @ [r]) =
     (case get_row key i rows of Some x \<Rightarrow> Some x | None \<Rightarrow> if key r = i then Some r else None)"
  by (induction rows) (auto simp: get_row_def)

lemma keys_distinct_set_where [simp]:
  "(\<And>r. key (f r) = key r) \<Longrightarrow> keys_distinct key (set_where P f rows) = keys_distinct key rows"
  by (simp add: keys_distinct_def set_where_def comp_def if_distrib cong: if_cong)

lemma keys_distinct_set_row [simp]:
  "(\<And>r. key (f r) = key r) \<Longrightarrow> keys_distinct key (set_row key i f rows) = keys_distinct key rows"
  by (simp add: set_row_def)

lemma keys_distinct_append [simp]:
  "keys_distinct key (rows @ [r]) \<longleftrightarrow> keys_distinct key rows \<and> get_row key (key r) rows = None"
  by (auto simp: keys_distinct_def get_row_None_iff image_iff)

lemma length_set_where [simp]: "length (set_where P f rows) = length rows"
  by (simp add: set_where_def)

lemma set_where_False [simp]: "(\<And>r. r \<in> set rows \<Longrightarrow> \<not> P r) \<Longrightarrow> set_where P f rows = rows"
  by (induction rows) (auto simp: set_where_def)

lemma ball_set_whereI:
  "\<forall>r \<in> set rows. P r \<Longrightarrow> (\<And>r. P r \<Longrightarrow> Q r \<Longrightarrow> P (f r)) \<Longrightarrow> \<forall>r \<in> set (set_where Q f rows). P r"
  by (auto simp: set_where_def)

lemma ball_set_where_all:
  "(\<And>r. P r \<Longrightarrow> Q (f r)) \<Longrightarrow> (\<And>r. \<not> P r \<Longrightarrow> Q r) \<Longrightarrow> \<forall>r \<in> set (set_where P f rows). Q r"
  by (auto simp: set_where_def)

lemma ball_set_rowI:
  "\<forall>r \<in> set rows. P r \<Longrightarrow> (\<And>r. P r \<Longrightarrow> key r = i \<Longrightarrow> P (f r)) \<Longrightarrow> \<forall>r \<in> set (set_row key i f rows). P r"
  unfolding set_row_def by (rule ball_set_whereI)

text \<open>\<^verbatim>\<open>select(func.max(col)).where(...)\<close> with \<^verbatim>\<open>or 0\<close> for the empty selection.\<close>

definition max_or_0 :: "int list \<Rightarrow> int" where
  "max_or_0 xs = (if xs = [] then 0 else Max (set xs))"

lemma max_or_0_ge: "x \<in> set xs \<Longrightarrow> x \<le> max_or_0 xs"
  by (auto simp: max_or_0_def)

subsection \<open>Invariants of services\<close>

text \<open>
  The contract of a service whose operations keep an invariant of its state: a client that issues
  any sequence of operations stays inside the invariant.
\<close>

locale service_machine =
  fixes exec :: "'op \<Rightarrow> 's \<Rightarrow> 's"
    and inv :: "'s \<Rightarrow> bool"
  assumes exec_inv: "inv s \<Longrightarrow> inv (exec oper s)"
begin

lemma run_inv: "inv s \<Longrightarrow> inv (fold exec opers s)"
  by (induction opers arbitrary: s) (auto intro: exec_inv)

lemma run_prefix_inv:
  assumes "inv s" and "prefix done opers"
  shows "inv (fold exec done s)"
  using assms by (auto intro: run_inv)

end

text \<open>A service whose operations also leave a measured set of facts growing (an append-only log).\<close>

locale append_only_machine =
  fixes exec :: "'op \<Rightarrow> 's \<Rightarrow> 's"
    and log :: "'s \<Rightarrow> 'e list"
  assumes exec_log: "prefix (log s) (log (exec oper s))"
begin

lemma run_log: "prefix (log s) (log (fold exec opers s))"
  by (induction opers arbitrary: s) (auto intro: prefix_order.trans exec_log)

end

end
