(* ===== verification/Tables.thy ===== *)
theory Tables
  imports Prelude
begin

section \<open>Tables: the enumerations and rows of \<^verbatim>\<open>models/\<close>\<close>

text \<open>
  The database schema. Every \<^verbatim>\<open>StrEnum\<close> is a datatype with the source's members, written
  \<open>TaskStatus.BLOCKED\<close> as in the code; every mapped class is a record whose fields carry a short
  prefix of the table (\<open>tk_\<close> for \<^verbatim>\<open>ChangeTask\<close>, \<open>wl_\<close> for \<^verbatim>\<open>WorkspaceLock\<close>, ...). A nullable
  column is an \<open>option\<close>, a column of JSON text is a \<open>json_text\<close>. The membership checks of a column
  hold by its type; the other \<^verbatim>\<open>CheckConstraint\<close>s are the \<open>*_checks\<close> predicates. The audit
  timestamps \<^verbatim>\<open>created_at\<close> and \<^verbatim>\<open>updated_at\<close> are fields only where a query orders by them.
  \<open>db\<close> is the database as one session sees it: every change is visible to the next query, as the
  services flush before they query.
\<close>

subsection \<open>Enumerations\<close>

datatype TaskStatus = CREATED | WAITING_FOR_LOCK | INITIALIZING | CONTEXT_BUILDING | DECIDING
  | NEEDS_INFORMATION | PROPOSAL_REVIEW | GOVERNING | APPROVAL_REQUIRED | ACTION_PENDING
  | EXECUTING | VALIDATING | REPAIRING | STAGNATION_WARNING | PAUSED | KNOWLEDGE_UPDATING
  | ROLLING_BACK | COMPLETED | FAILED | BLOCKED | CANCELLED

datatype ProposalCompleteness = COMPLETE | PARTIALLY_COMPLETE | INCOMPLETE | CONFLICTING

datatype ProposalStatus = DRAFT | CONFIRMED | REJECTED | SUPERSEDED

datatype ProposalCreatedByType = LLM | USER | SYSTEM

datatype TaskIterationPhase = ANALYZE | EXECUTE | REPAIR

datatype TaskIterationResult = PROGRESS | NO_PROGRESS | ERROR

datatype LLMCallStatus = SUCCESS | TIMEOUT | ERROR | INVALID_OUTPUT

datatype ParseStatus = VALID | INVALID

datatype RiskLevel = LOW | MEDIUM | HIGH | CRITICAL

datatype AgentActionStatus = PARSED | GOVERNING | WAITING_APPROVAL | APPROVED | REJECTED | BLOCKED
  | EXECUTING | SUCCEEDED | FAILED | CANCELLED

datatype ImpactReportStatus = CURRENT | STALE | SUPERSEDED

datatype GovernanceVerdict = ALLOW | WARN | BLOCK

datatype GovernanceDecisionStatus = ACTIVE | EXPIRED | SUPERSEDED

datatype GovernanceRuleScope = SYSTEM | PROJECT | TASK

datatype GovernanceRuleEffect = DENY_HARD | REQUIRE_APPROVAL | ALLOW

datatype ApprovalRequestStatus = PENDING | APPROVED | REJECTED | EXPIRED | SUPERSEDED

datatype ApprovalDecisionOutcome = APPROVED | REJECTED | REVOKED

datatype ExecutionPolicyStatus = ACTIVE | EXPIRED | SUPERSEDED | REVOKED

datatype WorkspaceLockMode = READ | WRITE

datatype WorkspaceLockStatus = ACTIVE | RELEASED | EXPIRED

datatype TransactionState = PREPARED | APPLYING | COMMITTED | ROLLED_BACK | CONFLICT

datatype ToolExecutionStatus = RUNNING | SUCCEEDED | FAILED | BLOCKED | CANCELLED

datatype FileChangeType = CREATE | MODIFY | DELETE

datatype ValidationPlanStatus = ACTIVE | SUPERSEDED | EXPIRED

datatype ValidationType = TEST | LINT | TYPE_CHECK | MIGRATION | MANUAL

datatype ValidationRunStatus = PASSED | FAILED | ERROR | SKIPPED | INCONCLUSIVE

datatype AuditActorType = SYSTEM | USER | AGENT | TOOL

datatype AlertSeverity = INFO | WARNING | HIGH | CRITICAL

datatype AlertStatus = OPEN | ACKNOWLEDGED | RESOLVED | DISMISSED

datatype ActionType = READ_FILE | SEARCH_CODE | APPLY_PATCH | CREATE_FILE | DELETE_FILE
  | RUN_COMMAND

datatype ToolStatus = OK | WARN | ERROR | BLOCKED

datatype FeedbackKind = VALIDATION | GOVERNANCE | TOOL | PROGRESS

datatype FeedbackSeverity = INFO | WARNING | ERROR

datatype EventType = TASK_CREATED | ACTION_PARSED | GOVERNANCE_DECIDED | TOOL_EXECUTED
  | VALIDATION_RECORDED

datatype KnowledgeStatus = CANDIDATE | VERIFIED | REVIEWED | FAILED_EXPERIENCE | CONFLICTING
  | DEPRECATED | STALE

datatype KnowledgeType = PATTERN | DECISION | CONSTRAINT | FAILURE

datatype KnowledgeSourceType = LLM_SUMMARY | TEST | USER_REVIEW | COMMITTED_DIFF
  | GOVERNANCE_AUDIT

datatype KnowledgeRelationType = SUPERSEDES | CONFLICTS_WITH | SUPPORTS

text \<open>The text of a task status, as it appears in summaries and keys.\<close>

fun task_status_str :: "TaskStatus \<Rightarrow> string" where
  "task_status_str TaskStatus.CREATED = ''CREATED''"
| "task_status_str TaskStatus.WAITING_FOR_LOCK = ''WAITING_FOR_LOCK''"
| "task_status_str TaskStatus.INITIALIZING = ''INITIALIZING''"
| "task_status_str TaskStatus.CONTEXT_BUILDING = ''CONTEXT_BUILDING''"
| "task_status_str TaskStatus.DECIDING = ''DECIDING''"
| "task_status_str TaskStatus.NEEDS_INFORMATION = ''NEEDS_INFORMATION''"
| "task_status_str TaskStatus.PROPOSAL_REVIEW = ''PROPOSAL_REVIEW''"
| "task_status_str TaskStatus.GOVERNING = ''GOVERNING''"
| "task_status_str TaskStatus.APPROVAL_REQUIRED = ''APPROVAL_REQUIRED''"
| "task_status_str TaskStatus.ACTION_PENDING = ''ACTION_PENDING''"
| "task_status_str TaskStatus.EXECUTING = ''EXECUTING''"
| "task_status_str TaskStatus.VALIDATING = ''VALIDATING''"
| "task_status_str TaskStatus.REPAIRING = ''REPAIRING''"
| "task_status_str TaskStatus.STAGNATION_WARNING = ''STAGNATION_WARNING''"
| "task_status_str TaskStatus.PAUSED = ''PAUSED''"
| "task_status_str TaskStatus.KNOWLEDGE_UPDATING = ''KNOWLEDGE_UPDATING''"
| "task_status_str TaskStatus.ROLLING_BACK = ''ROLLING_BACK''"
| "task_status_str TaskStatus.COMPLETED = ''COMPLETED''"
| "task_status_str TaskStatus.FAILED = ''FAILED''"
| "task_status_str TaskStatus.BLOCKED = ''BLOCKED''"
| "task_status_str TaskStatus.CANCELLED = ''CANCELLED''"

fun action_type_str :: "ActionType \<Rightarrow> string" where
  "action_type_str ActionType.READ_FILE = ''READ_FILE''"
| "action_type_str ActionType.SEARCH_CODE = ''SEARCH_CODE''"
| "action_type_str ActionType.APPLY_PATCH = ''APPLY_PATCH''"
| "action_type_str ActionType.CREATE_FILE = ''CREATE_FILE''"
| "action_type_str ActionType.DELETE_FILE = ''DELETE_FILE''"
| "action_type_str ActionType.RUN_COMMAND = ''RUN_COMMAND''"

subsection \<open>Rows of the task domain\<close>

record ChangeTask =
  tk_id :: string
  tk_project_id :: string
  tk_requester_id :: "string option"
  tk_original_request :: string
  tk_base_revision :: "string option"
  tk_base_workspace_hash :: "string option"
  tk_status :: TaskStatus
  tk_active_proposal_id :: "string option"
  tk_active_policy_id :: "string option"
  tk_workspace_lock_id :: "string option"
  tk_transaction_id :: "string option"
  tk_iteration_count :: int
  tk_repair_count :: int
  tk_stagnation_count :: int
  tk_finished_at :: "int option"
  tk_failure_code :: "string option"
  tk_failure_message :: "string option"
  tk_version :: int

definition task_checks :: "ChangeTask \<Rightarrow> bool" where
  "task_checks t \<longleftrightarrow> 0 \<le> tk_iteration_count t \<and> 0 \<le> tk_repair_count t \<and>
     0 \<le> tk_stagnation_count t \<and> 1 \<le> tk_version t"

record ChangeProposal =
  pr_id :: string
  pr_task_id :: string
  pr_version :: int
  pr_goal :: string
  pr_current_problem :: "json_text option"
  pr_expected_behavior :: string
  pr_initial_scope_json :: json_text
  pr_excluded_scope_json :: "json_text option"
  pr_constraints_json :: "json_text option"
  pr_assumptions_json :: "json_text option"
  pr_risks_json :: "json_text option"
  pr_acceptance_criteria_json :: json_text
  pr_validation_plan_json :: "json_text option"
  pr_completeness :: ProposalCompleteness
  pr_status :: ProposalStatus
  pr_created_by_type :: ProposalCreatedByType
  pr_supersedes_id :: "string option"

record TaskIteration =
  it_id :: string
  it_task_id :: string
  it_iteration_number :: int
  it_phase :: TaskIterationPhase
  it_context_token_count :: "int option"
  it_result :: "TaskIterationResult option"

record LLMCall =
  lc_id :: string
  lc_iteration_id :: string
  lc_provider_name :: string
  lc_model_name :: string
  lc_request_summary :: "string option"
  lc_response_summary :: "string option"
  lc_input_tokens :: int
  lc_output_tokens :: int
  lc_compression_count :: int
  lc_status :: LLMCallStatus
  lc_retry_count :: int
  lc_latency_ms :: "int option"
  lc_error_code :: "string option"
  lc_parse_status :: ParseStatus

record AgentActionRow =
  ac_id :: string
  ac_task_id :: string
  ac_iteration_id :: string
  ac_llm_call_id :: "string option"
  ac_action_sequence :: int
  ac_action_type :: ActionType
  ac_parameters_summary :: json_text
  ac_parameters_artifact_ref :: "string option"
  ac_schema_version :: string
  ac_parse_status :: ParseStatus
  ac_risk_level :: "RiskLevel option"
  ac_status :: AgentActionStatus
  ac_idempotency_key :: string
  ac_created_at :: int

subsection \<open>Rows of governance, approval and policy\<close>

record ImpactReport =
  ir_id :: string
  ir_task_id :: string
  ir_proposal_id :: string
  ir_base_revision :: "string option"
  ir_direct_impacts_json :: json_text
  ir_indirect_impacts_json :: "json_text option"
  ir_uncertainties_json :: "json_text option"
  ir_evidence_json :: json_text
  ir_status :: ImpactReportStatus

record GovernanceDecision =
  gd_id :: string
  gd_task_id :: string
  gd_action_id :: "string option"
  gd_impact_report_id :: "string option"
  gd_proposal_hash :: string
  gd_revision :: string
  gd_decision :: GovernanceVerdict
  gd_risk_level :: RiskLevel
  gd_reason_summary :: string
  gd_allowed_scope_json :: "json_text option"
  gd_denied_scope_json :: "json_text option"
  gd_approval_required :: bool
  gd_status :: GovernanceDecisionStatus
  gd_rule_set_version :: string
  gd_evidence_json :: json_text
  gd_expires_at :: "int option"

record GovernanceRule =
  gr_id :: string
  gr_project_id :: "string option"
  gr_rule_key :: string
  gr_rule_name :: string
  gr_scope_type :: GovernanceRuleScope
  gr_effect :: GovernanceRuleEffect
  gr_priority :: int
  gr_patterns_json :: json_text
  gr_conditions_json :: json_text
  gr_reason :: string
  gr_overridable :: bool
  gr_enabled :: bool
  gr_rule_version :: int

definition rule_checks :: "GovernanceRule \<Rightarrow> bool" where
  "rule_checks r \<longleftrightarrow> 0 \<le> gr_priority r \<and> 1 \<le> gr_rule_version r \<and>
     strip (gr_rule_key r) \<noteq> [] \<and>
     gr_patterns_json r \<noteq> JBlank \<and> gr_conditions_json r \<noteq> JBlank \<and>
     (gr_effect r \<noteq> GovernanceRuleEffect.DENY_HARD \<or> \<not> gr_overridable r)"

record ApprovalRequest =
  ar_id :: string
  ar_task_id :: string
  ar_action_id :: string
  ar_governance_decision_id :: string
  ar_decision_revision :: string
  ar_proposal_hash :: string
  ar_requested_scope_json :: json_text
  ar_status :: ApprovalRequestStatus
  ar_evidence_json :: json_text
  ar_expires_at :: "int option"

record ApprovalDecision =
  ad_id :: string
  ad_approval_request_id :: string
  ad_decision_sequence :: int
  ad_outcome :: ApprovalDecisionOutcome
  ad_approver_id :: string
  ad_approved_scope_json :: json_text
  ad_evidence_json :: json_text

record ExecutionPolicy =
  ep_id :: string
  ep_task_id :: string
  ep_action_id :: string
  ep_governance_decision_id :: string
  ep_approval_request_id :: "string option"
  ep_proposal_hash :: string
  ep_revision :: string
  ep_status :: ExecutionPolicyStatus
  ep_executable :: bool
  ep_read_paths_json :: json_text
  ep_write_paths_json :: json_text
  ep_protected_paths_json :: json_text
  ep_commands_json :: json_text
  ep_network_json :: json_text
  ep_resource_limits_json :: json_text
  ep_invalidation_json :: json_text
  ep_evidence_json :: json_text

subsection \<open>Rows of the execution domain\<close>

record WorkspaceLock =
  wl_id :: string
  wl_project_id :: string
  wl_task_id :: string
  wl_lock_mode :: WorkspaceLockMode
  wl_status :: WorkspaceLockStatus
  wl_owner :: string
  wl_reason :: string
  wl_expires_at :: "int option"
  wl_released_at :: "int option"

record TaskTransaction =
  tx_id :: string
  tx_task_id :: string
  tx_project_id :: string
  tx_workspace_lock_id :: "string option"
  tx_state :: TransactionState
  tx_manifest_artifact_ref :: "string option"

record ToolExecution =
  te_id :: string
  te_task_id :: string
  te_action_id :: string
  te_transaction_id :: "string option"
  te_tool_name :: string
  te_command_summary :: string
  te_status :: ToolExecutionStatus
  te_exit_code :: "int option"
  te_evidence_json :: json_text
  te_created_at :: int

record BackupEntry =
  be_id :: string
  be_task_id :: string
  be_project_id :: string
  be_original_hash :: string
  be_backup_artifact_ref :: string
  be_file_type :: string
  be_relative_path :: string

record FileChange =
  fc_id :: string
  fc_task_id :: string
  fc_tool_execution_id :: string
  fc_action_id :: string
  fc_backup_entry_id :: "string option"
  fc_change_type :: FileChangeType
  fc_relative_path :: string
  fc_before_hash :: "string option"
  fc_after_hash :: "string option"
  fc_created_at :: int

subsection \<open>Rows of validation, audit and knowledge\<close>

record ValidationPlan =
  vp_id :: string
  vp_task_id :: string
  vp_proposal_id :: string
  vp_execution_policy_id :: string
  vp_version :: int
  vp_status :: ValidationPlanStatus
  vp_required_checks_json :: json_text
  vp_evidence_json :: json_text

record ValidationRun =
  vr_validation_plan_id :: string
  vr_run_order :: int
  vr_validation_type :: ValidationType
  vr_command_summary :: string
  vr_exit_code :: "int option"
  vr_status :: ValidationRunStatus
  vr_required :: bool
  vr_required_failure :: bool
  vr_failure_category :: "string option"
  vr_log_artifact_ref :: string

definition run_checks :: "ValidationRun \<Rightarrow> bool" where
  "run_checks r \<longleftrightarrow> 1 \<le> vr_run_order r \<and>
     (case vr_exit_code r of None \<Rightarrow> True | Some c \<Rightarrow> 0 \<le> c) \<and>
     strip (vr_command_summary r) \<noteq> [] \<and> strip (vr_log_artifact_ref r) \<noteq> [] \<and>
     (vr_status r \<noteq> ValidationRunStatus.PASSED \<or>
      (vr_exit_code r = Some 0 \<and> \<not> vr_required_failure r))"

record FeedbackSignalRow =
  fs_task_id :: string
  fs_kind :: FeedbackKind
  fs_severity :: FeedbackSeverity
  fs_summary :: string
  fs_evidence_json :: json_text

record ProgressEvent =
  pe_task_id :: string
  pe_event_type :: EventType
  pe_summary :: string
  pe_evidence_json :: json_text

record AuditEvent =
  ae_task_id :: "string option"
  ae_correlation_id :: string
  ae_actor_type :: AuditActorType
  ae_actor_id :: string
  ae_event_type :: EventType
  ae_payload_summary :: string
  ae_evidence_json :: json_text

record AlertEvent =
  al_task_id :: "string option"
  al_system_scope :: bool
  al_severity :: AlertSeverity
  al_status :: AlertStatus
  al_summary :: string
  al_evidence_json :: json_text
  al_resolved_at :: "int option"

record EngineeringKnowledge =
  ek_id :: string
  ek_project_id :: string
  ek_knowledge_key :: string
  ek_knowledge_type :: KnowledgeType
  ek_status :: KnowledgeStatus
  ek_version :: int
  ek_scope_json :: json_text
  ek_summary :: string
  ek_verified_evidence_json :: "json_text option"

definition knowledge_checks :: "EngineeringKnowledge \<Rightarrow> bool" where
  "knowledge_checks k \<longleftrightarrow> 1 \<le> ek_version k \<and> strip (ek_knowledge_key k) \<noteq> [] \<and>
     ek_scope_json k \<noteq> JBlank \<and> strip (ek_summary k) \<noteq> [] \<and>
     (ek_status k \<noteq> KnowledgeStatus.VERIFIED \<or>
      (ek_verified_evidence_json k \<noteq> None \<and> ek_verified_evidence_json k \<noteq> Some JBlank))"

record KnowledgeSignature =
  kg_knowledge_id :: string
  kg_signature_hash :: string

record KnowledgeSource =
  ks_knowledge_id :: string
  ks_source_type :: KnowledgeSourceType
  ks_source_ref :: string
  ks_evidence_json :: json_text

record KnowledgeRelation =
  kr_project_id :: string
  kr_source_knowledge_id :: string
  kr_target_knowledge_id :: string
  kr_relation_type :: KnowledgeRelationType
  kr_evidence_json :: json_text

record Project =
  pj_id :: string
  pj_root_path :: string
  pj_normalized_root_path :: string
  pj_owner_session_hash :: "string option"

subsection \<open>The database\<close>

record db =
  projects :: "Project list"
  tasks :: "ChangeTask list"
  proposals :: "ChangeProposal list"
  iterations :: "TaskIteration list"
  llm_calls :: "LLMCall list"
  actions :: "AgentActionRow list"
  impact_reports :: "ImpactReport list"
  decisions :: "GovernanceDecision list"
  rules :: "GovernanceRule list"
  approval_requests :: "ApprovalRequest list"
  approval_decisions :: "ApprovalDecision list"
  policies :: "ExecutionPolicy list"
  locks :: "WorkspaceLock list"
  transactions :: "TaskTransaction list"
  executions :: "ToolExecution list"
  backups :: "BackupEntry list"
  file_changes :: "FileChange list"
  validation_plans :: "ValidationPlan list"
  validation_runs :: "ValidationRun list"
  feedback_signals :: "FeedbackSignalRow list"
  progress_events :: "ProgressEvent list"
  audit_events :: "AuditEvent list"
  alert_events :: "AlertEvent list"
  knowledge :: "EngineeringKnowledge list"
  knowledge_signatures :: "KnowledgeSignature list"
  knowledge_sources :: "KnowledgeSource list"
  knowledge_relations :: "KnowledgeRelation list"

definition empty_db :: db where
  "empty_db = \<lparr>projects = [], tasks = [], proposals = [], iterations = [], llm_calls = [],
     actions = [], impact_reports = [], decisions = [], rules = [], approval_requests = [],
     approval_decisions = [], policies = [], locks = [], transactions = [], executions = [],
     backups = [], file_changes = [], validation_plans = [], validation_runs = [],
     feedback_signals = [], progress_events = [], audit_events = [], alert_events = [],
     knowledge = [], knowledge_signatures = [], knowledge_sources = [], knowledge_relations = []\<rparr>"

text \<open>A stateful operation returns the database and either an exception or its value.\<close>

type_synonym 'a action_result = "db \<times> 'a result"

abbreviation get_task :: "db \<Rightarrow> string \<Rightarrow> ChangeTask option" where
  "get_task d i \<equiv> get_row tk_id i (tasks d)"

abbreviation get_decision :: "db \<Rightarrow> string \<Rightarrow> GovernanceDecision option" where
  "get_decision d i \<equiv> get_row gd_id i (decisions d)"

abbreviation get_request :: "db \<Rightarrow> string \<Rightarrow> ApprovalRequest option" where
  "get_request d i \<equiv> get_row ar_id i (approval_requests d)"

abbreviation get_policy :: "db \<Rightarrow> string \<Rightarrow> ExecutionPolicy option" where
  "get_policy d i \<equiv> get_row ep_id i (policies d)"

abbreviation get_lock :: "db \<Rightarrow> string \<Rightarrow> WorkspaceLock option" where
  "get_lock d i \<equiv> get_row wl_id i (locks d)"

abbreviation get_transaction :: "db \<Rightarrow> string \<Rightarrow> TaskTransaction option" where
  "get_transaction d i \<equiv> get_row tx_id i (transactions d)"

abbreviation get_proposal :: "db \<Rightarrow> string \<Rightarrow> ChangeProposal option" where
  "get_proposal d i \<equiv> get_row pr_id i (proposals d)"

abbreviation get_knowledge :: "db \<Rightarrow> string \<Rightarrow> EngineeringKnowledge option" where
  "get_knowledge d i \<equiv> get_row ek_id i (knowledge d)"

end
