(* ===== verification/Paths.thy ===== *)
theory Paths
  imports Tables
begin

section \<open>Paths: canonical project paths, path policy, action classification\<close>

text \<open>
  \<^verbatim>\<open>paths.py\<close> (the canonical form every scope is compared in), \<^verbatim>\<open>security/path_policy.py\<close>,
  \<^verbatim>\<open>security/process_env.py\<close> and \<^verbatim>\<open>governance/action_classifier.py\<close>.

  \<^verbatim>\<open>pathlib\<close> on POSIX: \<open>path_parts\<close> is \<^verbatim>\<open>Path(p).parts\<close> without the root marker and \<open>is_absolute\<close>
  is \<^verbatim>\<open>Path(p).is_absolute()\<close>. What the file system answers (symbolic links, existence, sizes) is
  the argument \<open>fs_view\<close> of \<open>resolve\<close>.
\<close>

abbreviation slash :: char where
  "slash \<equiv> CHR ''/''"

abbreviation backslash :: char where
  "backslash \<equiv> CHR 0x5C"

subsection \<open>\<^verbatim>\<open>paths.py\<close>\<close>

definition is_alpha :: "char \<Rightarrow> bool" where
  "is_alpha c = (let n = (of_char c :: nat) in (65 \<le> n \<and> n \<le> 90) \<or> (97 \<le> n \<and> n \<le> 122))"

fun windows_drive_prefix :: "string \<Rightarrow> bool" where
  "windows_drive_prefix (a # b # _) = (is_alpha a \<and> b = CHR '':'')"
| "windows_drive_prefix _ = False"

fun canonical_parts :: "string list \<Rightarrow> string list result" where
  "canonical_parts [] = Inr []"
| "canonical_parts (p # ps) =
     (if p = [] \<or> p = ''.'' then canonical_parts ps
      else if p = ''..'' then Inl (ProjectPathError ''project path cannot traverse outside the workspace'')
      else rbind (canonical_parts ps) (\<lambda>qs. Inr (p # qs)))"

definition canonical_project_path :: "string \<Rightarrow> string result" where
  "canonical_project_path path =
     (let raw = replace_char backslash slash (strip path)
      in if raw = [] then Inl (ProjectPathError ''project path is empty'')
         else if startswith raw ''/'' \<or> startswith raw ''//'' \<or> windows_drive_prefix raw
              then Inl (ProjectPathError ''project path must be relative'')
         else rbind (canonical_parts (split_on slash raw))
                (\<lambda>parts. Inr (if parts = [] then ''.'' else join ''/'' parts)))"

fun canonical_paths_loop :: "string list \<Rightarrow> string list \<Rightarrow> string list result" where
  "canonical_paths_loop normalized [] = Inr normalized"
| "canonical_paths_loop normalized (path # paths) =
     (case canonical_project_path path of
        Inl e \<Rightarrow> Inl e
      | Inr item \<Rightarrow>
          if item \<in> set normalized then canonical_paths_loop normalized paths
          else canonical_paths_loop (normalized @ [item]) paths)"

definition canonical_project_paths :: "string list \<Rightarrow> string list result" where
  "canonical_project_paths paths = canonical_paths_loop [] paths"

subsection \<open>\<^verbatim>\<open>pathlib\<close>\<close>

definition is_absolute :: "string \<Rightarrow> bool" where
  "is_absolute p = startswith p ''/''"

definition path_parts :: "string \<Rightarrow> string list" where
  "path_parts p = filter (\<lambda>s. s \<noteq> [] \<and> s \<noteq> ''.'') (split_on slash p)"

definition path_name :: "string \<Rightarrow> string" where
  "path_name p = (if path_parts p = [] then [] else last (path_parts p))"

subsection \<open>\<^verbatim>\<open>security/path_policy.py\<close>\<close>

definition SENSITIVE_NAMES :: "string list" where
  "SENSITIVE_NAMES = [''.env'', ''.env.local'', ''.env.production'', ''.npmrc'', ''.pypirc'']"

definition SENSITIVE_FRAGMENTS :: "string list" where
  "SENSITIVE_FRAGMENTS = [''secret'', ''token'', ''password'', ''credential'']"

definition BACKUP_SUFFIXES :: "string list" where
  "BACKUP_SUFFIXES = [''~'', ''.bak'', ''.backup'', ''.orig'', ''.swp'']"

record PathDecision =
  pd_allowed :: bool
  pd_reason :: string
  pd_path :: "string list option"
  pd_relative_path :: "string option"

text \<open>
  An absolute path is its list of components. \<open>fv_resolve\<close> is \<^verbatim>\<open>Path.resolve(strict=True)\<close>
  (\<open>None\<close> for \<^verbatim>\<open>FileNotFoundError\<close>), \<open>fv_file_size\<close> the size of a regular file.
\<close>

record fs_view =
  fv_resolve :: "string list \<Rightarrow> string list option"
  fv_file_size :: "string list \<Rightarrow> nat option"

record PathPolicy =
  pp_project_root :: "string list"
  pp_max_file_size_bytes :: nat

definition is_sensitive :: "string \<Rightarrow> bool" where
  "is_sensitive rel =
     (lower (path_name rel) \<in> set SENSITIVE_NAMES \<or>
      list_ex (\<lambda>fragment. py_in fragment (lower rel)) SENSITIVE_FRAGMENTS)"

fun relative_to :: "string list \<Rightarrow> string list \<Rightarrow> string list option" where
  "relative_to p [] = Some p"
| "relative_to [] (r # rs) = None"
| "relative_to (c # cs) (r # rs) = (if c = r then relative_to cs rs else None)"

definition as_posix :: "string list \<Rightarrow> string" where
  "as_posix cs = (if cs = [] then ''.'' else join ''/'' cs)"

definition path_policy_resolve :: "fs_view \<Rightarrow> PathPolicy \<Rightarrow> string \<Rightarrow> PathDecision" where
  "path_policy_resolve fs pol relative_path =
     (let path = (if is_absolute relative_path then path_parts relative_path
                  else pp_project_root pol @ path_parts relative_path)
      in case fv_resolve fs path of
           None \<Rightarrow> \<lparr>pd_allowed = False, pd_reason = ''NOT_FOUND'', pd_path = None, pd_relative_path = None\<rparr>
         | Some resolved \<Rightarrow>
             (case relative_to resolved (pp_project_root pol) of
                None \<Rightarrow> \<lparr>pd_allowed = False, pd_reason = ''REALPATH_OUTSIDE_PROJECT'',
                         pd_path = Some resolved, pd_relative_path = None\<rparr>
              | Some rel_parts \<Rightarrow>
                  (let rel = as_posix rel_parts;
                       decide = (\<lambda>ok reason. \<lparr>pd_allowed = ok, pd_reason = reason,
                         pd_path = Some resolved, pd_relative_path = Some rel\<rparr>)
                   in if is_sensitive rel then decide False ''SENSITIVE_FILE''
                      else if list_ex (\<lambda>sfx. endswith rel sfx) BACKUP_SUFFIXES
                           then decide False ''BACKUP_FILE''
                      else if (case fv_file_size fs resolved of None \<Rightarrow> False
                               | Some n \<Rightarrow> n > pp_max_file_size_bytes pol)
                           then decide False ''FILE_TOO_LARGE''
                      else decide True ''OK'')))"

subsection \<open>\<^verbatim>\<open>security/process_env.py\<close>\<close>

definition DEFAULT_CHILD_ENV_ALLOWLIST :: "string list" where
  "DEFAULT_CHILD_ENV_ALLOWLIST = [''PATH'', ''SystemRoot'', ''TMP'', ''TEMP'']"

definition build_child_env :: "string list \<Rightarrow> (string \<times> string) list \<Rightarrow> (string \<times> string) list" where
  "build_child_env allowlist parent_env =
     filter (\<lambda>(key, value). lower key \<in> set (map lower allowlist)) parent_env"

subsection \<open>\<^verbatim>\<open>governance/action_classifier.py\<close>\<close>

datatype ActionRisk = SAFE | REQUIRE_APPROVAL | DENY_HARD

record ActionClassification =
  cl_risk :: ActionRisk
  cl_category :: string
  cl_reasons :: "string list"

definition classification :: "ActionRisk \<Rightarrow> string \<Rightarrow> string \<Rightarrow> ActionClassification" where
  "classification risk category reason =
     \<lparr>cl_risk = risk, cl_category = category, cl_reasons = [reason]\<rparr>"

definition any_in :: "string list \<Rightarrow> string \<Rightarrow> bool" where
  "any_in tokens text = list_ex (\<lambda>token. py_in token text) tokens"

definition is_recursive_delete :: "string \<Rightarrow> bool" where
  "is_recursive_delete command =
     (py_in ''rm -rf'' command \<or> py_in ''rm -fr'' command \<or> py_in ''remove-item -recurse'' command
      \<or> py_in ''del /s'' command \<or> py_in ''rmdir /s'' command)"

definition classify_path_write :: "string \<Rightarrow> ActionClassification" where
  "classify_path_write relative_path =
     (if is_absolute relative_path \<or> ''..'' \<in> set (path_parts relative_path)
      then classification ActionRisk.DENY_HARD ''OUTSIDE_PATH'' ''outside path''
      else if any_in [''.env'', ''secret'', ''token'', ''password'', ''credential''] (lower relative_path)
      then classification ActionRisk.DENY_HARD ''CREDENTIAL_SENSITIVE'' ''credential''
      else classification ActionRisk.SAFE ''SAFE'' ''path'')"

definition classify_command :: "string \<Rightarrow> ActionClassification" where
  "classify_command command =
     (let lowered = lower command
      in if py_in ''|| true'' lowered \<or> py_in '' 2>nul'' lowered
         then classification ActionRisk.REQUIRE_APPROVAL ''VALIDATION_EVASION'' ''suppresses validation failure''
         else if is_recursive_delete lowered
         then classification ActionRisk.DENY_HARD ''RECURSIVE_DELETE'' ''recursive delete''
         else if any_in [''npm install'', ''pip install'', ''poetry add''] lowered
         then classification ActionRisk.REQUIRE_APPROVAL ''DEPENDENCY'' ''dependency''
         else if any_in [''alembic revision'', ''migrate'', ''prisma migrate''] lowered
         then classification ActionRisk.REQUIRE_APPROVAL ''SCHEMA'' ''schema''
         else if any_in [''deploy'', ''kubectl apply'', ''terraform apply''] lowered
         then classification ActionRisk.REQUIRE_APPROVAL ''DEPLOYMENT'' ''deployment''
         else if startswith lowered ''pytest'' \<and> (py_in '' -k '' lowered \<or> py_in ''::'' lowered)
         then classification ActionRisk.REQUIRE_APPROVAL ''VALIDATION_EVASION'' ''validation scope narrowed''
         else if startswith lowered ''pytest''
         then classification ActionRisk.SAFE ''SAFE'' ''pytest''
         else if startswith lowered ''ruff''
         then classification ActionRisk.SAFE ''SAFE'' ''ruff''
         else if any_in [''powershell'', ''cmd /c'', ''bash -lc''] lowered
         then classification ActionRisk.REQUIRE_APPROVAL ''SHELL'' ''shell''
         else classification ActionRisk.SAFE ''SAFE'' ''default'')"

definition classify_patch :: "string \<Rightarrow> ActionClassification" where
  "classify_patch patch_text =
     (let lowered = lower patch_text
      in if py_in ''- assert'' lowered \<or> py_in ''+ pytestmark = pytest.mark.skip'' lowered
         then classification ActionRisk.REQUIRE_APPROVAL ''VALIDATION_EVASION'' ''validation semantics changed''
         else if py_in ''skip('' lowered \<and> count_list lowered (CHR ''+'') > 0
         then classification ActionRisk.REQUIRE_APPROVAL ''VALIDATION_EVASION'' ''test skip introduced''
         else classification ActionRisk.SAFE ''SAFE'' ''patch'')"

subsection \<open>Properties of the canonical form\<close>

text \<open>A canonical path: \<open>.\<close>, or components that are proper names, joined by slashes.\<close>

definition is_canonical :: "string \<Rightarrow> bool" where
  "is_canonical q \<longleftrightarrow> q = ''.'' \<or>
     (\<forall>c \<in> set (split_on slash q). c \<noteq> [] \<and> c \<noteq> ''.'' \<and> c \<noteq> ''..'')"

lemma canonical_parts_Inr:
  "canonical_parts ps = Inr qs \<Longrightarrow>
     qs = filter (\<lambda>p. p \<noteq> [] \<and> p \<noteq> ''.'') ps \<and> ''..'' \<notin> set ps"
  by (induction ps arbitrary: qs) (auto simp: rbind_eq_Inr split: if_splits)

lemma canonical_parts_dotdot:
  "''..'' \<in> set ps \<Longrightarrow> \<exists>e. canonical_parts ps = Inl e"
proof (cases "canonical_parts ps")
  case (Inr qs)
  then show "''..'' \<in> set ps \<Longrightarrow> \<exists>e. canonical_parts ps = Inl e"
    by (auto dest: canonical_parts_Inr)
qed simp

lemma canonical_parts_ok:
  "(\<forall>p \<in> set ps. p \<noteq> [] \<and> p \<noteq> ''.'' \<and> p \<noteq> ''..'') \<Longrightarrow> canonical_parts ps = Inr ps"
  by (induction ps) auto

lemma canonical_path_cases:
  assumes "canonical_project_path p = Inr q"
  obtains parts where "canonical_parts (split_on slash (replace_char backslash slash (strip p))) = Inr parts"
    and "q = (if parts = [] then ''.'' else join ''/'' parts)"
  using assms by (auto simp: canonical_project_path_def Let_def rbind_eq_Inr split: if_splits)

lemma canonical_result_parts:
  assumes "canonical_project_path p = Inr q" and "q \<noteq> ''.''"
  shows "split_on slash q \<noteq> []"
    and "\<forall>c \<in> set (split_on slash q). c \<noteq> [] \<and> c \<noteq> ''.'' \<and> c \<noteq> ''..'' \<and> backslash \<notin> set c"
proof -
  let ?raw = "replace_char backslash slash (strip p)"
  obtain parts where parts: "canonical_parts (split_on slash ?raw) = Inr parts"
    and q: "q = (if parts = [] then ''.'' else join ''/'' parts)"
    using assms(1) by (rule canonical_path_cases)
  from q assms(2) have ne: "parts \<noteq> []" and qj: "q = join ''/'' parts" by (auto split: if_splits)
  from canonical_parts_Inr [OF parts]
  have sub: "set parts \<subseteq> set (split_on slash ?raw)"
    and proper: "\<forall>c \<in> set parts. c \<noteq> [] \<and> c \<noteq> ''.'' \<and> c \<noteq> ''..''" by auto
  have no_slash: "\<forall>c \<in> set parts. slash \<notin> set c" using sub by (auto dest: split_on_parts)
  have raw: "backslash \<notin> set ?raw" by (auto simp: replace_char_def)
  have no_bs: "\<forall>c \<in> set parts. backslash \<notin> set c" using sub raw by (blast dest: split_on_subset)
  have "split_on slash q = parts" unfolding qj by (rule split_join [OF ne no_slash])
  then show "split_on slash q \<noteq> []"
    and "\<forall>c \<in> set (split_on slash q). c \<noteq> [] \<and> c \<noteq> ''.'' \<and> c \<noteq> ''..'' \<and> backslash \<notin> set c"
    using ne proper no_bs by auto
qed

lemma canonical_is_canonical: "canonical_project_path p = Inr q \<Longrightarrow> is_canonical q"
  using canonical_result_parts(2) by (auto simp: is_canonical_def simp del: split_on.simps)

lemma canonical_no_backslash:
  assumes "canonical_project_path p = Inr q"
  shows "backslash \<notin> set q"
proof (cases "q = ''.''")
  case True
  then show ?thesis by simp
next
  case False
  have "set q \<subseteq> {slash} \<union> \<Union> (set ` set (split_on slash q))"
    using set_join [of "[slash]" "split_on slash q"] by simp
  with canonical_result_parts(2) [OF assms False] show ?thesis by auto
qed

lemma canonical_not_absolute:
  assumes "canonical_project_path p = Inr q"
  shows "\<not> is_absolute q"
proof
  assume "is_absolute q"
  then obtain t where "q = slash # t" by (auto simp: is_absolute_def prefix_def)
  then have "[] \<in> set (split_on slash q)" by simp
  moreover have "q \<noteq> ''.''" using \<open>q = slash # t\<close> by auto
  ultimately show False using canonical_result_parts(2) [OF assms] by auto
qed

text \<open>Canonicalisation is a fixed point on its results, once they have no blank at either end.\<close>

lemma canonical_fixpoint:
  assumes "is_canonical q" and "q \<noteq> []" and "strip q = q" and "\<not> windows_drive_prefix q"
    and "backslash \<notin> set q"
  shows "canonical_project_path q = Inr q"
proof (cases "q = ''.''")
  case True
  then show ?thesis
    by (simp add: canonical_project_path_def strip_def replace_char_def is_space_def)
next
  case False
  with assms(1) have proper: "\<forall>c \<in> set (split_on slash q). c \<noteq> [] \<and> c \<noteq> ''.'' \<and> c \<noteq> ''..''"
    by (auto simp: is_canonical_def)
  have same: "replace_char backslash slash (strip q) = q"
    using assms(3,5) by (auto simp: replace_char_def intro!: map_idI)
  have rel: "\<not> startswith q ''/'' \<and> \<not> startswith q ''//''"
  proof -
    have "hd q \<noteq> slash"
      using proper assms(2) by (cases q) (auto split: if_splits)
    then show ?thesis using assms(2) by (cases q) (auto simp: prefix_def)
  qed
  show ?thesis
    using assms(2,4) rel same
    by (simp add: canonical_project_path_def Let_def canonical_parts_ok [OF proper])
qed

lemma canonical_paths_loop_spec:
  "canonical_paths_loop acc paths = Inr out \<Longrightarrow>
     set out = set acc \<union> {q. \<exists>p \<in> set paths. canonical_project_path p = Inr q} \<and>
     (distinct acc \<longrightarrow> distinct out) \<and> (\<forall>p \<in> set paths. \<exists>q. canonical_project_path p = Inr q)"
proof (induction acc paths rule: canonical_paths_loop.induct)
  case (1 normalized)
  then show ?case by simp
next
  case (2 normalized path paths)
  show ?case
  proof (cases "canonical_project_path path")
    case (Inl e)
    with "2.prems" show ?thesis by simp
  next
    case (Inr item)
    show ?thesis
    proof (cases "item \<in> set normalized")
      case True
      with Inr "2.prems" "2.IH"(1) [OF Inr True] show ?thesis by auto
    next
      case False
      with Inr "2.prems" "2.IH"(2) [OF Inr False] show ?thesis by auto
    qed
  qed
qed

lemma canonical_project_paths_spec:
  assumes "canonical_project_paths paths = Inr out"
  shows "set out = {q. \<exists>p \<in> set paths. canonical_project_path p = Inr q}"
    and "distinct out" and "\<forall>q \<in> set out. is_canonical q"
  using canonical_paths_loop_spec [of "[]" paths out] assms
  by (auto simp: canonical_project_paths_def canonical_is_canonical)

lemma canonical_paths_loop_fixpoint:
  assumes "distinct (acc @ paths)" and "\<forall>p \<in> set paths. canonical_project_path p = Inr p"
  shows "canonical_paths_loop acc paths = Inr (acc @ paths)"
  using assms by (induction paths arbitrary: acc) auto

lemma canonical_project_paths_fixpoint:
  "distinct paths \<Longrightarrow> \<forall>p \<in> set paths. canonical_project_path p = Inr p \<Longrightarrow>
     canonical_project_paths paths = Inr paths"
  by (simp add: canonical_project_paths_def canonical_paths_loop_fixpoint)

text \<open>A path that was written to a policy is stable if canonicalising it again gives it back.\<close>

definition stable_path :: "string \<Rightarrow> bool" where
  "stable_path q \<longleftrightarrow> canonical_project_path q = Inr q"

lemma stable_pathI:
  assumes "canonical_project_path p = Inr q" and "strip q = q" and "\<not> windows_drive_prefix q"
  shows "stable_path q"
proof -
  have "q \<noteq> []"
  proof
    assume "q = []"
    with canonical_result_parts(2) [OF assms(1)] show False by simp
  qed
  then show ?thesis
    unfolding stable_path_def
    using canonical_fixpoint [OF canonical_is_canonical [OF assms(1)] _ assms(2,3)
        canonical_no_backslash [OF assms(1)]] by simp
qed

lemma relative_to_Some: "relative_to p root = Some rel \<longleftrightarrow> p = root @ rel"
  by (induction p root rule: relative_to.induct) auto

lemma path_parts_canonical:
  assumes "is_canonical q"
  shows "''..'' \<notin> set (path_parts q)"
  using assms by (auto simp: path_parts_def is_canonical_def)


text \<open>
  Canonicalisation is not idempotent on components with blanks at the ends of the path: a text that
  canonicalises to a path with a leading blank canonicalises to a different file the second time.
\<close>

theorem canonical_blank_unstable:
  "canonical_project_path ''./ a.py'' = Inr '' a.py'' \<and> canonical_project_path '' a.py'' = Inr ''a.py''"
  by code_simp

text \<open>
  The path policy admits a read only of a file that resolves inside the project root, is not a
  sensitive or backup file, and is no larger than the limit.
\<close>

theorem path_policy_admits:
  assumes "pd_allowed (path_policy_resolve fs pol path)"
  shows "\<exists>rel. pd_path (path_policy_resolve fs pol path) = Some (pp_project_root pol @ rel) \<and>
    pd_relative_path (path_policy_resolve fs pol path) = Some (as_posix rel) \<and>
    lower (path_name (as_posix rel)) \<notin> set SENSITIVE_NAMES \<and>
    (\<forall>fragment \<in> set SENSITIVE_FRAGMENTS. \<not> py_in fragment (lower (as_posix rel))) \<and>
    (\<forall>sfx \<in> set BACKUP_SUFFIXES. \<not> endswith (as_posix rel) sfx) \<and>
    (\<forall>n. fv_file_size fs (pp_project_root pol @ rel) = Some n \<longrightarrow> n \<le> pp_max_file_size_bytes pol)"
proof -
  obtain resolved rel where r:
    "fv_resolve fs (if is_absolute path then path_parts path else pp_project_root pol @ path_parts path) =
       Some resolved" "relative_to resolved (pp_project_root pol) = Some rel"
    using assms by (auto simp: path_policy_resolve_def Let_def split: option.splits)
  then have "resolved = pp_project_root pol @ rel" by (simp add: relative_to_Some)
  with r assms show ?thesis
    by (auto simp: path_policy_resolve_def Let_def is_sensitive_def list_ex_iff split: if_splits option.splits)
qed

theorem path_policy_admits_witness:
  "\<exists>rel. pd_path (path_policy_resolve \<lparr>fv_resolve = Some, fv_file_size = (\<lambda>_. Some 10)\<rparr>
     \<lparr>pp_project_root = [''srv'', ''app''], pp_max_file_size_bytes = 100\<rparr> ''src/main.py'') =
     Some ([''srv'', ''app''] @ rel)"
proof -
  have "pd_allowed (path_policy_resolve \<lparr>fv_resolve = Some, fv_file_size = (\<lambda>_. Some 10)\<rparr>
     \<lparr>pp_project_root = [''srv'', ''app''], pp_max_file_size_bytes = 100\<rparr> ''src/main.py'')" by code_simp
  from path_policy_admits [OF this] show ?thesis by auto
qed

text \<open>
  A command is denied outright exactly when it deletes recursively and does not also suppress its
  own failure: appending the suppression lowers the denial to an approval.
\<close>

theorem classify_command_denies:
  "cl_risk (classify_command command) = ActionRisk.DENY_HARD \<longleftrightarrow>
     is_recursive_delete (lower command) \<and>
     \<not> (py_in ''|| true'' (lower command) \<or> py_in '' 2>nul'' (lower command))"
  by (simp add: classify_command_def Let_def classification_def)

end
