(* ===== verification/Disclosure.thy ===== *)
theory Disclosure
  imports Paths "HOL-Library.Multiset"
begin

section \<open>Disclosure: redaction of secrets and what is published after it\<close>

text \<open>
  \<^verbatim>\<open>security/redaction.py\<close> and its clients \<^verbatim>\<open>security/prompt_boundary.py\<close>, \<^verbatim>\<open>events/bus.py\<close>,
  \<^verbatim>\<open>core/error_mapper.py\<close> and \<^verbatim>\<open>feedback/controller.py\<close>; the evidence bundle of \<^verbatim>\<open>evidence/bundle.py\<close>.
  A pattern is the function that finds its match at the start of a text (Python's alternatives in order, runs
  greedy) and gives the rest; \<open>re_sub\<close> is \<^verbatim>\<open>pattern.sub(replacement, text)\<close>.
\<close>

subsection \<open>Substitution of a pattern\<close>

type_synonym matcher = "string \<Rightarrow> string option"

function re_sub :: "matcher \<Rightarrow> string \<Rightarrow> string \<Rightarrow> string" where
  "re_sub m r [] = []"
| "re_sub m r (c # cs) =
     (case m (c # cs) of
        None \<Rightarrow> c # re_sub m r cs
      | Some rest \<Rightarrow> if length rest \<le> length cs then r @ re_sub m r rest else c # re_sub m r cs)"
  by pat_completeness auto

termination
  by (relation "measure (\<lambda>(m, r, s). length s)") auto

text \<open>
  A pattern that looks at the character before the match and whose replacement depends on the match: at every
  position, the character before it and the text from it on give the replacement and the rest.
\<close>

type_synonym rewriter = "char option \<Rightarrow> string \<Rightarrow> (string \<times> string) option"

function re_sub_at :: "rewriter \<Rightarrow> char option \<Rightarrow> string \<Rightarrow> string" where
  "re_sub_at f prev [] = []"
| "re_sub_at f prev (c # cs) =
     (case f prev (c # cs) of
        None \<Rightarrow> c # re_sub_at f (Some c) cs
      | Some (r, rest) \<Rightarrow>
          if length rest \<le> length cs
          then r @ re_sub_at f (Some ((c # cs) ! (length cs - length rest))) rest
          else c # re_sub_at f (Some c) cs)"
  by pat_completeness auto

termination
  by (relation "measure (\<lambda>(f, prev, s). length s)") auto

text \<open>The first of the keywords that the text starts with, in any case: the text of it and the rest.\<close>

fun keyword_here :: "string list \<Rightarrow> string \<Rightarrow> (string \<times> string) option" where
  "keyword_here [] s = None"
| "keyword_here (k # ks) s =
     (if lower (take (length k) s) = k then Some (take (length k) s, drop (length k) s) else keyword_here ks s)"

text \<open>One of the prefixes and then a run of at least \<open>n\<close> characters of a class.\<close>

fun run_match :: "string list \<Rightarrow> (char \<Rightarrow> bool) \<Rightarrow> nat \<Rightarrow> matcher" where
  "run_match [] cls n s = None"
| "run_match (p # ps) cls n s =
     (let after = drop (length p) s
      in if prefix p s \<and> n \<le> length (takeWhile cls after) then Some (dropWhile cls after)
         else run_match ps cls n s)"

subsection \<open>\<^verbatim>\<open>security/redaction.py\<close>\<close>

definition is_alnum :: "char \<Rightarrow> bool" where
  "is_alnum c = (let n = (of_char c :: nat) in (48 \<le> n \<and> n \<le> 57) \<or> (65 \<le> n \<and> n \<le> 90) \<or> (97 \<le> n \<and> n \<le> 122))"

definition key_char :: "char \<Rightarrow> bool" where
  "key_char c \<longleftrightarrow> is_alnum c \<or> c = CHR ''_'' \<or> c = CHR ''-''"

definition token_char :: "char \<Rightarrow> bool" where
  "token_char c \<longleftrightarrow> key_char c \<or> c = CHR ''=''"

definition DEFAULT_PATTERNS :: "matcher list" where
  "DEFAULT_PATTERNS =
     [run_match [''sk-proj-'', ''sk-''] key_char 16,
      run_match [''LTAI''] is_alnum 8,
      run_match [''ghp_'', ''gho_'', ''glpat-'', ''xoxb-'', ''xoxa-'', ''xoxp-'', ''xoxr-'', ''xoxs-''] token_char 12]"

definition REDACTED :: string where
  "REDACTED = ''[REDACTED:SECRET]''"

definition redact_text :: "string \<Rightarrow> string" where
  "redact_text text = fold (\<lambda>m t. re_sub m REDACTED t) DEFAULT_PATTERNS text"

subsection \<open>\<^verbatim>\<open>security/prompt_boundary.py\<close>\<close>

datatype TrustBoundaryLabel = UNTRUSTED_DATA

record IsolatedRepositoryText =
  ir_source_ref :: string
  ir_text :: string
  ir_label :: TrustBoundaryLabel
  ir_risk_events :: "string list"
  ir_policy_grants :: "string list"

definition risk_events :: "string \<Rightarrow> string list" where
  "risk_events text =
     (let lowered = lower text
      in (if py_in ''ignore previous instructions'' lowered \<or> py_in ''system prompt'' lowered
          then [''instruction_override''] else []) @
         (if py_in ''grant shell'' lowered \<or> py_in ''shell access'' lowered \<or> py_in ''reveal secret'' lowered
          then [''privilege_escalation''] else []))"

definition redact_repository_text :: "string \<Rightarrow> string" where
  "redact_repository_text text = re_sub (run_match [''sk-proj_'', ''sk-proj-''] key_char 16) REDACTED (redact_text text)"

definition isolate_repository_text :: "string \<Rightarrow> string \<Rightarrow> IsolatedRepositoryText" where
  "isolate_repository_text source_ref text =
     \<lparr>ir_source_ref = source_ref, ir_text = redact_repository_text text, ir_label = UNTRUSTED_DATA,
      ir_risk_events = risk_events text, ir_policy_grants = []\<rparr>"

subsection \<open>\<^verbatim>\<open>events/bus.py\<close>\<close>

record Event =
  bus_event_id :: int
  bus_task_id :: string
  bus_event_type :: string
  bus_payload :: "(string \<times> json) list"

record EventBus =
  eb_events :: "Event list"
  eb_next_id :: int

fun sanitize :: "json \<Rightarrow> json" where
  "sanitize (JStr s) = JStr (redact_text s)"
| "sanitize (JObj kvs) = JObj (map (\<lambda>kv. (fst kv, sanitize (snd kv))) kvs)"
| "sanitize v = v"

definition empty_bus :: EventBus where
  "empty_bus = \<lparr>eb_events = [], eb_next_id = 1\<rparr>"

definition publish :: "string \<Rightarrow> string \<Rightarrow> (string \<times> json) list \<Rightarrow> EventBus \<Rightarrow> EventBus \<times> Event" where
  "publish task_id event_type payload bus =
     (let event = \<lparr>bus_event_id = eb_next_id bus, bus_task_id = task_id, bus_event_type = event_type,
            bus_payload = map (\<lambda>kv. (fst kv, sanitize (snd kv))) payload\<rparr>
      in (\<lparr>eb_events = eb_events bus @ [event], eb_next_id = eb_next_id bus + 1\<rparr>, event))"

definition replay :: "string \<Rightarrow> int option \<Rightarrow> EventBus \<Rightarrow> Event list" where
  "replay task_id last_event_id bus =
     (let since = (case last_event_id of None \<Rightarrow> 0 | Some n \<Rightarrow> n)
      in filter (\<lambda>e. bus_task_id e = task_id \<and> since < bus_event_id e) (eb_events bus))"

subsection \<open>\<^verbatim>\<open>core/error_mapper.py\<close>\<close>

datatype SideEffectState = NONE | PARTIAL_CHANGES | COMMITTED | ROLLED_BACK

record ActionableError =
  er_code :: string
  er_message :: string
  er_side_effect_state :: SideEffectState
  er_task_id :: string
  er_correlation_id :: string
  er_next_steps :: "string list"

fun next_steps :: "SideEffectState \<Rightarrow> string list" where
  "next_steps NONE = [''inspect evidence'', ''retry'']"
| "next_steps PARTIAL_CHANGES = [''inspect evidence'', ''retain changes'', ''rollback'']"
| "next_steps ROLLED_BACK = [''inspect evidence'', ''retry from clean state'']"
| "next_steps COMMITTED = [''inspect evidence'', ''verify committed state'']"

definition map_error :: "string \<Rightarrow> string \<Rightarrow> SideEffectState \<Rightarrow> string \<Rightarrow> string \<Rightarrow> ActionableError" where
  "map_error code message side_effect_state task_id correlation_id =
     \<lparr>er_code = code, er_message = redact_text message, er_side_effect_state = side_effect_state,
      er_task_id = task_id, er_correlation_id = correlation_id, er_next_steps = next_steps side_effect_state\<rparr>"

subsection \<open>\<^verbatim>\<open>feedback/controller.py\<close>\<close>

record FeedbackSource =
  fo_source_type :: string
  fo_category :: string
  fo_retryable :: bool
  fo_log_text :: string
  fo_artifact_ref :: string

record ContractFeedbackSignal =
  cf_kind :: FeedbackKind
  cf_severity :: FeedbackSeverity
  cf_message :: string

definition feedback_kind :: "string \<Rightarrow> FeedbackKind" where
  "feedback_kind source_type =
     (if lower source_type = ''validation'' then FeedbackKind.VALIDATION
      else if lower source_type = ''governance'' then FeedbackKind.GOVERNANCE
      else if lower source_type = ''progress'' then FeedbackKind.PROGRESS
      else FeedbackKind.TOOL)"

text \<open>The class \<^verbatim>\<open>\w\<close> on the characters of the model, and the search for \<^verbatim>\<open>\b[\w./-]+::[\w.-]+\<close>.\<close>

definition is_word :: "char \<Rightarrow> bool" where
  "is_word c = (is_alnum c \<or> c = CHR ''_'' \<or>
     (let n = (of_char c :: nat) in n \<in> {170, 178, 179, 181, 185, 186, 188, 189, 190} \<or> (192 \<le> n \<and> n \<noteq> 215 \<and> n \<noteq> 247)))"

definition word_boundary :: "char option \<Rightarrow> string \<Rightarrow> bool" where
  "word_boundary prev s \<longleftrightarrow>
     (case prev of None \<Rightarrow> False | Some c \<Rightarrow> is_word c) \<noteq> (case s of [] \<Rightarrow> False | c # cs \<Rightarrow> is_word c)"

definition node_id_here :: "string \<Rightarrow> bool" where
  "node_id_here s =
     (let cls = (\<lambda>c. is_word c \<or> c \<in> set ''./-''); rest = dropWhile cls s
      in takeWhile cls s \<noteq> [] \<and> startswith rest ''::'' \<and>
         (case drop 2 rest of [] \<Rightarrow> False | c # cs \<Rightarrow> is_word c \<or> c \<in> set ''.-''))"

fun has_node_id :: "char option \<Rightarrow> string \<Rightarrow> bool" where
  "has_node_id prev [] = False"
| "has_node_id prev (c # cs) \<longleftrightarrow> (word_boundary prev (c # cs) \<and> node_id_here (c # cs)) \<or> has_node_id (Some c) cs"

definition is_actionable :: "string \<Rightarrow> bool" where
  "is_actionable l \<longleftrightarrow> l \<noteq> [] \<and>
     (py_in ''FAILED'' l \<or> py_in ''AssertionError'' l \<or> py_in REDACTED l \<or> has_node_id None l)"

definition actionable_lines :: "string \<Rightarrow> string list" where
  "actionable_lines text = take 6 (filter is_actionable (map strip (splitlines text)))"

definition rstrip :: "string \<Rightarrow> string" where
  "rstrip s = rev (dropWhile is_space (rev s))"

definition feedback_message :: "int \<Rightarrow> FeedbackSource \<Rightarrow> string" where
  "feedback_message max_chars source =
     (let facts = [fo_source_type source @ '':'' @ fo_category source,
            if fo_retryable source then ''retryable'' else ''not retryable''] @
            actionable_lines (redact_text (fo_log_text source));
          message = join [CHR 0x0A] (dedupe facts);
          cut = (if 0 \<le> max_chars - 13 then take (nat (max_chars - 13)) message
            else take (nat (int (length message) + (max_chars - 13))) message)
      in if int (length message) \<le> max_chars then message else rstrip cut @ [CHR 0x0A] @ ''[truncated]'')"

definition feedback_create :: "int \<Rightarrow> string \<Rightarrow> FeedbackSource \<Rightarrow> db \<Rightarrow> db \<times> ContractFeedbackSignal" where
  "feedback_create max_chars task_id source d =
     (let message = feedback_message max_chars source; kind = feedback_kind (fo_source_type source);
          severity = (if fo_category source \<noteq> [] then FeedbackSeverity.ERROR else FeedbackSeverity.WARNING)
      in (d\<lparr>feedback_signals := feedback_signals d @ [\<lparr>fs_task_id = task_id, fs_kind = kind, fs_severity = severity,
            fs_summary = message, fs_evidence_json = JText (JObj [(''artifact_ref'', JStr (fo_artifact_ref source)),
              (''category'', JStr (fo_category source)), (''source_type'', JStr (fo_source_type source))])\<rparr>]\<rparr>,
          \<lparr>cf_kind = kind, cf_severity = severity, cf_message = message\<rparr>))"

subsection \<open>\<^verbatim>\<open>evidence/bundle.py\<close>\<close>

record EvidenceItem =
  ei_evidence_id :: string
  ei_kind :: string
  ei_revision :: string
  ei_uri :: string
  ei_summary :: string
  ei_freshness :: string
  ei_confidence :: string
  ei_verified :: bool

record EvidenceBundle =
  bu_task_id :: string
  bu_revision :: string
  bu_items :: "EvidenceItem list"
  bu_unresolved_assumptions :: "string list"
  bu_bundle_hash :: string

text \<open>The dictionary keeps the last item of an id; the digest of the canonical JSON is the parameter \<open>digest\<close>.\<close>

definition bundle_lookup :: "EvidenceItem list \<Rightarrow> string \<Rightarrow> EvidenceItem option" where
  "bundle_lookup items ref = find (\<lambda>i. ei_evidence_id i = ref) (rev items)"

definition item_json :: "EvidenceItem \<Rightarrow> json" where
  "item_json i = JObj [(''confidence'', JStr (ei_confidence i)), (''evidence_id'', JStr (ei_evidence_id i)),
     (''freshness'', JStr (ei_freshness i)), (''kind'', JStr (ei_kind i)), (''revision'', JStr (ei_revision i)),
     (''summary'', JStr (ei_summary i)), (''uri'', JStr (ei_uri i)), (''verified'', JBool (ei_verified i))]"

definition bundle_hash :: "(json \<Rightarrow> string) \<Rightarrow> string \<Rightarrow> string \<Rightarrow> EvidenceItem list \<Rightarrow> string list \<Rightarrow> string" where
  "bundle_hash digest task_id revision items assumptions =
     digest (JObj [(''items'', JList (map item_json items)), (''revision'', JStr revision),
       (''task_id'', JStr task_id), (''unresolved_assumptions'', JList (map JStr assumptions))])"

definition bundle_build ::
    "(json \<Rightarrow> string) \<Rightarrow> EvidenceItem list \<Rightarrow> string \<Rightarrow> string \<Rightarrow> string list \<Rightarrow> string list \<Rightarrow> EvidenceBundle result" where
  "bundle_build digest store task_id revision required unresolved_assumptions =
     (let missing = filter (\<lambda>ref. bundle_lookup store ref = None) required
      in if missing \<noteq> [] then Inl (EvidenceBundleError (''missing evidence refs: '' @ join '', '' missing))
         else
           let items = map (\<lambda>ref. the (bundle_lookup store ref)) required;
               cross_revision = map ei_evidence_id (filter (\<lambda>i. ei_revision i \<noteq> revision) items)
           in if cross_revision \<noteq> []
              then Inl (EvidenceBundleError (''cross_revision evidence refs: '' @ join '', '' cross_revision))
              else
                let assumptions = sort (filter (\<lambda>a. a \<noteq> []) unresolved_assumptions);
                    ordered_items = sort_key ei_evidence_id items
                in Inr \<lparr>bu_task_id = task_id, bu_revision = revision, bu_items = ordered_items,
                     bu_unresolved_assumptions = assumptions,
                     bu_bundle_hash = bundle_hash digest task_id revision ordered_items assumptions\<rparr>)"

subsection \<open>Redaction leaves no secret\<close>

text \<open>Text without a word of the language.\<close>

definition free_of :: "(string \<Rightarrow> bool) \<Rightarrow> string \<Rightarrow> bool" where
  "free_of word s \<longleftrightarrow> (\<forall>w. word w \<longrightarrow> \<not> sublist w s)"

lemma sublist_Cons_iff: "sublist w (c # s) \<longleftrightarrow> prefix w (c # s) \<or> sublist w s"
  by (rule sublist_Cons_right)

lemma free_of_Cons: "free_of word (c # s) \<longleftrightarrow> (\<forall>w. word w \<longrightarrow> \<not> prefix w (c # s)) \<and> free_of word s"
  by (auto simp: free_of_def sublist_Cons_right)

text \<open>The output of a substitution agrees with its input up to the first bracket.\<close>

lemma re_sub_prefix:
  assumes "prefix w (re_sub m REDACTED s)" and "CHR ''['' \<notin> set w"
  shows "prefix w s"
  using assms
proof (induction m "REDACTED" s arbitrary: w rule: re_sub.induct)
  case (1 m)
  then show ?case by simp
next
  case (2 m c cs)
  show ?case
  proof (cases "\<exists>rest. m (c # cs) = Some rest \<and> length rest \<le> length cs")
    case True
    then obtain rest where "m (c # cs) = Some rest" "length rest \<le> length cs" by blast
    with 2(4,5) have "w = []" by (cases w) (auto simp: REDACTED_def)
    then show ?thesis by simp
  next
    case False
    then have out: "re_sub m REDACTED (c # cs) = c # re_sub m REDACTED cs" by (auto split: option.splits)
    show ?thesis
    proof (cases w)
      case (Cons a w')
      then have a: "a = c" "prefix w' (re_sub m REDACTED cs)" "CHR ''['' \<notin> set w'" using out 2(4,5) by auto
      have "prefix w' cs"
        using 2(1,3) a(2,3) False by (cases "m (c # cs)") auto
      with Cons a show ?thesis by simp
    qed simp
  qed
qed

text \<open>Words too long and too plain to come about in the replacement text.\<close>

definition secret_words :: "(string \<Rightarrow> bool) \<Rightarrow> bool" where
  "secret_words word \<longleftrightarrow> (\<forall>w. word w \<longrightarrow> set w \<inter> set ''[:]'' = {} \<and> 9 \<le> length w)"

lemma prefix_nth_mem: "prefix w s \<Longrightarrow> i < length w \<Longrightarrow> s ! i \<in> set w"
  by (auto simp: prefix_def nth_append)

lemma redacted_breaks:
  assumes "secret_words word" and "free_of word t"
  shows "free_of word (REDACTED @ t)"
proof -
  have "\<not> sublist w (REDACTED @ t)" if w: "word w" for w
  proof -
    have key: "\<not> prefix w s" if "i < 9" "s ! i \<in> set ''[:]''" for s i
      using prefix_nth_mem [of w s i] that w assms(1) by (auto simp: secret_words_def)
    have "\<not> sublist w t" using assms(2) w by (simp add: free_of_def)
    then show ?thesis
      by (simp add: REDACTED_def sublist_Cons_right key [of 0] key [of 1] key [of 2] key [of 3] key [of 4]
          key [of 5] key [of 6] key [of 7] key [of 8])
  qed
  then show ?thesis by (simp add: free_of_def)
qed

lemma secret_no_bracket: "secret_words word \<Longrightarrow> word w \<Longrightarrow> CHR ''['' \<notin> set w"
  by (auto simp: secret_words_def)

lemma free_of_suffix: "free_of word s \<Longrightarrow> suffix t s \<Longrightarrow> free_of word t"
  by (meson free_of_def sublist_order.order.trans suffix_imp_sublist)

lemma free_of_sublist: "free_of word s \<Longrightarrow> sublist t s \<Longrightarrow> free_of word t"
  by (meson free_of_def sublist_order.order.trans)

text \<open>Substitution brings no word about.\<close>

lemma re_sub_keeps_free:
  assumes "\<And>s rest. m s = Some rest \<Longrightarrow> suffix rest s" and words: "secret_words word" and "free_of word s"
  shows "free_of word (re_sub m REDACTED s)"
  using assms(1,3)
proof (induction m "REDACTED" s rule: re_sub.induct)
  case (1 m)
  then show ?case by simp
next
  case (2 m c cs)
  show ?case
  proof (cases "\<exists>rest. m (c # cs) = Some rest \<and> length rest \<le> length cs")
    case True
    then obtain rest where rest: "m (c # cs) = Some rest" "length rest \<le> length cs" by blast
    have "free_of word (re_sub m REDACTED rest)"
      using 2(2) [OF rest 2(4)] 2(4) [OF rest(1)] 2(5) free_of_suffix by blast
    with rest redacted_breaks [OF words] show ?thesis by simp
  next
    case False
    then have out: "re_sub m REDACTED (c # cs) = c # re_sub m REDACTED cs" by (auto split: option.splits)
    have "free_of word (re_sub m REDACTED cs)"
      using 2(1,3) 2(4) 2(5) False by (cases "m (c # cs)") (auto simp: free_of_Cons)
    moreover have "\<not> prefix w (c # re_sub m REDACTED cs)" if "word w" for w
      using re_sub_prefix [of w m "c # cs"] out 2(5) secret_no_bracket [OF words that] that by (auto simp: free_of_Cons)
    ultimately show ?thesis unfolding out by (simp add: free_of_Cons)
  qed
qed

text \<open>
  A pattern that finds every word of a language at the start of a text: after its substitution the language is
  gone, and later substitutions do not bring it back.
\<close>

locale secret_pattern =
  fixes m :: matcher
    and word :: "string \<Rightarrow> bool"
  assumes rest_suffix: "m s = Some rest \<Longrightarrow> suffix rest s"
    and finds: "word w \<Longrightarrow> prefix w s \<Longrightarrow> \<exists>rest. m s = Some rest \<and> length rest < length s"
    and words: "secret_words word"
begin

lemma sub_free: "free_of word (re_sub m REDACTED s)"
proof (induction s rule: measure_induct_rule [of length])
  case (less s)
  show ?case
  proof (cases s)
    case Nil
    then show ?thesis using words by (auto simp: free_of_def secret_words_def)
  next
    case (Cons c cs)
    show ?thesis
    proof (cases "\<exists>rest. m s = Some rest \<and> length rest < length s")
      case True
      then obtain rest where rest: "m s = Some rest" "length rest < length s" by blast
      with Cons less redacted_breaks [OF words] show ?thesis by simp
    next
      case False
      then have out: "re_sub m REDACTED s = c # re_sub m REDACTED cs"
        using Cons by (auto split: option.splits)
      have "\<not> prefix w (re_sub m REDACTED s)" if "word w" for w
        using re_sub_prefix secret_no_bracket [OF words that] finds [OF that, of s] False by blast
      then show ?thesis using less [of cs] Cons unfolding out by (simp add: free_of_Cons)
    qed
  qed
qed

lemma sub_other_free:
  "(\<And>s rest. m' s = Some rest \<Longrightarrow> suffix rest s) \<Longrightarrow> free_of word s \<Longrightarrow> free_of word (re_sub m' REDACTED s)"
  by (rule re_sub_keeps_free [OF _ words])

end

subsection \<open>The patterns of the module\<close>

text \<open>A prefix and \<open>n\<close> characters of the class.\<close>

definition run_word :: "string list \<Rightarrow> (char \<Rightarrow> bool) \<Rightarrow> nat \<Rightarrow> string \<Rightarrow> bool" where
  "run_word ps cls n w \<longleftrightarrow> list_ex (\<lambda>p. prefix p w \<and> length w = length p + n \<and> list_all cls (drop (length p) w)) ps"

lemma run_match_suffix: "run_match ps cls n s = Some rest \<Longrightarrow> suffix rest s"
proof (induction ps cls n s rule: run_match.induct)
  case (2 p ps cls n s)
  have "suffix (dropWhile cls (drop (length p) s)) s"
    by (meson suffix_drop suffix_dropWhile suffix_order.trans)
  with 2 show ?case by (auto simp: Let_def split: if_splits)
qed simp

lemma run_match_finds:
  assumes "run_word ps cls n w" "prefix w s" "0 < n"
  shows "\<exists>rest. run_match ps cls n s = Some rest \<and> length rest < length s"
  using assms
proof (induction ps)
  case Nil
  then show ?case by (simp add: run_word_def)
next
  case (Cons p ps)
  let ?after = "drop (length p) s"
  show ?case
  proof (cases "prefix p s \<and> n \<le> length (takeWhile cls ?after)")
    case True
    have "length (takeWhile cls ?after) + length (dropWhile cls ?after) = length ?after"
      by (metis length_append takeWhile_dropWhile_id)
    then have "length (dropWhile cls ?after) < length s" using True Cons.prems(3) by (simp add: le_diff_conv) linarith
    with True show ?thesis by (simp add: Let_def)
  next
    case False
    have "\<not> (prefix p w \<and> length w = length p + n \<and> list_all cls (drop (length p) w))"
    proof
      assume w: "prefix p w \<and> length w = length p + n \<and> list_all cls (drop (length p) w)"
      obtain t where t: "s = w @ t" using Cons.prems(2) by (auto simp: prefix_def)
      obtain u where u: "w = p @ u" using w by (auto simp: prefix_def)
      have "takeWhile cls ?after = u @ takeWhile cls t"
        using t u w by (simp add: takeWhile_append2 list_all_iff)
      then show False using False t u w by simp
    qed
    with Cons.prems have "run_word ps cls n w" by (simp add: run_word_def)
    with Cons False show ?thesis by (auto simp: Let_def)
  qed
qed

lemma run_word_secret:
  assumes "list_all (\<lambda>p. 9 \<le> length p + n \<and> set p \<inter> set ''[:]'' = {}) ps" "\<not> cls (CHR ''['')" "\<not> cls (CHR '':'')" "\<not> cls (CHR '']'')"
  shows "secret_words (run_word ps cls n)"
proof -
  have "set w \<inter> set ''[:]'' = {} \<and> 9 \<le> length w" if "run_word ps cls n w" for w
  proof -
    from that obtain p u where w: "p \<in> set ps" "w = p @ u" "length u = n" "list_all cls u"
      by (auto simp: run_word_def list_ex_iff prefix_def)
    then have "set u \<inter> set ''[:]'' = {}" using assms(2-4) by (auto simp: list_all_iff)
    moreover have "set p \<inter> set ''[:]'' = {} \<and> 9 \<le> length p + n" using assms(1) w(1) by (auto simp: list_all_iff)
    ultimately show ?thesis using w(2,3) by (simp add: Int_Un_distrib2)
  qed
  then show ?thesis by (simp add: secret_words_def)
qed

lemma secret_pattern_run:
  assumes "secret_words (run_word ps cls n)" "0 < n"
  shows "secret_pattern (run_match ps cls n) (run_word ps cls n)"
  by unfold_locales (use assms run_match_suffix run_match_finds in blast)+

definition sk_word :: "string \<Rightarrow> bool" where
  "sk_word = run_word [''sk-proj-'', ''sk-''] key_char 16"

definition ltai_word :: "string \<Rightarrow> bool" where
  "ltai_word = run_word [''LTAI''] is_alnum 8"

definition token_word :: "string \<Rightarrow> bool" where
  "token_word = run_word [''ghp_'', ''gho_'', ''glpat-'', ''xoxb-'', ''xoxa-'', ''xoxp-'', ''xoxr-'', ''xoxs-''] token_char 12"

lemma secret_words_known [simp]: "secret_words sk_word" "secret_words ltai_word" "secret_words token_word"
  unfolding sk_word_def ltai_word_def token_word_def
  by (rule run_word_secret; simp add: token_char_def key_char_def is_alnum_def)+

interpretation sk: secret_pattern "run_match [''sk-proj-'', ''sk-''] key_char 16" sk_word
  using secret_words_known(1) unfolding sk_word_def by (intro secret_pattern_run) simp_all

interpretation ltai: secret_pattern "run_match [''LTAI''] is_alnum 8" ltai_word
  using secret_words_known(2) unfolding ltai_word_def by (intro secret_pattern_run) simp_all

interpretation token: secret_pattern
  "run_match [''ghp_'', ''gho_'', ''glpat-'', ''xoxb-'', ''xoxa-'', ''xoxp-'', ''xoxr-'', ''xoxs-''] token_char 12" token_word
  using secret_words_known(3) unfolding token_word_def by (intro secret_pattern_run) simp_all

text \<open>The credentials that the module knows.\<close>

definition secret :: "string \<Rightarrow> bool" where
  "secret w \<longleftrightarrow> sk_word w \<or> ltai_word w \<or> token_word w"

lemma free_of_secret: "free_of secret s \<longleftrightarrow> free_of sk_word s \<and> free_of ltai_word s \<and> free_of token_word s"
  by (auto simp: free_of_def secret_def)

lemma redact_text_free: "free_of secret (redact_text s)"
  unfolding redact_text_def DEFAULT_PATTERNS_def free_of_secret
  by (simp add: sk.sub_other_free ltai.sub_other_free sk.sub_free ltai.sub_free token.sub_free run_match_suffix)

text \<open>
  No text that has passed \<^verbatim>\<open>redact_text\<close> contains a credential of a known form: a key with one of the prefixes
  and at least as many characters of its class as the pattern asks for.
\<close>

theorem redact_text_clean:
  assumes "secret w"
  shows "\<not> sublist w (redact_text text)"
  using redact_text_free assms by (simp add: free_of_def)

theorem redact_text_clean_witness:
  "\<not> sublist ''sk-abcdefghijklmnop'' (redact_text ''key sk-abcdefghijklmnopq'')"
proof -
  have "sk_word ''sk-abcdefghijklmnop''" unfolding sk_word_def by code_simp
  then have "secret ''sk-abcdefghijklmnop''" by (simp add: secret_def)
  from redact_text_clean [OF this] show ?thesis .
qed

subsection \<open>Texts made of redacted parts\<close>

lemma run_word_chars: "run_word ps cls n w \<Longrightarrow> (\<And>c. cls c \<Longrightarrow> token_char c) \<Longrightarrow> list_all (list_all token_char) ps \<Longrightarrow> list_all token_char w"
  by (auto simp: run_word_def list_ex_iff list_all_iff prefix_def)

lemma secret_chars: "secret w \<Longrightarrow> list_all token_char w"
  unfolding secret_def sk_word_def ltai_word_def token_word_def
  by (elim disjE; erule run_word_chars) (simp_all add: token_char_def key_char_def is_alnum_def)

lemma secret_long: "secret w \<Longrightarrow> 12 \<le> length w"
  by (auto simp: secret_def sk_word_def ltai_word_def token_word_def run_word_def)

lemma prefix_before: "prefix w (x @ c # y) \<Longrightarrow> c \<notin> set w \<Longrightarrow> prefix w x"
  by (auto simp: prefix_append prefix_Cons)

lemma sublist_before: "sublist w (x @ c # y) \<Longrightarrow> c \<notin> set w \<Longrightarrow> sublist w x \<or> sublist w y"
proof (induction x)
  case Nil
  then show ?case by (cases w) (auto simp: sublist_Cons_right)
next
  case (Cons a x)
  then show ?case using prefix_before [of w "a # x" c y] by (auto simp: sublist_Cons_right)
qed

lemma free_of_separated:
  assumes "\<not> token_char c" "free_of secret x" "free_of secret y"
  shows "free_of secret (x @ c # y)"
proof (unfold free_of_def, intro allI impI notI)
  fix w
  assume w: "secret w" "sublist w (x @ c # y)"
  have "c \<notin> set w" using secret_chars [OF w(1)] assms(1) by (auto simp: list_all_iff)
  from sublist_before [OF w(2) this] show False using w(1) assms(2,3) by (auto simp: free_of_def)
qed

lemma free_of_short: "length s < 12 \<Longrightarrow> free_of secret s"
  using secret_long sublist_length_le by (fastforce simp: free_of_def)

lemma free_of_join:
  assumes "\<not> token_char c" and "\<forall>x \<in> set xs. free_of secret x"
  shows "free_of secret (join [c] xs)"
  using assms
proof (induction "[c]" xs rule: join.induct)
  case 1
  then show ?case by (simp add: free_of_short)
next
  case (2 x)
  then show ?case by simp
next
  case (3 x y ys)
  then show ?case by (simp add: free_of_separated)
qed

lemma not_token_chars [simp]: "\<not> token_char (CHR 0x0A)" "\<not> token_char (CHR '' '')" "\<not> token_char (CHR '':'')"
  by (simp_all add: token_char_def key_char_def is_alnum_def)

lemma actionable_lines_free: "l \<in> set (actionable_lines (redact_text text)) \<Longrightarrow> free_of secret l"
proof -
  assume "l \<in> set (actionable_lines (redact_text text))"
  then have "l \<in> set (filter is_actionable (map strip (splitlines (redact_text text))))"
    unfolding actionable_lines_def by (rule in_set_takeD)
  then obtain k where "k \<in> set (splitlines (redact_text text))" "l = strip k" by auto
  then have "sublist l (redact_text text)"
    using strip_sublist splitlines_sublist sublist_order.order.trans by blast
  then show "free_of secret l" using redact_text_free free_of_sublist by blast
qed

lemma rstrip_prefix: "prefix (rstrip s) s"
  unfolding rstrip_def using suffix_dropWhile [of is_space "rev s"] by (simp add: suffix_to_prefix)

text \<open>
  The feedback given to the model fits its limit and names no credential of the log, whatever the log holds, as
  long as the source type and the category hold none; it is the message of the stored row.
\<close>

theorem feedback_bounded_clean:
  assumes "13 \<le> n" and "free_of secret (fo_source_type source)" and "free_of secret (fo_category source)"
  shows "int (length (feedback_message n source)) \<le> n \<and> free_of secret (feedback_message n source) \<and>
    fs_summary (last (feedback_signals (fst (feedback_create n task source d)))) = feedback_message n source"
proof -
  define facts where "facts = [fo_source_type source @ '':'' @ fo_category source,
      if fo_retryable source then ''retryable'' else ''not retryable''] @ actionable_lines (redact_text (fo_log_text source))"
  define message where "message = join [CHR 0x0A] (dedupe facts)"
  have "free_of secret (''not'' @ CHR '' '' # ''retryable'')"
    by (intro free_of_separated free_of_short) simp_all
  then have "\<forall>x \<in> set facts. free_of secret x"
    using assms(2,3) actionable_lines_free free_of_separated [of "CHR '':''" "fo_source_type source" "fo_category source"]
    by (auto simp: facts_def free_of_short)
  then have free: "free_of secret message" by (simp add: message_def free_of_join)
  let ?cut = "take (nat (n - 13)) message"
  have msg: "feedback_message n source =
      (if int (length message) \<le> n then message else rstrip ?cut @ CHR 0x0A # ''[truncated]'')"
    using assms(1) by (simp add: feedback_message_def message_def facts_def Let_def)
  have "sublist (rstrip ?cut) message"
    by (meson prefix_imp_sublist prefix_order.trans rstrip_prefix take_is_prefix)
  then have "free_of secret (rstrip ?cut @ CHR 0x0A # ''[truncated]'')"
    using free_of_sublist [OF free] by (intro free_of_separated free_of_short [of "''[truncated]''"]) simp_all
  moreover have "length (rstrip ?cut) \<le> nat (n - 13)"
    using prefix_length_le [OF rstrip_prefix, of ?cut] by simp
  ultimately show ?thesis
    using free assms(1) msg by (simp add: feedback_create_def Let_def) linarith
qed

theorem feedback_bounded_clean_witness:
  "int (length (feedback_message 20 \<lparr>fo_source_type = ''validation'', fo_category = [], fo_retryable = True,
     fo_log_text = ''FAILED sk-abcdefghijklmnop'', fo_artifact_ref = ''log''\<rparr>)) \<le> 20"
proof -
  let ?src = "\<lparr>fo_source_type = ''validation'', fo_category = [], fo_retryable = True,
     fo_log_text = ''FAILED sk-abcdefghijklmnop'', fo_artifact_ref = ''log''\<rparr>"
  have "free_of secret (fo_source_type ?src)" "free_of secret (fo_category ?src)" by (simp_all add: free_of_short)
  with feedback_bounded_clean [of 20 ?src "''t1''" empty_db] show ?thesis by simp
qed

subsection \<open>The event bus\<close>

text \<open>Where \<^verbatim>\<open>_sanitize\<close> reaches: strings, and the values of dictionaries, but not the items of lists.\<close>

fun clean_value :: "json \<Rightarrow> bool" where
  "clean_value (JStr s) = free_of secret s"
| "clean_value (JObj kvs) = list_all (\<lambda>kv. clean_value (snd kv)) kvs"
| "clean_value v = True"

lemma sanitize_clean: "clean_value (sanitize v)"
  by (induction v) (auto simp: redact_text_free list_all_iff)

definition bus_inv :: "EventBus \<Rightarrow> bool" where
  "bus_inv bus \<longleftrightarrow> eb_next_id bus = int (length (eb_events bus)) + 1 \<and>
     map bus_event_id (eb_events bus) = map int [1..<Suc (length (eb_events bus))] \<and>
     (\<forall>e \<in> set (eb_events bus). \<forall>kv \<in> set (bus_payload e). clean_value (snd kv))"

definition bus_exec :: "string \<times> string \<times> (string \<times> json) list \<Rightarrow> EventBus \<Rightarrow> EventBus" where
  "bus_exec e bus = fst (publish (fst e) (fst (snd e)) (snd (snd e)) bus)"

interpretation event_bus: service_machine bus_exec bus_inv
  by unfold_locales (auto simp: bus_exec_def bus_inv_def publish_def Let_def sanitize_clean)

interpretation event_log: append_only_machine bus_exec eb_events
  by unfold_locales (simp add: bus_exec_def publish_def Let_def)

lemma sorted_filter_split:
  fixes f :: "'a \<Rightarrow> 'b::linorder"
  shows "sorted (map f xs) \<Longrightarrow> filter (\<lambda>x. f x \<le> k) xs @ filter (\<lambda>x. k < f x) xs = xs"
proof (induction xs)
  case (Cons x xs)
  then show ?case
  proof (cases "f x \<le> k")
    case False
    with Cons.prems have "filter (\<lambda>x. f x \<le> k) xs = []" "filter (\<lambda>x. k < f x) xs = xs"
      by (auto simp: filter_empty_conv filter_id_conv)
    with False show ?thesis by auto
  qed auto
qed simp

lemma fold_bus_length: "length (eb_events (fold bus_exec es bus)) = length (eb_events bus) + length es"
  by (induction es arbitrary: bus) (auto simp: bus_exec_def publish_def Let_def)

text \<open>
  Over any sequence of publications the bus numbers its events from one without gaps, holds no credential in the
  strings and dictionaries of a payload, and a subscriber that replays from the last event it has seen receives,
  with what it had, exactly the events of its task in order.
\<close>

theorem bus_replay_complete:
  assumes bus: "bus = fold bus_exec es empty_bus" and seen: "0 \<le> k"
  shows "map bus_event_id (eb_events bus) = map int [1..<Suc (length es)] \<and>
    (\<forall>e \<in> set (eb_events bus). \<forall>kv \<in> set (bus_payload e). clean_value (snd kv)) \<and>
    filter (\<lambda>e. bus_event_id e \<le> k) (replay task None bus) @ replay task (Some k) bus = replay task None bus"
proof -
  have inv: "bus_inv bus"
    unfolding bus by (rule event_bus.run_inv) (simp add: bus_inv_def empty_bus_def)
  have len: "length (eb_events bus) = length es" by (simp add: bus fold_bus_length empty_bus_def)
  have ids: "map bus_event_id (eb_events bus) = map int [1..<Suc (length es)]"
    using inv len by (simp add: bus_inv_def)
  let ?mine = "filter (\<lambda>e. bus_task_id e = task) (eb_events bus)"
  have "bus_event_id ` set (eb_events bus) = int ` {1..<Suc (length es)}"
    using arg_cong [OF ids, of set] by (simp del: upt_Suc)
  then have "\<forall>e \<in> set (eb_events bus). 0 < bus_event_id e" by (metis atLeastLessThan_iff imageE image_eqI of_nat_0_less_iff zero_less_one less_le_trans)
  then have all: "replay task None bus = ?mine" by (auto simp: replay_def Let_def intro!: filter_cong)
  have later: "replay task (Some k) bus = filter (\<lambda>e. k < bus_event_id e) ?mine"
    by (simp add: replay_def conj_commute)
  have "sorted (map bus_event_id (eb_events bus))" unfolding ids by (simp add: sorted_map del: upt_Suc)
  then have "sorted (map bus_event_id ?mine)" by (rule sorted_filter)
  from sorted_filter_split [OF this, of k] show ?thesis
    using inv ids all later by (simp add: bus_inv_def del: upt_Suc)
qed

definition sample_publications :: "(string \<times> string \<times> (string \<times> json) list) list" where
  "sample_publications = [(''t1'', ''STARTED'', []), (''t2'', ''STARTED'', []),
     (''t1'', ''LOG'', [(''text'', JStr ''sk-abcdefghijklmnop'')])]"

theorem bus_replay_complete_witness:
  "map bus_event_id (eb_events (fold bus_exec sample_publications empty_bus)) = [1, 2, 3]"
  using bus_replay_complete [OF refl order_refl, of sample_publications] by (simp add: sample_publications_def)

text \<open>
  The items of a list in a payload are published as they are: a credential in a list of log lines reaches every
  subscriber.
\<close>

theorem event_list_leaks:
  "secret ''sk-abcdefghijklmnop'' \<and>
   bus_payload (snd (publish ''t1'' ''LOG'' [(''lines'', JList [JStr ''sk-abcdefghijklmnop''])] empty_bus)) =
     [(''lines'', JList [JStr ''sk-abcdefghijklmnop''])]"
proof -
  have "sk_word ''sk-abcdefghijklmnop''" unfolding sk_word_def by code_simp
  then show ?thesis by (simp add: secret_def publish_def Let_def)
qed

subsection \<open>Evidence bundles\<close>

lemma bundle_lookup_id: "bundle_lookup store r = Some i \<Longrightarrow> ei_evidence_id i = r \<and> i \<in> set store"
  using get_row_Some [of ei_evidence_id r "rev store" i] by (simp add: bundle_lookup_def get_row_def)

lemma bundle_build_Inr:
  "bundle_build digest store task revision req open = Inr b \<longleftrightarrow>
     (\<forall>r \<in> set req. bundle_lookup store r \<noteq> None \<and> ei_revision (the (bundle_lookup store r)) = revision) \<and>
     b = (let items = sort_key ei_evidence_id (map (\<lambda>r. the (bundle_lookup store r)) req);
              assumptions = sort (filter (\<lambda>a. a \<noteq> []) open)
          in \<lparr>bu_task_id = task, bu_revision = revision, bu_items = items, bu_unresolved_assumptions = assumptions,
              bu_bundle_hash = bundle_hash digest task revision items assumptions\<rparr>)"
  by (cases "\<forall>r \<in> set req. bundle_lookup store r \<noteq> None") (auto simp: bundle_build_def Let_def filter_empty_conv)

lemma lookup_inj:
  "\<forall>r \<in> set req. bundle_lookup store r \<noteq> None \<Longrightarrow> inj_on ei_evidence_id ((\<lambda>r. the (bundle_lookup store r)) ` set req)"
  by (auto simp: inj_on_def) (metis bundle_lookup_id option.sel)

text \<open>
  A bundle is built exactly when every required reference names an item of the requested revision; its items are
  the required ones in the order of their ids, so the order in which references and assumptions were collected
  changes neither the bundle nor its hash.
\<close>

theorem bundle_order_independent:
  assumes built: "bundle_build digest store task revision req open = Inr b"
    and req: "mset req' = mset req" and opens: "mset open' = mset open"
  shows "bundle_build digest store task revision req' open' = Inr b \<and>
    ei_evidence_id ` set (bu_items b) = set req \<and> (\<forall>i \<in> set (bu_items b). i \<in> set store \<and> ei_revision i = revision) \<and>
    sorted (map ei_evidence_id (bu_items b))"
proof -
  let ?look = "\<lambda>r. the (bundle_lookup store r)"
  have found: "\<forall>r \<in> set req. bundle_lookup store r \<noteq> None \<and> ei_revision (?look r) = revision"
    and b: "bu_items b = sort_key ei_evidence_id (map ?look req)"
    using built by (auto simp: bundle_build_Inr Let_def)
  have sets: "set req' = set req" using req by (metis set_mset_mset)
  have "sort_key ei_evidence_id (map ?look req') = sort_key ei_evidence_id (map ?look req)"
    using lookup_inj [of req' store] found sets req by (intro sort_key_inj_key_eq) (simp_all add: image_image)
  moreover have "sort (filter (\<lambda>a. a \<noteq> []) open') = sort (filter (\<lambda>a. a \<noteq> []) open)"
    by (rule sort_key_inj_key_eq) (simp_all add: opens)
  ultimately have "bundle_build digest store task revision req' open' = Inr b"
    using built sets by (simp add: bundle_build_Inr Let_def)
  moreover have "ei_evidence_id (?look r) = r \<and> ?look r \<in> set store" if "r \<in> set req" for r
    using found that by (cases "bundle_lookup store r") (auto dest: bundle_lookup_id)
  ultimately show ?thesis using found b by (simp add: image_image)
qed

definition sample_evidence :: "EvidenceItem list" where
  "sample_evidence = map (\<lambda>i. \<lparr>ei_evidence_id = i, ei_kind = ''test'', ei_revision = ''r'', ei_uri = i, ei_summary = [],
     ei_freshness = ''fresh'', ei_confidence = ''high'', ei_verified = True\<rparr>) [''e1'', ''e2'']"

theorem bundle_order_independent_witness:
  "\<exists>b. bundle_build (\<lambda>j. json_str j) sample_evidence ''t1'' ''r'' [''e2'', ''e1''] [] = Inr b \<and>
     map ei_evidence_id (bu_items b) = [''e1'', ''e2'']"
proof -
  have "\<not> isl (bundle_build (\<lambda>j. json_str j) sample_evidence ''t1'' ''r'' [''e1'', ''e2''] [])" by code_simp
  then obtain b where b: "bundle_build (\<lambda>j. json_str j) sample_evidence ''t1'' ''r'' [''e1'', ''e2''] [] = Inr b"
    by (cases "bundle_build (\<lambda>j. json_str j) sample_evidence ''t1'' ''r'' [''e1'', ''e2''] []") auto
  have "map_sum id (\<lambda>b. map ei_evidence_id (bu_items b))
      (bundle_build (\<lambda>j. json_str j) sample_evidence ''t1'' ''r'' [''e1'', ''e2''] []) = Inr [''e1'', ''e2'']" by code_simp
  then have "map ei_evidence_id (bu_items b) = [''e1'', ''e2'']" using b by simp
  with bundle_order_independent [OF b, of "[''e2'', ''e1'']" "[]"] show ?thesis by auto
qed

lemma isolate_repository_text_clean: "free_of secret (ir_text (isolate_repository_text ref text))"
  using redact_text_free [of "text"] unfolding isolate_repository_text_def redact_repository_text_def free_of_secret
  by (simp add: sk.sub_other_free ltai.sub_other_free token.sub_other_free run_match_suffix)

end
