(* ===== verification/Tasks.thy ===== *)
theory Tasks
  imports Paths
begin

section \<open>Tasks: the task state machine and the task service\<close>

text \<open>
  \<^verbatim>\<open>tasks/state_machine.py\<close> and \<^verbatim>\<open>tasks/task_service.py\<close>. The service keeps an in-memory dictionary
  of idempotency keys beside the database; both are the state of its operations.
\<close>

subsection \<open>\<^verbatim>\<open>tasks/state_machine.py\<close>\<close>

text \<open>The dictionary has no entry for \<open>NEEDS_INFORMATION\<close>.\<close>

fun LEGAL_TRANSITIONS :: "TaskStatus \<Rightarrow> TaskStatus list option" where
  "LEGAL_TRANSITIONS TaskStatus.CREATED =
     Some [TaskStatus.WAITING_FOR_LOCK, TaskStatus.BLOCKED, TaskStatus.CANCELLED]"
| "LEGAL_TRANSITIONS TaskStatus.WAITING_FOR_LOCK =
     Some [TaskStatus.INITIALIZING, TaskStatus.BLOCKED, TaskStatus.CANCELLED]"
| "LEGAL_TRANSITIONS TaskStatus.INITIALIZING =
     Some [TaskStatus.CONTEXT_BUILDING, TaskStatus.BLOCKED]"
| "LEGAL_TRANSITIONS TaskStatus.CONTEXT_BUILDING =
     Some [TaskStatus.DECIDING, TaskStatus.PAUSED, TaskStatus.BLOCKED]"
| "LEGAL_TRANSITIONS TaskStatus.DECIDING =
     Some [TaskStatus.PROPOSAL_REVIEW, TaskStatus.GOVERNING, TaskStatus.BLOCKED]"
| "LEGAL_TRANSITIONS TaskStatus.PROPOSAL_REVIEW =
     Some [TaskStatus.GOVERNING, TaskStatus.PAUSED, TaskStatus.BLOCKED]"
| "LEGAL_TRANSITIONS TaskStatus.GOVERNING =
     Some [TaskStatus.APPROVAL_REQUIRED, TaskStatus.ACTION_PENDING, TaskStatus.BLOCKED]"
| "LEGAL_TRANSITIONS TaskStatus.APPROVAL_REQUIRED =
     Some [TaskStatus.ACTION_PENDING, TaskStatus.PAUSED, TaskStatus.BLOCKED]"
| "LEGAL_TRANSITIONS TaskStatus.ACTION_PENDING =
     Some [TaskStatus.EXECUTING, TaskStatus.BLOCKED, TaskStatus.CANCELLED]"
| "LEGAL_TRANSITIONS TaskStatus.EXECUTING =
     Some [TaskStatus.VALIDATING, TaskStatus.REPAIRING, TaskStatus.BLOCKED, TaskStatus.FAILED]"
| "LEGAL_TRANSITIONS TaskStatus.VALIDATING =
     Some [TaskStatus.KNOWLEDGE_UPDATING, TaskStatus.REPAIRING, TaskStatus.COMPLETED,
       TaskStatus.BLOCKED]"
| "LEGAL_TRANSITIONS TaskStatus.REPAIRING =
     Some [TaskStatus.CONTEXT_BUILDING, TaskStatus.STAGNATION_WARNING, TaskStatus.FAILED]"
| "LEGAL_TRANSITIONS TaskStatus.STAGNATION_WARNING =
     Some [TaskStatus.PAUSED, TaskStatus.REPAIRING, TaskStatus.BLOCKED]"
| "LEGAL_TRANSITIONS TaskStatus.PAUSED =
     Some [TaskStatus.CONTEXT_BUILDING, TaskStatus.CANCELLED]"
| "LEGAL_TRANSITIONS TaskStatus.KNOWLEDGE_UPDATING =
     Some [TaskStatus.COMPLETED, TaskStatus.FAILED]"
| "LEGAL_TRANSITIONS TaskStatus.ROLLING_BACK =
     Some [TaskStatus.FAILED, TaskStatus.BLOCKED]"
| "LEGAL_TRANSITIONS TaskStatus.COMPLETED = Some []"
| "LEGAL_TRANSITIONS TaskStatus.FAILED = Some []"
| "LEGAL_TRANSITIONS TaskStatus.BLOCKED = Some [TaskStatus.CANCELLED]"
| "LEGAL_TRANSITIONS TaskStatus.CANCELLED = Some []"
| "LEGAL_TRANSITIONS TaskStatus.NEEDS_INFORMATION = None"

definition can_transition :: "TaskStatus \<Rightarrow> TaskStatus \<Rightarrow> bool result" where
  "can_transition current target =
     (case LEGAL_TRANSITIONS current of
        None \<Rightarrow> Inl (KeyError (task_status_str current))
      | Some targets \<Rightarrow> Inr (target \<in> set targets))"

subsection \<open>\<^verbatim>\<open>tasks/task_service.py\<close>\<close>

record TaskCreationRequest =
  rq_project_id :: string
  rq_original_request :: string
  rq_requester_id :: "string option"
  rq_base_revision :: "string option"
  rq_token_budget :: int

record TaskCommandResult =
  cr_accepted :: bool
  cr_reason :: string
  cr_task_id :: string
  cr_status :: TaskStatus

abbreviation command_result :: "bool \<Rightarrow> string \<Rightarrow> string \<Rightarrow> TaskStatus \<Rightarrow> TaskCommandResult" where
  "command_result a r t s \<equiv> \<lparr>cr_accepted = a, cr_reason = r, cr_task_id = t, cr_status = s\<rparr>"

text \<open>The service: its idempotency dictionary and the database.\<close>

record task_service =
  ts_idempotency :: "string \<Rightarrow> string option"
  ts_db :: db

definition task_audit :: "string \<Rightarrow> string \<Rightarrow> string \<Rightarrow> json \<Rightarrow> AuditEvent" where
  "task_audit task_id actor_id summary evidence =
     \<lparr>ae_task_id = Some task_id,
      ae_correlation_id = ''task:'' @ task_id @ '':'' @ summary,
      ae_actor_type = AuditActorType.USER,
      ae_actor_id = actor_id,
      ae_event_type = EventType.TASK_CREATED,
      ae_payload_summary = summary,
      ae_evidence_json = JText evidence\<rparr>"

definition new_task :: "string \<Rightarrow> TaskCreationRequest \<Rightarrow> ChangeTask" where
  "new_task new_id request =
     \<lparr>tk_id = new_id, tk_project_id = rq_project_id request,
      tk_requester_id = rq_requester_id request,
      tk_original_request = rq_original_request request,
      tk_base_revision = rq_base_revision request,
      tk_base_workspace_hash = Some (''token_budget:'' @ show_int (rq_token_budget request)),
      tk_status = TaskStatus.CREATED, tk_active_proposal_id = None, tk_active_policy_id = None,
      tk_workspace_lock_id = None, tk_transaction_id = None,
      tk_iteration_count = 0, tk_repair_count = 0, tk_stagnation_count = 0,
      tk_finished_at = None, tk_failure_code = None, tk_failure_message = None, tk_version = 1\<rparr>"

definition create_task :: "string \<Rightarrow> TaskCreationRequest \<Rightarrow> string \<Rightarrow> string \<Rightarrow> task_service \<Rightarrow>
    task_service \<times> TaskCommandResult result" where
  "create_task new_id request actor_id idempotency_key svc =
     (let d = ts_db svc
      in case ts_idempotency svc idempotency_key of
           Some existing \<Rightarrow>
             (case get_task d existing of
                None \<Rightarrow> (svc, Inl (ValueError ''idempotent task disappeared''))
              | Some task \<Rightarrow>
                  (svc, Inr (command_result True ''IDEMPOTENT_REPLAY'' (tk_id task) (tk_status task))))
         | None \<Rightarrow>
             (let task = new_task new_id request;
                  d' = d\<lparr>tasks := tasks d @ [task],
                         audit_events := audit_events d @
                           [task_audit (tk_id task) actor_id ''task created''
                              (JObj [(''token_budget'', JInt (rq_token_budget request))])]\<rparr>
              in (svc\<lparr>ts_idempotency := (ts_idempotency svc)(idempotency_key := Some (tk_id task)),
                      ts_db := d'\<rparr>,
                  Inr (command_result True ''CREATED'' (tk_id task) (tk_status task)))))"

definition finishing_status :: "TaskStatus \<Rightarrow> bool" where
  "finishing_status target = (target \<in> {TaskStatus.COMPLETED, TaskStatus.FAILED,
     TaskStatus.CANCELLED, TaskStatus.BLOCKED})"

definition replay_key :: "string \<Rightarrow> TaskStatus \<Rightarrow> string" where
  "replay_key task_id target = task_id @ '':'' @ task_status_str target"

definition move_task :: "int \<Rightarrow> TaskStatus \<Rightarrow> ChangeTask \<Rightarrow> ChangeTask" where
  "move_task now target t = t\<lparr>tk_status := target, tk_version := tk_version t + 1,
     tk_finished_at := (if finishing_status target then Some now else tk_finished_at t)\<rparr>"

definition transition :: "int \<Rightarrow> string \<Rightarrow> TaskStatus \<Rightarrow> string \<Rightarrow> string \<Rightarrow> task_service \<Rightarrow>
    task_service \<times> TaskCommandResult result" where
  "transition now task_id target actor_id idempotency_key svc =
     (let d = ts_db svc; replay = ts_idempotency svc idempotency_key
      in case get_task d task_id of
           None \<Rightarrow> (svc, Inl (ValueError ''task not found''))
         | Some task \<Rightarrow>
             (let current = tk_status task
              in if replay = Some (replay_key task_id target)
                 then (svc, Inr (command_result True ''IDEMPOTENT_REPLAY'' task_id current))
                 else if current = TaskStatus.BLOCKED \<and> target = TaskStatus.EXECUTING
                 then (svc, Inr (command_result False ''BLOCKED_TASK_CANNOT_EXECUTE'' task_id current))
                 else (case can_transition current target of
                         Inl e \<Rightarrow> (svc, Inl e)
                       | Inr False \<Rightarrow>
                           (svc, Inr (command_result False ''ILLEGAL_TRANSITION'' task_id current))
                       | Inr True \<Rightarrow>
                           (let summary = task_status_str current @ ''->'' @ task_status_str target;
                                d' = d\<lparr>tasks := set_row tk_id task_id (move_task now target) (tasks d),
                                       audit_events := audit_events d @
                                         [task_audit task_id actor_id summary
                                            (JObj [(''from'', JStr (task_status_str current)),
                                                   (''to'', JStr (task_status_str target))])]\<rparr>
                            in (svc\<lparr>ts_idempotency :=
                                      (ts_idempotency svc)(idempotency_key := Some (replay_key task_id target)),
                                    ts_db := d'\<rparr>,
                                Inr (command_result True ''TRANSITIONED'' task_id target))))))"

subsection \<open>The machine's graph\<close>

inductive task_step :: "TaskStatus \<Rightarrow> TaskStatus \<Rightarrow> bool" where
  step: "can_transition s t = Inr True \<Longrightarrow> task_step s t"

inductive_simps task_step_iff: "task_step s t"

lemma task_step_legal: "task_step s t \<longleftrightarrow> (\<exists>ts. LEGAL_TRANSITIONS s = Some ts \<and> t \<in> set ts)"
  by (auto simp: task_step_iff can_transition_def split: option.splits)

lemma can_transition_defined: "s \<noteq> TaskStatus.NEEDS_INFORMATION \<Longrightarrow> \<exists>b. can_transition s t = Inr b"
  by (cases s) (auto simp: can_transition_def)

text \<open>The states a task can be in before governance has looked at it.\<close>

definition before_governance :: "TaskStatus \<Rightarrow> bool" where
  "before_governance s = (s \<in> {TaskStatus.CREATED, TaskStatus.WAITING_FOR_LOCK,
     TaskStatus.INITIALIZING, TaskStatus.CONTEXT_BUILDING, TaskStatus.DECIDING,
     TaskStatus.PROPOSAL_REVIEW, TaskStatus.PAUSED, TaskStatus.BLOCKED, TaskStatus.CANCELLED})"

lemma before_governance_targets:
  "before_governance s \<Longrightarrow> LEGAL_TRANSITIONS s = Some ts \<Longrightarrow>
     \<forall>t \<in> set ts. t = TaskStatus.GOVERNING \<or> before_governance t"
  by (cases s) (auto simp: before_governance_def)

lemma before_governance_step:
  "before_governance s \<Longrightarrow> task_step s t \<Longrightarrow> t = TaskStatus.GOVERNING \<or> before_governance t"
  unfolding task_step_legal by (elim exE conjE) (drule (1) before_governance_targets, drule (1) bspec)

fun legal_path :: "TaskStatus list \<Rightarrow> bool" where
  "legal_path [] = True"
| "legal_path [s] = True"
| "legal_path (s # t # ts) = (can_transition s t = Inr True \<and> legal_path (t # ts))"

lemma legal_path_stays_before:
  "legal_path path \<Longrightarrow> path \<noteq> [] \<Longrightarrow> before_governance (hd path) \<Longrightarrow>
     TaskStatus.GOVERNING \<notin> set path \<Longrightarrow> \<forall>s \<in> set path. before_governance s"
proof (induction path rule: legal_path.induct)
  case 1
  then show ?case by simp
next
  case (2 s)
  then show ?case by simp
next
  case (3 s t ts)
  have "can_transition s t = Inr True" using 3(2) by simp
  then have "task_step s t" by (rule task_step.step)
  moreover have "before_governance s" "t \<noteq> TaskStatus.GOVERNING" using 3(4,5) by auto
  ultimately have t: "before_governance t" using before_governance_step by blast
  have "\<forall>s \<in> set (t # ts). before_governance s"
    using 3(2,5) t by (intro 3(1)) simp_all
  with \<open>before_governance s\<close> show ?case by simp
qed

text \<open>Sequences of service commands.\<close>

datatype task_command =
    Create string TaskCreationRequest string string
  | Transition int string TaskStatus string string

fun task_exec :: "task_command \<Rightarrow> task_service \<Rightarrow> task_service" where
  "task_exec (Create new_id request actor key) svc =
     (if get_task (ts_db svc) new_id = None then fst (create_task new_id request actor key svc)
      else svc)"
| "task_exec (Transition now task_id target actor key) svc =
     fst (transition now task_id target actor key svc)"

definition task_row_ok :: "ChangeTask \<Rightarrow> bool" where
  "task_row_ok t \<longleftrightarrow> task_checks t \<and>
     tk_status t \<noteq> TaskStatus.NEEDS_INFORMATION \<and> tk_status t \<noteq> TaskStatus.ROLLING_BACK \<and>
     (finishing_status (tk_status t) \<longrightarrow> tk_finished_at t \<noteq> None)"

definition task_rows_ok :: "task_service \<Rightarrow> bool" where
  "task_rows_ok svc \<longleftrightarrow> keys_distinct tk_id (tasks (ts_db svc)) \<and>
     (\<forall>t \<in> set (tasks (ts_db svc)). task_row_ok t)"

lemma move_task_simps [simp]:
  "tk_id (move_task now target t) = tk_id t"
  "tk_status (move_task now target t) = target"
  "tk_version (move_task now target t) = tk_version t + 1"
  "tk_project_id (move_task now target t) = tk_project_id t"
  by (simp_all add: move_task_def)

lemma no_step_into_dead_states:
  "can_transition s t = Inr True \<Longrightarrow>
     t \<noteq> TaskStatus.NEEDS_INFORMATION \<and> t \<noteq> TaskStatus.ROLLING_BACK"
  by (cases s) (auto simp: can_transition_def)

lemma transition_cases:
  obtains (missing) "get_task (ts_db svc) task_id = None"
      "transition now task_id target actor key svc = (svc, Inl (ValueError ''task not found''))"
  | (replay) task where "get_task (ts_db svc) task_id = Some task"
      "ts_idempotency svc key = Some (replay_key task_id target)"
      "transition now task_id target actor key svc =
         (svc, Inr (command_result True ''IDEMPOTENT_REPLAY'' task_id (tk_status task)))"
  | (refused) task res where "get_task (ts_db svc) task_id = Some task"
      "transition now task_id target actor key svc = (svc, res)"
      "(case res of Inl e \<Rightarrow> tk_status task = TaskStatus.NEEDS_INFORMATION | Inr r \<Rightarrow> \<not> cr_accepted r)"
  | (moved) task audit where "get_task (ts_db svc) task_id = Some task"
      "can_transition (tk_status task) target = Inr True"
      "transition now task_id target actor key svc =
         (svc\<lparr>ts_idempotency := (ts_idempotency svc)(key := Some (replay_key task_id target)),
              ts_db := (ts_db svc)\<lparr>tasks := set_row tk_id task_id (move_task now target) (tasks (ts_db svc)),
                 audit_events := audit_events (ts_db svc) @ [audit]\<rparr>\<rparr>,
          Inr (command_result True ''TRANSITIONED'' task_id target))"
      "ae_task_id audit = Some task_id"
      "ae_payload_summary audit = task_status_str (tk_status task) @ ''->'' @ task_status_str target"
proof (cases "get_task (ts_db svc) task_id")
  case None
  then show thesis using missing by (simp add: transition_def)
next
  case (Some task)
  show thesis
  proof (cases "ts_idempotency svc key = Some (replay_key task_id target)")
    case True
    with Some show thesis using replay [of task] by (simp add: transition_def)
  next
    case no_replay: False
    show thesis
    proof (cases "can_transition (tk_status task) target = Inr True")
      case True
      then have "\<not> (tk_status task = TaskStatus.BLOCKED \<and> target = TaskStatus.EXECUTING)"
        by (auto simp: can_transition_def)
      with True Some no_replay show thesis
        by (intro moved [OF Some True, where audit = "task_audit task_id actor
              (task_status_str (tk_status task) @ ''->'' @ task_status_str target)
              (JObj [(''from'', JStr (task_status_str (tk_status task))),
                     (''to'', JStr (task_status_str target))])"])
          (simp_all add: transition_def Let_def task_audit_def)
    next
      case False
      have "tk_status task = TaskStatus.NEEDS_INFORMATION \<or>
        (\<exists>b. can_transition (tk_status task) target = Inr b)"
        using can_transition_defined by blast
      with False Some no_replay show thesis
        using refused [OF Some, of "snd (transition now task_id target actor key svc)"]
        by (auto simp: transition_def Let_def can_transition_def split: bool.splits sum.splits option.splits)
    qed
  qed
qed

lemma move_task_ok:
  assumes "can_transition s target = Inr True" and "task_row_ok t"
  shows "task_row_ok (move_task now target t)"
  using assms no_step_into_dead_states [OF assms(1)]
  by (simp add: task_row_ok_def task_checks_def move_task_def)

lemma new_task_ok: "task_row_ok (new_task new_id request)"
  by (simp add: task_row_ok_def task_checks_def new_task_def finishing_status_def)

lemma create_task_rows_ok:
  assumes "task_rows_ok svc" and "get_task (ts_db svc) new_id = None"
  shows "task_rows_ok (fst (create_task new_id request actor key svc))"
proof -
  have "tk_id (new_task new_id request) = new_id" by (simp add: new_task_def)
  with assms show ?thesis
    by (auto simp: create_task_def Let_def task_rows_ok_def new_task_ok split: option.splits)
qed

lemma transition_rows_ok:
  assumes "task_rows_ok svc"
  shows "task_rows_ok (fst (transition now task_id target actor key svc))"
proof (cases rule: transition_cases [where svc = svc and task_id = task_id and now = now
      and target = target and actor = actor and key = key])
  case (moved task audit)
  have "\<forall>t \<in> set (set_row tk_id task_id (move_task now target) (tasks (ts_db svc))). task_row_ok t"
    using assms by (intro ball_set_rowI) (auto simp: task_rows_ok_def intro: move_task_ok [OF moved(2)])
  with assms moved(3) show ?thesis by (simp add: task_rows_ok_def)
qed (use assms in auto)

lemma task_exec_rows_ok: "task_rows_ok svc \<Longrightarrow> task_rows_ok (task_exec cmd svc)"
  by (cases cmd) (auto intro: create_task_rows_ok transition_rows_ok)

interpretation task_machine: service_machine task_exec task_rows_ok
  by unfold_locales (rule task_exec_rows_ok)

lemma task_exec_log:
  "prefix (audit_events (ts_db svc)) (audit_events (ts_db (task_exec cmd svc)))"
proof (cases cmd)
  case (Create new_id request actor key)
  then show ?thesis by (auto simp: create_task_def Let_def split: option.splits)
next
  case (Transition now task_id target actor key)
  then show ?thesis
    by (cases rule: transition_cases [where svc = svc and task_id = task_id and now = now and target = target
      and actor = actor and key = key]) auto
qed

interpretation task_log: append_only_machine task_exec "\<lambda>svc. audit_events (ts_db svc)"
  by unfold_locales (rule task_exec_log)

subsection \<open>Properties of the service\<close>

definition sample_request :: TaskCreationRequest where
  "sample_request = \<lparr>rq_project_id = ''p1'', rq_original_request = ''fix'', rq_requester_id = None,
     rq_base_revision = None, rq_token_budget = 1000\<rparr>"

definition empty_service :: task_service where
  "empty_service = \<lparr>ts_idempotency = (\<lambda>_. None), ts_db = empty_db\<rparr>"

definition sample_service :: task_service where
  "sample_service = fst (create_task ''t1'' sample_request ''alice'' ''k0'' empty_service)"

text \<open>
  (C23) A transition either moves the task along a legal edge, incrementing its version, stamping the end
  time of a finishing status and appending one audit event, or leaves the whole service state unchanged.
\<close>

theorem transition_effect:
  assumes "transition now task_id target actor key svc = (svc', res)"
  shows "svc' = svc \<or>
    (\<exists>task audit. get_task (ts_db svc) task_id = Some task \<and>
       can_transition (tk_status task) target = Inr True \<and>
       get_task (ts_db svc') task_id = Some (move_task now target task) \<and>
       tk_status (move_task now target task) = target \<and>
       tk_version (move_task now target task) = tk_version task + 1 \<and>
       (finishing_status target \<longrightarrow> tk_finished_at (move_task now target task) = Some now) \<and>
       (\<forall>other. other \<noteq> task_id \<longrightarrow> get_task (ts_db svc') other = get_task (ts_db svc) other) \<and>
       audit_events (ts_db svc') = audit_events (ts_db svc) @ [audit] \<and> ae_task_id audit = Some task_id)"
proof (cases rule: transition_cases [where svc = svc and task_id = task_id and now = now and target = target
      and actor = actor and key = key])
  case (moved task audit)
  have "svc' = svc\<lparr>ts_idempotency := (ts_idempotency svc)(key := Some (replay_key task_id target)),
     ts_db := (ts_db svc)\<lparr>tasks := set_row tk_id task_id (move_task now target) (tasks (ts_db svc)),
                 audit_events := audit_events (ts_db svc) @ [audit]\<rparr>\<rparr>"
    using moved(3) assms by simp
  then show ?thesis
    using moved by (intro disjI2 exI [of _ task] exI [of _ audit])
      (simp add: get_row_set_row, simp add: move_task_def)
qed (use assms in auto)

theorem transition_effect_witness:
  "\<exists>task. get_task (ts_db (fst (transition 7 ''t1'' TaskStatus.CANCELLED ''alice'' ''k1'' sample_service))) ''t1'' =
     Some task \<and> tk_status task = TaskStatus.CANCELLED"
proof -
  let ?r = "transition 7 ''t1'' TaskStatus.CANCELLED ''alice'' ''k1'' sample_service"
  have "audit_events (ts_db (fst ?r)) \<noteq> audit_events (ts_db sample_service)" by code_simp
  then have "fst ?r \<noteq> sample_service" by auto
  then show ?thesis
    using transition_effect [of 7 "''t1''" TaskStatus.CANCELLED "''alice''" "''k1''" sample_service "fst ?r" "snd ?r"]
    by auto
qed

text \<open>
  Governance precedes execution: every legal path of the task machine from \<open>CREATED\<close> to
  \<open>EXECUTING\<close> passes \<open>GOVERNING\<close>.
\<close>

theorem execution_needs_governance:
  assumes "legal_path path" and "path \<noteq> []" and "hd path = TaskStatus.CREATED"
    and "last path = TaskStatus.EXECUTING"
  shows "TaskStatus.GOVERNING \<in> set path"
proof (rule ccontr)
  assume "TaskStatus.GOVERNING \<notin> set path"
  then have "\<forall>s \<in> set path. before_governance s"
    using assms legal_path_stays_before [of path] by (simp add: before_governance_def)
  with assms(2,4) have "before_governance TaskStatus.EXECUTING" using last_in_set by metis
  then show False by (simp add: before_governance_def)
qed

theorem execution_needs_governance_witness:
  "TaskStatus.GOVERNING \<in> set [TaskStatus.CREATED, TaskStatus.WAITING_FOR_LOCK, TaskStatus.INITIALIZING,
     TaskStatus.CONTEXT_BUILDING, TaskStatus.DECIDING, TaskStatus.GOVERNING, TaskStatus.ACTION_PENDING,
     TaskStatus.EXECUTING]"
  by (rule execution_needs_governance) (simp_all add: can_transition_def)

text \<open>
  Over any sequence of task commands the rows stay well-formed: identifiers are unique, the columns
  satisfy their checks, a finished task has an end time, and no command brings a task into
  \<open>NEEDS_INFORMATION\<close> or \<open>ROLLING_BACK\<close>; the audit log only grows.
\<close>

theorem task_service_invariant:
  assumes "task_rows_ok svc"
  shows "task_rows_ok (fold task_exec cmds svc) \<and>
    prefix (audit_events (ts_db svc)) (audit_events (ts_db (fold task_exec cmds svc)))"
  using task_machine.run_inv [OF assms] task_log.run_log by blast

theorem task_service_invariant_witness:
  "task_rows_ok (fold task_exec [Create ''t1'' sample_request ''alice'' ''k0'',
     Transition 7 ''t1'' TaskStatus.CANCELLED ''alice'' ''k1''] empty_service)"
proof -
  have "task_rows_ok empty_service"
    by (simp add: task_rows_ok_def empty_service_def empty_db_def keys_distinct_def)
  from task_service_invariant [OF this] show ?thesis by blast
qed

lemma create_replay_db:
  "ts_idempotency svc key = Some existing \<Longrightarrow> fst (create_task i rq actor key svc) = svc"
  by (auto simp: create_task_def Let_def split: option.splits)

text \<open>
  Commands are idempotent: repeating a creation or a transition with the same key changes nothing
  after the first call, whatever fresh identifier or time the second call draws.
\<close>

theorem commands_idempotent:
  "fst (create_task j rq' actor' key (fst (create_task i rq actor key svc))) =
     fst (create_task i rq actor key svc) \<and>
   fst (transition later task_id target actor' key (fst (transition now task_id target actor key svc))) =
     fst (transition now task_id target actor key svc)"
proof
  show "fst (create_task j rq' actor' key (fst (create_task i rq actor key svc))) =
     fst (create_task i rq actor key svc)"
  proof (cases "ts_idempotency svc key")
    case None
    then have "ts_idempotency (fst (create_task i rq actor key svc)) key = Some i"
      by (simp add: create_task_def Let_def new_task_def)
    then show ?thesis by (rule create_replay_db)
  next
    case (Some existing)
    then show ?thesis by (simp add: create_replay_db)
  qed
  show "fst (transition later task_id target actor' key (fst (transition now task_id target actor key svc))) =
     fst (transition now task_id target actor key svc)"
    by (cases "get_task (ts_db svc) task_id")
       (auto simp: transition_def Let_def get_row_set_row split: sum.splits bool.splits)
qed

text \<open>
  A task in \<open>NEEDS_INFORMATION\<close> cannot move: the transition table has no entry for it, so every
  fresh transition of such a task raises a key error; and no legal edge enters \<open>ROLLING_BACK\<close>.
\<close>

theorem needs_information_stuck:
  "can_transition TaskStatus.NEEDS_INFORMATION target = Inl (KeyError ''NEEDS_INFORMATION'') \<and>
   can_transition source TaskStatus.ROLLING_BACK \<noteq> Inr True"
  using no_step_into_dead_states by (auto simp: can_transition_def)

end
