(* ===== verification/Governance.thy ===== *)
theory Governance
  imports Tasks "HOL-Library.AList"
begin

section \<open>Governance: rules, rule sets and decisions\<close>

text \<open>
  \<^verbatim>\<open>governance/rule_repository.py\<close>, \<^verbatim>\<open>governance/rule_loader.py\<close> and
  \<^verbatim>\<open>governance/decision_service.py\<close>. \<open>fnmatch\<close> is the standard library's glob matching. The
  digest of a JSON payload (\<^verbatim>\<open>sha256(json.dumps(payload))\<close>) is the parameter \<open>digest\<close>.
\<close>

subsection \<open>\<^verbatim>\<open>fnmatch.fnmatch\<close>\<close>

datatype glob_token = Any_string | Any_char | Literal char | Char_class bool "(char \<times> char) list"

text \<open>The ranges of a bracket expression; a range whose ends are out of order is empty.\<close>

fun class_ranges :: "string \<Rightarrow> (char \<times> char) list" where
  "class_ranges [] = []"
| "class_ranges [a] = [(a, a)]"
| "class_ranges [a, b] = [(a, a), (b, b)]"
| "class_ranges (a # b # c # cs) =
     (if b = CHR ''-'' then (a, c) # class_ranges cs else (a, a) # class_ranges (b # c # cs))"

definition in_ranges :: "char \<Rightarrow> (char \<times> char) list \<Rightarrow> bool" where
  "in_ranges c rs = list_ex (\<lambda>(a, b). a \<le> c \<and> c \<le> b) rs"

text \<open>The split of the text after an opening bracket at its closing bracket, if there is one.\<close>

fun upto_bracket :: "string \<Rightarrow> (string \<times> string) option" where
  "upto_bracket [] = None"
| "upto_bracket (c # cs) =
     (if c = CHR '']'' then Some ([], cs)
      else map_option (\<lambda>(body, rest). (c # body, rest)) (upto_bracket cs))"

definition bracket_body :: "string \<Rightarrow> (bool \<times> string \<times> string) option" where
  "bracket_body s =
     (let neg = (s \<noteq> [] \<and> hd s = CHR ''!'');
          t = (if neg then tl s else s)
      in if t \<noteq> [] \<and> hd t = CHR '']''
         then map_option (\<lambda>(body, rest). (neg, CHR '']'' # body, rest)) (upto_bracket (tl t))
         else map_option (\<lambda>(body, rest). (neg, body, rest)) (upto_bracket t))"

lemma upto_bracket_length: "upto_bracket s = Some (body, rest) \<Longrightarrow> length rest < length s"
  by (induction s arbitrary: body rest) (force split: if_splits)+

lemma bracket_body_length: "bracket_body s = Some (neg, body, rest) \<Longrightarrow> length rest < length s"
  by (cases s; cases "tl s")
     (auto simp: bracket_body_def Let_def split: if_splits dest!: upto_bracket_length)

function glob_tokens :: "string \<Rightarrow> glob_token list" where
  "glob_tokens [] = []"
| "glob_tokens (c # cs) =
     (if c = CHR ''*'' then Any_string # glob_tokens cs
      else if c = CHR ''?'' then Any_char # glob_tokens cs
      else if c = CHR ''['' then
        (case bracket_body cs of
           None \<Rightarrow> Literal c # glob_tokens cs
         | Some (neg, body, rest) \<Rightarrow> Char_class neg (class_ranges body) # glob_tokens rest)
      else Literal c # glob_tokens cs)"
  by pat_completeness auto
termination
  by (relation "measure length") (auto dest: bracket_body_length)

fun glob_match :: "glob_token list \<Rightarrow> string \<Rightarrow> bool" where
  "glob_match [] s = (s = [])"
| "glob_match (Any_string # ts) [] = glob_match ts []"
| "glob_match (Any_string # ts) (c # cs) = (glob_match ts (c # cs) \<or> glob_match (Any_string # ts) cs)"
| "glob_match (t # ts) [] = False"
| "glob_match (Any_char # ts) (c # cs) = glob_match ts cs"
| "glob_match (Literal a # ts) (c # cs) = (c = a \<and> glob_match ts cs)"
| "glob_match (Char_class neg rs # ts) (c # cs) = (in_ranges c rs \<noteq> neg \<and> glob_match ts cs)"

definition fnmatch :: "string \<Rightarrow> string \<Rightarrow> bool" where
  "fnmatch name pat = glob_match (glob_tokens pat) name"

text \<open>A star matches every string, and a pattern without special characters only itself.\<close>

lemma glob_match_star: "glob_match (Any_string # ts) s \<longleftrightarrow> (\<exists>n \<le> length s. glob_match ts (drop n s))"
proof (induction s)
  case Nil
  then show ?case by simp
next
  case (Cons c cs)
  have "(\<exists>n \<le> length (c # cs). glob_match ts (drop n (c # cs))) \<longleftrightarrow>
    glob_match ts (c # cs) \<or> (\<exists>n \<le> length cs. glob_match ts (drop n cs))"
    by (metis Suc_le_mono drop0 drop_Suc_Cons le0 length_Cons not0_implies_Suc)
  with Cons show ?case by simp
qed

lemma fnmatch_star: "fnmatch s ''*''"
  by (auto simp: fnmatch_def glob_match_star)

lemma fnmatch_literal:
  "set pat \<inter> {CHR ''*'', CHR ''?'', CHR ''[''} = {} \<Longrightarrow> fnmatch name pat \<longleftrightarrow> name = pat"
  unfolding fnmatch_def
proof (induction pat arbitrary: name)
  case Nil
  then show ?case by simp
next
  case (Cons c cs)
  then show ?case by (cases name) auto
qed

subsection \<open>\<^verbatim>\<open>governance/rule_repository.py\<close>\<close>

record RuleDefinition =
  rd_key :: string
  rd_name :: string
  rd_scope :: GovernanceRuleScope
  rd_effect :: GovernanceRuleEffect
  rd_priority :: int
  rd_patterns :: "string list"
  rd_conditions :: json
  rd_reason :: string
  rd_overridable :: bool
  rd_project_id :: "string option"
  rd_enabled :: bool
  rd_version :: int

definition rule_of_definition :: "string \<Rightarrow> RuleDefinition \<Rightarrow> GovernanceRule" where
  "rule_of_definition new_id def =
     \<lparr>gr_id = new_id, gr_project_id = rd_project_id def, gr_rule_key = rd_key def,
      gr_rule_name = rd_name def, gr_scope_type = rd_scope def, gr_effect = rd_effect def,
      gr_priority = rd_priority def, gr_patterns_json = json_dumps_strings (rd_patterns def),
      gr_conditions_json = JText (rd_conditions def), gr_reason = rd_reason def,
      gr_overridable = rd_overridable def, gr_enabled = rd_enabled def,
      gr_rule_version = rd_version def\<rparr>"

definition rule_repository_add :: "string \<Rightarrow> RuleDefinition \<Rightarrow> db \<Rightarrow> db \<times> GovernanceRule" where
  "rule_repository_add new_id def d =
     (let rule = rule_of_definition new_id def in (d\<lparr>rules := rules d @ [rule]\<rparr>, rule))"

definition enabled_for_project :: "string \<Rightarrow> db \<Rightarrow> GovernanceRule list" where
  "enabled_for_project project_id d =
     filter (\<lambda>r. gr_enabled r \<and> (gr_project_id r = None \<or> gr_project_id r = Some project_id)) (rules d)"

subsection \<open>\<^verbatim>\<open>governance/rule_loader.py\<close>\<close>

fun EFFECT_STRENGTH :: "GovernanceRuleEffect \<Rightarrow> nat" where
  "EFFECT_STRENGTH GovernanceRuleEffect.ALLOW = 0"
| "EFFECT_STRENGTH GovernanceRuleEffect.REQUIRE_APPROVAL = 1"
| "EFFECT_STRENGTH GovernanceRuleEffect.DENY_HARD = 2"

fun effect_str :: "GovernanceRuleEffect \<Rightarrow> string" where
  "effect_str GovernanceRuleEffect.ALLOW = ''ALLOW''"
| "effect_str GovernanceRuleEffect.REQUIRE_APPROVAL = ''REQUIRE_APPROVAL''"
| "effect_str GovernanceRuleEffect.DENY_HARD = ''DENY_HARD''"

fun scope_str :: "GovernanceRuleScope \<Rightarrow> string" where
  "scope_str GovernanceRuleScope.SYSTEM = ''SYSTEM''"
| "scope_str GovernanceRuleScope.PROJECT = ''PROJECT''"
| "scope_str GovernanceRuleScope.TASK = ''TASK''"

datatype RuleLoadStatus = LOAD_OK | INVALID_CONFIG

record RuleSnapshotEntry =
  se_key :: string
  se_effect :: GovernanceRuleEffect
  se_source :: string
  se_version :: int
  se_reason :: string

record RuleSetSnapshot =
  rs_status :: RuleLoadStatus
  rs_can_start_task :: bool
  rs_task_id :: "string option"
  rs_rules :: "RuleSnapshotEntry list"
  rs_version_hash :: string
  rs_errors :: "string list"

text \<open>\<^verbatim>\<open>GovernanceRule | RuleDefinition\<close>, with the attribute the loader reads of either.\<close>

datatype loaded_rule = Stored GovernanceRule | Profile RuleDefinition

fun lr_key :: "loaded_rule \<Rightarrow> string" where
  "lr_key (Stored r) = gr_rule_key r"
| "lr_key (Profile d) = rd_key d"

fun lr_effect :: "loaded_rule \<Rightarrow> GovernanceRuleEffect" where
  "lr_effect (Stored r) = gr_effect r"
| "lr_effect (Profile d) = rd_effect d"

fun lr_priority :: "loaded_rule \<Rightarrow> int" where
  "lr_priority (Stored r) = gr_priority r"
| "lr_priority (Profile d) = rd_priority d"

fun snapshot_entry :: "loaded_rule \<Rightarrow> RuleSnapshotEntry" where
  "snapshot_entry (Stored r) = \<lparr>se_key = gr_rule_key r, se_effect = gr_effect r,
     se_source = scope_str (gr_scope_type r), se_version = gr_rule_version r, se_reason = gr_reason r\<rparr>"
| "snapshot_entry (Profile d) = \<lparr>se_key = rd_key d, se_effect = rd_effect d,
     se_source = scope_str (rd_scope d), se_version = rd_version d, se_reason = rd_reason d\<rparr>"

definition rule_stronger :: "loaded_rule \<Rightarrow> loaded_rule \<Rightarrow> bool" where
  "rule_stronger left right =
     (let ls = EFFECT_STRENGTH (lr_effect left); rs = EFFECT_STRENGTH (lr_effect right)
      in if ls \<noteq> rs then ls > rs else lr_priority left > lr_priority right)"

definition rule_sort_key :: "loaded_rule \<Rightarrow> int \<times> string" where
  "rule_sort_key rule = (- int (EFFECT_STRENGTH (lr_effect rule)), lr_key rule)"

text \<open>The body of the loop of \<^verbatim>\<open>_merge\<close>; the dictionary keeps the position of a replaced key.\<close>

definition merge_step ::
    "loaded_rule \<Rightarrow> (string \<times> loaded_rule) list \<Rightarrow> (string \<times> loaded_rule) list" where
  "merge_step rule by_key =
     (case map_of by_key (lr_key rule) of
        None \<Rightarrow> AList.update (lr_key rule) rule by_key
      | Some current \<Rightarrow>
          if rule_stronger rule current then AList.update (lr_key rule) rule by_key else by_key)"

definition merge_rules :: "loaded_rule list \<Rightarrow> loaded_rule list" where
  "merge_rules rls = sort_key rule_sort_key (map snd (fold merge_step rls []))"

text \<open>\<^verbatim>\<open>fnmatch.translate\<close> builds text and raises no \<^verbatim>\<open>re.error\<close>: the bracket count decides.\<close>

definition valid_glob :: "string \<Rightarrow> bool" where
  "valid_glob pattern = (count_list pattern (CHR ''['') = count_list pattern (CHR '']''))"

definition definition_errors :: "RuleDefinition \<Rightarrow> string list" where
  "definition_errors def =
     map (\<lambda>p. ''invalid pattern for '' @ rd_key def @ '': '' @ p)
       (filter (\<lambda>p. \<not> valid_glob p) (rd_patterns def)) @
     (case rd_conditions def of JObj _ \<Rightarrow> [] | _ \<Rightarrow> [''invalid condition for '' @ rd_key def])"

definition validate_definitions :: "RuleDefinition list \<Rightarrow> RuleSetSnapshot" where
  "validate_definitions defs =
     (let errors = concat (map definition_errors defs)
      in if errors \<noteq> [] then
           \<lparr>rs_status = INVALID_CONFIG, rs_can_start_task = False, rs_task_id = None, rs_rules = [],
            rs_version_hash = [], rs_errors = errors\<rparr>
         else \<lparr>rs_status = LOAD_OK, rs_can_start_task = True, rs_task_id = None, rs_rules = [],
            rs_version_hash = [], rs_errors = []\<rparr>)"

definition entry_json :: "RuleSnapshotEntry \<Rightarrow> json" where
  "entry_json e = JObj [(''effect'', JStr (effect_str (se_effect e))), (''key'', JStr (se_key e)),
     (''reason'', JStr (se_reason e)), (''source'', JStr (se_source e)), (''version'', JInt (se_version e))]"

definition rules_for_task ::
    "(json \<Rightarrow> string) \<Rightarrow> string \<Rightarrow> string \<Rightarrow> RuleDefinition list \<Rightarrow> db \<Rightarrow> RuleSetSnapshot" where
  "rules_for_task digest project_id task_id profile_rules d =
     (let validation = validate_definitions profile_rules
      in if rs_status validation = INVALID_CONFIG then validation
         else
           let merged = merge_rules (map Stored (enabled_for_project project_id d) @ map Profile profile_rules);
               entries = map snapshot_entry merged
           in \<lparr>rs_status = LOAD_OK, rs_can_start_task = True, rs_task_id = Some task_id, rs_rules = entries,
               rs_version_hash = digest (JList (map entry_json entries)), rs_errors = []\<rparr>)"

subsection \<open>\<^verbatim>\<open>governance/decision_service.py\<close>\<close>

fun verdict_str :: "GovernanceVerdict \<Rightarrow> string" where
  "verdict_str GovernanceVerdict.ALLOW = ''ALLOW''"
| "verdict_str GovernanceVerdict.WARN = ''WARN''"
| "verdict_str GovernanceVerdict.BLOCK = ''BLOCK''"

definition pattern_matches :: "string \<Rightarrow> string list \<Rightarrow> bool" where
  "pattern_matches pattern changed_paths =
     list_ex (\<lambda>path. fnmatch path pattern \<or> py_in pattern path) changed_paths"

definition matched_rules :: "RuleDefinition list \<Rightarrow> string list \<Rightarrow> RuleDefinition list" where
  "matched_rules rls changed_paths =
     filter (\<lambda>rule. list_ex (\<lambda>pattern. pattern_matches pattern changed_paths) (rd_patterns rule))
       (sort_key (\<lambda>rule. (- rd_priority rule, rd_key rule)) rls)"

definition rule_version :: "(json \<Rightarrow> string) \<Rightarrow> RuleDefinition list \<Rightarrow> string" where
  "rule_version digest rls =
     digest (JList (map (\<lambda>r. JList [JStr (rd_key r), JInt (rd_version r), JStr (effect_str (rd_effect r)),
       JInt (rd_priority r)]) rls))"

text \<open>The verdict the service reaches, its risk, whether it asks for approval, the reason, and the
  allowed and denied scopes.\<close>

definition decide_verdict ::
    "RuleDefinition list \<Rightarrow> string list \<Rightarrow> GovernanceVerdict \<Rightarrow> GovernanceVerdict option \<Rightarrow>
     GovernanceVerdict \<times> RiskLevel \<times> bool \<times> string \<times> string list \<times> string list" where
  "decide_verdict matched changed_paths llm_verdict user_verdict =
     (let deny = filter (\<lambda>r. rd_effect r = GovernanceRuleEffect.DENY_HARD) matched;
          approval = filter (\<lambda>r. rd_effect r = GovernanceRuleEffect.REQUIRE_APPROVAL) matched
      in if deny \<noteq> [] then
           (GovernanceVerdict.BLOCK, RiskLevel.CRITICAL, False, rd_reason (hd deny), [], changed_paths)
         else if approval \<noteq> [] \<or> user_verdict = Some GovernanceVerdict.WARN then
           (GovernanceVerdict.WARN, RiskLevel.MEDIUM, True,
            (if approval \<noteq> [] then rd_reason (hd approval) else ''User warning requires approval.''),
            changed_paths, [])
         else if llm_verdict = GovernanceVerdict.BLOCK \<or> user_verdict = Some GovernanceVerdict.BLOCK then
           (GovernanceVerdict.BLOCK, RiskLevel.HIGH, False, ''Requested block verdict.'', [], changed_paths)
         else
           (GovernanceVerdict.ALLOW, RiskLevel.LOW, False, ''Allowed within finite changed path scope.'',
            changed_paths, []))"

definition decision_evidence ::
    "RuleDefinition list \<Rightarrow> string list \<Rightarrow> GovernanceVerdict \<Rightarrow> GovernanceVerdict option \<Rightarrow> json" where
  "decision_evidence matched changed_paths llm_verdict user_verdict =
     JObj [(''changed_paths'', JList (map JStr changed_paths)),
           (''llm_verdict'', JStr (verdict_str llm_verdict)),
           (''matched_rules'', JList (map (\<lambda>r. JStr (rd_key r)) matched)),
           (''user_verdict'', (case user_verdict of None \<Rightarrow> JNull | Some v \<Rightarrow> JStr (verdict_str v)))]"

definition decision_row ::
    "(json \<Rightarrow> string) \<Rightarrow> string \<Rightarrow> string \<Rightarrow> string option \<Rightarrow> string \<Rightarrow> string \<Rightarrow> RuleDefinition list \<Rightarrow>
     string list \<Rightarrow> GovernanceVerdict \<Rightarrow> GovernanceVerdict option \<Rightarrow> GovernanceDecision" where
  "decision_row digest new_id task_id action_id proposal_hash revision rls changed_paths llm_verdict user_verdict =
     (let matched = matched_rules rls changed_paths;
          (verdict, risk, approval_required, reason, allowed_scope, denied_scope) =
            decide_verdict matched changed_paths llm_verdict user_verdict
      in \<lparr>gd_id = new_id, gd_task_id = task_id, gd_action_id = action_id,
          gd_impact_report_id = None, gd_proposal_hash = proposal_hash, gd_revision = revision,
          gd_decision = verdict, gd_risk_level = risk, gd_reason_summary = reason,
          gd_allowed_scope_json = Some (json_dumps_strings (sort allowed_scope)),
          gd_denied_scope_json = Some (json_dumps_strings (sort denied_scope)),
          gd_approval_required = approval_required,
          gd_status = GovernanceDecisionStatus.ACTIVE,
          gd_rule_set_version = rule_version digest matched,
          gd_evidence_json = JText (decision_evidence matched changed_paths llm_verdict user_verdict),
          gd_expires_at = None\<rparr>)"

definition evaluate ::
    "(json \<Rightarrow> string) \<Rightarrow> string \<Rightarrow> string \<Rightarrow> string option \<Rightarrow> string \<Rightarrow> string \<Rightarrow> RuleDefinition list \<Rightarrow>
     string list \<Rightarrow> GovernanceVerdict \<Rightarrow> GovernanceVerdict option \<Rightarrow> db \<Rightarrow>
     GovernanceDecision action_result" where
  "evaluate digest new_id task_id action_id proposal_hash revision rls paths llm_verdict user_verdict d =
     (case canonical_project_paths paths of
        Inl e \<Rightarrow> (d, Inl e)
      | Inr changed_paths \<Rightarrow>
          (let dec = decision_row digest new_id task_id action_id proposal_hash revision rls changed_paths
                 llm_verdict user_verdict
           in (d\<lparr>decisions := decisions d @ [dec]\<rparr>, Inr dec)))"

subsection \<open>The merge keeps the strongest rule of every key\<close>

text \<open>
  The interface of the merge loop: a step that replaces the entry of a key exactly when there is none
  or the new element is stronger, for a strict weak order \<open>stronger\<close>.
\<close>

locale keyed_merge =
  fixes key :: "'r \<Rightarrow> 'k"
    and stronger :: "'r \<Rightarrow> 'r \<Rightarrow> bool"
    and step :: "'r \<Rightarrow> ('k \<times> 'r) list \<Rightarrow> ('k \<times> 'r) list"
  assumes asym: "stronger a b \<Longrightarrow> \<not> stronger b a"
    and neg_trans: "stronger a c \<Longrightarrow> stronger a b \<or> stronger b c"
    and step_law: "map_of (step r m) =
      (if (case map_of m (key r) of None \<Rightarrow> True | Some c \<Rightarrow> stronger r c)
       then (map_of m)(key r \<mapsto> r) else map_of m)"
    and step_distinct: "distinct (map fst m) \<Longrightarrow> distinct (map fst (step r m))"
begin

lemma fold_distinct: "distinct (map fst m) \<Longrightarrow> distinct (map fst (fold step rs m))"
  by (induction rs arbitrary: m) (auto intro: step_distinct)

lemma fold_grows:
  "map_of m k = Some w \<Longrightarrow> \<exists>w'. map_of (fold step rs m) k = Some w' \<and> \<not> stronger w w'"
proof (induction rs arbitrary: m w)
  case Nil
  then show ?case using asym by auto
next
  case (Cons r rs)
  have "\<exists>v. map_of (step r m) k = Some v \<and> \<not> stronger w v"
    using Cons.prems asym [of w w] asym [of r w]
    by (cases "k = key r") (auto simp: step_law split: option.splits)
  then obtain v where v: "map_of (step r m) k = Some v" "\<not> stronger w v" by blast
  obtain w' where "map_of (fold step rs (step r m)) k = Some w'" "\<not> stronger v w'"
    using Cons.IH v(1) by blast
  with v(2) show ?case using neg_trans by auto
qed

lemma fold_strongest:
  "r \<in> set rs \<Longrightarrow> \<exists>w. map_of (fold step rs m) (key r) = Some w \<and> \<not> stronger r w"
proof (induction rs arbitrary: m)
  case Nil
  then show ?case by simp
next
  case (Cons x rs)
  show ?case
  proof (cases "r = x")
    case True
    have "\<exists>v. map_of (step r m) (key r) = Some v \<and> \<not> stronger r v"
      using asym [of r r] by (auto simp: step_law split: option.splits)
    then obtain v where v: "map_of (step r m) (key r) = Some v" "\<not> stronger r v" by blast
    then show ?thesis using True fold_grows [of "step r m" "key r" v rs] neg_trans by fastforce
  next
    case False
    with Cons show ?thesis by simp
  qed
qed

lemma fold_source:
  "map_of (fold step rs m) k = Some w \<Longrightarrow> map_of m k = Some w \<or> (w \<in> set rs \<and> key w = k)"
proof (induction rs arbitrary: m)
  case Nil
  then show ?case by simp
next
  case (Cons x rs)
  then show ?case by (fastforce simp: step_law split: if_splits option.splits)
qed

end

interpretation rule_merge: keyed_merge lr_key rule_stronger merge_step
proof unfold_locales
  show "distinct (map fst m) \<Longrightarrow> distinct (map fst (merge_step r m))" for r m
    by (auto simp: merge_step_def distinct_update split: option.splits)
qed (auto simp: rule_stronger_def Let_def merge_step_def update_conv' fun_upd_def
       split: option.splits if_splits)

lemma in_merge_rules:
  "w \<in> set (merge_rules rls) \<longleftrightarrow> map_of (fold merge_step rls []) (lr_key w) = Some w"
proof -
  let ?m = "fold merge_step rls []"
  have dist: "distinct (map fst ?m)" by (rule rule_merge.fold_distinct) simp
  have keys: "k = lr_key v" if "(k, v) \<in> set ?m" for k v
    using that dist rule_merge.fold_source [of rls "[]" k v] by auto
  have "w \<in> set (merge_rules rls) \<longleftrightarrow> (\<exists>k. (k, w) \<in> set ?m)"
    by (force simp: merge_rules_def)
  also have "\<dots> \<longleftrightarrow> (lr_key w, w) \<in> set ?m" using keys by blast
  also have "\<dots> \<longleftrightarrow> map_of ?m (lr_key w) = Some w" using dist by auto
  finally show ?thesis .
qed

lemma sorted_merge_rules: "sorted (map rule_sort_key (merge_rules rls))"
  by (simp add: merge_rules_def)

lemma distinct_merge_keys: "distinct (map lr_key (merge_rules rls))"
proof -
  let ?m = "fold merge_step rls []"
  have dist: "distinct (map fst ?m)" by (rule rule_merge.fold_distinct) simp
  have "map fst ?m = map lr_key (map snd ?m)"
    using dist rule_merge.fold_source [of rls "[]"] by auto
  with dist have "distinct (map lr_key (map snd ?m))" by simp
  then have "inj_on lr_key (set (map snd ?m)) \<and> distinct (map snd ?m)"
    by (simp only: distinct_map)
  then show ?thesis by (simp add: merge_rules_def distinct_map)
qed

text \<open>
  Rule sets only tighten: merging the rules of all sources keeps, for every key, one rule of the
  sources with that key, and no rule of that key in any source is stronger than the kept one (a stored
  \<open>DENY_HARD\<close> cannot be weakened by a profile rule); the kept rules come strongest effect first.
\<close>

theorem merge_keeps_strongest:
  assumes "r \<in> set rls"
  shows "(\<exists>w \<in> set (merge_rules rls). w \<in> set rls \<and> lr_key w = lr_key r \<and> \<not> rule_stronger r w \<and>
            (\<forall>v \<in> set (merge_rules rls). lr_key v = lr_key r \<longrightarrow> v = w)) \<and>
         sorted (map (\<lambda>v. - int (EFFECT_STRENGTH (lr_effect v))) (merge_rules rls))"
proof
  obtain w where w: "map_of (fold merge_step rls []) (lr_key r) = Some w" "\<not> rule_stronger r w"
    using rule_merge.fold_strongest [OF assms] by blast
  from rule_merge.fold_source [OF w(1)] have "w \<in> set rls" "lr_key w = lr_key r" by auto
  with w show "\<exists>w \<in> set (merge_rules rls). w \<in> set rls \<and> lr_key w = lr_key r \<and> \<not> rule_stronger r w \<and>
           (\<forall>v \<in> set (merge_rules rls). lr_key v = lr_key r \<longrightarrow> v = w)"
    by (intro bexI [of _ w]) (auto simp: in_merge_rules)
  show "sorted (map (\<lambda>v. - int (EFFECT_STRENGTH (lr_effect v))) (merge_rules rls))"
    using sorted_merge_rules [of rls]
    by (auto simp: sorted_map rule_sort_key_def less_eq_prod_def elim: sorted_wrt_mono_rel [rotated])
qed

definition sample_rule :: "GovernanceRuleEffect \<Rightarrow> int \<Rightarrow> RuleDefinition" where
  "sample_rule eff prio = \<lparr>rd_key = ''migrations'', rd_name = ''Migrations'',
     rd_scope = GovernanceRuleScope.SYSTEM, rd_effect = eff, rd_priority = prio,
     rd_patterns = [''migrations/*''], rd_conditions = JObj [], rd_reason = ''Protected'',
     rd_overridable = False, rd_project_id = None, rd_enabled = True, rd_version = 1\<rparr>"

theorem merge_keeps_strongest_witness:
  "\<exists>w \<in> set (merge_rules [Stored (rule_of_definition ''r1'' (sample_rule GovernanceRuleEffect.DENY_HARD 1)),
       Profile (sample_rule GovernanceRuleEffect.ALLOW 9)]).
     lr_key w = ''migrations'' \<and> lr_effect w = GovernanceRuleEffect.DENY_HARD"
proof -
  let ?r = "Stored (rule_of_definition ''r1'' (sample_rule GovernanceRuleEffect.DENY_HARD 1))"
  let ?rls = "[?r, Profile (sample_rule GovernanceRuleEffect.ALLOW 9)]"
  have "?r \<in> set ?rls" by simp
  from merge_keeps_strongest [OF this]
  obtain w where "w \<in> set (merge_rules ?rls)" "w \<in> set ?rls" "lr_key w = lr_key ?r" "\<not> rule_stronger ?r w"
    by blast
  then show ?thesis
    by (intro bexI [of _ w]) (auto simp: rule_stronger_def sample_rule_def rule_of_definition_def)
qed

subsection \<open>Decisions\<close>

lemma set_matched_rules:
  "r \<in> set (matched_rules rls cps) \<longleftrightarrow>
     r \<in> set rls \<and> (\<exists>pattern \<in> set (rd_patterns r). pattern_matches pattern cps)"
  by (auto simp: matched_rules_def list_ex_iff)

lemma decide_verdict_cases:
  assumes "decide_verdict matched cps llm user = (verdict, risk, approval, reason, allowed, denied)"
  obtains (deny) "\<exists>r \<in> set matched. rd_effect r = GovernanceRuleEffect.DENY_HARD"
      "verdict = GovernanceVerdict.BLOCK" "risk = RiskLevel.CRITICAL" "\<not> approval"
      "allowed = []" "denied = cps"
  | (warn) "\<forall>r \<in> set matched. rd_effect r \<noteq> GovernanceRuleEffect.DENY_HARD"
      "(\<exists>r \<in> set matched. rd_effect r = GovernanceRuleEffect.REQUIRE_APPROVAL) \<or>
       user = Some GovernanceVerdict.WARN"
      "verdict = GovernanceVerdict.WARN" "risk = RiskLevel.MEDIUM" "approval"
      "allowed = cps" "denied = []"
  | (block) "\<forall>r \<in> set matched. rd_effect r = GovernanceRuleEffect.ALLOW"
      "user \<noteq> Some GovernanceVerdict.WARN"
      "llm = GovernanceVerdict.BLOCK \<or> user = Some GovernanceVerdict.BLOCK"
      "verdict = GovernanceVerdict.BLOCK" "risk = RiskLevel.HIGH" "\<not> approval"
      "allowed = []" "denied = cps"
  | (allow) "\<forall>r \<in> set matched. rd_effect r = GovernanceRuleEffect.ALLOW"
      "user \<noteq> Some GovernanceVerdict.WARN" "user \<noteq> Some GovernanceVerdict.BLOCK"
      "llm \<noteq> GovernanceVerdict.BLOCK"
      "verdict = GovernanceVerdict.ALLOW" "risk = RiskLevel.LOW" "\<not> approval"
      "allowed = cps" "denied = []"
proof -
  have eff: "rd_effect r = GovernanceRuleEffect.ALLOW"
    if "rd_effect r \<noteq> GovernanceRuleEffect.DENY_HARD" "rd_effect r \<noteq> GovernanceRuleEffect.REQUIRE_APPROVAL"
    for r :: RuleDefinition using that by (cases "rd_effect r") auto
  let ?deny = "\<exists>r \<in> set matched. rd_effect r = GovernanceRuleEffect.DENY_HARD"
  let ?appr = "(\<exists>r \<in> set matched. rd_effect r = GovernanceRuleEffect.REQUIRE_APPROVAL) \<or>
    user = Some GovernanceVerdict.WARN"
  let ?req = "llm = GovernanceVerdict.BLOCK \<or> user = Some GovernanceVerdict.BLOCK"
  note unf = decide_verdict_def Let_def filter_empty_conv
  consider ?deny | "\<not> ?deny" ?appr | "\<not> ?deny" "\<not> ?appr" ?req | "\<not> ?deny" "\<not> ?appr" "\<not> ?req"
    by blast
  then show thesis
  proof cases
    case 1
    then show thesis using assms by (intro deny) (auto simp: unf)
  next
    case 2
    then show thesis using assms by (intro warn) (auto simp: unf)
  next
    case 3
    then show thesis using assms eff by (intro block) (auto simp: unf)
  next
    case 4
    then show thesis using assms eff by (intro allow) (auto simp: unf)
  qed
qed

text \<open>
  (C16) A hard denial is final: when a \<open>DENY_HARD\<close> rule matches a changed path, the recorded decision
  is \<open>BLOCK\<close> with critical risk, no approval is asked for, no path is allowed and every changed path
  is denied, whatever the model and the user answered.
\<close>

theorem deny_hard_blocks:
  assumes "canonical_project_paths paths = Inr cps"
    and "rule \<in> set rls" and "rd_effect rule = GovernanceRuleEffect.DENY_HARD"
    and "pattern \<in> set (rd_patterns rule)" and "path \<in> set cps"
    and "fnmatch path pattern \<or> py_in pattern path"
  shows "\<exists>dec. evaluate digest i tid aid ph revision rls paths llm user d =
            (d\<lparr>decisions := decisions d @ [dec]\<rparr>, Inr dec) \<and>
          gd_decision dec = GovernanceVerdict.BLOCK \<and> gd_risk_level dec = RiskLevel.CRITICAL \<and>
          \<not> gd_approval_required dec \<and>
          gd_allowed_scope_json dec = Some (json_dumps_strings []) \<and>
          gd_denied_scope_json dec = Some (json_dumps_strings (sort cps))"
proof -
  have m: "\<exists>r \<in> set (matched_rules rls cps). rd_effect r = GovernanceRuleEffect.DENY_HARD"
    using assms by (intro bexI [of _ rule]) (auto simp: set_matched_rules pattern_matches_def list_ex_iff)
  obtain verdict risk approval reason allowed denied where
    v: "decide_verdict (matched_rules rls cps) cps llm user = (verdict, risk, approval, reason, allowed, denied)"
    by (cases "decide_verdict (matched_rules rls cps) cps llm user")
  from v show ?thesis
    by (cases rule: decide_verdict_cases)
       (use m assms(1) v in \<open>auto simp: evaluate_def decision_row_def Let_def\<close>)
qed

theorem deny_hard_blocks_witness:
  "\<exists>dec. snd (evaluate (\<lambda>_. ''h'') ''d1'' ''t1'' None ''p'' ''rev''
       [sample_rule GovernanceRuleEffect.DENY_HARD 1] [''./migrations/001.sql'']
       GovernanceVerdict.ALLOW (Some GovernanceVerdict.ALLOW) empty_db) = Inr dec \<and>
     gd_decision dec = GovernanceVerdict.BLOCK"
proof -
  have "canonical_project_paths [''./migrations/001.sql''] = Inr [''migrations/001.sql'']" by code_simp
  moreover have "fnmatch ''migrations/001.sql'' ''migrations/*''" by code_simp
  ultimately show ?thesis
    using deny_hard_blocks [of "[''./migrations/001.sql'']" "[''migrations/001.sql'']"
        "sample_rule GovernanceRuleEffect.DENY_HARD 1" "[sample_rule GovernanceRuleEffect.DENY_HARD 1]"
        "''migrations/*''" "''migrations/001.sql''" "\<lambda>_. ''h''" "''d1''" "''t1''" None "''p''" "''rev''"
        GovernanceVerdict.ALLOW "Some GovernanceVerdict.ALLOW" empty_db]
    by (auto simp: sample_rule_def)
qed

text \<open>
  The verdict is determined by precedence, and the scopes are complementary: a decision is
  \<open>ALLOW\<close> exactly when every matched rule allows, the user neither warns nor blocks and the model does
  not block; it is \<open>WARN\<close> exactly when it asks for approval; a \<open>BLOCK\<close> allows no path and any other
  verdict denies none.
\<close>

theorem evaluate_verdict:
  assumes "canonical_project_paths paths = Inr cps"
  shows "\<exists>dec. evaluate digest i tid aid ph revision rls paths llm user d =
            (d\<lparr>decisions := decisions d @ [dec]\<rparr>, Inr dec) \<and>
          (gd_decision dec = GovernanceVerdict.ALLOW \<longleftrightarrow>
             (\<forall>r \<in> set (matched_rules rls cps). rd_effect r = GovernanceRuleEffect.ALLOW) \<and>
             user \<notin> {Some GovernanceVerdict.WARN, Some GovernanceVerdict.BLOCK} \<and>
             llm \<noteq> GovernanceVerdict.BLOCK) \<and>
          (gd_approval_required dec \<longleftrightarrow> gd_decision dec = GovernanceVerdict.WARN) \<and>
          gd_allowed_scope_json dec = Some (json_dumps_strings
            (if gd_decision dec = GovernanceVerdict.BLOCK then [] else sort cps)) \<and>
          gd_denied_scope_json dec = Some (json_dumps_strings
            (if gd_decision dec = GovernanceVerdict.BLOCK then sort cps else []))"
proof -
  obtain verdict risk approval reason allowed denied where
    v: "decide_verdict (matched_rules rls cps) cps llm user = (verdict, risk, approval, reason, allowed, denied)"
    by (cases "decide_verdict (matched_rules rls cps) cps llm user")
  from v show ?thesis
    by (cases rule: decide_verdict_cases)
       (use assms v in \<open>auto simp: evaluate_def decision_row_def Let_def\<close>)
qed

theorem evaluate_verdict_witness:
  "\<exists>dec. snd (evaluate (\<lambda>_. ''h'') ''d1'' ''t1'' None ''p'' ''rev''
       [sample_rule GovernanceRuleEffect.REQUIRE_APPROVAL 1] [''src/a.py'']
       GovernanceVerdict.ALLOW None empty_db) = Inr dec \<and>
     gd_decision dec = GovernanceVerdict.ALLOW \<and>
     gd_allowed_scope_json dec = Some (json_dumps_strings [''src/a.py''])"
proof -
  have c: "canonical_project_paths [''src/a.py''] = Inr [''src/a.py'']" by code_simp
  have m: "matched_rules [sample_rule GovernanceRuleEffect.REQUIRE_APPROVAL 1] [''src/a.py''] = []"
    by code_simp
  from evaluate_verdict [OF c, of "\<lambda>_. ''h''" "''d1''" "''t1''" None "''p''" "''rev''"
      "[sample_rule GovernanceRuleEffect.REQUIRE_APPROVAL 1]" GovernanceVerdict.ALLOW None empty_db]
  show ?thesis by (auto simp: m)
qed

text \<open>
  The precedence puts approval rules before the requested verdicts: a matched \<open>REQUIRE_APPROVAL\<close>
  rule turns a requested \<open>BLOCK\<close> into \<open>WARN\<close>.
\<close>

theorem approval_rule_masks_block:
  assumes "\<forall>r \<in> set (matched_rules rls cps). rd_effect r \<noteq> GovernanceRuleEffect.DENY_HARD"
    and "\<exists>r \<in> set (matched_rules rls cps). rd_effect r = GovernanceRuleEffect.REQUIRE_APPROVAL"
  shows "gd_decision (decision_row digest i tid aid ph revision rls cps GovernanceVerdict.BLOCK user) =
    GovernanceVerdict.WARN"
proof -
  obtain verdict risk approval reason allowed denied where
    v: "decide_verdict (matched_rules rls cps) cps GovernanceVerdict.BLOCK user =
      (verdict, risk, approval, reason, allowed, denied)"
    by (cases "decide_verdict (matched_rules rls cps) cps GovernanceVerdict.BLOCK user")
  from v show ?thesis
    by (cases rule: decide_verdict_cases) (use assms v in \<open>auto simp: decision_row_def Let_def\<close>)
qed

end
