(* ===== verification/Policy.thy ===== *)
theory Policy
  imports Governance
begin

section \<open>Policy: approvals, execution policies, grants and their enforcement\<close>

text \<open>
  \<^verbatim>\<open>approvals/request_service.py\<close>, \<^verbatim>\<open>approvals/decision_service.py\<close>, \<^verbatim>\<open>policy/compiler.py\<close>,
  \<^verbatim>\<open>policy/grants.py\<close>, \<^verbatim>\<open>policy/enforcer.py\<close>, \<^verbatim>\<open>governance/regovernance.py\<close> and
  \<^verbatim>\<open>proposals/review_service.py\<close>: from a governance decision to the right to write a file, and the
  two operations that take every such right back.
\<close>

subsection \<open>\<^verbatim>\<open>approvals/request_service.py\<close>\<close>

definition open_request :: "ApprovalRequestStatus \<Rightarrow> bool" where
  "open_request s = (s \<in> {ApprovalRequestStatus.PENDING, ApprovalRequestStatus.APPROVED})"

definition request_row ::
    "string \<Rightarrow> GovernanceDecision \<Rightarrow> string \<Rightarrow> string list \<Rightarrow> ApprovalRequest" where
  "request_row new_id dec action_id scope =
     \<lparr>ar_id = new_id, ar_task_id = gd_task_id dec, ar_action_id = action_id,
      ar_governance_decision_id = gd_id dec, ar_decision_revision = gd_revision dec,
      ar_proposal_hash = gd_proposal_hash dec, ar_requested_scope_json = json_dumps_strings scope,
      ar_status = ApprovalRequestStatus.PENDING,
      ar_evidence_json = JText (JObj [(''governance_decision_id'', JStr (gd_id dec)),
        (''reason'', JStr (gd_reason_summary dec)), (''requested_scope'', JList (map JStr scope))]),
      ar_expires_at = None\<rparr>"

definition create_for_decision ::
    "string \<Rightarrow> string \<Rightarrow> string list \<Rightarrow> db \<Rightarrow> ApprovalRequest option action_result" where
  "create_for_decision new_id decision_id requested_scope d =
     (case get_decision d decision_id of
        None \<Rightarrow> (d, Inl (ValueError ''governance decision not found''))
      | Some dec \<Rightarrow>
          if gd_decision dec = GovernanceVerdict.BLOCK \<or> \<not> gd_approval_required dec then (d, Inr None)
          else
            (case find (\<lambda>r. ar_governance_decision_id r = gd_id dec \<and>
                 Some (ar_action_id r) = gd_action_id dec \<and>
                 ar_proposal_hash r = gd_proposal_hash dec \<and>
                 ar_decision_revision r = gd_revision dec \<and> open_request (ar_status r))
               (approval_requests d) of
               Some existing \<Rightarrow> (d, Inr (Some existing))
             | None \<Rightarrow>
                 (case gd_action_id dec of
                    None \<Rightarrow> (d, Inl (ValueError ''approval request requires an action-bound decision''))
                  | Some action_id \<Rightarrow>
                      (let request = request_row new_id dec action_id (sort requested_scope)
                       in (d\<lparr>approval_requests := approval_requests d @ [request]\<rparr>, Inr (Some request))))))"

subsection \<open>\<^verbatim>\<open>approvals/decision_service.py\<close>\<close>

fun request_status :: "ApprovalDecisionOutcome \<Rightarrow> ApprovalRequestStatus" where
  "request_status ApprovalDecisionOutcome.APPROVED = ApprovalRequestStatus.APPROVED"
| "request_status ApprovalDecisionOutcome.REJECTED = ApprovalRequestStatus.REJECTED"
| "request_status ApprovalDecisionOutcome.REVOKED = ApprovalRequestStatus.EXPIRED"

fun outcome_str :: "ApprovalDecisionOutcome \<Rightarrow> string" where
  "outcome_str ApprovalDecisionOutcome.APPROVED = ''APPROVED''"
| "outcome_str ApprovalDecisionOutcome.REJECTED = ''REJECTED''"
| "outcome_str ApprovalDecisionOutcome.REVOKED = ''REVOKED''"

definition request_is_expired :: "int \<Rightarrow> ApprovalRequest \<Rightarrow> bool" where
  "request_is_expired now r = (case ar_expires_at r of None \<Rightarrow> False | Some t \<Rightarrow> t \<le> now)"

definition next_sequence :: "string \<Rightarrow> db \<Rightarrow> int" where
  "next_sequence request_id d =
     max_or_0 (map ad_decision_sequence
       (filter (\<lambda>a. ad_approval_request_id a = request_id) (approval_decisions d))) + 1"

definition approval_row ::
    "string \<Rightarrow> ApprovalRequest \<Rightarrow> int \<Rightarrow> ApprovalDecisionOutcome \<Rightarrow> string \<Rightarrow> string list \<Rightarrow> ApprovalDecision" where
  "approval_row new_id request sequence outcome approver_id scope =
     \<lparr>ad_id = new_id, ad_approval_request_id = ar_id request, ad_decision_sequence = sequence,
      ad_outcome = outcome, ad_approver_id = approver_id,
      ad_approved_scope_json = json_dumps_strings scope,
      ad_evidence_json = JText (JObj [(''approved_scope'', JList (map JStr scope)),
        (''approver_id'', JStr approver_id), (''outcome'', JStr (outcome_str outcome))])\<rparr>"

definition record_approval ::
    "int \<Rightarrow> string \<Rightarrow> string \<Rightarrow> string \<Rightarrow> string \<Rightarrow> ApprovalDecisionOutcome \<Rightarrow> string list \<Rightarrow> db \<Rightarrow>
     ApprovalDecision action_result" where
  "record_approval now new_id task_id request_id approver_id outcome approved_scope d =
     (case get_request d request_id of
        None \<Rightarrow> (d, Inl (ValueError ''approval request not found''))
      | Some request \<Rightarrow>
          if ar_task_id request \<noteq> task_id
          then (d, Inl (ValueError ''cross_task approval request reuse rejected''))
          else if ar_status request = ApprovalRequestStatus.EXPIRED \<or> request_is_expired now request
          then (d, Inl (ValueError ''expired approval request rejected''))
          else
            (case get_decision d (ar_governance_decision_id request) of
               None \<Rightarrow> (d, Inl (AttributeError ''decision''))
             | Some gov \<Rightarrow>
                 if gd_decision gov = GovernanceVerdict.BLOCK
                 then (d, Inl (ValueError ''deny hard decision cannot be approved''))
                 else
                   (let row = approval_row new_id request (next_sequence (ar_id request) d) outcome
                          approver_id (sort approved_scope)
                    in (d\<lparr>approval_requests := set_row ar_id request_id
                            (\<lambda>r. r\<lparr>ar_status := request_status outcome\<rparr>) (approval_requests d),
                          approval_decisions := approval_decisions d @ [row]\<rparr>, Inr row))))"

subsection \<open>\<^verbatim>\<open>policy/compiler.py\<close>\<close>

definition approved_request :: "GovernanceDecision \<Rightarrow> db \<Rightarrow> ApprovalRequest option" where
  "approved_request dec d =
     find (\<lambda>r. ar_governance_decision_id r = gd_id dec \<and> ar_proposal_hash r = gd_proposal_hash dec \<and>
        ar_decision_revision r = gd_revision dec \<and> ar_status r = ApprovalRequestStatus.APPROVED)
       (approval_requests d)"

definition opt_json :: "string option \<Rightarrow> json" where
  "opt_json v = (case v of None \<Rightarrow> JNull | Some s \<Rightarrow> JStr s)"

definition policy_row ::
    "string \<Rightarrow> GovernanceDecision \<Rightarrow> string \<Rightarrow> ApprovalRequest option \<Rightarrow> bool \<Rightarrow> string list \<Rightarrow> string list \<Rightarrow>
     string list \<Rightarrow> string list \<Rightarrow> json \<Rightarrow> json \<Rightarrow> ExecutionPolicy" where
  "policy_row new_id dec action_id approval exec_flag reads writes cmds prots network resource_limits =
     \<lparr>ep_id = new_id, ep_task_id = gd_task_id dec, ep_action_id = action_id,
      ep_governance_decision_id = gd_id dec, ep_approval_request_id = map_option ar_id approval,
      ep_proposal_hash = gd_proposal_hash dec, ep_revision = gd_revision dec,
      ep_status = ExecutionPolicyStatus.ACTIVE, ep_executable = exec_flag,
      ep_read_paths_json = json_dumps_strings reads, ep_write_paths_json = json_dumps_strings writes,
      ep_protected_paths_json = json_dumps_strings prots, ep_commands_json = json_dumps_strings cmds,
      ep_network_json = JText network, ep_resource_limits_json = JText resource_limits,
      ep_invalidation_json = JText (JObj [(''approval_required'', JBool (gd_approval_required dec)),
        (''governance_decision_id'', JStr (gd_id dec)), (''proposal_hash'', JStr (gd_proposal_hash dec)),
        (''revision'', JStr (gd_revision dec)), (''rule_set_version'', JStr (gd_rule_set_version dec))]),
      ep_evidence_json = JText (JObj [(''approval_request_id'', opt_json (map_option ar_id approval)),
        (''decision'', JStr (verdict_str (gd_decision dec)))])\<rparr>"

definition active_policy_of :: "string \<Rightarrow> ExecutionPolicy \<Rightarrow> bool" where
  "active_policy_of task_id p \<longleftrightarrow> ep_task_id p = task_id \<and> ep_status p = ExecutionPolicyStatus.ACTIVE"

definition compile ::
    "string \<Rightarrow> string \<Rightarrow> string list \<Rightarrow> string list \<Rightarrow> string list \<Rightarrow> string list \<Rightarrow> json \<Rightarrow> json \<Rightarrow> db \<Rightarrow>
     ExecutionPolicy action_result" where
  "compile new_id governance_decision_id read_paths write_paths commands protected_paths network
       resource_limits d =
     (case get_decision d governance_decision_id of
        None \<Rightarrow> (d, Inl (ValueError ''governance decision not found''))
      | Some dec \<Rightarrow>
          (case gd_action_id dec of
             None \<Rightarrow> (d, Inl (ValueError ''execution policy requires an action-bound decision''))
           | Some action_id \<Rightarrow>
               (let approval = approved_request dec d;
                    executable = (gd_decision dec = GovernanceVerdict.ALLOW \<or> approval \<noteq> None)
                in case canonical_project_paths read_paths of Inl e \<Rightarrow> (d, Inl e) | Inr reads \<Rightarrow>
                  (case canonical_project_paths write_paths of Inl e \<Rightarrow> (d, Inl e) | Inr writes \<Rightarrow>
                  (case canonical_project_paths protected_paths of Inl e \<Rightarrow> (d, Inl e) | Inr prots \<Rightarrow>
                   (let write_grants = (if executable then sort writes else []);
                        command_grants = (if executable then sort commands else []);
                        blocked = (gd_decision dec = GovernanceVerdict.BLOCK);
                        exec_flag = (if blocked then False else executable);
                        write_grants' = (if blocked then [] else write_grants);
                        command_grants' = (if blocked then [] else command_grants);
                        policy = policy_row new_id dec action_id approval exec_flag (sort reads)
                          write_grants' command_grants' (sort prots) network resource_limits
                    in (d\<lparr>policies := set_where (active_policy_of (gd_task_id dec))
                             (\<lambda>p. p\<lparr>ep_status := ExecutionPolicyStatus.SUPERSEDED\<rparr>) (policies d) @ [policy]\<rparr>,
                        Inr policy)))))))"

subsection \<open>\<^verbatim>\<open>policy/grants.py\<close>\<close>

record TemporaryGrant =
  tg_task_id :: string
  tg_action_id :: string
  tg_policy_id :: string
  tg_proposal_hash :: string
  tg_revision :: string
  tg_write_paths :: "string list"
  tg_commands :: "string list"
  tg_protected_paths :: "string list"
  tg_revoked :: bool

record ExecutionAuthorization =
  ea_task_id :: string
  ea_action_id :: string
  ea_policy_id :: string
  ea_proposal_hash :: string
  ea_revision :: string
  ea_write_paths :: "string list"
  ea_commands :: "string list"
  ea_protected_paths :: "string list"
  ea_temporary_grant :: "TemporaryGrant option"

definition path_allowed :: "string \<Rightarrow> string list \<Rightarrow> bool" where
  "path_allowed relative_path scope \<longleftrightarrow> ''.'' \<in> set scope \<or> relative_path \<in> set scope"

definition grant_allows_write :: "TemporaryGrant \<Rightarrow> string \<Rightarrow> string \<Rightarrow> bool" where
  "grant_allows_write g relative_path revision =
     (if tg_revoked g \<or> revision \<noteq> tg_revision g then False
      else case canonical_project_path relative_path of
             Inl _ \<Rightarrow> False
           | Inr normalized \<Rightarrow> path_allowed normalized (tg_write_paths g) \<and>
               \<not> path_allowed normalized (tg_protected_paths g))"

definition authorization_allows_write :: "ExecutionAuthorization \<Rightarrow> string \<Rightarrow> string \<Rightarrow> bool" where
  "authorization_allows_write a relative_path revision =
     (if revision \<noteq> ea_revision a then False
      else case canonical_project_path relative_path of
             Inl _ \<Rightarrow> False
           | Inr normalized \<Rightarrow>
               if \<not> (path_allowed normalized (ea_write_paths a) \<and>
                     \<not> path_allowed normalized (ea_protected_paths a)) then False
               else (case ea_temporary_grant a of
                       None \<Rightarrow> True
                     | Some g \<Rightarrow> grant_allows_write g normalized revision))"

text \<open>\<^verbatim>\<open>json.loads\<close> raises on text that is not JSON; a path list that is not canonicalisable is empty.\<close>

definition json_tuple :: "json_text \<Rightarrow> string list result" where
  "json_tuple value =
     (case json_loads value of
        None \<Rightarrow> Inl (ValueError ''JSONDecodeError'')
      | Some (JList items) \<Rightarrow>
          (case canonical_project_paths (map json_str items) of Inl _ \<Rightarrow> Inr [] | Inr ps \<Rightarrow> Inr ps)
      | Some _ \<Rightarrow> Inr [])"

definition json_list :: "json_text \<Rightarrow> string list result" where
  "json_list value =
     (case json_loads value of
        None \<Rightarrow> Inl (ValueError ''JSONDecodeError'')
      | Some (JList items) \<Rightarrow> Inr (map json_str items)
      | Some _ \<Rightarrow> Inr [])"

definition from_policy :: "ExecutionPolicy \<Rightarrow> TemporaryGrant option \<Rightarrow> ExecutionAuthorization result" where
  "from_policy policy temporary_grant =
     rbind (json_tuple (ep_write_paths_json policy)) (\<lambda>writes.
     rbind (json_list (ep_commands_json policy)) (\<lambda>cmds.
     rbind (json_tuple (ep_protected_paths_json policy)) (\<lambda>prots.
       Inr \<lparr>ea_task_id = ep_task_id policy, ea_action_id = ep_action_id policy,
            ea_policy_id = ep_id policy, ea_proposal_hash = ep_proposal_hash policy,
            ea_revision = ep_revision policy, ea_write_paths = writes, ea_commands = cmds,
            ea_protected_paths = prots, ea_temporary_grant = temporary_grant\<rparr>)))"

definition grant_create :: "string \<Rightarrow> string list \<Rightarrow> string list \<Rightarrow> db \<Rightarrow> TemporaryGrant result" where
  "grant_create policy_id write_paths commands d =
     (case get_policy d policy_id of
        None \<Rightarrow> Inl (ValueError ''execution policy not found'')
      | Some policy \<Rightarrow>
          if ep_status policy \<noteq> ExecutionPolicyStatus.ACTIVE \<or> \<not> ep_executable policy
          then Inl (ValueError ''inactive_policy'')
          else
            rbind (json_tuple (ep_write_paths_json policy)) (\<lambda>allowed_writes.
            rbind (json_list (ep_commands_json policy)) (\<lambda>allowed_commands.
            rbind (canonical_project_paths write_paths) (\<lambda>requested_writes.
              if \<not> set requested_writes \<subseteq> set allowed_writes \<or> \<not> set commands \<subseteq> set allowed_commands
              then Inl (ValueError ''expand_scope'')
              else
                rbind (json_tuple (ep_protected_paths_json policy)) (\<lambda>prots.
                  Inr \<lparr>tg_task_id = ep_task_id policy, tg_action_id = ep_action_id policy,
                       tg_policy_id = ep_id policy, tg_proposal_hash = ep_proposal_hash policy,
                       tg_revision = ep_revision policy, tg_write_paths = sorted_set requested_writes,
                       tg_commands = sorted_set commands, tg_protected_paths = prots,
                       tg_revoked = False\<rparr>)))))"

subsection \<open>\<^verbatim>\<open>policy/enforcer.py\<close>\<close>

datatype write_grant = Temporary TemporaryGrant | Authorization ExecutionAuthorization

fun wg_policy_id :: "write_grant \<Rightarrow> string" where
  "wg_policy_id (Temporary g) = tg_policy_id g"
| "wg_policy_id (Authorization a) = ea_policy_id a"

fun wg_task_id :: "write_grant \<Rightarrow> string" where
  "wg_task_id (Temporary g) = tg_task_id g"
| "wg_task_id (Authorization a) = ea_task_id a"

fun wg_allows_write :: "write_grant \<Rightarrow> string \<Rightarrow> string \<Rightarrow> bool" where
  "wg_allows_write (Temporary g) path revision = grant_allows_write g path revision"
| "wg_allows_write (Authorization a) path revision = authorization_allows_write a path revision"

record EnforcementResult =
  er_allowed :: bool
  er_reason :: string

text \<open>
  The handler is a state transformer that may raise; the enforcer runs it last, so its exception
  leaves \<open>dispatch_write\<close>.
\<close>

definition dispatch_write ::
    "db \<Rightarrow> string \<Rightarrow> write_grant \<Rightarrow> string \<Rightarrow> string \<Rightarrow> bool \<Rightarrow> ('s \<Rightarrow> 's \<times> 'a result) \<Rightarrow> 's \<Rightarrow>
     's \<times> EnforcementResult result" where
  "dispatch_write d policy_id grant relative_path revision orchestrator_allowed handler st =
     (let refuse = (\<lambda>reason. (st, Inr \<lparr>er_allowed = False, er_reason = reason\<rparr>))
      in case get_policy d policy_id of
           None \<Rightarrow> refuse ''inactive_policy''
         | Some policy \<Rightarrow>
             if ep_status policy \<noteq> ExecutionPolicyStatus.ACTIVE \<or> \<not> ep_executable policy
             then refuse ''inactive_policy''
             else if wg_policy_id grant \<noteq> ep_id policy \<or> wg_task_id grant \<noteq> ep_task_id policy
             then refuse ''grant_mismatch''
             else
               (case canonical_project_path relative_path of
                  Inl _ \<Rightarrow> refuse ''outside_policy''
                | Inr normalized \<Rightarrow>
                    if \<not> wg_allows_write grant normalized revision then refuse ''outside_policy''
                    else if \<not> orchestrator_allowed then refuse ''orchestrator_denied''
                    else (case handler st of
                            (st', Inl e) \<Rightarrow> (st', Inl e)
                          | (st', Inr _) \<Rightarrow>
                              (st', Inr \<lparr>er_allowed = True, er_reason = ''allowed''\<rparr>))))"

subsection \<open>\<^verbatim>\<open>governance/regovernance.py\<close>\<close>

record ReGovernanceResult =
  rg_task_id :: string
  rg_reason :: string
  rg_evidence_ref :: string
  rg_invalidated_policy_ids :: "string list"

definition supersede_decisions :: "string \<Rightarrow> db \<Rightarrow> db" where
  "supersede_decisions task_id d =
     d\<lparr>decisions := set_where
         (\<lambda>g. gd_task_id g = task_id \<and> gd_status g = GovernanceDecisionStatus.ACTIVE)
         (\<lambda>g. g\<lparr>gd_status := GovernanceDecisionStatus.SUPERSEDED\<rparr>) (decisions d)\<rparr>"

definition supersede_requests :: "string \<Rightarrow> db \<Rightarrow> db" where
  "supersede_requests task_id d =
     d\<lparr>approval_requests := set_where
         (\<lambda>r. ar_task_id r = task_id \<and> open_request (ar_status r))
         (\<lambda>r. r\<lparr>ar_status := ApprovalRequestStatus.SUPERSEDED\<rparr>) (approval_requests d)\<rparr>"

definition supersede_policies :: "string \<Rightarrow> db \<Rightarrow> db" where
  "supersede_policies task_id d =
     d\<lparr>policies := set_where (active_policy_of task_id)
         (\<lambda>p. p\<lparr>ep_status := ExecutionPolicyStatus.SUPERSEDED, ep_executable := False\<rparr>) (policies d)\<rparr>"

definition trigger_new_scope ::
    "string \<Rightarrow> string list \<Rightarrow> string \<Rightarrow> db \<Rightarrow> ReGovernanceResult action_result" where
  "trigger_new_scope task_id new_paths evidence_ref d =
     (case get_task d task_id of
        None \<Rightarrow> (d, Inl (ValueError ''task not found''))
      | Some task \<Rightarrow>
          (let d1 = d\<lparr>impact_reports := set_where
                   (\<lambda>r. ir_task_id r = task_id \<and> ir_status r = ImpactReportStatus.CURRENT)
                   (\<lambda>r. r\<lparr>ir_status := ImpactReportStatus.STALE\<rparr>) (impact_reports d)\<rparr>;
               d2 = supersede_requests task_id (supersede_decisions task_id d1);
               invalidated = map ep_id (filter (active_policy_of task_id) (policies d2));
               d3 = supersede_policies task_id d2;
               d4 = d3\<lparr>validation_plans := set_where
                   (\<lambda>v. vp_task_id v = task_id \<and> vp_status v = ValidationPlanStatus.ACTIVE)
                   (\<lambda>v. v\<lparr>vp_status := ValidationPlanStatus.SUPERSEDED\<rparr>) (validation_plans d3)\<rparr>;
               d5 = d4\<lparr>tasks := set_row tk_id task_id
                   (\<lambda>t. t\<lparr>tk_status := TaskStatus.BLOCKED, tk_failure_code := Some ''ANALYSIS_REQUIRED'',
                     tk_failure_message := Some (''New scope requires re-governance: '' @
                       join '', '' (sort new_paths) @ '' ('' @ evidence_ref @ '')'')\<rparr>) (tasks d4)\<rparr>
           in (d5, Inr \<lparr>rg_task_id = task_id, rg_reason = ''new_file_scope'',
                 rg_evidence_ref = evidence_ref, rg_invalidated_policy_ids = sort invalidated\<rparr>)))"

subsection \<open>\<^verbatim>\<open>proposals/review_service.py\<close>\<close>

record ProposalReviewResult =
  rv_confirmed_proposal_id :: string
  rv_superseded_proposal_ids :: "string list"

definition can_write_execution :: "string \<Rightarrow> db \<Rightarrow> bool" where
  "can_write_execution proposal_id d =
     (case get_proposal d proposal_id of None \<Rightarrow> False
      | Some p \<Rightarrow> pr_status p = ProposalStatus.CONFIRMED)"

definition other_proposal :: "ChangeProposal \<Rightarrow> ChangeProposal \<Rightarrow> bool" where
  "other_proposal proposal p \<longleftrightarrow> pr_task_id p = pr_task_id proposal \<and> pr_id p \<noteq> pr_id proposal \<and>
     pr_status p \<noteq> ProposalStatus.SUPERSEDED"

definition supersede_other_proposals :: "ChangeProposal \<Rightarrow> db \<Rightarrow> db \<times> string list" where
  "supersede_other_proposals proposal d =
     (d\<lparr>proposals := set_where (other_proposal proposal)
          (\<lambda>p. p\<lparr>pr_status := ProposalStatus.SUPERSEDED\<rparr>) (proposals d)\<rparr>,
      map pr_id (sort_key pr_version (filter (other_proposal proposal) (proposals d))))"

definition invalidate_downstream_state :: "string \<Rightarrow> string list \<Rightarrow> db \<Rightarrow> db" where
  "invalidate_downstream_state task_id old_proposal_ids d =
     (let d1 = (if old_proposal_ids \<noteq> [] then
            d\<lparr>impact_reports := set_where (\<lambda>r. ir_proposal_id r \<in> set old_proposal_ids)
                (\<lambda>r. r\<lparr>ir_status := ImpactReportStatus.SUPERSEDED\<rparr>) (impact_reports d),
              validation_plans := set_where (\<lambda>v. vp_proposal_id v \<in> set old_proposal_ids)
                (\<lambda>v. v\<lparr>vp_status := ValidationPlanStatus.SUPERSEDED\<rparr>) (validation_plans d)\<rparr>
          else d)
      in supersede_policies task_id (supersede_requests task_id (supersede_decisions task_id d1)))"

definition confirm_new_version :: "string \<Rightarrow> string \<Rightarrow> db \<Rightarrow> ProposalReviewResult action_result" where
  "confirm_new_version proposal_id actor_id d =
     (case get_proposal d proposal_id of
        None \<Rightarrow> (d, Inl (ValueError ''proposal not found''))
      | Some proposal \<Rightarrow>
          if pr_completeness proposal \<noteq> ProposalCompleteness.COMPLETE
          then (d, Inl (ValueError ''proposal must be complete before confirmation''))
          else
            (let (d1, superseded_ids) = supersede_other_proposals proposal d;
                 d2 = d1\<lparr>proposals := set_row pr_id proposal_id
                   (\<lambda>p. p\<lparr>pr_status := ProposalStatus.CONFIRMED\<rparr>) (proposals d1)\<rparr>
             in case get_task d2 (pr_task_id proposal) of
                  None \<Rightarrow> (d2, Inl (AttributeError ''active_proposal_id''))
                | Some task \<Rightarrow>
                    (let d3 = d2\<lparr>tasks := set_row tk_id (tk_id task)
                           (\<lambda>t. t\<lparr>tk_active_proposal_id := Some proposal_id,
                             tk_status := TaskStatus.GOVERNING, tk_failure_code := None,
                             tk_failure_message := Some (''Proposal confirmed by '' @ actor_id)\<rparr>) (tasks d2)\<rparr>
                     in (invalidate_downstream_state (pr_task_id proposal) superseded_ids d3,
                         Inr \<lparr>rv_confirmed_proposal_id = proposal_id,
                              rv_superseded_proposal_ids = superseded_ids\<rparr>))))"

subsection \<open>Authority to write\<close>

text \<open>
  What a holder of write authority promises its clients: a permitted write names a canonical path of
  the scope that no protected path covers, at the revision of the authority.
\<close>

locale write_authority =
  fixes allows :: "'g \<Rightarrow> string \<Rightarrow> string \<Rightarrow> bool"
    and scope :: "'g \<Rightarrow> string list"
    and protected_scope :: "'g \<Rightarrow> string list"
    and revision_of :: "'g \<Rightarrow> string"
  assumes allows_sound: "allows g path revision \<Longrightarrow>
      \<exists>p. canonical_project_path path = Inr p \<and> path_allowed p (scope g) \<and>
          \<not> path_allowed p (protected_scope g) \<and> revision = revision_of g"
begin

lemma empty_scope_denies: "scope g = [] \<Longrightarrow> \<not> allows g path revision"
  by (auto dest: allows_sound simp: path_allowed_def)

lemma protected_root_denies: "''.'' \<in> set (protected_scope g) \<Longrightarrow> \<not> allows g path revision"
  by (auto dest: allows_sound simp: path_allowed_def)

lemma stale_revision_denies: "revision \<noteq> revision_of g \<Longrightarrow> \<not> allows g path revision"
  by (auto dest: allows_sound)

lemma allows_path:
  assumes "allows g path revision"
  obtains p where "canonical_project_path path = Inr p" "path_allowed p (scope g)"
    "p \<notin> set (protected_scope g)" "''.'' \<notin> set (protected_scope g)"
  using allows_sound [OF assms] by (auto simp: path_allowed_def)

end

interpretation temporary_grant: write_authority grant_allows_write tg_write_paths tg_protected_paths tg_revision
  by unfold_locales (auto simp: grant_allows_write_def split: if_splits sum.splits)

interpretation authorization: write_authority authorization_allows_write ea_write_paths ea_protected_paths
    ea_revision
  by unfold_locales
     (auto simp: authorization_allows_write_def split: if_splits sum.splits option.splits)

fun wg_scope :: "write_grant \<Rightarrow> string list" where
  "wg_scope (Temporary g) = tg_write_paths g"
| "wg_scope (Authorization a) = ea_write_paths a"

fun wg_protected :: "write_grant \<Rightarrow> string list" where
  "wg_protected (Temporary g) = tg_protected_paths g"
| "wg_protected (Authorization a) = ea_protected_paths a"

fun wg_revision :: "write_grant \<Rightarrow> string" where
  "wg_revision (Temporary g) = tg_revision g"
| "wg_revision (Authorization a) = ea_revision a"

interpretation any_grant: write_authority wg_allows_write wg_scope wg_protected wg_revision
proof unfold_locales
  fix g path revision
  assume "wg_allows_write g path revision"
  then show "\<exists>p. canonical_project_path path = Inr p \<and> path_allowed p (wg_scope g) \<and>
      \<not> path_allowed p (wg_protected g) \<and> revision = wg_revision g"
    by (cases g) (simp_all add: temporary_grant.allows_sound authorization.allows_sound)
qed

subsection \<open>Compiled policies\<close>

lemma compile_Inr:
  assumes "compile i gid rs ws cs ps net lim d = (d', Inr p)"
  obtains dec action_id reads writes prots where
    "get_decision d gid = Some dec" "gd_action_id dec = Some action_id"
    "canonical_project_paths rs = Inr reads" "canonical_project_paths ws = Inr writes"
    "canonical_project_paths ps = Inr prots"
    "p = policy_row i dec action_id (approved_request dec d)
       (gd_decision dec \<noteq> GovernanceVerdict.BLOCK \<and>
         (gd_decision dec = GovernanceVerdict.ALLOW \<or> approved_request dec d \<noteq> None))
       (sort reads)
       (if gd_decision dec \<noteq> GovernanceVerdict.BLOCK \<and>
         (gd_decision dec = GovernanceVerdict.ALLOW \<or> approved_request dec d \<noteq> None) then sort writes else [])
       (if gd_decision dec \<noteq> GovernanceVerdict.BLOCK \<and>
         (gd_decision dec = GovernanceVerdict.ALLOW \<or> approved_request dec d \<noteq> None) then sort cs else [])
       (sort prots) net lim"
    "d' = d\<lparr>policies := set_where (active_policy_of (gd_task_id dec))
        (\<lambda>p. p\<lparr>ep_status := ExecutionPolicyStatus.SUPERSEDED\<rparr>) (policies d) @ [p]\<rparr>"
  using assms
  by (auto simp: compile_def Let_def simp del: set_where_False split: option.splits sum.splits if_splits)

lemma compile_Inl_same: "compile i gid rs ws cs ps net lim d = (d', Inl e) \<Longrightarrow> d' = d"
  by (auto simp: compile_def Let_def split: option.splits sum.splits)

lemma policy_row_simps [simp]:
  "ep_id (policy_row i dec a ap ex rs ws cs ps net lim) = i"
  "ep_task_id (policy_row i dec a ap ex rs ws cs ps net lim) = gd_task_id dec"
  "ep_governance_decision_id (policy_row i dec a ap ex rs ws cs ps net lim) = gd_id dec"
  "ep_approval_request_id (policy_row i dec a ap ex rs ws cs ps net lim) = map_option ar_id ap"
  "ep_status (policy_row i dec a ap ex rs ws cs ps net lim) = ExecutionPolicyStatus.ACTIVE"
  "ep_executable (policy_row i dec a ap ex rs ws cs ps net lim) = ex"
  "ep_write_paths_json (policy_row i dec a ap ex rs ws cs ps net lim) = json_dumps_strings ws"
  "ep_commands_json (policy_row i dec a ap ex rs ws cs ps net lim) = json_dumps_strings cs"
  "ep_protected_paths_json (policy_row i dec a ap ex rs ws cs ps net lim) = json_dumps_strings ps"
  "ep_revision (policy_row i dec a ap ex rs ws cs ps net lim) = gd_revision dec"
  by (simp_all add: policy_row_def)

lemma approved_request_Some_iff:
  "approved_request dec d \<noteq> None \<longleftrightarrow>
     (\<exists>r \<in> set (approval_requests d). ar_governance_decision_id r = gd_id dec \<and>
        ar_proposal_hash r = gd_proposal_hash dec \<and> ar_decision_revision r = gd_revision dec \<and>
        ar_status r = ApprovalRequestStatus.APPROVED)"
  by (auto simp: approved_request_def find_None_iff)

lemma no_active_after_supersede:
  "filter (active_policy_of tid) (set_where (active_policy_of tid)
     (\<lambda>p. p\<lparr>ep_status := ExecutionPolicyStatus.SUPERSEDED\<rparr>) ps) = []"
  by (rule filter_set_where_none) (auto simp: active_policy_of_def)

text \<open>
  (C17) A compiled policy is executable exactly when the decision does not block and either allows or has
  an approved request for the same decision, proposal and revision; otherwise it grants no write and no
  command. The compiled policy is then the only active policy of its task.
\<close>

theorem compile_authority:
  assumes "compile i gid rs ws cs ps net lim d = (d', Inr p)"
  shows "\<exists>dec. get_decision d gid = Some dec \<and>
     (ep_executable p \<longleftrightarrow> gd_decision dec = GovernanceVerdict.ALLOW \<or>
        (gd_decision dec = GovernanceVerdict.WARN \<and>
         (\<exists>r \<in> set (approval_requests d). ar_governance_decision_id r = gd_id dec \<and>
            ar_proposal_hash r = gd_proposal_hash dec \<and> ar_decision_revision r = gd_revision dec \<and>
            ar_status r = ApprovalRequestStatus.APPROVED))) \<and>
     (\<not> ep_executable p \<longrightarrow> ep_write_paths_json p = json_dumps_strings [] \<and>
        ep_commands_json p = json_dumps_strings []) \<and>
     filter (active_policy_of (ep_task_id p)) (policies d') = [p]"
  using assms
proof (cases rule: compile_Inr)
  case (1 dec action_id reads writes prots)
  have v: "gd_decision dec \<noteq> GovernanceVerdict.BLOCK \<longleftrightarrow>
    gd_decision dec = GovernanceVerdict.ALLOW \<or> gd_decision dec = GovernanceVerdict.WARN"
    by (cases "gd_decision dec") auto
  have "filter (active_policy_of (ep_task_id p)) (policies d') = [p]"
    unfolding 1(7) by (simp add: 1(6) no_active_after_supersede) (simp add: active_policy_of_def)
  with 1(1) show ?thesis
    unfolding 1(6) by (auto simp: v approved_request_Some_iff [symmetric])
qed

definition sample_decision :: "GovernanceVerdict \<Rightarrow> GovernanceDecision" where
  "sample_decision verdict = \<lparr>gd_id = ''d1'', gd_task_id = ''t1'', gd_action_id = Some ''a1'',
     gd_impact_report_id = None, gd_proposal_hash = ''p'', gd_revision = ''r'', gd_decision = verdict,
     gd_risk_level = RiskLevel.LOW, gd_reason_summary = ''ok'',
     gd_allowed_scope_json = Some (json_dumps_strings [''src/a.py'']), gd_denied_scope_json = None,
     gd_approval_required = False, gd_status = GovernanceDecisionStatus.ACTIVE,
     gd_rule_set_version = ''v'', gd_evidence_json = JText (JObj []), gd_expires_at = None\<rparr>"

definition sample_db :: "GovernanceVerdict \<Rightarrow> db" where
  "sample_db verdict = empty_db\<lparr>decisions := [sample_decision verdict]\<rparr>"

definition sample_compiled :: "GovernanceVerdict \<Rightarrow> db \<times> ExecutionPolicy result" where
  "sample_compiled verdict =
     compile ''pol'' ''d1'' [] [''src/a.py''] [''pytest''] [''.git''] (JObj []) (JObj []) (sample_db verdict)"

lemma sample_canonical:
  "canonical_project_paths [''src/a.py''] = Inr [''src/a.py'']"
  "canonical_project_paths [''.git''] = Inr [''.git'']"
  "canonical_project_paths [] = Inr []"
  by code_simp+

lemma get_sample_decision: "get_decision (sample_db v) ''d1'' = Some (sample_decision v)"
  by (simp add: sample_db_def sample_decision_def get_row_def)

lemma sample_compiled_Inr:
  "sample_compiled v = (fst (sample_compiled v), Inr (policy_row ''pol'' (sample_decision v) ''a1'' None
     (v = GovernanceVerdict.ALLOW) [] (if v = GovernanceVerdict.ALLOW then [''src/a.py''] else [])
     (if v = GovernanceVerdict.ALLOW then [''pytest''] else []) [''.git''] (JObj []) (JObj [])))"
  by (cases v) (simp_all add: sample_compiled_def compile_def get_sample_decision sample_canonical Let_def
       approved_request_def sample_db_def empty_db_def sample_decision_def get_row_def)

theorem compile_authority_witness:
  "\<exists>p. snd (sample_compiled GovernanceVerdict.ALLOW) = Inr p \<and> ep_executable p \<and>
     filter (active_policy_of ''t1'') (policies (fst (sample_compiled GovernanceVerdict.ALLOW))) = [p]"
  using compile_authority [OF sample_compiled_Inr [unfolded sample_compiled_def], of GovernanceVerdict.ALLOW]
    sample_compiled_Inr [of GovernanceVerdict.ALLOW]
  by (auto simp: get_sample_decision sample_decision_def sample_compiled_def prod_eq_iff)

subsection \<open>Grants and the enforcer\<close>

lemma grant_create_Inr:
  assumes "grant_create pid ws cs d = Inr g"
  obtains policy writes where
    "get_policy d pid = Some policy" "ep_status policy = ExecutionPolicyStatus.ACTIVE" "ep_executable policy"
    "json_tuple (ep_write_paths_json policy) = Inr writes" "set (tg_write_paths g) \<subseteq> set writes"
    "json_tuple (ep_protected_paths_json policy) = Inr (tg_protected_paths g)"
    "tg_revision g = ep_revision policy" "tg_policy_id g = ep_id policy" "tg_task_id g = ep_task_id policy"
    "\<exists>allowed. json_list (ep_commands_json policy) = Inr allowed \<and> set (tg_commands g) \<subseteq> set allowed"
  using assms
  by (auto simp: grant_create_def rbind_eq_Inr split: option.splits if_splits)

lemma from_policy_Inr:
  assumes "from_policy policy tg = Inr a"
  shows "json_tuple (ep_write_paths_json policy) = Inr (ea_write_paths a)"
    "json_tuple (ep_protected_paths_json policy) = Inr (ea_protected_paths a)"
    "ea_revision a = ep_revision policy" "ea_temporary_grant a = tg"
  using assms by (auto simp: from_policy_def rbind_eq_Inr)


definition sample_policy_db :: db where
  "sample_policy_db = fst (sample_compiled GovernanceVerdict.ALLOW)"

definition sample_policy :: ExecutionPolicy where
  "sample_policy = policy_row ''pol'' (sample_decision GovernanceVerdict.ALLOW) ''a1'' None
     True [] [''src/a.py''] [''pytest''] [''.git''] (JObj []) (JObj [])"

lemma get_sample_policy: "get_policy sample_policy_db ''pol'' = Some sample_policy"
  by (simp add: sample_policy_db_def sample_policy_def sample_compiled_def compile_def get_sample_decision
      sample_canonical Let_def approved_request_def sample_db_def empty_db_def sample_decision_def
      get_row_def set_where_def)

definition sample_grant :: TemporaryGrant where
  "sample_grant = \<lparr>tg_task_id = ''t1'', tg_action_id = ''a1'', tg_policy_id = ''pol'',
     tg_proposal_hash = ''p'', tg_revision = ''r'', tg_write_paths = [''src/a.py''],
     tg_commands = [], tg_protected_paths = [''.git''], tg_revoked = False\<rparr>"

lemma sample_grant_created: "grant_create ''pol'' [''src/a.py''] [] sample_policy_db = Inr sample_grant"
  by (simp add: grant_create_def get_sample_policy sample_policy_def json_tuple_def json_list_def
      json_dumps_strings_def sample_canonical sample_grant_def sorted_set_def comp_def)
     (simp add: policy_row_def sample_decision_def)


lemma dispatch_write_cases:
  obtains (refused) reason where
      "dispatch_write d pid g path revision ok handler st = (st, Inr \<lparr>er_allowed = False, er_reason = reason\<rparr>)"
  | (ran) policy n where "get_policy d pid = Some policy"
      "ep_status policy = ExecutionPolicyStatus.ACTIVE" "ep_executable policy"
      "wg_policy_id g = ep_id policy" "wg_task_id g = ep_task_id policy"
      "canonical_project_path path = Inr n" "wg_allows_write g n revision" "ok"
      "dispatch_write d pid g path revision ok handler st =
         (case handler st of (st', Inl e) \<Rightarrow> (st', Inl e)
          | (st', Inr _) \<Rightarrow> (st', Inr \<lparr>er_allowed = True, er_reason = ''allowed''\<rparr>))"
proof -
  let ?D = "dispatch_write d pid g path revision ok handler st"
  have "(\<exists>reason. ?D = (st, Inr \<lparr>er_allowed = False, er_reason = reason\<rparr>)) \<or>
    (\<exists>policy n. get_policy d pid = Some policy \<and>
      ep_status policy = ExecutionPolicyStatus.ACTIVE \<and> ep_executable policy \<and>
      wg_policy_id g = ep_id policy \<and> wg_task_id g = ep_task_id policy \<and>
      canonical_project_path path = Inr n \<and> wg_allows_write g n revision \<and> ok \<and>
      ?D = (case handler st of (st', Inl e) \<Rightarrow> (st', Inl e)
          | (st', Inr _) \<Rightarrow> (st', Inr \<lparr>er_allowed = True, er_reason = ''allowed''\<rparr>)))"
    by (cases "get_policy d pid"; cases "canonical_project_path path") (auto simp: dispatch_write_def Let_def)
  then show thesis using refused ran by blast
qed



subsection \<open>Approvals\<close>

lemma record_approval_cases:
  obtains (refused) e where "record_approval now i tid rid who outcome scope d = (d, Inl e)"
  | (recorded) request gov row where "get_request d rid = Some request" "ar_task_id request = tid"
      "ar_status request \<noteq> ApprovalRequestStatus.EXPIRED" "\<not> request_is_expired now request"
      "get_decision d (ar_governance_decision_id request) = Some gov"
      "gd_decision gov \<noteq> GovernanceVerdict.BLOCK"
      "row = approval_row i request (next_sequence rid d) outcome who (sort scope)"
      "record_approval now i tid rid who outcome scope d =
         (d\<lparr>approval_requests := set_row ar_id rid
              (\<lambda>r. r\<lparr>ar_status := request_status outcome\<rparr>) (approval_requests d),
            approval_decisions := approval_decisions d @ [row]\<rparr>, Inr row)"
proof -
  let ?R = "record_approval now i tid rid who outcome scope d"
  have key: "ar_id request = rid" if "get_request d rid = Some request" for request
    using get_row_Some [OF that] by simp
  have "(\<exists>e. ?R = (d, Inl e)) \<or>
    (\<exists>request gov. get_request d rid = Some request \<and> ar_task_id request = tid \<and>
      ar_status request \<noteq> ApprovalRequestStatus.EXPIRED \<and> \<not> request_is_expired now request \<and>
      get_decision d (ar_governance_decision_id request) = Some gov \<and>
      gd_decision gov \<noteq> GovernanceVerdict.BLOCK \<and>
      ?R = (let row = approval_row i request (next_sequence rid d) outcome who (sort scope) in
         (d\<lparr>approval_requests := set_row ar_id rid
              (\<lambda>r. r\<lparr>ar_status := request_status outcome\<rparr>) (approval_requests d),
            approval_decisions := approval_decisions d @ [row]\<rparr>, Inr row)))"
    using key by (auto simp: record_approval_def Let_def split: option.split)
  then show thesis using refused recorded by (auto simp: Let_def)
qed

text \<open>
  An approval is recorded only for a request of the same task that has not expired and whose
  decision does not block; the request then carries the outcome and the decision gets a sequence number
  above every earlier one of that request. A refused approval leaves the database unchanged.
\<close>

theorem approval_recorded:
  assumes "record_approval now i tid rid who outcome scope d = (d', res)"
  shows "case res of
      Inl e \<Rightarrow> d' = d
    | Inr row \<Rightarrow>
        (\<exists>request gov. get_request d rid = Some request \<and> ar_task_id request = tid \<and>
           ar_status request \<noteq> ApprovalRequestStatus.EXPIRED \<and>
           (\<forall>t. ar_expires_at request = Some t \<longrightarrow> now < t) \<and>
           get_decision d (ar_governance_decision_id request) = Some gov \<and>
           gd_decision gov \<noteq> GovernanceVerdict.BLOCK \<and>
           get_request d' rid = Some (request\<lparr>ar_status := request_status outcome\<rparr>)) \<and>
        ad_outcome row = outcome \<and> approval_decisions d' = approval_decisions d @ [row] \<and>
        (\<forall>a \<in> set (approval_decisions d). ad_approval_request_id a = rid \<longrightarrow>
           ad_decision_sequence a < ad_decision_sequence row)"
proof (cases rule: record_approval_cases [of now i tid rid who outcome scope d])
  case (refused e)
  with assms show ?thesis by auto
next
  case (recorded request gov row)
  have seq: "\<forall>a \<in> set (approval_decisions d). ad_approval_request_id a = rid \<longrightarrow>
           ad_decision_sequence a < ad_decision_sequence row"
    using max_or_0_ge [of _ "map ad_decision_sequence
       (filter (\<lambda>a. ad_approval_request_id a = rid) (approval_decisions d))"]
    by (fastforce simp: recorded(7) approval_row_def next_sequence_def)
  have "get_row ar_id rid (set_row ar_id rid (\<lambda>r. r\<lparr>ar_status := request_status outcome\<rparr>)
      (approval_requests d)) = Some (request\<lparr>ar_status := request_status outcome\<rparr>)"
    using recorded(1) by (simp add: get_row_set_row)
  moreover have "\<forall>t. ar_expires_at request = Some t \<longrightarrow> now < t"
    using recorded(4) by (auto simp: request_is_expired_def)
  moreover have "d' = d\<lparr>approval_requests := set_row ar_id rid
              (\<lambda>r. r\<lparr>ar_status := request_status outcome\<rparr>) (approval_requests d),
            approval_decisions := approval_decisions d @ [row]\<rparr>" "res = Inr row"
    using assms recorded(8) by auto
  moreover have "ad_outcome row = outcome" by (simp add: recorded(7) approval_row_def)
  ultimately show ?thesis using recorded(1-6) seq by simp
qed

definition sample_request_db :: "ApprovalRequestStatus \<Rightarrow> db" where
  "sample_request_db st =
     (sample_db GovernanceVerdict.WARN)\<lparr>approval_requests :=
        [(request_row ''q1'' (sample_decision GovernanceVerdict.WARN) ''a1'' [''src/a.py''])\<lparr>ar_status := st\<rparr>]\<rparr>"

theorem approval_recorded_witness:
  "\<exists>row. snd (record_approval 10 ''ad1'' ''t1'' ''q1'' ''alice'' ApprovalDecisionOutcome.APPROVED [''src/a.py'']
       (sample_request_db ApprovalRequestStatus.PENDING)) = Inr row \<and>
     ad_outcome row = ApprovalDecisionOutcome.APPROVED"
proof -
  let ?r = "record_approval 10 ''ad1'' ''t1'' ''q1'' ''alice'' ApprovalDecisionOutcome.APPROVED [''src/a.py'']
       (sample_request_db ApprovalRequestStatus.PENDING)"
  have "\<not> isl (snd ?r)" by code_simp
  then obtain row where row: "snd ?r = Inr row" by (cases "snd ?r") auto
  then have "?r = (fst ?r, Inr row)" by (simp add: prod_eq_iff)
  from approval_recorded [OF this] row show ?thesis by auto
qed

text \<open>
  A request that re-governance superseded can still be approved, and its superseded decision then
  compiles to an active executable policy.
\<close>

theorem superseded_request_revives:
  "let d1 = (sample_request_db ApprovalRequestStatus.APPROVED)\<lparr>tasks := [new_task ''t1'' (sample_request)]\<rparr>;
       d2 = fst (trigger_new_scope ''t1'' [''src/b.py''] ''ev'' d1);
       d3 = fst (record_approval 10 ''ad1'' ''t1'' ''q1'' ''alice'' ApprovalDecisionOutcome.APPROVED [] d2);
       res = snd (compile ''pol'' ''d1'' [] [''src/b.py''] [] [] (JObj []) (JObj []) d3)
   in map ar_status (approval_requests d2) = [ApprovalRequestStatus.SUPERSEDED] \<and>
      map gd_status (decisions d3) = [GovernanceDecisionStatus.SUPERSEDED] \<and>
      (case res of Inl e \<Rightarrow> False
       | Inr p \<Rightarrow> ep_executable p \<and> ep_status p = ExecutionPolicyStatus.ACTIVE \<and>
           ep_write_paths_json p = json_dumps_strings [''src/b.py''])"
  by code_simp

subsection \<open>Revocation\<close>

text \<open>No decision, request or policy of the task is in force.\<close>

definition authority_revoked :: "string \<Rightarrow> db \<Rightarrow> bool" where
  "authority_revoked tid d \<longleftrightarrow>
     (\<forall>g \<in> set (decisions d). gd_task_id g = tid \<longrightarrow> gd_status g \<noteq> GovernanceDecisionStatus.ACTIVE) \<and>
     (\<forall>r \<in> set (approval_requests d). ar_task_id r = tid \<longrightarrow> \<not> open_request (ar_status r)) \<and>
     (\<forall>p \<in> set (policies d). \<not> active_policy_of tid p)"

definition revoke_all :: "string \<Rightarrow> db \<Rightarrow> db" where
  "revoke_all tid d = supersede_policies tid (supersede_requests tid (supersede_decisions tid d))"


lemma supersede_eqs [simp]:
  "policies (supersede_decisions tid d) = policies d"
  "policies (supersede_requests tid d) = policies d"
  "decisions (supersede_policies tid d) = decisions d"
  "decisions (supersede_requests tid d) = decisions d"
  "tasks (supersede_decisions tid d) = tasks d"
  "tasks (supersede_requests tid d) = tasks d"
  "tasks (supersede_policies tid d) = tasks d"
  "approval_requests (supersede_decisions tid d) = approval_requests d"
  "approval_requests (supersede_policies tid d) = approval_requests d"
  "validation_plans (supersede_policies tid d) = validation_plans d"
  by (simp_all add: supersede_decisions_def supersede_requests_def supersede_policies_def)

lemma revoke_all_revokes: "authority_revoked tid (revoke_all tid d)"
  unfolding authority_revoked_def
proof (intro conjI)
  show "\<forall>g \<in> set (decisions (revoke_all tid d)).
      gd_task_id g = tid \<longrightarrow> gd_status g \<noteq> GovernanceDecisionStatus.ACTIVE"
    unfolding revoke_all_def supersede_eqs supersede_decisions_def by simp (rule ball_set_where_all; simp)
  show "\<forall>r \<in> set (approval_requests (revoke_all tid d)). ar_task_id r = tid \<longrightarrow> \<not> open_request (ar_status r)"
    unfolding revoke_all_def supersede_eqs supersede_requests_def
    by simp (rule ball_set_where_all; simp add: open_request_def)
  show "\<forall>p \<in> set (policies (revoke_all tid d)). \<not> active_policy_of tid p"
    unfolding revoke_all_def supersede_eqs supersede_policies_def
    by simp (rule ball_set_where_all; simp add: active_policy_of_def)
qed

lemma authority_revoked_cong:
  "decisions d = decisions d' \<Longrightarrow> approval_requests d = approval_requests d' \<Longrightarrow> policies d = policies d' \<Longrightarrow>
     authority_revoked tid d = authority_revoked tid d'"
  by (simp add: authority_revoked_def)

lemma revoked_dispatch_refused:
  assumes "authority_revoked tid d" and "get_policy d pid = Some policy" and "ep_task_id policy = tid"
  shows "dispatch_write d pid g path revision ok handler st =
    (st, Inr \<lparr>er_allowed = False, er_reason = ''inactive_policy''\<rparr>)"
proof -
  have "ep_status policy \<noteq> ExecutionPolicyStatus.ACTIVE"
    using assms get_row_Some [OF assms(2)] by (auto simp: authority_revoked_def active_policy_of_def)
  with assms(2) show ?thesis by (simp add: dispatch_write_def)
qed

text \<open>
  (C19) Re-governance takes back every authority of the task: when it has run, no decision of the task is
  active, no approval request is open, no policy is active, the task is blocked for analysis, and the
  enforcer refuses every write under any policy of the task, whatever grant is presented.
\<close>

theorem regovernance_revokes:
  assumes "trigger_new_scope tid paths ev d = (d', Inr res)"
  shows "authority_revoked tid d' \<and>
    (\<exists>task. get_task d' tid = Some task \<and> tk_status task = TaskStatus.BLOCKED \<and>
       tk_failure_code task = Some ''ANALYSIS_REQUIRED'') \<and>
    set (rg_invalidated_policy_ids res) = {ep_id p | p. p \<in> set (policies d) \<and> active_policy_of tid p} \<and>
    (\<forall>pid policy. get_policy d' pid = Some policy \<longrightarrow> ep_task_id policy = tid \<longrightarrow>
       dispatch_write d' pid g path revision ok handler st =
         (st, Inr \<lparr>er_allowed = False, er_reason = ''inactive_policy''\<rparr>))"
proof -
  obtain task where task: "get_task d tid = Some task"
    using assms by (auto simp: trigger_new_scope_def split: option.splits)
  have "authority_revoked tid d' = authority_revoked tid (revoke_all tid (d\<lparr>impact_reports := set_where
        (\<lambda>r. ir_task_id r = tid \<and> ir_status r = ImpactReportStatus.CURRENT)
        (\<lambda>r. r\<lparr>ir_status := ImpactReportStatus.STALE\<rparr>) (impact_reports d)\<rparr>))"
    using assms task
    by (intro authority_revoked_cong) (auto simp: trigger_new_scope_def Let_def revoke_all_def)
  then have rev: "authority_revoked tid d'" using revoke_all_revokes by blast
  have "\<exists>task. get_task d' tid = Some task \<and> tk_status task = TaskStatus.BLOCKED \<and>
       tk_failure_code task = Some ''ANALYSIS_REQUIRED''"
    using assms task by (auto simp: trigger_new_scope_def Let_def get_row_set_row)
  moreover have "set (rg_invalidated_policy_ids res) =
      {ep_id p | p. p \<in> set (policies d) \<and> active_policy_of tid p}"
  proof -
    have "snd (trigger_new_scope tid paths ev d) = Inr \<lparr>rg_task_id = tid, rg_reason = ''new_file_scope'',
        rg_evidence_ref = ev,
        rg_invalidated_policy_ids = sort (map ep_id (filter (active_policy_of tid) (policies d)))\<rparr>"
      using task by (simp add: trigger_new_scope_def Let_def)
    then have "rg_invalidated_policy_ids res = sort (map ep_id (filter (active_policy_of tid) (policies d)))"
      using assms by simp
    then show ?thesis by auto
  qed
  ultimately show ?thesis
    using rev by (intro conjI allI impI revoked_dispatch_refused [OF rev])
qed

definition sample_revocable_db :: db where
  "sample_revocable_db = sample_policy_db\<lparr>tasks := [new_task ''t1'' sample_request]\<rparr>"

theorem regovernance_revokes_witness:
  "authority_revoked ''t1'' (fst (trigger_new_scope ''t1'' [''src/b.py''] ''ev'' sample_revocable_db))"
proof -
  let ?r = "trigger_new_scope ''t1'' [''src/b.py''] ''ev'' sample_revocable_db"
  have "\<not> isl (snd ?r)" by code_simp
  then obtain res where "?r = (fst ?r, Inr res)" by (cases ?r; cases "snd ?r") auto
  then show ?thesis by (rule regovernance_revokes [THEN conjunct1])
qed

lemma confirm_new_version_Inr:
  assumes "confirm_new_version pid actor d = (d', Inr res)"
  obtains proposal task where "get_proposal d pid = Some proposal"
    "pr_completeness proposal = ProposalCompleteness.COMPLETE"
    "get_task d (pr_task_id proposal) = Some task"
    "tasks d' = set_row tk_id (pr_task_id proposal)
       (\<lambda>t. t\<lparr>tk_active_proposal_id := Some pid, tk_status := TaskStatus.GOVERNING, tk_failure_code := None,
         tk_failure_message := Some (''Proposal confirmed by '' @ actor)\<rparr>) (tasks d)"
    "proposals d' = set_row pr_id pid (\<lambda>p. p\<lparr>pr_status := ProposalStatus.CONFIRMED\<rparr>)
       (set_where (other_proposal proposal) (\<lambda>p. p\<lparr>pr_status := ProposalStatus.SUPERSEDED\<rparr>) (proposals d))"
    "authority_revoked (pr_task_id proposal) d'"
proof -
  have key: "tk_id task = tid" if "get_task d tid = Some task" for task tid
    using get_row_Some [OF that] by simp
  obtain proposal where p: "get_proposal d pid = Some proposal"
      "pr_completeness proposal = ProposalCompleteness.COMPLETE"
    using assms by (auto simp: confirm_new_version_def split: option.splits if_splits)
  obtain task where t: "get_task d (pr_task_id proposal) = Some task"
    using assms p by (auto simp: confirm_new_version_def supersede_other_proposals_def Let_def
        split: option.splits)
  have d': "\<exists>d0. d' = revoke_all (pr_task_id proposal) d0 \<and>
     tasks d0 = set_row tk_id (pr_task_id proposal)
       (\<lambda>t. t\<lparr>tk_active_proposal_id := Some pid, tk_status := TaskStatus.GOVERNING, tk_failure_code := None,
         tk_failure_message := Some (''Proposal confirmed by '' @ actor)\<rparr>) (tasks d) \<and>
     proposals d0 = set_row pr_id pid (\<lambda>p. p\<lparr>pr_status := ProposalStatus.CONFIRMED\<rparr>)
       (set_where (other_proposal proposal) (\<lambda>p. p\<lparr>pr_status := ProposalStatus.SUPERSEDED\<rparr>) (proposals d))"
    using assms p t key [OF t]
    by (auto simp: confirm_new_version_def supersede_other_proposals_def Let_def revoke_all_def
        invalidate_downstream_state_def)
  then obtain d0 where d0: "d' = revoke_all (pr_task_id proposal) d0"
    "tasks d0 = set_row tk_id (pr_task_id proposal)
       (\<lambda>t. t\<lparr>tk_active_proposal_id := Some pid, tk_status := TaskStatus.GOVERNING, tk_failure_code := None,
         tk_failure_message := Some (''Proposal confirmed by '' @ actor)\<rparr>) (tasks d)"
    "proposals d0 = set_row pr_id pid (\<lambda>p. p\<lparr>pr_status := ProposalStatus.CONFIRMED\<rparr>)
       (set_where (other_proposal proposal) (\<lambda>p. p\<lparr>pr_status := ProposalStatus.SUPERSEDED\<rparr>) (proposals d))"
    by blast
  have "proposals d' = proposals d0" "tasks d' = tasks d0"
    by (simp_all add: d0(1) revoke_all_def supersede_policies_def supersede_requests_def supersede_decisions_def)
  with that p t d0 revoke_all_revokes show thesis by metis
qed

text \<open>
  Confirming a proposal makes it the one live proposal of its task and starts governance afresh:
  every other proposal of the task is superseded, the task is under governance with the proposal active,
  and every earlier decision, request and policy of the task is out of force.
\<close>

theorem confirmation_restarts_governance:
  assumes "confirm_new_version pid actor d = (d', Inr res)"
  shows "\<exists>proposal task. get_proposal d pid = Some proposal \<and>
    pr_completeness proposal = ProposalCompleteness.COMPLETE \<and>
    can_write_execution pid d' \<and>
    (\<forall>p \<in> set (proposals d'). pr_task_id p = pr_task_id proposal \<longrightarrow> pr_id p \<noteq> pid \<longrightarrow>
       pr_status p = ProposalStatus.SUPERSEDED) \<and>
    get_task d' (pr_task_id proposal) = Some task \<and> tk_status task = TaskStatus.GOVERNING \<and>
    tk_active_proposal_id task = Some pid \<and>
    authority_revoked (pr_task_id proposal) d'"
  using assms
proof (cases rule: confirm_new_version_Inr)
  case (1 proposal task)
  have key: "pr_id proposal = pid" using get_row_Some [OF 1(1)] by simp
  let ?sup = "set_where (other_proposal proposal) (\<lambda>p. p\<lparr>pr_status := ProposalStatus.SUPERSEDED\<rparr>) (proposals d)"
  have "get_row pr_id pid ?sup = Some proposal"
    using 1(1) key by (simp add: get_row_set_where other_proposal_def)
  then have "can_write_execution pid d'"
    by (simp add: can_write_execution_def 1(5) get_row_set_row)
  moreover have "\<forall>p \<in> set ?sup. pr_task_id p = pr_task_id proposal \<longrightarrow> pr_id p \<noteq> pid \<longrightarrow>
      pr_status p = ProposalStatus.SUPERSEDED"
    using key by (intro ball_set_where_all) (auto simp: other_proposal_def)
  then have "\<forall>p \<in> set (proposals d'). pr_task_id p = pr_task_id proposal \<longrightarrow> pr_id p \<noteq> pid \<longrightarrow>
      pr_status p = ProposalStatus.SUPERSEDED"
    unfolding 1(5) by (rule ball_set_rowI) auto
  moreover have "\<exists>t. get_task d' (pr_task_id proposal) = Some t \<and> tk_status t = TaskStatus.GOVERNING \<and>
      tk_active_proposal_id t = Some pid"
    using 1(3) by (simp add: 1(4) get_row_set_row)
  ultimately show ?thesis using 1(1,2,6) by (elim exE conjE) (intro exI conjI)
qed

definition sample_proposal :: "string \<Rightarrow> int \<Rightarrow> ProposalStatus \<Rightarrow> ChangeProposal" where
  "sample_proposal i v st = \<lparr>pr_id = i, pr_task_id = ''t1'', pr_version = v, pr_goal = ''goal'',
     pr_current_problem = None, pr_expected_behavior = ''works'',
     pr_initial_scope_json = json_dumps_strings [''src/a.py''], pr_excluded_scope_json = None,
     pr_constraints_json = None, pr_assumptions_json = None, pr_risks_json = None,
     pr_acceptance_criteria_json = json_dumps_strings [''tests pass''], pr_validation_plan_json = None,
     pr_completeness = ProposalCompleteness.COMPLETE, pr_status = st,
     pr_created_by_type = ProposalCreatedByType.LLM, pr_supersedes_id = None\<rparr>"

definition sample_confirm_db :: db where
  "sample_confirm_db = sample_revocable_db\<lparr>proposals :=
     [sample_proposal ''v1'' 1 ProposalStatus.CONFIRMED, sample_proposal ''v2'' 2 ProposalStatus.DRAFT]\<rparr>"

theorem confirmation_restarts_governance_witness:
  "can_write_execution ''v2'' (fst (confirm_new_version ''v2'' ''alice'' sample_confirm_db))"
proof -
  let ?r = "confirm_new_version ''v2'' ''alice'' sample_confirm_db"
  have "\<not> isl (snd ?r)" by code_simp
  then obtain res where r: "?r = (fst ?r, Inr res)" by (cases ?r; cases "snd ?r") auto
  from confirmation_restarts_governance [OF r] show ?thesis by (elim exE conjE)
qed

subsection \<open>Sequences of governance commands\<close>

datatype policy_command =
    Evaluate string string "string option" string string "RuleDefinition list" "string list"
      GovernanceVerdict "GovernanceVerdict option"
  | Request string string "string list"
  | Approve int string string string string ApprovalDecisionOutcome "string list"
  | Compile string string "string list" "string list" "string list" "string list" json json
  | Regovern string "string list" string
  | Confirm string string

fun policy_exec :: "(json \<Rightarrow> string) \<Rightarrow> policy_command \<Rightarrow> db \<Rightarrow> db" where
  "policy_exec digest (Evaluate i tid aid ph revision rls paths llm user) d =
     fst (evaluate digest i tid aid ph revision rls paths llm user d)"
| "policy_exec digest (Request i did scope) d = fst (create_for_decision i did scope d)"
| "policy_exec digest (Approve now i tid rid who outcome scope) d =
     fst (record_approval now i tid rid who outcome scope d)"
| "policy_exec digest (Compile i gid rs ws cs ps net lim) d = fst (compile i gid rs ws cs ps net lim d)"
| "policy_exec digest (Regovern tid paths ev) d = fst (trigger_new_scope tid paths ev d)"
| "policy_exec digest (Confirm pid actor) d = fst (confirm_new_version pid actor d)"

text \<open>At most one policy of a task is active, and an executable one rests on a decision that does not
  block and on an approval where the decision only warns.\<close>

definition backed_policy :: "GovernanceDecision list \<Rightarrow> ExecutionPolicy \<Rightarrow> bool" where
  "backed_policy decs p \<longleftrightarrow> (ep_executable p \<longrightarrow>
     (case get_row gd_id (ep_governance_decision_id p) decs of
        None \<Rightarrow> False
      | Some dec \<Rightarrow> gd_decision dec = GovernanceVerdict.ALLOW \<or>
          (gd_decision dec = GovernanceVerdict.WARN \<and> ep_approval_request_id p \<noteq> None)))"

definition policies_ok :: "db \<Rightarrow> bool" where
  "policies_ok d \<longleftrightarrow>
     (\<forall>p \<in> set (policies d). length (filter (active_policy_of (ep_task_id p)) (policies d)) \<le> 1) \<and>
     (\<forall>p \<in> set (policies d). backed_policy (decisions d) p)"

lemma policies_ok_one_active:
  "(\<forall>p \<in> set ps. length (filter (active_policy_of (ep_task_id p)) ps) \<le> 1) \<longleftrightarrow>
   (\<forall>tid. length (filter (active_policy_of tid) ps) \<le> 1)"
proof
  assume one: "\<forall>p \<in> set ps. length (filter (active_policy_of (ep_task_id p)) ps) \<le> 1"
  show "\<forall>tid. length (filter (active_policy_of tid) ps) \<le> 1"
  proof
    fix tid
    show "length (filter (active_policy_of tid) ps) \<le> 1"
    proof (cases "\<exists>p \<in> set ps. ep_task_id p = tid")
      case True
      with one show ?thesis by auto
    next
      case False
      then have "filter (active_policy_of tid) ps = []"
        by (auto simp: filter_empty_conv active_policy_of_def)
      then show ?thesis by simp
    qed
  qed
qed simp

lemma backed_policyD:
  "backed_policy decs p \<Longrightarrow> ep_executable p \<Longrightarrow>
     \<exists>dec. get_row gd_id (ep_governance_decision_id p) decs = Some dec \<and>
       gd_decision dec \<noteq> GovernanceVerdict.BLOCK \<and>
       (gd_decision dec = GovernanceVerdict.WARN \<longrightarrow> ep_approval_request_id p \<noteq> None)"
  by (cases "get_row gd_id (ep_governance_decision_id p) decs") (auto simp: backed_policy_def)

lemma backed_policy_status [simp]: "backed_policy decs (p\<lparr>ep_status := st\<rparr>) = backed_policy decs p"
  by (cases "get_row gd_id (ep_governance_decision_id p) decs") (simp_all add: backed_policy_def)

lemma backed_policy_append: "backed_policy decs p \<Longrightarrow> backed_policy (decs @ [dec]) p"
  by (auto simp: backed_policy_def get_row_append split: option.splits)

lemma backed_policy_set_where:
  "(\<And>g. gd_id (f g) = gd_id g) \<Longrightarrow> (\<And>g. gd_decision (f g) = gd_decision g) \<Longrightarrow>
     backed_policy (set_where P f decs) p = backed_policy decs p"
  by (auto simp: backed_policy_def get_row_set_where split: option.splits)

lemma backed_policy_not_executable: "\<not> ep_executable p \<Longrightarrow> backed_policy decs p"
  by (simp add: backed_policy_def)

lemma filter_active_set_where_le:
  assumes "\<And>p. ep_task_id (f p) = ep_task_id p" and "\<And>p. ep_status (f p) \<noteq> ExecutionPolicyStatus.ACTIVE"
  shows "length (filter (active_policy_of tid) (set_where P f ps)) \<le> length (filter (active_policy_of tid) ps)"
  using assms by (induction ps) (auto simp: set_where_def active_policy_of_def)

lemma policies_ok_cong:
  "policies d' = policies d \<Longrightarrow> decisions d' = decisions d \<Longrightarrow> policies_ok d' = policies_ok d"
  by (simp add: policies_ok_def)

lemma policies_ok_revoke_all:
  assumes "policies_ok d"
  shows "policies_ok (revoke_all tid d)"
proof -
  let ?f = "\<lambda>p. p\<lparr>ep_status := ExecutionPolicyStatus.SUPERSEDED, ep_executable := False\<rparr>"
  have pol: "policies (revoke_all tid d) = set_where (active_policy_of tid) ?f (policies d)"
    by (simp add: revoke_all_def supersede_policies_def)
  have dec: "decisions (revoke_all tid d) = set_where
      (\<lambda>g. gd_task_id g = tid \<and> gd_status g = GovernanceDecisionStatus.ACTIVE)
      (\<lambda>g. g\<lparr>gd_status := GovernanceDecisionStatus.SUPERSEDED\<rparr>) (decisions d)"
    by (simp add: revoke_all_def supersede_decisions_def)
  have "\<forall>t. length (filter (active_policy_of t) (policies d)) \<le> 1"
    using assms unfolding policies_ok_def policies_ok_one_active by blast
  moreover have "length (filter (active_policy_of t) (policies (revoke_all tid d))) \<le>
      length (filter (active_policy_of t) (policies d))" for t
    unfolding pol by (rule filter_active_set_where_le) simp_all
  ultimately have "\<forall>t. length (filter (active_policy_of t) (policies (revoke_all tid d))) \<le> 1"
    using le_trans by blast
  moreover have "\<forall>p \<in> set (policies (revoke_all tid d)). backed_policy (decisions (revoke_all tid d)) p"
    unfolding pol dec
    using assms
    by (intro ball_set_whereI) (auto simp: backed_policy_set_where policies_ok_def backed_policy_not_executable)
  ultimately show ?thesis unfolding policies_ok_def policies_ok_one_active by blast
qed

lemma policies_ok_compile:
  assumes "policies_ok d" and "compile i gid rs ws cs ps net lim d = (d', Inr p)"
  shows "policies_ok d'"
  using assms(2)
proof (cases rule: compile_Inr)
  case (1 dec action_id reads writes prots)
  let ?f = "\<lambda>p. p\<lparr>ep_status := ExecutionPolicyStatus.SUPERSEDED\<rparr>"
  have pol: "policies d' = set_where (active_policy_of (gd_task_id dec)) ?f (policies d) @ [p]"
    and decs: "decisions d' = decisions d" by (simp_all add: 1(7))
  have tid: "ep_task_id p = gd_task_id dec" by (simp add: 1(6))
  have old: "\<forall>t. length (filter (active_policy_of t) (policies d)) \<le> 1"
    using assms(1) unfolding policies_ok_def policies_ok_one_active by blast
  have "length (filter (active_policy_of t) (policies d')) \<le> 1" for t
  proof (cases "t = gd_task_id dec")
    case True
    then show ?thesis by (simp add: pol no_active_after_supersede)
  next
    case False
    then have "length (filter (active_policy_of t) (policies d')) =
        length (filter (active_policy_of t) (set_where (active_policy_of (gd_task_id dec)) ?f (policies d)))"
      by (simp add: pol tid active_policy_of_def)
    also have "\<dots> \<le> length (filter (active_policy_of t) (policies d))"
      by (rule filter_active_set_where_le) simp_all
    finally show ?thesis using old le_trans by blast
  qed
  moreover have "backed_policy (decisions d') p"
    using 1(1) get_row_Some [OF 1(1)]
    by (cases "gd_decision dec") (auto simp: decs 1(6) backed_policy_def)
  moreover have "\<forall>q \<in> set (set_where (active_policy_of (gd_task_id dec)) ?f (policies d)).
      backed_policy (decisions d') q"
    using assms(1) by (intro ball_set_whereI) (simp_all add: decs policies_ok_def)
  ultimately show ?thesis unfolding policies_ok_def policies_ok_one_active by (simp add: pol)
qed

lemma evaluate_policies_ok:
  assumes "policies_ok d"
  shows "policies_ok (fst (evaluate digest i tid aid ph revision rls paths llm user d))"
  using assms
  by (auto simp: evaluate_def Let_def policies_ok_def backed_policy_append split: sum.splits)

lemma regovern_policies_ok:
  assumes "policies_ok d"
  shows "policies_ok (fst (trigger_new_scope tid paths ev d))"
proof (cases "get_task d tid")
  case None
  with assms show ?thesis by (simp add: trigger_new_scope_def)
next
  case (Some task)
  then have "policies_ok (fst (trigger_new_scope tid paths ev d)) = policies_ok (revoke_all tid d)"
    by (intro policies_ok_cong)
       (simp_all add: trigger_new_scope_def Let_def revoke_all_def supersede_policies_def supersede_decisions_def)
  with assms show ?thesis by (simp add: policies_ok_revoke_all)
qed

lemma confirm_policies_ok:
  assumes "policies_ok d"
  shows "policies_ok (fst (confirm_new_version pid actor d))"
proof -
  have "\<exists>tid. policies_ok (fst (confirm_new_version pid actor d)) = policies_ok d \<or>
      policies_ok (fst (confirm_new_version pid actor d)) = policies_ok (revoke_all tid d)"
    unfolding confirm_new_version_def supersede_other_proposals_def Let_def
    by (auto simp: invalidate_downstream_state_def revoke_all_def supersede_policies_def
        supersede_decisions_def supersede_requests_def
        intro!: policies_ok_cong split: option.split)
  with assms policies_ok_revoke_all show ?thesis by blast
qed

lemma policy_exec_ok: "policies_ok d \<Longrightarrow> policies_ok (policy_exec digest cmd d)"
proof (cases cmd)
  case (Request i did scope)
  assume "policies_ok d"
  moreover have "policies_ok (policy_exec digest cmd d) = policies_ok d"
    unfolding Request
    by (intro policies_ok_cong) (auto simp: create_for_decision_def Let_def split: option.split)
  ultimately show ?thesis by simp
next
  case (Approve now i tid rid who outcome scope)
  assume "policies_ok d"
  moreover have "policies_ok (policy_exec digest cmd d) = policies_ok d"
    unfolding Approve
    by (intro policies_ok_cong)
       (cases rule: record_approval_cases [of now i tid rid who outcome scope d]; simp)+
  ultimately show ?thesis by simp
next
  case (Compile i gid rs ws cs ps net lim)
  assume "policies_ok d"
  then show ?thesis
    using compile_Inl_same [of i gid rs ws cs ps net lim d] policies_ok_compile [of d i gid rs ws cs ps net lim]
    by (cases "compile i gid rs ws cs ps net lim d"; cases "snd (compile i gid rs ws cs ps net lim d)")
       (auto simp: Compile)
qed (auto simp: evaluate_policies_ok regovern_policies_ok confirm_policies_ok)

interpretation policy_machine: service_machine "policy_exec digest" policies_ok for digest
  by unfold_locales (rule policy_exec_ok)


definition sample_run_db :: db where
  "sample_run_db = fold (policy_exec (\<lambda>_. ''h''))
     [Evaluate ''d1'' ''t1'' (Some ''a1'') ''p'' ''r'' [] [''src/a.py''] GovernanceVerdict.ALLOW None,
      Compile ''pol'' ''d1'' [] [''src/a.py''] [] [] (JObj []) (JObj [])] empty_db"


end
