(* ===== verification/Locks.thy ===== *)
theory Locks
  imports Policy
begin

section \<open>Locks: the workspace lock service\<close>

text \<open>
  \<^verbatim>\<open>workspace/lock_service.py\<close>. The version of a lock is kept in the text of its owner
  (\<^verbatim>\<open>worker;version=3\<close>); \<open>lock_version\<close> reads it and \<open>set_version\<close> writes it. The guard
  \<^verbatim>\<open>_LOCK_GUARD\<close> serialises acquisitions that own their session, so a run of the service is a
  sequence of operations.
\<close>

subsection \<open>Text operations\<close>

text \<open>\<^verbatim>\<open>s.split(sep, 1)[0]\<close> and \<^verbatim>\<open>s.rsplit(sep, 1)[1]\<close> for a separator that occurs.\<close>

fun before_first :: "string \<Rightarrow> string \<Rightarrow> string" where
  "before_first sep [] = []"
| "before_first sep (c # cs) = (if prefix sep (c # cs) then [] else c # before_first sep cs)"

fun after_last :: "string \<Rightarrow> string \<Rightarrow> string" where
  "after_last sep [] = []"
| "after_last sep (c # cs) =
     (if py_in sep cs then after_last sep cs
      else if prefix sep (c # cs) then drop (length sep) (c # cs) else c # cs)"

text \<open>\<^verbatim>\<open>int(text)\<close>: blanks around, a sign, digits with single underscores between them.\<close>

fun read_grouped :: "nat \<Rightarrow> string \<Rightarrow> nat option" where
  "read_grouped acc [] = None"
| "read_grouped acc [c] = map_option (\<lambda>d. 10 * acc + d) (digit_value c)"
| "read_grouped acc (c # u # cs) =
     (case digit_value c of
        None \<Rightarrow> None
      | Some d \<Rightarrow> if u = CHR ''_'' then read_grouped (10 * acc + d) cs
                  else read_grouped (10 * acc + d) (u # cs))"

definition py_int :: "string \<Rightarrow> int option" where
  "py_int s =
     (case strip s of
        [] \<Rightarrow> None
      | c # cs \<Rightarrow>
          if c = CHR ''-'' then map_option (\<lambda>n. - int n) (read_grouped 0 cs)
          else if c = CHR ''+'' then map_option int (read_grouped 0 cs)
          else map_option int (read_grouped 0 (c # cs)))"

subsection \<open>\<^verbatim>\<open>workspace/lock_service.py\<close>\<close>

datatype LockAcquireStatus = ACQUIRED | CONFLICT | RECOVERY_REQUIRED

record LockSnapshot =
  sn_id :: string
  sn_status :: WorkspaceLockStatus
  sn_version :: int

record LockAcquireResult =
  la_status :: LockAcquireStatus
  la_lock :: "LockSnapshot option"
  la_transaction_created :: bool

definition lock_version :: "WorkspaceLock \<Rightarrow> int result" where
  "lock_version lock =
     (if \<not> py_in ''version='' (wl_owner lock) then Inr 1
      else case py_int (after_last ''version='' (wl_owner lock)) of
             None \<Rightarrow> Inl (ValueError ''invalid literal for int()'')
           | Some v \<Rightarrow> Inr v)"

definition set_version :: "int \<Rightarrow> WorkspaceLock \<Rightarrow> WorkspaceLock" where
  "set_version version lock =
     lock\<lparr>wl_owner := before_first '';version='' (wl_owner lock) @ '';version='' @ show_int version\<rparr>"

definition active_lock_of :: "string \<Rightarrow> WorkspaceLock \<Rightarrow> bool" where
  "active_lock_of project_id l \<longleftrightarrow> wl_project_id l = project_id \<and> wl_status l = WorkspaceLockStatus.ACTIVE"

definition mark_expired :: "int \<Rightarrow> string \<Rightarrow> db \<Rightarrow> db" where
  "mark_expired now project_id d =
     d\<lparr>locks := set_where
         (\<lambda>l. active_lock_of project_id l \<and>
            (case wl_expires_at l of None \<Rightarrow> False | Some t \<Rightarrow> t < now))
         (\<lambda>l. l\<lparr>wl_status := WorkspaceLockStatus.EXPIRED\<rparr>) (locks d)\<rparr>"

definition unfinished_state :: "TransactionState \<Rightarrow> bool" where
  "unfinished_state s = (s \<in> {TransactionState.PREPARED, TransactionState.APPLYING})"

definition requires_recovery :: "string \<Rightarrow> db \<Rightarrow> bool" where
  "requires_recovery project_id d =
     (if list_ex (\<lambda>t. tx_project_id t = project_id \<and> unfinished_state (tx_state t)) (transactions d)
      then True
      else
        let expired_ids = map wl_id (filter (\<lambda>l. wl_project_id l = project_id \<and>
              wl_status l = WorkspaceLockStatus.EXPIRED) (locks d))
        in if expired_ids = [] then False
           else list_ex (\<lambda>t. (case tx_workspace_lock_id t of None \<Rightarrow> False
                  | Some i \<Rightarrow> i \<in> set expired_ids) \<and> unfinished_state (tx_state t)) (transactions d))"

definition emit_recovery_audit :: "string \<Rightarrow> string \<Rightarrow> db \<Rightarrow> db" where
  "emit_recovery_audit task_id project_id d =
     (if list_ex (\<lambda>a. al_task_id a = Some task_id \<and> al_summary a = ''workspace lock recovery required'')
           (alert_events d)
      then d
      else
        let evidence = JText (JObj [(''project_id'', JStr project_id), (''reason'', JStr ''unfinished transaction'')])
        in d\<lparr>alert_events := alert_events d @
               [\<lparr>al_task_id = Some task_id, al_system_scope = False, al_severity = AlertSeverity.HIGH,
                 al_status = AlertStatus.OPEN, al_summary = ''workspace lock recovery required'',
                 al_evidence_json = evidence, al_resolved_at = None\<rparr>],
             audit_events := audit_events d @
               [\<lparr>ae_task_id = Some task_id, ae_correlation_id = ''lock-recovery:'' @ task_id,
                 ae_actor_type = AuditActorType.SYSTEM, ae_actor_id = ''workspace-lock-service'',
                 ae_event_type = EventType.TOOL_EXECUTED,
                 ae_payload_summary = ''workspace lock recovery required'', ae_evidence_json = evidence\<rparr>]\<rparr>)"

definition new_lock ::
    "int \<Rightarrow> string \<Rightarrow> string \<Rightarrow> string \<Rightarrow> WorkspaceLockMode \<Rightarrow> string \<Rightarrow> string \<Rightarrow> int \<Rightarrow> WorkspaceLock" where
  "new_lock now new_id project_id task_id mode owner_instance reason ttl_seconds =
     \<lparr>wl_id = new_id, wl_project_id = project_id, wl_task_id = task_id, wl_lock_mode = mode,
      wl_status = WorkspaceLockStatus.ACTIVE, wl_owner = owner_instance @ '';version=1'',
      wl_reason = reason, wl_expires_at = Some (now + ttl_seconds), wl_released_at = None\<rparr>"

definition acquire ::
    "int \<Rightarrow> string \<Rightarrow> string \<Rightarrow> string \<Rightarrow> WorkspaceLockMode \<Rightarrow> string \<Rightarrow> string \<Rightarrow> int \<Rightarrow> db \<Rightarrow>
     LockAcquireResult action_result" where
  "acquire now new_id project_id task_id mode owner_instance reason ttl_seconds d =
     (let d1 = mark_expired now project_id d;
          outcome = (\<lambda>st. \<lparr>la_status = st, la_lock = None, la_transaction_created = False\<rparr>)
      in if requires_recovery project_id d1
         then (emit_recovery_audit task_id project_id d1, Inr (outcome RECOVERY_REQUIRED))
         else
           let active = filter (active_lock_of project_id) (locks d1)
           in if mode = WorkspaceLockMode.WRITE \<and> active \<noteq> [] then (d1, Inr (outcome CONFLICT))
              else if mode = WorkspaceLockMode.READ \<and>
                  list_ex (\<lambda>l. wl_lock_mode l = WorkspaceLockMode.WRITE) active
              then (d1, Inr (outcome CONFLICT))
              else
                let lock = new_lock now new_id project_id task_id mode owner_instance reason ttl_seconds;
                    d2 = d1\<lparr>locks := locks d1 @ [lock]\<rparr>
                in (d2, rbind (lock_version lock) (\<lambda>v. Inr \<lparr>la_status = ACQUIRED,
                      la_lock = Some \<lparr>sn_id = wl_id lock, sn_status = wl_status lock, sn_version = v\<rparr>,
                      la_transaction_created = False\<rparr>)))"

definition heartbeat :: "int \<Rightarrow> string \<Rightarrow> int \<Rightarrow> int \<Rightarrow> db \<Rightarrow> LockSnapshot action_result" where
  "heartbeat now lock_id expected_version ttl_seconds d =
     (case get_lock d lock_id of
        None \<Rightarrow> (d, Inl (ValueError ''active lock not found''))
      | Some lock \<Rightarrow>
          if wl_status lock \<noteq> WorkspaceLockStatus.ACTIVE
          then (d, Inl (ValueError ''active lock not found''))
          else
            (case lock_version lock of
               Inl e \<Rightarrow> (d, Inl e)
             | Inr current_version \<Rightarrow>
                 if current_version \<noteq> expected_version then (d, Inl (ValueError ''lock version conflict''))
                 else
                   let upd = (\<lambda>l. (set_version (current_version + 1) l)
                          \<lparr>wl_expires_at := Some (now + ttl_seconds)\<rparr>)
                   in (d\<lparr>locks := set_row wl_id lock_id upd (locks d)\<rparr>,
                       rbind (lock_version (upd lock)) (\<lambda>v.
                         Inr \<lparr>sn_id = lock_id, sn_status = wl_status lock, sn_version = v\<rparr>))))"

definition force_release :: "int \<Rightarrow> string \<Rightarrow> string \<Rightarrow> string \<Rightarrow> db \<Rightarrow> LockSnapshot action_result" where
  "force_release now lock_id actor_id reason d =
     (case get_lock d lock_id of
        None \<Rightarrow> (d, Inl (ValueError ''lock not found''))
      | Some lock \<Rightarrow>
          let d1 = d\<lparr>locks := set_row wl_id lock_id
                (\<lambda>l. l\<lparr>wl_status := WorkspaceLockStatus.RELEASED, wl_released_at := Some now\<rparr>) (locks d)\<rparr>
          in (case lock_version lock of
                Inl e \<Rightarrow> (d1, Inl e)
              | Inr v \<Rightarrow>
                  (d1\<lparr>locks := set_row wl_id lock_id (set_version (v + 1)) (locks d1),
                     audit_events := audit_events d1 @
                       [\<lparr>ae_task_id = Some (wl_task_id lock),
                         ae_correlation_id = ''lock:'' @ lock_id @ '':force-release'',
                         ae_actor_type = AuditActorType.USER, ae_actor_id = actor_id,
                         ae_event_type = EventType.TOOL_EXECUTED,
                         ae_payload_summary = ''workspace lock force released'',
                         ae_evidence_json = JText (JObj [(''reason'', JStr reason),
                           (''lock_id'', JStr lock_id)])\<rparr>]\<rparr>,
                   rbind (lock_version (set_version (v + 1) lock)) (\<lambda>v'.
                     Inr \<lparr>sn_id = lock_id, sn_status = WorkspaceLockStatus.RELEASED, sn_version = v'\<rparr>))))"

subsection \<open>The version round trip\<close>

lemma py_in_head: "py_in (h # r) s \<Longrightarrow> h \<in> set s"
  by (auto simp: py_in_iff)

lemma after_last_append:
  assumes "h \<notin> set r" and "h \<notin> set t"
  shows "after_last (h # r) (s @ (h # r) @ t) = t"
proof (induction s)
  case Nil
  have "\<not> py_in (h # r) (r @ t)" using assms py_in_head by fastforce
  then show ?case by simp
next
  case (Cons c s)
  have "py_in (h # r) (s @ (h # r) @ t)" by (rule py_in_append)
  with Cons show ?case by simp
qed

lemma read_grouped_digits:
  "s \<noteq> [] \<Longrightarrow> (\<forall>c \<in> set s. digit_value c \<noteq> None) \<Longrightarrow> read_grouped acc s = read_digits acc s"
proof (induction acc s rule: read_grouped.induct)
  case (3 acc c u cs)
  have "u \<noteq> CHR ''_''" using 3(4) by (auto simp: digit_value_def)
  with 3 show ?case by (auto split: option.splits)
qed (auto split: option.splits)

lemma digit_value_bounds: "digit_value c \<noteq> None \<Longrightarrow> 48 \<le> (of_char c :: nat) \<and> (of_char c :: nat) \<le> 57"
  by (auto simp: digit_value_def Let_def split: if_splits)

lemma show_nat_strip: "strip (show_nat n) = show_nat n"
proof (rule strip_idem_if)
  have dig: "\<not> is_space c" if "c \<in> set (show_nat n)" for c
    using digit_value_bounds [OF digits_show_nat [OF that]] by (auto simp: is_space_def Let_def)
  show "\<not> is_space (hd (show_nat n))" "\<not> is_space (last (show_nat n))"
    by (simp_all add: dig)
qed

lemma py_int_show_nat: "py_int (show_nat n) = Some (int n)"
proof -
  obtain c cs where s: "show_nat n = c # cs" using show_nat_nonempty by (meson neq_Nil_conv)
  have dig: "\<forall>c \<in> set (show_nat n). digit_value c \<noteq> None" using digits_show_nat by blast
  then have "digit_value c \<noteq> None" by (simp add: s)
  then have "c \<noteq> CHR ''-'' \<and> c \<noteq> CHR ''+''" by (auto simp: digit_value_def)
  moreover have "read_grouped 0 (show_nat n) = Some n"
    using read_grouped_digits [OF show_nat_nonempty dig] read_digits_show_nat by simp
  ultimately show ?thesis using show_nat_strip [of n] by (simp add: py_int_def s)
qed

lemma not_v_digit: "CHR ''v'' \<notin> set (show_nat n)"
proof
  assume "CHR ''v'' \<in> set (show_nat n)"
  from digits_show_nat [OF this] show False by (simp add: digit_value_def)
qed

lemma lock_version_set_version:
  assumes "0 \<le> v"
  shows "lock_version (set_version v l) = Inr v"
proof -
  obtain n where n: "v = int n" using assms nonneg_int_cases by blast
  let ?s = "before_first '';version='' (wl_owner l) @ '';''"
  have owner: "wl_owner (set_version v l) = ?s @ ''version='' @ show_nat n"
    by (simp add: set_version_def show_int_def n)
  have "py_in ''version='' (?s @ ''version='' @ show_nat n)" by (rule py_in_append)
  moreover have "after_last ''version='' (?s @ ''version='' @ show_nat n) = show_nat n"
    by (rule after_last_append) (auto simp: not_v_digit)
  ultimately show ?thesis
    unfolding lock_version_def owner by (simp add: py_int_show_nat n)
qed

subsection \<open>Mutual exclusion\<close>

definition locks_exclusive :: "WorkspaceLock list \<Rightarrow> bool" where
  "locks_exclusive ls \<longleftrightarrow> (\<forall>l \<in> set ls. wl_status l = WorkspaceLockStatus.ACTIVE \<longrightarrow>
     wl_lock_mode l = WorkspaceLockMode.WRITE \<longrightarrow>
     length (filter (active_lock_of (wl_project_id l)) ls) = 1)"

text \<open>An update that keeps project and mode of a lock and never reactivates it.\<close>

definition passive_update :: "(WorkspaceLock \<Rightarrow> WorkspaceLock) \<Rightarrow> bool" where
  "passive_update f \<longleftrightarrow> (\<forall>l. wl_project_id (f l) = wl_project_id l \<and> wl_lock_mode (f l) = wl_lock_mode l \<and>
     (wl_status (f l) = WorkspaceLockStatus.ACTIVE \<longrightarrow> wl_status l = WorkspaceLockStatus.ACTIVE))"

lemma passive_filter_le:
  assumes "passive_update f"
  shows "length (filter (active_lock_of p) (map f ls)) \<le> length (filter (active_lock_of p) ls)"
  using assms by (induction ls) (auto simp: active_lock_of_def passive_update_def)

lemma exclusive_map:
  assumes "locks_exclusive ls" and "passive_update f"
  shows "locks_exclusive (map f ls)"
  unfolding locks_exclusive_def
proof (intro ballI impI)
  fix l'
  assume "l' \<in> set (map f ls)" and act: "wl_status l' = WorkspaceLockStatus.ACTIVE"
    and mode: "wl_lock_mode l' = WorkspaceLockMode.WRITE"
  then obtain l where l: "l \<in> set ls" "l' = f l" by auto
  with assms(2) act mode have "wl_status l = WorkspaceLockStatus.ACTIVE"
      "wl_lock_mode l = WorkspaceLockMode.WRITE" "wl_project_id l' = wl_project_id l"
    by (auto simp: passive_update_def)
  with assms(1) l(1) have "length (filter (active_lock_of (wl_project_id l')) ls) = 1"
    by (simp add: locks_exclusive_def)
  moreover have "l' \<in> set (filter (active_lock_of (wl_project_id l')) (map f ls))"
    using l act by (auto simp: active_lock_of_def)
  then have "0 < length (filter (active_lock_of (wl_project_id l')) (map f ls))"
    by (rule length_pos_if_in_set)
  ultimately show "length (filter (active_lock_of (wl_project_id l')) (map f ls)) = 1"
    using passive_filter_le [OF assms(2), of "wl_project_id l'" ls] by linarith
qed

lemma exclusive_set_where:
  "locks_exclusive ls \<Longrightarrow> passive_update f \<Longrightarrow> locks_exclusive (set_where P f ls)"
  unfolding set_where_def by (erule exclusive_map) (simp add: passive_update_def)

lemma exclusive_append:
  assumes "locks_exclusive ls" and "active_lock_of p l"
    and "\<forall>x \<in> set ls. active_lock_of p x \<longrightarrow>
      wl_lock_mode x \<noteq> WorkspaceLockMode.WRITE \<and> wl_lock_mode l \<noteq> WorkspaceLockMode.WRITE"
  shows "locks_exclusive (ls @ [l])"
proof -
  have l: "wl_project_id l = p" "wl_status l = WorkspaceLockStatus.ACTIVE"
    using assms(2) by (auto simp: active_lock_of_def)
  have "filter (active_lock_of p) ls = []" if "wl_lock_mode l = WorkspaceLockMode.WRITE"
    using assms(3) that by (auto simp: filter_empty_conv)
  moreover have "wl_project_id x \<noteq> p"
    if "x \<in> set ls" "wl_status x = WorkspaceLockStatus.ACTIVE" "wl_lock_mode x = WorkspaceLockMode.WRITE" for x
    using assms(3) that by (auto simp: active_lock_of_def)
  ultimately show ?thesis
    using assms(1) l by (auto simp: locks_exclusive_def active_lock_of_def) blast
qed

lemma passive_set_version: "passive_update (\<lambda>l. (set_version v l)\<lparr>wl_expires_at := t\<rparr>)"
  "passive_update (set_version v)"
  "passive_update (\<lambda>l. l\<lparr>wl_status := WorkspaceLockStatus.EXPIRED\<rparr>)"
  "passive_update (\<lambda>l. l\<lparr>wl_status := WorkspaceLockStatus.RELEASED, wl_released_at := r\<rparr>)"
  by (simp_all add: passive_update_def set_version_def)

lemma mark_expired_exclusive: "locks_exclusive (locks d) \<Longrightarrow> locks_exclusive (locks (mark_expired now p d))"
  by (simp add: mark_expired_def exclusive_set_where passive_set_version)

lemma emit_recovery_locks [simp]: "locks (emit_recovery_audit t p d) = locks d"
  by (simp add: emit_recovery_audit_def Let_def)

lemma acquire_cases:
  obtains (refused) st where "st \<in> {CONFLICT, RECOVERY_REQUIRED}"
      "snd (acquire now i p t mode who why ttl d) =
         Inr \<lparr>la_status = st, la_lock = None, la_transaction_created = False\<rparr>"
      "locks (fst (acquire now i p t mode who why ttl d)) = locks (mark_expired now p d)"
      "st = RECOVERY_REQUIRED \<longleftrightarrow> requires_recovery p (mark_expired now p d)"
  | (granted) "\<not> requires_recovery p (mark_expired now p d)"
      "\<forall>x \<in> set (locks (mark_expired now p d)). active_lock_of p x \<longrightarrow>
         wl_lock_mode x \<noteq> WorkspaceLockMode.WRITE \<and> mode \<noteq> WorkspaceLockMode.WRITE"
      "fst (acquire now i p t mode who why ttl d) = (mark_expired now p d)
         \<lparr>locks := locks (mark_expired now p d) @ [new_lock now i p t mode who why ttl]\<rparr>"
      "snd (acquire now i p t mode who why ttl d) = Inr \<lparr>la_status = ACQUIRED,
         la_lock = Some \<lparr>sn_id = i, sn_status = WorkspaceLockStatus.ACTIVE, sn_version = 1\<rparr>,
         la_transaction_created = False\<rparr>"
proof -
  let ?d1 = "mark_expired now p d"
  let ?act = "filter (active_lock_of p) (locks ?d1)"
  have v: "lock_version (new_lock now i p t mode who why ttl) = Inr 1"
  proof -
    have ow: "wl_owner (new_lock now i p t mode who why ttl) = (who @ '';'') @ ''version='' @ ''1''"
      by (simp add: new_lock_def)
    have "after_last ''version='' ((who @ '';'') @ ''version='' @ ''1'') = ''1''"
      by (rule after_last_append) auto
    moreover have "py_in ''version='' ((who @ '';'') @ ''version='' @ ''1'')" by (rule py_in_append)
    moreover have "py_int ''1'' = Some 1" by code_simp
    ultimately show ?thesis unfolding lock_version_def ow by simp
  qed
  consider (recover) "requires_recovery p ?d1"
    | (writing) "\<not> requires_recovery p ?d1" "mode = WorkspaceLockMode.WRITE" "?act \<noteq> []"
    | (reading) "\<not> requires_recovery p ?d1" "mode = WorkspaceLockMode.READ"
        "list_ex (\<lambda>l. wl_lock_mode l = WorkspaceLockMode.WRITE) ?act"
    | (free) "\<not> requires_recovery p ?d1" "mode = WorkspaceLockMode.WRITE \<longrightarrow> ?act = []"
        "mode = WorkspaceLockMode.READ \<longrightarrow> \<not> list_ex (\<lambda>l. wl_lock_mode l = WorkspaceLockMode.WRITE) ?act"
    by blast
  then show thesis
  proof cases
    case recover
    then show thesis using refused [of RECOVERY_REQUIRED] by (simp add: acquire_def Let_def)
  next
    case writing
    then show thesis using refused [of CONFLICT] by (simp add: acquire_def Let_def)
  next
    case reading
    then show thesis using refused [of CONFLICT] by (simp add: acquire_def Let_def)
  next
    case free
    have "\<forall>x \<in> set (locks ?d1). active_lock_of p x \<longrightarrow>
         wl_lock_mode x \<noteq> WorkspaceLockMode.WRITE \<and> mode \<noteq> WorkspaceLockMode.WRITE"
      using free(2,3) by (cases mode) (auto simp: filter_empty_conv list_ex_iff)
    moreover have "\<not> (mode = WorkspaceLockMode.WRITE \<and> ?act \<noteq> [])"
      "\<not> (mode = WorkspaceLockMode.READ \<and> list_ex (\<lambda>l. wl_lock_mode l = WorkspaceLockMode.WRITE) ?act)"
      using free by auto
    ultimately show thesis
      using free(1) v by (intro granted) (simp_all add: acquire_def Let_def, simp_all add: new_lock_def)
  qed
qed

datatype lock_command =
    Acquire int string string string WorkspaceLockMode string string int
  | Heartbeat int string int int
  | Force_release int string string string

fun lock_exec :: "lock_command \<Rightarrow> db \<Rightarrow> db" where
  "lock_exec (Acquire now i p t mode who why ttl) d = fst (acquire now i p t mode who why ttl d)"
| "lock_exec (Heartbeat now i v ttl) d = fst (heartbeat now i v ttl d)"
| "lock_exec (Force_release now i who why) d = fst (force_release now i who why d)"

lemma acquire_exclusive:
  assumes "locks_exclusive (locks d)"
  shows "locks_exclusive (locks (fst (acquire now i p t mode who why ttl d)))"
proof (cases rule: acquire_cases [of now i p t mode who why ttl d])
  case (refused st)
  with assms show ?thesis by (simp add: mark_expired_exclusive)
next
  case granted
  then show ?thesis
    using exclusive_append [OF mark_expired_exclusive [OF assms], of p "new_lock now i p t mode who why ttl" now p]
    by (simp add: new_lock_def active_lock_of_def)
qed

lemma heartbeat_exclusive:
  "locks_exclusive (locks d) \<Longrightarrow> locks_exclusive (locks (fst (heartbeat now i v ttl d)))"
  by (auto simp: heartbeat_def Let_def set_row_def passive_set_version intro!: exclusive_set_where
      split: option.splits sum.splits)

lemma force_release_exclusive:
  "locks_exclusive (locks d) \<Longrightarrow> locks_exclusive (locks (fst (force_release now i who why d)))"
  by (auto simp: force_release_def Let_def set_row_def passive_set_version intro!: exclusive_set_where
      split: option.splits sum.splits)

lemma lock_exec_exclusive: "locks_exclusive (locks d) \<Longrightarrow> locks_exclusive (locks (lock_exec cmd d))"
  by (cases cmd) (auto simp: acquire_exclusive heartbeat_exclusive force_release_exclusive)

interpretation lock_machine: service_machine lock_exec "\<lambda>d. locks_exclusive (locks d)"
  by unfold_locales (rule lock_exec_exclusive)

text \<open>
  (C13) Mutual exclusion: over any sequence of acquisitions, heartbeats and forced releases, a project with
  an active write lock has no other active lock.
\<close>

theorem lock_mutual_exclusion:
  assumes "locks_exclusive (locks d)" and "l \<in> set (locks (fold lock_exec cmds d))"
    and "wl_status l = WorkspaceLockStatus.ACTIVE" and "wl_lock_mode l = WorkspaceLockMode.WRITE"
  shows "filter (active_lock_of (wl_project_id l)) (locks (fold lock_exec cmds d)) = [l]"
proof -
  let ?ls = "locks (fold lock_exec cmds d)"
  have "length (filter (active_lock_of (wl_project_id l)) ?ls) = 1"
    using lock_machine.run_inv [OF assms(1), of cmds] assms(2-4) by (simp add: locks_exclusive_def)
  then obtain x where x: "filter (active_lock_of (wl_project_id l)) ?ls = [x]"
    by (auto simp: length_Suc_conv)
  moreover have "l \<in> set (filter (active_lock_of (wl_project_id l)) ?ls)"
    using assms(2,3) by (simp add: active_lock_of_def)
  ultimately show ?thesis by simp
qed

definition sample_lock_run :: "lock_command list" where
  "sample_lock_run = [Acquire 0 ''l1'' ''p1'' ''t1'' WorkspaceLockMode.WRITE ''w1'' ''edit'' 300,
     Acquire 1 ''l2'' ''p1'' ''t2'' WorkspaceLockMode.WRITE ''w2'' ''edit'' 300]"

theorem lock_mutual_exclusion_witness:
  "\<exists>l. filter (active_lock_of ''p1'') (locks (fold lock_exec sample_lock_run empty_db)) = [l]"
proof -
  let ?l = "new_lock 0 ''l1'' ''p1'' ''t1'' WorkspaceLockMode.WRITE ''w1'' ''edit'' 300"
  have ex: "locks_exclusive (locks empty_db)" by (simp add: locks_exclusive_def empty_db_def)
  have "?l \<in> set (locks (fold lock_exec sample_lock_run empty_db))" by code_simp
  from lock_mutual_exclusion [OF ex this] show ?thesis by (simp add: new_lock_def)
qed

text \<open>
  A lock is granted only on a workspace in order: there is no unfinished transaction of the project,
  no active lock that conflicts in mode, and the granted lock is recorded as active with version one; any
  other outcome adds no lock.
\<close>

theorem acquire_grants:
  "case snd (acquire now i p t mode who why ttl d) of
     Inl e \<Rightarrow> False
   | Inr res \<Rightarrow>
       (if la_status res = ACQUIRED
        then locks (fst (acquire now i p t mode who why ttl d)) =
               locks (mark_expired now p d) @ [new_lock now i p t mode who why ttl] \<and>
             la_lock res = Some \<lparr>sn_id = i, sn_status = WorkspaceLockStatus.ACTIVE, sn_version = 1\<rparr> \<and>
             filter (\<lambda>x. tx_project_id x = p \<and> unfinished_state (tx_state x)) (transactions d) = [] \<and>
             filter (\<lambda>x. active_lock_of p x \<and> (wl_lock_mode x = WorkspaceLockMode.WRITE \<or>
                 mode = WorkspaceLockMode.WRITE)) (locks (mark_expired now p d)) = []
        else locks (fst (acquire now i p t mode who why ttl d)) = locks (mark_expired now p d) \<and>
             la_lock res = None)"
proof (cases rule: acquire_cases [of now i p t mode who why ttl d])
  case (refused st)
  then show ?thesis by auto
next
  case granted
  have "transactions (mark_expired now p d) = transactions d" by (simp add: mark_expired_def)
  then have "filter (\<lambda>x. tx_project_id x = p \<and> unfinished_state (tx_state x)) (transactions d) = []"
    using granted(1) by (auto simp: requires_recovery_def filter_empty_conv list_ex_iff split: if_splits)
  moreover have "filter (\<lambda>x. active_lock_of p x \<and> (wl_lock_mode x = WorkspaceLockMode.WRITE \<or>
      mode = WorkspaceLockMode.WRITE)) (locks (mark_expired now p d)) = []"
    using granted(2) by (auto simp: filter_empty_conv)
  ultimately show ?thesis using granted(3,4) by simp
qed

text \<open>
  Heartbeats are optimistic: one that succeeds raises the version stored in the owner text by exactly
  one, so a second heartbeat that still expects the old version is refused and changes nothing.
\<close>

theorem heartbeat_optimistic:
  assumes "heartbeat now lid v ttl d = (d', Inr snap)" and "0 \<le> v"
  shows "sn_version snap = v + 1 \<and>
    (\<exists>lock. get_lock d' lid = Some lock \<and> lock_version lock = Inr (v + 1)) \<and>
    heartbeat later lid v ttl' d' = (d', Inl (ValueError ''lock version conflict''))"
proof -
  let ?upd = "\<lambda>l. (set_version (v + 1) l)\<lparr>wl_expires_at := Some (now + ttl)\<rparr>"
  have own: "lock_version (?upd l) = lock_version (set_version (v + 1) l)" for l
    by (simp add: lock_version_def)
  have ver: "lock_version (?upd l) = Inr (v + 1)" for l
    unfolding own using assms(2) by (intro lock_version_set_version) simp
  have id: "wl_id (?upd l) = wl_id l" "wl_status (?upd l) = wl_status l" for l
    by (simp_all add: set_version_def)
  obtain lock where lock: "get_lock d lid = Some lock" "wl_status lock = WorkspaceLockStatus.ACTIVE"
      "lock_version lock = Inr v"
    using assms(1) by (auto simp: heartbeat_def split: option.splits if_splits sum.splits)
  have res: "d' = d\<lparr>locks := set_row wl_id lid ?upd (locks d)\<rparr>" "sn_version snap = v + 1"
    using assms(1) lock ver [of lock] by (auto simp: heartbeat_def Let_def)
  have get: "get_lock d' lid = Some (?upd lock)"
    using lock(1) by (simp add: res(1) get_row_set_row id)
  then have "heartbeat later lid v ttl' d' = (d', Inl (ValueError ''lock version conflict''))"
    using lock(2) ver [of lock] id by (simp add: heartbeat_def)
  with get res(2) ver [of lock] show ?thesis by blast
qed

theorem heartbeat_optimistic_witness:
  "\<exists>snap. snd (heartbeat 5 ''l1'' 1 300 (fold lock_exec sample_lock_run empty_db)) = Inr snap \<and>
     sn_version snap = 2"
proof -
  let ?r = "heartbeat 5 ''l1'' 1 300 (fold lock_exec sample_lock_run empty_db)"
  have "\<not> isl (snd ?r)" by code_simp
  then obtain snap where r: "?r = (fst ?r, Inr snap)" by (cases ?r; cases "snd ?r") auto
  from heartbeat_optimistic [OF r] have "sn_version snap = 2" by simp
  with r show ?thesis by (metis snd_conv)
qed

end
