(* ===== verification/Workspace.thy ===== *)
theory Workspace
  imports Locks "HOL-Library.Mapping" "HOL-Library.AList_Mapping"
begin

section \<open>Workspace: the file system, transactions and the file tools\<close>

text \<open>
  \<^verbatim>\<open>transactions/manager.py\<close>, \<^verbatim>\<open>tools/create_file.py\<close>, \<^verbatim>\<open>tools/delete_file.py\<close> and
  \<^verbatim>\<open>tools/apply_patch.py\<close>.

  A path is the list of its components from the root of the file system; a file holds bytes (characters
  below 256), and a text that a tool writes is given by its UTF-8 bytes: substring tests and replacements on
  a text and on its encoding agree. \<^verbatim>\<open>Path.resolve()\<close> is the parameter \<open>rsv\<close> (the symbolic links of the
  machine), \<^verbatim>\<open>sha256\<close> the parameter \<open>sha\<close>, the text of \<^verbatim>\<open>difflib.unified_diff\<close>, which is only
  recorded, the parameter \<open>diff\<close>. The manifest artifact is kept decoded. An \<^verbatim>\<open>OSError\<close> is a
  \<open>FileSystemError\<close>.
\<close>

type_synonym path = "string list"

record world =
  wk_db :: db
  wk_files :: "(path, string) mapping"
  wk_dirs :: "path list"
  wk_manifests :: "(path, json) mapping"

abbreviation file_at :: "world \<Rightarrow> path \<Rightarrow> string option" where
  "file_at w p \<equiv> Mapping.lookup (wk_files w) p"

definition path_exists :: "world \<Rightarrow> path \<Rightarrow> bool" where
  "path_exists w p \<longleftrightarrow> file_at w p \<noteq> None \<or> p \<in> set (wk_dirs w)"

text \<open>\<^verbatim>\<open>mkdir(parents=True, exist_ok=True)\<close>, \<^verbatim>\<open>write_bytes\<close> and \<^verbatim>\<open>unlink\<close>.\<close>

definition make_dirs :: "path \<Rightarrow> world \<Rightarrow> world \<times> unit result" where
  "make_dirs p w =
     (if list_ex (\<lambda>q. file_at w q \<noteq> None) (prefixes p) then (w, Inl (FileSystemError ''not a directory''))
      else (w\<lparr>wk_dirs := wk_dirs w @ filter (\<lambda>q. q \<notin> set (wk_dirs w)) (prefixes p)\<rparr>, Inr ()))"

definition write_bytes :: "path \<Rightarrow> string \<Rightarrow> world \<Rightarrow> world \<times> unit result" where
  "write_bytes p content w =
     (if p \<in> set (wk_dirs w) then (w, Inl (FileSystemError ''is a directory''))
      else if butlast p \<notin> set (wk_dirs w) then (w, Inl (FileSystemError ''no such directory''))
      else (w\<lparr>wk_files := Mapping.update p content (wk_files w)\<rparr>, Inr ()))"

definition remove_file :: "path \<Rightarrow> world \<Rightarrow> world" where
  "remove_file p w = w\<lparr>wk_files := Mapping.delete p (wk_files w)\<rparr>"

definition path_str :: "path \<Rightarrow> string" where
  "path_str p = ''/'' @ join ''/'' p"

text \<open>The backup of a file: \<^verbatim>\<open>manifest.parent / kind / relative_path\<close>.\<close>

definition artifact_path :: "string \<Rightarrow> string \<Rightarrow> string \<Rightarrow> path" where
  "artifact_path manifest_ref kind relative_path =
     butlast (path_parts manifest_ref) @ [kind] @ path_parts relative_path"

definition store_backup :: "path \<Rightarrow> string \<Rightarrow> world \<Rightarrow> world \<times> unit result" where
  "store_backup p content w =
     (case make_dirs (butlast p) w of
        (w1, Inl e) \<Rightarrow> (w1, Inl e)
      | (w1, Inr _) \<Rightarrow> write_bytes p content w1)"

subsection \<open>UTF-8\<close>

definition byte_in :: "nat \<Rightarrow> nat \<Rightarrow> char \<Rightarrow> bool" where
  "byte_in lo hi c = (lo \<le> (of_char c :: nat) \<and> (of_char c :: nat) \<le> hi)"

abbreviation cont_byte :: "char \<Rightarrow> bool" where
  "cont_byte \<equiv> byte_in 128 191"

fun utf8_valid :: "string \<Rightarrow> bool" where
  "utf8_valid [] = True"
| "utf8_valid (a # s) =
     (if byte_in 0 127 a then utf8_valid s
      else case s of
        b # s1 \<Rightarrow>
          if byte_in 194 223 a then cont_byte b \<and> utf8_valid s1
          else (case s1 of
            c # s2 \<Rightarrow>
              if byte_in 224 239 a
              then (if byte_in 224 224 a then byte_in 160 191 b
                    else if byte_in 237 237 a then byte_in 128 159 b else cont_byte b) \<and>
                   cont_byte c \<and> utf8_valid s2
              else (case s2 of
                e # s3 \<Rightarrow> byte_in 240 244 a \<and>
                  (if byte_in 240 240 a then byte_in 144 191 b
                   else if byte_in 244 244 a then byte_in 128 143 b else cont_byte b) \<and>
                  cont_byte c \<and> cont_byte e \<and> utf8_valid s3
              | [] \<Rightarrow> False)
          | [] \<Rightarrow> False)
      | [] \<Rightarrow> False)"

subsection \<open>\<^verbatim>\<open>transactions/manager.py\<close>\<close>

record PreparedTransaction =
  pt_transaction_id :: string
  pt_state :: TransactionState
  pt_manifest_path :: string
  pt_backup_dir :: string
  pt_file_hashes :: "(string \<times> string) list"

definition workspace_hashes :: "(string \<Rightarrow> string) \<Rightarrow> path \<Rightarrow> world \<Rightarrow> (string \<times> string) list" where
  "workspace_hashes sha root w =
     map (\<lambda>p. (as_posix (drop (length root) p), sha (the (file_at w p))))
       (filter (\<lambda>p. strict_prefix root p \<and> ''.git'' \<notin> set p) (Mapping.ordered_keys (wk_files w)))"

definition active_write_lock :: "int \<Rightarrow> string \<Rightarrow> string \<Rightarrow> string \<Rightarrow> db \<Rightarrow> WorkspaceLock result" where
  "active_write_lock now lock_id task_id project_id d =
     (case get_lock d lock_id of
        None \<Rightarrow> Inl (TransactionPrepareError ''active WRITE lock required'')
      | Some lock \<Rightarrow>
          if wl_task_id lock \<noteq> task_id \<or> wl_project_id lock \<noteq> project_id \<or>
             wl_lock_mode lock \<noteq> WorkspaceLockMode.WRITE \<or> wl_status lock \<noteq> WorkspaceLockStatus.ACTIVE \<or>
             (case wl_expires_at lock of None \<Rightarrow> False | Some t \<Rightarrow> t \<le> now)
          then Inl (TransactionPrepareError ''active WRITE lock required'')
          else Inr lock)"

definition transaction_backup_dir :: "(path \<Rightarrow> path) \<Rightarrow> path option \<Rightarrow> path \<Rightarrow> string \<Rightarrow> path" where
  "transaction_backup_dir rsv backup_root root task_id =
     rsv ((case backup_root of None \<Rightarrow> butlast root @ [''.sementor''] | Some b \<Rightarrow> b) @
          [''backups''] @ path_parts task_id)"

definition json_get :: "string \<Rightarrow> (string \<times> json) list \<Rightarrow> json option" where
  "json_get k kvs = map_of kvs k"

fun manifest_hashes :: "json list \<Rightarrow> (string \<times> string) list result" where
  "manifest_hashes [] = Inr []"
| "manifest_hashes (JObj kvs # items) =
     (case json_get ''path'' kvs of
        None \<Rightarrow> Inl (KeyError ''path'')
      | Some p \<Rightarrow>
          (case json_get ''sha256'' kvs of
             None \<Rightarrow> Inl (KeyError ''sha256'')
           | Some h \<Rightarrow> rbind (manifest_hashes items)
               (\<lambda>rest. Inr ((json_str p, json_str h) # rest))))"
| "manifest_hashes (_ # items) = manifest_hashes items"

definition json_items :: "json option \<Rightarrow> json list" where
  "json_items v = (case v of Some (JList xs) \<Rightarrow> xs | _ \<Rightarrow> [])"

definition from_existing ::
    "(string \<Rightarrow> string) \<Rightarrow> path \<Rightarrow> TaskTransaction \<Rightarrow> string \<Rightarrow> world \<Rightarrow> PreparedTransaction result" where
  "from_existing sha root tx manifest_ref w =
     (case Mapping.lookup (wk_manifests w) (path_parts manifest_ref) of
        None \<Rightarrow> Inl (FileSystemError ''no such file'')
      | Some (JObj kvs) \<Rightarrow>
          rbind (manifest_hashes (json_items (json_get ''preexisting_changes'' kvs))) (\<lambda>hashes.
            case json_get ''backup_dir'' kvs of
              None \<Rightarrow> Inl (KeyError ''backup_dir'')
            | Some b \<Rightarrow> Inr \<lparr>pt_transaction_id = tx_id tx, pt_state = tx_state tx,
                pt_manifest_path = manifest_ref, pt_backup_dir = json_str b,
                pt_file_hashes = (if hashes \<noteq> [] then hashes else workspace_hashes sha root w)\<rparr>)
      | Some _ \<Rightarrow> Inl (AttributeError ''get''))"

definition baseline_manifest ::
    "string \<Rightarrow> string \<Rightarrow> string \<Rightarrow> string \<Rightarrow> (string \<times> string) list \<Rightarrow> string \<Rightarrow> json" where
  "baseline_manifest task_id project_id lock_id base_revision hashes backup_dir =
     JObj [(''backup_dir'', JStr backup_dir), (''base_revision'', JStr base_revision),
       (''lock_id'', JStr lock_id),
       (''preexisting_changes'', JList (map (\<lambda>(p, h). JObj [(''path'', JStr p), (''sha256'', JStr h)])
          (sort_key fst hashes))),
       (''project_id'', JStr project_id), (''task_id'', JStr task_id),
       (''workspace_state'', JStr (if hashes \<noteq> [] then ''DIRTY'' else ''CLEAN''))]"

definition prepare_new ::
    "(string \<Rightarrow> string) \<Rightarrow> (path \<Rightarrow> path) \<Rightarrow> path option \<Rightarrow> string \<Rightarrow> string \<Rightarrow> string \<Rightarrow> string \<Rightarrow> string \<Rightarrow> path \<Rightarrow>
     world \<Rightarrow> world \<times> PreparedTransaction result" where
  "prepare_new sha rsv backup_root new_id task_id project_id lock_id base_revision root w =
     (let backup_dir = transaction_backup_dir rsv backup_root root task_id
      in if prefix root (rsv backup_dir)
         then (w, Inl (TransactionPrepareError ''backup directory cannot be inside repository''))
         else
           let hashes = (if path_exists w root then workspace_hashes sha root w else []);
               manifest = baseline_manifest task_id project_id lock_id base_revision hashes (path_str backup_dir);
               manifest_path = backup_dir @ [''baseline-manifest.json'']
           in (case make_dirs backup_dir w of
                 (w1, Inl e) \<Rightarrow> (w1, Inl e)
               | (w1, Inr _) \<Rightarrow>
                   let tx = \<lparr>tx_id = new_id, tx_task_id = task_id, tx_project_id = project_id,
                         tx_workspace_lock_id = Some lock_id, tx_state = TransactionState.PREPARED,
                         tx_manifest_artifact_ref = Some (path_str manifest_path)\<rparr>
                   in (w1\<lparr>wk_manifests := Mapping.update manifest_path manifest (wk_manifests w1),
                          wk_db := (wk_db w1)\<lparr>transactions := transactions (wk_db w1) @ [tx]\<rparr>\<rparr>,
                       Inr \<lparr>pt_transaction_id = new_id, pt_state = TransactionState.PREPARED,
                            pt_manifest_path = path_str manifest_path,
                            pt_backup_dir = path_str backup_dir, pt_file_hashes = hashes\<rparr>)))"

definition prepare ::
    "(string \<Rightarrow> string) \<Rightarrow> (path \<Rightarrow> path) \<Rightarrow> path option \<Rightarrow> int \<Rightarrow> string \<Rightarrow> string \<Rightarrow> string \<Rightarrow> string \<Rightarrow> string \<Rightarrow>
     world \<Rightarrow> world \<times> PreparedTransaction result" where
  "prepare sha rsv backup_root now new_id task_id project_id lock_id expected_base_revision w =
     (let d = wk_db w
      in case (get_task d task_id, get_row pj_id project_id (projects d)) of
        (Some task, Some project) \<Rightarrow>
          if tk_project_id task \<noteq> project_id
          then (w, Inl (TransactionPrepareError ''task/project mismatch''))
          else
            (case active_write_lock now lock_id task_id project_id d of
               Inl e \<Rightarrow> (w, Inl e)
             | Inr lock \<Rightarrow>
                 if tk_base_revision task \<noteq> Some expected_base_revision
                 then (w, Inl (TransactionPrepareError ''baseRevision mismatch''))
                 else
                   let root = rsv (path_parts (pj_root_path project));
                       existing = find (\<lambda>t. tx_task_id t = task_id \<and> tx_project_id t = project_id \<and>
                         tx_workspace_lock_id t = Some (wl_id lock) \<and> tx_state t = TransactionState.PREPARED)
                         (transactions d)
                   in (case (existing, Option.bind existing tx_manifest_artifact_ref) of
                         (Some tx, Some ref) \<Rightarrow> (w, from_existing sha root tx ref w)
                       | _ \<Rightarrow> prepare_new sha rsv backup_root new_id task_id project_id (wl_id lock)
                               expected_base_revision root w))
      | _ \<Rightarrow> (w, Inl (TransactionPrepareError ''task/project mismatch'')))"

subsection \<open>\<^verbatim>\<open>tools/create_file.py\<close>\<close>

text \<open>The identifiers and the time a tool call draws.\<close>

record tool_ids =
  ti_now :: int
  ti_execution :: string
  ti_backup :: string
  ti_change :: string
  ti_temp :: string

definition prepared_transaction :: "string \<Rightarrow> string \<Rightarrow> db \<Rightarrow> (TaskTransaction \<times> string) option" where
  "prepared_transaction transaction_id task_id d =
     (case get_transaction d transaction_id of
        None \<Rightarrow> None
      | Some tx \<Rightarrow>
          if tx_task_id tx \<noteq> task_id \<or> tx_state tx \<noteq> TransactionState.PREPARED then None
          else map_option (\<lambda>ref. (tx, ref)) (tx_manifest_artifact_ref tx))"

definition execution_row ::
    "tool_ids \<Rightarrow> string \<Rightarrow> string \<Rightarrow> string \<Rightarrow> string \<Rightarrow> string \<Rightarrow> json \<Rightarrow> ToolExecution" where
  "execution_row ids task_id action_id transaction_id tool summary evidence =
     \<lparr>te_id = ti_execution ids, te_task_id = task_id, te_action_id = action_id,
      te_transaction_id = Some transaction_id, te_tool_name = tool, te_command_summary = summary,
      te_status = ToolExecutionStatus.SUCCEEDED, te_exit_code = None, te_evidence_json = JText evidence,
      te_created_at = ti_now ids\<rparr>"

definition change_row ::
    "tool_ids \<Rightarrow> string \<Rightarrow> string \<Rightarrow> string option \<Rightarrow> FileChangeType \<Rightarrow> string \<Rightarrow> string option \<Rightarrow> string option \<Rightarrow>
     FileChange" where
  "change_row ids task_id action_id backup kind relative_path before_hash after_hash =
     \<lparr>fc_id = ti_change ids, fc_task_id = task_id, fc_tool_execution_id = ti_execution ids,
      fc_action_id = action_id, fc_backup_entry_id = backup, fc_change_type = kind,
      fc_relative_path = relative_path, fc_before_hash = before_hash, fc_after_hash = after_hash,
      fc_created_at = ti_now ids\<rparr>"

definition backup_row ::
    "tool_ids \<Rightarrow> string \<Rightarrow> string \<Rightarrow> string \<Rightarrow> path \<Rightarrow> string \<Rightarrow> string \<Rightarrow> BackupEntry" where
  "backup_row ids task_id project_id original_hash artifact file_type relative_path =
     \<lparr>be_id = ti_backup ids, be_task_id = task_id, be_project_id = project_id,
      be_original_hash = original_hash, be_backup_artifact_ref = path_str artifact,
      be_file_type = file_type, be_relative_path = relative_path\<rparr>"

definition log_change :: "ToolExecution \<Rightarrow> BackupEntry list \<Rightarrow> FileChange \<Rightarrow> world \<Rightarrow> world" where
  "log_change ex bks ch w =
     w\<lparr>wk_db := (wk_db w)\<lparr>executions := executions (wk_db w) @ [ex],
        backups := backups (wk_db w) @ bks, file_changes := file_changes (wk_db w) @ [ch]\<rparr>\<rparr>"

record CreateFileResult =
  cf_relative_path :: string
  cf_after_sha256 :: string
  cf_rollback_delete_path :: string
  cf_tool_execution_id :: string

definition create_file ::
    "(string \<Rightarrow> string) \<Rightarrow> (path \<Rightarrow> path) \<Rightarrow> path \<Rightarrow> tool_ids \<Rightarrow> string \<Rightarrow> string \<Rightarrow> string \<Rightarrow> write_grant \<Rightarrow> string \<Rightarrow>
     string \<Rightarrow> string \<Rightarrow> world \<Rightarrow> world \<times> CreateFileResult result" where
  "create_file sha rsv root ids task_id action_id transaction_id grant relative_path content revision w =
     (let fail = (\<lambda>m. (w, Inl (CreateFileError m)))
      in case prepared_transaction transaction_id task_id (wk_db w) of
           None \<Rightarrow> fail ''prepared transaction required''
         | Some (tx, ref) \<Rightarrow>
             (case canonical_project_path relative_path of
                Inl _ \<Rightarrow> fail ''target path invalid''
              | Inr normalized \<Rightarrow>
                  if \<not> wg_allows_write grant normalized revision then fail ''policy scope denied''
                  else
                    let target = rsv (root @ path_parts normalized)
                    in if \<not> prefix root target then fail ''target path invalid''
                       else if butlast target \<notin> set (wk_dirs w) \<or> \<not> prefix root (butlast target)
                       then fail ''parent directory denied''
                       else if path_exists w target then fail ''existing file''
                       else
                         let w1 = w\<lparr>wk_files := Mapping.update target content (wk_files w)\<rparr>;
                             after_hash = sha content;
                             ex = execution_row ids task_id action_id (tx_id tx) ''CREATE_FILE''
                               (''create file '' @ normalized)
                               (JObj [(''relative_path'', JStr normalized),
                                 (''rollback'', JObj [(''delete_created_file'', JStr normalized)])]);
                             ch = change_row ids task_id action_id None FileChangeType.CREATE normalized
                               None (Some after_hash)
                         in (log_change ex [] ch w1,
                             Inr \<lparr>cf_relative_path = normalized, cf_after_sha256 = after_hash,
                                  cf_rollback_delete_path = normalized,
                                  cf_tool_execution_id = te_id ex\<rparr>)))"

subsection \<open>\<^verbatim>\<open>tools/delete_file.py\<close>\<close>

record DeleteFileResult =
  df_relative_path :: string
  df_deleted :: bool
  df_before_sha256 :: "string option"
  df_backup_ref :: "string option"
  df_tool_execution_id :: string

definition delete_file ::
    "(string \<Rightarrow> string) \<Rightarrow> (path \<Rightarrow> path) \<Rightarrow> path \<Rightarrow> tool_ids \<Rightarrow> string \<Rightarrow> string \<Rightarrow> string \<Rightarrow> write_grant \<Rightarrow> string \<Rightarrow>
     string \<Rightarrow> world \<Rightarrow> world \<times> DeleteFileResult result" where
  "delete_file sha rsv root ids task_id action_id transaction_id grant relative_path revision w =
     (let fail = (\<lambda>m. (w, Inl (DeleteFileError m)))
      in case prepared_transaction transaction_id task_id (wk_db w) of
           None \<Rightarrow> fail ''prepared transaction required''
         | Some (tx, ref) \<Rightarrow>
             (case canonical_project_path relative_path of
                Inl _ \<Rightarrow> fail ''target path invalid''
              | Inr normalized \<Rightarrow>
                  if \<not> wg_allows_write grant normalized revision then fail ''matching grant required''
                  else
                    let target = rsv (root @ path_parts normalized)
                    in if \<not> prefix root target \<or> target = root then fail ''target path invalid''
                       else if \<not> path_exists w target then fail ''target path not found''
                       else
                         (case file_at w target of
                            None \<Rightarrow> fail ''recursive delete is not supported''
                          | Some before_bytes \<Rightarrow>
                              if target \<in> set (wk_dirs w) then fail ''recursive delete is not supported''
                              else
                                let artifact = artifact_path ref ''deleted-files'' normalized
                                in (case store_backup artifact before_bytes w of
                                      (w1, Inl e) \<Rightarrow> (w1, Inl e)
                                    | (w1, Inr _) \<Rightarrow>
                                        let before_hash = sha before_bytes;
                                            ex = execution_row ids task_id action_id (tx_id tx) ''DELETE_FILE''
                                              (''delete file '' @ normalized)
                                              (JObj [(''relative_path'', JStr normalized),
                                                (''result'', JStr ''deleted'')]);
                                            bk = backup_row ids task_id (tx_project_id tx) before_hash artifact
                                              ''application/octet-stream'' normalized;
                                            ch = change_row ids task_id action_id (Some (be_id bk))
                                              FileChangeType.DELETE normalized (Some before_hash) None
                                        in (log_change ex [bk] ch (remove_file target w1),
                                            Inr \<lparr>df_relative_path = normalized, df_deleted = True,
                                                 df_before_sha256 = Some before_hash,
                                                 df_backup_ref = Some (path_str artifact),
                                                 df_tool_execution_id = te_id ex\<rparr>)))))"

subsection \<open>\<^verbatim>\<open>tools/apply_patch.py\<close>\<close>

record StructuredPatch =
  sp_relative_path :: string
  sp_expected_sha256 :: string
  sp_replacements :: "(string \<times> string) list"

record ApplyPatchResult =
  ap_relative_path :: string
  ap_before_sha256 :: string
  ap_after_sha256 :: string
  ap_diff :: string
  ap_tool_execution_id :: string

fun apply_replacements :: "string \<Rightarrow> (string \<times> string) list \<Rightarrow> string result" where
  "apply_replacements txt [] = Inr txt"
| "apply_replacements txt ((old, new) # rs) =
     (if \<not> py_in old txt then Inl (ApplyPatchError ''patch mismatch'')
      else apply_replacements (replace_first old new txt) rs)"

definition temp_path :: "path \<Rightarrow> string \<Rightarrow> path" where
  "temp_path target hex = butlast target @ [''.'' @ last target @ ''.'' @ hex @ ''.tmp'']"

text \<open>
  From the point where the new text is in the temporary file: the hook (what other processes may do to
  the files), the second hash check, the simulated crash, the atomic replacement and the log.
\<close>

definition replace_target ::
    "(string \<Rightarrow> string) \<Rightarrow> tool_ids \<Rightarrow> string \<Rightarrow> string \<Rightarrow> TaskTransaction \<Rightarrow> string \<Rightarrow> path \<Rightarrow> path \<Rightarrow> string \<Rightarrow>
     string \<Rightarrow> (world \<Rightarrow> world) option \<Rightarrow> bool \<Rightarrow> world \<Rightarrow> world \<times> ApplyPatchResult result" where
  "replace_target sha ids task_id action_id tx relative_path target artifact before_hash diff_text hook crash w1 =
     (let w2 = (case hook of None \<Rightarrow> w1 | Some f \<Rightarrow> f w1);
          temp = temp_path target (ti_temp ids)
      in case file_at w2 target of
           None \<Rightarrow> (w2, Inl (FileSystemError ''no such file''))
         | Some current \<Rightarrow>
             if sha current \<noteq> before_hash
             then (remove_file temp w2, Inl (ApplyPatchError ''external modification before replace''))
             else if crash then (remove_file temp w2, Inl (ApplyPatchError ''pre_replace_crash''))
             else
               (case file_at w2 temp of
                  None \<Rightarrow> (w2, Inl (FileSystemError ''no such file''))
                | Some new_bytes \<Rightarrow>
                    let w3 = w2\<lparr>wk_files := Mapping.update target new_bytes (Mapping.delete temp (wk_files w2))\<rparr>;
                        after_hash = sha new_bytes;
                        ex = execution_row ids task_id action_id (tx_id tx) ''APPLY_PATCH''
                          (''apply patch '' @ relative_path)
                          (JObj [(''relative_path'', JStr relative_path), (''diff'', JStr diff_text)]);
                        bk = backup_row ids task_id (tx_project_id tx) before_hash artifact ''text/plain'' relative_path;
                        ch = change_row ids task_id action_id (Some (be_id bk)) FileChangeType.MODIFY relative_path
                          (Some before_hash) (Some after_hash)
                    in (log_change ex [bk] ch w3,
                        Inr \<lparr>ap_relative_path = relative_path, ap_before_sha256 = before_hash,
                             ap_after_sha256 = after_hash, ap_diff = diff_text,
                             ap_tool_execution_id = te_id ex\<rparr>)))"

definition apply_patch ::
    "(string \<Rightarrow> string) \<Rightarrow> (string \<Rightarrow> string \<Rightarrow> string \<Rightarrow> string) \<Rightarrow> (path \<Rightarrow> path) \<Rightarrow> path \<Rightarrow> tool_ids \<Rightarrow> string \<Rightarrow>
     string \<Rightarrow> string \<Rightarrow> write_grant \<Rightarrow> StructuredPatch \<Rightarrow> string \<Rightarrow> (world \<Rightarrow> world) option \<Rightarrow> bool \<Rightarrow>
     world \<Rightarrow> world \<times> ApplyPatchResult result" where
  "apply_patch sha diff rsv root ids task_id action_id transaction_id grant patch revision hook crash w =
     (let fail = (\<lambda>m. (w, Inl (ApplyPatchError m)))
      in case prepared_transaction transaction_id task_id (wk_db w) of
           None \<Rightarrow> fail ''prepared transaction required''
         | Some (tx, ref) \<Rightarrow>
             (case canonical_project_path (sp_relative_path patch) of
                Inl _ \<Rightarrow> fail ''target path invalid''
              | Inr relative_path \<Rightarrow>
                  if \<not> wg_allows_write grant relative_path revision then fail ''policy scope denied''
                  else
                    let target = rsv (root @ path_parts relative_path)
                    in if \<not> prefix root target then fail ''target path invalid''
                       else
                         (case file_at w target of
                            None \<Rightarrow> fail ''target path invalid''
                          | Some before_bytes \<Rightarrow>
                              let before_hash = sha before_bytes
                              in if before_hash \<noteq> sp_expected_sha256 patch then fail ''expected hash conflict''
                                 else if \<not> utf8_valid before_bytes then fail ''encoding error''
                                 else
                                   (case apply_replacements before_bytes (sp_replacements patch) of
                                      Inl e \<Rightarrow> (w, Inl e)
                                    | Inr after_text \<Rightarrow>
                                        let diff_text = diff relative_path before_bytes after_text;
                                            artifact = artifact_path ref ''files'' relative_path
                                        in (case store_backup artifact before_bytes w of
                                              (w1, Inl e) \<Rightarrow> (w1, Inl e)
                                            | (w1, Inr _) \<Rightarrow>
                                                (case write_bytes (temp_path target (ti_temp ids)) after_text w1 of
                                                   (w2, Inl e) \<Rightarrow> (w2, Inl e)
                                                 | (w2, Inr _) \<Rightarrow>
                                                     replace_target sha ids task_id action_id tx relative_path target
                                                       artifact before_hash diff_text hook crash w2))))))"

end
