(* ===== verification/Rollback.thy ===== *)
theory Rollback
  imports Workspace
begin

section \<open>Rollback: undoing a transaction and recovering after a crash\<close>

text \<open>
  \<^verbatim>\<open>transactions/rollback.py\<close> and \<^verbatim>\<open>transactions/recovery.py\<close>. The changes of a transaction are
  undone last first from the log that the file tools wrote (\<^verbatim>\<open>FileChange\<close> and \<^verbatim>\<open>BackupEntry\<close>
  rows) and the backup artifacts. The second half of the theory relates the log to what the tools did and
  shows that rolling back brings the workspace back.
\<close>

subsection \<open>\<^verbatim>\<open>transactions/rollback.py\<close>\<close>

record RollbackResult =
  rr_transaction_id :: string
  rr_rolled_back :: bool
  rr_restored_paths :: "string list"
  rr_deleted_paths :: "string list"

definition transaction_changes :: "string \<Rightarrow> string \<Rightarrow> db \<Rightarrow> FileChange list" where
  "transaction_changes task_id transaction_id d =
     sort_key (\<lambda>c. (fc_created_at c, fc_id c))
       (filter (\<lambda>c. fc_task_id c = task_id \<and>
          list_ex (\<lambda>e. te_id e = fc_tool_execution_id c \<and> te_transaction_id e = Some transaction_id) (executions d))
          (file_changes d))"

definition rollback_target :: "(path \<Rightarrow> path) \<Rightarrow> path \<Rightarrow> string \<Rightarrow> path result" where
  "rollback_target rsv root relative_path =
     (if is_absolute relative_path \<or> ''..'' \<in> set (path_parts relative_path)
      then Inl (RollbackError ''target path invalid'')
      else
        let target = rsv (root @ path_parts relative_path)
        in if prefix root target then Inr target else Inl (RollbackError ''target path invalid''))"

definition hash_conflict :: "FileChange \<Rightarrow> py_error" where
  "hash_conflict change = RollbackConflict (''current hash conflict for '' @ fc_relative_path change)"

definition rollback_create ::
    "(string \<Rightarrow> string) \<Rightarrow> (path \<Rightarrow> path) \<Rightarrow> path \<Rightarrow> FileChange \<Rightarrow> world \<Rightarrow> world \<times> unit result" where
  "rollback_create sha rsv root change w =
     (case rollback_target rsv root (fc_relative_path change) of
        Inl e \<Rightarrow> (w, Inl e)
      | Inr target \<Rightarrow>
          if \<not> path_exists w target then (w, Inr ())
          else
            (case file_at w target of
               None \<Rightarrow> (w, Inl (hash_conflict change))
             | Some content \<Rightarrow>
                 if (case fc_after_hash change of None \<Rightarrow> False | Some h \<Rightarrow> sha content \<noteq> h)
                 then (w, Inl (hash_conflict change))
                 else (remove_file target w, Inr ())))"

definition change_backup :: "FileChange \<Rightarrow> db \<Rightarrow> BackupEntry result" where
  "change_backup change d =
     (case fc_backup_entry_id change of
        None \<Rightarrow> Inl (RollbackError ''backup entry required'')
      | Some i \<Rightarrow>
          (case get_row be_id i (backups d) of
             None \<Rightarrow> Inl (RollbackError ''backup entry missing'')
           | Some b \<Rightarrow> Inr b))"

definition write_back :: "path \<Rightarrow> string \<Rightarrow> world \<Rightarrow> world \<times> unit result" where
  "write_back target content w =
     (case make_dirs (butlast target) w of
        (w1, Inl e) \<Rightarrow> (w1, Inl e)
      | (w1, Inr _) \<Rightarrow> write_bytes target content w1)"

definition restore_backup ::
    "(string \<Rightarrow> string) \<Rightarrow> (path \<Rightarrow> path) \<Rightarrow> path \<Rightarrow> FileChange \<Rightarrow> world \<Rightarrow> world \<times> unit result" where
  "restore_backup sha rsv root change w =
     (case change_backup change (wk_db w) of
        Inl e \<Rightarrow> (w, Inl e)
      | Inr backup \<Rightarrow>
          (case rollback_target rsv root (fc_relative_path change) of
             Inl e \<Rightarrow> (w, Inl e)
           | Inr target \<Rightarrow>
               (case file_at w (path_parts (be_backup_artifact_ref backup)) of
                  None \<Rightarrow> (w, Inl (FileSystemError ''no such file''))
                | Some backup_bytes \<Rightarrow>
                    if path_exists w target then
                      (case file_at w target of
                         None \<Rightarrow> (w, Inl (hash_conflict change))
                       | Some content \<Rightarrow>
                           let current_hash = sha content;
                               expected = (if fc_change_type change = FileChangeType.MODIFY
                                           then fc_after_hash change else fc_before_hash change)
                           in if current_hash = be_original_hash backup then (w, Inr ())
                              else if (case expected of None \<Rightarrow> False | Some h \<Rightarrow> current_hash \<noteq> h)
                              then (w, Inl (hash_conflict change))
                              else write_back target backup_bytes w)
                    else if fc_change_type change = FileChangeType.MODIFY then (w, Inl (hash_conflict change))
                    else write_back target backup_bytes w)))"

definition undo_change ::
    "(string \<Rightarrow> string) \<Rightarrow> (path \<Rightarrow> path) \<Rightarrow> path \<Rightarrow> FileChange \<Rightarrow> world \<Rightarrow> world \<times> unit result" where
  "undo_change sha rsv root change w =
     (if fc_change_type change = FileChangeType.CREATE then rollback_create sha rsv root change w
      else restore_backup sha rsv root change w)"

text \<open>The loop over the reversed changes; it stops at the first exception.\<close>

fun undo_changes ::
    "(string \<Rightarrow> string) \<Rightarrow> (path \<Rightarrow> path) \<Rightarrow> path \<Rightarrow> FileChange list \<Rightarrow> string list \<Rightarrow> string list \<Rightarrow> world \<Rightarrow>
     world \<times> (string list \<times> string list) result" where
  "undo_changes sha rsv root [] restored deleted w = (w, Inr (restored, deleted))"
| "undo_changes sha rsv root (c # cs) restored deleted w =
     (case undo_change sha rsv root c w of
        (w1, Inl e) \<Rightarrow> (w1, Inl e)
      | (w1, Inr _) \<Rightarrow>
          if fc_change_type c = FileChangeType.CREATE
          then undo_changes sha rsv root cs restored (deleted @ [fc_relative_path c]) w1
          else undo_changes sha rsv root cs (restored @ [fc_relative_path c]) deleted w1)"

definition first_by :: "('r \<Rightarrow> 'k::linorder) \<Rightarrow> 'r list \<Rightarrow> 'r option" where
  "first_by key rows = (case sort_key key rows of [] \<Rightarrow> None | r # _ \<Rightarrow> Some r)"

definition rollback_action_id :: "string \<Rightarrow> string \<Rightarrow> db \<Rightarrow> string result" where
  "rollback_action_id task_id transaction_id d =
     (case first_by (\<lambda>e. (te_created_at e, te_id e))
          (filter (\<lambda>e. te_task_id e = task_id \<and> te_transaction_id e = Some transaction_id) (executions d)) of
        Some e \<Rightarrow> Inr (te_action_id e)
      | None \<Rightarrow>
          (case first_by ac_id (filter (\<lambda>a. ac_task_id a = task_id) (actions d)) of
             Some a \<Rightarrow> Inr (ac_id a)
           | None \<Rightarrow> Inl (RollbackError ''agent action required'')))"

definition set_tx_state :: "string \<Rightarrow> TransactionState \<Rightarrow> world \<Rightarrow> world" where
  "set_tx_state transaction_id st w =
     w\<lparr>wk_db := (wk_db w)\<lparr>transactions := set_row tx_id transaction_id (\<lambda>t. t\<lparr>tx_state := st\<rparr>)
        (transactions (wk_db w))\<rparr>\<rparr>"

definition rollback_record :: "tool_ids \<Rightarrow> string \<Rightarrow> string \<Rightarrow> string list \<Rightarrow> string list \<Rightarrow> world \<Rightarrow> world \<times> unit result" where
  "rollback_record ids task_id transaction_id restored deleted w =
     (case rollback_action_id task_id transaction_id (wk_db w) of
        Inl e \<Rightarrow> (w, Inl e)
      | Inr action_id \<Rightarrow>
          (w\<lparr>wk_db := (wk_db w)\<lparr>executions := executions (wk_db w) @
              [execution_row ids task_id action_id transaction_id ''ROLLBACK'' ''rollback transaction''
                (JObj [(''deleted_paths'', JList (map JStr deleted)),
                       (''restored_paths'', JList (map JStr restored))])]\<rparr>\<rparr>, Inr ()))"

definition rollback ::
    "(string \<Rightarrow> string) \<Rightarrow> (path \<Rightarrow> path) \<Rightarrow> path \<Rightarrow> tool_ids \<Rightarrow> string \<Rightarrow> string \<Rightarrow> world \<Rightarrow>
     world \<times> RollbackResult result" where
  "rollback sha rsv root ids task_id transaction_id w =
     (case get_transaction (wk_db w) transaction_id of
        None \<Rightarrow> (w, Inl (RollbackError ''transaction not found''))
      | Some tx \<Rightarrow>
          if tx_task_id tx \<noteq> task_id then (w, Inl (RollbackError ''transaction not found''))
          else if tx_state tx = TransactionState.ROLLED_BACK
          then (w, Inr \<lparr>rr_transaction_id = transaction_id, rr_rolled_back = False,
                  rr_restored_paths = [], rr_deleted_paths = []\<rparr>)
          else if tx_state tx \<notin> {TransactionState.PREPARED, TransactionState.APPLYING,
               TransactionState.COMMITTED, TransactionState.CONFLICT}
          then (w, Inl (RollbackError ''transaction state cannot be rolled back''))
          else
            (case undo_changes sha rsv root (rev (transaction_changes task_id transaction_id (wk_db w))) [] [] w of
               (w1, Inl (RollbackConflict m)) \<Rightarrow>
                 (set_tx_state transaction_id TransactionState.CONFLICT w1, Inl (RollbackConflict m))
             | (w1, Inl e) \<Rightarrow> (w1, Inl e)
             | (w1, Inr (restored, deleted)) \<Rightarrow>
                 (case rollback_record ids task_id transaction_id restored deleted
                     (set_tx_state transaction_id TransactionState.ROLLED_BACK w1) of
                    (w2, Inl e) \<Rightarrow> (w2, Inl e)
                  | (w2, Inr _) \<Rightarrow>
                      (w2, Inr \<lparr>rr_transaction_id = transaction_id, rr_rolled_back = True,
                        rr_restored_paths = restored, rr_deleted_paths = deleted\<rparr>))))"

subsection \<open>\<^verbatim>\<open>transactions/recovery.py\<close>\<close>

datatype RecoveryDecision = AUTO_ROLLBACK | MANUAL

fun recovery_decision_str :: "RecoveryDecision \<Rightarrow> string" where
  "recovery_decision_str AUTO_ROLLBACK = ''AUTO_ROLLBACK''"
| "recovery_decision_str MANUAL = ''MANUAL''"

record RecoverySummary =
  ry_transaction_id :: string
  ry_task_id :: string
  ry_decision :: RecoveryDecision
  ry_external_changes :: "string list"

record RecoveryResolution =
  rz_transaction_id :: string
  rz_resolved :: bool
  rz_rollback :: RollbackResult

text \<open>\<^verbatim>\<open>_external_changes\<close>: the manifest entries whose file no longer has the recorded hash.\<close>

definition entry_changed :: "(string \<Rightarrow> string) \<Rightarrow> (path \<Rightarrow> path) \<Rightarrow> path \<Rightarrow> world \<Rightarrow> json \<Rightarrow> string option" where
  "entry_changed sha rsv root w item =
     (case item of
        JObj kvs \<Rightarrow>
          let relative_path = (case json_get ''path'' kvs of None \<Rightarrow> [] | Some v \<Rightarrow> json_str v);
              expected = (case json_get ''sha256'' kvs of None \<Rightarrow> [] | Some v \<Rightarrow> json_str v);
              target = rsv (if is_absolute relative_path then path_parts relative_path
                            else root @ path_parts relative_path)
          in if \<not> prefix root target then None
             else
               let current = (case file_at w target of None \<Rightarrow> [] | Some c \<Rightarrow> sha c)
               in if expected \<noteq> [] \<and> current \<noteq> expected then Some relative_path else None
      | _ \<Rightarrow> None)"

definition external_changes ::
    "(string \<Rightarrow> string) \<Rightarrow> (path \<Rightarrow> path) \<Rightarrow> path \<Rightarrow> TaskTransaction \<Rightarrow> world \<Rightarrow> string list" where
  "external_changes sha rsv root tx w =
     (case tx_manifest_artifact_ref tx of
        None \<Rightarrow> []
      | Some ref \<Rightarrow>
          (case Mapping.lookup (wk_manifests w) (path_parts ref) of
             Some (JObj kvs) \<Rightarrow>
               sort (List.map_filter (entry_changed sha rsv root w)
                 (json_items (json_get ''preexisting_changes'' kvs)))
           | _ \<Rightarrow> []))"

definition emit_recovery_events ::
    "TaskTransaction \<Rightarrow> RecoveryDecision \<Rightarrow> string list \<Rightarrow> db \<Rightarrow> db" where
  "emit_recovery_events tx decision changes d =
     (let evidence = JText (JObj [(''decision'', JStr (recovery_decision_str decision)),
            (''external_changes'', JList (map JStr changes)), (''transaction_id'', JStr (tx_id tx))]);
          alerts = (if list_ex (\<lambda>a. al_task_id a = Some (tx_task_id tx) \<and>
                al_summary a = ''transaction recovery required'' \<and> al_status a = AlertStatus.OPEN) (alert_events d)
              then []
              else [\<lparr>al_task_id = Some (tx_task_id tx), al_system_scope = False, al_severity = AlertSeverity.HIGH,
                 al_status = AlertStatus.OPEN, al_summary = ''transaction recovery required'',
                 al_evidence_json = evidence, al_resolved_at = None\<rparr>])
      in d\<lparr>alert_events := alert_events d @ alerts,
           audit_events := audit_events d @
             [\<lparr>ae_task_id = Some (tx_task_id tx), ae_correlation_id = ''transaction-recovery:'' @ tx_id tx,
               ae_actor_type = AuditActorType.SYSTEM, ae_actor_id = ''transaction-recovery-service'',
               ae_event_type = EventType.TOOL_EXECUTED, ae_payload_summary = ''transaction recovery required'',
               ae_evidence_json = evidence\<rparr>]\<rparr>)"

text \<open>
  The session does not flush on queries, so the query for an open alert does not see the alerts that the
  same scan added: \<open>seen\<close> is the database the scan started from.
\<close>

definition scan_project ::
    "(string \<Rightarrow> string) \<Rightarrow> (path \<Rightarrow> path) \<Rightarrow> path \<Rightarrow> string \<Rightarrow> world \<Rightarrow> world \<times> RecoverySummary list" where
  "scan_project sha rsv root project_id w =
     (let txs = filter (\<lambda>t. tx_project_id t = project_id \<and> tx_state t \<in> {TransactionState.PREPARED,
            TransactionState.APPLYING, TransactionState.CONFLICT}) (transactions (wk_db w));
          summary = (\<lambda>tx. let changes = external_changes sha rsv root tx w in
            \<lparr>ry_transaction_id = tx_id tx, ry_task_id = tx_task_id tx,
             ry_decision = (if changes \<noteq> [] then MANUAL else AUTO_ROLLBACK), ry_external_changes = changes\<rparr>);
          seen = wk_db w;
          new_alerts = concat (map (\<lambda>tx. drop (length (alert_events seen)) (alert_events
            (emit_recovery_events tx (ry_decision (summary tx)) (ry_external_changes (summary tx)) seen))) txs);
          new_audits = concat (map (\<lambda>tx. drop (length (audit_events seen)) (audit_events
            (emit_recovery_events tx (ry_decision (summary tx)) (ry_external_changes (summary tx)) seen))) txs)
      in (w\<lparr>wk_db := seen\<lparr>alert_events := alert_events seen @ new_alerts,
              audit_events := audit_events seen @ new_audits\<rparr>\<rparr>,
          map summary txs))"

definition recovery_alert :: "AlertEvent \<Rightarrow> bool" where
  "recovery_alert a \<longleftrightarrow> al_summary a \<in> {''transaction recovery required'', ''workspace lock recovery required''} \<and>
     al_status a = AlertStatus.OPEN"

definition resolve_by_rollback ::
    "(string \<Rightarrow> string) \<Rightarrow> (path \<Rightarrow> path) \<Rightarrow> path \<Rightarrow> tool_ids \<Rightarrow> string \<Rightarrow> string \<Rightarrow> world \<Rightarrow>
     world \<times> RecoveryResolution result" where
  "resolve_by_rollback sha rsv root ids task_id transaction_id w =
     (case rollback sha rsv root ids task_id transaction_id w of
        (w1, Inl e) \<Rightarrow> (w1, Inl e)
      | (w1, Inr rb) \<Rightarrow>
          (case get_transaction (wk_db w1) transaction_id of
             None \<Rightarrow> (w1, Inl (ValueError ''transaction not found''))
           | Some tx \<Rightarrow>
               let d = wk_db w1;
                   locks' = (case tx_workspace_lock_id tx of
                       None \<Rightarrow> locks d
                     | Some i \<Rightarrow> set_where (\<lambda>l. wl_id l = i \<and> wl_status l = WorkspaceLockStatus.ACTIVE)
                         (\<lambda>l. l\<lparr>wl_status := WorkspaceLockStatus.RELEASED, wl_released_at := Some (ti_now ids)\<rparr>)
                         (locks d));
                   d' = d\<lparr>locks := locks',
                     alert_events := set_where recovery_alert
                       (\<lambda>a. a\<lparr>al_status := AlertStatus.RESOLVED, al_resolved_at := Some (ti_now ids)\<rparr>)
                       (alert_events d),
                     audit_events := audit_events d @
                       [\<lparr>ae_task_id = Some task_id,
                         ae_correlation_id = ''transaction-recovery-resolved:'' @ transaction_id,
                         ae_actor_type = AuditActorType.SYSTEM, ae_actor_id = ''transaction-recovery-service'',
                         ae_event_type = EventType.TOOL_EXECUTED,
                         ae_payload_summary = ''transaction recovery resolved by rollback'',
                         ae_evidence_json = JText (JObj [(''transaction_id'', JStr transaction_id)])\<rparr>]\<rparr>
               in (w1\<lparr>wk_db := d'\<rparr>,
                   Inr \<lparr>rz_transaction_id = transaction_id, rz_resolved = True, rz_rollback = rb\<rparr>)))"

subsection \<open>Undoing logged effects\<close>

fun undo_all :: "('c \<Rightarrow> 's \<Rightarrow> 's \<times> unit result) \<Rightarrow> 'c list \<Rightarrow> 's \<Rightarrow> 's \<times> unit result" where
  "undo_all undo [] s = (s, Inr ())"
| "undo_all undo (c # cs) s =
     (case undo c s of (s1, Inl e) \<Rightarrow> (s1, Inl e) | (s1, Inr _) \<Rightarrow> undo_all undo cs s1)"

inductive logged :: "('c \<Rightarrow> 'v \<Rightarrow> 'v \<Rightarrow> bool) \<Rightarrow> 'v \<Rightarrow> 'c list \<Rightarrow> 'v \<Rightarrow> bool" for effect v0 where
  logged_nil: "logged effect v0 [] v0"
| logged_snoc: "logged effect v0 cs v \<Longrightarrow> effect c v v' \<Longrightarrow> logged effect v0 (cs @ [c]) v'"

lemma logged_mono:
  assumes "logged effect v0 cs v" and "\<And>c v v'. c \<in> set cs \<Longrightarrow> effect c v v' \<Longrightarrow> effect' c v v'"
  shows "logged effect' v0 cs v"
  using assms by (induction rule: logged.induct) (auto intro: logged.intros)

text \<open>
  The interface of a log of effects: undoing the last effect, in a context that keeps what the undo
  needs, returns the view to what it was before. A client that undoes a whole log in reverse returns to
  the start.
\<close>

locale undo_log =
  fixes undo :: "'c \<Rightarrow> 's \<Rightarrow> 's \<times> unit result"
    and view :: "'s \<Rightarrow> 'v"
    and context_ok :: "'k \<Rightarrow> 's \<Rightarrow> bool"
    and effect :: "'k \<Rightarrow> 'c \<Rightarrow> 'v \<Rightarrow> 'v \<Rightarrow> bool"
  assumes undo_law: "effect k c v v' \<Longrightarrow> context_ok k s \<Longrightarrow> view s = v' \<Longrightarrow>
      \<exists>s'. undo c s = (s', Inr ()) \<and> context_ok k s' \<and> view s' = v"
begin

lemma undo_all_logged:
  assumes "logged (effect k) v0 cs v" and "context_ok k s" and "view s = v"
  shows "\<exists>s'. undo_all undo (rev cs) s = (s', Inr ()) \<and> context_ok k s' \<and> view s' = v0"
  using assms
proof (induction arbitrary: s rule: logged.induct)
  case logged_nil
  then show ?case by simp
next
  case (logged_snoc cs v c v')
  obtain s1 where s1: "undo c s = (s1, Inr ())" "context_ok k s1" "view s1 = v"
    using undo_law [OF logged_snoc.hyps(2) logged_snoc.prems] by blast
  from logged_snoc.IH [OF s1(2,3)] s1(1) show ?case by simp
qed

end

subsection \<open>The effects of the file tools\<close>

definition project_view :: "path \<Rightarrow> world \<Rightarrow> path \<Rightarrow> string option" where
  "project_view root w = (\<lambda>p. if prefix root p then file_at w p else None)"

text \<open>Directories are closed under parents and are not files, and a file lies in a directory.\<close>

definition dirs_ok :: "world \<Rightarrow> bool" where
  "dirs_ok w \<longleftrightarrow> (\<forall>q \<in> set (wk_dirs w). file_at w q = None) \<and>
     (\<forall>q \<in> set (wk_dirs w). set (prefixes q) \<subseteq> set (wk_dirs w)) \<and>
     (\<forall>p. file_at w p \<noteq> None \<longrightarrow> butlast p \<in> set (wk_dirs w))"

text \<open>What an undo reads besides the project: backup rows, directories, and files outside the project.\<close>

record undo_context =
  uc_backups :: "BackupEntry list"
  uc_dirs :: "path set"
  uc_outside :: "path \<Rightarrow> string option"

definition context_of :: "path \<Rightarrow> world \<Rightarrow> undo_context" where
  "context_of root w = \<lparr>uc_backups = backups (wk_db w), uc_dirs = set (wk_dirs w),
     uc_outside = (\<lambda>p. if prefix root p then None else file_at w p)\<rparr>"

definition has_context :: "path \<Rightarrow> undo_context \<Rightarrow> world \<Rightarrow> bool" where
  "has_context root k w \<longleftrightarrow> context_of root w = k \<and> dirs_ok w"

definition backup_of :: "undo_context \<Rightarrow> FileChange \<Rightarrow> (BackupEntry \<times> string) option" where
  "backup_of k c =
     Option.bind (fc_backup_entry_id c) (\<lambda>i.
     Option.bind (get_row be_id i (uc_backups k)) (\<lambda>b.
     map_option (\<lambda>content. (b, content)) (uc_outside k (path_parts (be_backup_artifact_ref b)))))"

text \<open>The effect of a logged change on the project, with the evidence an undo will need.\<close>

definition change_effect ::
    "(string \<Rightarrow> string) \<Rightarrow> (path \<Rightarrow> path) \<Rightarrow> path \<Rightarrow> undo_context \<Rightarrow> FileChange \<Rightarrow>
     (path \<Rightarrow> string option) \<Rightarrow> (path \<Rightarrow> string option) \<Rightarrow> bool" where
  "change_effect sha rsv root k c v v' \<longleftrightarrow>
     (\<exists>t. rollback_target rsv root (fc_relative_path c) = Inr t \<and> t \<notin> uc_dirs k \<and> butlast t \<in> uc_dirs k \<and>
        (case fc_change_type c of
           FileChangeType.CREATE \<Rightarrow>
             (\<exists>x. v t = None \<and> v' = v(t := Some x) \<and> fc_after_hash c = Some (sha x))
         | FileChangeType.MODIFY \<Rightarrow>
             (\<exists>before x b. v t = Some before \<and> v' = v(t := Some x) \<and> fc_after_hash c = Some (sha x) \<and>
                backup_of k c = Some (b, before) \<and> be_original_hash b = sha before \<and>
                (sha x = sha before \<longrightarrow> x = before))
         | FileChangeType.DELETE \<Rightarrow>
             (\<exists>before b. v t = Some before \<and> v' = v(t := None) \<and> backup_of k c = Some (b, before))))"

lemma rollback_target_prefix: "rollback_target rsv root rel = Inr t \<Longrightarrow> prefix root t"
  by (auto simp: rollback_target_def Let_def split: if_splits)

lemma backup_of_Some:
  assumes "backup_of k c = Some (b, content)" and "context_of root w = k"
  shows "change_backup c (wk_db w) = Inr b"
    and "file_at w (path_parts (be_backup_artifact_ref b)) = Some content"
  using assms
  by (auto simp: backup_of_def change_backup_def context_of_def bind_eq_Some_conv split: if_splits)

lemma write_back_ok:
  assumes "dirs_ok w" and "t \<notin> set (wk_dirs w)" and "butlast t \<in> set (wk_dirs w)"
  shows "write_back t content w = (w\<lparr>wk_files := Mapping.update t content (wk_files w)\<rparr>, Inr ())"
proof -
  have sub: "set (prefixes (butlast t)) \<subseteq> set (wk_dirs w)"
    and files: "\<forall>q \<in> set (wk_dirs w). file_at w q = None"
    using assms by (auto simp: dirs_ok_def)
  have "\<not> list_ex (\<lambda>q. file_at w q \<noteq> None) (prefixes (butlast t))"
    using sub files by (auto simp: list_ex_iff)
  moreover have "filter (\<lambda>q. q \<notin> set (wk_dirs w)) (prefixes (butlast t)) = []"
    using sub by (auto simp: filter_empty_conv)
  ultimately have "make_dirs (butlast t) w = (w, Inr ())" by (simp add: make_dirs_def)
  with assms show ?thesis by (simp add: write_back_def write_bytes_def)
qed

lemma lookup_delete_if:
  "Mapping.lookup (Mapping.delete k m) k' = (if k = k' then None else Mapping.lookup m k')"
  by (cases "k = k'") simp_all

lemma has_context_update:
  assumes "has_context root k w" and "prefix root t" and "t \<notin> uc_dirs k" and "butlast t \<in> uc_dirs k"
  shows "has_context root k (w\<lparr>wk_files := Mapping.update t x (wk_files w)\<rparr>)"
    and "has_context root k (remove_file t w)"
  using assms
  by (auto simp: has_context_def context_of_def dirs_ok_def remove_file_def lookup_update' lookup_delete_if fun_eq_iff)

lemma project_view_update:
  "prefix root t \<Longrightarrow> project_view root (w\<lparr>wk_files := Mapping.update t x (wk_files w)\<rparr>) =
     (project_view root w)(t := Some x)"
  "prefix root t \<Longrightarrow> project_view root (remove_file t w) = (project_view root w)(t := None)"
  by (auto simp: project_view_def remove_file_def lookup_update' lookup_delete_if)

lemma undo_effect:
  assumes eff: "change_effect sha rsv root k c v v'" and ctx: "has_context root k w"
    and view: "project_view root w = v'"
  shows "\<exists>w'. undo_change sha rsv root c w = (w', Inr ()) \<and> has_context root k w' \<and> project_view root w' = v"
proof -
  obtain t where t: "rollback_target rsv root (fc_relative_path c) = Inr t" "t \<notin> uc_dirs k" "butlast t \<in> uc_dirs k"
    using eff by (auto simp: change_effect_def)
  have root: "prefix root t" using t(1) by (rule rollback_target_prefix)
  have k: "context_of root w = k" "dirs_ok w" using ctx by (simp_all add: has_context_def)
  have dirs: "t \<notin> set (wk_dirs w)" "butlast t \<in> set (wk_dirs w)"
    using t k(1) by (auto simp: context_of_def)
  have now: "file_at w t = v' t" using view root by (auto simp: project_view_def)
  have ex: "path_exists w t \<longleftrightarrow> v' t \<noteq> None" using now dirs by (simp add: path_exists_def)
  note wb = write_back_ok [OF k(2) dirs]
  show ?thesis
  proof (cases "fc_change_type c")
    case CREATE
    then obtain x where x: "v t = None" "v' = v(t := Some x)" "fc_after_hash c = Some (sha x)"
      using eff t(1) by (auto simp: change_effect_def)
    have "undo_change sha rsv root c w = (remove_file t w, Inr ())"
      using CREATE x now ex t(1) by (simp add: undo_change_def rollback_create_def)
    moreover have "project_view root (remove_file t w) = v"
      using x view root by (auto simp: project_view_update)
    ultimately show ?thesis using has_context_update(2) [OF ctx root t(2,3)] by blast
  next
    case MODIFY
    then obtain before x b where x: "v t = Some before" "v' = v(t := Some x)" "fc_after_hash c = Some (sha x)"
        "backup_of k c = Some (b, before)" "be_original_hash b = sha before" "sha x = sha before \<longrightarrow> x = before"
      using eff t(1) by (auto simp: change_effect_def)
    note bk = backup_of_Some [OF x(4) k(1)]
    show ?thesis
    proof (cases "sha x = sha before")
      case True
      then have "undo_change sha rsv root c w = (w, Inr ())"
        using MODIFY x now ex t(1) bk by (simp add: undo_change_def restore_backup_def)
      moreover have "project_view root w = v" using True x view by auto
      ultimately show ?thesis using ctx by blast
    next
      case False
      then have "undo_change sha rsv root c w = (w\<lparr>wk_files := Mapping.update t before (wk_files w)\<rparr>, Inr ())"
        using MODIFY x now ex t(1) bk wb by (simp add: undo_change_def restore_backup_def Let_def)
      moreover have "project_view root (w\<lparr>wk_files := Mapping.update t before (wk_files w)\<rparr>) = v"
        using x view root by (auto simp: project_view_update)
      ultimately show ?thesis using has_context_update(1) [OF ctx root t(2,3)] by blast
    qed
  next
    case DELETE
    then obtain before b where x: "v t = Some before" "v' = v(t := None)" "backup_of k c = Some (b, before)"
      using eff t(1) by (auto simp: change_effect_def)
    note bk = backup_of_Some [OF x(3) k(1)]
    have "undo_change sha rsv root c w = (w\<lparr>wk_files := Mapping.update t before (wk_files w)\<rparr>, Inr ())"
      using DELETE x now ex t(1) bk wb by (simp add: undo_change_def restore_backup_def)
    moreover have "project_view root (w\<lparr>wk_files := Mapping.update t before (wk_files w)\<rparr>) = v"
      using x view root by (auto simp: project_view_update)
    ultimately show ?thesis using has_context_update(1) [OF ctx root t(2,3)] by blast
  qed
qed

interpretation change_log: undo_log "undo_change sha rsv root" "project_view root" "has_context root"
    "change_effect sha rsv root" for sha rsv root
  by unfold_locales (rule undo_effect)

lemma undo_changes_undo_all:
  "\<exists>restored' deleted'. undo_changes sha rsv root cs restored deleted w =
     (case undo_all (undo_change sha rsv root) cs w of
        (w', Inl e) \<Rightarrow> (w', Inl e) | (w', Inr _) \<Rightarrow> (w', Inr (restored', deleted')))"
proof (induction cs arbitrary: restored deleted w)
  case Nil
  then show ?case by simp
next
  case (Cons c cs)
  then show ?case
    by (cases "undo_change sha rsv root c w"; cases "snd (undo_change sha rsv root c w)") auto
qed

lemma write_back_db: "wk_db (fst (write_back target content w)) = wk_db w"
  by (simp add: write_back_def write_bytes_def make_dirs_def Let_def split: prod.split sum.split)

lemma undo_change_db: "wk_db (fst (undo_change sha rsv root c w)) = wk_db w"
  by (simp add: undo_change_def rollback_create_def restore_backup_def write_back_db remove_file_def Let_def
      split: sum.split option.split)

lemma undo_all_db: "wk_db (fst (undo_all (undo_change sha rsv root) cs w)) = wk_db w"
proof (induction cs arbitrary: w)
  case Nil
  then show ?case by simp
next
  case (Cons c cs)
  then show ?case
    using undo_change_db [of sha rsv root c w]
    by (cases "undo_change sha rsv root c w"; cases "snd (undo_change sha rsv root c w)") auto
qed

lemma set_tx_state_simps [simp]:
  "wk_files (set_tx_state i st w) = wk_files w" "wk_dirs (set_tx_state i st w) = wk_dirs w"
  "executions (wk_db (set_tx_state i st w)) = executions (wk_db w)"
  "actions (wk_db (set_tx_state i st w)) = actions (wk_db w)"
  by (simp_all add: set_tx_state_def)

lemma rollback_of_logged:
  assumes tx: "get_transaction (wk_db w) tid = Some tx" "tx_task_id tx = task"
      "tx_state tx \<noteq> TransactionState.ROLLED_BACK"
    and act: "rollback_action_id task tid (wk_db w) = Inr aid"
    and log: "logged (change_effect sha rsv root (context_of root w)) v0
        (transaction_changes task tid (wk_db w)) (project_view root w)"
    and dirs: "dirs_ok w"
  shows "\<exists>w' res. rollback sha rsv root ids task tid w = (w', Inr res) \<and> rr_rolled_back res \<and>
    project_view root w' = v0 \<and>
    get_transaction (wk_db w') tid = Some (tx\<lparr>tx_state := TransactionState.ROLLED_BACK\<rparr>)"
proof -
  let ?cs = "transaction_changes task tid (wk_db w)"
  obtain w1 where w1: "undo_all (undo_change sha rsv root) (rev ?cs) w = (w1, Inr ())" "project_view root w1 = v0"
    using change_log.undo_all_logged [OF log, of w] dirs by (auto simp: has_context_def)
  have db: "wk_db w1 = wk_db w" using undo_all_db [of sha rsv root "rev ?cs" w] w1(1) by simp
  obtain restored deleted where undo:
    "undo_changes sha rsv root (rev ?cs) [] [] w = (w1, Inr (restored, deleted))"
    using undo_changes_undo_all [of sha rsv root "rev ?cs" "[]" "[]" w] w1(1) by auto
  have act': "rollback_action_id task tid (wk_db (set_tx_state tid TransactionState.ROLLED_BACK w1)) = Inr aid"
    using act unfolding rollback_action_id_def set_tx_state_simps db by simp
  have st: "tx_state tx \<in> {TransactionState.PREPARED, TransactionState.APPLYING,
               TransactionState.COMMITTED, TransactionState.CONFLICT}"
    using tx(3) by (cases "tx_state tx") auto
  obtain w2 where rec: "rollback_record ids task tid restored deleted
      (set_tx_state tid TransactionState.ROLLED_BACK w1) = (w2, Inr ())"
    "wk_files w2 = wk_files w1"
    "transactions (wk_db w2) = transactions (wk_db (set_tx_state tid TransactionState.ROLLED_BACK w1))"
    using act' by (simp add: rollback_record_def)
  have "rollback sha rsv root ids task tid w = (w2, Inr \<lparr>rr_transaction_id = tid, rr_rolled_back = True,
      rr_restored_paths = restored, rr_deleted_paths = deleted\<rparr>)"
    using tx st undo rec(1) by (simp add: rollback_def)
  moreover have "project_view root w2 = v0"
    using w1(2) unfolding project_view_def rec(2) .
  moreover have "get_transaction (wk_db w2) tid = Some (tx\<lparr>tx_state := TransactionState.ROLLED_BACK\<rparr>)"
    using tx(1) by (simp add: rec(3) set_tx_state_def db get_row_set_row)
  ultimately show ?thesis by auto
qed

subsection \<open>The tools log what they do\<close>

lemma path_parts_proper: "c \<in> set (path_parts p) \<Longrightarrow> c \<noteq> [] \<and> c \<noteq> ''.'' \<and> slash \<notin> set c"
  by (auto simp: path_parts_def dest: split_on_parts)

lemma path_parts_path_str:
  assumes "\<forall>c \<in> set p. c \<noteq> [] \<and> c \<noteq> ''.'' \<and> slash \<notin> set c"
  shows "path_parts (path_str p) = p"
proof (cases "p = []")
  case True
  then show ?thesis by (simp add: path_parts_def path_str_def)
next
  case False
  then have "split_on slash (path_str p) = [] # p"
    using assms by (simp add: path_str_def split_join)
  with assms show ?thesis by (simp add: path_parts_def filter_id_conv)
qed

lemma artifact_round_trip:
  assumes "kind \<in> {''files'', ''deleted-files''}"
  shows "path_parts (path_str (artifact_path ref kind rel)) = artifact_path ref kind rel"
  using assms
  by (intro path_parts_path_str) (auto simp: artifact_path_def dest: in_set_butlastD path_parts_proper)

definition context_le :: "path \<Rightarrow> undo_context \<Rightarrow> undo_context \<Rightarrow> bool" where
  "context_le root k k' \<longleftrightarrow>
     (\<forall>i b. get_row be_id i (uc_backups k) = Some b \<longrightarrow> get_row be_id i (uc_backups k') = Some b) \<and>
     (\<forall>p x. uc_outside k p = Some x \<longrightarrow> uc_outside k' p = Some x) \<and>
     uc_dirs k \<subseteq> uc_dirs k' \<and> (\<forall>q \<in> uc_dirs k' - uc_dirs k. \<not> prefix root q)"

lemma backup_of_le: "context_le root k k' \<Longrightarrow> backup_of k c = Some x \<Longrightarrow> backup_of k' c = Some x"
  by (cases x) (auto simp: backup_of_def context_le_def bind_eq_Some_conv)

lemma change_effect_le:
  assumes "context_le root k k'" and "change_effect sha rsv root k c v v'"
  shows "change_effect sha rsv root k' c v v'"
proof -
  obtain t where t: "rollback_target rsv root (fc_relative_path c) = Inr t" "t \<notin> uc_dirs k" "butlast t \<in> uc_dirs k"
    using assms(2) by (auto simp: change_effect_def)
  have "t \<notin> uc_dirs k'" "butlast t \<in> uc_dirs k'"
    using assms(1) t rollback_target_prefix [OF t(1)] by (auto simp: context_le_def)
  with assms(2) t(1) show ?thesis
    by (cases "fc_change_type c") (auto simp: change_effect_def intro: backup_of_le [OF assms(1)])
qed

end
