(* ===== verification/Restoration.thy ===== *)
theory Restoration
  imports Rollback
begin

section \<open>Restoration: what the tools log is enough to undo them\<close>

text \<open>
  The file tools of \<open>Workspace\<close> against the rollback of \<open>Rollback\<close>: every successful call is a logged
  effect in the sense of \<open>undo_log\<close>, later calls keep the evidence of earlier ones as long as they do not
  write over a backup artifact, so rolling back a sequence of calls restores the project. The last part
  bounds what a call can touch at all.
\<close>

subsection \<open>Logged effects of the tools\<close>

text \<open>What a logging tool call does to the world: one change of the project, recorded with its evidence.\<close>

definition tool_logged ::
    "(string \<Rightarrow> string) \<Rightarrow> (path \<Rightarrow> path) \<Rightarrow> path \<Rightarrow> tool_ids \<Rightarrow> string \<Rightarrow> string \<Rightarrow> world \<Rightarrow> FileChange \<Rightarrow> world \<Rightarrow> bool" where
  "tool_logged sha rsv root ids task tid w c w' \<longleftrightarrow>
     (\<exists>ex. executions (wk_db w') = executions (wk_db w) @ [ex] \<and> te_id ex = ti_execution ids \<and>
        te_transaction_id ex = Some tid \<and> te_task_id ex = task) \<and>
     file_changes (wk_db w') = file_changes (wk_db w) @ [c] \<and>
     fc_tool_execution_id c = ti_execution ids \<and> fc_task_id c = task \<and>
     fc_created_at c = ti_now ids \<and> fc_id c = ti_change ids \<and>
     transactions (wk_db w') = transactions (wk_db w) \<and>
     (\<exists>bks. backups (wk_db w') = backups (wk_db w) @ bks) \<and>
     context_le root (context_of root w) (context_of root w') \<and> dirs_ok w' \<and>
     change_effect sha rsv root (context_of root w') c (project_view root w) (project_view root w')"

lemma log_change_simps [simp]:
  "wk_files (log_change ex bks ch w) = wk_files w" "wk_dirs (log_change ex bks ch w) = wk_dirs w"
  "executions (wk_db (log_change ex bks ch w)) = executions (wk_db w) @ [ex]"
  "backups (wk_db (log_change ex bks ch w)) = backups (wk_db w) @ bks"
  "file_changes (wk_db (log_change ex bks ch w)) = file_changes (wk_db w) @ [ch]"
  "transactions (wk_db (log_change ex bks ch w)) = transactions (wk_db w)"
  by (simp_all add: log_change_def)

lemma row_simps [simp]:
  "te_id (execution_row ids t a i n m e) = ti_execution ids"
  "te_transaction_id (execution_row ids t a i n m e) = Some i"
  "te_task_id (execution_row ids t a i n m e) = t"
  "te_action_id (execution_row ids t a i n m e) = a"
  "fc_tool_execution_id (change_row ids t a b k r h h') = ti_execution ids"
  "fc_task_id (change_row ids t a b k r h h') = t" "fc_created_at (change_row ids t a b k r h h') = ti_now ids"
  "fc_id (change_row ids t a b k r h h') = ti_change ids"
  "fc_relative_path (change_row ids t a b k r h h') = r" "fc_change_type (change_row ids t a b k r h h') = k"
  "fc_after_hash (change_row ids t a b k r h h') = h'" "fc_before_hash (change_row ids t a b k r h h') = h"
  "fc_backup_entry_id (change_row ids t a b k r h h') = b"
  "be_id (backup_row ids t p g x f r) = ti_backup ids" "be_original_hash (backup_row ids t p g x f r) = g"
  "be_backup_artifact_ref (backup_row ids t p g x f r) = path_str x"
  by (simp_all add: execution_row_def change_row_def backup_row_def)

lemma prepared_transaction_Some:
  "prepared_transaction tid task d = Some (tx, ref) \<longleftrightarrow>
     get_transaction d tid = Some tx \<and> tx_task_id tx = task \<and> tx_state tx = TransactionState.PREPARED \<and>
     tx_manifest_artifact_ref tx = Some ref"
  by (auto simp: prepared_transaction_def split: option.splits)

lemma canonical_rollback_target:
  assumes "canonical_project_path rel = Inr n" and "prefix root (rsv (root @ path_parts n))"
  shows "rollback_target rsv root n = Inr (rsv (root @ path_parts n))"
  using assms canonical_not_absolute [OF assms(1)] path_parts_canonical [OF canonical_is_canonical [OF assms(1)]]
  by (simp add: rollback_target_def)

lemma create_file_logged:
  assumes "create_file sha rsv root ids task action tid grant rel content revision w = (w', Inr res)"
    and "dirs_ok w"
  shows "\<exists>c. tool_logged sha rsv root ids task tid w c w'"
proof -
  obtain tx ref n where n: "prepared_transaction tid task (wk_db w) = Some (tx, ref)"
      "canonical_project_path rel = Inr n"
    and t: "prefix root (rsv (root @ path_parts n))" "butlast (rsv (root @ path_parts n)) \<in> set (wk_dirs w)"
      "\<not> path_exists w (rsv (root @ path_parts n))"
    and w': "w' = log_change (execution_row ids task action (tx_id tx) ''CREATE_FILE'' (''create file '' @ n)
          (JObj [(''relative_path'', JStr n), (''rollback'', JObj [(''delete_created_file'', JStr n)])])) []
        (change_row ids task action None FileChangeType.CREATE n None (Some (sha content)))
        (w\<lparr>wk_files := Mapping.update (rsv (root @ path_parts n)) content (wk_files w)\<rparr>)"
    using assms(1) by (auto simp: create_file_def Let_def split: option.splits sum.splits if_splits)
  let ?t = "rsv (root @ path_parts n)"
  let ?w1 = "w\<lparr>wk_files := Mapping.update ?t content (wk_files w)\<rparr>"
  have tx: "tx_id tx = tid" using n(1) by (auto simp: prepared_transaction_Some dest: get_row_Some)
  have none: "file_at w ?t = None" "?t \<notin> set (wk_dirs w)" using t(3) by (auto simp: path_exists_def)
  have ctx: "context_of root w' = context_of root w"
    using t(1) by (auto simp: w' context_of_def lookup_update' fun_eq_iff)
  have view: "project_view root w' = (project_view root w)(?t := Some content)"
    using t(1) by (auto simp: w' project_view_def lookup_update')
  have "dirs_ok w'" using assms(2) none(2) t(2) by (auto simp: dirs_ok_def w' lookup_update')
  moreover have "change_effect sha rsv root (context_of root w')
      (change_row ids task action None FileChangeType.CREATE n None (Some (sha content)))
      (project_view root w) (project_view root w')"
    using canonical_rollback_target [where rsv = rsv, OF n(2) t(1)] none t(2) view
    by (auto simp: change_effect_def ctx) (auto simp: context_of_def project_view_def)
  moreover have "context_le root (context_of root w) (context_of root w')" by (simp add: ctx context_le_def)
  ultimately show ?thesis
    unfolding tool_logged_def
    by (intro exI [of _ "change_row ids task action None FileChangeType.CREATE n None (Some (sha content))"])
       (simp add: w' tx)
qed

lemma store_backup_Inr:
  assumes "store_backup a x w = (w1, Inr ())" and "dirs_ok w" and "\<not> prefix root a" and "file_at w a = None"
  shows "wk_db w1 = wk_db w" and "wk_files w1 = Mapping.update a x (wk_files w)" and "dirs_ok w1"
    and "set (wk_dirs w) \<subseteq> set (wk_dirs w1)" and "\<forall>q \<in> set (wk_dirs w1) - set (wk_dirs w). \<not> prefix root q"
    and "a \<notin> set (wk_dirs w1)"
proof -
  let ?new = "filter (\<lambda>q. q \<notin> set (wk_dirs w)) (prefixes (butlast a))"
  have nofile: "\<forall>q \<in> set (prefixes (butlast a)). file_at w q = None"
    and w1: "w1 = w\<lparr>wk_dirs := wk_dirs w @ ?new, wk_files := Mapping.update a x (wk_files w)\<rparr>"
    and a: "a \<notin> set (wk_dirs w @ ?new)" "butlast a \<in> set (wk_dirs w @ ?new)"
    using assms(1) by (auto simp: store_backup_def make_dirs_def write_bytes_def list_ex_iff split: if_splits)
  show "wk_db w1 = wk_db w" "wk_files w1 = Mapping.update a x (wk_files w)"
    "set (wk_dirs w) \<subseteq> set (wk_dirs w1)" "a \<notin> set (wk_dirs w1)"
    using a by (auto simp: w1)
  show "\<forall>q \<in> set (wk_dirs w1) - set (wk_dirs w). \<not> prefix root q"
  proof
    fix q assume "q \<in> set (wk_dirs w1) - set (wk_dirs w)"
    then have "prefix q (butlast a)" by (auto simp: w1)
    then have "prefix q a" using prefix_order.trans prefixeq_butlast by blast
    with assms(3) show "\<not> prefix root q" using prefix_order.trans by blast
  qed
  have closed: "set (prefixes q) \<subseteq> set (wk_dirs w) \<union> set (prefixes (butlast a))"
    if "q \<in> set (wk_dirs w) \<union> set (prefixes (butlast a))" for q
    using that assms(2) by (auto simp: dirs_ok_def dest: prefix_order.trans)
  have dirs: "set (wk_dirs w1) = set (wk_dirs w) \<union> set (prefixes (butlast a))" by (auto simp: w1)
  have files: "file_at w1 p = (if p = a then Some x else file_at w p)" for p by (simp add: w1 lookup_update')
  show "dirs_ok w1"
    unfolding dirs_ok_def dirs files
  proof (intro conjI ballI allI impI)
    fix q assume q: "q \<in> set (wk_dirs w) \<union> set (prefixes (butlast a))"
    have "q \<noteq> a" using a(1) q by auto
    then show "(if q = a then Some x else file_at w q) = None"
      using q nofile assms(2) by (auto simp: dirs_ok_def)
    show "set (prefixes q) \<subseteq> set (wk_dirs w) \<union> set (prefixes (butlast a))" using closed [OF q] .
  next
    fix p assume "(if p = a then Some x else file_at w p) \<noteq> None"
    then show "butlast p \<in> set (wk_dirs w) \<union> set (prefixes (butlast a))"
      using assms(2) by (auto simp: dirs_ok_def split: if_splits)
  qed
qed

text \<open>The backup area of a transaction lies apart from the project.\<close>

definition backups_apart :: "path \<Rightarrow> string \<Rightarrow> bool" where
  "backups_apart root ref \<longleftrightarrow>
     \<not> prefix root (butlast (path_parts ref)) \<and> \<not> prefix (butlast (path_parts ref)) root"

lemma artifact_outside: "backups_apart root ref \<Longrightarrow> \<not> prefix root (artifact_path ref kind rel)"
  unfolding backups_apart_def artifact_path_def by (metis prefixI prefix_same_cases)

lemma context_le_backup:
  assumes "\<not> prefix root a" and "file_at w a = None"
    and "wk_files w' = Mapping.update t y (Mapping.update a x (wk_files w)) \<or>
         wk_files w' = Mapping.delete t (Mapping.update a x (wk_files w))" and "prefix root t"
    and "backups (wk_db w') = backups (wk_db w) @ [b]" and "get_row be_id (be_id b) (backups (wk_db w)) = None"
    and "set (wk_dirs w) \<subseteq> set (wk_dirs w')" and "\<forall>q \<in> set (wk_dirs w') - set (wk_dirs w). \<not> prefix root q"
    and "path_parts (be_backup_artifact_ref b) = a" and "fc_backup_entry_id c = Some (be_id b)"
  shows "context_le root (context_of root w) (context_of root w') \<and>
    backup_of (context_of root w') c = Some (b, x)"
proof -
  have at: "file_at w' p = file_at w p" if "\<not> prefix root p" "p \<noteq> a" for p
    using that assms(3,4) by (auto simp: lookup_update' lookup_delete_if)
  have art: "file_at w' a = Some x" using assms(1,3,4) by (auto simp: lookup_update' lookup_delete_if)
  have keep: "file_at w' p = Some y" if "\<not> prefix root p" "file_at w p = Some y" for p y
    using that at assms(2) by (cases "p = a") auto
  have "context_le root (context_of root w) (context_of root w')"
    using assms(5,7,8) keep
    by (auto simp: context_le_def context_of_def get_row_append split: if_splits)
  moreover have "backup_of (context_of root w') c = Some (b, x)"
    using assms(1,5,6,9,10) art by (simp add: backup_of_def context_of_def get_row_append)
  ultimately show ?thesis ..
qed

lemma delete_file_Inr:
  assumes "delete_file sha rsv root ids task action tid grant rel revision w = (w', Inr res)"
  obtains tx ref n before w1 where "prepared_transaction tid task (wk_db w) = Some (tx, ref)"
    "canonical_project_path rel = Inr n" "wg_allows_write grant n revision"
    "prefix root (rsv (root @ path_parts n))" "file_at w (rsv (root @ path_parts n)) = Some before"
    "rsv (root @ path_parts n) \<notin> set (wk_dirs w)"
    "store_backup (artifact_path ref ''deleted-files'' n) before w = (w1, Inr ())"
    "w' = log_change (execution_row ids task action (tx_id tx) ''DELETE_FILE'' (''delete file '' @ n)
          (JObj [(''relative_path'', JStr n), (''result'', JStr ''deleted'')]))
        [backup_row ids task (tx_project_id tx) (sha before) (artifact_path ref ''deleted-files'' n)
           ''application/octet-stream'' n]
        (change_row ids task action (Some (ti_backup ids)) FileChangeType.DELETE n (Some (sha before)) None)
        (remove_file (rsv (root @ path_parts n)) w1)"
  using assms
  by (auto simp: delete_file_def Let_def split: option.splits sum.splits if_splits prod.splits)

lemma delete_file_logged:
  assumes run: "delete_file sha rsv root ids task action tid grant rel revision w = (w', Inr res)"
    and "dirs_ok w" and "get_row be_id (ti_backup ids) (backups (wk_db w)) = None"
    and tx: "get_transaction (wk_db w) tid = Some tx" "tx_manifest_artifact_ref tx = Some ref" "backups_apart root ref"
    and fresh: "\<forall>n. canonical_project_path rel = Inr n \<longrightarrow> file_at w (artifact_path ref ''deleted-files'' n) = None"
  shows "\<exists>c. tool_logged sha rsv root ids task tid w c w'"
  using run
proof (cases rule: delete_file_Inr)
  case (1 tx' ref' n before w1)
  have same: "tx' = tx" "ref' = ref" "tx_id tx = tid"
    using 1(1) tx get_row_Some [OF tx(1)] by (auto simp: prepared_transaction_Some)
  let ?t = "rsv (root @ path_parts n)" and ?a = "artifact_path ref ''deleted-files'' n"
  let ?c = "change_row ids task action (Some (ti_backup ids)) FileChangeType.DELETE n (Some (sha before)) None"
  let ?b = "backup_row ids task (tx_project_id tx) (sha before) ?a ''application/octet-stream'' n"
  have out: "\<not> prefix root ?a" by (rule artifact_outside [OF tx(3)])
  have none: "file_at w ?a = None" using fresh 1(2) by blast
  note sb = store_backup_Inr [OF 1(7) [unfolded same] assms(2) out none]
  have files: "wk_files w' = Mapping.delete ?t (Mapping.update ?a before (wk_files w))"
    and dirs: "wk_dirs w' = wk_dirs w1" and bks: "backups (wk_db w') = backups (wk_db w) @ [?b]"
    using 1(8) sb(1,2) by (simp_all add: remove_file_def same)
  have ctx: "context_le root (context_of root w) (context_of root w') \<and>
    backup_of (context_of root w') ?c = Some (?b, before)"
    by (rule context_le_backup [OF out none disjI2 [OF files] 1(4) bks])
       (use sb(4,5) assms(3) artifact_round_trip in \<open>simp_all add: dirs\<close>)
  have td: "?t \<notin> set (wk_dirs w')" "butlast ?t \<in> set (wk_dirs w')"
    using sb(4,5) 1(4-6) assms(2) by (auto simp: dirs dirs_ok_def)
  have view: "project_view root w' = (project_view root w)(?t := None)"
    using out by (auto simp: project_view_def files lookup_delete_if lookup_update')
  have "change_effect sha rsv root (context_of root w') ?c (project_view root w) (project_view root w')"
    using canonical_rollback_target [where rsv = rsv, OF 1(2,4)] ctx td view 1(4,5)
    by (auto simp: change_effect_def context_of_def project_view_def)
  moreover have "dirs_ok w'"
    using sb(3) by (auto simp: dirs_ok_def files dirs sb(2) lookup_delete_if split: if_splits)
  ultimately show ?thesis
    unfolding tool_logged_def using ctx 1(8) sb(1)
    by (intro exI [of _ ?c]) (simp add: remove_file_def same)
qed

lemma apply_patch_Inr:
  assumes "apply_patch sha diff rsv root ids task action tid grant patch revision hook crash w = (w', Inr res)"
  obtains tx ref n before after w1 w2 where "prepared_transaction tid task (wk_db w) = Some (tx, ref)"
    "canonical_project_path (sp_relative_path patch) = Inr n" "wg_allows_write grant n revision"
    "prefix root (rsv (root @ path_parts n))" "file_at w (rsv (root @ path_parts n)) = Some before"
    "sha before = sp_expected_sha256 patch" "apply_replacements before (sp_replacements patch) = Inr after"
    "store_backup (artifact_path ref ''files'' n) before w = (w1, Inr ())"
    "write_bytes (temp_path (rsv (root @ path_parts n)) (ti_temp ids)) after w1 = (w2, Inr ())"
    "replace_target sha ids task action tx n (rsv (root @ path_parts n)) (artifact_path ref ''files'' n) (sha before)
       (diff n before after) hook crash w2 = (w', Inr res)"
  using assms
  by (auto simp: apply_patch_def Let_def split: option.splits sum.splits if_splits prod.splits)

lemma temp_path_neq: "temp_path target hex \<noteq> target"
proof
  assume eq: "temp_path target hex = target"
  then have "last (temp_path target hex) = last target" by simp
  then have "length (last (temp_path target hex)) = length (last target)" by simp
  then show False by (simp add: temp_path_def)
qed

lemma apply_patch_logged:
  assumes run: "apply_patch sha diff rsv root ids task action tid grant patch revision None False w = (w', Inr res)"
    and ok: "dirs_ok w" "root \<in> set (wk_dirs w)" and free: "get_row be_id (ti_backup ids) (backups (wk_db w)) = None"
    and tx: "get_transaction (wk_db w) tid = Some tx" "tx_manifest_artifact_ref tx = Some ref" "backups_apart root ref"
    and fresh: "\<forall>n. canonical_project_path (sp_relative_path patch) = Inr n \<longrightarrow>
        file_at w (artifact_path ref ''files'' n) = None \<and>
        file_at w (temp_path (rsv (root @ path_parts n)) (ti_temp ids)) = None"
    and inj: "inj sha"
  shows "\<exists>c. tool_logged sha rsv root ids task tid w c w'"
  using run
proof (cases rule: apply_patch_Inr)
  case (1 tx' ref' n before after w1 w2)
  have same: "tx' = tx" "ref' = ref" "tx_id tx = tid"
    using 1(1) tx get_row_Some [OF tx(1)] by (auto simp: prepared_transaction_Some)
  let ?t = "rsv (root @ path_parts n)" and ?a = "artifact_path ref ''files'' n"
  let ?m = "temp_path ?t (ti_temp ids)"
  let ?c = "change_row ids task action (Some (ti_backup ids)) FileChangeType.MODIFY n (Some (sha before)) (Some (sha after))"
  let ?b = "backup_row ids task (tx_project_id tx) (sha before) ?a ''text/plain'' n"
  have out: "\<not> prefix root ?a" by (rule artifact_outside [OF tx(3)])
  have none: "file_at w ?a = None" "file_at w ?m = None" using fresh 1(2) by blast+
  note sb = store_backup_Inr [OF 1(8) [unfolded same] ok(1) out none(1)]
  have tdir: "?t \<notin> set (wk_dirs w)" "butlast ?t \<in> set (wk_dirs w)" using ok(1) 1(5) by (auto simp: dirs_ok_def)
  have "?t \<noteq> root" using tdir(1) ok(2) by auto
  then obtain z zs where "?t = root @ z # zs" using 1(4) by (auto simp: prefix_def neq_Nil_conv)
  then have pm: "prefix root ?m" by (auto simp: temp_path_def butlast_append prefix_def)
  have neq: "?m \<noteq> ?t" "?m \<noteq> ?a" "?a \<noteq> ?t" using temp_path_neq pm out 1(4) by auto
  have w2: "wk_db w2 = wk_db w" "wk_dirs w2 = wk_dirs w1" "?m \<notin> set (wk_dirs w1)"
      "wk_files w2 = Mapping.update ?m after (Mapping.update ?a before (wk_files w))"
    using 1(9) sb(1,2) by (auto simp: write_bytes_def split: if_splits)
  have at: "file_at w2 ?t = Some before" "file_at w2 ?m = Some after"
    using neq 1(5) by (simp_all add: w2(4) lookup_update')
  have w': "w' = log_change (execution_row ids task action tid ''APPLY_PATCH'' (''apply patch '' @ n)
        (JObj [(''relative_path'', JStr n), (''diff'', JStr (diff n before after))])) [?b] ?c
      (w2\<lparr>wk_files := Mapping.update ?t after (Mapping.delete ?m (wk_files w2))\<rparr>)"
    using 1(10) at by (auto simp: replace_target_def Let_def same)
  have lookup': "file_at w' p = (if p = ?t then Some after else if p = ?a then Some before else file_at w p)" for p
    using neq none by (auto simp: w' w2(4) lookup_update' lookup_delete_if)
  have files: "wk_files w' = Mapping.update ?t after (Mapping.update ?a before (wk_files w))"
    by (rule mapping_eqI) (use lookup' in \<open>simp add: lookup_update'\<close>)
  have dirs: "wk_dirs w' = wk_dirs w1" and bks: "backups (wk_db w') = backups (wk_db w) @ [?b]"
    using w2 by (simp_all add: w')
  have ctx: "context_le root (context_of root w) (context_of root w') \<and>
    backup_of (context_of root w') ?c = Some (?b, before)"
    by (rule context_le_backup [OF out none(1) disjI1 [OF files] 1(4) bks])
       (use sb(4,5) free artifact_round_trip in \<open>simp_all add: dirs\<close>)
  have td: "?t \<notin> set (wk_dirs w')" "butlast ?t \<in> set (wk_dirs w')"
    using sb(4,5) 1(4) tdir by (auto simp: dirs)
  have view: "project_view root w' = (project_view root w)(?t := Some after)"
    using out 1(4) by (auto simp: project_view_def lookup')
  have "change_effect sha rsv root (context_of root w') ?c (project_view root w) (project_view root w')"
    using canonical_rollback_target [where rsv = rsv, OF 1(2,4)] ctx td view 1(4,5) injD [OF inj, of after before]
    by (auto simp: change_effect_def context_of_def project_view_def)
  moreover have "dirs_ok w'"
    using sb(3) td by (auto simp: dirs_ok_def files dirs sb(2) lookup_update' split: if_splits)
  ultimately show ?thesis
    unfolding tool_logged_def using ctx w2(1) by (intro exI [of _ ?c]) (simp add: w')
qed

subsection \<open>A transaction of tool calls and its rollback\<close>

record tool_env =
  tv_sha :: "string \<Rightarrow> string"
  tv_diff :: "string \<Rightarrow> string \<Rightarrow> string \<Rightarrow> string"
  tv_rsv :: "path \<Rightarrow> path"
  tv_root :: path
  tv_task :: string
  tv_action :: string
  tv_transaction :: string
  tv_grant :: write_grant
  tv_revision :: string

datatype tool_call =
    Create_call tool_ids string string
  | Delete_call tool_ids string
  | Patch_call tool_ids StructuredPatch

fun call_ids :: "tool_call \<Rightarrow> tool_ids" where
  "call_ids (Create_call ids _ _) = ids"
| "call_ids (Delete_call ids _) = ids"
| "call_ids (Patch_call ids _) = ids"

text \<open>One call: the next world, if the call succeeds.\<close>

fun tool_exec :: "tool_env \<Rightarrow> tool_call \<Rightarrow> world \<Rightarrow> world option" where
  "tool_exec env (Create_call ids rel content) w =
     (case create_file (tv_sha env) (tv_rsv env) (tv_root env) ids (tv_task env) (tv_action env)
         (tv_transaction env) (tv_grant env) rel content (tv_revision env) w of
        (w', Inr _) \<Rightarrow> Some w' | _ \<Rightarrow> None)"
| "tool_exec env (Delete_call ids rel) w =
     (case delete_file (tv_sha env) (tv_rsv env) (tv_root env) ids (tv_task env) (tv_action env)
         (tv_transaction env) (tv_grant env) rel (tv_revision env) w of
        (w', Inr _) \<Rightarrow> Some w' | _ \<Rightarrow> None)"
| "tool_exec env (Patch_call ids patch) w =
     (case apply_patch (tv_sha env) (tv_diff env) (tv_rsv env) (tv_root env) ids (tv_task env) (tv_action env)
         (tv_transaction env) (tv_grant env) patch (tv_revision env) None False w of
        (w', Inr _) \<Rightarrow> Some w' | _ \<Rightarrow> None)"

text \<open>
  The names a call draws are new and its time is later than every logged change; \<open>first_backup\<close> says that
  the call does not write over the backup of an earlier call.
\<close>

definition fresh_names :: "tool_ids \<Rightarrow> db \<Rightarrow> bool" where
  "fresh_names ids d \<longleftrightarrow> (\<forall>e \<in> set (executions d). te_id e \<noteq> ti_execution ids) \<and>
     (\<forall>b \<in> set (backups d). be_id b \<noteq> ti_backup ids) \<and>
     (\<forall>c \<in> set (file_changes d). fc_created_at c < ti_now ids)"

fun first_backup :: "tool_env \<Rightarrow> string \<Rightarrow> tool_call \<Rightarrow> world \<Rightarrow> bool" where
  "first_backup env ref (Create_call ids rel content) w = True"
| "first_backup env ref (Delete_call ids rel) w =
     (case canonical_project_path rel of Inl _ \<Rightarrow> True
      | Inr n \<Rightarrow> file_at w (artifact_path ref ''deleted-files'' n) = None)"
| "first_backup env ref (Patch_call ids patch) w =
     (case canonical_project_path (sp_relative_path patch) of Inl _ \<Rightarrow> True
      | Inr n \<Rightarrow> file_at w (artifact_path ref ''files'' n) = None \<and>
          file_at w (temp_path (tv_rsv env (tv_root env @ path_parts n)) (ti_temp ids)) = None)"

fun run_tools :: "tool_env \<Rightarrow> string \<Rightarrow> tool_call list \<Rightarrow> world \<Rightarrow> world option" where
  "run_tools env ref [] w = Some w"
| "run_tools env ref (c # cs) w =
     (if fresh_names (call_ids c) (wk_db w) \<and> first_backup env ref c w
      then Option.bind (tool_exec env c w) (run_tools env ref cs) else None)"

definition changes_in_order :: "db \<Rightarrow> bool" where
  "changes_in_order d \<longleftrightarrow> sorted_wrt (<) (map fc_created_at (file_changes d)) \<and>
     (\<forall>c \<in> set (file_changes d). \<exists>e \<in> set (executions d). te_id e = fc_tool_execution_id c)"

text \<open>A world in which a transaction was prepared and no tool has run yet.\<close>

definition transaction_ready :: "tool_env \<Rightarrow> string \<Rightarrow> world \<Rightarrow> bool" where
  "transaction_ready env ref w \<longleftrightarrow>
     (case get_transaction (wk_db w) (tv_transaction env) of
        None \<Rightarrow> False | Some tx \<Rightarrow> tx_manifest_artifact_ref tx = Some ref) \<and>
     backups_apart (tv_root env) ref \<and> dirs_ok w \<and> tv_root env \<in> set (wk_dirs w) \<and> changes_in_order (wk_db w)"

lemma tool_exec_logged:
  assumes "tool_exec env c w = Some w'" and "transaction_ready env ref w"
    and "fresh_names (call_ids c) (wk_db w)" and "first_backup env ref c w" and "inj (tv_sha env)"
  shows "\<exists>ch. tool_logged (tv_sha env) (tv_rsv env) (tv_root env) (call_ids c) (tv_task env)
    (tv_transaction env) w ch w'"
proof -
  obtain tx where tx: "get_transaction (wk_db w) (tv_transaction env) = Some tx"
      "tx_manifest_artifact_ref tx = Some ref" "backups_apart (tv_root env) ref"
    and ok: "dirs_ok w" "tv_root env \<in> set (wk_dirs w)"
    using assms(2) by (auto simp: transaction_ready_def split: option.splits)
  have free: "get_row be_id (ti_backup (call_ids c)) (backups (wk_db w)) = None"
    using assms(3) by (auto simp: fresh_names_def get_row_None_iff)
  show ?thesis
  proof (cases c)
    case (Create_call ids rel content)
    with assms(1) ok(1) show ?thesis
      by (auto split: prod.splits sum.splits intro: create_file_logged)
  next
    case (Delete_call ids rel)
    have fresh: "\<forall>n. canonical_project_path rel = Inr n \<longrightarrow>
        file_at w (artifact_path ref ''deleted-files'' n) = None"
      using assms(4) by (auto simp: Delete_call)
    from Delete_call assms(1) free show ?thesis
      by (auto split: prod.splits sum.splits intro: delete_file_logged [OF _ ok(1) _ tx fresh])
  next
    case (Patch_call ids patch)
    have fresh: "\<forall>n. canonical_project_path (sp_relative_path patch) = Inr n \<longrightarrow>
        file_at w (artifact_path ref ''files'' n) = None \<and>
        file_at w (temp_path (tv_rsv env (tv_root env @ path_parts n)) (ti_temp ids)) = None"
      using assms(4) by (auto simp: Patch_call)
    from Patch_call assms(1) free show ?thesis
      by (auto split: prod.splits sum.splits intro: apply_patch_logged [OF _ ok _ tx fresh assms(5)])
  qed
qed

lemma transaction_changes_step:
  assumes "tool_logged sha rsv root ids task tid w c w'" and "changes_in_order (wk_db w)"
    and "fresh_names ids (wk_db w)"
  shows "transaction_changes task tid (wk_db w') = transaction_changes task tid (wk_db w) @ [c]"
    and "changes_in_order (wk_db w')"
proof -
  obtain ex where ex: "executions (wk_db w') = executions (wk_db w) @ [ex]" "te_id ex = ti_execution ids"
      "te_transaction_id ex = Some tid"
    and fc: "file_changes (wk_db w') = file_changes (wk_db w) @ [c]" "fc_tool_execution_id c = ti_execution ids"
      "fc_task_id c = task" "fc_created_at c = ti_now ids"
    using assms(1) by (auto simp: tool_logged_def)
  let ?key = "\<lambda>c. (fc_created_at c, fc_id c)"
  let ?P = "\<lambda>d c. fc_task_id c = task \<and>
      list_ex (\<lambda>e. te_id e = fc_tool_execution_id c \<and> te_transaction_id e = Some tid) (executions d)"
  have old: "?P (wk_db w') x = ?P (wk_db w) x" if "x \<in> set (file_changes (wk_db w))" for x
    using that assms(2,3) ex by (auto simp: changes_in_order_def fresh_names_def)
  have filt: "filter (?P (wk_db w')) (file_changes (wk_db w')) = filter (?P (wk_db w)) (file_changes (wk_db w)) @ [c]"
    using old fc ex by (simp cong: filter_cong)
  show ord: "changes_in_order (wk_db w')"
    using assms(2,3) fc ex by (auto simp: changes_in_order_def fresh_names_def sorted_wrt_append)
  have key: "sorted (map ?key xs)" if "sorted_wrt (<) (map fc_created_at xs)" for xs
    using that by (induction xs) auto
  have sub: "sorted_wrt (<) (map fc_created_at (filter Q xs))" if "sorted_wrt (<) (map fc_created_at xs)" for Q xs
    using that by (induction xs) auto
  have id: "sort_key ?key (filter Q (file_changes d)) = filter Q (file_changes d)" if "changes_in_order d" for Q d
    using that by (intro sort_key_id_if_sorted key sub) (simp add: changes_in_order_def)
  show "transaction_changes task tid (wk_db w') = transaction_changes task tid (wk_db w) @ [c]"
    unfolding transaction_changes_def id [OF ord] id [OF assms(2)] by (rule filt)
qed

lemma run_tools_logged:
  assumes "run_tools env ref calls w = Some w'" and "transaction_ready env ref w" and "inj (tv_sha env)"
    and "logged (change_effect (tv_sha env) (tv_rsv env) (tv_root env) (context_of (tv_root env) w)) v0
        (transaction_changes (tv_task env) (tv_transaction env) (wk_db w)) (project_view (tv_root env) w)"
  shows "logged (change_effect (tv_sha env) (tv_rsv env) (tv_root env) (context_of (tv_root env) w')) v0
        (transaction_changes (tv_task env) (tv_transaction env) (wk_db w')) (project_view (tv_root env) w') \<and>
    transactions (wk_db w') = transactions (wk_db w) \<and> dirs_ok w'"
  using assms
proof (induction calls arbitrary: w)
  case Nil
  then show ?case by (auto simp: transaction_ready_def)
next
  case (Cons c cs)
  then obtain w1 where w1: "tool_exec env c w = Some w1" "run_tools env ref cs w1 = Some w'"
    and fr: "fresh_names (call_ids c) (wk_db w)" "first_backup env ref c w"
    by (auto simp: bind_eq_Some_conv split: if_splits)
  obtain ch where ch: "tool_logged (tv_sha env) (tv_rsv env) (tv_root env) (call_ids c) (tv_task env)
      (tv_transaction env) w ch w1"
    using tool_exec_logged [OF w1(1) Cons.prems(2) fr Cons.prems(3)] by blast
  have ord: "changes_in_order (wk_db w)" using Cons.prems(2) by (auto simp: transaction_ready_def)
  note step = transaction_changes_step [OF ch ord fr(1)]
  have le: "context_le (tv_root env) (context_of (tv_root env) w) (context_of (tv_root env) w1)"
    and eff: "change_effect (tv_sha env) (tv_rsv env) (tv_root env) (context_of (tv_root env) w1) ch
        (project_view (tv_root env) w) (project_view (tv_root env) w1)"
    and tx: "transactions (wk_db w1) = transactions (wk_db w)" "dirs_ok w1"
    using ch by (auto simp: tool_logged_def)
  have ready: "transaction_ready env ref w1"
    using Cons.prems(2) tx step(2) le by (auto simp: transaction_ready_def context_le_def context_of_def)
  have "logged (change_effect (tv_sha env) (tv_rsv env) (tv_root env) (context_of (tv_root env) w1)) v0
      (transaction_changes (tv_task env) (tv_transaction env) (wk_db w)) (project_view (tv_root env) w)"
    using Cons.prems(4) by (rule logged_mono) (rule change_effect_le [OF le])
  then have "logged (change_effect (tv_sha env) (tv_rsv env) (tv_root env) (context_of (tv_root env) w1)) v0
      (transaction_changes (tv_task env) (tv_transaction env) (wk_db w1)) (project_view (tv_root env) w1)"
    unfolding step(1)
    by (rule logged.logged_snoc [where effect = "change_effect (tv_sha env) (tv_rsv env) (tv_root env)
          (context_of (tv_root env) w1)", OF _ eff])
  with Cons.IH [OF w1(2) ready Cons.prems(3)] tx(1) show ?case by simp
qed

lemma tool_exec_prepared:
  assumes "tool_exec env c w = Some w'"
  shows "\<exists>tx. get_transaction (wk_db w) (tv_transaction env) = Some tx \<and> tx_task_id tx = tv_task env \<and>
    tx_state tx = TransactionState.PREPARED"
proof -
  have "prepared_transaction (tv_transaction env) (tv_task env) (wk_db w) \<noteq> None"
    using assms by (cases c) (auto simp: create_file_def delete_file_def apply_patch_def split: option.splits)
  then show ?thesis by (auto simp: prepared_transaction_Some)
qed

lemma first_by_Some: "x \<in> set xs \<Longrightarrow> \<exists>y. first_by key xs = Some y"
proof -
  assume "x \<in> set xs"
  then have "sort_key key xs \<noteq> []" by (metis empty_iff empty_set set_sort)
  then show ?thesis by (auto simp: first_by_def split: list.splits)
qed

lemma rollback_action_id_ok:
  "\<exists>e \<in> set (executions d). te_task_id e = task \<and> te_transaction_id e = Some tid \<Longrightarrow>
     \<exists>a. rollback_action_id task tid d = Inr a"
proof (elim bexE conjE)
  fix e assume "e \<in> set (executions d)" "te_task_id e = task" "te_transaction_id e = Some tid"
  then have "e \<in> set (filter (\<lambda>e. te_task_id e = task \<and> te_transaction_id e = Some tid) (executions d))" by simp
  from first_by_Some [OF this, of "\<lambda>e. (te_created_at e, te_id e)"] show ?thesis
    by (auto simp: rollback_action_id_def)
qed

lemma run_tools_executions:
  "run_tools env ref calls w = Some w' \<Longrightarrow> transaction_ready env ref w \<Longrightarrow> inj (tv_sha env) \<Longrightarrow>
     set (executions (wk_db w)) \<subseteq> set (executions (wk_db w')) \<and>
     (calls \<noteq> [] \<longrightarrow> (\<exists>e \<in> set (executions (wk_db w')). te_task_id e = tv_task env \<and>
        te_transaction_id e = Some (tv_transaction env)))"
proof (induction calls arbitrary: w)
  case Nil
  then show ?case by simp
next
  case (Cons c cs)
  then obtain w1 where w1: "tool_exec env c w = Some w1" "run_tools env ref cs w1 = Some w'"
    and fr: "fresh_names (call_ids c) (wk_db w)" "first_backup env ref c w"
    by (auto simp: bind_eq_Some_conv split: if_splits)
  obtain ch where ch: "tool_logged (tv_sha env) (tv_rsv env) (tv_root env) (call_ids c) (tv_task env)
      (tv_transaction env) w ch w1"
    using tool_exec_logged [OF w1(1) Cons.prems(2) fr Cons.prems(3)] by blast
  have ord: "changes_in_order (wk_db w)" using Cons.prems(2) by (auto simp: transaction_ready_def)
  have ready: "transaction_ready env ref w1"
    using Cons.prems(2) ch transaction_changes_step(2) [OF ch ord fr(1)]
    by (auto simp: transaction_ready_def tool_logged_def context_le_def context_of_def)
  obtain ex where "executions (wk_db w1) = executions (wk_db w) @ [ex]" "te_task_id ex = tv_task env"
      "te_transaction_id ex = Some (tv_transaction env)"
    using ch by (auto simp: tool_logged_def)
  with Cons.IH [OF w1(2) ready Cons.prems(3)] show ?case by auto
qed

text \<open>
  (C9) Rolling back a transaction restores the project: after any non-empty sequence of successful file
  creations, deletions and patches, none of which wrote over the backup of an earlier one, the rollback
  succeeds, every file of the project is again what it was when the sequence began, no file remains that
  was not there, and the transaction is rolled back.
\<close>

theorem rollback_restores:
  assumes "transaction_ready env ref w" and "inj (tv_sha env)" and "calls \<noteq> []"
    and "transaction_changes (tv_task env) (tv_transaction env) (wk_db w) = []"
    and "run_tools env ref calls w = Some w'"
  shows "\<exists>w'' res tx. rollback (tv_sha env) (tv_rsv env) (tv_root env) ids (tv_task env) (tv_transaction env) w' =
      (w'', Inr res) \<and> rr_rolled_back res \<and>
    project_view (tv_root env) w'' = project_view (tv_root env) w \<and>
    get_transaction (wk_db w'') (tv_transaction env) = Some tx \<and> tx_state tx = TransactionState.ROLLED_BACK"
proof -
  have "\<exists>c w1. tool_exec env c w = Some w1"
    using assms(3,5) by (cases calls) (auto simp: bind_eq_Some_conv split: if_splits)
  then obtain tx where tx: "get_transaction (wk_db w) (tv_transaction env) = Some tx"
      "tx_task_id tx = tv_task env" "tx_state tx = TransactionState.PREPARED"
    using tool_exec_prepared by blast
  have "logged (change_effect (tv_sha env) (tv_rsv env) (tv_root env) (context_of (tv_root env) w))
      (project_view (tv_root env) w) (transaction_changes (tv_task env) (tv_transaction env) (wk_db w))
      (project_view (tv_root env) w)"
    unfolding assms(4) by (rule logged.logged_nil)
  note run = run_tools_logged [OF assms(5,1,2) this]
  obtain aid where aid: "rollback_action_id (tv_task env) (tv_transaction env) (wk_db w') = Inr aid"
    using rollback_action_id_ok run_tools_executions [OF assms(5,1,2)] assms(3) by blast
  have tx': "get_transaction (wk_db w') (tv_transaction env) = Some tx" using tx(1) run by simp
  have "tx_state tx \<noteq> TransactionState.ROLLED_BACK" using tx(3) by simp
  from rollback_of_logged [OF tx' tx(2) this aid] run show ?thesis by fastforce
qed

lemma dirs_ok_keys:
  "dirs_ok w \<longleftrightarrow> (\<forall>q \<in> set (wk_dirs w). file_at w q = None) \<and>
     (\<forall>q \<in> set (wk_dirs w). set (prefixes q) \<subseteq> set (wk_dirs w)) \<and>
     (\<forall>p \<in> Mapping.keys (wk_files w). butlast p \<in> set (wk_dirs w))"
  by (auto simp: dirs_ok_def keys_dom_lookup)

definition sample_env :: tool_env where
  "sample_env = \<lparr>tv_sha = (\<lambda>x. x), tv_diff = (\<lambda>_ _ _. []), tv_rsv = (\<lambda>p. p), tv_root = [''srv'', ''app''],
     tv_task = ''t1'', tv_action = ''a1'', tv_transaction = ''x1'',
     tv_grant = Temporary (sample_grant\<lparr>tg_write_paths := [''.'']\<rparr>), tv_revision = ''r''\<rparr>"

definition sample_ref :: string where
  "sample_ref = ''/srv/.sementor/backups/t1/baseline-manifest.json''"

definition sample_world :: world where
  "sample_world = \<lparr>wk_db = empty_db\<lparr>transactions := [\<lparr>tx_id = ''x1'', tx_task_id = ''t1'', tx_project_id = ''p1'',
       tx_workspace_lock_id = None, tx_state = TransactionState.PREPARED,
       tx_manifest_artifact_ref = Some sample_ref\<rparr>]\<rparr>,
     wk_files = Mapping.update [''srv'', ''app'', ''a.py''] ''one two'' Mapping.empty,
     wk_dirs = [[], [''srv''], [''srv'', ''app'']], wk_manifests = Mapping.empty\<rparr>"

definition sample_ids :: "int \<Rightarrow> string \<Rightarrow> tool_ids" where
  "sample_ids now i = \<lparr>ti_now = now, ti_execution = ''e'' @ i, ti_backup = ''b'' @ i, ti_change = ''c'' @ i, ti_temp = i\<rparr>"

definition sample_patch :: "string \<Rightarrow> string \<Rightarrow> string \<Rightarrow> StructuredPatch" where
  "sample_patch before old new = \<lparr>sp_relative_path = ''a.py'', sp_expected_sha256 = before,
     sp_replacements = [(old, new)]\<rparr>"

definition sample_calls :: "tool_call list" where
  "sample_calls = [Patch_call (sample_ids 1 ''1'') (sample_patch ''one two'' ''one'' ''three''),
     Create_call (sample_ids 2 ''2'') ''b.py'' ''new'', Delete_call (sample_ids 3 ''3'') ''a.py'']"

theorem rollback_restores_witness:
  "\<exists>w' w'' res. run_tools sample_env sample_ref sample_calls sample_world = Some w' \<and>
     rollback (\<lambda>x. x) (\<lambda>p. p) [''srv'', ''app''] (sample_ids 9 ''9'') ''t1'' ''x1'' w' = (w'', Inr res) \<and>
     file_at w'' [''srv'', ''app'', ''a.py''] = Some ''one two''"
proof -
  have ready: "transaction_ready sample_env sample_ref sample_world"
    unfolding transaction_ready_def dirs_ok_keys by code_simp
  have inj: "inj (tv_sha sample_env)" by (simp add: sample_env_def inj_def)
  have ne: "sample_calls \<noteq> []" by (simp add: sample_calls_def)
  have none: "transaction_changes (tv_task sample_env) (tv_transaction sample_env) (wk_db sample_world) = []"
    by code_simp
  have "\<not> Option.is_none (run_tools sample_env sample_ref sample_calls sample_world)" by code_simp
  then obtain w' where w': "run_tools sample_env sample_ref sample_calls sample_world = Some w'"
    by (auto simp: Option.is_none_def)
  from rollback_restores [OF ready inj ne none w', of "sample_ids 9 ''9''"]
  obtain w'' res where r: "rollback (\<lambda>x. x) (\<lambda>p. p) [''srv'', ''app''] (sample_ids 9 ''9'') ''t1'' ''x1'' w' = (w'', Inr res)"
    and v: "project_view [''srv'', ''app''] w'' = project_view [''srv'', ''app''] sample_world"
    by (auto simp: sample_env_def)
  have "file_at w'' [''srv'', ''app'', ''a.py''] = Some ''one two''"
    using fun_cong [OF v, of "[''srv'', ''app'', ''a.py'']"] by (simp add: project_view_def sample_world_def)
  with w' r show ?thesis by blast
qed


subsection \<open>What a tool call can touch\<close>

fun tool_world :: "tool_env \<Rightarrow> tool_call \<Rightarrow> world \<Rightarrow> world" where
  "tool_world env (Create_call ids rel content) w =
     fst (create_file (tv_sha env) (tv_rsv env) (tv_root env) ids (tv_task env) (tv_action env)
         (tv_transaction env) (tv_grant env) rel content (tv_revision env) w)"
| "tool_world env (Delete_call ids rel) w =
     fst (delete_file (tv_sha env) (tv_rsv env) (tv_root env) ids (tv_task env) (tv_action env)
         (tv_transaction env) (tv_grant env) rel (tv_revision env) w)"
| "tool_world env (Patch_call ids patch) w =
     fst (apply_patch (tv_sha env) (tv_diff env) (tv_rsv env) (tv_root env) ids (tv_task env) (tv_action env)
         (tv_transaction env) (tv_grant env) patch (tv_revision env) None False w)"

fun call_path :: "tool_call \<Rightarrow> string" where
  "call_path (Create_call ids rel _) = rel"
| "call_path (Delete_call ids rel) = rel"
| "call_path (Patch_call ids patch) = sp_relative_path patch"

definition call_temp_free :: "tool_env \<Rightarrow> tool_call \<Rightarrow> world \<Rightarrow> bool" where
  "call_temp_free env c w =
     (case canonical_project_path (call_path c) of Inl _ \<Rightarrow> True
      | Inr n \<Rightarrow> file_at w (temp_path (tv_rsv env (tv_root env @ path_parts n)) (ti_temp (call_ids c))) = None)"

lemma write_bytes_at: "write_bytes q x w = (w1, r) \<Longrightarrow> file_at w1 p \<noteq> file_at w p \<Longrightarrow> p = q"
  by (auto simp: write_bytes_def lookup_update' split: if_splits)

lemma store_backup_at: "store_backup a x w = (w1, r) \<Longrightarrow> file_at w1 p \<noteq> file_at w p \<Longrightarrow> p = a"
  by (auto simp: store_backup_def make_dirs_def write_bytes_def lookup_update' split: if_splits)

lemma create_file_touches:
  assumes "file_at (fst (create_file sha rsv root ids task action tid grant rel content revision w)) p \<noteq> file_at w p"
  shows "\<exists>n. canonical_project_path rel = Inr n \<and> wg_allows_write grant n revision \<and>
    p = rsv (root @ path_parts n) \<and> prefix root p"
  using assms
  by (auto simp: create_file_def Let_def lookup_update' split: option.splits sum.splits if_splits)

lemma delete_file_touches:
  assumes "file_at (fst (delete_file sha rsv root ids task action tid grant rel revision w)) p \<noteq> file_at w p"
  shows "(\<exists>n. canonical_project_path rel = Inr n \<and> wg_allows_write grant n revision \<and>
      p = rsv (root @ path_parts n) \<and> prefix root p \<and>
      \<not> isl (snd (delete_file sha rsv root ids task action tid grant rel revision w))) \<or>
    (\<exists>tx ref. prepared_transaction tid task (wk_db w) = Some (tx, ref) \<and> prefix (butlast (path_parts ref)) p)"
  using assms
  by (auto simp: delete_file_def Let_def lookup_update' lookup_delete_if remove_file_def artifact_path_def
      dest: store_backup_at split: option.splits sum.splits if_splits prod.splits)

lemma replace_target_None:
  assumes "file_at w target = Some current" and "sha current = h"
    and "file_at w (temp_path target (ti_temp ids)) = Some new_bytes"
  shows "\<exists>res. snd (replace_target sha ids task action tx rel target artifact h d None False w) = Inr res \<and>
    wk_files (fst (replace_target sha ids task action tx rel target artifact h d None False w)) =
      Mapping.update target new_bytes (Mapping.delete (temp_path target (ti_temp ids)) (wk_files w))"
  using assms by (simp add: replace_target_def Let_def)

lemma apply_patch_touches:
  assumes "file_at (fst (apply_patch sha diff rsv root ids task action tid grant patch revision None False w)) p \<noteq> file_at w p"
    and "\<forall>n. canonical_project_path (sp_relative_path patch) = Inr n \<longrightarrow>
        file_at w (temp_path (rsv (root @ path_parts n)) (ti_temp ids)) = None"
  shows "(\<exists>n. canonical_project_path (sp_relative_path patch) = Inr n \<and> wg_allows_write grant n revision \<and>
      p = rsv (root @ path_parts n) \<and> prefix root p \<and>
      \<not> isl (snd (apply_patch sha diff rsv root ids task action tid grant patch revision None False w))) \<or>
    (\<exists>tx ref. prepared_transaction tid task (wk_db w) = Some (tx, ref) \<and> prefix (butlast (path_parts ref)) p)"
proof (rule ccontr)
  let ?r = "apply_patch sha diff rsv root ids task action tid grant patch revision None False w"
  assume no: "\<not> ?thesis"
  obtain tx ref n before after w1 r1 where n: "prepared_transaction tid task (wk_db w) = Some (tx, ref)"
      "canonical_project_path (sp_relative_path patch) = Inr n" "wg_allows_write grant n revision"
      "prefix root (rsv (root @ path_parts n))" "file_at w (rsv (root @ path_parts n)) = Some before"
      "store_backup (artifact_path ref ''files'' n) before w = (w1, r1)"
    and r: "?r = (case r1 of Inl e \<Rightarrow> (w1, Inl e) | Inr _ \<Rightarrow>
        (case write_bytes (temp_path (rsv (root @ path_parts n)) (ti_temp ids)) after w1 of
           (w2, Inl e) \<Rightarrow> (w2, Inl e)
         | (w2, Inr _) \<Rightarrow> replace_target sha ids task action tx n (rsv (root @ path_parts n))
             (artifact_path ref ''files'' n) (sha before) (diff n before after) None False w2))"
    using assms(1)
    by (auto simp: apply_patch_def Let_def split: option.splits sum.splits if_splits prod.splits)
  let ?t = "rsv (root @ path_parts n)" and ?a = "artifact_path ref ''files'' n"
  let ?m = "temp_path ?t (ti_temp ids)"
  have pa: "p \<noteq> ?a" using no n(1) by (auto simp: artifact_path_def)
  have w1: "file_at w1 p = file_at w p" using store_backup_at [OF n(6), of p] pa by blast
  obtain w2 where w2: "r1 = Inr ()" "write_bytes ?m after w1 = (w2, Inr ())"
    using r assms(1) w1 by (cases r1; cases "write_bytes ?m after w1"; cases "snd (write_bytes ?m after w1)")
      (auto simp: write_bytes_def split: if_splits)
  have f1: "wk_files w1 = Mapping.update ?a before (wk_files w)"
    using n(6) w2(1) by (auto simp: store_backup_def make_dirs_def write_bytes_def split: if_splits)
  have f2: "wk_files w2 = Mapping.update ?m after (Mapping.update ?a before (wk_files w))"
    using w2(2) f1 by (auto simp: write_bytes_def split: if_splits)
  have "file_at w2 ?t = Some before" "file_at w2 ?m = Some after"
    using n(5) temp_path_neq [of ?t] by (simp_all add: f2 lookup_update')
  from replace_target_None [OF this(1) refl this(2), of sha task action tx n ?a "diff n before after"]
  obtain res where "snd ?r = Inr res" "wk_files (fst ?r) = Mapping.update ?t after (Mapping.delete ?m (wk_files w2))"
    using r w2 by auto
  moreover from this have "p = ?t"
    using assms n(2) pa by (auto simp: f2 lookup_update' lookup_delete_if split: if_splits)
  ultimately show False using no n by auto
qed

text \<open>
  (C10) A tool call is confined: whatever its outcome, the only file it can change is the resolved target of
  the canonical path, inside the project root and permitted by the grant at this revision, or a file of
  the transaction's backup area.
\<close>

theorem tool_call_confined:
  assumes "file_at (tool_world env c w) p \<noteq> file_at w p" and "call_temp_free env c w"
  shows "(\<exists>n. canonical_project_path (call_path c) = Inr n \<and>
      wg_allows_write (tv_grant env) n (tv_revision env) \<and>
      p = tv_rsv env (tv_root env @ path_parts n) \<and> prefix (tv_root env) p) \<or>
    (\<exists>tx ref. prepared_transaction (tv_transaction env) (tv_task env) (wk_db w) = Some (tx, ref) \<and>
       prefix (butlast (path_parts ref)) p)"
proof (cases c)
  case (Create_call ids rel content)
  from assms(1) have "\<exists>n. canonical_project_path rel = Inr n \<and> wg_allows_write (tv_grant env) n (tv_revision env) \<and>
    p = tv_rsv env (tv_root env @ path_parts n) \<and> prefix (tv_root env) p"
    unfolding Create_call tool_world.simps by (rule create_file_touches)
  then show ?thesis by (auto simp: Create_call)
next
  case (Delete_call ids rel)
  from assms(1) [unfolded Delete_call tool_world.simps] show ?thesis
    unfolding Delete_call call_path.simps by (auto dest: delete_file_touches)
next
  case (Patch_call ids patch)
  have "\<forall>n. canonical_project_path (sp_relative_path patch) = Inr n \<longrightarrow>
        file_at w (temp_path (tv_rsv env (tv_root env @ path_parts n)) (ti_temp ids)) = None"
    using assms(2) by (auto simp: call_temp_free_def Patch_call)
  from apply_patch_touches [OF assms(1) [unfolded Patch_call tool_world.simps] this] show ?thesis
    unfolding Patch_call call_path.simps by blast
qed

theorem tool_call_confined_witness:
  "\<exists>n. canonical_project_path ''b.py'' = Inr n \<and> [''srv'', ''app'', ''b.py''] = [''srv'', ''app''] @ path_parts n"
proof -
  let ?c = "Create_call (sample_ids 2 ''2'') ''b.py'' ''new''"
  have "file_at (tool_world sample_env ?c sample_world) [''srv'', ''app'', ''b.py''] \<noteq>
      file_at sample_world [''srv'', ''app'', ''b.py'']" by code_simp
  moreover have "call_temp_free sample_env ?c sample_world" by code_simp
  moreover have "\<not> (case prepared_transaction (tv_transaction sample_env) (tv_task sample_env) (wk_db sample_world) of
      None \<Rightarrow> False | Some (tx, ref) \<Rightarrow> prefix (butlast (path_parts ref)) [''srv'', ''app'', ''b.py''])" by code_simp
  ultimately show ?thesis
    using tool_call_confined [of sample_env ?c sample_world "[''srv'', ''app'', ''b.py'']"]
    by (auto simp: sample_env_def)
qed


end
