(* ===== verification/Tools.thy ===== *)
theory Tools
  imports Restoration
begin

section \<open>Tools: the registry, the dispatcher, the shell and validation commands\<close>

text \<open>
  \<^verbatim>\<open>tools/registry.py\<close>, \<^verbatim>\<open>tools/dispatcher.py\<close>, \<^verbatim>\<open>tools/run_validation.py\<close> and
  \<^verbatim>\<open>tools/shell.py\<close>. A handler is a state transformer that may raise; what a handler returns is seen
  through the attributes the dispatcher reads of it. The outcome of a child process is the parameter \<open>proc\<close>.
\<close>

subsection \<open>\<^verbatim>\<open>tools/registry.py\<close>\<close>

record ToolSpec =
  ts_name :: string
  ts_risk :: string
  ts_timeout_seconds :: int

type_synonym ToolRegistry = "(string \<times> ToolSpec) list"

definition registry_register :: "ToolSpec \<Rightarrow> ToolRegistry \<Rightarrow> ToolRegistry" where
  "registry_register spec reg = AList.update (ts_name spec) spec reg"

definition registry_get :: "string \<Rightarrow> ToolRegistry \<Rightarrow> ToolSpec option" where
  "registry_get name reg = map_of reg name"

definition list_specs :: "ToolRegistry \<Rightarrow> ToolSpec list" where
  "list_specs reg = map snd (sort_key fst reg)"

subsection \<open>\<^verbatim>\<open>tools/dispatcher.py\<close>\<close>

text \<open>A returned object: its JSON form (\<^verbatim>\<open>default=str\<close>), its truth value, and the attributes read of it.\<close>

record tool_value =
  va_json :: json
  va_truth :: bool
  va_tool_execution_id :: "string option"
  va_stdout :: "string option"
  va_stderr :: "string option"

datatype dispatch_summary = Plain string | Details json

record ToolDispatchResult =
  dr_status :: ToolStatus
  dr_summary :: dispatch_summary
  dr_error_code :: "string option"
  dr_value :: "tool_value option"
  dr_tool_execution_id :: "string option"

fun execution_status_str :: "ToolExecutionStatus \<Rightarrow> string" where
  "execution_status_str ToolExecutionStatus.RUNNING = ''RUNNING''"
| "execution_status_str ToolExecutionStatus.SUCCEEDED = ''SUCCEEDED''"
| "execution_status_str ToolExecutionStatus.FAILED = ''FAILED''"
| "execution_status_str ToolExecutionStatus.BLOCKED = ''BLOCKED''"
| "execution_status_str ToolExecutionStatus.CANCELLED = ''CANCELLED''"

fun trim_value :: "json \<Rightarrow> json" where
  "trim_value (JStr s) = JStr (take 4000 s)"
| "trim_value (JObj kvs) = JObj (map (\<lambda>kv. (fst kv, trim_value (snd kv))) kvs)"
| "trim_value (JList xs) = JList (take 20 (map trim_value xs))"
| "trim_value v = v"

definition evidence_payload :: "string \<Rightarrow> json \<Rightarrow> ToolExecutionStatus \<Rightarrow> json option \<Rightarrow> json" where
  "evidence_payload tool_name parameters status value =
     JObj ([(''parameters'', parameters)] @
       (case value of None \<Rightarrow> [] | Some v \<Rightarrow> [(''result'', trim_value v)]) @
       [(''status'', JStr (execution_status_str status)), (''tool_name'', JStr tool_name)])"

definition policy_error_code :: "string \<Rightarrow> string" where
  "policy_error_code reason =
     (if reason = ''inactive_policy'' then ''POLICY_MISSING''
      else if reason = ''grant_mismatch'' then ''POLICY_GRANT_MISMATCH''
      else if reason = ''orchestrator_denied'' then ''POLICY_ORCHESTRATOR_DENIED''
      else if reason = ''outside_policy'' then ''POLICY_DENIED_WRITE_PATH''
      else ''POLICY_DENIED'')"

definition dispatch_record ::
    "int \<Rightarrow> string \<Rightarrow> string \<Rightarrow> string \<Rightarrow> string \<Rightarrow> json \<Rightarrow> ToolExecutionStatus \<Rightarrow> json option \<Rightarrow> ToolExecution" where
  "dispatch_record now new_id task_id action_id tool_name parameters status value =
     \<lparr>te_id = new_id, te_task_id = task_id, te_action_id = action_id, te_transaction_id = None,
      te_tool_name = tool_name, te_command_summary = tool_name, te_status = status, te_exit_code = None,
      te_evidence_json = JText (evidence_payload tool_name parameters status value), te_created_at = now\<rparr>"

definition failure_summary :: "string \<Rightarrow> ToolExecution \<Rightarrow> tool_value option \<Rightarrow> json" where
  "failure_summary tool_name ex value =
     (let stream = (\<lambda>name v. case v of None \<Rightarrow> [] | Some t \<Rightarrow> if t = [] then [] else [(name, JStr (take 1000 t))])
      in JObj ([(''exit_code'', (case te_exit_code ex of None \<Rightarrow> JNull | Some c \<Rightarrow> JInt c)),
           (''status'', JStr (execution_status_str (te_status ex)))] @
          stream ''stderr'' (Option.bind value va_stderr) @ stream ''stdout'' (Option.bind value va_stdout) @
          [(''tool_name'', JStr tool_name)]))"

definition coerce_tool_execution :: "tool_value option \<Rightarrow> db \<Rightarrow> ToolExecution option" where
  "coerce_tool_execution value d =
     (case Option.bind value va_tool_execution_id of
        None \<Rightarrow> None
      | Some i \<Rightarrow> get_row te_id i (executions d))"

definition add_execution :: "ToolExecution \<Rightarrow> db \<Rightarrow> db" where
  "add_execution ex d = d\<lparr>executions := executions d @ [ex]\<rparr>"

definition dispatch_tool ::
    "int \<Rightarrow> string \<Rightarrow> ToolRegistry \<Rightarrow> string \<Rightarrow> string \<Rightarrow> string \<Rightarrow> json \<Rightarrow> (db \<Rightarrow> bool) \<Rightarrow> (db \<Rightarrow> string) option \<Rightarrow>
     (db \<times> 'x \<Rightarrow> (db \<times> 'x) \<times> tool_value option result) \<Rightarrow> db \<times> 'x \<Rightarrow> (db \<times> 'x) \<times> ToolDispatchResult" where
  "dispatch_tool now new_id reg task_id action_id tool_name parameters enforcer enforcement_reason handler st =
     (let d = fst st; x = snd st;
          row = dispatch_record now new_id task_id action_id tool_name parameters;
          outcome = (\<lambda>status summary code value i. \<lparr>dr_status = status, dr_summary = summary,
            dr_error_code = code, dr_value = value, dr_tool_execution_id = Some i\<rparr>)
      in case registry_get tool_name reg of
           None \<Rightarrow>
             ((add_execution (row ToolExecutionStatus.BLOCKED None) d, x),
              outcome ToolStatus.BLOCKED (Plain ''unregistered tool'') (Some ''UNREGISTERED_TOOL'') None new_id)
         | Some spec \<Rightarrow>
             if \<not> enforcer d then
               let reason = (case enforcement_reason of None \<Rightarrow> ''policy_denied'' | Some f \<Rightarrow> f d)
               in ((add_execution (row ToolExecutionStatus.BLOCKED
                      (Some (JObj [(''policy_reason'', JStr reason)]))) d, x),
                   outcome ToolStatus.BLOCKED (Plain (''policy denied: '' @ reason))
                     (Some (policy_error_code reason)) None new_id)
             else
               (case handler (d, x) of
                  ((d1, x1), Inl e) \<Rightarrow>
                    ((add_execution (row ToolExecutionStatus.FAILED None) d1, x1),
                     outcome ToolStatus.ERROR (Plain (err_message e)) (Some ''TOOL_EXCEPTION'') None new_id)
                | ((d1, x1), Inr value) \<Rightarrow>
                    (let (d2, ex) = (case coerce_tool_execution value d1 of
                           Some ex \<Rightarrow> (d1, ex)
                         | None \<Rightarrow>
                             let ex = row ToolExecutionStatus.SUCCEEDED (map_option va_json value)
                             in (add_execution ex d1, ex))
                     in if te_status ex \<noteq> ToolExecutionStatus.SUCCEEDED
                        then ((d2, x1), outcome ToolStatus.ERROR (Details (failure_summary tool_name ex value))
                               (Some ''TOOL_FAILED'') value (te_id ex))
                        else ((d2, x1), outcome ToolStatus.OK (Plain (tool_name @ '' completed'')) None value (te_id ex)))))"

subsection \<open>\<^verbatim>\<open>tools/run_validation.py\<close>\<close>

record ValidationCommand =
  vc_check_name :: string
  vc_program :: string
  vc_args :: "string list"
  vc_required :: bool

definition command_for_check :: "string \<Rightarrow> ValidationCommand" where
  "command_for_check check_name =
     (let cmd = (\<lambda>program args. \<lparr>vc_check_name = check_name, vc_program = program, vc_args = args,
            vc_required = True\<rparr>)
      in if check_name = ''unit'' then cmd ''pytest'' [''-q'']
         else if check_name = ''contract'' then cmd ''pytest'' [''backend/tests/contracts'', ''-q'']
         else if startswith check_name ''migration'' then cmd ''alembic'' [''heads'']
         else cmd check_name [])"

subsection \<open>\<^verbatim>\<open>tools/shell.py\<close>\<close>

definition SHELL_PROGRAMS :: "string list" where
  "SHELL_PROGRAMS = [''cmd'', ''powershell'', ''pwsh'', ''bash'', ''sh'']"

definition APPROVAL_REQUIRED_PROGRAMS :: "string list" where
  "APPROVAL_REQUIRED_PROGRAMS = [''pip'', ''pip3'', ''npm'', ''pnpm'', ''yarn'']"

record ShellResult =
  sh_exit_code :: "int option"
  sh_stdout :: string
  sh_stderr :: string
  sh_timed_out :: bool
  sh_truncated :: bool
  sh_tool_execution_id :: "string option"

text \<open>What \<^verbatim>\<open>subprocess.run\<close> may do: not find the program, time out with partial output, complete.\<close>

datatype proc_outcome = Program_missing | Timed_out string string | Completed int string string

definition truncate :: "string \<Rightarrow> string \<Rightarrow> nat \<Rightarrow> string \<times> string \<times> bool" where
  "truncate stdout stderr max_chars =
     (if length stdout + length stderr \<le> max_chars then (stdout, stderr, False)
      else
        let stdout_budget = max_chars div 2; stderr_budget = max_chars - stdout_budget
        in (take stdout_budget stdout, take stderr_budget stderr, True))"

fun wg_commands :: "write_grant \<Rightarrow> string list" where
  "wg_commands (Temporary g) = tg_commands g"
| "wg_commands (Authorization a) = ea_commands a"

definition shell_record ::
    "int \<Rightarrow> string \<Rightarrow> string option \<Rightarrow> string \<Rightarrow> string \<Rightarrow> string \<Rightarrow> string list \<Rightarrow> ShellResult \<Rightarrow> ToolExecution" where
  "shell_record now new_id transaction_id task_id action_id program args res =
     \<lparr>te_id = new_id, te_task_id = task_id, te_action_id = action_id, te_transaction_id = transaction_id,
      te_tool_name = ''RUN_COMMAND'', te_command_summary = program,
      te_status = (if sh_timed_out res then ToolExecutionStatus.CANCELLED
        else if sh_exit_code res = Some 0 then ToolExecutionStatus.SUCCEEDED else ToolExecutionStatus.FAILED),
      te_exit_code = sh_exit_code res,
      te_evidence_json = JText (JObj [(''args'', JList (map JStr args)), (''program'', JStr program),
        (''timed_out'', JBool (sh_timed_out res)), (''truncated'', JBool (sh_truncated res))]),
      te_created_at = now\<rparr>"

definition shell_result :: "nat \<Rightarrow> string \<Rightarrow> proc_outcome \<Rightarrow> ShellResult" where
  "shell_result max_chars program outcome =
     (let res = (\<lambda>code out err timed trunc. \<lparr>sh_exit_code = code, sh_stdout = out, sh_stderr = err,
            sh_timed_out = timed, sh_truncated = trunc, sh_tool_execution_id = None\<rparr>)
      in case outcome of
           Program_missing \<Rightarrow> res None [] (''program not found: '' @ program) False False
         | Timed_out stdout stderr \<Rightarrow>
             (case truncate stdout stderr max_chars of (out, err, trunc) \<Rightarrow> res None out err True trunc)
         | Completed code stdout stderr \<Rightarrow>
             (case truncate stdout stderr max_chars of (out, err, trunc) \<Rightarrow> res (Some code) out err False trunc))"

definition shell_run ::
    "(path \<Rightarrow> path) \<Rightarrow> path \<Rightarrow> (string \<times> string) list \<Rightarrow> nat \<Rightarrow>
     (string list \<Rightarrow> path \<Rightarrow> (string \<times> string) list \<Rightarrow> proc_outcome) \<Rightarrow> int \<Rightarrow> string \<Rightarrow> string \<Rightarrow> string \<Rightarrow>
     string option \<Rightarrow> write_grant \<Rightarrow> string \<Rightarrow> string list \<Rightarrow> string \<Rightarrow> string \<Rightarrow> db \<Rightarrow> ShellResult action_result" where
  "shell_run rsv root parent_env max_output_chars proc now new_id task_id action_id transaction_id grant program
       args cwd revision d =
     (let fail = (\<lambda>m. (d, Inl (ShellToolError m)))
      in if (case transaction_id of None \<Rightarrow> False | Some t \<Rightarrow> prepared_transaction t task_id d = None)
         then fail ''prepared transaction required''
         else
           let cwd_path = rsv (if is_absolute cwd then path_parts cwd else root @ path_parts cwd);
               program_name = lower (path_name program)
           in if \<not> prefix root cwd_path then fail ''cwd escape''
              else if program_name \<in> set SHELL_PROGRAMS \<or> list_ex (\<lambda>a. lower a \<in> {''-lc'', ''/c''}) args
              then fail ''command injection blocked''
              else if program_name \<in> set APPROVAL_REQUIRED_PROGRAMS \<and> ''install'' \<in> set (map lower args)
              then fail ''approval required command''
              else if ''RUN_COMMAND'' \<notin> set (wg_commands grant) \<and> program \<notin> set (wg_commands grant)
              then fail ''command not granted''
              else
                let res = shell_result max_output_chars program
                      (proc (program # args) cwd_path (build_child_env DEFAULT_CHILD_ENV_ALLOWLIST parent_env))
                in (add_execution (shell_record now new_id transaction_id task_id action_id program args res) d,
                    Inr (res\<lparr>sh_tool_execution_id := Some new_id\<rparr>)))"

subsection \<open>What the dispatcher guarantees\<close>

lemma dispatch_record_simps [simp]:
  "te_id (dispatch_record now i task act name ps status v) = i"
  "te_status (dispatch_record now i task act name ps status v) = status"
  by (simp_all add: dispatch_record_def)

lemma executions_add_execution [simp]: "executions (add_execution ex d) = executions d @ [ex]"
  by (simp add: add_execution_def)

text \<open>The four ways through \<^verbatim>\<open>ToolDispatcher.dispatch\<close>: unregistered, refused, raised, returned.\<close>

lemma dispatch_tool_cases:
  obtains (blocked) v res where "registry_get name reg = None \<or> \<not> enforcer d"
      "dispatch_tool now i reg task act name ps enforcer reason handler (d, x) =
        ((add_execution (dispatch_record now i task act name ps ToolExecutionStatus.BLOCKED v) d, x), res)"
      "dr_status res = ToolStatus.BLOCKED" "dr_tool_execution_id res = Some i" "dr_value res = None"
  | (raised) d1 x1 e res where "registry_get name reg \<noteq> None" "enforcer d"
      "handler (d, x) = ((d1, x1), Inl e)"
      "dispatch_tool now i reg task act name ps enforcer reason handler (d, x) =
        ((add_execution (dispatch_record now i task act name ps ToolExecutionStatus.FAILED None) d1, x1), res)"
      "dr_status res = ToolStatus.ERROR" "dr_tool_execution_id res = Some i" "dr_value res = None"
  | (returned) d1 x1 v d2 ex res where "registry_get name reg \<noteq> None" "enforcer d"
      "handler (d, x) = ((d1, x1), Inr v)"
      "dispatch_tool now i reg task act name ps enforcer reason handler (d, x) = ((d2, x1), res)"
      "coerce_tool_execution v d1 = Some ex \<and> d2 = d1 \<or>
       coerce_tool_execution v d1 = None \<and> d2 = add_execution ex d1 \<and>
         ex = dispatch_record now i task act name ps ToolExecutionStatus.SUCCEEDED (map_option va_json v)"
      "dr_status res = (if te_status ex = ToolExecutionStatus.SUCCEEDED then ToolStatus.OK else ToolStatus.ERROR)"
      "dr_tool_execution_id res = Some (te_id ex)" "dr_value res = v"
proof (cases "registry_get name reg = None \<or> \<not> enforcer d")
  case True
  then show thesis
    using blocked by (cases "registry_get name reg") (auto simp: dispatch_tool_def Let_def)
next
  case False
  then obtain spec where reg: "registry_get name reg = Some spec" and ok: "enforcer d" by auto
  obtain d1 x1 r where h: "handler (d, x) = ((d1, x1), r)" by (metis prod.collapse)
  show thesis
  proof (cases r)
    case (Inl e)
    then show thesis using raised [of d1 x1 e] reg ok h by (simp add: dispatch_tool_def Let_def)
  next
    case (Inr v)
    show thesis
    proof (cases "coerce_tool_execution v d1")
      case None
      then show thesis
        using returned [of d1 x1 v _ _ "dispatch_record now i task act name ps ToolExecutionStatus.SUCCEEDED
            (map_option va_json v)"] Inr reg ok h by (simp add: dispatch_tool_def Let_def)
    next
      case (Some ex)
      then show thesis
        using returned [of d1 x1 v _ _ ex] Inr reg ok h
        by (cases "te_status ex = ToolExecutionStatus.SUCCEEDED") (simp_all add: dispatch_tool_def Let_def)
    qed
  qed
qed

lemma coerce_tool_execution_Some:
  "coerce_tool_execution v d = Some ex \<Longrightarrow> ex \<in> set (executions d)"
  by (auto simp: coerce_tool_execution_def dest: get_row_Some split: option.splits)

text \<open>
  (C25) Every dispatch is accounted for: the result names an execution row of the resulting database, and the
  result is OK exactly when that row succeeded. A dispatch is blocked exactly when the tool is not registered
  or the enforcer refuses, and then the handler has not run: one blocked row is all that changed.
\<close>

theorem dispatch_tool_accounted:
  assumes run: "dispatch_tool now i reg task act name ps enforcer reason handler (d, x) = ((d', x'), res)"
  shows "\<exists>ex. ex \<in> set (executions d') \<and> dr_tool_execution_id res = Some (te_id ex) \<and>
      (dr_status res = ToolStatus.OK \<longleftrightarrow> te_status ex = ToolExecutionStatus.SUCCEEDED) \<and>
      (dr_status res = ToolStatus.BLOCKED \<longleftrightarrow> registry_get name reg = None \<or> \<not> enforcer d) \<and>
      (dr_status res = ToolStatus.BLOCKED \<longrightarrow> d' = add_execution ex d \<and> x' = x \<and> dr_value res = None \<and>
         te_id ex = i \<and> te_status ex = ToolExecutionStatus.BLOCKED) \<and>
      (dr_status res \<noteq> ToolStatus.BLOCKED \<longrightarrow> x' = snd (fst (handler (d, x))))"
proof (cases rule: dispatch_tool_cases [where now = now and i = i and reg = reg and task = task and act = act
      and name = name and ps = ps and enforcer = enforcer and reason = reason and handler = handler
      and d = d and x = x])
  case (blocked v res0)
  then show ?thesis
    using run by (intro exI [of _ "dispatch_record now i task act name ps ToolExecutionStatus.BLOCKED v"]) auto
next
  case (raised d1 x1 e res0)
  then show ?thesis
    using run by (intro exI [of _ "dispatch_record now i task act name ps ToolExecutionStatus.FAILED None"]) auto
next
  case (returned d1 x1 v d2 ex res0)
  then have "ex \<in> set (executions d')"
    using run by (auto dest: coerce_tool_execution_Some)
  then show ?thesis using returned run by (intro exI [of _ ex]) (auto split: if_splits)
qed

definition sample_registry :: ToolRegistry where
  "sample_registry = registry_register \<lparr>ts_name = ''READ_FILE'', ts_risk = ''LOW'', ts_timeout_seconds = 30\<rparr> []"

theorem dispatch_tool_accounted_witness:
  "dr_status (snd (dispatch_tool 5 ''e1'' sample_registry ''t1'' ''a1'' ''DELETE_FILE'' JNull (\<lambda>_. True) None
       (\<lambda>s. (s, Inr None)) (empty_db, ''quiet''))) = ToolStatus.BLOCKED"
proof -
  obtain d' x' res where run: "dispatch_tool 5 ''e1'' sample_registry ''t1'' ''a1'' ''DELETE_FILE'' JNull
      (\<lambda>_. True) None (\<lambda>s. (s, Inr None)) (empty_db, ''quiet'') = ((d', x'), res)"
    by (metis prod.collapse)
  have "registry_get ''DELETE_FILE'' sample_registry = None" by code_simp
  then have "dr_status res = ToolStatus.BLOCKED" using dispatch_tool_accounted [OF run] by auto
  with run show ?thesis by simp
qed

subsection \<open>What the shell guarantees\<close>

lemma truncate_bound:
  "truncate a b n = (a', b', t) \<Longrightarrow> length a' + length b' \<le> n \<and> prefix a' a \<and> prefix b' b \<and>
     (t \<longleftrightarrow> n < length a + length b)"
  by (auto simp: truncate_def Let_def take_is_prefix split: if_splits)

lemma shell_result_bound:
  "outcome \<noteq> Program_missing \<Longrightarrow>
   length (sh_stdout (shell_result n p outcome)) + length (sh_stderr (shell_result n p outcome)) \<le> n"
  by (cases outcome) (auto simp: shell_result_def Let_def dest: truncate_bound split: prod.splits)

text \<open>The conditions under which \<^verbatim>\<open>ShellTool.run\<close> starts a process.\<close>

definition shell_admits ::
    "(path \<Rightarrow> path) \<Rightarrow> path \<Rightarrow> string \<Rightarrow> string option \<Rightarrow> string list \<Rightarrow> string \<Rightarrow> string list \<Rightarrow> string \<Rightarrow> db \<Rightarrow> bool" where
  "shell_admits rsv root task_id transaction_id commands program args cwd d \<longleftrightarrow>
     (\<forall>t\<in>set_option transaction_id. prepared_transaction t task_id d \<noteq> None) \<and>
     prefix root (rsv (if is_absolute cwd then path_parts cwd else root @ path_parts cwd)) \<and>
     lower (path_name program) \<notin> set SHELL_PROGRAMS \<and> {''-lc'', ''/c''} \<inter> lower ` set args = {} \<and>
     \<not> (lower (path_name program) \<in> set APPROVAL_REQUIRED_PROGRAMS \<and> ''install'' \<in> lower ` set args) \<and>
     (''RUN_COMMAND'' \<in> set commands \<or> program \<in> set commands)"

lemma list_ex_lower: "list_ex (\<lambda>a. lower a \<in> S) args \<longleftrightarrow> S \<inter> lower ` set args \<noteq> {}"
  by (auto simp: list_ex_iff)

lemma shell_run_refused:
  assumes "\<not> shell_admits rsv root task_id tid (wg_commands grant) program args cwd d"
  shows "\<exists>m. shell_run rsv root env n proc now i task_id act tid grant program args cwd revision d =
    (d, Inl (ShellToolError m))"
  using assms unfolding shell_run_def shell_admits_def Let_def list_ex_lower
  by (cases tid) auto

lemma shell_run_admitted:
  assumes "shell_admits rsv root task_id tid (wg_commands grant) program args cwd d"
  shows "shell_run rsv root env n proc now i task_id act tid grant program args cwd revision d =
    (let res = shell_result n program (proc (program # args)
           (rsv (if is_absolute cwd then path_parts cwd else root @ path_parts cwd))
           (build_child_env DEFAULT_CHILD_ENV_ALLOWLIST env))
     in (add_execution (shell_record now i tid task_id act program args res) d,
         Inr (res\<lparr>sh_tool_execution_id := Some i\<rparr>)))"
  using assms unfolding shell_run_def shell_admits_def Let_def list_ex_lower
  by (cases tid) auto

lemma shell_run_cases:
  obtains (refused) m where
      "\<not> shell_admits rsv root task_id transaction_id (wg_commands grant) program args cwd d"
      "shell_run rsv root env n proc now i task_id act transaction_id grant program args cwd revision d =
         (d, Inl (ShellToolError m))"
  | (ran) cwd_path res where
      "shell_admits rsv root task_id transaction_id (wg_commands grant) program args cwd d"
      "cwd_path = rsv (if is_absolute cwd then path_parts cwd else root @ path_parts cwd)"
      "res = shell_result n program (proc (program # args) cwd_path (build_child_env DEFAULT_CHILD_ENV_ALLOWLIST env))"
      "shell_run rsv root env n proc now i task_id act transaction_id grant program args cwd revision d =
         (add_execution (shell_record now i transaction_id task_id act program args res) d,
          Inr (res\<lparr>sh_tool_execution_id := Some i\<rparr>))"
  using shell_run_refused shell_run_admitted by (metis (no_types, lifting))

text \<open>
  \<^verbatim>\<open>ShellTool.run\<close> starts a process exactly under its conditions: a prepared transaction of the task if one is
  named, a working directory inside the project, no shell and no inline command string, no package install, and
  a program the grant names. It then records one execution with the exit code and returns no more output than its
  limit, except for its own message when the program is missing; otherwise it raises and records nothing.
\<close>

theorem shell_run_guarded:
  assumes run: "shell_run rsv root env n proc now i task act tid grant program args cwd revision d = (d', r)"
  shows "(shell_admits rsv root task tid (wg_commands grant) program args cwd d \<longleftrightarrow> \<not> isl r) \<and>
    (isl r \<longrightarrow> d' = d) \<and>
    (\<forall>res. r = Inr res \<longrightarrow>
       (\<exists>ex. d' = add_execution ex d \<and> te_id ex = i \<and> te_exit_code ex = sh_exit_code res \<and>
          (te_status ex = ToolExecutionStatus.SUCCEEDED \<longleftrightarrow> sh_exit_code res = Some 0)) \<and>
       (length (sh_stdout res) + length (sh_stderr res) \<le> n \<or>
        sh_stdout res = [] \<and> sh_stderr res = ''program not found: '' @ program))"
proof (cases rule: shell_run_cases [where rsv = rsv and root = root and task_id = task and transaction_id = tid
      and grant = grant and program = program and args = args and cwd = cwd and d = d and env = env and n = n
      and proc = proc and now = now and i = i and act = act and revision = revision])
  case (refused m)
  then show ?thesis using run by auto
next
  case (ran cwd_path res)
  define oc where "oc = proc (program # args) cwd_path (build_child_env DEFAULT_CHILD_ENV_ALLOWLIST env)"
  have timed: "sh_timed_out res \<Longrightarrow> sh_exit_code res = None"
    using ran(3) by (cases oc) (auto simp: oc_def [symmetric] shell_result_def Let_def split: prod.splits)
  have bound: "length (sh_stdout res) + length (sh_stderr res) \<le> n \<or>
      sh_stdout res = [] \<and> sh_stderr res = ''program not found: '' @ program"
    using ran(3) shell_result_bound [of oc n program]
    by (cases oc) (auto simp: oc_def [symmetric] shell_result_def Let_def)
  have ex: "te_exit_code (shell_record now i tid task act program args res) = sh_exit_code res"
    "te_id (shell_record now i tid task act program args res) = i"
    "te_status (shell_record now i tid task act program args res) = ToolExecutionStatus.SUCCEEDED \<longleftrightarrow>
       sh_exit_code res = Some 0"
    using timed by (auto simp: shell_record_def)
  show ?thesis using run ran(1,4) bound ex by (auto intro!: exI)
qed

definition sample_shell :: "write_grant \<Rightarrow> string \<Rightarrow> ShellResult action_result" where
  "sample_shell g revision = shell_run (\<lambda>p. p) [''srv'', ''app''] [] 8 (\<lambda>_ _ _. Completed 0 ''ten passed'' []) 5 ''e1''
     ''t1'' ''a1'' None g ''pytest'' [''-q''] ''src'' revision empty_db"

theorem shell_run_guarded_witness:
  "\<exists>ex. fst (sample_shell (Temporary (sample_grant\<lparr>tg_commands := [''pytest'']\<rparr>)) ''r'') = add_execution ex empty_db \<and>
     te_status ex = ToolExecutionStatus.SUCCEEDED"
proof -
  let ?g = "Temporary (sample_grant\<lparr>tg_commands := [''pytest'']\<rparr>)"
  obtain d' r where run: "sample_shell ?g ''r'' = (d', r)" by (metis prod.collapse)
  have "map_sum id sh_exit_code (snd (sample_shell ?g ''r'')) = Inr (Some 0)" by code_simp
  then obtain res where res: "r = Inr res" "sh_exit_code res = Some 0" using run by (cases r) auto
  show ?thesis
    using shell_run_guarded [OF run [unfolded sample_shell_def]] res run by auto
qed

text \<open>
  The shell does not look at the revision and the revocation of its grant: where the enforcer refuses every
  write under a revoked grant or another revision, the same grant still runs commands.
\<close>

theorem shell_ignores_revocation:
  "\<not> wg_allows_write (Temporary (g\<lparr>tg_revoked := True\<rparr>)) path revision' \<and>
   shell_run rsv root env n proc now i task act tid (Temporary (g\<lparr>tg_revoked := True\<rparr>)) program args cwd revision' d =
   shell_run rsv root env n proc now i task act tid (Temporary g) program args cwd revision d"
proof -
  have same: "tg_commands (g\<lparr>tg_revoked := True\<rparr>) = tg_commands g" by simp
  have "\<not> wg_allows_write (Temporary (g\<lparr>tg_revoked := True\<rparr>)) path revision'" by (simp add: grant_allows_write_def)
  moreover have "shell_run rsv root env n proc now i task act tid (Temporary (g\<lparr>tg_revoked := True\<rparr>)) program args
      cwd revision' d = shell_run rsv root env n proc now i task act tid (Temporary g) program args cwd revision d"
    unfolding shell_run_def wg_commands.simps same ..
  ultimately show ?thesis ..
qed

end
