(* ===== verification/Validation.thy ===== *)
theory Validation
  imports Tools
begin

section \<open>Validation: planning, running and judging checks\<close>

text \<open>
  \<^verbatim>\<open>validation/planner.py\<close>, \<^verbatim>\<open>validation/executor.py\<close>, \<^verbatim>\<open>validation/evasion.py\<close>,
  \<^verbatim>\<open>validation/flaky.py\<close> and \<^verbatim>\<open>validation/failure_classifier.py\<close>. The injected runner of the executor is
  the parameter \<open>runner\<close> (what the call for the check at a position of the plan gives, an exception
  included); decoding a tool's output as JSON is the parameter \<open>loads\<close>. Confidences are percentages.
\<close>

subsection \<open>\<^verbatim>\<open>validation/planner.py\<close>\<close>

record ImpactValidationInput =
  iv_changed_paths :: "string list"
  iv_toolchain_frameworks :: "string list"

definition path_checks :: "string \<Rightarrow> string list" where
  "path_checks path =
     (let lowered = lower path
      in (if py_in ''/api/'' lowered \<or> endswith lowered ''api.py'' then [''contract''] else []) @
         (if py_in ''migration'' lowered \<or> py_in ''schema'' lowered
          then [''migration-empty-db'', ''migration-existing-db''] else []) @
         (if py_in ''test'' lowered \<or> py_in ''validation'' lowered then [''validation-integrity''] else []))"

definition checks_for :: "ImpactValidationInput \<Rightarrow> string list \<times> string list" where
  "checks_for impact =
     (let pytest = ''pytest'' \<in> set (iv_toolchain_frameworks impact)
      in (sorted_set ((if pytest then [''unit''] else []) @ concat (map path_checks (iv_changed_paths impact))),
          if pytest then [] else [''python test framework unavailable'']))"

definition next_plan_version :: "string \<Rightarrow> string \<Rightarrow> db \<Rightarrow> int" where
  "next_plan_version proposal_id execution_policy_id d =
     max_or_0 (map vp_version (filter (\<lambda>p. vp_proposal_id p = proposal_id \<and>
       vp_execution_policy_id p = execution_policy_id) (validation_plans d))) + 1"

definition plan_validation ::
    "string \<Rightarrow> string \<Rightarrow> string \<Rightarrow> string \<Rightarrow> string \<Rightarrow> ImpactValidationInput \<Rightarrow> db \<Rightarrow> db \<times> ValidationPlan" where
  "plan_validation new_id task_id proposal_id execution_policy_id revision impact d =
     (let (checks, inconclusive) = checks_for impact;
          strings = (\<lambda>xs. JList (map JStr xs));
          plan = \<lparr>vp_id = new_id, vp_task_id = task_id, vp_proposal_id = proposal_id,
            vp_execution_policy_id = execution_policy_id,
            vp_version = next_plan_version proposal_id execution_policy_id d,
            vp_status = ValidationPlanStatus.ACTIVE, vp_required_checks_json = json_dumps_strings checks,
            vp_evidence_json = JText (JObj [(''changed_paths'', strings (iv_changed_paths impact)),
              (''inconclusive_preconditions'', strings inconclusive), (''revision'', JStr revision),
              (''toolchain_frameworks'', strings (iv_toolchain_frameworks impact))])\<rparr>
      in (d\<lparr>validation_plans := validation_plans d @ [plan]\<rparr>, plan))"

subsection \<open>\<^verbatim>\<open>validation/executor.py\<close>\<close>

record CommandResult =
  cr_exit_code :: int
  cr_stdout :: string
  cr_stderr :: string
  cr_duration_ms :: int

record ValidationExecutionResult =
  ve_passed :: bool
  ve_dispatch_status :: ToolStatus
  ve_policy_checked :: bool

text \<open>The log files the checks leave, by artifact name below the log directory.\<close>

type_synonym check_logs = "(string \<times> string) list"

definition artifact_name :: "string \<Rightarrow> int \<Rightarrow> string \<Rightarrow> string" where
  "artifact_name plan_id run_order check_name =
     plan_id @ ''-'' @ show_int run_order @ ''-'' @ check_name @ ''.log''"

definition run_row :: "string \<Rightarrow> int \<Rightarrow> string list \<Rightarrow> bool \<Rightarrow> string \<Rightarrow> CommandResult \<Rightarrow> ValidationRun" where
  "run_row plan_id run_order command req artifact res =
     \<lparr>vr_validation_plan_id = plan_id, vr_run_order = run_order, vr_validation_type = ValidationType.TEST,
      vr_command_summary = join '' '' command, vr_exit_code = Some (cr_exit_code res),
      vr_status = (if cr_exit_code res = 0 then ValidationRunStatus.PASSED else ValidationRunStatus.FAILED),
      vr_required = req, vr_required_failure = (req \<and> cr_exit_code res \<noteq> 0),
      vr_failure_category = (if cr_exit_code res \<noteq> 0 then Some ''NONZERO_EXIT'' else None),
      vr_log_artifact_ref = artifact\<rparr>"

text \<open>A name with a separator points below a directory that \<^verbatim>\<open>mkdir\<close> did not make: the log cannot be written.\<close>

definition run_check ::
    "string \<Rightarrow> (int \<Rightarrow> string list \<Rightarrow> CommandResult result) \<Rightarrow> string \<Rightarrow> int \<Rightarrow> string \<Rightarrow> string list \<Rightarrow> bool \<Rightarrow>
     db \<times> check_logs \<Rightarrow> (db \<times> check_logs) \<times> bool result" where
  "run_check log_root runner plan_id run_order check_name command req st =
     (case runner run_order command of
        Inl e \<Rightarrow> (st, Inl e)
      | Inr res \<Rightarrow>
          (let artifact = artifact_name plan_id run_order check_name
           in if slash \<in> set artifact then (st, Inl (FileSystemError ''No such file or directory''))
              else
                ((let d = fst st in d\<lparr>validation_runs := validation_runs d @
                    [run_row plan_id run_order command req (log_root @ [slash] @ artifact) res]\<rparr>,
                  AList.update artifact (''STDOUT:'' @ [CHR 0x0A] @ cr_stdout res @ [CHR 0x0A] @ ''STDERR:'' @
                    [CHR 0x0A] @ cr_stderr res) (snd st)),
                 Inr (cr_exit_code res = 0 \<or> \<not> req))))"

definition validation_policy_allows :: "string \<Rightarrow> TemporaryGrant \<Rightarrow> string \<Rightarrow> db \<Rightarrow> bool" where
  "validation_policy_allows policy_id grant revision d =
     (case dispatch_write d policy_id (Temporary grant) ''.'' revision True (\<lambda>s. (s, Inr ())) () of
        (_, Inl _) \<Rightarrow> False
      | (_, Inr res) \<Rightarrow> er_allowed res)"

definition bool_value :: "bool \<Rightarrow> tool_value" where
  "bool_value b = \<lparr>va_json = JBool b, va_truth = b, va_tool_execution_id = None, va_stdout = None, va_stderr = None\<rparr>"

definition check_handler ::
    "string \<Rightarrow> (int \<Rightarrow> string list \<Rightarrow> CommandResult result) \<Rightarrow> string \<Rightarrow> int \<Rightarrow> ValidationCommand \<Rightarrow>
     db \<times> check_logs \<Rightarrow> (db \<times> check_logs) \<times> tool_value option result" where
  "check_handler log_root runner plan_id index command st =
     (case run_check log_root runner plan_id index (vc_check_name command) (vc_program command # vc_args command)
        (vc_required command) st of
        (st', Inl e) \<Rightarrow> (st', Inl e)
      | (st', Inr b) \<Rightarrow> (st', Inr (Some (bool_value b))))"

record check_env =
  ck_now :: int
  ck_execution_id :: "int \<Rightarrow> string"
  ck_registry :: ToolRegistry
  ck_log_root :: string
  ck_runner :: "int \<Rightarrow> string list \<Rightarrow> CommandResult result"
  ck_task_id :: string
  ck_action_id :: string
  ck_policy_id :: string
  ck_grant :: TemporaryGrant
  ck_revision :: string

definition dispatch_check ::
    "check_env \<Rightarrow> string \<Rightarrow> int \<Rightarrow> string \<Rightarrow> db \<times> check_logs \<Rightarrow> (db \<times> check_logs) \<times> ToolDispatchResult" where
  "dispatch_check v plan_id index check_name st =
     (let command = command_for_check check_name
      in dispatch_tool (ck_now v) (ck_execution_id v index) (ck_registry v) (ck_task_id v) (ck_action_id v)
           ''RUN_VALIDATION''
           (JObj [(''check'', JStr (vc_check_name command)), (''program'', JStr (vc_program command))])
           (validation_policy_allows (ck_policy_id v) (ck_grant v) (ck_revision v)) None
           (check_handler (ck_log_root v) (ck_runner v) plan_id index command) st)"

text \<open>The loop over \<^verbatim>\<open>enumerate(checks, start=1)\<close> with its accumulators \<^verbatim>\<open>passed\<close> and \<^verbatim>\<open>last_status\<close>.\<close>

fun run_checks_from ::
    "check_env \<Rightarrow> string \<Rightarrow> int \<Rightarrow> string list \<Rightarrow> bool \<times> ToolStatus \<Rightarrow> db \<times> check_logs \<Rightarrow>
     (db \<times> check_logs) \<times> bool \<times> ToolStatus" where
  "run_checks_from v plan_id index [] acc st = (st, acc)"
| "run_checks_from v plan_id index (c # cs) acc st =
     (case dispatch_check v plan_id index c st of
        (st', dispatch) \<Rightarrow>
          run_checks_from v plan_id (index + 1) cs
            (fst acc \<and> dr_status dispatch = ToolStatus.OK \<and>
               (case dr_value dispatch of None \<Rightarrow> False | Some x \<Rightarrow> va_truth x),
             dr_status dispatch) st')"

text \<open>\<^verbatim>\<open>policy_checked\<close> is set by the enforcer, which the dispatcher asks for a registered tool.\<close>

definition execute_plan ::
    "check_env \<Rightarrow> string \<Rightarrow> db \<times> check_logs \<Rightarrow> (db \<times> check_logs) \<times> ValidationExecutionResult result" where
  "execute_plan v plan_id st =
     (case get_row vp_id plan_id (validation_plans (fst st)) of
        None \<Rightarrow> (st, Inl (ValueError ''validation plan not found''))
      | Some plan \<Rightarrow>
          if vp_task_id plan \<noteq> ck_task_id v then (st, Inl (ValueError ''validation plan not found''))
          else
            (case json_loads (vp_required_checks_json plan) of
               None \<Rightarrow> (st, Inl (ValueError ''JSONDecodeError''))
             | Some decoded \<Rightarrow>
                 (case json_iter decoded of
                    Inl e \<Rightarrow> (st, Inl e)
                  | Inr checks \<Rightarrow>
                      (case run_checks_from v (vp_id plan) 1 checks (True, ToolStatus.OK) st of
                         (st', passed, last_status) \<Rightarrow>
                           (st', Inr \<lparr>ve_passed = passed, ve_dispatch_status = last_status,
                              ve_policy_checked = (checks \<noteq> [] \<and>
                                registry_get ''RUN_VALIDATION'' (ck_registry v) \<noteq> None)\<rparr>)))))"

subsection \<open>\<^verbatim>\<open>validation/evasion.py\<close>\<close>

record EvasionInput =
  ev_baseline_test_count :: int
  ev_current_test_count :: int
  ev_diff_text :: string
  ev_command :: string
  ev_baseline_checks :: "string list"
  ev_current_checks :: "string list"

record EvasionResult =
  ev_risk :: ActionRisk
  ev_reasons :: "string list"

definition hard_reasons :: "string list \<Rightarrow> bool" where
  "hard_reasons reasons = list_ex (\<lambda>r. r \<in> set reasons)
     [''removed assertions'', ''skip introduced'', ''suppressed validation failure'', ''validation checks removed'']"

definition evasion_reasons :: "EvasionInput \<Rightarrow> string list" where
  "evasion_reasons data =
     (let lowered_diff = lower (ev_diff_text data); lowered_command = lower (ev_command data);
          removed_checks = sorted_set (filter (\<lambda>c. c \<notin> set (ev_current_checks data)) (ev_baseline_checks data))
      in (if py_in ''-    assert'' lowered_diff \<or> py_in ''-assert'' lowered_diff then [''removed assertions''] else []) @
         (if py_in ''pytest.skip'' lowered_diff \<or> py_in ''pytest.mark.skip'' lowered_diff
          then [''skip introduced''] else []) @
         (if py_in ''|| true'' lowered_command then [''suppressed validation failure''] else []) @
         (if ev_current_test_count data < ev_baseline_test_count data then [''test count decreased''] else []) @
         (if removed_checks \<noteq> [] then [''validation checks removed''] else []))"

definition detect :: "EvasionInput \<Rightarrow> EvasionResult" where
  "detect data =
     (let reasons = evasion_reasons data
      in \<lparr>ev_risk = (if hard_reasons reasons then ActionRisk.DENY_HARD else ActionRisk.SAFE),
          ev_reasons = (if reasons \<noteq> [] then reasons else [''no evasion''])\<rparr>)"

subsection \<open>\<^verbatim>\<open>validation/failure_classifier.py\<close>\<close>

datatype FailureCategory = COMPILE_ERROR | UNIT_TEST_FAILURE | INTEGRATION_TEST_FAILURE | CONTRACT_FAILURE
  | MIGRATION_FAILURE | ENVIRONMENT_FAILURE | FLAKY_TEST | VALIDATION_EVASION | INCONCLUSIVE

record FailureClassification =
  fk_category :: FailureCategory
  fk_confidence :: int
  fk_evidence :: string

definition environment_error :: "string \<Rightarrow> bool" where
  "environment_error text = list_ex (\<lambda>marker. py_in marker (lower text))
     [''modulenotfounderror'', ''command not found'', ''access is denied'', ''no such file or directory'']"

definition category_for :: "string \<Rightarrow> FailureCategory" where
  "category_for validation_type =
     (let normalized = upper validation_type
      in if normalized = ''CONTRACT'' then CONTRACT_FAILURE
         else if normalized = ''MIGRATION'' then MIGRATION_FAILURE
         else if normalized = ''INTEGRATION'' then INTEGRATION_TEST_FAILURE
         else UNIT_TEST_FAILURE)"

definition structured_evidence :: "(string \<times> json) list \<Rightarrow> string" where
  "structured_evidence data =
     (case map_of data ''failures'' of
        Some (JList (JObj f # _)) \<Rightarrow>
          (case map_of f ''nodeid'' of None \<Rightarrow> ''structured failure'' | Some v \<Rightarrow> json_str v)
      | _ \<Rightarrow> ''structured validation failure'')"

definition first_line :: "string \<Rightarrow> string" where
  "first_line text =
     (case find (\<lambda>l. l \<noteq> []) (map strip (splitlines text)) of None \<Rightarrow> ''no output'' | Some l \<Rightarrow> l)"

text \<open>\<^verbatim>\<open>int(data.get(key, 0) or 0)\<close>: falsy values count as 0, text is read as a number or raises.\<close>

fun json_count :: "json option \<Rightarrow> int result" where
  "json_count None = Inr 0"
| "json_count (Some JNull) = Inr 0"
| "json_count (Some (JBool b)) = Inr (if b then 1 else 0)"
| "json_count (Some (JInt i)) = Inr i"
| "json_count (Some (JStr s)) = (if s = [] then Inr 0 else
     (let t = strip s; neg = (t \<noteq> [] \<and> hd t = CHR ''-''); digits = (if neg \<or> (t \<noteq> [] \<and> hd t = CHR ''+'') then tl t else t)
      in case read_nat digits of None \<Rightarrow> Inl (ValueError ''invalid literal for int() with base 10'')
         | Some n \<Rightarrow> Inr (if neg then - int n else int n)))"
| "json_count (Some (JList xs)) = (if xs = [] then Inr 0 else Inl (TypeError ''int() argument''))"
| "json_count (Some (JObj kvs)) = (if kvs = [] then Inr 0 else Inl (TypeError ''int() argument''))"

definition classify_failure ::
    "(string \<Rightarrow> json option) \<Rightarrow> string \<Rightarrow> int option \<Rightarrow> string \<Rightarrow> string \<Rightarrow> FailureClassification result" where
  "classify_failure loads validation_type exit_code stdout stderr =
     (let combined = stdout @ [CHR 0x0A] @ stderr;
          result = (\<lambda>c p e. Inr \<lparr>fk_category = c, fk_confidence = p, fk_evidence = e\<rparr>);
          fallback = (if exit_code \<noteq> Some 0 \<and> strip combined \<noteq> []
            then result (category_for validation_type) 60 (first_line combined)
            else result INCONCLUSIVE 20 ''unknown validation output'')
      in if exit_code = None then result INCONCLUSIVE 30 ''missing exit code''
         else if environment_error combined then result ENVIRONMENT_FAILURE 90 (first_line combined)
         else (case loads stdout of
                 Some (JObj data) \<Rightarrow>
                   rbind (json_count (map_of data ''failed'')) (\<lambda>failed.
                   rbind (json_count (map_of data ''errors'')) (\<lambda>errors.
                     if failed \<noteq> 0 \<or> errors \<noteq> 0
                     then result (category_for validation_type) 85 (structured_evidence data)
                     else fallback))
               | _ \<Rightarrow> fallback))"

subsection \<open>\<^verbatim>\<open>validation/flaky.py\<close>\<close>

record ValidationAttempt =
  at_exit_code :: int
  at_stdout :: string
  at_stderr :: string

record FlakyResult =
  fl_category :: FailureCategory
  fl_test_name :: string
  fl_evidence :: "string list"
  fl_retry_code_patch :: bool
  fl_knowledge_candidate :: bool

text \<open>\<^verbatim>\<open>xs[:n]\<close>: a negative bound counts from the end.\<close>

definition slice_to :: "int \<Rightarrow> 'a list \<Rightarrow> 'a list" where
  "slice_to n xs = (if 0 \<le> n then take (nat n) xs else take (nat (int (length xs) + n)) xs)"

definition classify_flaky :: "int \<Rightarrow> string \<Rightarrow> ValidationAttempt list \<Rightarrow> FlakyResult" where
  "classify_flaky max_retries test_name attempts =
     (let bounded = slice_to max_retries attempts;
          statuses = map (\<lambda>a. if at_exit_code a = 0 then ''PASS'' else ''FAIL'') bounded;
          category = (if ''PASS'' \<in> set statuses \<and> ''FAIL'' \<in> set statuses then FLAKY_TEST
            else if list_all (\<lambda>s. s = ''PASS'') statuses then INCONCLUSIVE
            else UNIT_TEST_FAILURE)
      in \<lparr>fl_category = category, fl_test_name = test_name, fl_evidence = statuses,
          fl_retry_code_patch = (category \<noteq> FLAKY_TEST), fl_knowledge_candidate = (category = FLAKY_TEST)\<rparr>)"

subsection \<open>What passing validation means\<close>

definition may_validate :: "check_env \<Rightarrow> db \<Rightarrow> bool" where
  "may_validate v d \<longleftrightarrow> registry_get ''RUN_VALIDATION'' (ck_registry v) \<noteq> None \<and>
     validation_policy_allows (ck_policy_id v) (ck_grant v) (ck_revision v) d"

definition check_rows :: "check_env \<Rightarrow> string \<Rightarrow> int \<Rightarrow> string \<Rightarrow> ValidationRun list" where
  "check_rows v pid k c =
     (let command = command_for_check c; line = vc_program command # vc_args command; artifact = artifact_name pid k c
      in case ck_runner v k line of
           Inl _ \<Rightarrow> []
         | Inr res \<Rightarrow> if slash \<in> set artifact then []
             else [run_row pid k line True (ck_log_root v @ [slash] @ artifact) res])"

definition row_passed :: "ValidationRun \<Rightarrow> bool" where
  "row_passed r \<longleftrightarrow> vr_status r = ValidationRunStatus.PASSED \<and> vr_exit_code r = Some 0"

lemma command_for_check_simps [simp]:
  "vc_check_name (command_for_check c) = c" "vc_required (command_for_check c)"
  by (simp_all add: command_for_check_def Let_def)

lemma validation_policy_allows_cong:
  "policies d' = policies d \<Longrightarrow> validation_policy_allows p g r d' = validation_policy_allows p g r d"
  by (simp add: validation_policy_allows_def dispatch_write_def)

lemma may_validate_cong: "policies d' = policies d \<Longrightarrow> may_validate v d' = may_validate v d"
  by (simp add: may_validate_def validation_policy_allows_cong [of d' d])

lemma coerce_bool_value [simp]: "coerce_tool_execution (Some (bool_value b)) d = None"
  by (simp add: coerce_tool_execution_def bool_value_def)

text \<open>A check either runs and leaves its row, or is not run or not completed and leaves none.\<close>

lemma check_handler_effect:
  assumes "check_handler (ck_log_root v) (ck_runner v) pid k (command_for_check c) (d, logs) = ((d1, logs1), r)"
  shows "policies d1 = policies d \<and> executions d1 = executions d \<and> validation_plans d1 = validation_plans d \<and>
    validation_runs d1 = validation_runs d @ check_rows v pid k c \<and>
    (r = Inr (Some (bool_value True)) \<longleftrightarrow> list_ex row_passed (check_rows v pid k c)) \<and>
    ((\<exists>e. r = Inl e) \<or> (\<exists>b. r = Inr (Some (bool_value b))))"
  using assms
  by (auto simp: check_handler_def run_check_def check_rows_def row_passed_def run_row_def bool_value_def Let_def
      split: sum.splits if_splits)


lemma dispatch_check_effect:
  assumes run: "dispatch_check v pid k c (d, logs) = ((d', logs'), r)"
  shows "policies d' = policies d \<and> length (executions d') = Suc (length (executions d)) \<and>
    validation_plans d' = validation_plans d \<and>
    validation_runs d' = validation_runs d @ (if may_validate v d then check_rows v pid k c else []) \<and>
    (dr_status r = ToolStatus.OK \<and> (case dr_value r of None \<Rightarrow> False | Some x \<Rightarrow> va_truth x) \<longleftrightarrow>
     may_validate v d \<and> list_ex row_passed (check_rows v pid k c))"
proof (cases rule: dispatch_tool_cases [where now = "ck_now v" and i = "ck_execution_id v k"
      and reg = "ck_registry v" and task = "ck_task_id v" and act = "ck_action_id v" and name = "''RUN_VALIDATION''"
      and ps = "JObj [(''check'', JStr c), (''program'', JStr (vc_program (command_for_check c)))]"
      and enforcer = "validation_policy_allows (ck_policy_id v) (ck_grant v) (ck_revision v)" and reason = None
      and handler = "check_handler (ck_log_root v) (ck_runner v) pid k (command_for_check c)" and d = d and x = logs])
  case (blocked x res)
  then have "\<not> may_validate v d" by (auto simp: may_validate_def)
  then show ?thesis using run blocked by (auto simp: dispatch_check_def Let_def add_execution_def)
next
  case (raised d1 x1 e res)
  then have go: "may_validate v d" by (auto simp: may_validate_def)
  show ?thesis
    using run raised(4-) go check_handler_effect [OF raised(3)]
    by (auto simp: dispatch_check_def Let_def add_execution_def)
next
  case (returned d1 x1 x d2 ex res)
  then have go: "may_validate v d" by (auto simp: may_validate_def)
  obtain b where b: "x = Some (bool_value b)" using check_handler_effect [OF returned(3)] by auto
  have truth: "va_truth (bool_value b) = b" "bool_value b = bool_value True \<longleftrightarrow> b" by (auto simp: bool_value_def)
  show ?thesis
    using run returned(4-) go check_handler_effect [OF returned(3)] b truth
    by (auto simp: dispatch_check_def Let_def add_execution_def)
qed

text \<open>All rows of a run from position \<open>k\<close>, and the judgement of the loop over them.\<close>

fun all_rows :: "check_env \<Rightarrow> string \<Rightarrow> int \<Rightarrow> string list \<Rightarrow> ValidationRun list" where
  "all_rows v pid k [] = []"
| "all_rows v pid k (c # cs) = check_rows v pid k c @ all_rows v pid (k + 1) cs"

fun all_pass :: "check_env \<Rightarrow> string \<Rightarrow> int \<Rightarrow> string list \<Rightarrow> bool" where
  "all_pass v pid k [] = True"
| "all_pass v pid k (c # cs) \<longleftrightarrow> list_ex row_passed (check_rows v pid k c) \<and> all_pass v pid (k + 1) cs"

lemma run_checks_from_effect:
  assumes "run_checks_from v pid k cs (passed, ls) (d, logs) = ((d', logs'), passed', ls')"
  shows "policies d' = policies d \<and> length (executions d') = length (executions d) + length cs \<and>
    validation_plans d' = validation_plans d \<and>
    validation_runs d' = validation_runs d @ (if may_validate v d then all_rows v pid k cs else []) \<and>
    (passed' \<longleftrightarrow> passed \<and> (cs = [] \<or> may_validate v d \<and> all_pass v pid k cs))"
  using assms
proof (induction cs arbitrary: k passed ls d logs)
  case Nil
  then show ?case by simp
next
  case (Cons c cs)
  obtain d1 logs1 r where r: "dispatch_check v pid k c (d, logs) = ((d1, logs1), r)" by (metis prod.collapse)
  note e = dispatch_check_effect [OF r]
  have same: "may_validate v d1 = may_validate v d" using e may_validate_cong [of d1 d v] by blast
  from Cons.prems r have rest: "run_checks_from v pid (k + 1) cs (passed \<and> dr_status r = ToolStatus.OK \<and>
      (case dr_value r of None \<Rightarrow> False | Some x \<Rightarrow> va_truth x), dr_status r) (d1, logs1) = ((d', logs'), passed', ls')"
    by simp
  show ?case using Cons.IH [OF rest, unfolded same] e by auto
qed

lemma length_check_rows: "length (check_rows v pid k c) \<le> 1"
  by (simp add: check_rows_def Let_def split: sum.splits)

lemma length_all_rows: "length (all_rows v pid k cs) \<le> length cs"
  by (induction cs arbitrary: k) (auto intro: order_trans [OF add_mono [OF length_check_rows]])

lemma all_pass_iff:
  "all_pass v pid k cs \<longleftrightarrow> length (all_rows v pid k cs) = length cs \<and> list_all row_passed (all_rows v pid k cs)"
proof (induction cs arbitrary: k)
  case Nil
  then show ?case by simp
next
  case (Cons c cs)
  have "length (check_rows v pid k c) \<le> 1" by (rule length_check_rows)
  then consider "check_rows v pid k c = []" | r where "check_rows v pid k c = [r]"
    by (cases "check_rows v pid k c") auto
  then show ?case
  proof cases
    case 1
    then show ?thesis using length_all_rows [of v pid "k + 1" cs] by auto
  next
    case 2
    then show ?thesis using Cons [of "k + 1"] by auto
  qed
qed

lemma execute_plan_effect:
  assumes "get_row vp_id pid (validation_plans d) = Some plan" "vp_task_id plan = ck_task_id v"
    and "json_loads (vp_required_checks_json plan) = Some decoded" "json_iter decoded = Inr checks"
  obtains d' logs' res where "execute_plan v pid (d, logs) = ((d', logs'), Inr res)"
    and "validation_runs d' = validation_runs d @ (if may_validate v d then all_rows v pid 1 checks else [])"
    and "length (executions d') = length (executions d) + length checks"
    and "ve_passed res \<longleftrightarrow> checks = [] \<or> may_validate v d \<and> all_pass v pid 1 checks"
proof -
  have pid: "vp_id plan = pid" using assms(1) by auto
  obtain d' logs' passed ls where r: "run_checks_from v pid 1 checks (True, ToolStatus.OK) (d, logs) =
      ((d', logs'), passed, ls)" by (metis prod.collapse)
  let ?res = "\<lparr>ve_passed = passed, ve_dispatch_status = ls,
      ve_policy_checked = (checks \<noteq> [] \<and> registry_get ''RUN_VALIDATION'' (ck_registry v) \<noteq> None)\<rparr>"
  have "execute_plan v pid (d, logs) = ((d', logs'), Inr ?res)"
    using assms r pid by (simp add: execute_plan_def)
  with run_checks_from_effect [OF r] that show thesis by auto
qed

text \<open>
  A plan of the task whose checks decode is run check by check: every check leaves one tool execution, and
  validation passes exactly when there is nothing to check, or the policy and the grant allow validation
  and every check has left a row with exit code 0. Where validation is not allowed no check is run.
\<close>

theorem validation_passes_iff:
  assumes "get_row vp_id pid (validation_plans d) = Some plan" "vp_task_id plan = ck_task_id v"
    and "json_loads (vp_required_checks_json plan) = Some decoded" "json_iter decoded = Inr checks"
  shows "\<exists>d' logs' res rows. execute_plan v pid (d, logs) = ((d', logs'), Inr res) \<and>
    validation_runs d' = validation_runs d @ rows \<and>
    length (executions d') = length (executions d) + length checks \<and>
    (\<not> may_validate v d \<longrightarrow> rows = []) \<and>
    (ve_passed res \<longleftrightarrow>
       checks = [] \<or> may_validate v d \<and> length rows = length checks \<and> list_all row_passed rows)"
  by (rule execute_plan_effect [OF assms, of logs]) (cases "may_validate v d"; auto simp: all_pass_iff)

definition sample_check_env :: check_env where
  "sample_check_env = \<lparr>ck_now = 5, ck_execution_id = show_int,
     ck_registry = registry_register \<lparr>ts_name = ''RUN_VALIDATION'', ts_risk = ''LOW'', ts_timeout_seconds = 30\<rparr> [],
     ck_log_root = ''logs'', ck_runner = (\<lambda>k cmd. Inr \<lparr>cr_exit_code = (if hd cmd = ''pytest'' then 0 else 1),
       cr_stdout = [], cr_stderr = [], cr_duration_ms = 3\<rparr>), ck_task_id = ''t1'', ck_action_id = ''a1'',
     ck_policy_id = ''pol'', ck_grant = sample_grant\<lparr>tg_write_paths := [''.'']\<rparr>, ck_revision = ''r''\<rparr>"

definition sample_plan :: "string list \<Rightarrow> ValidationPlan" where
  "sample_plan checks = \<lparr>vp_id = ''v1'', vp_task_id = ''t1'', vp_proposal_id = ''p1'', vp_execution_policy_id = ''pol'',
     vp_version = 1, vp_status = ValidationPlanStatus.ACTIVE, vp_required_checks_json = json_dumps_strings checks,
     vp_evidence_json = JBlank\<rparr>"

definition sample_plan_db :: "string list \<Rightarrow> db" where
  "sample_plan_db checks = sample_policy_db\<lparr>validation_plans := [sample_plan checks]\<rparr>"

theorem validation_passes_iff_witness:
  "map_sum id ve_passed (snd (execute_plan sample_check_env ''v1'' (sample_plan_db [''unit'', ''lint''], []))) = Inr False"
proof -
  have 1: "get_row vp_id ''v1'' (validation_plans (sample_plan_db [''unit'', ''lint''])) = Some (sample_plan [''unit'', ''lint''])"
    by (simp add: sample_plan_db_def get_row_def sample_plan_def)
  have 2: "vp_task_id (sample_plan [''unit'', ''lint'']) = ck_task_id sample_check_env"
    by (simp add: sample_plan_def sample_check_env_def)
  have 3: "json_loads (vp_required_checks_json (sample_plan [''unit'', ''lint''])) =
      Some (JList (map JStr [''unit'', ''lint'']))"
    by (simp add: sample_plan_def json_dumps_strings_def)
  have 4: "json_iter (JList (map JStr [''unit'', ''lint''])) = Inr [''unit'', ''lint'']" by simp
  have rows: "list_ex (\<lambda>r. \<not> row_passed r)
      (validation_runs (fst (fst (execute_plan sample_check_env ''v1'' (sample_plan_db [''unit'', ''lint''], [])))))"
    by code_simp
  have none: "validation_runs (sample_plan_db [''unit'', ''lint'']) = []" by code_simp
  from validation_passes_iff [OF 1 2 3 4, of "[]"] rows none show ?thesis
    by (auto simp: list_ex_iff list_all_iff)
qed

text \<open>
  The executor asks the enforcer for the path \<^verbatim>\<open>.\<close>, so a grant whose write paths do not name the
  project root itself makes every check of a plan blocked, whichever files it does allow.
\<close>

theorem validation_needs_root_grant:
  assumes "validation_policy_allows policy_id g revision d"
  shows "''.'' \<in> set (tg_write_paths g) \<and> ''.'' \<notin> set (tg_protected_paths g) \<and>
    \<not> tg_revoked g \<and> tg_revision g = revision"
proof -
  have dot: "canonical_project_path ''.'' = Inr ''.''" by code_simp
  from assms have "grant_allows_write g ''.'' revision"
    unfolding validation_policy_allows_def
    by (cases rule: dispatch_write_cases [where d = d and pid = policy_id and g = "Temporary g" and path = "''.''"
          and revision = revision and ok = True and handler = "\<lambda>s. (s, Inr ())" and st = "()"]) (auto simp: dot)
  then show ?thesis by (auto simp: grant_allows_write_def path_allowed_def dot split: if_splits)
qed

theorem validation_needs_root_grant_witness:
  "''.'' \<in> set (tg_write_paths (ck_grant sample_check_env))"
proof -
  have "validation_policy_allows ''pol'' (ck_grant sample_check_env) ''r'' (sample_plan_db [])" by code_simp
  from validation_needs_root_grant [OF this] show ?thesis by blast
qed

subsection \<open>Planning\<close>

lemma checks_for_sound:
  "set (fst (checks_for impact)) = (if ''pytest'' \<in> set (iv_toolchain_frameworks impact) then {''unit''} else {}) \<union>
     (\<Union>p \<in> set (iv_changed_paths impact). set (path_checks p))"
  by (simp add: checks_for_def Let_def)

text \<open>The unique index of \<^verbatim>\<open>validation_plans\<close>.\<close>

definition plan_key :: "ValidationPlan \<Rightarrow> string \<times> string \<times> int" where
  "plan_key p = (vp_proposal_id p, vp_execution_policy_id p, vp_version p)"

definition plans_ok :: "db \<Rightarrow> bool" where
  "plans_ok d \<longleftrightarrow> distinct (map plan_key (validation_plans d)) \<and> list_all (\<lambda>p. 1 \<le> vp_version p) (validation_plans d)"

lemma next_plan_version_fresh:
  assumes "p \<in> set (validation_plans d)" "vp_proposal_id p = a" "vp_execution_policy_id p = b"
  shows "vp_version p < next_plan_version a b d"
  using assms max_or_0_ge [of "vp_version p"] by (fastforce simp: next_plan_version_def)

lemma next_plan_version_positive:
  assumes "plans_ok d"
  shows "1 \<le> next_plan_version a b d"
proof -
  let ?vs = "map vp_version (filter (\<lambda>p. vp_proposal_id p = a \<and> vp_execution_policy_id p = b) (validation_plans d))"
  have "0 \<le> max_or_0 ?vs"
  proof (cases ?vs)
    case (Cons x xs)
    then have "x \<in> set ?vs" by simp
    then have "1 \<le> x" using assms by (auto simp: plans_ok_def list_all_iff)
    then show ?thesis using max_or_0_ge [OF \<open>x \<in> set ?vs\<close>] by simp
  qed (simp add: max_or_0_def)
  then show ?thesis by (simp add: next_plan_version_def)
qed

text \<open>
  Planning keeps the versions of the plans of a proposal under a policy distinct and positive, and the plan it
  stores is the one that validation runs: with distinct plan ids, executing it passes exactly when there is
  nothing to check or every check derived from the impact leaves a passing row.
\<close>

theorem planned_validation:
  assumes ok: "plans_ok d" and fresh: "get_row vp_id pid (validation_plans d) = None"
    and plan: "plan_validation pid (ck_task_id v) proposal policy revision impact d = (d1, plan)"
  shows "plans_ok d1 \<and>
    (\<exists>st res rows. execute_plan v pid (d1, logs) = (st, Inr res) \<and> validation_runs (fst st) = validation_runs d1 @ rows \<and>
       (ve_passed res \<longleftrightarrow> fst (checks_for impact) = [] \<or>
          may_validate v d \<and> length rows = length (fst (checks_for impact)) \<and> list_all row_passed rows))"
proof -
  let ?cs = "fst (checks_for impact)"
  have d1: "d1 = d\<lparr>validation_plans := validation_plans d @ [plan]\<rparr>" and id: "vp_id plan = pid"
    and task: "vp_task_id plan = ck_task_id v" and cs: "vp_required_checks_json plan = json_dumps_strings ?cs"
    and key: "plan_key plan = (proposal, policy, next_plan_version proposal policy d)"
    using plan by (auto simp: plan_validation_def Let_def plan_key_def split: prod.splits)
  have "plan_key plan \<notin> plan_key ` set (validation_plans d)"
    using next_plan_version_fresh [of _ d proposal policy] key by (fastforce simp: plan_key_def)
  moreover have "1 \<le> vp_version plan" using next_plan_version_positive [OF ok] key by (simp add: plan_key_def)
  ultimately have "plans_ok d1" using ok d1 by (auto simp: plans_ok_def)
  moreover have "get_row vp_id pid (validation_plans d1) = Some plan"
    using fresh d1 id by (simp add: get_row_append)
  moreover have "json_loads (vp_required_checks_json plan) = Some (JList (map JStr ?cs))" "json_iter (JList (map JStr ?cs)) = Inr ?cs"
    using cs by (simp_all add: json_dumps_strings_def comp_def)
  moreover have "may_validate v d1 = may_validate v d" using d1 by (intro may_validate_cong) simp
  ultimately show ?thesis
    using task by (elim execute_plan_effect [where v = v and logs = logs]) (auto simp: all_pass_iff)
qed

theorem planned_validation_witness:
  "\<exists>d1 plan st res. plan_validation ''v9'' ''t1'' ''p1'' ''pol'' ''r''
      \<lparr>iv_changed_paths = [''README.md''], iv_toolchain_frameworks = [''pytest'']\<rparr> (sample_plan_db []) = (d1, plan) \<and>
    execute_plan sample_check_env ''v9'' (d1, []) = (st, Inr res) \<and> ve_passed res"
proof -
  let ?impact = "\<lparr>iv_changed_paths = [''README.md''], iv_toolchain_frameworks = [''pytest'']\<rparr>"
  have ok: "plans_ok (sample_plan_db [])" by code_simp
  have fresh: "get_row vp_id ''v9'' (validation_plans (sample_plan_db [])) = None" by code_simp
  obtain d1 plan where p: "plan_validation ''v9'' (ck_task_id sample_check_env) ''p1'' ''pol'' ''r'' ?impact
      (sample_plan_db []) = (d1, plan)" by (metis prod.collapse)
  from planned_validation [OF ok fresh p, of "[]"] obtain st res where
    r: "execute_plan sample_check_env ''v9'' (d1, []) = (st, Inr res)" by blast
  have "map_sum id ve_passed (snd (execute_plan sample_check_env ''v9''
      (fst (plan_validation ''v9'' (ck_task_id sample_check_env) ''p1'' ''pol'' ''r'' ?impact (sample_plan_db [])), []))) = Inr True"
    by code_simp
  then have "ve_passed res" using p r by simp
  with p r show ?thesis by (auto simp: sample_check_env_def)
qed

subsection \<open>Evasion and flakiness\<close>

lemma hard_reasons_append: "hard_reasons (xs @ ys) \<longleftrightarrow> hard_reasons xs \<or> hard_reasons ys"
  by (auto simp: hard_reasons_def)

text \<open>
  A repair is denied hard exactly when its diff removes an assertion or introduces a skip, its command swallows
  a failure, or a check of the baseline is gone; a smaller number of tests is reported but is not denied.
\<close>

theorem evasion_denied_iff:
  "ev_risk (detect data) = ActionRisk.DENY_HARD \<longleftrightarrow>
     (\<exists>w ps ss. w \<in> {''-    assert'', ''-assert'', ''pytest.skip'', ''pytest.mark.skip''} \<and>
        lower (ev_diff_text data) = ps @ w @ ss) \<or>
     (\<exists>ps ss. lower (ev_command data) = ps @ ''|| true'' @ ss) \<or>
     \<not> set (ev_baseline_checks data) \<subseteq> set (ev_current_checks data)"
proof -
  have removed: "sorted_set (filter (\<lambda>c. c \<notin> set (ev_current_checks data)) (ev_baseline_checks data)) \<noteq> [] \<longleftrightarrow>
      \<not> set (ev_baseline_checks data) \<subseteq> set (ev_current_checks data)"
    unfolding set_empty [symmetric] sorted_set_props by auto
  have "hard_reasons (evasion_reasons data) \<longleftrightarrow>
     (\<exists>w. w \<in> {''-    assert'', ''-assert'', ''pytest.skip'', ''pytest.mark.skip''} \<and> py_in w (lower (ev_diff_text data))) \<or>
     py_in ''|| true'' (lower (ev_command data)) \<or>
     \<not> set (ev_baseline_checks data) \<subseteq> set (ev_current_checks data)"
    unfolding evasion_reasons_def Let_def removed hard_reasons_append by (auto simp: hard_reasons_def)
  then show ?thesis by (auto simp: detect_def Let_def py_in_iff)
qed

lemma classify_flaky_iff:
  "0 \<le> n \<Longrightarrow> fl_category (classify_flaky n t attempts) = FLAKY_TEST \<longleftrightarrow>
     (\<exists>a \<in> set (take (nat n) attempts). at_exit_code a = 0) \<and> (\<exists>a \<in> set (take (nat n) attempts). at_exit_code a \<noteq> 0)"
  by (auto simp: classify_flaky_def slice_to_def Let_def image_iff)

end
