(* ===== verification/Agent.thy ===== *)
theory Agent
  imports Validation
begin

section \<open>Agent: when to stop, when to repair, what is an action\<close>

text \<open>
  \<^verbatim>\<open>agent/completion_gate.py\<close>, \<^verbatim>\<open>agent/repair_loop.py\<close>, \<^verbatim>\<open>agent/repair_governance.py\<close>,
  \<^verbatim>\<open>agent/action_parser.py\<close> with \<^verbatim>\<open>contracts/actions.py\<close>, \<^verbatim>\<open>progress/monitor.py\<close> and
  \<^verbatim>\<open>progress/stagnation.py\<close>. The dictionaries that the loops keep in memory are association lists beside the
  database; the schema validation of an action payload (pydantic) is the parameter \<open>validate\<close>.
\<close>

subsection \<open>\<^verbatim>\<open>agent/completion_gate.py\<close>\<close>

record CompletionSnapshot =
  cs_llm_requested_complete :: bool
  cs_validators_available :: bool
  cs_validation_passed :: bool
  cs_pending_approval :: bool
  cs_transaction_open :: bool
  cs_lock_held :: bool
  cs_diff_present :: bool
  cs_audit_recorded :: bool
  cs_blocking_risk :: bool
  cs_read_only :: bool

record CompletionDecision =
  cd_can_complete :: bool
  cd_reason :: string
  cd_final_summary :: string

definition gate_allow :: "string \<Rightarrow> CompletionDecision" where
  "gate_allow reason = \<lparr>cd_can_complete = True, cd_reason = reason, cd_final_summary = ''complete: '' @ reason\<rparr>"

definition gate_deny :: "string \<Rightarrow> CompletionDecision" where
  "gate_deny reason = \<lparr>cd_can_complete = False, cd_reason = reason, cd_final_summary = ''incomplete: '' @ reason\<rparr>"

definition completion_evaluate :: "CompletionSnapshot \<Rightarrow> CompletionDecision" where
  "completion_evaluate s =
     (if \<not> cs_llm_requested_complete s then gate_deny ''not_requested''
      else if cs_read_only s then gate_allow ''read_only_complete''
      else if \<not> cs_diff_present s then gate_deny ''no_diff''
      else if \<not> cs_validators_available s then gate_deny ''validation_inconclusive''
      else if \<not> cs_validation_passed s then gate_deny ''validation_failed''
      else if cs_pending_approval s then gate_deny ''approval_pending''
      else if cs_blocking_risk s then gate_deny ''risk_blocked''
      else if cs_transaction_open s then gate_deny ''transaction_open''
      else if cs_lock_held s then gate_deny ''lock_held''
      else if \<not> cs_audit_recorded s then gate_deny ''audit_missing''
      else gate_allow ''completed_with_changes'')"

subsection \<open>\<^verbatim>\<open>agent/repair_loop.py\<close>\<close>

record RepairAttempt =
  ra_diff_hash :: string
  ra_failure_signature :: string
  ra_passed :: bool

record RepairDecision =
  rd_continue_repair :: bool
  rd_completed :: bool
  rd_distinct_diffs :: nat
  rd_reason :: string

type_synonym repair_memory = "(string \<times> RepairAttempt list) list"

definition attempts_of :: "repair_memory \<Rightarrow> string \<Rightarrow> RepairAttempt list" where
  "attempts_of m task_id = (case map_of m task_id of None \<Rightarrow> [] | Some xs \<Rightarrow> xs)"

definition update_task :: "string \<Rightarrow> (ChangeTask \<Rightarrow> ChangeTask) \<Rightarrow> db \<Rightarrow> db" where
  "update_task task_id f d = d\<lparr>tasks := set_row tk_id task_id f (tasks d)\<rparr>"

definition record_attempt ::
    "int \<Rightarrow> string \<Rightarrow> RepairAttempt \<Rightarrow> db \<times> repair_memory \<Rightarrow> (db \<times> repair_memory) \<times> RepairDecision result" where
  "record_attempt max_repairs task_id attempt st =
     (case get_row tk_id task_id (tasks (fst st)) of
        None \<Rightarrow> (st, Inl (ValueError ''task not found''))
      | Some task \<Rightarrow>
          (let attempts = attempts_of (snd st) task_id;
               previous_diffs = map ra_diff_hash attempts;
               previous_failures = filter (\<lambda>s. s \<noteq> []) (map ra_failure_signature attempts);
               m' = AList.update task_id (attempts @ [attempt]) (snd st);
               repair_count = tk_repair_count task + 1;
               distinct_diffs = length (remdups (map ra_diff_hash (attempts @ [attempt])));
               move = (\<lambda>status. update_task task_id
                 (\<lambda>t. t\<lparr>tk_repair_count := repair_count, tk_status := status\<rparr>) (fst st));
               decide = (\<lambda>go completed reason. \<lparr>rd_continue_repair = go, rd_completed = completed,
                 rd_distinct_diffs = distinct_diffs, rd_reason = reason\<rparr>)
           in if ra_passed attempt
              then ((move TaskStatus.COMPLETED, m'), Inr (decide False True ''repair passed validation''))
              else if ra_diff_hash attempt \<in> set previous_diffs \<or>
                (ra_failure_signature attempt \<noteq> [] \<and> ra_failure_signature attempt \<in> set previous_failures) \<or>
                max_repairs \<le> repair_count
              then ((move TaskStatus.STAGNATION_WARNING, m'), Inr (decide False False ''repair progress exhausted''))
              else ((move TaskStatus.REPAIRING, m'), Inr (decide True False ''repair budget available''))))"

subsection \<open>\<^verbatim>\<open>agent/repair_governance.py\<close>\<close>

record RepairPatch =
  rp_changed_paths :: "string list"
  rp_commands :: "string list"
  rp_patch_text :: string
  rp_knowledge_revision :: string

record RepairGovernanceDecision =
  rn_allowed :: bool
  rn_pause_before_write :: bool
  rn_regovernance_required :: bool
  rn_invalidates_policy :: bool
  rn_reason :: string

definition normalize_repair_path :: "string \<Rightarrow> string" where
  "normalize_repair_path path = strip (replace_char backslash slash path)"

definition pause_repair :: "string \<Rightarrow> RepairGovernanceDecision" where
  "pause_repair reason = \<lparr>rn_allowed = False, rn_pause_before_write = True, rn_regovernance_required = True,
     rn_invalidates_policy = True, rn_reason = reason\<rparr>"

definition repair_evaluate ::
    "string list \<Rightarrow> string list \<Rightarrow> string \<Rightarrow> RepairPatch \<Rightarrow> RepairGovernanceDecision" where
  "repair_evaluate approved_write_paths approved_commands policy_revision patch =
     (if \<not> set (map normalize_repair_path (rp_changed_paths patch)) \<subseteq>
         set (map normalize_repair_path approved_write_paths) then pause_repair ''repair_scope_expanded''
      else if \<not> set (map lower (rp_commands patch)) \<subseteq> set (map lower approved_commands)
      then pause_repair ''repair_command_expanded''
      else if rp_knowledge_revision patch \<noteq> policy_revision then pause_repair ''repair_knowledge_stale''
      else if ev_risk (detect \<lparr>ev_baseline_test_count = 0, ev_current_test_count = 0,
          ev_diff_text = rp_patch_text patch, ev_command = join [CHR 0x0A] (rp_commands patch),
          ev_baseline_checks = [], ev_current_checks = []\<rparr>) = ActionRisk.DENY_HARD
      then pause_repair ''repair_validation_evasion''
      else \<lparr>rn_allowed = True, rn_pause_before_write = False, rn_regovernance_required = False,
            rn_invalidates_policy = False, rn_reason = ''approved_repair_scope''\<rparr>)"

subsection \<open>\<^verbatim>\<open>contracts/actions.py\<close> and \<^verbatim>\<open>agent/action_parser.py\<close>\<close>

record PatchReplacement =
  px_old :: string
  px_new :: string

record StructuredPatchPayload =
  sy_relative_path :: string
  sy_expected_sha256 :: "string option"
  sy_replacements :: "PatchReplacement list"
  sy_target_evidence :: "(string \<times> json) list option"

datatype AgentAction =
    ReadFileAction string int int string
  | SearchCodeAction string string
  | ApplyPatchAction StructuredPatchPayload string
  | CreateFileAction string string string
  | DeleteFileAction string string
  | RunCommandAction string "string list" string

text \<open>The parameter \<^verbatim>\<open>path\<close> of the actions that have one.\<close>

fun action_path :: "AgentAction \<Rightarrow> string option" where
  "action_path (ReadFileAction path start_line end_line reason) = Some path"
| "action_path (CreateFileAction path content reason) = Some path"
| "action_path (DeleteFileAction path reason) = Some path"
| "action_path _ = None"

record validation_failure =
  vf_type :: string
  vf_loc :: "string list"
  vf_text :: string

record action_feedback =
  ab_kind :: FeedbackKind
  ab_severity :: FeedbackSeverity
  ab_message :: string

datatype ParseOutcome = ACCEPTED | REJECTED

record ActionParseResult =
  pa_outcome :: ParseOutcome
  pa_action :: "AgentAction option"
  pa_feedback :: "action_feedback option"
  pa_error_detail :: "string option"

definition rejected :: "string \<Rightarrow> string option \<Rightarrow> ActionParseResult" where
  "rejected message error_detail = \<lparr>pa_outcome = REJECTED, pa_action = None,
     pa_feedback = Some \<lparr>ab_kind = FeedbackKind.TOOL, ab_severity = FeedbackSeverity.ERROR, ab_message = message\<rparr>,
     pa_error_detail = error_detail\<rparr>"

definition has_invalid_path :: "AgentAction \<Rightarrow> bool" where
  "has_invalid_path action =
     (case action_path action of None \<Rightarrow> False | Some p \<Rightarrow> is_absolute p \<or> ''..'' \<in> set (path_parts p))"

definition free_text_shell :: "AgentAction \<Rightarrow> bool" where
  "free_text_shell action =
     (case action of
        RunCommandAction program args reason \<Rightarrow>
          lower program \<in> {''bash'', ''sh'', ''cmd'', ''powershell'', ''pwsh''} \<or>
          list_ex (\<lambda>a. lower a \<in> {''-lc'', ''/c''}) args
      | _ \<Rightarrow> False)"

definition parse_action :: "('p \<Rightarrow> validation_failure + AgentAction) \<Rightarrow> 'p \<Rightarrow> ActionParseResult" where
  "parse_action validate payload =
     (case validate payload of
        Inl e \<Rightarrow>
          (let location = (let l = join ''.'' (vf_loc e) in if l = [] then ''<root>'' else l)
           in rejected (''invalid agent action: '' @ vf_type e @ '' at '' @ location) (Some (take 512 (vf_text e))))
      | Inr action \<Rightarrow>
          if has_invalid_path action then rejected ''invalid path'' None
          else if free_text_shell action then rejected ''free-text shell is not accepted'' None
          else \<lparr>pa_outcome = ACCEPTED, pa_action = Some action, pa_feedback = None, pa_error_detail = None\<rparr>)"

subsection \<open>\<^verbatim>\<open>progress/monitor.py\<close>\<close>

record ProgressSignal =
  ps_plan :: string
  ps_evidence_refs :: "string list"
  ps_failing_tests :: int
  ps_changed_paths :: "string list"
  ps_approvals :: int

record ProgressDecision =
  pd_progress :: bool
  pd_score :: int
  pd_reason :: string

definition SYNONYMS :: "(string \<times> string) list" where
  "SYNONYMS = [(''repair'', ''fix''), (''defect'', ''bug''), (''issue'', ''bug'')]"

definition STOPWORDS :: "string list" where
  "STOPWORDS = [''a'', ''an'', ''the'']"

text \<open>\<^verbatim>\<open>re.findall(r"[a-z0-9]+", text)\<close>.\<close>

definition is_word_char :: "char \<Rightarrow> bool" where
  "is_word_char c = (let n = (of_char c :: nat) in (97 \<le> n \<and> n \<le> 122) \<or> (48 \<le> n \<and> n \<le> 57))"

definition find_words :: "string \<Rightarrow> string list" where
  "find_words text = filter (\<lambda>w. w \<noteq> []) (split_on (CHR '' '') (map (\<lambda>c. if is_word_char c then c else CHR '' '') text))"

definition normalize_plan :: "string \<Rightarrow> string" where
  "normalize_plan plan =
     (let words = filter (\<lambda>w. w \<notin> set STOPWORDS) (find_words (lower plan))
      in join '' '' (sort (map (\<lambda>w. case map_of SYNONYMS w of None \<Rightarrow> w | Some x \<Rightarrow> x) words)))"

definition new_items :: "string list \<Rightarrow> string list \<Rightarrow> string list" where
  "new_items after before = sorted_set (filter (\<lambda>x. x \<notin> set before) after)"

definition progress_decision :: "ProgressSignal \<Rightarrow> ProgressSignal \<Rightarrow> ProgressDecision" where
  "progress_decision before after =
     (let found = (if new_items (ps_evidence_refs after) (ps_evidence_refs before) \<noteq> []
              then [(2, ''new evidence'')] else []) @
            (if ps_failing_tests after < ps_failing_tests before then [(2, ''failing tests reduced'')] else []) @
            (if new_items (ps_changed_paths after) (ps_changed_paths before) \<noteq> []
              then [(1, ''patch scope changed'')] else []) @
            (if ps_approvals before < ps_approvals after then [(1, ''approval improved'')] else []);
          score = sum_list (map fst found);
          reasons = (if found \<noteq> [] then map snd found
            else if normalize_plan (ps_plan before) = normalize_plan (ps_plan after) then [''rephrasing only'']
            else [''no material evidence''])
      in \<lparr>pd_progress = 0 < score, pd_score = score, pd_reason = join '', '' reasons\<rparr>)"

definition progress_evaluate :: "string \<Rightarrow> ProgressSignal \<Rightarrow> ProgressSignal \<Rightarrow> db \<Rightarrow> db \<times> ProgressDecision" where
  "progress_evaluate task_id before after d =
     (let decision = progress_decision before after
      in (d\<lparr>progress_events := progress_events d @ [\<lparr>pe_task_id = task_id, pe_event_type = EventType.TOOL_EXECUTED,
            pe_summary = pd_reason decision,
            pe_evidence_json = JText (JObj
              [(''new_evidence'', JList (map JStr (new_items (ps_evidence_refs after) (ps_evidence_refs before)))),
               (''new_paths'', JList (map JStr (new_items (ps_changed_paths after) (ps_changed_paths before)))),
               (''progress'', JBool (pd_progress decision)), (''score'', JInt (pd_score decision))])\<rparr>]\<rparr>,
          decision))"

subsection \<open>\<^verbatim>\<open>progress/stagnation.py\<close>\<close>

record ActionObservation =
  ob_action_type :: string
  ob_target :: string
  ob_progress :: bool
  ob_evidence_refs :: "string list"

record StagnationDecision =
  sd_stagnated :: bool
  sd_provider_allowed :: bool
  sd_reason :: string
  sd_repeated_count :: int

record StagnationMonitor =
  sm_threshold :: int
  sm_max_iterations :: int
  sm_token_budget :: int
  sm_last_key_by_task :: "(string \<times> (string \<times> string)) list"
  sm_repeat_count_by_task :: "(string \<times> int) list"
  sm_iteration_count_by_task :: "(string \<times> int) list"
  sm_token_count_by_task :: "(string \<times> int) list"

definition dict_get :: "(string \<times> 'a) list \<Rightarrow> string \<Rightarrow> 'a \<Rightarrow> 'a" where
  "dict_get m k dflt = (case map_of m k of None \<Rightarrow> dflt | Some x \<Rightarrow> x)"

definition mark_stagnated :: "string \<Rightarrow> int \<Rightarrow> db \<Rightarrow> unit action_result" where
  "mark_stagnated task_id repeated d =
     (case get_row tk_id task_id (tasks d) of
        None \<Rightarrow> (d, Inl (ValueError ''task not found''))
      | Some task \<Rightarrow>
          (let d1 = update_task task_id
                 (\<lambda>t. t\<lparr>tk_status := TaskStatus.STAGNATION_WARNING, tk_stagnation_count := repeated\<rparr>) d
           in (d1\<lparr>alert_events := alert_events d1 @ [\<lparr>al_task_id = Some task_id, al_system_scope = False,
                 al_severity = AlertSeverity.WARNING, al_status = AlertStatus.OPEN,
                 al_summary = ''semantic stagnation detected'',
                 al_evidence_json = JText (JObj [(''repeated_count'', JInt repeated)]), al_resolved_at = None\<rparr>]\<rparr>,
               Inr ())))"

definition observation_key :: "ActionObservation \<Rightarrow> string \<times> string" where
  "observation_key ob = (ob_action_type ob, ob_target ob)"

definition stagnation_record ::
    "string \<Rightarrow> ActionObservation \<Rightarrow> int \<Rightarrow> int \<Rightarrow> db \<times> StagnationMonitor \<Rightarrow>
     (db \<times> StagnationMonitor) \<times> StagnationDecision result" where
  "stagnation_record task_id ob provider_calls spent_tokens st =
     (let s = snd st;
          iteration_count = dict_get (sm_iteration_count_by_task s) task_id 0 + provider_calls;
          token_count = dict_get (sm_token_count_by_task s) task_id 0 + spent_tokens;
          key = observation_key ob;
          repeated = (if ob_progress ob \<or> ob_evidence_refs ob \<noteq> [] then 0
            else if map_of (sm_last_key_by_task s) task_id = Some key
            then dict_get (sm_repeat_count_by_task s) task_id 1 + 1
            else 1);
          s' = s\<lparr>sm_iteration_count_by_task := AList.update task_id iteration_count (sm_iteration_count_by_task s),
                 sm_token_count_by_task := AList.update task_id token_count (sm_token_count_by_task s),
                 sm_last_key_by_task := AList.update task_id key (sm_last_key_by_task s),
                 sm_repeat_count_by_task := AList.update task_id repeated (sm_repeat_count_by_task s)\<rparr>
      in if sm_threshold s \<le> repeated \<or> sm_max_iterations s \<le> iteration_count \<or> sm_token_budget s \<le> token_count
         then (case mark_stagnated task_id repeated (fst st) of
                 (d', Inl e) \<Rightarrow> ((d', s'), Inl e)
               | (d', Inr _) \<Rightarrow> ((d', s'), Inr \<lparr>sd_stagnated = True, sd_provider_allowed = False,
                   sd_reason = ''semantic stagnation threshold reached'', sd_repeated_count = repeated\<rparr>))
         else ((fst st, s'), Inr \<lparr>sd_stagnated = False, sd_provider_allowed = True,
                   sd_reason = ''progress budget available'', sd_repeated_count = repeated\<rparr>))"

subsection \<open>Completion\<close>

text \<open>
  The gate lets a task complete exactly when the model asked for it and the task either was read-only or has a
  diff that available validators passed, nothing pending, blocking, open or locked, and its audit recorded.
\<close>

theorem completion_iff:
  "cd_can_complete (completion_evaluate s) \<longleftrightarrow>
     cs_llm_requested_complete s \<and>
     (cs_read_only s \<or>
      cs_diff_present s \<and> cs_validators_available s \<and> cs_validation_passed s \<and> \<not> cs_pending_approval s \<and>
      \<not> cs_blocking_risk s \<and> \<not> cs_transaction_open s \<and> \<not> cs_lock_held s \<and> cs_audit_recorded s)"
  by (auto simp: completion_evaluate_def gate_allow_def gate_deny_def)

subsection \<open>Repairs end\<close>

lemma attempts_of_update [simp]:
  "attempts_of (AList.update t xs m) t' = (if t' = t then xs else attempts_of m t')"
  by (simp add: attempts_of_def update_conv')

lemma get_row_update_task:
  "(\<And>t. tk_id (f t) = tk_id t) \<Longrightarrow> get_row tk_id i (tasks (update_task j f d)) =
     (if i = j then map_option f (get_row tk_id i (tasks d)) else get_row tk_id i (tasks d))"
  by (simp add: update_task_def get_row_set_row)

lemma record_attempt_continues:
  assumes task: "get_row tk_id tid (tasks d) = Some t"
    and run: "record_attempt n tid a (d, m) = (st', Inr dec)" and go: "rd_continue_repair dec"
  shows "\<exists>t'. get_row tk_id tid (tasks (fst st')) = Some t' \<and> tk_repair_count t' = tk_repair_count t + 1 \<and>
    tk_repair_count t + 1 < n \<and> attempts_of (snd st') tid = attempts_of m tid @ [a] \<and> \<not> ra_passed a \<and>
    ra_diff_hash a \<notin> ra_diff_hash ` set (attempts_of m tid) \<and>
    (ra_failure_signature a \<noteq> [] \<longrightarrow> ra_failure_signature a \<notin> ra_failure_signature ` set (attempts_of m tid))"
  using assms by (auto simp: record_attempt_def Let_def get_row_update_task split: if_splits)

text \<open>A run of the repair loop: the attempts made for a task while the loop answers that it may continue.\<close>

fun repairs_continue :: "int \<Rightarrow> string \<Rightarrow> RepairAttempt list \<Rightarrow> db \<times> repair_memory \<Rightarrow> bool" where
  "repairs_continue n tid [] st = True"
| "repairs_continue n tid (a # as) st =
     (case record_attempt n tid a st of
        (st', Inl e) \<Rightarrow> False
      | (st', Inr dec) \<Rightarrow> rd_continue_repair dec \<and> repairs_continue n tid as st')"

definition signatures :: "RepairAttempt list \<Rightarrow> string list" where
  "signatures as = filter (\<lambda>s. s \<noteq> []) (map ra_failure_signature as)"

lemma repairs_continue_props:
  assumes "get_row tk_id tid (tasks d) = Some t" and "repairs_continue n tid as (d, m)"
  shows "(as = [] \<or> tk_repair_count t + int (length as) < n) \<and> list_all (\<lambda>a. \<not> ra_passed a) as \<and>
    distinct (map ra_diff_hash as) \<and> ra_diff_hash ` set as \<inter> ra_diff_hash ` set (attempts_of m tid) = {} \<and>
    distinct (signatures as) \<and> set (signatures as) \<inter> set (signatures (attempts_of m tid)) = {}"
  using assms
proof (induction as arbitrary: d t m)
  case Nil
  then show ?case by (simp add: signatures_def)
next
  case (Cons a as)
  obtain st' r where r: "record_attempt n tid a (d, m) = (st', r)" by (metis prod.collapse)
  with Cons.prems obtain dec where dec: "r = Inr dec" "rd_continue_repair dec" "repairs_continue n tid as st'"
    by (cases r) auto
  obtain d1 m1 where st': "st' = (d1, m1)" by (cases st')
  from record_attempt_continues [OF Cons.prems(1) r [unfolded dec(1)] dec(2)] st'
  obtain t' where t': "get_row tk_id tid (tasks d1) = Some t'" "tk_repair_count t' = tk_repair_count t + 1"
      "tk_repair_count t + 1 < n" "attempts_of m1 tid = attempts_of m tid @ [a]" "\<not> ra_passed a"
      "ra_diff_hash a \<notin> ra_diff_hash ` set (attempts_of m tid)"
      "ra_failure_signature a \<noteq> [] \<Longrightarrow> ra_failure_signature a \<notin> ra_failure_signature ` set (attempts_of m tid)"
    by auto
  have "ra_failure_signature a \<noteq> [] \<Longrightarrow> ra_failure_signature a \<notin> set (signatures (attempts_of m tid))"
    using t'(7) by (auto simp: signatures_def)
  then show ?case
    using Cons.IH [OF t'(1), of m1] dec(3) st' t'(2-6) by (auto simp: signatures_def)
qed

text \<open>
  The repair loop ends: a task that may still repair after a sequence of attempts has used fewer than
  \<^verbatim>\<open>max_repairs\<close> of them, counting those stored with the task; none of them passed, no two have the same diff,
  and no two failed the same way.
\<close>

theorem repair_loop_bounded:
  assumes "get_row tk_id tid (tasks d) = Some t" and "repairs_continue n tid as (d, m)"
  shows "(as = [] \<or> tk_repair_count t + int (length as) < n) \<and> list_all (\<lambda>a. \<not> ra_passed a) as \<and>
    distinct (map ra_diff_hash as) \<and> distinct (signatures as)"
  using repairs_continue_props [OF assms] by blast

definition sample_attempts :: "RepairAttempt list" where
  "sample_attempts = [\<lparr>ra_diff_hash = ''h1'', ra_failure_signature = ''f1'', ra_passed = False\<rparr>,
     \<lparr>ra_diff_hash = ''h2'', ra_failure_signature = ''f2'', ra_passed = False\<rparr>]"

theorem repair_loop_bounded_witness:
  "repairs_continue 3 ''t1'' sample_attempts (sample_revocable_db, []) \<and> (2::int) < 3"
proof -
  let ?t = "new_task ''t1'' sample_request"
  have t: "get_row tk_id ''t1'' (tasks sample_revocable_db) = Some ?t"
    by (simp add: sample_revocable_db_def get_row_def new_task_def)
  have go: "repairs_continue 3 ''t1'' sample_attempts (sample_revocable_db, [])" by code_simp
  from repair_loop_bounded [OF t go] have "tk_repair_count ?t + int (length sample_attempts) < 3"
    by (auto simp: sample_attempts_def)
  with go show ?thesis by (simp add: sample_attempts_def new_task_def)
qed

text \<open>
  A repair is allowed without new governance exactly when it stays inside the approved paths and commands, rests
  on the revision of the policy, and neither its diff nor its commands evade validation; otherwise it pauses
  before any write and invalidates the policy.
\<close>

theorem repair_governed:
  "let dec = repair_evaluate paths cmds revision patch in
    (rn_allowed dec \<longleftrightarrow>
      (\<forall>p. p \<in> set (rp_changed_paths patch) \<longrightarrow> normalize_repair_path p \<in> normalize_repair_path ` set paths) \<and>
      lower ` set (rp_commands patch) \<subseteq> lower ` set cmds \<and> rp_knowledge_revision patch = revision \<and>
      \<not> py_in ''-assert'' (lower (rp_patch_text patch)) \<and> \<not> py_in ''-    assert'' (lower (rp_patch_text patch)) \<and>
      \<not> py_in ''pytest.skip'' (lower (rp_patch_text patch)) \<and> \<not> py_in ''pytest.mark.skip'' (lower (rp_patch_text patch)) \<and>
      \<not> py_in ''|| true'' (lower (join [CHR 0x0A] (rp_commands patch)))) \<and>
    rn_pause_before_write dec = (\<not> rn_allowed dec) \<and> rn_regovernance_required dec = (\<not> rn_allowed dec) \<and>
    rn_invalidates_policy dec = (\<not> rn_allowed dec)"
proof -
  have nil: "sorted_set [] = ([] :: string list)" by (simp add: sorted_set_def)
  have hard: "ev_risk (detect \<lparr>ev_baseline_test_count = 0, ev_current_test_count = 0, ev_diff_text = x, ev_command = y,
      ev_baseline_checks = [], ev_current_checks = []\<rparr>) = ActionRisk.DENY_HARD \<longleftrightarrow>
    py_in ''-assert'' (lower x) \<or> py_in ''-    assert'' (lower x) \<or> py_in ''pytest.skip'' (lower x) \<or>
    py_in ''pytest.mark.skip'' (lower x) \<or> py_in ''|| true'' (lower y)" for x y
    by (auto simp: detect_def evasion_reasons_def Let_def hard_reasons_append nil) (auto simp: hard_reasons_def)
  show ?thesis unfolding repair_evaluate_def hard Let_def
    by (auto simp: pause_repair_def)
qed

theorem repair_governed_witness:
  "rn_invalidates_policy (repair_evaluate [''src/a.py''] [''pytest''] ''r''
     \<lparr>rp_changed_paths = [''src/a.py''], rp_commands = [''PYTEST''], rp_patch_text = ''-    Assert x'', rp_knowledge_revision = ''r''\<rparr>)"
proof -
  let ?p = "\<lparr>rp_changed_paths = [''src/a.py''], rp_commands = [''PYTEST''], rp_patch_text = ''-    Assert x'', rp_knowledge_revision = ''r''\<rparr>"
  have "py_in ''-    assert'' (lower (rp_patch_text ?p))" by code_simp
  then show ?thesis using repair_governed [of "[''src/a.py'']" "[''pytest'']" "''r''" ?p] by (simp add: Let_def)
qed

subsection \<open>Actions\<close>

text \<open>
  An accepted action is the validated payload; a path parameter of it is relative and does not climb, and a command
  is neither a shell nor an inline command string. A rejection carries no action.
\<close>

theorem parse_action_sound:
  "let r = parse_action validate payload in
    (pa_outcome r = ACCEPTED \<longleftrightarrow> pa_action r \<noteq> None) \<and>
    (\<forall>action. pa_action r = Some action \<longrightarrow> validate payload = Inr action \<and> pa_feedback r = None \<and>
       (\<forall>p. action_path action = Some p \<longrightarrow> \<not> is_absolute p \<and> ''..'' \<notin> set (path_parts p)) \<and>
       (\<forall>program args reason. action = RunCommandAction program args reason \<longrightarrow>
          lower program \<notin> {''bash'', ''sh'', ''cmd'', ''powershell'', ''pwsh''} \<and> {''-lc'', ''/c''} \<inter> lower ` set args = {}))"
  by (cases "validate payload")
     (auto simp: parse_action_def rejected_def has_invalid_path_def free_text_shell_def Let_def list_ex_iff split: if_splits)

theorem parse_action_sound_witness:
  "pa_action (parse_action (\<lambda>_. Inr (DeleteFileAction ''../a'' ''why'')) ()) = None"
proof -
  have "''..'' \<in> set (path_parts ''../a'')" by code_simp
  then show ?thesis
    using parse_action_sound [of "\<lambda>_. Inr (DeleteFileAction ''../a'' ''why'')" "()"]
    by (cases "pa_action (parse_action (\<lambda>_. Inr (DeleteFileAction ''../a'' ''why'')) ())") (auto simp: Let_def)
qed

subsection \<open>Progress and stagnation\<close>

lemma new_items_nonempty: "new_items after before \<noteq> [] \<longleftrightarrow> \<not> set after \<subseteq> set before"
  unfolding new_items_def set_empty [symmetric] sorted_set_props by auto

text \<open>Only material changes count as progress: the wording of the plan never does.\<close>

lemma progress_iff:
  "pd_progress (progress_decision before after) \<longleftrightarrow>
     \<not> set (ps_evidence_refs after) \<subseteq> set (ps_evidence_refs before) \<or> ps_failing_tests after < ps_failing_tests before \<or>
     \<not> set (ps_changed_paths after) \<subseteq> set (ps_changed_paths before) \<or> ps_approvals before < ps_approvals after"
  by (auto simp: progress_decision_def Let_def new_items_nonempty)

text \<open>
  The monitor against its meaning on the history of observations: the calls and tokens of a task add up, and the
  repeat count is the length of the run of latest observations with the same action and no progress.
\<close>

record stag_entry =
  en_task :: string
  en_ob :: ActionObservation
  en_calls :: int
  en_tokens :: int

definition idle :: "ActionObservation \<Rightarrow> bool" where
  "idle ob \<longleftrightarrow> \<not> ob_progress ob \<and> ob_evidence_refs ob = []"

fun repeat_run :: "ActionObservation list \<Rightarrow> nat" where
  "repeat_run [] = 0"
| "repeat_run (x # xs) =
     (if idle x then Suc (length (takeWhile (\<lambda>y. idle y \<and> observation_key y = observation_key x) xs)) else 0)"

definition monitor_step :: "stag_entry \<Rightarrow> db \<times> StagnationMonitor \<Rightarrow> db \<times> StagnationMonitor" where
  "monitor_step e st = fst (stagnation_record (en_task e) (en_ob e) (en_calls e) (en_tokens e) st)"

definition fresh_monitor :: "int \<Rightarrow> int \<Rightarrow> int \<Rightarrow> StagnationMonitor" where
  "fresh_monitor threshold max_iterations token_budget = \<lparr>sm_threshold = threshold, sm_max_iterations = max_iterations,
     sm_token_budget = token_budget, sm_last_key_by_task = [], sm_repeat_count_by_task = [],
     sm_iteration_count_by_task = [], sm_token_count_by_task = []\<rparr>"

abbreviation of_task :: "string \<Rightarrow> stag_entry list \<Rightarrow> stag_entry list" where
  "of_task tid es \<equiv> filter (\<lambda>e. en_task e = tid) es"

definition monitors :: "int \<Rightarrow> int \<Rightarrow> int \<Rightarrow> stag_entry list \<Rightarrow> StagnationMonitor \<Rightarrow> bool" where
  "monitors threshold max_iterations token_budget es s \<longleftrightarrow>
     sm_threshold s = threshold \<and> sm_max_iterations s = max_iterations \<and> sm_token_budget s = token_budget \<and>
     (\<forall>tid. dict_get (sm_iteration_count_by_task s) tid 0 = sum_list (map en_calls (of_task tid es)) \<and>
        dict_get (sm_token_count_by_task s) tid 0 = sum_list (map en_tokens (of_task tid es)) \<and>
        map_of (sm_last_key_by_task s) tid =
          (if of_task tid es = [] then None else Some (observation_key (en_ob (last (of_task tid es))))) \<and>
        map_of (sm_repeat_count_by_task s) tid =
          (if of_task tid es = [] then None else Some (int (repeat_run (rev (map en_ob (of_task tid es)))))))"

lemma dict_get_update [simp]: "dict_get (AList.update k x m) k' y = (if k' = k then x else dict_get m k' y)"
  by (simp add: dict_get_def update_conv')

lemma monitor_step_snd:
  "snd (monitor_step e (d, s)) =
     (let tid = en_task e; ob = en_ob e in
      s\<lparr>sm_iteration_count_by_task := AList.update tid (dict_get (sm_iteration_count_by_task s) tid 0 + en_calls e)
           (sm_iteration_count_by_task s),
         sm_token_count_by_task := AList.update tid (dict_get (sm_token_count_by_task s) tid 0 + en_tokens e)
           (sm_token_count_by_task s),
         sm_last_key_by_task := AList.update tid (observation_key ob) (sm_last_key_by_task s),
         sm_repeat_count_by_task := AList.update tid
           (if \<not> idle ob then 0
            else if map_of (sm_last_key_by_task s) tid = Some (observation_key ob)
            then dict_get (sm_repeat_count_by_task s) tid 1 + 1 else 1) (sm_repeat_count_by_task s)\<rparr>)"
proof -
  have i: "(\<not> idle ob) = (ob_progress ob \<or> ob_evidence_refs ob \<noteq> [])" for ob by (auto simp: idle_def)
  show ?thesis
    unfolding monitor_step_def stagnation_record_def Let_def snd_conv fst_conv i
    by (simp only: fst_conv snd_conv simp_thms HOL.refl split: prod.split sum.split if_split_asm if_split)
qed

lemma repeat_run_snoc:
  "repeat_run (x # xs) = (if \<not> idle x then 0
     else if xs \<noteq> [] \<and> observation_key (hd xs) = observation_key x then repeat_run xs + 1 else 1)"
  by (cases xs) auto

lemma monitors_step:
  assumes "monitors a b c es s"
  shows "monitors a b c (es @ [e]) (snd (monitor_step e (d, s)))"
  using assms unfolding monitors_def monitor_step_snd Let_def
  by (auto simp: update_conv' dict_get_def repeat_run_snoc hd_rev last_map simp del: repeat_run.simps)

lemma monitors_fold: "monitors a b c es (snd (fold monitor_step es (d, fresh_monitor a b c)))"
proof (induction es rule: rev_induct)
  case Nil
  then show ?case by (simp add: monitors_def fresh_monitor_def dict_get_def)
next
  case (snoc e es)
  then show ?case
    using monitors_step [OF snoc, of e "fst (fold monitor_step es (d, fresh_monitor a b c))"] by simp
qed

text \<open>
  (C26) The stagnation monitor decides by the history of the task, however its observations interleave with those of
  other tasks: it stops the provider exactly when the run of repeated idle actions reaches the threshold or the
  calls or tokens of the task reach their limits; it then marks the task and raises one alert, and otherwise it
  leaves the database alone.
\<close>

theorem stagnation_refines_history:
  assumes run: "stagnation_record (en_task e) (en_ob e) (en_calls e) (en_tokens e)
      (fold monitor_step es (d0, fresh_monitor a b c)) = (st', r)"
    and db: "d = fst (fold monitor_step es (d0, fresh_monitor a b c))"
    and task: "get_row tk_id (en_task e) (tasks d) = Some t"
    and history: "h = filter (\<lambda>x. en_task x = en_task e) es @ [e]"
  shows "\<exists>dec. r = Inr dec \<and> sd_repeated_count dec = int (repeat_run (rev (map en_ob h))) \<and>
    (sd_stagnated dec \<longleftrightarrow> a \<le> sd_repeated_count dec \<or> b \<le> sum_list (map en_calls h) \<or> c \<le> sum_list (map en_tokens h)) \<and>
    sd_provider_allowed dec = (\<not> sd_stagnated dec) \<and>
    (if sd_stagnated dec
     then length (alert_events (fst st')) = Suc (length (alert_events d)) \<and>
       map_option tk_status (get_row tk_id (en_task e) (tasks (fst st'))) = Some TaskStatus.STAGNATION_WARNING
     else fst st' = d)"
proof -
  let ?st = "fold monitor_step es (d0, fresh_monitor a b c)"
  obtain s where st: "?st = (d, s)" using db by (metis prod.collapse)
  have m: "monitors a b c es s" and m': "monitors a b c (es @ [e]) (snd (monitor_step e (d, s)))"
    using monitors_fold [of a b c es d0] st by (auto intro: monitors_step)
  define rp where "rp = int (repeat_run (rev (map en_ob h)))"
  have "map_of (sm_repeat_count_by_task (snd (monitor_step e (d, s)))) (en_task e) = Some rp"
    using m' [unfolded monitors_def, THEN conjunct2, THEN conjunct2, THEN conjunct2, THEN spec, of "en_task e"]
    unfolding rp_def history by (simp del: repeat_run.simps)
  then have rp: "rp = (if \<not> idle (en_ob e) then 0
      else if map_of (sm_last_key_by_task s) (en_task e) = Some (observation_key (en_ob e))
      then dict_get (sm_repeat_count_by_task s) (en_task e) 1 + 1 else 1)"
    unfolding monitor_step_snd Let_def by (simp add: update_conv')
  have sums: "dict_get (sm_iteration_count_by_task s) (en_task e) 0 + en_calls e = sum_list (map en_calls h)"
    "dict_get (sm_token_count_by_task s) (en_task e) 0 + en_tokens e = sum_list (map en_tokens h)"
    and limits: "sm_threshold s = a" "sm_max_iterations s = b" "sm_token_budget s = c"
    using m history unfolding monitors_def by auto
  let ?stop = "a \<le> rp \<or> b \<le> sum_list (map en_calls h) \<or> c \<le> sum_list (map en_tokens h)"
  have run': "(if ?stop then \<exists>d'. mark_stagnated (en_task e) rp d = (d', Inr ()) \<and> fst st' = d' \<and>
        r = Inr \<lparr>sd_stagnated = True, sd_provider_allowed = False,
          sd_reason = ''semantic stagnation threshold reached'', sd_repeated_count = rp\<rparr>
      else fst st' = d \<and> r = Inr \<lparr>sd_stagnated = False, sd_provider_allowed = True,
          sd_reason = ''progress budget available'', sd_repeated_count = rp\<rparr>)"
    using run task unfolding st stagnation_record_def Let_def snd_conv fst_conv sums limits rp idle_def
    by (auto simp: mark_stagnated_def Let_def split: if_splits)
  show ?thesis
    using run' task by (cases ?stop) (auto simp: rp_def [symmetric] mark_stagnated_def Let_def get_row_set_row update_task_def)
qed

definition sample_entry :: "string \<Rightarrow> stag_entry" where
  "sample_entry target = \<lparr>en_task = ''t1'', en_ob = \<lparr>ob_action_type = ''READ_FILE'', ob_target = target,
     ob_progress = False, ob_evidence_refs = []\<rparr>, en_calls = 1, en_tokens = 10\<rparr>"

theorem stagnation_refines_history_witness:
  "\<exists>dec. snd (stagnation_record ''t1'' (en_ob (sample_entry ''a'')) 1 10
      (fold monitor_step [sample_entry ''b'', sample_entry ''a''] (sample_revocable_db, fresh_monitor 2 9 999))) = Inr dec \<and>
    sd_stagnated dec"
proof -
  let ?e = "sample_entry ''a''" and ?es = "[sample_entry ''b'', sample_entry ''a'']"
  let ?st = "fold monitor_step ?es (sample_revocable_db, fresh_monitor 2 9 999)"
  obtain st' r where run: "stagnation_record (en_task ?e) (en_ob ?e) (en_calls ?e) (en_tokens ?e) ?st = (st', r)"
    by (metis prod.collapse)
  have "\<not> Option.is_none (get_row tk_id (en_task ?e) (tasks (fst ?st)))" by code_simp
  then obtain t where t: "get_row tk_id (en_task ?e) (tasks (fst ?st)) = Some t" by (auto simp: Option.is_none_def)
  have h: "(2::int) \<le> int (repeat_run (rev (map en_ob (filter (\<lambda>x. en_task x = en_task ?e) ?es @ [?e]))))" by code_simp
  from stagnation_refines_history [OF run refl t refl] h obtain dec where "r = Inr dec" "sd_stagnated dec"
    by (auto simp del: repeat_run.simps)
  with run show ?thesis by (auto simp: sample_entry_def)
qed

end
