(* ===== verification/Context.thy ===== *)
theory Context
  imports Disclosure Agent
begin

section \<open>Context: what the model is shown and the token budget\<close>

text \<open>
  \<^verbatim>\<open>context/context_builder.py\<close>, \<^verbatim>\<open>context/token_budget.py\<close> and the request and response of
  \<^verbatim>\<open>llm/base.py\<close>. The language model itself is the parameter \<open>provider\<close>: what it answers to a request, an
  error included.
\<close>

subsection \<open>\<^verbatim>\<open>context/context_builder.py\<close>\<close>

datatype TrustLabel = SYSTEM | TOOL_OUTPUT | REPOSITORY_CONTENT | UNTRUSTED_DATA

fun trust_label_str :: "TrustLabel \<Rightarrow> string" where
  "trust_label_str TrustLabel.SYSTEM = ''SYSTEM''"
| "trust_label_str TOOL_OUTPUT = ''TOOL_OUTPUT''"
| "trust_label_str REPOSITORY_CONTENT = ''REPOSITORY_CONTENT''"
| "trust_label_str TrustLabel.UNTRUSTED_DATA = ''UNTRUSTED_DATA''"

record ContextItem =
  ci_item_id :: string
  ci_section :: string
  ci_text :: string
  ci_priority :: int
  ci_trust_label :: TrustLabel

record DroppedContextItem =
  dc_item_id :: string
  dc_reason :: string

record ContextPackage =
  cp_goal :: string
  cp_items :: "ContextItem list"
  cp_dropped :: "DroppedContextItem list"
  cp_char_count :: int

text \<open>\<^verbatim>\<open>(?i)\b(api[_-]?key|token|secret|password)\s*=\s*[^,\s;]+\<close>, replaced by the keyword and a mark.\<close>

definition assignment_rewriter :: rewriter where
  "assignment_rewriter prev s =
     (if (case prev of None \<Rightarrow> False | Some c \<Rightarrow> is_word c) then None
      else case keyword_here [''api_key'', ''api-key'', ''apikey'', ''token'', ''secret'', ''password''] s of
             None \<Rightarrow> None
           | Some (kw, rest) \<Rightarrow>
               (case dropWhile is_space rest of
                  [] \<Rightarrow> None
                | c # cs \<Rightarrow>
                    (let ok = (\<lambda>x. x \<noteq> CHR '','' \<and> x \<noteq> CHR '';'' \<and> \<not> is_space x); after = dropWhile is_space cs
                     in if c = CHR ''='' \<and> takeWhile ok after \<noteq> []
                        then Some (kw @ ''=[REDACTED]'', dropWhile ok after) else None)))"

definition redact_assignments :: "string \<Rightarrow> string" where
  "redact_assignments s = re_sub_at assignment_rewriter None s"

definition render :: "ContextPackage \<Rightarrow> string" where
  "render p = join [CHR 0x0A, CHR 0x0A]
     ((''goal: '' @ redact_assignments (cp_goal p)) #
      map (\<lambda>i. ''['' @ ci_section i @ '':'' @ trust_label_str (ci_trust_label i) @ ''] '' @ ci_item_id i @ [CHR 0x0A] @
        redact_assignments (ci_text i)) (cp_items p))"

definition untrusted :: "ContextItem \<Rightarrow> ContextItem" where
  "untrusted i = (if ci_trust_label i = REPOSITORY_CONTENT then i\<lparr>ci_trust_label := TrustLabel.UNTRUSTED_DATA\<rparr> else i)"

definition item_size :: "ContextItem \<Rightarrow> int" where
  "item_size i = int (length (ci_text i)) + int (length (ci_item_id i)) + int (length (ci_section i))"

definition package_size :: "string \<Rightarrow> ContextItem list \<Rightarrow> int" where
  "package_size goal items = int (length goal) + sum_list (map item_size items)"

text \<open>The loop over the optional items with its accumulators.\<close>

fun take_optional ::
    "int \<Rightarrow> int \<Rightarrow> ContextItem list \<Rightarrow> ContextItem list \<times> DroppedContextItem list \<Rightarrow>
     ContextItem list \<times> DroppedContextItem list" where
  "take_optional max_chars current_size [] acc = acc"
| "take_optional max_chars current_size (i # is) (included, dropped) =
     (let next_size = current_size + item_size i + 8
      in if max_chars < next_size
         then take_optional max_chars current_size is (included, dropped @ [\<lparr>dc_item_id = ci_item_id i, dc_reason = ''budget''\<rparr>])
         else take_optional max_chars next_size is (included @ [i], dropped))"

definition build_context ::
    "int \<Rightarrow> string \<Rightarrow> ContextItem list \<Rightarrow> ContextItem \<Rightarrow> ContextItem \<Rightarrow> ContextItem list \<Rightarrow> ContextItem list \<Rightarrow> ContextPackage" where
  "build_context max_chars goal governance_items execution_policy current_error repository_items knowledge_items =
     (let mandatory = governance_items @ [execution_policy, current_error];
          optional = sort_key (\<lambda>i. (- ci_priority i, ci_item_id i)) (knowledge_items @ map untrusted repository_items);
          result = take_optional max_chars (package_size goal mandatory) optional (mandatory, [])
      in \<lparr>cp_goal = goal, cp_items = fst result, cp_dropped = snd result,
          cp_char_count = package_size goal (fst result)\<rparr>)"

subsection \<open>\<^verbatim>\<open>llm/base.py\<close> and \<^verbatim>\<open>context/token_budget.py\<close>\<close>

record LLMRequest =
  lq_prompt_summary :: string
  lq_input_text :: string

record LLMResponse =
  ls_content :: string
  ls_input_tokens :: int
  ls_output_tokens :: int
  ls_model :: string
  ls_provider :: string

record TokenBudgetEstimate =
  tb_input_tokens :: int
  tb_reserved_output_tokens :: int
  tb_safety_margin_tokens :: int
  tb_max_total_tokens :: int

definition required_tokens :: "TokenBudgetEstimate \<Rightarrow> int" where
  "required_tokens e = tb_input_tokens e + tb_reserved_output_tokens e + tb_safety_margin_tokens e"

definition over_budget :: "TokenBudgetEstimate \<Rightarrow> bool" where
  "over_budget e \<longleftrightarrow> tb_max_total_tokens e < required_tokens e"

definition estimate_tokens :: "string \<Rightarrow> int" where
  "estimate_tokens text = max 1 ((int (length text) + 3) div 4)"

definition pause_task :: "string \<Rightarrow> TokenBudgetEstimate \<Rightarrow> db \<Rightarrow> unit action_result" where
  "pause_task task_id e d =
     (case get_row tk_id task_id (tasks d) of
        None \<Rightarrow> (d, Inl (ValueError ''task not found''))
      | Some task \<Rightarrow>
          (update_task task_id (\<lambda>t. t\<lparr>tk_status := TaskStatus.PAUSED, tk_failure_code := Some ''TOKEN_BUDGET_EXCEEDED'',
             tk_failure_message := Some (''required='' @ show_int (required_tokens e) @ '', max='' @
               show_int (tb_max_total_tokens e) @ '', input='' @ show_int (tb_input_tokens e) @ '', reserved_output='' @
               show_int (tb_reserved_output_tokens e) @ '', safety_margin='' @ show_int (tb_safety_margin_tokens e))\<rparr>) d,
           Inr ()))"

definition budgeted_complete ::
    "(LLMRequest \<Rightarrow> LLMResponse result) \<Rightarrow> string \<Rightarrow> ContextPackage \<Rightarrow> LLMRequest \<Rightarrow> int \<Rightarrow> int \<Rightarrow> int \<Rightarrow> db \<Rightarrow>
     LLMResponse action_result" where
  "budgeted_complete provider task_id context_package request max_total_tokens reserved_output_tokens
       safety_margin_tokens d =
     (let prompt = render context_package @ [CHR 0x0A, CHR 0x0A] @ lq_input_text request;
          estimate = \<lparr>tb_input_tokens = estimate_tokens prompt, tb_reserved_output_tokens = reserved_output_tokens,
            tb_safety_margin_tokens = safety_margin_tokens, tb_max_total_tokens = max_total_tokens\<rparr>
      in if over_budget estimate
         then (case pause_task task_id estimate d of
                 (d', Inl e) \<Rightarrow> (d', Inl e)
               | (d', Inr _) \<Rightarrow> (d', Inl (TokenBudgetPaused (''token budget exceeded: required='' @
                   show_int (required_tokens estimate) @ '' max='' @ show_int max_total_tokens))))
         else (d, provider (request\<lparr>lq_input_text := prompt\<rparr>)))"

subsection \<open>What the context holds\<close>

text \<open>The items of a loop are split by the budget; what is dropped is named.\<close>

fun budget_split :: "int \<Rightarrow> int \<Rightarrow> ContextItem list \<Rightarrow> ContextItem list \<times> ContextItem list" where
  "budget_split n sz [] = ([], [])"
| "budget_split n sz (i # is) =
     (if n < sz + item_size i + 8 then (let (ks, ds) = budget_split n sz is in (ks, i # ds))
      else (let (ks, ds) = budget_split n (sz + item_size i + 8) is in (i # ks, ds)))"

lemma take_optional_split:
  "take_optional n sz is (inc, dr) =
     (inc @ fst (budget_split n sz is),
      dr @ map (\<lambda>i. \<lparr>dc_item_id = ci_item_id i, dc_reason = ''budget''\<rparr>) (snd (budget_split n sz is)))"
  by (induction n sz "is" arbitrary: inc dr rule: budget_split.induct) (auto simp: Let_def split: prod.splits)

lemma budget_split_mset: "mset (fst (budget_split n sz is)) + mset (snd (budget_split n sz is)) = mset is"
  by (induction n sz "is" rule: budget_split.induct) (auto simp: Let_def split: prod.splits)

lemma budget_split_size:
  "fst (budget_split n sz is) = [] \<or>
   sz + sum_list (map item_size (fst (budget_split n sz is))) + 8 * int (length (fst (budget_split n sz is))) \<le> n"
proof (induction n sz "is" rule: budget_split.induct)
  case (2 n sz i "is")
  then show ?case by (cases "n < sz + item_size i + 8") (auto simp: Let_def split: prod.splits)
qed simp

text \<open>
  The context always holds the governance items, the policy and the current error, in this order; every optional
  item is either included or reported as dropped; the size is at most the limit, unless the mandatory part alone
  exceeds it, when no optional item is included; and nothing that came from the repository is presented as trusted
  repository content.
\<close>

theorem context_within_budget:
  assumes p: "p = build_context n goal gov pol err repo know"
  shows "\<exists>kept dropped. cp_items p = gov @ [pol, err] @ kept \<and>
      map dc_item_id (cp_dropped p) = map ci_item_id dropped \<and> mset kept + mset dropped = mset (know @ map untrusted repo) \<and>
      cp_char_count p \<le> max n (package_size goal (gov @ [pol, err])) \<and>
      (n < package_size goal (gov @ [pol, err]) \<longrightarrow> kept = []) \<and>
      (\<forall>i \<in> set kept. i \<notin> set know \<longrightarrow> ci_trust_label i \<noteq> REPOSITORY_CONTENT)"
proof -
  let ?m = "gov @ [pol, err]"
  let ?opt = "sort_key (\<lambda>i. (- ci_priority i, ci_item_id i)) (know @ map untrusted repo)"
  define kept where "kept = fst (budget_split n (package_size goal ?m) ?opt)"
  define dropped where "dropped = snd (budget_split n (package_size goal ?m) ?opt)"
  have items: "cp_items p = ?m @ kept" "map dc_item_id (cp_dropped p) = map ci_item_id dropped"
    "cp_char_count p = package_size goal ?m + sum_list (map item_size kept)"
    unfolding p build_context_def Let_def kept_def dropped_def take_optional_split
    by (simp_all add: package_size_def comp_def)
  have split: "mset kept + mset dropped = mset (know @ map untrusted repo)"
    unfolding kept_def dropped_def budget_split_mset by simp
  have size: "kept = [] \<or> package_size goal ?m + sum_list (map item_size kept) + 8 * int (length kept) \<le> n"
    unfolding kept_def by (rule budget_split_size)
  have nonneg: "0 \<le> sum_list (map item_size kept)" by (induction kept) (auto simp: item_size_def)
  have "ci_trust_label i \<noteq> REPOSITORY_CONTENT" if i: "i \<in> set kept" "i \<notin> set know" for i
  proof -
    have "i \<in># mset (know @ map untrusted repo)" using i(1) split by (metis union_iff set_mset_mset)
    then obtain j where "i = untrusted j" using i(2) by auto
    then show ?thesis by (simp add: untrusted_def)
  qed
  moreover have "cp_char_count p \<le> max n (package_size goal ?m)" "n < package_size goal ?m \<longrightarrow> kept = []"
    using size nonneg items(3) by auto
  ultimately show ?thesis using items(1,2) split by (intro exI [of _ kept] exI [of _ dropped]) simp
qed

definition sample_item :: "string \<Rightarrow> TrustLabel \<Rightarrow> ContextItem" where
  "sample_item name label = \<lparr>ci_item_id = name, ci_section = ''s'', ci_text = ''text'', ci_priority = 1, ci_trust_label = label\<rparr>"

theorem context_within_budget_witness:
  "cp_char_count (build_context 25 ''g'' [] (sample_item ''p'' TrustLabel.SYSTEM) (sample_item ''e'' TOOL_OUTPUT)
     [sample_item ''r'' REPOSITORY_CONTENT] [sample_item ''k'' TOOL_OUTPUT]) \<le> 25"
proof -
  have "package_size ''g'' ([] @ [sample_item ''p'' TrustLabel.SYSTEM, sample_item ''e'' TOOL_OUTPUT]) = 13" by code_simp
  with context_within_budget [OF refl, of 25 "''g''" "[]" "sample_item ''p'' TrustLabel.SYSTEM" "sample_item ''e'' TOOL_OUTPUT"
      "[sample_item ''r'' REPOSITORY_CONTENT]" "[sample_item ''k'' TOOL_OUTPUT]"]
  show ?thesis by auto
qed

text \<open>
  The provider is asked exactly when the prompt, the reserved output and the margin fit the budget, with a prompt
  whose length then is bounded by the budget; otherwise it is not asked, and an existing task is paused with the
  code of the budget.
\<close>

theorem budget_respected:
  assumes task: "get_row tk_id tid (tasks d) = Some t" and nonneg: "0 \<le> res" "0 \<le> mar"
    and prompt: "prompt = render pkg @ [CHR 0x0A, CHR 0x0A] @ lq_input_text req"
  shows "if estimate_tokens prompt + res + mar \<le> n
    then budgeted_complete provider tid pkg req n res mar d = (d, provider (req\<lparr>lq_input_text := prompt\<rparr>)) \<and>
      int (length prompt) \<le> 4 * n
    else (\<exists>m. snd (budgeted_complete provider tid pkg req n res mar d) = Inl (TokenBudgetPaused m)) \<and>
      (\<exists>t'. get_row tk_id tid (tasks (fst (budgeted_complete provider tid pkg req n res mar d))) = Some t' \<and>
        tk_status t' = TaskStatus.PAUSED \<and> tk_failure_code t' = Some ''TOKEN_BUDGET_EXCEEDED'')"
proof (cases "estimate_tokens prompt + res + mar \<le> n")
  case True
  have "(int (length prompt) + 3) div 4 \<le> n" using True nonneg unfolding estimate_tokens_def by linarith
  then have "int (length prompt) \<le> 4 * n" by linarith
  with True show ?thesis
    by (simp add: budgeted_complete_def Let_def over_budget_def required_tokens_def prompt)
next
  case False
  then have over: "over_budget \<lparr>tb_input_tokens = estimate_tokens prompt, tb_reserved_output_tokens = res,
      tb_safety_margin_tokens = mar, tb_max_total_tokens = n\<rparr>" by (simp add: over_budget_def required_tokens_def)
  show ?thesis
    unfolding budgeted_complete_def Let_def prompt [symmetric] pause_task_def
    using False over task by (auto simp: get_row_update_task)
qed

theorem budget_respected_witness:
  "\<exists>m. snd (budgeted_complete (\<lambda>_. Inl (ProviderError ''PROVIDER_ERROR'' ''down'')) ''t1''
     \<lparr>cp_goal = ''goal'', cp_items = [], cp_dropped = [], cp_char_count = 4\<rparr>
     \<lparr>lq_prompt_summary = ''goal'', lq_input_text = ''goal''\<rparr> 10 5 3 sample_revocable_db) = Inl (TokenBudgetPaused m)"
proof -
  let ?pkg = "\<lparr>cp_goal = ''goal'', cp_items = [], cp_dropped = [], cp_char_count = 4\<rparr>"
  let ?req = "\<lparr>lq_prompt_summary = ''goal'', lq_input_text = ''goal''\<rparr>"
  have t: "get_row tk_id ''t1'' (tasks sample_revocable_db) = Some (new_task ''t1'' sample_request)"
    by (simp add: sample_revocable_db_def get_row_def new_task_def)
  have "\<not> estimate_tokens (render ?pkg @ [CHR 0x0A, CHR 0x0A] @ lq_input_text ?req) + 5 + 3 \<le> 10" by code_simp
  with budget_respected [OF t, of 5 3, OF _ _ refl, of ?pkg ?req 10 "\<lambda>_. Inl (ProviderError ''PROVIDER_ERROR'' ''down'')"] show ?thesis by simp
qed

end
