(* ===== verification/Turn.thy ===== *)
theory Turn
  imports Context
begin

section \<open>Turn: one iteration of the agent\<close>

text \<open>
  \<^verbatim>\<open>agent/iteration.py\<close>: a turn builds the context, asks the model within the token budget, parses its answer,
  records and governs the action, activates a policy for it and dispatches the tool. The state is the database, the
  world that tool handlers act on, the parse-failure artifacts and the stages published so far. The model's answer
  at an iteration, the decoding of JSON (with the position of an error), the schema validation of pydantic, the
  digest, the handlers, the enforcers and the tool catalogue of the prompt are parameters.
\<close>

subsection \<open>State and parameters\<close>

record 'x agent_state =
  as_db :: db
  as_ext :: 'x
  as_artifacts :: "(string \<times> json) list"
  as_stages :: "(string \<times> string \<times> string option) list"

text \<open>An enforcer answers with a flag, or with a flag and a reason.\<close>

datatype enforcement = Flag bool | Reasoned bool string

fun enforcement_allowed :: "enforcement \<Rightarrow> bool" where
  "enforcement_allowed (Flag b) = b"
| "enforcement_allowed (Reasoned b r) = b"

fun enforcement_text :: "enforcement \<Rightarrow> string" where
  "enforcement_text (Flag b) = (if b then ''allowed'' else ''policy_denied'')"
| "enforcement_text (Reasoned b r) = r"

record 'x turn_env =
  tn_artifact_root :: string
  tn_max_chars :: int
  tn_action_defs :: "string list"
  tn_registry :: ToolRegistry
  tn_rules :: "RuleDefinition list"
  tn_handlers :: "(string \<times> (AgentAction \<Rightarrow> db \<times> 'x \<Rightarrow> (db \<times> 'x) \<times> tool_value option result)) list"
  tn_enforcers :: "(string \<times> (AgentAction \<Rightarrow> db \<Rightarrow> enforcement)) list"
  tn_provider :: "int \<Rightarrow> LLMRequest \<Rightarrow> LLMResponse result"
  tn_loads :: "string \<Rightarrow> nat + json"
  tn_validate :: "json \<Rightarrow> validation_failure + AgentAction"
  tn_digest :: "json \<Rightarrow> string"
  tn_online_safe :: bool

text \<open>The identifiers and the time that one turn draws.\<close>

record turn_ids =
  tu_now :: int
  tu_iteration :: string
  tu_llm_call :: string
  tu_action :: string
  tu_decision :: string
  tu_policy :: string
  tu_execution :: string
  tu_artifact :: string

record IterationResult =
  ti_iteration_id :: string
  ti_action_id :: "string option"
  ti_tool_result :: "ToolDispatchResult option"
  ti_paused :: bool
  ti_feedback :: "string option"
  ti_feedback_artifact_ref :: "string option"

definition publish_stage :: "string \<Rightarrow> string \<Rightarrow> string option \<Rightarrow> 'x agent_state \<Rightarrow> 'x agent_state" where
  "publish_stage stage status detail st = st\<lparr>as_stages := as_stages st @ [(stage, status, detail)]\<rparr>"

definition with_db :: "(db \<Rightarrow> db) \<Rightarrow> 'x agent_state \<Rightarrow> 'x agent_state" where
  "with_db f st = st\<lparr>as_db := f (as_db st)\<rparr>"

subsection \<open>Texts of the prompt and of the artifact\<close>

text \<open>
  The catalog of the tools. The names in the generated schema of the actions are a parameter; a caret in the
  literals stands for a double quote.
\<close>

definition dquote :: "string \<Rightarrow> string" where
  "dquote s = map (\<lambda>c. if c = CHR ''^'' then CHR 0x22 else c) s"

definition tool_catalog_text :: "ToolRegistry \<Rightarrow> string list \<Rightarrow> string" where
  "tool_catalog_text registry action_defs = join [CHR 0x0A]
     ([''Registered production AgentAction tools. Return exactly one schema-valid action.'',
       ''READ_FILE: read repository source context only. parameters: path, start_line, end_line.'',
       ''SEARCH_CODE: locate repository evidence. parameters: query. '' @
         ''Result includes match path, line, and excerpt.'',
       ''APPLY_PATCH: canonical tool for modifying an existing file. parameters: '' @
         ''relative_path, optional expected_sha256, replacements[{old,new}]. '' @
         ''Use it once enough evidence identifies the exact edit. Include optional '' @
         ''target_evidence with selected_path, selected_excerpt, user_target_description, '' @
         ''matched_semantic_evidence, alternative_candidates, and selection_reason when '' @
         ''multiple literal matches exist.'',
       ''CREATE_FILE: canonical write tool for adding a new file. parameters: path, content.'',
       ''DELETE_FILE: canonical write tool for deleting a file. parameters: path.'',
       ''RUN_COMMAND: validation or read-only inspection command only. '' @
         ''Do not use RUN_COMMAND for text replacement, file creation, deletion, '' @
         ''sed/perl/python rewrite scripts, or any code modification.'',
       ''Registered tool names: '' @ join '', '' (sorted_set (map ts_name (list_specs registry))),
       dquote (''Schema-correct APPLY_PATCH example: {^action_type^:^APPLY_PATCH^,'' @
         ''^parameters^:{^relative_path^:^frontend/src/example.tsx^,^expected_sha256^:null,'' @
         ''^replacements^:[{^old^:^old text^,^new^:^new text^}],'' @
         ''^target_evidence^:{^selected_path^:^frontend/src/example.tsx^,'' @
         ''^selected_excerpt^:^old text^,^user_target_description^:^requested UI location^,'' @
         ''^matched_semantic_evidence^:[^navigation^],^alternative_candidates^:[],'' @
         ''^selection_reason^:^Selected path matches the requested UI role.^}},'' @
         ''^reason^:^Apply the confirmed code change after reading the target file.^}'')] @
      (if action_defs = [] then []
       else [''Canonical action schema definitions: '' @
         join '', '' (filter (\<lambda>name. endswith name ''Action'') (sort action_defs))]))"

definition execution_policy_text :: "string \<Rightarrow> string \<Rightarrow> string" where
  "execution_policy_text goal feedback = join [CHR 0x0A]
     [''You are executing an already confirmed coding change.'',
      ''requires_code_change=true'',
      ''A coding task is not complete until a real FileChange exists.'',
      ''Use READ_FILE or SEARCH_CODE only to gather evidence required for the edit.'',
      ''Once sufficient evidence exists, perform an allowed WRITE action: APPLY_PATCH, CREATE_FILE, or DELETE_FILE.'',
      ''Do not stop after investigation, and do not use RUN_COMMAND to perform source edits.'',
      ''The execution goal below includes the original request, confirmed proposal, '' @
        ''allowed write scope, and live progress counters.'',
      goal,
      ''Current feedback:'',
      feedback]"

definition turn_context :: "'x turn_env \<Rightarrow> string \<Rightarrow> string \<Rightarrow> ContextPackage" where
  "turn_context env goal feedback =
     (let item = (\<lambda>i sec t prio label. \<lparr>ci_item_id = i, ci_section = sec, ci_text = t, ci_priority = prio,
            ci_trust_label = label\<rparr>)
      in build_context (tn_max_chars env) goal
           [item ''governance'' ''governance'' ''governance required'' 100 TrustLabel.SYSTEM,
            item ''tool-catalog'' ''tools'' (tool_catalog_text (tn_registry env) (tn_action_defs env)) 100 TrustLabel.SYSTEM]
           (item ''policy'' ''policy'' (execution_policy_text goal feedback) 95 TrustLabel.SYSTEM)
           (item ''feedback'' ''feedback'' feedback 90 TOOL_OUTPUT) [] [])"

text \<open>\<^verbatim>\<open>(?i)(authorization|api[-_ ]?key|bearer)\s*[:=]\s*\S+\<close> and its replacement.\<close>

definition header_rewriter :: rewriter where
  "header_rewriter prev s =
     (case keyword_here [''authorization'', ''api-key'', ''api_key'', ''api key'', ''apikey'', ''bearer''] s of
        None \<Rightarrow> None
      | Some (kw, rest) \<Rightarrow>
          (case dropWhile is_space rest of
             [] \<Rightarrow> None
           | c # cs \<Rightarrow>
               (let after = dropWhile is_space cs
                in if c \<in> set '':='' \<and> after \<noteq> []
                   then Some (kw @ '': ***'', dropWhile (\<lambda>x. \<not> is_space x) after) else None)))"

definition sanitize_provider_text :: "string \<Rightarrow> string" where
  "sanitize_provider_text text =
     take 8192 (re_sub_at header_rewriter None (re_sub (run_match [''sk-''] key_char 1) ''sk-***'' text))"

definition parse_failure_summary :: "string \<Rightarrow> string \<Rightarrow> string \<Rightarrow> string" where
  "parse_failure_summary response_content message artifact_ref =
     take 2048 (show_nat (length response_content) @ '' chars; parser_error='' @ message @ ''; artifact='' @ artifact_ref)"

subsection \<open>Actions as rows and as JSON\<close>

fun action_type_of :: "AgentAction \<Rightarrow> ActionType" where
  "action_type_of (ReadFileAction _ _ _ _) = ActionType.READ_FILE"
| "action_type_of (SearchCodeAction _ _) = ActionType.SEARCH_CODE"
| "action_type_of (ApplyPatchAction _ _) = ActionType.APPLY_PATCH"
| "action_type_of (CreateFileAction _ _ _) = ActionType.CREATE_FILE"
| "action_type_of (DeleteFileAction _ _) = ActionType.DELETE_FILE"
| "action_type_of (RunCommandAction _ _ _) = ActionType.RUN_COMMAND"

definition patch_json :: "StructuredPatchPayload \<Rightarrow> json" where
  "patch_json p = JObj [(''expected_sha256'', opt_json (sy_expected_sha256 p)),
     (''relative_path'', JStr (sy_relative_path p)),
     (''replacements'', JList (map (\<lambda>r. JObj [(''new'', JStr (px_new r)), (''old'', JStr (px_old r))]) (sy_replacements p))),
     (''target_evidence'', (case sy_target_evidence p of None \<Rightarrow> JNull | Some kvs \<Rightarrow> JObj kvs))]"

fun parameters_json :: "AgentAction \<Rightarrow> json" where
  "parameters_json (ReadFileAction path a b _) =
     JObj [(''end_line'', JInt b), (''path'', JStr path), (''start_line'', JInt a)]"
| "parameters_json (SearchCodeAction query _) = JObj [(''query'', JStr query)]"
| "parameters_json (ApplyPatchAction p _) = patch_json p"
| "parameters_json (CreateFileAction path content _) = JObj [(''content'', JStr content), (''path'', JStr path)]"
| "parameters_json (DeleteFileAction path _) = JObj [(''path'', JStr path)]"
| "parameters_json (RunCommandAction program args _) =
     JObj [(''args'', JList (map JStr args)), (''program'', JStr program)]"

fun action_reason :: "AgentAction \<Rightarrow> string" where
  "action_reason (ReadFileAction _ _ _ r) = r"
| "action_reason (SearchCodeAction _ r) = r"
| "action_reason (ApplyPatchAction _ r) = r"
| "action_reason (CreateFileAction _ _ r) = r"
| "action_reason (DeleteFileAction _ r) = r"
| "action_reason (RunCommandAction _ _ r) = r"

definition action_json :: "AgentAction \<Rightarrow> json" where
  "action_json a = JObj [(''action_type'', JStr (action_type_str (action_type_of a))),
     (''parameters'', parameters_json a), (''reason'', JStr (action_reason a))]"

fun changed_paths :: "AgentAction \<Rightarrow> string list" where
  "changed_paths (ApplyPatchAction p _) = (if sy_relative_path p \<noteq> [] then [sy_relative_path p] else [])"
| "changed_paths a = (case action_path a of None \<Rightarrow> [] | Some p \<Rightarrow> if p \<noteq> [] then [p] else [])"

subsection \<open>The steps of a turn\<close>

definition new_iteration :: "string \<Rightarrow> string \<Rightarrow> db \<Rightarrow> TaskIteration" where
  "new_iteration new_id task_id d =
     \<lparr>it_id = new_id, it_task_id = task_id,
      it_iteration_number = max_or_0 (map it_iteration_number (filter (\<lambda>i. it_task_id i = task_id) (iterations d))) + 1,
      it_phase = TaskIterationPhase.EXECUTE, it_context_token_count = None, it_result = None\<rparr>"

definition create_iteration :: "string \<Rightarrow> string \<Rightarrow> db \<Rightarrow> db" where
  "create_iteration new_id task_id d = d\<lparr>iterations := iterations d @ [new_iteration new_id task_id d]\<rparr>"

definition set_iteration :: "string \<Rightarrow> (TaskIteration \<Rightarrow> TaskIteration) \<Rightarrow> db \<Rightarrow> db" where
  "set_iteration i f d = d\<lparr>iterations := set_row it_id i f (iterations d)\<rparr>"

definition set_action :: "string \<Rightarrow> (AgentActionRow \<Rightarrow> AgentActionRow) \<Rightarrow> db \<Rightarrow> db" where
  "set_action i f d = d\<lparr>actions := set_row ac_id i f (actions d)\<rparr>"

definition set_llm_call :: "string \<Rightarrow> (LLMCall \<Rightarrow> LLMCall) \<Rightarrow> db \<Rightarrow> db" where
  "set_llm_call i f d = d\<lparr>llm_calls := set_row lc_id i f (llm_calls d)\<rparr>"

definition record_llm_call :: "turn_ids \<Rightarrow> string \<Rightarrow> LLMResponse \<Rightarrow> db \<Rightarrow> db" where
  "record_llm_call ids goal response d =
     d\<lparr>llm_calls := llm_calls d @ [\<lparr>lc_id = tu_llm_call ids, lc_iteration_id = tu_iteration ids,
        lc_provider_name = ls_provider response, lc_model_name = ls_model response, lc_request_summary = Some goal,
        lc_response_summary = Some (show_nat (length (ls_content response)) @ '' chars''),
        lc_input_tokens = ls_input_tokens response, lc_output_tokens = ls_output_tokens response,
        lc_compression_count = 0, lc_status = LLMCallStatus.SUCCESS, lc_retry_count = 0, lc_latency_ms = None,
        lc_error_code = None, lc_parse_status = ParseStatus.VALID\<rparr>]\<rparr>"

text \<open>Both ways in which an answer is not an action: the call and the iteration are marked, an artifact keeps the
  sanitised answer, and the turn ends with the message as feedback.\<close>

definition reject_turn ::
    "'x turn_env \<Rightarrow> turn_ids \<Rightarrow> string \<Rightarrow> string \<Rightarrow> string \<Rightarrow> string \<Rightarrow> string option \<Rightarrow> 'x agent_state \<Rightarrow>
     'x agent_state \<times> IterationResult result" where
  "reject_turn env ids task_id content parser_error message feedback st =
     (let artifact_ref = tn_artifact_root env @ ''/'' @ task_id @ ''/'' @ tu_iteration ids @ ''-'' @ tu_artifact ids @ ''.json'';
          artifact = JObj [(''iteration_id'', JStr (tu_iteration ids)), (''llm_call_id'', JStr (tu_llm_call ids)),
            (''parser_error'', JStr parser_error), (''sanitized_response'', JStr (sanitize_provider_text content)),
            (''task_id'', JStr task_id)];
          mark = (\<lambda>d. set_llm_call (tu_llm_call ids) (\<lambda>c. c\<lparr>lc_parse_status := ParseStatus.INVALID,
            lc_response_summary := Some (parse_failure_summary content message artifact_ref)\<rparr>)
            (set_iteration (tu_iteration ids) (\<lambda>i. i\<lparr>it_result := Some TaskIterationResult.ERROR\<rparr>) d))
      in ((with_db mark st)\<lparr>as_artifacts := as_artifacts st @ [(artifact_ref, artifact)]\<rparr>,
          Inr \<lparr>ti_iteration_id = tu_iteration ids, ti_action_id = None, ti_tool_result = None, ti_paused = True,
            ti_feedback = feedback, ti_feedback_artifact_ref = Some artifact_ref\<rparr>))"

definition record_action :: "turn_ids \<Rightarrow> string \<Rightarrow> AgentAction \<Rightarrow> db \<Rightarrow> db" where
  "record_action ids task_id action d =
     (let next_sequence = max_or_0 (map ac_action_sequence
            (filter (\<lambda>a. ac_iteration_id a = tu_iteration ids) (actions d))) + 1
      in d\<lparr>actions := actions d @ [\<lparr>ac_id = tu_action ids, ac_task_id = task_id, ac_iteration_id = tu_iteration ids,
           ac_llm_call_id = Some (tu_llm_call ids), ac_action_sequence = next_sequence,
           ac_action_type = action_type_of action, ac_parameters_summary = JText (action_json action),
           ac_parameters_artifact_ref = None, ac_schema_version = ''v1'', ac_parse_status = ParseStatus.VALID,
           ac_risk_level = Some RiskLevel.LOW, ac_status = AgentActionStatus.GOVERNING,
           ac_idempotency_key = tu_iteration ids @ '':'' @ show_int next_sequence, ac_created_at = tu_now ids\<rparr>]\<rparr>)"

definition execution_commands :: "bool \<Rightarrow> string list" where
  "execution_commands online_safe = (if online_safe then [''APPLY_APPROVED_CHANGES''] else [''RUN_COMMAND''])"

definition activate_action_policy ::
    "bool \<Rightarrow> string \<Rightarrow> string \<Rightarrow> string list \<Rightarrow> db \<Rightarrow> unit action_result" where
  "activate_action_policy online_safe new_id governance_decision_id paths d =
     (if paths = [] then (d, Inr ())
      else case get_decision d governance_decision_id of
             None \<Rightarrow> (d, Inr ())
           | Some decision \<Rightarrow>
               if find (active_policy_of (gd_task_id decision)) (policies d) \<noteq> None then (d, Inr ())
               else (case compile new_id governance_decision_id paths paths (execution_commands online_safe) []
                       (JObj []) (JObj []) d of
                       (d', Inl e) \<Rightarrow> (d', Inl e)
                     | (d', Inr policy) \<Rightarrow>
                         (update_task (ep_task_id policy) (\<lambda>t. t\<lparr>tk_active_policy_id := Some (ep_id policy)\<rparr>) d', Inr ())))"

text \<open>The dispatch of a governed action and the rows it leaves.\<close>

definition dispatch_action ::
    "'x turn_env \<Rightarrow> turn_ids \<Rightarrow> string \<Rightarrow> ContextPackage \<Rightarrow> AgentAction \<Rightarrow> 'x agent_state \<Rightarrow>
     'x agent_state \<times> IterationResult result" where
  "dispatch_action env ids task_id ctx action st =
     (let tool_name = action_type_str (action_type_of action)
      in case map_of (tn_handlers env) tool_name of
           None \<Rightarrow> (st, Inl (KeyError tool_name))
         | Some handler \<Rightarrow>
             (let enforce = (\<lambda>d. case map_of (tn_enforcers env) tool_name of None \<Rightarrow> Flag True | Some f \<Rightarrow> f action d);
                  st1 = publish_stage ''TOOL_DISPATCHED'' ''OK''
                    (Some (''action_id='' @ tu_action ids @ '' tool='' @ tool_name)) st
              in case dispatch_tool (tu_now ids) (tu_execution ids) (tn_registry env) task_id (tu_action ids) tool_name
                     (action_json action) (\<lambda>d. enforcement_allowed (enforce d)) (Some (\<lambda>d. enforcement_text (enforce d)))
                     (handler action) (as_db st1, as_ext st1) of
                   ((d2, x2), tool_result) \<Rightarrow>
                     (let d3 = set_action (tu_action ids) (\<lambda>a. a\<lparr>ac_status :=
                            (if dr_error_code tool_result = None then AgentActionStatus.SUCCEEDED
                             else AgentActionStatus.FAILED)\<rparr>) d2;
                          d4 = set_iteration (tu_iteration ids) (\<lambda>i. i\<lparr>it_context_token_count :=
                            Some (estimate_tokens (render ctx)), it_result := Some TaskIterationResult.PROGRESS\<rparr>) d3
                      in (st1\<lparr>as_db := d4, as_ext := x2\<rparr>,
                          Inr \<lparr>ti_iteration_id = tu_iteration ids, ti_action_id = Some (tu_action ids),
                            ti_tool_result = Some tool_result, ti_paused = False, ti_feedback = None,
                            ti_feedback_artifact_ref = None\<rparr>))))"

text \<open>Recording, governing and, where allowed, executing a parsed action.\<close>

definition govern_action ::
    "'x turn_env \<Rightarrow> turn_ids \<Rightarrow> string \<Rightarrow> string \<Rightarrow> string \<Rightarrow> ContextPackage \<Rightarrow> AgentAction \<Rightarrow> 'x agent_state \<Rightarrow>
     'x agent_state \<times> IterationResult result" where
  "govern_action env ids task_id proposal_hash revision ctx action st =
     (let st1 = with_db (record_action ids task_id action) st
      in case evaluate (tn_digest env) (tu_decision ids) task_id (Some (tu_action ids)) proposal_hash revision
             (tn_rules env) (changed_paths action) GovernanceVerdict.ALLOW None (as_db st1) of
           (d2, Inl e) \<Rightarrow> (st1\<lparr>as_db := d2\<rparr>, Inl e)
         | (d2, Inr decision) \<Rightarrow>
             if gd_decision decision \<noteq> GovernanceVerdict.ALLOW
             then
               let d3 = set_iteration (tu_iteration ids) (\<lambda>i. i\<lparr>it_result := Some TaskIterationResult.NO_PROGRESS\<rparr>)
                     (set_action (tu_action ids) (\<lambda>a. a\<lparr>ac_status :=
                        (if gd_decision decision = GovernanceVerdict.WARN then AgentActionStatus.WAITING_APPROVAL
                         else AgentActionStatus.BLOCKED)\<rparr>) d2)
               in (st1\<lparr>as_db := d3\<rparr>,
                   Inr \<lparr>ti_iteration_id = tu_iteration ids, ti_action_id = Some (tu_action ids), ti_tool_result = None,
                     ti_paused = True, ti_feedback = Some (''governance decision '' @ verdict_str (gd_decision decision)),
                     ti_feedback_artifact_ref = None\<rparr>)
             else
               let d3 = set_action (tu_action ids) (\<lambda>a. a\<lparr>ac_status := AgentActionStatus.EXECUTING\<rparr>) d2
               in (case activate_action_policy (tn_online_safe env) (tu_policy ids) (gd_id decision)
                      (changed_paths action) d3 of
                    (d4, Inl e) \<Rightarrow> (st1\<lparr>as_db := d4\<rparr>, Inl e)
                  | (d4, Inr _) \<Rightarrow> dispatch_action env ids task_id ctx action (st1\<lparr>as_db := d4\<rparr>)))"

text \<open>
  What follows the model's answer. \<^verbatim>\<open>json.loads\<close> gives \<^verbatim>\<open>None\<close> for the text \<^verbatim>\<open>null\<close>, which is handled as an answer
  that does not parse, but without a parser message.
\<close>

definition handle_payload ::
    "'x turn_env \<Rightarrow> turn_ids \<Rightarrow> string \<Rightarrow> string \<Rightarrow> string \<Rightarrow> ContextPackage \<Rightarrow> string \<Rightarrow> json \<Rightarrow> 'x agent_state \<Rightarrow>
     'x agent_state \<times> IterationResult result" where
  "handle_payload env ids task_id proposal_hash revision ctx content payload st =
     (let parsed = parse_action (tn_validate env) payload
      in case pa_action parsed of
           None \<Rightarrow>
             (let message = (case pa_feedback parsed of None \<Rightarrow> ''invalid agent action'' | Some f \<Rightarrow> ab_message f)
              in reject_turn env ids task_id content
                   (case pa_error_detail parsed of None \<Rightarrow> message | Some e \<Rightarrow> if e = [] then message else e)
                   message (Some message) st)
         | Some action \<Rightarrow> govern_action env ids task_id proposal_hash revision ctx action st)"

definition handle_response ::
    "'x turn_env \<Rightarrow> turn_ids \<Rightarrow> string \<Rightarrow> string \<Rightarrow> string \<Rightarrow> ContextPackage \<Rightarrow> string \<Rightarrow> 'x agent_state \<Rightarrow>
     'x agent_state \<times> IterationResult result" where
  "handle_response env ids task_id proposal_hash revision ctx content st =
     (case tn_loads env content of
        Inl pos \<Rightarrow>
          (let parse_error = ''invalid agent action: malformed JSON at character '' @ show_nat pos
           in reject_turn env ids task_id content parse_error parse_error (Some parse_error) st)
      | Inr payload \<Rightarrow>
          if payload = JNull
          then reject_turn env ids task_id content ''malformed JSON'' ''malformed JSON'' None st
          else handle_payload env ids task_id proposal_hash revision ctx content payload st)"

definition run_turn ::
    "'x turn_env \<Rightarrow> turn_ids \<Rightarrow> string \<Rightarrow> string \<Rightarrow> string \<Rightarrow> string \<Rightarrow> string \<Rightarrow> 'x agent_state \<Rightarrow>
     'x agent_state \<times> IterationResult result" where
  "run_turn env ids task_id proposal_hash revision goal feedback st =
     (if get_row tk_id task_id (tasks (as_db st)) = None then (st, Inl (ValueError ''task not found''))
      else
        let number = it_iteration_number (new_iteration (tu_iteration ids) task_id (as_db st));
            st1 = publish_stage ''LLM_REQUESTED'' ''OK'' (Some (''iteration_id='' @ tu_iteration ids))
              (with_db (create_iteration (tu_iteration ids) task_id) st);
            ctx = turn_context env goal feedback
        in case budgeted_complete (tn_provider env number) task_id ctx \<lparr>lq_prompt_summary = goal, lq_input_text = goal\<rparr>
               8192 512 128 (as_db st1) of
             (d2, Inl e) \<Rightarrow> (st1\<lparr>as_db := d2\<rparr>, Inl e)
           | (d2, Inr response) \<Rightarrow>
               handle_response env ids task_id proposal_hash revision ctx (ls_content response)
                 (publish_stage ''LLM_RESPONDED'' ''OK'' (Some (''iteration_id='' @ tu_iteration ids))
                    (st1\<lparr>as_db := record_llm_call ids goal response d2\<rparr>)))"

subsection \<open>What a turn may do\<close>

named_theorems turn_frame \<open>what the steps of a turn leave alone\<close>

lemma update_task_frame [turn_frame]:
  "executions (update_task t f d) = executions d" "policies (update_task t f d) = policies d"
  "decisions (update_task t f d) = decisions d" "file_changes (update_task t f d) = file_changes d"
  "actions (update_task t f d) = actions d" "iterations (update_task t f d) = iterations d"
  by (simp_all add: update_task_def)

lemma row_updates_frame [turn_frame]:
  "executions (set_iteration i f d) = executions d" "executions (set_action j g d) = executions d"
  "executions (set_llm_call k h d) = executions d" "executions (record_llm_call ids goal resp d) = executions d"
  "executions (create_iteration i t d) = executions d" "executions (record_action ids t a d) = executions d"
  "file_changes (set_iteration i f d) = file_changes d" "file_changes (set_action j g d) = file_changes d"
  "file_changes (set_llm_call k h d) = file_changes d" "file_changes (record_llm_call ids goal resp d) = file_changes d"
  "file_changes (create_iteration i t d) = file_changes d" "file_changes (record_action ids t a d) = file_changes d"
  "decisions (set_action j g d) = decisions d" "tasks (create_iteration i t d) = tasks d"
  by (simp_all add: set_iteration_def set_action_def set_llm_call_def record_llm_call_def create_iteration_def
      record_action_def Let_def)

lemma state_frame [turn_frame]:
  "as_ext (publish_stage a b c st) = as_ext st" "as_db (publish_stage a b c st) = as_db st"
  "as_ext (with_db f st) = as_ext st" "as_db (with_db f st) = f (as_db st)"
  by (simp_all add: publish_stage_def with_db_def)

lemma pause_task_frame: "pause_task t e d = (d', r) \<Longrightarrow> executions d' = executions d \<and> file_changes d' = file_changes d"
  by (auto simp: pause_task_def turn_frame split: option.splits)

lemma budgeted_complete_frame:
  "budgeted_complete pr t pkg req n a b d = (d', r) \<Longrightarrow> executions d' = executions d \<and> file_changes d' = file_changes d"
  by (auto simp: budgeted_complete_def Let_def dest: pause_task_frame split: prod.splits sum.splits if_splits)

lemma compile_frame: "compile i g rs ws cs ps net lim d = (d', r) \<Longrightarrow> executions d' = executions d \<and> file_changes d' = file_changes d \<and> decisions d' = decisions d"
  by (auto simp: compile_def Let_def split: option.splits sum.splits)

lemma activate_frame:
  "activate_action_policy o' i g ps d = (d', r) \<Longrightarrow>
     executions d' = executions d \<and> file_changes d' = file_changes d \<and> decisions d' = decisions d"
  by (auto simp: activate_action_policy_def turn_frame dest: compile_frame split: option.splits prod.splits sum.splits if_splits)

text \<open>A step that stops the turn before any tool: the world, the executions and the file changes are as before.\<close>

definition no_tool :: "'x agent_state \<Rightarrow> 'x agent_state \<times> IterationResult result \<Rightarrow> bool" where
  "no_tool st out \<longleftrightarrow> as_ext (fst out) = as_ext st \<and> executions (as_db (fst out)) = executions (as_db st) \<and>
     file_changes (as_db (fst out)) = file_changes (as_db st) \<and>
     (case snd out of Inl _ \<Rightarrow> True | Inr res \<Rightarrow> ti_tool_result res = None \<and> ti_paused res)"

lemma reject_turn_no_tool: "no_tool st (reject_turn env ids t content e m fb st)"
  by (simp add: no_tool_def reject_turn_def Let_def turn_frame)

lemma decision_row_allow:
  "gd_decision (decision_row dg i t a ph revision rls cps GovernanceVerdict.ALLOW None) = GovernanceVerdict.ALLOW \<longleftrightarrow>
     (\<forall>r \<in> set (matched_rules rls cps). rd_effect r = GovernanceRuleEffect.ALLOW)"
proof -
  obtain verdict risk approval reason allowed denied where
    v: "decide_verdict (matched_rules rls cps) cps GovernanceVerdict.ALLOW None =
      (verdict, risk, approval, reason, allowed, denied)"
    by (cases "decide_verdict (matched_rules rls cps) cps GovernanceVerdict.ALLOW None")
  then have "gd_decision (decision_row dg i t a ph revision rls cps GovernanceVerdict.ALLOW None) = verdict"
    by (simp add: decision_row_def Let_def)
  with v show ?thesis by (cases rule: decide_verdict_cases) fastforce+
qed

text \<open>The dispatch of an action that governance allows: the handler sees a database with its decision.\<close>

definition dispatched ::
    "'x turn_env \<Rightarrow> turn_ids \<Rightarrow> string \<Rightarrow> AgentAction \<Rightarrow> db \<Rightarrow> 'x agent_state \<Rightarrow> 'x agent_state \<times> IterationResult result \<Rightarrow> bool" where
  "dispatched env ids t action d st out \<longleftrightarrow>
     (\<exists>handler enforcer reason res tool_result d2.
        map_of (tn_handlers env) (action_type_str (action_type_of action)) = Some handler \<and>
        dispatch_tool (tu_now ids) (tu_execution ids) (tn_registry env) t (tu_action ids)
          (action_type_str (action_type_of action)) (action_json action) enforcer reason (handler action) (d, as_ext st) =
          ((d2, as_ext (fst out)), tool_result) \<and>
        executions (as_db (fst out)) = executions d2 \<and> file_changes (as_db (fst out)) = file_changes d2 \<and>
        snd out = Inr res \<and> ti_tool_result res = Some tool_result \<and> \<not> ti_paused res)"

lemma dispatch_action_cases:
  "no_tool st (dispatch_action env ids t ctx action st) \<or>
   dispatched env ids t action (as_db st) st (dispatch_action env ids t ctx action st)"
  by (cases "map_of (tn_handlers env) (action_type_str (action_type_of action))")
     (auto simp: dispatch_action_def dispatched_def no_tool_def Let_def turn_frame split: prod.splits)

text \<open>An action that governance allows, with the canonical paths it was judged on.\<close>

definition governed_allow :: "'x turn_env \<Rightarrow> AgentAction \<Rightarrow> bool" where
  "governed_allow env action \<longleftrightarrow> (\<exists>cps. canonical_project_paths (changed_paths action) = Inr cps \<and>
     (\<forall>r \<in> set (matched_rules (tn_rules env) cps). rd_effect r = GovernanceRuleEffect.ALLOW))"

lemma no_tool_trans:
  "as_ext st1 = as_ext st \<Longrightarrow> executions (as_db st1) = executions (as_db st) \<Longrightarrow> file_changes (as_db st1) = file_changes (as_db st) \<Longrightarrow>
   no_tool st1 out \<Longrightarrow> no_tool st out"
  by (simp add: no_tool_def)

lemma dispatched_trans: "as_ext st1 = as_ext st \<Longrightarrow> dispatched env ids t a d st1 out \<Longrightarrow> dispatched env ids t a d st out"
  by (simp add: dispatched_def)

lemma govern_action_cases:
  "no_tool st (govern_action env ids t ph revision ctx action st) \<or>
   governed_allow env action \<and>
     (\<exists>d. dispatched env ids t action d st (govern_action env ids t ph revision ctx action st) \<and>
        (\<exists>dec \<in> set (decisions d). gd_id dec = tu_decision ids \<and> gd_action_id dec = Some (tu_action ids) \<and>
           gd_decision dec = GovernanceVerdict.ALLOW))"
proof (cases "canonical_project_paths (changed_paths action)")
  case (Inl e)
  then show ?thesis by (simp add: govern_action_def Let_def evaluate_def no_tool_def turn_frame)
next
  case (Inr cps)
  let ?st1 = "with_db (record_action ids t action) st"
  let ?dec = "decision_row (tn_digest env) (tu_decision ids) t (Some (tu_action ids)) ph revision (tn_rules env) cps
      GovernanceVerdict.ALLOW None"
  let ?d2 = "(as_db ?st1)\<lparr>decisions := decisions (as_db ?st1) @ [?dec]\<rparr>"
  have ev: "evaluate (tn_digest env) (tu_decision ids) t (Some (tu_action ids)) ph revision (tn_rules env)
      (changed_paths action) GovernanceVerdict.ALLOW None (as_db ?st1) = (?d2, Inr ?dec)"
    using Inr by (simp add: evaluate_def Let_def)
  show ?thesis
  proof (cases "gd_decision ?dec = GovernanceVerdict.ALLOW")
    case False
    then have "no_tool st (govern_action env ids t ph revision ctx action st)"
      unfolding govern_action_def Let_def ev by (simp add: no_tool_def turn_frame)
    then show ?thesis ..
  next
    case True
    let ?d3 = "set_action (tu_action ids) (\<lambda>a. a\<lparr>ac_status := AgentActionStatus.EXECUTING\<rparr>) ?d2"
    obtain d4 r4 where a: "activate_action_policy (tn_online_safe env) (tu_policy ids) (gd_id ?dec) (changed_paths action) ?d3 = (d4, r4)"
      by (metis prod.collapse)
    note f = activate_frame [OF a, unfolded turn_frame]
    have out: "govern_action env ids t ph revision ctx action st =
        (case r4 of Inl e \<Rightarrow> (?st1\<lparr>as_db := d4\<rparr>, Inl e) | Inr _ \<Rightarrow> dispatch_action env ids t ctx action (?st1\<lparr>as_db := d4\<rparr>))"
      using True unfolding govern_action_def Let_def ev by (simp add: a)
    have allow: "governed_allow env action"
      using Inr True decision_row_allow unfolding governed_allow_def by blast
    have dec: "?dec \<in> set (decisions d4)" "gd_id ?dec = tu_decision ids" "gd_action_id ?dec = Some (tu_action ids)"
      using f by (simp_all add: decision_row_def Let_def split: prod.splits)
    have same: "as_ext (?st1\<lparr>as_db := d4\<rparr>) = as_ext st" "executions (as_db (?st1\<lparr>as_db := d4\<rparr>)) = executions (as_db st)"
        "file_changes (as_db (?st1\<lparr>as_db := d4\<rparr>)) = file_changes (as_db st)"
      using f by (simp_all add: turn_frame)
    show ?thesis
    proof (cases r4)
      case (Inl e)
      then show ?thesis using out same by (simp add: no_tool_def)
    next
      case (Inr u)
      with out dispatch_action_cases [of "?st1\<lparr>as_db := d4\<rparr>" env ids t ctx action]
      consider "no_tool (?st1\<lparr>as_db := d4\<rparr>) (govern_action env ids t ph revision ctx action st)"
        | "dispatched env ids t action d4 (?st1\<lparr>as_db := d4\<rparr>) (govern_action env ids t ph revision ctx action st)"
        by auto
      then show ?thesis
        using no_tool_trans [OF same] dispatched_trans [OF same(1)] allow dec True by cases blast+
    qed
  qed
qed

lemma handle_payload_cases:
  "no_tool st (handle_payload env ids t ph revision ctx content payload st) \<or>
   (\<exists>action. pa_action (parse_action (tn_validate env) payload) = Some action \<and> governed_allow env action \<and>
     (\<exists>d. dispatched env ids t action d st (handle_payload env ids t ph revision ctx content payload st) \<and>
        (\<exists>dec \<in> set (decisions d). gd_id dec = tu_decision ids \<and> gd_action_id dec = Some (tu_action ids) \<and>
           gd_decision dec = GovernanceVerdict.ALLOW)))"
proof (cases "pa_action (parse_action (tn_validate env) payload)")
  case None
  then show ?thesis by (simp add: handle_payload_def Let_def reject_turn_no_tool)
next
  case (Some action)
  then show ?thesis
    using govern_action_cases [of st env ids t ph revision ctx action] by (simp add: handle_payload_def Let_def)
qed

lemma handle_response_cases:
  "no_tool st (handle_response env ids t ph revision ctx content st) \<or>
   (\<exists>payload action. pa_action (parse_action (tn_validate env) payload) = Some action \<and> governed_allow env action \<and>
     (\<exists>d. dispatched env ids t action d st (handle_response env ids t ph revision ctx content st) \<and>
        (\<exists>dec \<in> set (decisions d). gd_id dec = tu_decision ids \<and> gd_action_id dec = Some (tu_action ids) \<and>
           gd_decision dec = GovernanceVerdict.ALLOW)))"
proof (cases "tn_loads env content")
  case (Inl pos)
  then show ?thesis by (simp add: handle_response_def Let_def reject_turn_no_tool)
next
  case (Inr payload)
  show ?thesis
  proof (cases "payload = JNull")
    case True
    with Inr show ?thesis by (simp add: handle_response_def reject_turn_no_tool)
  next
    case False
    with Inr have "handle_response env ids t ph revision ctx content st =
        handle_payload env ids t ph revision ctx content payload st" by (simp add: handle_response_def)
    then show ?thesis using handle_payload_cases [of st env ids t ph revision ctx content payload] by metis
  qed
qed

lemma run_turn_cases:
  "no_tool st (run_turn env ids t ph revision goal fb st) \<or>
   (\<exists>payload action d. pa_action (parse_action (tn_validate env) payload) = Some action \<and> governed_allow env action \<and>
      dispatched env ids t action d st (run_turn env ids t ph revision goal fb st) \<and>
      (\<exists>dec. dec \<in> set (decisions d) \<and> gd_id dec = tu_decision ids \<and> gd_action_id dec = Some (tu_action ids) \<and>
         gd_decision dec = GovernanceVerdict.ALLOW))"
  (is "?P (run_turn env ids t ph revision goal fb st)")
proof (cases "get_row tk_id t (tasks (as_db st)) = None")
  case True
  then show ?thesis by (simp add: run_turn_def no_tool_def)
next
  case False
  define number where "number = it_iteration_number (new_iteration (tu_iteration ids) t (as_db st))"
  define st1 where "st1 = publish_stage ''LLM_REQUESTED'' ''OK'' (Some (''iteration_id='' @ tu_iteration ids))
      (with_db (create_iteration (tu_iteration ids) t) st)"
  define ctx where "ctx = turn_context env goal fb"
  obtain d2 r2 where b: "budgeted_complete (tn_provider env number) t ctx \<lparr>lq_prompt_summary = goal, lq_input_text = goal\<rparr>
      8192 512 128 (as_db st1) = (d2, r2)" by (metis prod.collapse)
  have f1: "as_ext st1 = as_ext st" "executions d2 = executions (as_db st)" "file_changes d2 = file_changes (as_db st)"
    using budgeted_complete_frame [OF b] by (simp_all add: st1_def turn_frame)
  show ?thesis
  proof (cases r2)
    case (Inl e)
    then have "run_turn env ids t ph revision goal fb st = (st1\<lparr>as_db := d2\<rparr>, Inl e)"
      using False b unfolding run_turn_def Let_def number_def [symmetric] st1_def [symmetric] ctx_def [symmetric] by auto
    then show ?thesis using f1 by (simp add: no_tool_def)
  next
    case (Inr response)
    define st2 where "st2 = publish_stage ''LLM_RESPONDED'' ''OK'' (Some (''iteration_id='' @ tu_iteration ids))
        (st1\<lparr>as_db := record_llm_call ids goal response d2\<rparr>)"
    have f2: "as_ext st2 = as_ext st" "executions (as_db st2) = executions (as_db st)"
        "file_changes (as_db st2) = file_changes (as_db st)"
      using f1 by (simp_all add: st2_def turn_frame)
    have "run_turn env ids t ph revision goal fb st = handle_response env ids t ph revision ctx (ls_content response) st2"
      using False b Inr unfolding run_turn_def Let_def number_def [symmetric] st1_def [symmetric] ctx_def [symmetric] st2_def
      by auto
    then show ?thesis
      using handle_response_cases [of st2 env ids t ph revision ctx "ls_content response"] no_tool_trans [OF f2]
        dispatched_trans [OF f2(1)] by (metis (no_types, lifting))
  qed
qed


subsection \<open>A turn that reads\<close>

definition sample_turn_env :: "string turn_env" where
  "sample_turn_env = \<lparr>tn_artifact_root = ''/srv/.sementor/llm-parse-failures'', tn_max_chars = 9000, tn_action_defs = [],
     tn_registry = sample_registry, tn_rules = [],
     tn_handlers = [(''READ_FILE'', \<lambda>a s. (s, Inr None))], tn_enforcers = [],
     tn_provider = (\<lambda>n req. Inr \<lparr>ls_content = ''read'', ls_input_tokens = 1, ls_output_tokens = 1, ls_model = ''m'', ls_provider = ''p''\<rparr>),
     tn_loads = (\<lambda>s. if s = ''read'' then Inr (JObj []) else Inl 0),
     tn_validate = (\<lambda>_. Inr (ReadFileAction ''src/a.py'' 1 9 ''look'')), tn_digest = json_str, tn_online_safe = False\<rparr>"

definition sample_turn_ids :: turn_ids where
  "sample_turn_ids = \<lparr>tu_now = 5, tu_iteration = ''i1'', tu_llm_call = ''l1'', tu_action = ''a1'', tu_decision = ''d9'',
     tu_policy = ''p9'', tu_execution = ''e1'', tu_artifact = ''x1''\<rparr>"

definition sample_agent_state :: "string agent_state" where
  "sample_agent_state = \<lparr>as_db = empty_db\<lparr>tasks := [new_task ''t1'' sample_request]\<rparr>, as_ext = ''disk'', as_artifacts = [],
     as_stages = []\<rparr>"

text \<open>
  The policy that a turn activates grants writes to the paths of the action, whichever action it is: reading a file
  under no policy leaves an active executable policy that permits writing the file.
\<close>

theorem read_turn_grants_write:
  "let out = govern_action sample_turn_env sample_turn_ids ''t1'' ''p'' ''r''
       \<lparr>cp_goal = ''goal'', cp_items = [], cp_dropped = [], cp_char_count = 4\<rparr>
       (ReadFileAction ''src/a.py'' 1 9 ''look'') sample_agent_state in
   policies (as_db sample_agent_state) = [] \<and>
   map ac_action_type (actions (as_db (fst out))) = [ActionType.READ_FILE] \<and>
   map (\<lambda>p. (ep_status p, ep_executable p, ep_write_paths_json p)) (policies (as_db (fst out))) =
     [(ExecutionPolicyStatus.ACTIVE, True, json_dumps_strings [''src/a.py''])]"
  by code_simp

end
