(* ===== verification/Runtime.thy ===== *)
theory Runtime
  imports Turn
begin

section \<open>Runtime: the loop around the turns\<close>

text \<open>
  \<^verbatim>\<open>agent/runtime.py\<close>: the loop asks the runner for turns until a file has changed, a limit is reached, governance
  pauses or a tool fails. The runner is a parameter of the loop: what the turn of an iteration does to the state, given
  the rendered feedback; \<open>Turn.run_turn\<close> is the one it is used with. When another thread cancels the task is the
  parameter \<open>cancelled\<close>: the reason visible at the check that ends an iteration, if any. The transaction that is
  looked at is a function of the database and the world. The loop ends because its iterations are counted down.
\<close>

text \<open>The text of a summary: a returned object is dumped.\<close>

fun summary_text :: "dispatch_summary \<Rightarrow> string" where
  "summary_text (Plain s) = s"
| "summary_text (Details j) = json_dumps j"

subsection \<open>Results, limits and feedback\<close>

record RuntimeRunResult =
  rt_cancelled :: bool
  rt_safe_state :: string
  rt_next_options :: "string list"
  rt_terminal_state :: string
  rt_reason :: string

record RuntimePolicy =
  rp_max_iterations :: nat
  rp_max_parse_failures :: nat
  rp_max_stalled_iterations :: nat
  rp_max_read_only_corrections :: nat

definition default_policy :: RuntimePolicy where
  "default_policy = \<lparr>rp_max_iterations = 8, rp_max_parse_failures = 4, rp_max_stalled_iterations = 3,
     rp_max_read_only_corrections = 2\<rparr>"

record RuntimeFeedback =
  rf_source :: string
  rf_message :: string
  rf_value :: "json option"

definition render_feedback :: "RuntimeFeedback \<Rightarrow> string" where
  "render_feedback f =
     (case rf_value f of
        None \<Rightarrow> rf_source f @ '': '' @ rf_message f
      | Some v \<Rightarrow> rf_source f @ '': '' @ rf_message f @ ''. Value: '' @ json_dumps v)"

subsection \<open>Queries of the loop\<close>

definition file_change_rows :: "string \<Rightarrow> string option \<Rightarrow> db \<Rightarrow> FileChange list" where
  "file_change_rows task_id transaction_id d =
     filter (\<lambda>c. fc_task_id c = task_id \<and>
       (case transaction_id of None \<Rightarrow> True
        | Some x \<Rightarrow> list_ex (\<lambda>e. te_id e = fc_tool_execution_id c \<and> te_transaction_id e = Some x) (executions d)))
       (file_changes d)"

definition file_change_count :: "string \<Rightarrow> string option \<Rightarrow> db \<Rightarrow> nat" where
  "file_change_count task_id transaction_id d = length (file_change_rows task_id transaction_id d)"

definition changed_files :: "string \<Rightarrow> string option \<Rightarrow> db \<Rightarrow> string list" where
  "changed_files task_id transaction_id d = map fc_relative_path (file_change_rows task_id transaction_id d)"

definition write_tool_count :: "string \<Rightarrow> db \<Rightarrow> nat" where
  "write_tool_count task_id d = length (filter (\<lambda>e. te_task_id e = task_id \<and>
     te_tool_name e \<in> set [''APPLY_PATCH'', ''CREATE_FILE'', ''DELETE_FILE'']) (executions d))"

definition action_status_str :: "AgentActionStatus \<Rightarrow> string" where
  "action_status_str s = (case s of AgentActionStatus.PARSED \<Rightarrow> ''PARSED'' | AgentActionStatus.GOVERNING \<Rightarrow> ''GOVERNING''
     | AgentActionStatus.WAITING_APPROVAL \<Rightarrow> ''WAITING_APPROVAL'' | AgentActionStatus.APPROVED \<Rightarrow> ''APPROVED''
     | AgentActionStatus.REJECTED \<Rightarrow> ''REJECTED'' | AgentActionStatus.BLOCKED \<Rightarrow> ''BLOCKED''
     | AgentActionStatus.EXECUTING \<Rightarrow> ''EXECUTING'' | AgentActionStatus.SUCCEEDED \<Rightarrow> ''SUCCEEDED''
     | AgentActionStatus.FAILED \<Rightarrow> ''FAILED'' | AgentActionStatus.CANCELLED \<Rightarrow> ''CANCELLED'')"

definition extract_reason :: "json \<Rightarrow> json" where
  "extract_reason parameters =
     (case parameters of
        JObj kvs \<Rightarrow> (case map_of kvs ''reason'' of None \<Rightarrow> JNull | Some JNull \<Rightarrow> JNull | Some v \<Rightarrow> JStr (json_str v))
      | _ \<Rightarrow> JNull)"

text \<open>The snapshot of the latest action as a dictionary; rows are written with JSON parameters.\<close>

definition latest_action_snapshot :: "string \<Rightarrow> db \<Rightarrow> (string \<times> json) list" where
  "latest_action_snapshot task_id d =
     (case rev (sort_key (\<lambda>a. (ac_created_at a, ac_id a)) (filter (\<lambda>a. ac_task_id a = task_id) (actions d))) of
        [] \<Rightarrow> []
      | a # _ \<Rightarrow>
          (let parameters = (case json_loads (ac_parameters_summary a) of None \<Rightarrow> JStr [] | Some v \<Rightarrow> v)
           in [(''id'', JStr (ac_id a)), (''action_type'', JStr (action_type_str (ac_action_type a))),
               (''parameters'', parameters), (''reason'', extract_reason parameters),
               (''status'', JStr (action_status_str (ac_status a)))]))"

definition json_get :: "(string \<times> json) list \<Rightarrow> string \<Rightarrow> json" where
  "json_get kvs k = (case map_of kvs k of None \<Rightarrow> JNull | Some v \<Rightarrow> v)"

definition fingerprint :: "(string \<times> json) list \<Rightarrow> string" where
  "fingerprint snapshot = json_dumps (JObj [(''action_type'', json_get snapshot ''action_type''),
     (''parameters'', json_get snapshot ''parameters'')])"

text \<open>\<^verbatim>\<open>str(snapshot.get("action_type") or "")\<close>.\<close>

definition snapshot_action_type :: "(string \<times> json) list \<Rightarrow> string" where
  "snapshot_action_type snapshot = (case json_get snapshot ''action_type'' of JNull \<Rightarrow> [] | v \<Rightarrow> json_str v)"

definition is_write_action :: "string \<Rightarrow> bool" where
  "is_write_action a \<longleftrightarrow> a \<in> set [''APPLY_PATCH'', ''CREATE_FILE'', ''DELETE_FILE'']"

definition is_read_only_action :: "string \<Rightarrow> bool" where
  "is_read_only_action a \<longleftrightarrow> a \<in> set [''READ_FILE'', ''SEARCH_CODE'', ''RUN_COMMAND'']"

fun collect_paths :: "json \<Rightarrow> string list" where
  "collect_paths (JObj kvs) =
     concat (map (\<lambda>kv. case snd kv of
        JStr s \<Rightarrow> if fst kv \<in> set [''path'', ''relative_path''] then [s] else []
      | v \<Rightarrow> collect_paths v) kvs)"
| "collect_paths (JList xs) = concat (map collect_paths xs)"
| "collect_paths v = []"

text \<open>Truth of a value in \<^verbatim>\<open>x or y\<close>.\<close>

fun json_truth :: "json \<Rightarrow> bool" where
  "json_truth JNull = False"
| "json_truth (JBool b) = b"
| "json_truth (JInt i) = (i \<noteq> 0)"
| "json_truth (JStr s) = (s \<noteq> [])"
| "json_truth (JList xs) = (xs \<noteq> [])"
| "json_truth (JObj kvs) = (kvs \<noteq> [])"

definition excerpt_of :: "(string \<times> json) list \<Rightarrow> string" where
  "excerpt_of kvs = (if json_truth (json_get kvs ''excerpt'') then json_str (json_get kvs ''excerpt'')
     else if json_truth (json_get kvs ''content'') then json_str (json_get kvs ''content'') else [])"

fun summarize_tool_result :: "json \<Rightarrow> json" where
  "summarize_tool_result (JObj kvs) =
     (case map_of kvs ''matches'' of
        Some (JList ms) \<Rightarrow> JObj [(''match_count'', JInt (int (length ms))), (''matches'', JList (take 12 ms)),
          (''query'', json_get kvs ''query'')]
      | _ \<Rightarrow>
          if map_of kvs ''content'' \<noteq> None \<or> map_of kvs ''excerpt'' \<noteq> None
          then JObj [(''end_line'', json_get kvs ''end_line''), (''excerpt'', JStr (take 2500 (excerpt_of kvs))),
            (''path'', json_get kvs ''path''), (''sha256'', json_get kvs ''sha256''),
            (''start_line'', json_get kvs ''start_line''), (''truncated'', json_get kvs ''truncated'')]
          else JObj (map (\<lambda>kv. (fst kv, summarize_tool_result (snd kv))) kvs))"
| "summarize_tool_result (JList xs) = JList (take 12 (map summarize_tool_result xs))"
| "summarize_tool_result (JStr s) = JStr (take 2500 s)"
| "summarize_tool_result v = v"

definition is_target_grounding_error :: "string \<Rightarrow> bool" where
  "is_target_grounding_error summary = list_ex (\<lambda>code. py_in code summary)
     [''TARGET_MISMATCH'', ''TARGET_EVIDENCE_MISSING'', ''TARGET_EVIDENCE_REQUIRED'']"

definition is_patch_mismatch :: "string \<Rightarrow> bool" where
  "is_patch_mismatch summary = py_in ''patch mismatch'' (lower summary)"

subsection \<open>The feedback of each branch\<close>

definition parser_feedback :: "string option \<Rightarrow> RuntimeFeedback" where
  "parser_feedback reason =
     \<lparr>rf_source = ''parser'',
      rf_message = ''Previous agent turn did not produce an executable tool action. Reason: '' @
        (case reason of None \<Rightarrow> ''unknown'' | Some r \<Rightarrow> if r = [] then ''unknown'' else r) @
        ''. Return one valid JSON AgentAction. If more repository context is needed, '' @
        ''use SEARCH_CODE or READ_FILE; after reading, continue with APPLY_PATCH, '' @
        ''CREATE_FILE, or DELETE_FILE to perform the confirmed code change.'',
      rf_value = None\<rparr>"

definition patch_feedback :: "string \<Rightarrow> RuntimeFeedback" where
  "patch_feedback summary =
     \<lparr>rf_source = ''patch'', rf_message = ''PATCH_EXACT_TEXT_REQUIRED'',
      rf_value = Some (JObj [(''instruction'', JStr (''The previous patch did not match the current file bytes. '' @
          ''Use READ_FILE on the selected path or copy the exact source '' @
          ''excerpt from SEARCH_CODE. The replacement old text must match '' @
          ''the file exactly, including quotes, indentation, and unicode '' @
          ''escape sequences such as '' @ [CHR 0x5C] @ ''u4efb'' @ [CHR 0x5C] @ ''u52a1.'')),
        (''message'', JStr summary)])\<rparr>"

definition grounding_feedback :: "string \<Rightarrow> RuntimeFeedback" where
  "grounding_feedback summary =
     \<lparr>rf_source = ''target-grounding'', rf_message = ''TARGET_GROUNDING_REQUIRED'',
      rf_value = Some (JObj [(''instruction'', JStr (''Do not write yet. Inspect enough SEARCH_CODE/READ_FILE '' @
          ''candidates to prove the selected target matches the user'' @ [CHR 0x27] @ ''s '' @
          ''semantic UI location. If multiple literal matches exist, '' @
          ''include target_evidence in APPLY_PATCH explaining selected '' @
          ''and rejected candidates.'')),
        (''message'', JStr summary)])\<rparr>"

text \<open>The variables that the loop carries from one iteration to the next.\<close>

record loop_vars =
  lv_feedback :: RuntimeFeedback
  lv_parse_failures :: nat
  lv_stalled :: nat
  lv_read_only_streak :: nat
  lv_read_only_corrections :: nat
  lv_fingerprints :: "(string \<times> nat) list"
  lv_evidence :: "string list"
  lv_observed_paths :: "string list"

definition initial_vars :: loop_vars where
  "initial_vars = \<lparr>lv_feedback = \<lparr>rf_source = ''initial'', rf_message = ''none'', rf_value = None\<rparr>, lv_parse_failures = 0,
     lv_stalled = 0, lv_read_only_streak = 0, lv_read_only_corrections = 0, lv_fingerprints = [], lv_evidence = [],
     lv_observed_paths = []\<rparr>"

definition corrective_feedback ::
    "loop_vars \<Rightarrow> string \<Rightarrow> (string \<times> json) list \<Rightarrow> json \<Rightarrow> nat \<Rightarrow> nat \<Rightarrow> RuntimeFeedback" where
  "corrective_feedback v fp snapshot result writes changes =
     \<lparr>rf_source = ''corrective'', rf_message = ''WRITE_REQUIRED_NO_CHANGE'',
      rf_value = Some (JObj [(''changed_files'', JList []), (''code'', JStr ''WRITE_REQUIRED_NO_CHANGE''),
        (''file_change_count'', JInt (int changes)), (''last_action'', JObj snapshot), (''last_tool_result'', result),
        (''message'', JStr (''The requested task requires a real code modification. '' @
          ''Repository evidence has been gathered but no WRITE action '' @
          ''has produced a FileChange. Do not repeat an equivalent '' @
          ''read/search/run action unless new evidence is strictly necessary. '' @
          ''If policy permits the intended modification, produce the '' @
          ''appropriate canonical WRITE AgentAction.'')),
        (''observed_paths'', JList (map JStr (sorted_set (lv_observed_paths v)))),
        (''read_only_streak'', JInt (int (lv_read_only_streak v))), (''repeated_action_fingerprint'', JStr fp),
        (''write_tool_executions'', JInt (int writes))])\<rparr>"

definition result_feedback ::
    "string \<Rightarrow> (string \<times> json) list \<Rightarrow> json \<Rightarrow> string list \<Rightarrow> nat \<Rightarrow> nat \<Rightarrow> nat \<Rightarrow> RuntimeFeedback" where
  "result_feedback summary snapshot result files writes changes streak =
     \<lparr>rf_source = ''Previous tool result'', rf_message = summary,
      rf_value = Some (JObj [(''changed_files'', JList (map JStr files)), (''file_change_count'', JInt (int changes)),
        (''previous_action'', JObj snapshot), (''read_only_streak'', JInt (int streak)), (''tool_result'', result),
        (''write_tool_executions'', JInt (int writes))])\<rparr>"

subsection \<open>One iteration and the loop\<close>

datatype step_outcome = Continue loop_vars | Finish "RuntimeRunResult result"

text \<open>\<^verbatim>\<open>token.raise_if_cancelled()\<close> before the next iteration.\<close>

definition unless_cancelled :: "string option \<Rightarrow> loop_vars \<Rightarrow> step_outcome" where
  "unless_cancelled reason v =
     (case reason of
        None \<Rightarrow> Continue v
      | Some r \<Rightarrow> Finish (Inl (CancellationRequested (if r = [] then ''cancelled'' else r))))"

text \<open>A turn without a tool result: governance paused it, or the answer did not parse.\<close>

definition no_result_step ::
    "RuntimePolicy \<Rightarrow> string option \<Rightarrow> string option \<Rightarrow> loop_vars \<Rightarrow> 'x agent_state \<Rightarrow> 'x agent_state \<times> step_outcome" where
  "no_result_step policy reason feedback v st =
     (if (case feedback of None \<Rightarrow> False | Some f \<Rightarrow> startswith f ''governance decision'')
      then (publish_stage ''TASK_PAUSED'' ''APPROVAL_REQUIRED'' feedback st,
            Finish (Inl (GovernancePaused (case feedback of None \<Rightarrow> [] | Some f \<Rightarrow> f))))
      else
        let failures = lv_parse_failures v + 1; st1 = publish_stage ''ACTION_PARSED'' ''INVALID'' feedback st
        in if rp_max_parse_failures policy \<le> failures
           then (publish_stage ''TASK_FAILED'' ''ACTION_PARSE_FAILED'' feedback st1,
                 Finish (Inl (AgentActionParseExhausted (''agent action parsing failed '' @ show_nat failures @
                   '' times; last error: '' @ (case feedback of None \<Rightarrow> ''unknown'' | Some f \<Rightarrow> if f = [] then ''unknown'' else f)))))
           else (st1, unless_cancelled reason (v\<lparr>lv_parse_failures := failures, lv_feedback := parser_feedback feedback\<rparr>)))"

text \<open>A tool that failed: two kinds of failure are explained to the model, every other one ends the run.\<close>

definition tool_error_step ::
    "string option \<Rightarrow> string \<Rightarrow> string \<Rightarrow> loop_vars \<Rightarrow> 'x agent_state \<Rightarrow> 'x agent_state \<times> step_outcome" where
  "tool_error_step reason summary code v st =
     (if is_patch_mismatch summary
      then (publish_stage ''FEEDBACK_CREATED'' ''PATCH_EXACT_TEXT_REQUIRED'' (Some summary) st,
            unless_cancelled reason (v\<lparr>lv_feedback := patch_feedback summary\<rparr>))
      else if is_target_grounding_error summary
      then (publish_stage ''FEEDBACK_CREATED'' ''TARGET_GROUNDING_REQUIRED'' (Some summary) st,
            unless_cancelled reason (v\<lparr>lv_feedback := grounding_feedback summary\<rparr>))
      else (publish_stage ''TASK_FAILED'' code (Some summary) st,
            Finish (Inl (ToolExecutionFailed (if summary = [] then code else summary)))))"

text \<open>A tool that succeeded without changing a file: progress, corrections and stalling.\<close>

definition observe ::
    "string \<Rightarrow> json \<Rightarrow> (string \<times> json) list \<Rightarrow> bool \<Rightarrow> loop_vars \<Rightarrow> loop_vars" where
  "observe fp result snapshot wrote v =
     (let action_type = snapshot_action_type snapshot; evidence = json_dumps result;
          material = (wrote \<or> is_write_action action_type \<or> evidence \<notin> set (lv_evidence v))
      in v\<lparr>lv_observed_paths := lv_observed_paths v @ collect_paths (json_get snapshot ''parameters'') @ collect_paths result,
           lv_evidence := evidence # lv_evidence v,
           lv_fingerprints := AList.update fp (dict_get (lv_fingerprints v) fp 0 + 1) (lv_fingerprints v),
           lv_read_only_streak := (if is_read_only_action action_type \<and> \<not> material then lv_read_only_streak v + 1 else 0),
           lv_stalled := (if material then 0 else lv_stalled v + 1)\<rparr>)"

definition no_change_step ::
    "RuntimePolicy \<Rightarrow> (db \<times> 'x \<Rightarrow> string option) \<Rightarrow> string \<Rightarrow> nat \<Rightarrow> string option \<Rightarrow> nat \<Rightarrow> nat \<Rightarrow> ToolDispatchResult \<Rightarrow>
     loop_vars \<Rightarrow> 'x agent_state \<Rightarrow> 'x agent_state \<times> step_outcome" where
  "no_change_step policy txid task_id i reason changes0 writes0 tool_result v0 st =
     (let d = as_db st; snapshot = latest_action_snapshot task_id d; fp = fingerprint snapshot;
          result = (case dr_value tool_result of None \<Rightarrow> JNull | Some x \<Rightarrow> summarize_tool_result (va_json x));
          changes = file_change_count task_id (txid (d, as_ext st)) d; writes = write_tool_count task_id d;
          v = observe fp result snapshot (changes0 < changes \<or> writes0 < writes) v0;
          corrections = lv_read_only_corrections v;
          no_material_progress = (2 \<le> lv_read_only_streak v \<or> 2 \<le> dict_get (lv_fingerprints v) fp 0)
      in if changes = 0 \<and> writes = 0 \<and> no_material_progress \<and> corrections < rp_max_read_only_corrections policy
         then (publish_stage ''FEEDBACK_CREATED'' ''WRITE_REQUIRED_NO_CHANGE''
                 (Some (''correction='' @ show_nat (corrections + 1))) st,
               unless_cancelled reason (v\<lparr>lv_read_only_corrections := corrections + 1,
                 lv_feedback := corrective_feedback v fp snapshot result writes changes\<rparr>))
         else if rp_max_stalled_iterations policy \<le> lv_stalled v
         then
           let read_only = (changes = 0 \<and> writes = 0 \<and> rp_max_read_only_corrections policy \<le> corrections)
           in (publish_stage ''TASK_FAILED'' (if read_only then ''STALLED_READ_ONLY_LOOP'' else ''STALLED'')
                 (Some ''tools completed without file changes'') st,
               Finish (Inl (if read_only
                 then AgentStalledReadOnlyLoop ''agent stalled in read-only loop without producing required file changes''
                 else AgentStalled ''agent stalled: tools completed without producing required file changes'')))
         else (publish_stage ''FEEDBACK_CREATED'' ''OK'' (Some (''iteration='' @ show_nat i)) st,
               unless_cancelled reason (v\<lparr>lv_feedback := result_feedback (summary_text (dr_summary tool_result)) snapshot
                 result (changed_files task_id (txid (d, as_ext st)) d) writes changes (lv_read_only_streak v)\<rparr>)))"

definition result_step ::
    "RuntimePolicy \<Rightarrow> (db \<times> 'x \<Rightarrow> string option) \<Rightarrow> string \<Rightarrow> nat \<Rightarrow> string option \<Rightarrow> nat \<Rightarrow> nat \<Rightarrow> string option \<Rightarrow>
     ToolDispatchResult \<Rightarrow> loop_vars \<Rightarrow> 'x agent_state \<Rightarrow> 'x agent_state \<times> step_outcome" where
  "result_step policy txid task_id i reason changes0 writes0 action_id tool_result v st =
     (let named = Some (''action_id='' @ (case action_id of None \<Rightarrow> ''None'' | Some a \<Rightarrow> a));
          summary = summary_text (dr_summary tool_result);
          st1 = publish_stage ''TOOL_COMPLETED''
            (case dr_error_code tool_result of None \<Rightarrow> ''OK'' | Some c \<Rightarrow> if c = [] then ''OK'' else ''FAILED'') (Some summary)
            (publish_stage ''ACTION_GOVERNED'' ''ALLOW'' named (publish_stage ''ACTION_PARSED'' ''OK'' named st))
      in case dr_error_code tool_result of
           Some code \<Rightarrow> tool_error_step reason summary code v st1
         | None \<Rightarrow>
             if 0 < file_change_count task_id (txid (as_db st1, as_ext st1)) (as_db st1)
             then (publish_stage ''FILE_CHANGED'' ''OK'' (Some (''tool_execution_id='' @
                     (case dr_tool_execution_id tool_result of None \<Rightarrow> ''None'' | Some e \<Rightarrow> e))) st1,
                   Finish (Inr \<lparr>rt_cancelled = False, rt_safe_state = ''FILES_CHANGED'', rt_next_options = [],
                     rt_terminal_state = ''COMPLETED'', rt_reason = ''real file change produced''\<rparr>))
             else no_change_step policy txid task_id i reason changes0 writes0 tool_result v st1)"

type_synonym 'x turn_runner = "nat \<Rightarrow> string \<Rightarrow> 'x agent_state \<Rightarrow> 'x agent_state \<times> IterationResult result"

definition runtime_step ::
    "RuntimePolicy \<Rightarrow> 'x turn_runner \<Rightarrow> (nat \<Rightarrow> string option) \<Rightarrow> (db \<times> 'x \<Rightarrow> string option) \<Rightarrow> string \<Rightarrow> nat \<Rightarrow> loop_vars \<Rightarrow>
     'x agent_state \<Rightarrow> 'x agent_state \<times> step_outcome" where
  "runtime_step policy runner cancelled txid task_id i v st =
     (let changes0 = file_change_count task_id (txid (as_db st, as_ext st)) (as_db st); writes0 = write_tool_count task_id (as_db st);
          st1 = publish_stage ''CONTEXT_BUILT'' ''OK'' (Some (''iteration='' @ show_nat i)) st
      in case runner i (render_feedback (lv_feedback v)) st1 of
           (st2, Inl e) \<Rightarrow> (st2, Finish (Inl e))
         | (st2, Inr res) \<Rightarrow>
             (case ti_tool_result res of
                None \<Rightarrow> no_result_step policy (cancelled i) (ti_feedback res) v st2
              | Some tool_result \<Rightarrow>
                  result_step policy txid task_id i (cancelled i) changes0 writes0 (ti_action_id res) tool_result v st2))"

text \<open>The loop: \<open>left\<close> iterations remain, the next one has the number \<open>i\<close>.\<close>

fun runtime_loop ::
    "RuntimePolicy \<Rightarrow> 'x turn_runner \<Rightarrow> (nat \<Rightarrow> string option) \<Rightarrow> (db \<times> 'x \<Rightarrow> string option) \<Rightarrow> string \<Rightarrow> nat \<Rightarrow> nat \<Rightarrow> loop_vars \<Rightarrow>
     'x agent_state \<Rightarrow> 'x agent_state \<times> RuntimeRunResult result" where
  "runtime_loop policy runner cancelled txid task_id 0 i v st =
     (publish_stage ''TASK_FAILED'' ''MAX_ITERATIONS'' (Some (show_nat (rp_max_iterations policy))) st,
      Inl (AgentMaxIterationsExceeded (''agent reached max iterations ('' @ show_nat (rp_max_iterations policy) @
        '') without real file changes'')))"
| "runtime_loop policy runner cancelled txid task_id (Suc left) i v st =
     (case runtime_step policy runner cancelled txid task_id i v st of
        (st', Finish r) \<Rightarrow> (st', r)
      | (st', Continue v') \<Rightarrow> runtime_loop policy runner cancelled txid task_id left (i + 1) v' st')"

definition mark_task_cancelled :: "string \<Rightarrow> string \<Rightarrow> db \<Rightarrow> unit action_result" where
  "mark_task_cancelled task_id safe_state d =
     (case get_row tk_id task_id (tasks d) of
        None \<Rightarrow> (d, Inl (ValueError ''task not found''))
      | Some task \<Rightarrow>
          (update_task task_id (\<lambda>t. t\<lparr>tk_status := TaskStatus.CANCELLED, tk_failure_code := Some safe_state,
             tk_failure_message := Some ''user cancellation requested''\<rparr>) d, Inr ()))"

definition run_task ::
    "RuntimePolicy \<Rightarrow> 'x turn_runner option \<Rightarrow> (nat \<Rightarrow> string option) \<Rightarrow> (db \<times> 'x \<Rightarrow> string option) \<Rightarrow> string \<Rightarrow> 'x agent_state \<Rightarrow>
     'x agent_state \<times> RuntimeRunResult result" where
  "run_task policy runner cancelled txid task_id st =
     (if cancelled 0 \<noteq> None
      then (case mark_task_cancelled task_id ''CANCELLED_BEFORE_LLM'' (as_db st) of
              (d, Inl e) \<Rightarrow> (st\<lparr>as_db := d\<rparr>, Inl e)
            | (d, Inr _) \<Rightarrow> (st\<lparr>as_db := d\<rparr>, Inr \<lparr>rt_cancelled = True, rt_safe_state = ''CANCELLED_BEFORE_LLM'',
                rt_next_options = [''retain_changes'', ''rollback''], rt_terminal_state = ''CANCELLED'',
                rt_reason = ''cancelled before LLM request''\<rparr>))
      else case runner of
             None \<Rightarrow> (st, Inl (ExecutionPipelineUnavailable ''runner required''))
           | Some run \<Rightarrow> runtime_loop policy run cancelled txid task_id (rp_max_iterations policy) 1 initial_vars st)"

text \<open>The runtime with the turns of \<^verbatim>\<open>agent/iteration.py\<close>.\<close>

definition agent_runner ::
    "'x turn_env \<Rightarrow> (nat \<Rightarrow> turn_ids) \<Rightarrow> string \<Rightarrow> string \<Rightarrow> string \<Rightarrow> string \<Rightarrow> 'x turn_runner" where
  "agent_runner env ids task_id proposal_hash revision goal i feedback st =
     run_turn env (ids i) task_id proposal_hash revision goal feedback st"

subsection \<open>What the steps publish\<close>

text \<open>The number of times the model was asked.\<close>

definition requests :: "'x agent_state \<Rightarrow> nat" where
  "requests st = length (filter (\<lambda>s. fst s = ''LLM_REQUESTED'') (as_stages st))"

text \<open>A step of the loop itself publishes stages and asks nothing of the model, the database or the world.\<close>

definition quiet :: "'x agent_state \<Rightarrow> 'x agent_state \<Rightarrow> bool" where
  "quiet st st' \<longleftrightarrow> as_db st' = as_db st \<and> as_ext st' = as_ext st \<and> requests st' = requests st"

lemma quiet_refl [simp]: "quiet st st"
  by (simp add: quiet_def)

lemma quiet_publish [simp]: "s \<noteq> ''LLM_REQUESTED'' \<Longrightarrow> quiet st (publish_stage s a b st') = quiet st st'"
  by (simp add: quiet_def publish_stage_def requests_def)

lemma no_result_step_quiet: "quiet st (fst (no_result_step p reason fb v st))"
  by (simp add: no_result_step_def Let_def)

lemma tool_error_step_quiet: "quiet st (fst (tool_error_step reason s c v st))"
  by (simp add: tool_error_step_def)

lemma no_change_step_quiet: "quiet st (fst (no_change_step p txid t i reason c0 w0 res v st))"
  unfolding no_change_step_def Let_def by (simp add: if_distrib [of fst] split: if_splits)

lemma quiet_trans: "quiet a b \<Longrightarrow> quiet b c \<Longrightarrow> quiet a c"
  by (simp add: quiet_def)

lemma result_step_quiet: "quiet st (fst (result_step p txid t i reason c0 w0 aid res v st))"
proof -
  define st1 where "st1 = publish_stage ''TOOL_COMPLETED''
      (case dr_error_code res of None \<Rightarrow> ''OK'' | Some c \<Rightarrow> if c = [] then ''OK'' else ''FAILED'') (Some (summary_text (dr_summary res)))
      (publish_stage ''ACTION_GOVERNED'' ''ALLOW'' (Some (''action_id='' @ (case aid of None \<Rightarrow> ''None'' | Some a \<Rightarrow> a)))
        (publish_stage ''ACTION_PARSED'' ''OK'' (Some (''action_id='' @ (case aid of None \<Rightarrow> ''None'' | Some a \<Rightarrow> a))) st))"
  have "quiet st st1" by (simp add: st1_def)
  moreover have "quiet st1 (fst (result_step p txid t i reason c0 w0 aid res v st))"
    unfolding result_step_def Let_def st1_def [symmetric]
    by (cases "dr_error_code res") (simp_all add: tool_error_step_quiet no_change_step_quiet)
  ultimately show ?thesis by (rule quiet_trans)
qed

lemma runtime_step_run:
  obtains st2 r where "runner i (render_feedback (lv_feedback v))
      (publish_stage ''CONTEXT_BUILT'' ''OK'' (Some (''iteration='' @ show_nat i)) st) = (st2, r)"
    and "quiet st2 (fst (runtime_step p runner cancelled txid t i v st))"
proof -
  obtain st2 r where run: "runner i (render_feedback (lv_feedback v))
      (publish_stage ''CONTEXT_BUILT'' ''OK'' (Some (''iteration='' @ show_nat i)) st) = (st2, r)" by (metis prod.collapse)
  have "quiet st2 (fst (runtime_step p runner cancelled txid t i v st))"
    unfolding runtime_step_def Let_def run
    by (cases r) (auto simp: no_result_step_quiet result_step_quiet split: option.splits)
  with run that show thesis by blast
qed

text \<open>
  A relation between states that the turns of the runner satisfy, that composes, and that publishing does not
  disturb, holds between the start and the end of the loop.
\<close>

lemma runtime_loop_relates:
  assumes turn: "\<And>i fb st. R n st (fst (runner i fb st))"
    and still: "\<And>st st1. quiet st st1 \<Longrightarrow> R 0 st st1"
    and compose: "\<And>a b st st1 st2. R a st st1 \<Longrightarrow> R b st1 st2 \<Longrightarrow> R (a + b :: nat) st st2"
  shows "\<exists>k \<le> left. R (k * n) st (fst (runtime_loop p runner cancelled txid t left i v st))"
proof (induction left arbitrary: i v st)
  case 0
  have "R 0 st (fst (runtime_loop p runner cancelled txid t 0 i v st))" by (rule still) simp
  then show ?case by auto
next
  case (Suc left)
  let ?st1 = "publish_stage ''CONTEXT_BUILT'' ''OK'' (Some (''iteration='' @ show_nat i)) st"
  obtain st2 r where run: "runner i (render_feedback (lv_feedback v)) ?st1 = (st2, r)"
    and q: "quiet st2 (fst (runtime_step p runner cancelled txid t i v st))"
    by (rule runtime_step_run)
  have first: "R 0 st ?st1" by (rule still) simp
  have "R n ?st1 st2" using turn [where st = ?st1 and i = i and fb = "render_feedback (lv_feedback v)"] unfolding run fst_conv .
  from compose [OF compose [OF first this] still [OF q]]
  have one: "R n st (fst (runtime_step p runner cancelled txid t i v st))" by simp
  obtain st3 oc where s: "runtime_step p runner cancelled txid t i v st = (st3, oc)" by (metis prod.collapse)
  show ?case
  proof (cases oc)
    case (Finish res)
    then show ?thesis using s one by (intro exI [of _ 1]) simp
  next
    case (Continue v')
    from Suc [of st3 "i + 1" v'] obtain k where "k \<le> left"
        "R (k * n) st3 (fst (runtime_loop p runner cancelled txid t left (i + 1) v' st3))" by blast
    with compose [OF one [unfolded s fst_conv] this(2)] s Continue show ?thesis
      by (intro exI [of _ "Suc k"]) simp
  qed
qed

subsection \<open>How often the model is asked\<close>

lemma requests_simps [simp]:
  "requests (publish_stage s a b st) = requests st + (if s = ''LLM_REQUESTED'' then 1 else 0)"
  "requests (with_db f st) = requests st" "requests (st\<lparr>as_db := d\<rparr>) = requests st"
  "requests (st\<lparr>as_ext := x\<rparr>) = requests st" "requests (st\<lparr>as_artifacts := y\<rparr>) = requests st"
  by (simp_all add: requests_def publish_stage_def with_db_def)

lemma dispatch_action_requests: "requests (fst (dispatch_action env ids t ctx action st)) = requests st"
  by (auto simp: dispatch_action_def Let_def split: option.splits prod.splits)

lemma govern_action_requests: "requests (fst (govern_action env ids t ph revision ctx action st)) = requests st"
  unfolding govern_action_def Let_def
  by (auto simp: dispatch_action_requests split: prod.splits sum.splits)

lemma reject_turn_requests: "requests (fst (reject_turn env ids t c e m fb st)) = requests st"
  by (simp add: reject_turn_def Let_def)

lemma handle_response_requests: "requests (fst (handle_response env ids t ph revision ctx c st)) = requests st"
  unfolding handle_response_def handle_payload_def Let_def
  by (simp add: reject_turn_requests govern_action_requests split: sum.splits option.splits)

lemma run_turn_requests: "requests (fst (run_turn env ids t ph revision goal fb st)) \<le> requests st + 1"
  unfolding run_turn_def Let_def by (auto simp: handle_response_requests split: prod.splits sum.splits)

text \<open>
  (C15) A run asks the model at most \<^verbatim>\<open>max_iterations\<close> times, whatever the model answers and whatever the tools do, and
  not at all when the task was cancelled before it began.
\<close>

theorem run_task_bounded:
  "requests (fst (run_task p (Some (agent_runner env ids t ph revision goal)) cancelled txid t st)) \<le>
     requests st + (if cancelled 0 = None then rp_max_iterations p else 0)"
proof (cases "cancelled 0 = None")
  case True
  have "\<exists>k \<le> rp_max_iterations p. requests (fst (runtime_loop p (agent_runner env ids t ph revision goal) cancelled txid t
      (rp_max_iterations p) 1 initial_vars st)) \<le> requests st + k * 1"
    by (rule runtime_loop_relates [where R = "\<lambda>n st st'. requests st' \<le> requests st + n"])
       (auto simp: agent_runner_def quiet_def run_turn_requests [simplified])
  with True show ?thesis by (auto simp: run_task_def)
next
  case False
  then show ?thesis by (auto simp: run_task_def split: prod.splits sum.splits)
qed

subsection \<open>What a run has done when it ends\<close>

lemma finish_not_ok [simp]: "unless_cancelled reason v \<noteq> Finish (Inr res)"
  by (simp add: unless_cancelled_def split: option.splits)

lemma result_step_completed:
  assumes "result_step p txid t i reason c0 w0 aid res v st = (st', Finish (Inr out))"
  shows "rt_terminal_state out = ''COMPLETED'' \<and> \<not> rt_cancelled out \<and> 0 < file_change_count t (txid (as_db st', as_ext st')) (as_db st')"
  using assms
  by (auto simp: result_step_def tool_error_step_def no_change_step_def Let_def turn_frame
      split: option.splits if_splits)

lemma runtime_step_completed:
  assumes "runtime_step p runner cancelled txid t i v st = (st', Finish (Inr out))"
  shows "rt_terminal_state out = ''COMPLETED'' \<and> \<not> rt_cancelled out \<and> 0 < file_change_count t (txid (as_db st', as_ext st')) (as_db st')"
  using assms
  by (auto simp: runtime_step_def no_result_step_def Let_def dest: result_step_completed
      split: prod.splits sum.splits option.splits if_splits)

lemma runtime_loop_completed:
  "runtime_loop p runner cancelled txid t left i v st = (st', Inr out) \<Longrightarrow>
     rt_terminal_state out = ''COMPLETED'' \<and> \<not> rt_cancelled out \<and> 0 < file_change_count t (txid (as_db st', as_ext st')) (as_db st')"
proof (induction left arbitrary: i v st)
  case (Suc left)
  then show ?case
    by (auto dest: runtime_step_completed split: prod.splits step_outcome.splits)
qed simp


text \<open>
  An agent whose accepted actions governance never allows changes nothing: over a whole run, whatever the model
  answers, the world, the executions and the file changes stay as they are, and the run does not complete.
\<close>

theorem ungoverned_run_changes_nothing:
  assumes never: "\<And>payload action. pa_action (parse_action (tn_validate env) payload) = Some action \<Longrightarrow> \<not> governed_allow env action"
    and none: "file_changes (as_db st) = []"
    and run: "run_task p (Some (agent_runner env ids t ph revision goal)) cancelled txid t st = (st', r)"
  shows "as_ext st' = as_ext st \<and> executions (as_db st') = executions (as_db st) \<and> file_changes (as_db st') = [] \<and>
    (\<forall>out. r = Inr out \<longrightarrow> rt_cancelled out)"
proof -
  let ?R = "\<lambda>(n::nat) st st'. as_ext st' = as_ext st \<and> executions (as_db st') = executions (as_db st) \<and>
      file_changes (as_db st') = file_changes (as_db st)"
  let ?loop = "runtime_loop p (agent_runner env ids t ph revision goal) cancelled txid t (rp_max_iterations p) 1 initial_vars st"
  have turn: "?R 0 st (fst (run_turn env (ids i) t ph revision goal fb st))" for i fb st
    using run_turn_cases [of st env "ids i" t ph revision goal fb] never by (auto simp: no_tool_def)
  have loop: "?R 0 st (fst ?loop)"
    using runtime_loop_relates [where R = ?R and n = 0 and runner = "agent_runner env ids t ph revision goal"] turn
    by (fastforce simp: agent_runner_def quiet_def)
  show ?thesis
  proof (cases "cancelled 0 = None")
    case True
    then have out: "?loop = (st', r)" using run by (simp add: run_task_def)
    have "\<not> (0 < file_change_count t (txid (as_db st', as_ext st')) (as_db st'))"
      using loop none out by (simp add: file_change_count_def file_change_rows_def)
    then show ?thesis using loop none out runtime_loop_completed [of p _ cancelled txid t _ 1 initial_vars st st'] by auto
  next
    case False
    then show ?thesis
      using run none by (auto simp: run_task_def mark_task_cancelled_def turn_frame split: option.splits)
  qed
qed

subsection \<open>Runs on samples\<close>

definition sample_write :: FileChange where
  "sample_write = \<lparr>fc_id = ''c1'', fc_task_id = ''t1'', fc_tool_execution_id = ''e1'', fc_action_id = ''a1'',
     fc_backup_entry_id = None, fc_change_type = FileChangeType.CREATE, fc_relative_path = ''src/a.py'',
     fc_before_hash = None, fc_after_hash = None, fc_created_at = 5\<rparr>"

text \<open>A runner that reads in its first turn and writes in its second.\<close>

definition sample_runner :: "string turn_runner" where
  "sample_runner i feedback st =
     (if i = 1 then st else with_db (\<lambda>d. d\<lparr>file_changes := file_changes d @ [sample_write]\<rparr>) st,
      Inr \<lparr>ti_iteration_id = ''i'', ti_action_id = Some ''a1'',
        ti_tool_result = Some \<lparr>dr_status = ToolStatus.OK, dr_summary = Plain ''done'', dr_error_code = None, dr_value = None,
          dr_tool_execution_id = Some ''e1''\<rparr>,
        ti_paused = False, ti_feedback = None, ti_feedback_artifact_ref = None\<rparr>)"

definition sample_run :: "string agent_state \<times> RuntimeRunResult result" where
  "sample_run = run_task default_policy (Some sample_runner) (\<lambda>i. None) (\<lambda>d. None) ''t1'' sample_agent_state"

lemma sample_run_completed: "map_sum (\<lambda>e. ()) rt_cancelled (snd sample_run) = Inr False"
  by code_simp


definition sample_migration :: AgentAction where
  "sample_migration = ReadFileAction ''migrations/a.py'' 1 9 ''look''"

definition sample_deny_env :: "string turn_env" where
  "sample_deny_env = sample_turn_env\<lparr>tn_rules := [sample_rule GovernanceRuleEffect.DENY_HARD 1],
     tn_validate := (\<lambda>_. Inr sample_migration)\<rparr>"

lemma sample_deny:
  "canonical_project_paths (changed_paths sample_migration) = Inr [''migrations/a.py'']"
  "map rd_effect (matched_rules (tn_rules sample_deny_env) [''migrations/a.py'']) = [GovernanceRuleEffect.DENY_HARD]"
  by code_simp+

lemma sample_deny_never:
  assumes "pa_action (parse_action (tn_validate sample_deny_env) payload) = Some action"
  shows "\<not> governed_allow sample_deny_env action"
proof -
  have "action = sample_migration"
    using assms by (simp add: rejected_def parse_action_def sample_deny_env_def Let_def split: if_splits)
  moreover obtain r where "matched_rules (tn_rules sample_deny_env) [''migrations/a.py''] = [r]"
      "rd_effect r = GovernanceRuleEffect.DENY_HARD"
    using sample_deny(2) by (auto simp: Cons_eq_map_conv map_eq_Cons_conv)
  ultimately show ?thesis by (simp add: governed_allow_def sample_deny(1))
qed

definition sample_denied_run :: "string agent_state \<times> RuntimeRunResult result" where
  "sample_denied_run = run_task default_policy
     (Some (agent_runner sample_deny_env (\<lambda>i. sample_turn_ids) ''t1'' ''p'' ''r'' ''goal'')) (\<lambda>i. None) (\<lambda>d. None) ''t1'' sample_agent_state"

theorem ungoverned_run_changes_nothing_witness: "file_changes (as_db (fst sample_denied_run)) = []"
proof -
  have run: "run_task default_policy (Some (agent_runner sample_deny_env (\<lambda>i. sample_turn_ids) ''t1'' ''p'' ''r'' ''goal''))
      (\<lambda>i. None) (\<lambda>d. None) ''t1'' sample_agent_state = (fst sample_denied_run, snd sample_denied_run)"
    by (simp add: sample_denied_run_def)
  have none: "file_changes (as_db sample_agent_state) = []" by code_simp
  from ungoverned_run_changes_nothing [OF sample_deny_never none run] show ?thesis by simp
qed

subsection \<open>Answers that never parse\<close>

lemma no_result_continues:
  assumes "\<not> startswith f ''governance decision''"
  shows "snd (no_result_step p None (Some f) v st) =
    (if rp_max_parse_failures p \<le> lv_parse_failures v + 1
     then Finish (Inl (AgentActionParseExhausted (''agent action parsing failed '' @ show_nat (lv_parse_failures v + 1) @
       '' times; last error: '' @ (if f = [] then ''unknown'' else f))))
     else Continue (v\<lparr>lv_parse_failures := lv_parse_failures v + 1, lv_feedback := parser_feedback (Some f)\<rparr>))"
  using assms by (simp add: no_result_step_def Let_def unless_cancelled_def)

lemma runtime_loop_parse_exhausted:
  assumes bad: "\<And>i fb st. \<exists>st' res. runner i fb st = (st', Inr res) \<and> ti_tool_result res = None \<and> ti_feedback res = Some f"
    and f: "\<not> startswith f ''governance decision''"
    and alive: "\<And>i. cancelled i = None"
    and m: "lv_parse_failures v < rp_max_parse_failures p" "rp_max_parse_failures p \<le> lv_parse_failures v + left"
  shows "snd (runtime_loop p runner cancelled txid t left i v st) =
    Inl (AgentActionParseExhausted (''agent action parsing failed '' @ show_nat (rp_max_parse_failures p) @
       '' times; last error: '' @ (if f = [] then ''unknown'' else f)))"
  using m
proof (induction left arbitrary: i v st)
  case 0
  then show ?case by simp
next
  case (Suc left)
  obtain st' res where run: "runner i (render_feedback (lv_feedback v))
      (publish_stage ''CONTEXT_BUILT'' ''OK'' (Some (''iteration='' @ show_nat i)) st) = (st', Inr res)"
    and res: "ti_tool_result res = None" "ti_feedback res = Some f" using bad by blast
  have step: "runtime_step p runner cancelled txid t i v st = no_result_step p None (Some f) v st'"
    unfolding runtime_step_def Let_def run by (simp add: res alive)
  obtain st1 oc where s: "no_result_step p None (Some f) v st' = (st1, oc)" by (metis prod.collapse)
  show ?case
  proof (cases "rp_max_parse_failures p \<le> lv_parse_failures v + 1")
    case True
    with Suc.prems have "lv_parse_failures v + 1 = rp_max_parse_failures p" by simp
    then show ?thesis using no_result_continues [OF f, of p v st'] True by (simp add: step s)
  next
    case False
    then show ?thesis using no_result_continues [OF f, of p v st'] Suc by (simp add: step s)
  qed
qed



end
