(* ===== verification/Impact.thy ===== *)
theory Impact
  imports Context
begin

section \<open>Impact: which parts of the project a change reaches\<close>

text \<open>
  \<^verbatim>\<open>impact/direct.py\<close>, \<^verbatim>\<open>impact/indirect.py\<close> and \<^verbatim>\<open>impact/report_service.py\<close> over the tables of
  \<^verbatim>\<open>models/code_index.py\<close>. A Python set that is iterated is a list without a fixed order; the theorems show where the
  order does not matter. What the disk holds, the decoder of JSON texts and the provider are parameters.
\<close>

subsection \<open>\<^verbatim>\<open>models/code_index.py\<close>\<close>

datatype CodeSymbolKind = MODULE | CLASS | FUNCTION | METHOD | API | DTO | TABLE | TEST

datatype CodeSymbolRelationType = IMPORTS | CALLS | TESTS | SERIALIZES | READS_TABLE | WRITES_TABLE

fun relation_type_str :: "CodeSymbolRelationType \<Rightarrow> string" where
  "relation_type_str IMPORTS = ''IMPORTS''"
| "relation_type_str CALLS = ''CALLS''"
| "relation_type_str TESTS = ''TESTS''"
| "relation_type_str SERIALIZES = ''SERIALIZES''"
| "relation_type_str READS_TABLE = ''READS_TABLE''"
| "relation_type_str WRITES_TABLE = ''WRITES_TABLE''"

record CodeSymbol =
  cs_id :: string
  cs_code_index_id :: string
  cs_project_id :: string
  cs_revision :: string
  cs_symbol_key :: string
  cs_qualified_name :: string
  cs_kind :: CodeSymbolKind
  cs_relative_path :: string
  cs_signature_hash :: "string option"

record CodeSymbolRelation =
  cr_id :: string
  cr_source_symbol_id :: string
  cr_source_project_id :: string
  cr_source_revision :: string
  cr_target_symbol_id :: string
  cr_target_project_id :: string
  cr_target_revision :: string
  cr_relation_type :: CodeSymbolRelationType
  cr_evidence_json :: json_text

record code_tables =
  code_symbols :: "CodeSymbol list"
  code_relations :: "CodeSymbolRelation list"

subsection \<open>\<^verbatim>\<open>impact/direct.py\<close>\<close>

datatype DirectImpactKind = API | DTO | TABLE | TEST | FILE

fun impact_kind_str :: "DirectImpactKind \<Rightarrow> string" where
  "impact_kind_str DirectImpactKind.API = ''API''"
| "impact_kind_str DirectImpactKind.DTO = ''DTO''"
| "impact_kind_str DirectImpactKind.TABLE = ''TABLE''"
| "impact_kind_str DirectImpactKind.TEST = ''TEST''"
| "impact_kind_str DirectImpactKind.FILE = ''FILE''"

record DirectImpact =
  di_kind :: DirectImpactKind
  di_relative_path :: string
  di_symbol_name :: string
  di_confidence :: string
  di_evidence_refs :: "string list"

record DirectImpactResult =
  dr_impacts :: "DirectImpact list"
  dr_unknowns :: "string list"

definition symbol_impact :: "DirectImpactKind \<Rightarrow> CodeSymbol \<Rightarrow> DirectImpact" where
  "symbol_impact kind symbol =
     \<lparr>di_kind = kind, di_relative_path = cs_relative_path symbol, di_symbol_name = cs_qualified_name symbol,
      di_confidence = ''confirmed'',
      di_evidence_refs = [''code-index://'' @ cs_revision symbol @ ''/'' @ cs_id symbol]\<rparr>"

text \<open>
  The matches of \<^verbatim>\<open>\b(?:FROM|INTO|UPDATE)\s+([a-zA-Z_][a-zA-Z0-9_]*)\<close> without regard to case: the name and what
  follows it.
\<close>

definition table_here :: "string \<Rightarrow> (string \<times> string) option" where
  "table_here s =
     (case keyword_here [''from'', ''into'', ''update''] s of
        None \<Rightarrow> None
      | Some (word, rest) \<Rightarrow>
          let spaced = dropWhile is_space rest
          in if rest = spaced \<or> spaced = [] \<or> \<not> (is_alpha (hd spaced) \<or> hd spaced = CHR ''_'') then None
             else Some (takeWhile (\<lambda>c. is_alnum c \<or> c = CHR ''_'') spaced, dropWhile (\<lambda>c. is_alnum c \<or> c = CHR ''_'') spaced))"

fun scan_tables :: "nat \<Rightarrow> char option \<Rightarrow> string \<Rightarrow> string list" where
  "scan_tables 0 prev s = []"
| "scan_tables (Suc n) prev [] = []"
| "scan_tables (Suc n) prev (c # cs) =
     (case (if word_boundary prev (c # cs) then table_here (c # cs) else None) of
        None \<Rightarrow> scan_tables n (Some c) cs
      | Some (name, rest) \<Rightarrow> lower name # scan_tables n (Some (last name)) rest)"

text \<open>A match consumes at least one character, so the length of the text is enough fuel for the scan.\<close>

definition extract_tables :: "string \<Rightarrow> string list" where
  "extract_tables s = scan_tables (length s) None s"

definition table_impacts :: "string \<Rightarrow> string \<Rightarrow> string \<Rightarrow> DirectImpact list" where
  "table_impacts contents relative_path revision =
     map (\<lambda>table. \<lparr>di_kind = DirectImpactKind.TABLE, di_relative_path = relative_path, di_symbol_name = table,
        di_confidence = ''confirmed'',
        di_evidence_refs = [''source://'' @ revision @ ''/'' @ relative_path @ ''#sql:'' @ table]\<rparr>)
       (sorted_set (extract_tables contents))"

text \<open>The last component of a path without its suffix.\<close>

definition path_stem :: "string \<Rightarrow> string" where
  "path_stem p =
     (let name = path_name p; upto = dropWhile (\<lambda>c. c \<noteq> CHR ''.'') (rev name)
      in if length upto \<le> 1 \<or> length upto = length name then name else rev (tl upto))"

text \<open>The test files of the project, as relative paths with their texts, are a parameter.\<close>

definition test_impacts :: "(string \<times> string) list \<Rightarrow> string list \<Rightarrow> string \<Rightarrow> DirectImpact list" where
  "test_impacts tests names revision =
     (if names = [] then []
      else map (\<lambda>(rel, contents). \<lparr>di_kind = DirectImpactKind.TEST, di_relative_path = rel, di_symbol_name = path_stem rel,
               di_confidence = ''confirmed'', di_evidence_refs = [''source://'' @ revision @ ''/'' @ rel]\<rparr>)
             (filter (\<lambda>(rel, contents). list_ex (\<lambda>name. py_in name contents) names) tests))"

definition diff_line_paths :: "string \<Rightarrow> string list" where
  "diff_line_paths line =
     (if startswith line ''+++ b/'' then [drop 6 line]
      else if startswith line ''diff --git '' then
        (let parts = py_split line
         in if 4 \<le> length parts \<and> startswith (parts ! 3) ''b/'' then [drop 2 (parts ! 3)] else [])
      else [])"

definition diff_paths :: "string \<Rightarrow> string list" where
  "diff_paths diff_text = concat (map diff_line_paths (splitlines diff_text))"

definition normalize_scope :: "string list \<Rightarrow> string list" where
  "normalize_scope paths = map (\<lambda>p. dropWhile (\<lambda>c. c = slash) (replace_char (CHR 0x5C) slash p)) paths"

definition impact_key :: "DirectImpact \<Rightarrow> string \<times> string \<times> string" where
  "impact_key i = (impact_kind_str (di_kind i), di_relative_path i, di_symbol_name i)"

fun dedupe_impacts :: "(string \<times> string \<times> string) list \<Rightarrow> DirectImpact list \<Rightarrow> DirectImpact list" where
  "dedupe_impacts seen [] = []"
| "dedupe_impacts seen (i # rest) =
     (if impact_key i \<in> set seen then dedupe_impacts seen rest
      else i # dedupe_impacts (impact_key i # seen) rest)"

definition simple_name :: "string \<Rightarrow> string" where
  "simple_name qualified = last (split_on (CHR ''.'') qualified)"

text \<open>\<^verbatim>\<open>(root / rel).suffix == '.py'\<close>.\<close>

definition is_python :: "string \<Rightarrow> string \<Rightarrow> bool" where
  "is_python root rel =
     (let parts = (if startswith rel [slash] then [] else path_parts root) @ path_parts rel
      in parts \<noteq> [] \<and> endswith (last parts) ''.py'' \<and> 3 < length (last parts))"

definition symbol_impacts :: "CodeSymbol \<Rightarrow> DirectImpact list" where
  "symbol_impacts symbol =
     (if cs_kind symbol = CodeSymbolKind.API then [symbol_impact DirectImpactKind.API symbol]
      else if cs_kind symbol = CodeSymbolKind.CLASS \<and> endswith (simple_name (cs_qualified_name symbol)) ''DTO''
      then [symbol_impact DirectImpactKind.DTO symbol] else [])"

text \<open>The text of an existing file below the root is the parameter \<open>reader\<close>.\<close>

definition path_impacts :: "(string \<Rightarrow> string option) \<Rightarrow> string \<Rightarrow> string \<Rightarrow> string \<Rightarrow> DirectImpact list" where
  "path_impacts reader root revision rel =
     (if \<not> is_python root rel
      then [\<lparr>di_kind = DirectImpactKind.FILE, di_relative_path = rel, di_symbol_name = rel, di_confidence = ''unknown'',
             di_evidence_refs = [''diff://'' @ revision @ ''/'' @ rel]\<rparr>]
      else (case reader rel of None \<Rightarrow> [] | Some contents \<Rightarrow> table_impacts contents rel revision))"

definition impacts_of ::
    "(string \<Rightarrow> string option) \<Rightarrow> (string \<times> string) list \<Rightarrow> string \<Rightarrow> CodeSymbol list \<Rightarrow> string \<Rightarrow> string list \<Rightarrow> DirectImpact list" where
  "impacts_of reader tests root symbols revision paths =
     (let names = map (\<lambda>s. simple_name (cs_qualified_name s)) (filter (\<lambda>s. symbol_impacts s \<noteq> []) symbols)
      in concat (map symbol_impacts symbols) @ concat (map (path_impacts reader root revision) paths) @
         test_impacts tests names revision)"

definition analyze ::
    "(string \<Rightarrow> string option) \<Rightarrow> (string \<times> string) list \<Rightarrow> db \<Rightarrow> code_tables \<Rightarrow> string \<Rightarrow> string \<Rightarrow> string list \<Rightarrow> string \<Rightarrow>
     DirectImpactResult result" where
  "analyze reader tests d tables project_id revision proposal_scope diff_text =
     (case get_row pj_id project_id (projects d) of
        None \<Rightarrow> Inl (ValueError ''project not found'')
      | Some project \<Rightarrow>
          let paths = dedupe (diff_paths diff_text @ normalize_scope proposal_scope);
              symbols = filter (\<lambda>s. cs_project_id s = project_id \<and> cs_revision s = revision \<and>
                cs_relative_path s \<in> set paths) (code_symbols tables);
              confirmed = sort_key impact_key
                (dedupe_impacts [] (impacts_of reader tests (pj_root_path project) symbols revision paths))
          in Inr \<lparr>dr_impacts = confirmed,
                  dr_unknowns = map di_relative_path (filter (\<lambda>i. di_confidence i = ''unknown'') confirmed)\<rparr>)"

subsection \<open>\<^verbatim>\<open>impact/indirect.py\<close>\<close>

record IndirectImpact =
  ii_relative_path :: string
  ii_symbol_name :: string
  ii_depth :: nat
  ii_via_relation :: string
  ii_confidence :: string
  ii_evidence_refs :: "string list"
  ii_uncertainty_reason :: "string option"

record IndirectImpactResult =
  in_impacts :: "IndirectImpact list"
  in_unknowns :: "string list"
  in_truncated :: bool

definition symbol_ref_id :: "string \<Rightarrow> string option" where
  "symbol_ref_id ref = (if startswith ref ''code-index://'' then Some (last (split_on slash ref)) else None)"

definition scope_paths :: "json_text \<Rightarrow> string list" where
  "scope_paths t = (case json_loads t of Some (JList xs) \<Rightarrow> map json_str xs | _ \<Rightarrow> [])"

definition impact_confidence :: "db \<Rightarrow> CodeSymbol \<Rightarrow> string \<times> string option \<times> string list" where
  "impact_confidence d symbol =
     (case find (\<lambda>k. ek_project_id k = cs_project_id symbol \<and>
             ek_status k \<in> set [KnowledgeStatus.STALE, KnowledgeStatus.CONFLICTING] \<and>
             cs_relative_path symbol \<in> set (scope_paths (ek_scope_json k))) (knowledge d) of
        Some k \<Rightarrow> (''uncertain'', Some ''stale_knowledge'', [''knowledge://'' @ ek_id k])
      | None \<Rightarrow> (''confirmed'', None, []))"

text \<open>The variables of the search: what was seen, the impacts and unknowns found, the next frontier, truncation.\<close>

record search =
  se_seen :: "string list"
  se_impacts :: "IndirectImpact list"
  se_unknowns :: "string list"
  se_next :: "string list"
  se_truncated :: bool

definition neighbor :: "string list \<Rightarrow> CodeSymbolRelation \<Rightarrow> string" where
  "neighbor frontier r =
     (if cr_source_symbol_id r \<in> set frontier then cr_target_symbol_id r else cr_source_symbol_id r)"

text \<open>The symbol of an id if it belongs to the project and the revision.\<close>

definition project_symbol :: "code_tables \<Rightarrow> string \<Rightarrow> string \<Rightarrow> string \<Rightarrow> CodeSymbol option" where
  "project_symbol tables project_id revision i =
     (case get_row cs_id i (code_symbols tables) of
        None \<Rightarrow> None
      | Some s \<Rightarrow> if cs_project_id s \<noteq> project_id \<or> cs_revision s \<noteq> revision then None else Some s)"

definition indirect_impact :: "db \<Rightarrow> nat \<Rightarrow> CodeSymbolRelation \<Rightarrow> CodeSymbol \<Rightarrow> IndirectImpact" where
  "indirect_impact d depth r symbol =
     (let (confidence, reason, evidence) = impact_confidence d symbol
      in \<lparr>ii_relative_path = cs_relative_path symbol, ii_symbol_name = cs_qualified_name symbol, ii_depth = depth,
          ii_via_relation = relation_type_str (cr_relation_type r), ii_confidence = confidence,
          ii_evidence_refs = (''relation://'' @ cr_id r) # evidence, ii_uncertainty_reason = reason\<rparr>)"

text \<open>The loop over the relations at a frontier; reaching the limit of nodes breaks it.\<close>

fun visit_relations ::
    "db \<Rightarrow> (string \<Rightarrow> CodeSymbol option) \<Rightarrow> nat \<Rightarrow> nat \<Rightarrow> string list \<Rightarrow> CodeSymbolRelation list \<Rightarrow> search \<Rightarrow> search" where
  "visit_relations d look max_nodes depth frontier [] v = v"
| "visit_relations d look max_nodes depth frontier (r # rs) v =
     (let i = neighbor frontier r
      in if i \<in> set (se_seen v) then visit_relations d look max_nodes depth frontier rs v
         else if max_nodes \<le> length (se_seen v) then v\<lparr>se_truncated := True\<rparr>
         else (case look i of
                 None \<Rightarrow> visit_relations d look max_nodes depth frontier rs v
               | Some symbol \<Rightarrow>
                   let imp = indirect_impact d depth r symbol
                   in visit_relations d look max_nodes depth frontier rs
                        (v\<lparr>se_seen := i # se_seen v, se_impacts := se_impacts v @ [imp],
                           se_unknowns := se_unknowns v @ (case ii_uncertainty_reason imp of None \<Rightarrow> []
                             | Some reason \<Rightarrow> [cs_relative_path symbol @ '':'' @ reason]),
                           se_next := i # se_next v\<rparr>)))"

definition frontier_relations :: "code_tables \<Rightarrow> string list \<Rightarrow> CodeSymbolRelation list" where
  "frontier_relations tables frontier =
     sort_key (\<lambda>r. (relation_type_str (cr_relation_type r), cr_target_symbol_id r))
       (filter (\<lambda>r. cr_source_symbol_id r \<in> set frontier \<or> cr_target_symbol_id r \<in> set frontier) (code_relations tables))"

text \<open>The loop over the depths: \<open>left\<close> remain, the next one is \<open>depth\<close>.\<close>

fun expand_from ::
    "db \<Rightarrow> code_tables \<Rightarrow> (string \<Rightarrow> CodeSymbol option) \<Rightarrow> nat \<Rightarrow> nat \<Rightarrow> nat \<Rightarrow> string list \<Rightarrow> search \<Rightarrow> search" where
  "expand_from d tables look max_nodes 0 depth frontier v = v"
| "expand_from d tables look max_nodes (Suc left) depth frontier v =
     (if frontier = [] then v
      else
        let v' = visit_relations d look max_nodes depth frontier (frontier_relations tables frontier) (v\<lparr>se_next := []\<rparr>)
        in if se_truncated v' then v'
           else expand_from d tables look max_nodes left (depth + 1) (se_next v') v')"

definition start_ids :: "DirectImpact list \<Rightarrow> string list" where
  "start_ids direct = remdups (List.map_filter symbol_ref_id (concat (map di_evidence_refs direct)))"

definition expand_search ::
    "db \<Rightarrow> code_tables \<Rightarrow> string \<Rightarrow> string \<Rightarrow> DirectImpact list \<Rightarrow> nat \<Rightarrow> nat \<Rightarrow> search" where
  "expand_search d tables project_id revision direct max_depth max_nodes =
     expand_from d tables (project_symbol tables project_id revision) max_nodes max_depth 1 (start_ids direct)
       \<lparr>se_seen = start_ids direct, se_impacts = [], se_unknowns = [], se_next = [], se_truncated = False\<rparr>"

definition expand ::
    "db \<Rightarrow> code_tables \<Rightarrow> string \<Rightarrow> string \<Rightarrow> DirectImpact list \<Rightarrow> nat \<Rightarrow> nat \<Rightarrow> IndirectImpactResult" where
  "expand d tables project_id revision direct max_depth max_nodes =
     (let v = expand_search d tables project_id revision direct max_depth max_nodes
      in \<lparr>in_impacts = se_impacts v, in_unknowns = dedupe (se_unknowns v), in_truncated = se_truncated v\<rparr>)"

subsection \<open>\<^verbatim>\<open>impact/report_service.py\<close>\<close>

definition direct_json :: "DirectImpact \<Rightarrow> json" where
  "direct_json i = JObj [(''confidence'', JStr (di_confidence i)), (''evidence_refs'', JList (map JStr (di_evidence_refs i))),
     (''kind'', JStr (impact_kind_str (di_kind i))), (''relative_path'', JStr (di_relative_path i)),
     (''symbol_name'', JStr (di_symbol_name i))]"

definition indirect_json :: "IndirectImpact \<Rightarrow> json" where
  "indirect_json i = JObj [(''confidence'', JStr (ii_confidence i)), (''depth'', JInt (int (ii_depth i))),
     (''evidence_refs'', JList (map JStr (ii_evidence_refs i))), (''relative_path'', JStr (ii_relative_path i)),
     (''symbol_name'', JStr (ii_symbol_name i)),
     (''uncertainty_reason'', case ii_uncertainty_reason i of None \<Rightarrow> JNull | Some r \<Rightarrow> JStr r),
     (''via_relation'', JStr (ii_via_relation i))]"

definition llm_payload :: "EvidenceBundle \<Rightarrow> DirectImpact list \<Rightarrow> IndirectImpact list \<Rightarrow> string list \<Rightarrow> json" where
  "llm_payload bundle direct indirect unknowns =
     JObj [(''bundle_hash'', JStr (bu_bundle_hash bundle)), (''language'', JStr ''zh-CN''),
       (''language_instruction'', JStr (''User-facing natural-language values MUST be Simplified Chinese. '' @
          ''Keep JSON property names unchanged.'')),
       (''evidence_ids'', JList (map (JStr \<circ> ei_evidence_id) (bu_items bundle))),
       (''direct_impacts'', JList (map direct_json direct)), (''indirect_impacts'', JList (map indirect_json indirect)),
       (''unknowns'', JList (map JStr unknowns))]"

text \<open>
  The decoder of the standard library: the value of a whole text, and how far the value at the start of a text
  extends.
\<close>

record decoder =
  dc_loads :: "string \<Rightarrow> json option"
  dc_raw :: "string \<Rightarrow> nat option"

fun first_object :: "(string \<Rightarrow> nat option) \<Rightarrow> string \<Rightarrow> string option" where
  "first_object raw [] = None"
| "first_object raw (c # cs) =
     (if c \<noteq> CHR ''{'' then first_object raw cs
      else (case raw (c # cs) of None \<Rightarrow> first_object raw cs | Some n \<Rightarrow> Some (take n (c # cs))))"

definition fence :: string where
  "fence = [CHR 0x60, CHR 0x60, CHR 0x60]"

definition extract_json_object :: "(string \<Rightarrow> nat option) \<Rightarrow> string \<Rightarrow> string option" where
  "extract_json_object raw content =
     (let stripped = strip content; ls = splitlines stripped
      in if startswith stripped fence \<and> endswith stripped fence \<and> 3 \<le> length ls
         then Some (strip (join [CHR 0x0A] (butlast (tl ls))))
         else first_object raw content)"

definition parse_response :: "decoder \<Rightarrow> string \<Rightarrow> (string \<times> json) list result" where
  "parse_response dec content =
     (let bad = Inl (ImpactReportGenerationError ''invalid impact report JSON'');
          data = (case dc_loads dec content of
                    Some v \<Rightarrow> Some v
                  | None \<Rightarrow> Option.bind (extract_json_object (dc_raw dec) content) (dc_loads dec))
      in case data of Some (JObj kvs) \<Rightarrow> Inr kvs | _ \<Rightarrow> bad)"

definition stale_current_reports :: "string \<Rightarrow> string \<Rightarrow> db \<Rightarrow> db" where
  "stale_current_reports task_id proposal_id d =
     d\<lparr>impact_reports := set_where (\<lambda>r. ir_task_id r = task_id \<and> ir_proposal_id r = proposal_id \<and>
           ir_status r = ImpactReportStatus.CURRENT)
         (\<lambda>r. r\<lparr>ir_status := ImpactReportStatus.STALE\<rparr>) (impact_reports d)\<rparr>"

definition narrative_texts :: "(string \<times> json) list \<Rightarrow> string \<Rightarrow> string list result" where
  "narrative_texts narrative key =
     (case map_of narrative key of None \<Rightarrow> Inr [] | Some v \<Rightarrow> json_iter v)"

definition generate_report ::
    "decoder \<Rightarrow> (LLMRequest \<Rightarrow> LLMResponse result) \<Rightarrow> string \<Rightarrow> string \<Rightarrow> string \<Rightarrow> string \<Rightarrow> EvidenceBundle \<Rightarrow>
     DirectImpact list \<Rightarrow> IndirectImpact list \<Rightarrow> string list \<Rightarrow> db \<Rightarrow> ImpactReport action_result" where
  "generate_report dec provider new_id task_id proposal_id base_revision bundle direct indirect unknowns d =
     (let allowed_refs = map ei_evidence_id (bu_items bundle);
          narrative_and_refs =
            rbind (provider \<lparr>lq_prompt_summary = ''impact report'',
                lq_input_text = json_dumps_ascii (llm_payload bundle direct indirect unknowns)\<rparr>)
              (\<lambda>response. rbind (parse_response dec (ls_content response))
                (\<lambda>narrative. rbind (narrative_texts narrative ''fact_refs'') (\<lambda>refs. Inr (narrative, refs))))
      in case narrative_and_refs of
           Inl e \<Rightarrow> (d, Inl e)
         | Inr (narrative, fact_refs) \<Rightarrow>
             let hallucinated = filter (\<lambda>ref. ref \<notin> set allowed_refs) fact_refs
             in if hallucinated \<noteq> []
                then (d, Inl (ImpactReportGenerationError (''hallucinated evidence refs: '' @ join '', '' hallucinated)))
                else
                  let d1 = stale_current_reports task_id proposal_id d
                  in case narrative_texts narrative ''risks'' of
                       Inl e \<Rightarrow> (d1, Inl e)
                     | Inr risks \<Rightarrow>
                         let report = \<lparr>ir_id = new_id, ir_task_id = task_id, ir_proposal_id = proposal_id,
                               ir_base_revision = Some base_revision,
                               ir_direct_impacts_json = JText (JList (map direct_json direct)),
                               ir_indirect_impacts_json = Some (JText (JList (map indirect_json indirect))),
                               ir_uncertainties_json = Some (JText (JObj
                                 [(''narrative'', JStr (case map_of narrative ''narrative'' of None \<Rightarrow> [] | Some v \<Rightarrow> json_str v)),
                                  (''risks'', JList (map JStr risks)), (''unknowns'', JList (map JStr unknowns))])),
                               ir_evidence_json = JText (JList (map (\<lambda>e. JObj [(''evidence_id'', JStr e)]) (sort fact_refs))),
                               ir_status = ImpactReportStatus.CURRENT\<rparr>
                         in (d1\<lparr>impact_reports := impact_reports d1 @ [report]\<rparr>, Inr report))"

subsection \<open>The direct impacts do not depend on the order of the changes\<close>

abbreviation by_key :: "DirectImpact list \<Rightarrow> string \<times> string \<times> string \<Rightarrow> DirectImpact option" where
  "by_key xs \<equiv> map_of (map (\<lambda>i. (impact_key i, i)) xs)"

lemma dedupe_impacts_set:
  "set (dedupe_impacts seen xs) = {i. by_key xs (impact_key i) = Some i \<and> impact_key i \<notin> set seen}"
  by (induction xs arbitrary: seen) auto

lemma dedupe_impacts_subset: "set (dedupe_impacts seen xs) \<subseteq> set xs"
  by (induction xs arbitrary: seen) auto

lemma dedupe_impacts_distinct: "distinct (map impact_key (dedupe_impacts seen xs))"
  by (induction xs arbitrary: seen) (auto simp: dedupe_impacts_set)

lemma by_key_inj:
  assumes "inj_on impact_key (set xs)"
  shows "by_key xs k = Some i \<longleftrightarrow> i \<in> set xs \<and> impact_key i = k"
  using assms
proof (induction xs)
  case (Cons x xs)
  then show ?case by (auto simp: inj_on_def split: if_splits)
qed simp

lemma by_key_cong:
  assumes "set xs = set ys" and "inj_on impact_key (set xs)"
  shows "by_key xs = by_key ys"
proof
  fix k
  show "by_key xs k = by_key ys k"
    using by_key_inj [of xs k] by_key_inj [of ys k] assms by (cases "by_key xs k"; cases "by_key ys k") auto
qed

lemma sort_dedupe_cong:
  assumes "by_key xs = by_key ys"
  shows "sort_key impact_key (dedupe_impacts [] xs) = sort_key impact_key (dedupe_impacts [] ys)"
proof (rule sort_key_inj_key_eq)
  have d: "distinct (dedupe_impacts [] zs)" for zs using dedupe_impacts_distinct by (metis distinct_map)
  have "set (dedupe_impacts [] xs) = set (dedupe_impacts [] ys)" using assms by (simp add: dedupe_impacts_set)
  then show "mset (dedupe_impacts [] xs) = mset (sort_key impact_key (dedupe_impacts [] ys))"
    using d by (simp add: set_eq_iff_mset_eq_distinct)
  show "inj_on impact_key (set (dedupe_impacts [] xs))"
    using dedupe_impacts_distinct by (simp add: distinct_map)
qed simp

lemma sort_dedupe_sorted: "sorted_wrt (<) (map impact_key (sort_key impact_key (dedupe_impacts [] xs)))"
proof -
  have "distinct (map impact_key (sort_key impact_key (dedupe_impacts [] xs)))"
    using dedupe_impacts_distinct [of "[]" xs] by (simp add: distinct_map)
  then show ?thesis by (simp add: strict_sorted_iff)
qed

lemma path_impacts_key:
  assumes "i \<in> set (path_impacts reader root revision rel)"
  shows "impact_key i = (''FILE'', rel, rel) \<and> \<not> is_python root rel \<and>
       i = \<lparr>di_kind = DirectImpactKind.FILE, di_relative_path = rel, di_symbol_name = rel, di_confidence = ''unknown'',
             di_evidence_refs = [''diff://'' @ revision @ ''/'' @ rel]\<rparr> \<or>
     (\<exists>table. impact_key i = (''TABLE'', rel, table) \<and>
       i = \<lparr>di_kind = DirectImpactKind.TABLE, di_relative_path = rel, di_symbol_name = table, di_confidence = ''confirmed'',
             di_evidence_refs = [''source://'' @ revision @ ''/'' @ rel @ ''#sql:'' @ table]\<rparr>)"
  using assms by (auto simp: path_impacts_def table_impacts_def impact_key_def split: if_splits option.splits)

lemma path_impacts_inj: "inj_on impact_key (\<Union>rel \<in> A. set (path_impacts reader root revision rel))"
proof (rule inj_onI)
  fix i j assume "i \<in> (\<Union>rel \<in> A. set (path_impacts reader root revision rel))"
    "j \<in> (\<Union>rel \<in> A. set (path_impacts reader root revision rel))" and k: "impact_key i = impact_key j"
  then obtain p q where "i \<in> set (path_impacts reader root revision p)" "j \<in> set (path_impacts reader root revision q)" by auto
  from path_impacts_key [OF this(1)] path_impacts_key [OF this(2)] k show "i = j" by auto
qed

lemma impacts_of_cong:
  assumes "set paths = set paths'"
  shows "by_key (impacts_of reader tests root symbols revision paths) =
    by_key (impacts_of reader tests root symbols revision paths')"
proof -
  have "by_key (concat (map (path_impacts reader root revision) paths)) =
      by_key (concat (map (path_impacts reader root revision) paths'))"
    using assms path_impacts_inj [where A = "set paths"] by (intro by_key_cong) simp_all
  then show ?thesis by (simp add: impacts_of_def Let_def)
qed

lemma confirmed_impacts:
  "i \<in> set (symbol_impacts s) \<Longrightarrow> di_confidence i = ''confirmed'' \<and> di_kind i \<noteq> DirectImpactKind.FILE"
  "i \<in> set (test_impacts tests names revision) \<Longrightarrow> di_confidence i = ''confirmed'' \<and> di_kind i \<noteq> DirectImpactKind.FILE"
  by (auto simp: symbol_impacts_def symbol_impact_def test_impacts_def split: if_splits)

lemma unknown_impacts:
  assumes i: "i \<in> set (impacts_of reader tests root symbols revision paths)"
    and u: "di_confidence i = ''unknown'' \<or> di_kind i = DirectImpactKind.FILE"
  shows "\<exists>rel \<in> set paths. i \<in> set (path_impacts reader root revision rel) \<and> \<not> is_python root rel \<and> di_relative_path i = rel \<and>
    di_confidence i = ''unknown'' \<and> impact_key i = (''FILE'', rel, rel)"
proof -
  from i consider s where "i \<in> set (symbol_impacts s)" | rel where "rel \<in> set paths" "i \<in> set (path_impacts reader root revision rel)"
    | names where "i \<in> set (test_impacts tests names revision)"
    by (auto simp: impacts_of_def Let_def)
  then show ?thesis
  proof cases
    case (2 rel)
    from path_impacts_key [OF 2(2)] u have "\<not> is_python root rel \<and> di_relative_path i = rel \<and>
        di_confidence i = ''unknown'' \<and> impact_key i = (''FILE'', rel, rel)" by auto
    with 2 show ?thesis by blast
  qed (use confirmed_impacts u in fastforce)+
qed

lemma file_impact:
  assumes "rel \<in> set paths" and "\<not> is_python root rel"
  shows "\<exists>i \<in> set (impacts_of reader tests root symbols revision paths). di_confidence i = ''unknown'' \<and> di_relative_path i = rel"
  using assms by (force simp: impacts_of_def Let_def path_impacts_def)

lemma unknown_paths:
  "di_relative_path ` {i. i \<in> set (impacts_of reader tests root symbols revision paths) \<and> di_confidence i = ''unknown''} =
   {rel. rel \<in> set paths \<and> \<not> is_python root rel}"
proof (intro equalityI subsetI)
  fix rel assume "rel \<in> {rel. rel \<in> set paths \<and> \<not> is_python root rel}"
  then obtain i where "i \<in> set (impacts_of reader tests root symbols revision paths)" "di_confidence i = ''unknown''"
      "di_relative_path i = rel" using file_impact by blast
  then show "rel \<in> di_relative_path ` {i. i \<in> set (impacts_of reader tests root symbols revision paths) \<and> di_confidence i = ''unknown''}"
    by blast
qed (auto dest: unknown_impacts)

lemma dedupe_keeps_unknown:
  assumes i: "i \<in> set (impacts_of reader tests root symbols revision paths)" and u: "di_confidence i = ''unknown''"
  shows "i \<in> set (dedupe_impacts [] (impacts_of reader tests root symbols revision paths))"
proof -
  let ?all = "impacts_of reader tests root symbols revision paths"
  obtain rel where rel: "impact_key i = (''FILE'', rel, rel)" "i \<in> set (path_impacts reader root revision rel)"
    using unknown_impacts [OF i] u by blast
  have "impact_key i \<in> impact_key ` set ?all" using i by (rule imageI)
  then have "by_key ?all (impact_key i) \<noteq> None" by (simp add: map_of_eq_None_iff image_image)
  then obtain j where j: "by_key ?all (impact_key i) = Some j" by blast
  have "j \<in> set ?all" "impact_key j = impact_key i" using map_of_SomeD [OF j] by auto
  moreover have "di_kind j = DirectImpactKind.FILE"
    using calculation(2) rel by (cases "di_kind j") (simp_all add: impact_key_def)
  ultimately obtain rel' where "j \<in> set (path_impacts reader root revision rel')" "impact_key j = (''FILE'', rel', rel')"
    using unknown_impacts by blast
  with rel \<open>impact_key j = impact_key i\<close> have "j = i"
    using inj_onD [OF path_impacts_inj [where A = UNIV]] by (metis UNIV_I UN_iff)
  with j show ?thesis by (simp add: dedupe_impacts_set)
qed

text \<open>
  For a known project the analysis succeeds; its result depends on the diff and the scope only through the set of the
  paths they name, every impact is listed once, in the order of kind, path and name, and the unknowns are exactly the
  changed paths that are not Python files.
\<close>

theorem direct_order_independent:
  assumes "get_row pj_id p (projects d) = Some project"
    and "set (diff_paths diff @ normalize_scope scope) = set (diff_paths diff' @ normalize_scope scope')"
  shows "\<exists>r. analyze reader tests d tables p revision scope diff = Inr r \<and>
    analyze reader tests d tables p revision scope' diff' = Inr r \<and> sorted_wrt (<) (map impact_key (dr_impacts r)) \<and>
    set (dr_unknowns r) = {rel. rel \<in> set (diff_paths diff @ normalize_scope scope) \<and> \<not> is_python (pj_root_path project) rel}"
proof -
  let ?paths = "dedupe (diff_paths diff @ normalize_scope scope)" and ?paths' = "dedupe (diff_paths diff' @ normalize_scope scope')"
  let ?symbols = "\<lambda>ps. filter (\<lambda>s. cs_project_id s = p \<and> cs_revision s = revision \<and> cs_relative_path s \<in> set ps) (code_symbols tables)"
  define all where "all = impacts_of reader tests (pj_root_path project) (?symbols ?paths) revision ?paths"
  have same: "set ?paths = set ?paths'" using assms(2) by (simp only: set_dedupe)
  have "by_key (impacts_of reader tests (pj_root_path project) (?symbols ?paths') revision ?paths') = by_key all"
    unfolding all_def same by (rule impacts_of_cong [OF same [symmetric]])
  from sort_dedupe_cong [OF this] assms(1)
  obtain r where r: "analyze reader tests d tables p revision scope diff = Inr r"
      "analyze reader tests d tables p revision scope' diff' = Inr r"
    and imp: "dr_impacts r = sort_key impact_key (dedupe_impacts [] all)"
    and unk: "dr_unknowns r = map di_relative_path (filter (\<lambda>i. di_confidence i = ''unknown'') (dr_impacts r))"
    unfolding analyze_def Let_def all_def by simp
  have "set (dr_unknowns r) = di_relative_path ` {i. i \<in> set (dedupe_impacts [] all) \<and> di_confidence i = ''unknown''}"
    by (auto simp: unk imp)
  also have "{i. i \<in> set (dedupe_impacts [] all) \<and> di_confidence i = ''unknown''} = {i. i \<in> set all \<and> di_confidence i = ''unknown''}"
    using dedupe_keeps_unknown dedupe_impacts_subset unfolding all_def by blast
  also have "di_relative_path ` \<dots> = {rel. rel \<in> set ?paths \<and> \<not> is_python (pj_root_path project) rel}"
    unfolding all_def by (rule unknown_paths)
  finally show ?thesis using r imp sort_dedupe_sorted by simp
qed

definition sample_project_db :: db where
  "sample_project_db = empty_db\<lparr>projects := [\<lparr>pj_id = ''p1'', pj_root_path = ''/srv/p'', pj_normalized_root_path = ''/srv/p'', pj_owner_session_hash = None\<rparr>]\<rparr>"

theorem direct_order_independent_witness:
  "analyze (\<lambda>_. None) [] sample_project_db \<lparr>code_symbols = [], code_relations = []\<rparr> ''p1'' ''r1'' [''/b.md''] ''+++ b/a.txt'' =
   analyze (\<lambda>_. None) [] sample_project_db \<lparr>code_symbols = [], code_relations = []\<rparr> ''p1'' ''r1'' [''a.txt''] ''diff --git a/b.md b/b.md''"
proof -
  have project: "get_row pj_id ''p1'' (projects sample_project_db) = Some \<lparr>pj_id = ''p1'', pj_root_path = ''/srv/p'', pj_normalized_root_path = ''/srv/p'', pj_owner_session_hash = None\<rparr>" by code_simp
  have "diff_paths ''+++ b/a.txt'' @ normalize_scope [''/b.md''] = [''a.txt'', ''b.md'']"
      "diff_paths ''diff --git a/b.md b/b.md'' @ normalize_scope [''a.txt''] = [''b.md'', ''a.txt'']" by code_simp+
  then have "set (diff_paths ''+++ b/a.txt'' @ normalize_scope [''/b.md'']) =
      set (diff_paths ''diff --git a/b.md b/b.md'' @ normalize_scope [''a.txt''])" by (simp only: list.set insert_commute)
  from direct_order_independent [OF project this, of "\<lambda>_. None" "[]" "\<lparr>code_symbols = [], code_relations = []\<rparr>" "''r1''"]
  show ?thesis by (elim exE conjE) (rule trans, assumption, erule sym)
qed

subsection \<open>The indirect impacts are the symbols within the distance\<close>

definition linked :: "code_tables \<Rightarrow> string \<Rightarrow> string \<Rightarrow> bool" where
  "linked tables a b \<longleftrightarrow> (\<exists>r \<in> set (code_relations tables).
     cr_source_symbol_id r = a \<and> cr_target_symbol_id r = b \<or> cr_source_symbol_id r = b \<and> cr_target_symbol_id r = a)"

text \<open>The abstract search: what lies within a number of relations of the start, through symbols that are looked up.\<close>

fun ball :: "code_tables \<Rightarrow> (string \<Rightarrow> CodeSymbol option) \<Rightarrow> string set \<Rightarrow> nat \<Rightarrow> string set" where
  "ball tables look S 0 = S"
| "ball tables look S (Suc n) = ball tables look S n \<union>
     {i. look i \<noteq> None \<and> (\<exists>a \<in> ball tables look S n. linked tables a i)}"

definition new_at :: "code_tables \<Rightarrow> (string \<Rightarrow> CodeSymbol option) \<Rightarrow> string set \<Rightarrow> nat \<Rightarrow> string set" where
  "new_at tables look S n = ball tables look S n - (case n of 0 \<Rightarrow> {} | Suc m \<Rightarrow> ball tables look S m)"

text \<open>An impact that reports a symbol.\<close>

definition reports :: "db \<Rightarrow> (string \<Rightarrow> CodeSymbol option) \<Rightarrow> nat \<Rightarrow> string \<Rightarrow> IndirectImpact \<Rightarrow> bool" where
  "reports d look depth i imp \<longleftrightarrow> (\<exists>r s. look i = Some s \<and> imp = indirect_impact d depth r s)"

lemma indirect_impact_depth [simp]: "ii_depth (indirect_impact d n r s) = n"
  by (simp add: indirect_impact_def split: prod.split)

lemma reports_depth: "reports d look depth i imp \<Longrightarrow> ii_depth imp = depth"
  by (auto simp: reports_def)

text \<open>
  What visiting relations with the neighbours \<open>N\<close> does: it adds symbols of them that were not seen, reports each
  at the depth, keeps the limit, and unless it is cut off leaves none out.
\<close>

definition visited ::
    "db \<Rightarrow> (string \<Rightarrow> CodeSymbol option) \<Rightarrow> nat \<Rightarrow> nat \<Rightarrow> string set \<Rightarrow> search \<Rightarrow> search \<Rightarrow> string list \<Rightarrow> IndirectImpact list \<Rightarrow> bool" where
  "visited d look m depth N v v' ids imps \<longleftrightarrow>
     se_seen v' = rev ids @ se_seen v \<and> se_impacts v' = se_impacts v @ imps \<and> se_next v' = rev ids @ se_next v \<and>
     list_all2 (reports d look depth) ids imps \<and> distinct ids \<and> set ids \<inter> set (se_seen v) = {} \<and>
     set ids \<subseteq> {i. look i \<noteq> None \<and> i \<in> N} \<and> length (se_seen v') \<le> max m (length (se_seen v)) \<and>
     (\<not> se_truncated v' \<longrightarrow> {i. look i \<noteq> None \<and> i \<in> N} \<subseteq> set ids \<union> set (se_seen v))"

lemma visit_relations_run:
  assumes "\<not> se_truncated v"
  shows "\<exists>ids imps. visited d look m depth (neighbor frontier ` set rs) v (visit_relations d look m depth frontier rs v) ids imps"
  using assms
proof (induction rs arbitrary: v)
  case Nil
  then show ?case by (intro exI [of _ "[]"]) (simp add: visited_def)
next
  case (Cons r rs)
  let ?i = "neighbor frontier r"
  consider (skip) "?i \<in> set (se_seen v) \<or> length (se_seen v) < m \<and> look ?i = None"
    | (full) "?i \<notin> set (se_seen v)" "m \<le> length (se_seen v)"
    | (new) s where "?i \<notin> set (se_seen v)" "length (se_seen v) < m" "look ?i = Some s" by force
  then show ?case
  proof cases
    case skip
    then have step: "visit_relations d look m depth frontier (r # rs) v = visit_relations d look m depth frontier rs v"
      by (auto simp: Let_def)
    from Cons.IH [OF Cons.prems] obtain ids imps where
      "visited d look m depth (neighbor frontier ` set rs) v (visit_relations d look m depth frontier rs v) ids imps" by blast
    with skip have "visited d look m depth (neighbor frontier ` set (r # rs)) v (visit_relations d look m depth frontier rs v) ids imps"
      unfolding visited_def by auto
    then show ?thesis unfolding step by blast
  next
    case full
    then show ?thesis by (intro exI [of _ "[]"]) (simp add: visited_def)
  next
    case new
    let ?imp = "indirect_impact d depth r s"
    let ?v = "v\<lparr>se_seen := ?i # se_seen v, se_impacts := se_impacts v @ [?imp],
        se_unknowns := se_unknowns v @ (case ii_uncertainty_reason ?imp of None \<Rightarrow> []
          | Some reason \<Rightarrow> [cs_relative_path s @ '':'' @ reason]), se_next := ?i # se_next v\<rparr>"
    have step: "visit_relations d look m depth frontier (r # rs) v = visit_relations d look m depth frontier rs ?v"
      using new by (simp add: Let_def)
    have rep: "reports d look depth ?i ?imp" using new by (auto simp: reports_def)
    have "\<not> se_truncated ?v" using Cons.prems by simp
    from Cons.IH [OF this] obtain ids imps where
      "visited d look m depth (neighbor frontier ` set rs) ?v (visit_relations d look m depth frontier rs ?v) ids imps" by blast
    with rep new have "visited d look m depth (neighbor frontier ` set (r # rs)) v
        (visit_relations d look m depth frontier rs ?v) (?i # ids) (?imp # imps)"
      unfolding visited_def by auto
    then show ?thesis unfolding step by blast
  qed
qed

text \<open>Visiting the relations of the newest symbols reaches everything at the next distance.\<close>

lemma level_ball:
  assumes f: "set frontier = new_at tables look S n"
  shows "{i. look i \<noteq> None \<and> i \<in> neighbor frontier ` set (frontier_relations tables frontier)} \<union> ball tables look S n =
    ball tables look S (Suc n)" (is "?new \<union> ?B = _")
proof (intro equalityI subsetI)
  fix i assume "i \<in> ?new \<union> ?B"
  moreover have "\<exists>a \<in> ?B. linked tables a i" if i: "i \<in> neighbor frontier ` set (frontier_relations tables frontier)"
  proof -
    from i obtain r where r: "r \<in> set (code_relations tables)" "i = neighbor frontier r"
        "cr_source_symbol_id r \<in> set frontier \<or> cr_target_symbol_id r \<in> set frontier"
      by (auto simp: frontier_relations_def)
    have "set frontier \<subseteq> ?B" using f by (auto simp: new_at_def)
    with r show ?thesis by (cases "cr_source_symbol_id r \<in> set frontier") (auto simp: neighbor_def linked_def)
  qed
  ultimately show "i \<in> ball tables look S (Suc n)" by auto
next
  fix i assume i: "i \<in> ball tables look S (Suc n)"
  show "i \<in> ?new \<union> ?B"
  proof (cases "i \<in> ?B")
    case False
    with i obtain a where a: "look i \<noteq> None" "a \<in> ?B" "linked tables a i" by auto
    have front: "a \<in> set frontier"
    proof (rule ccontr)
      assume "a \<notin> set frontier"
      with f a(2) obtain k where "n = Suc k" "a \<in> ball tables look S k" by (auto simp: new_at_def split: nat.splits)
      with a have "i \<in> ?B" by auto
      with False show False ..
    qed
    have "i \<notin> set frontier" using False f by (auto simp: new_at_def)
    with a(3) front have "\<exists>r \<in> set (frontier_relations tables frontier). i = neighbor frontier r"
      by (auto simp: linked_def frontier_relations_def neighbor_def)
    with a(1) show ?thesis by blast
  qed simp
qed

lemma ball_mono: "n \<le> k \<Longrightarrow> ball tables look S n \<subseteq> ball tables look S k"
  by (induction k) (auto simp: le_Suc_eq)

lemma ball_stable:
  assumes "new_at tables look S n = {}"
  shows "ball tables look S (n + k) = ball tables look S n"
proof (induction k)
  case (Suc k)
  have "new_at tables look S (n + k) = {}"
    using assms Suc ball_mono [of n "n + (k - 1)" tables look S] by (cases k) (auto simp: new_at_def simp del: ball.simps)
  then have "ball tables look S (Suc (n + k)) = ball tables look S (n + k)"
    using level_ball [of "[]" tables look S "n + k"] by (simp add: frontier_relations_def)
  with Suc show ?case by simp
qed simp

text \<open>A search that reports, once each, symbols at their distance from the start, up to a depth, within the limit.\<close>

definition explored ::
    "db \<Rightarrow> code_tables \<Rightarrow> (string \<Rightarrow> CodeSymbol option) \<Rightarrow> string list \<Rightarrow> nat \<Rightarrow> nat \<Rightarrow> string list \<Rightarrow> IndirectImpact list \<Rightarrow> bool" where
  "explored d tables look start m n ids imps \<longleftrightarrow>
     distinct (ids @ start) \<and> length (ids @ start) \<le> max m (length start) \<and>
     list_all2 (\<lambda>i imp. reports d look (ii_depth imp) i imp \<and> 1 \<le> ii_depth imp \<and> ii_depth imp \<le> n \<and>
       i \<in> new_at tables look (set start) (ii_depth imp)) ids imps"

lemma explored_extend:
  assumes ex: "explored d tables look start m n ids imps"
    and seen: "se_seen v = rev ids @ start" "se_impacts v = imps" "set (se_seen v) = ball tables look (set start) n"
    and f: "set frontier = new_at tables look (set start) n"
    and vis: "visited d look m (n + 1) (neighbor frontier ` set (frontier_relations tables frontier)) v v' ids' imps'"
  shows "explored d tables look start m (n + 1) (ids @ ids') (imps @ imps')"
proof -
  have new: "set ids' \<subseteq> new_at tables look (set start) (n + 1)"
    using level_ball [OF f] seen(3) vis unfolding visited_def new_at_def by auto
  have "list_all2 (\<lambda>i imp. reports d look (ii_depth imp) i imp \<and> 1 \<le> ii_depth imp \<and> ii_depth imp \<le> n + 1 \<and>
      i \<in> new_at tables look (set start) (ii_depth imp)) ids' imps'"
  proof (rule list_all2_all_nthI)
    show "length ids' = length imps'" using vis by (auto simp: visited_def dest: list_all2_lengthD)
    fix k assume k: "k < length ids'"
    then have "reports d look (n + 1) (ids' ! k) (imps' ! k)" using vis by (auto simp: visited_def dest: list_all2_nthD)
    moreover have "ids' ! k \<in> new_at tables look (set start) (n + 1)" using new k by auto
    ultimately show "reports d look (ii_depth (imps' ! k)) (ids' ! k) (imps' ! k) \<and> 1 \<le> ii_depth (imps' ! k) \<and>
        ii_depth (imps' ! k) \<le> n + 1 \<and> ids' ! k \<in> new_at tables look (set start) (ii_depth (imps' ! k))"
      using reports_depth by fastforce
  qed
  moreover have "list_all2 (\<lambda>i imp. reports d look (ii_depth imp) i imp \<and> 1 \<le> ii_depth imp \<and> ii_depth imp \<le> n + 1 \<and>
      i \<in> new_at tables look (set start) (ii_depth imp)) ids imps"
    using ex unfolding explored_def by (elim conjE) (erule list_all2_mono, auto)
  ultimately show ?thesis
    using ex vis seen(1) unfolding explored_def visited_def by (auto intro: list_all2_appendI)
qed

lemma expand_from_explored:
  assumes "\<not> se_truncated v" "explored d tables look start m n ids (se_impacts v)" "se_seen v = rev ids @ start"
    "set (se_seen v) = ball tables look (set start) n" "set frontier = new_at tables look (set start) n"
  shows "\<exists>ids'. let v' = expand_from d tables look m left (n + 1) frontier v in
    explored d tables look start m (n + left) ids' (se_impacts v') \<and>
    (\<not> se_truncated v' \<longrightarrow> set ids' \<union> set start = ball tables look (set start) (n + left))"
  using assms
proof (induction left arbitrary: n frontier v ids)
  case 0
  then show ?case by (intro exI [of _ ids]) (simp add: Let_def)
next
  case (Suc left)
  note Suc.prems [simp]
  show ?case
  proof (cases "frontier = []")
    case True
    then have "ball tables look (set start) (n + Suc left) = ball tables look (set start) n"
      using Suc.prems(5) by (intro ball_stable) simp
    moreover have "explored d tables look start m (n + Suc left) ids (se_impacts v)"
      using Suc.prems(2) unfolding explored_def by (elim conjE, intro conjI) (assumption+, erule list_all2_mono, auto)
    moreover have "set ids \<union> set start = ball tables look (set start) n" using Suc.prems(3,4) by auto
    ultimately show ?thesis using True by (intro exI [of _ ids]) (simp add: Let_def)
  next
    case False
    define v0 where "v0 = v\<lparr>se_next := []\<rparr>"
    define v1 where "v1 = visit_relations d look m (n + 1) frontier (frontier_relations tables frontier) v0"
    have v0: "\<not> se_truncated v0" "se_seen v0 = rev ids @ start" "se_impacts v0 = se_impacts v"
        "set (se_seen v0) = ball tables look (set start) n" "se_next v0 = []"
      using Suc.prems unfolding v0_def by simp_all
    obtain ids' imps' where vis: "visited d look m (n + 1) (neighbor frontier ` set (frontier_relations tables frontier)) v0 v1 ids' imps'"
      using visit_relations_run [OF v0(1)] unfolding v1_def by blast
    from explored_extend [OF Suc.prems(2) v0(2,3,4) Suc.prems(5) vis]
    have ex: "explored d tables look start m (n + 1) (ids @ ids') (se_impacts v1)"
      using vis v0 unfolding visited_def by simp
    have run: "expand_from d tables look m (Suc left) (n + 1) frontier v =
        (if se_truncated v1 then v1 else expand_from d tables look m left (n + 1 + 1) (se_next v1) v1)"
      using False by (simp add: v1_def v0_def Let_def)
    show ?thesis
    proof (cases "se_truncated v1")
      case True
      have "explored d tables look start m (n + Suc left) (ids @ ids') (se_impacts v1)"
        using ex unfolding explored_def by (elim conjE, intro conjI) (assumption+, erule list_all2_mono, auto)
      then show ?thesis using True unfolding run by (intro exI [of _ "ids @ ids'"]) (simp add: Let_def)
    next
      case alive: False
      have seen: "se_seen v1 = rev (ids @ ids') @ start" using vis v0(2) by (simp add: visited_def)
      let ?N = "{i. look i \<noteq> None \<and> i \<in> neighbor frontier ` set (frontier_relations tables frontier)}"
      have "set ids' \<subseteq> ?N" "?N \<subseteq> set ids' \<union> ball tables look (set start) n" "set (se_seen v1) = set ids' \<union> ball tables look (set start) n"
        using vis alive v0(4) by (simp_all only: visited_def set_append set_rev simp_thms)
      then have "set (se_seen v1) = ?N \<union> ball tables look (set start) n" by blast
      then have ball: "set (se_seen v1) = ball tables look (set start) (n + 1)"
        using level_ball [OF Suc.prems(5)] by (simp only: Suc_eq_plus1)
      have front: "set (se_next v1) = new_at tables look (set start) (n + 1)"
        using ball vis v0(4,5) unfolding visited_def new_at_def by auto
      from Suc.IH [OF alive ex seen ball front] show ?thesis using alive unfolding run by simp
    qed
  qed
qed

text \<open>
  (C35) The search from the direct impacts reports each symbol once, at its distance from them and within the depth; with
  the starting symbols it stays within the limit of nodes unless these exceed it alone; and when it was not cut off,
  it has reported every symbol of the project and revision within the depth.
\<close>

theorem expand_exact:
  assumes r: "r = expand d tables p revision direct n m"
  shows "\<exists>ids. explored d tables (project_symbol tables p revision) (start_ids direct) m n ids (in_impacts r) \<and>
    (\<not> in_truncated r \<longrightarrow>
      set ids \<union> set (start_ids direct) = ball tables (project_symbol tables p revision) (set (start_ids direct)) n)"
proof -
  let ?start = "start_ids direct" and ?look = "project_symbol tables p revision"
  let ?v = "\<lparr>se_seen = ?start, se_impacts = [], se_unknowns = [], se_next = [], se_truncated = False\<rparr>"
  have "explored d tables ?look ?start m 0 [] (se_impacts ?v)" by (simp add: explored_def start_ids_def)
  from expand_from_explored [OF _ this, where left = n and frontier = ?start] show ?thesis
    unfolding r by (simp add: expand_def expand_search_def new_at_def Let_def)
qed

definition sample_symbol :: "string \<Rightarrow> CodeSymbol" where
  "sample_symbol i = \<lparr>cs_id = i, cs_code_index_id = ''x'', cs_project_id = ''p1'', cs_revision = ''r1'', cs_symbol_key = i,
     cs_qualified_name = ''app.'' @ i, cs_kind = CodeSymbolKind.API, cs_relative_path = ''app.py'', cs_signature_hash = None\<rparr>"

definition sample_relation :: "string \<Rightarrow> string \<Rightarrow> CodeSymbolRelation" where
  "sample_relation a b = \<lparr>cr_id = a @ b, cr_source_symbol_id = a, cr_source_project_id = ''p1'', cr_source_revision = ''r1'',
     cr_target_symbol_id = b, cr_target_project_id = ''p1'', cr_target_revision = ''r1'',
     cr_relation_type = CALLS, cr_evidence_json = JText (JObj [])\<rparr>"

definition sample_tables :: code_tables where
  "sample_tables = \<lparr>code_symbols = map sample_symbol [''s1'', ''s2'', ''s3''],
     code_relations = [sample_relation ''s2'' ''s1'', sample_relation ''s2'' ''s3'']\<rparr>"

definition sample_expansion :: IndirectImpactResult where
  "sample_expansion = expand empty_db sample_tables ''p1'' ''r1'' [symbol_impact DirectImpactKind.API (sample_symbol ''s1'')] 2 50"

theorem expand_exact_witness:
  "\<exists>ids. length ids = 2 \<and>
     set ids \<union> {''s1''} = ball sample_tables (project_symbol sample_tables ''p1'' ''r1'') {''s1''} 2"
proof -
  have start: "start_ids [symbol_impact DirectImpactKind.API (sample_symbol ''s1'')] = [''s1'']" by code_simp
  have run: "\<not> in_truncated sample_expansion" "length (in_impacts sample_expansion) = 2" by (code_simp, code_simp)
  from expand_exact [OF sample_expansion_def, unfolded start] run(1) obtain ids where
    ex: "explored empty_db sample_tables (project_symbol sample_tables ''p1'' ''r1'') [''s1''] 50 2 ids (in_impacts sample_expansion)"
    and ids: "set ids \<union> {''s1''} = ball sample_tables (project_symbol sample_tables ''p1'' ''r1'') {''s1''} 2"
    by (auto simp del: ball.simps)
  have "length ids = length (in_impacts sample_expansion)"
    using ex unfolding explored_def by (elim conjE) (rule list_all2_lengthD)
  then have "length ids = 2" using run(2) by (rule trans)
  with ids show ?thesis by blast
qed

subsection \<open>Reports cite the evidence they were given\<close>

lemma stale_none_current:
  assumes "r \<in> set (impact_reports (stale_current_reports t pr d))"
  shows "\<not> (ir_task_id r = t \<and> ir_proposal_id r = pr \<and> ir_status r = ImpactReportStatus.CURRENT)"
proof -
  let ?P = "\<lambda>r. ir_task_id r = t \<and> ir_proposal_id r = pr \<and> ir_status r = ImpactReportStatus.CURRENT"
  have "impact_reports (stale_current_reports t pr d) =
      map (\<lambda>x. if ?P x then x\<lparr>ir_status := ImpactReportStatus.STALE\<rparr> else x) (impact_reports d)"
    by (simp add: stale_current_reports_def set_where_def)
  then have "r \<in> (\<lambda>x. if ?P x then x\<lparr>ir_status := ImpactReportStatus.STALE\<rparr> else x) ` set (impact_reports d)"
    using assms by (simp only: list.set_map)
  then obtain x where "r = (if ?P x then x\<lparr>ir_status := ImpactReportStatus.STALE\<rparr> else x)" by (rule imageE)
  then show ?thesis by (cases "?P x") simp_all
qed

text \<open>
  (C36) A generated report becomes the only current one of its task and proposal, and every piece of evidence it cites
  is an item of the bundle it was asked about, whatever the model answered. A refusal adds no report.
\<close>

theorem report_grounded:
  assumes "generate_report dec provider i t pr base bundle direct indirect unknowns d = (d', r)"
  shows "case r of
      Inl e \<Rightarrow> d' = d \<or> d' = stale_current_reports t pr d
    | Inr report \<Rightarrow>
        filter (\<lambda>x. ir_task_id x = t \<and> ir_proposal_id x = pr \<and> ir_status x = ImpactReportStatus.CURRENT) (impact_reports d') = [report] \<and>
        (\<exists>refs. ir_evidence_json report = JText (JList (map (\<lambda>e. JObj [(''evidence_id'', JStr e)]) refs)) \<and>
           set refs \<subseteq> ei_evidence_id ` set (bu_items bundle))"
proof -
  have none: "filter (\<lambda>x. ir_task_id x = t \<and> ir_proposal_id x = pr \<and> ir_status x = ImpactReportStatus.CURRENT)
      (impact_reports (stale_current_reports t pr d)) = []"
    using stale_none_current by (simp add: filter_empty_conv)
  show ?thesis
    using assms unfolding generate_report_def Let_def
    by (auto simp: none filter_empty_conv split: sum.splits prod.splits if_splits intro!: exI [of _ "sort _"])
qed

definition sample_bundle :: EvidenceBundle where
  "sample_bundle = \<lparr>bu_task_id = ''t1'', bu_revision = ''r1'', bu_items = [\<lparr>ei_evidence_id = ''e1'', ei_kind = ''code'',
     ei_revision = ''r1'', ei_uri = ''u'', ei_summary = ''s'', ei_freshness = ''f'', ei_confidence = ''c'', ei_verified = True\<rparr>],
     bu_unresolved_assumptions = [], bu_bundle_hash = ''h''\<rparr>"

definition sample_report_run :: "ImpactReport action_result" where
  "sample_report_run = generate_report
     \<lparr>dc_loads = (\<lambda>s. Some (JObj [(''fact_refs'', JList [JStr ''e1''])])), dc_raw = (\<lambda>s. None)\<rparr>
     (\<lambda>req. Inr \<lparr>ls_content = ''{}'', ls_input_tokens = 1, ls_output_tokens = 1, ls_model = ''m'', ls_provider = ''p''\<rparr>)
     ''i1'' ''t1'' ''pr1'' ''r1'' sample_bundle [] [] [] empty_db"

theorem report_grounded_witness:
  "filter (\<lambda>x. ir_task_id x = ''t1'' \<and> ir_proposal_id x = ''pr1'' \<and> ir_status x = ImpactReportStatus.CURRENT)
     (impact_reports (fst sample_report_run)) = [projr (snd sample_report_run)]"
proof -
  obtain report where "snd sample_report_run = Inr report"
    by (cases "snd sample_report_run")
       (simp_all add: sample_report_run_def generate_report_def rbind_def parse_response_def narrative_texts_def sample_bundle_def Let_def)
  with report_grounded [OF prod.collapse [symmetric, of sample_report_run, unfolded sample_report_run_def]]
  show ?thesis unfolding sample_report_run_def by simp
qed

end
