(* ===== verification/Search.thy ===== *)
theory Search
  imports Runtime Impact
begin

section \<open>Search: the read-only tools of an execution\<close>

text \<open>
  The first half of \<^verbatim>\<open>execution/orchestrator.py\<close>: reading a file through the read cache, searching the code through
  the index or the files of the worktree, and the evidence that grounds the target of a patch. The index of the project
  and the output of \<^verbatim>\<open>git ls-files\<close> are parameters, as is \<open>text_of\<close>, what \<^verbatim>\<open>read_text(encoding="utf-8")\<close> makes of
  the bytes of a file. A dictionary of a result is the list of its entries in the order of their keys. The members of a
  Python set of query terms are a list without repetition; only sums and membership tests look at it. Chinese query
  terms are outside the alphabet of the model.
\<close>

subsection \<open>Constants\<close>

definition SEARCH_CODE_MAX_FILES :: int where "SEARCH_CODE_MAX_FILES = 4000"
definition SEARCH_CODE_MAX_BYTES :: int where "SEARCH_CODE_MAX_BYTES = 512000"
definition SEARCH_CODE_MAX_MATCHES :: nat where "SEARCH_CODE_MAX_MATCHES = 25"
definition SEARCH_CODE_INDEX_LIMIT :: nat where "SEARCH_CODE_INDEX_LIMIT = 30"
definition SEARCH_CODE_MAX_CANDIDATE_FILES :: nat where "SEARCH_CODE_MAX_CANDIDATE_FILES = 1000"
definition SEARCH_CODE_MAX_TOTAL_BYTES :: int where "SEARCH_CODE_MAX_TOTAL_BYTES = 2000000"

definition SEARCH_CODE_BOUNDED_FALLBACK_DIRS :: "string list" where
  "SEARCH_CODE_BOUNDED_FALLBACK_DIRS =
     [''frontend/src'', ''backend/src'', ''src'', ''app'', ''lib'', ''components'', ''pages'', ''docs'']"

definition SEARCH_CODE_EXCLUDED_DIRS :: "string list" where
  "SEARCH_CODE_EXCLUDED_DIRS =
     [''.agents'', ''.git'', ''.mypy_cache'', ''.pytest_cache'', ''.ruff_cache'', ''.sementor'', ''.tmp'', ''.venv'',
      ''__pycache__'', ''build'', ''coverage'', ''dist'', ''evidence'', ''node_modules'']"

type_synonym dict = "(string \<times> json) list"

text \<open>\<^verbatim>\<open>(project_root / relative_path).resolve()\<close>.\<close>

definition resolve_in :: "(path \<Rightarrow> path) \<Rightarrow> path \<Rightarrow> string \<Rightarrow> path" where
  "resolve_in rsv root rel = rsv (if is_absolute rel then path_parts rel else root @ path_parts rel)"

subsection \<open>Reading a file\<close>

definition file_sha ::
    "(string \<Rightarrow> string) \<Rightarrow> (path \<Rightarrow> path) \<Rightarrow> path \<Rightarrow> string \<Rightarrow> world \<Rightarrow> string result" where
  "file_sha sha rsv root relative_path w =
     (let target = resolve_in rsv root relative_path
      in if \<not> prefix root target then Inl (ValueError ''target path invalid'')
         else case file_at w target of
                None \<Rightarrow> Inl (ValueError ''target path invalid'')
              | Some bytes \<Rightarrow> Inr (sha bytes))"

text \<open>\<^verbatim>\<open>splitlines(keepends=True)\<close>.\<close>

fun keep_lines_from :: "string \<Rightarrow> string \<Rightarrow> string list" where
  "keep_lines_from cur [] = (if cur = [] then [] else [rev cur])"
| "keep_lines_from cur [c] = [rev (c # cur)]"
| "keep_lines_from cur (c # d # cs) =
     (if c = CHR 0x0D \<and> d = CHR 0x0A then rev (d # c # cur) # keep_lines_from [] cs
      else if is_line_break c then rev (c # cur) # keep_lines_from [] (d # cs)
      else keep_lines_from (c # cur) (d # cs))"

definition splitlines_keep :: "string \<Rightarrow> string list" where
  "splitlines_keep s = keep_lines_from [] s"

definition slice_lines :: "int \<Rightarrow> int \<Rightarrow> 'a list \<Rightarrow> 'a list" where
  "slice_lines start_line end_line ls = take (nat (end_line - (start_line - 1))) (drop (nat (start_line - 1)) ls)"

definition read_result :: "string \<Rightarrow> int \<Rightarrow> int \<Rightarrow> string \<Rightarrow> string \<Rightarrow> dict" where
  "read_result relative_path start_line end_line digest contents =
     (let ls = splitlines_keep contents; selected = concat (slice_lines start_line end_line ls);
          excerpt = take 2500 selected
      in [(''cache'', JStr ''miss''), (''content'', JStr excerpt), (''end_line'', JInt (min end_line (int (length ls)))),
          (''excerpt'', JStr excerpt), (''path'', JStr relative_path), (''sha256'', JStr digest),
          (''start_line'', JInt start_line), (''truncated'', JBool (length excerpt < length selected))])"

type_synonym read_cache = "((string \<times> int \<times> int \<times> string) \<times> dict) list"

definition read_file ::
    "(string \<Rightarrow> string) \<Rightarrow> (path \<Rightarrow> path) \<Rightarrow> (string \<Rightarrow> string result) \<Rightarrow> path \<Rightarrow> string \<Rightarrow> int \<Rightarrow> int \<Rightarrow> read_cache \<Rightarrow>
     world \<Rightarrow> read_cache \<times> dict result" where
  "read_file sha rsv text_of root relative_path start_line end_line cache w =
     (let target = resolve_in rsv root relative_path
      in if \<not> prefix root target \<or> file_at w target = None then (cache, Inl (ValueError ''target path invalid''))
         else if start_line < 1 \<or> end_line < start_line then (cache, Inl (ValueError ''line range invalid''))
         else case file_sha sha rsv root relative_path w of
                Inl e \<Rightarrow> (cache, Inl e)
              | Inr digest \<Rightarrow>
                  (let key = (relative_path, start_line, end_line, digest)
                   in case map_of cache key of
                        Some result \<Rightarrow> (cache, Inr (AList.update ''cache'' (JStr ''hit'') result))
                      | None \<Rightarrow>
                          (case text_of (the (file_at w target)) of
                             Inl e \<Rightarrow> (cache, Inl e)
                           | Inr contents \<Rightarrow>
                               let result = read_result relative_path start_line end_line digest contents
                               in (AList.update key result cache, Inr result))))"

subsection \<open>Candidate paths\<close>

text \<open>\<^verbatim>\<open>Path(path).as_posix()\<close>.\<close>

definition path_posix :: "string \<Rightarrow> string" where
  "path_posix p =
     (if is_absolute p
      then (if startswith p ''//'' \<and> \<not> startswith p ''///'' then ''//'' else ''/'') @ join ''/'' (path_parts p)
      else as_posix (path_parts p))"

definition search_path_excluded :: "string \<Rightarrow> bool" where
  "search_path_excluded relative_path = list_ex (\<lambda>part. part \<in> set SEARCH_CODE_EXCLUDED_DIRS) (path_parts relative_path)"

text \<open>The output of \<^verbatim>\<open>git ls-files -z\<close>, or \<open>None\<close> where the command fails.\<close>

definition git_tracked_paths :: "string option \<Rightarrow> string list" where
  "git_tracked_paths ls_files =
     (case ls_files of
        None \<Rightarrow> []
      | Some out \<Rightarrow>
          take SEARCH_CODE_MAX_CANDIDATE_FILES (filter (\<lambda>p. \<not> search_path_excluded p)
            (map (replace_char backslash slash) (filter (\<lambda>item. item \<noteq> []) (split_on (CHR 0x00) out)))))"

text \<open>The loop that both lists of candidates share: normalise, drop what was seen or is excluded, stop at the limit.\<close>

fun collect_candidates :: "(string \<Rightarrow> string) \<Rightarrow> string list \<Rightarrow> string list \<Rightarrow> string list" where
  "collect_candidates norm merged [] = merged"
| "collect_candidates norm merged (p # ps) =
     (let n = norm p
      in if n \<in> set merged \<or> search_path_excluded n then collect_candidates norm merged ps
         else if SEARCH_CODE_MAX_CANDIDATE_FILES \<le> length merged + 1 then merged @ [n]
         else collect_candidates norm (merged @ [n]) ps)"

definition merge_candidate_paths :: "string list list \<Rightarrow> string list" where
  "merge_candidate_paths groups = collect_candidates path_posix [] (concat groups)"

text \<open>\<^verbatim>\<open>os.walk\<close> with the pruned directory names; the depth of a walk is bounded by the number of directories.\<close>

fun walk :: "nat \<Rightarrow> world \<Rightarrow> path \<Rightarrow> path list" where
  "walk 0 w current = []"
| "walk (Suc n) w current =
     (let dirnames = sorted_set (map last (filter (\<lambda>q. q \<noteq> [] \<and> butlast q = current) (wk_dirs w)));
          filenames = sorted_set (map last (filter (\<lambda>q. q \<noteq> [] \<and> butlast q = current) (Mapping.ordered_keys (wk_files w))))
      in map (\<lambda>f. current @ [f]) filenames @
         concat (map (\<lambda>name. walk n w (current @ [name]))
           (filter (\<lambda>name. name \<notin> set SEARCH_CODE_EXCLUDED_DIRS) dirnames)))"

definition bounded_worktree_paths :: "path \<Rightarrow> world \<Rightarrow> string list" where
  "bounded_worktree_paths root w =
     collect_candidates (\<lambda>p. p) []
       (concat (map (\<lambda>relative_root.
          (let dir = root @ path_parts relative_root
           in if dir \<in> set (wk_dirs w)
              then map (\<lambda>p. as_posix (drop (length root) p)) (walk (Suc (length (wk_dirs w))) w dir) else []))
          SEARCH_CODE_BOUNDED_FALLBACK_DIRS))"

text \<open>\<^verbatim>\<open>_changed_paths(session, task_id, transaction_id)\<close>.\<close>

definition task_changed_paths :: "string \<Rightarrow> string option \<Rightarrow> db \<Rightarrow> string list" where
  "task_changed_paths task_id transaction_id d =
     map fc_relative_path (sort_key fc_created_at (file_change_rows task_id transaction_id d))"

definition search_code_candidate_paths ::
    "string option \<Rightarrow> string \<Rightarrow> path \<Rightarrow> world \<Rightarrow> string list \<times> string \<times> nat" where
  "search_code_candidate_paths ls_files task_id root w =
     (let tracked = git_tracked_paths ls_files
      in if tracked \<noteq> []
         then (merge_candidate_paths [tracked, task_changed_paths task_id None (wk_db w)], ''tracked_files'', 0)
         else (bounded_worktree_paths root w, ''filesystem_bounded'', 0))"

subsection \<open>Ranking and query terms\<close>

definition search_path_rank :: "string \<Rightarrow> int" where
  "search_path_rank path =
     (if path = ''frontend/src/app/fixtures.ts'' then - 5
      else if path = ''frontend/src/app/AppShell.tsx'' then - 4
      else if startswith path ''frontend/src/app/'' then 0
      else if startswith path ''frontend/src/pages/'' then 1
      else if startswith path ''frontend/src/'' then 2
      else if startswith path ''backend/src/'' then 3
      else if py_in ''/test'' path \<or> endswith path ''.test.tsx'' \<or> endswith path ''.test.ts'' then 9
      else 5)"

text \<open>\<^verbatim>\<open>re.findall\<close> and \<^verbatim>\<open>re.search\<close> with a matcher that returns the group and what follows the match; a match
  consumes text, so the length of the text is enough fuel.\<close>

type_synonym group_matcher = "string \<Rightarrow> (string \<times> string) option"

fun findall_from :: "nat \<Rightarrow> group_matcher \<Rightarrow> string \<Rightarrow> string list" where
  "findall_from 0 m s = []"
| "findall_from (Suc n) m [] = []"
| "findall_from (Suc n) m (c # cs) =
     (case m (c # cs) of
        None \<Rightarrow> findall_from n m cs
      | Some (g, rest) \<Rightarrow> g # findall_from n m rest)"

definition re_findall :: "group_matcher \<Rightarrow> string \<Rightarrow> string list" where
  "re_findall m s = findall_from (length s) m s"

fun re_search :: "group_matcher \<Rightarrow> string \<Rightarrow> string option" where
  "re_search m [] = None"
| "re_search m (c # cs) = (case m (c # cs) of Some (g, rest) \<Rightarrow> Some g | None \<Rightarrow> re_search m cs)"

definition is_ident :: "char \<Rightarrow> bool" where
  "is_ident c = (is_alnum c \<or> c = CHR ''_'')"

text \<open>\<^verbatim>\<open>[A-Za-z_][A-Za-z0-9_]{2,}\<close>.\<close>

definition term_here :: group_matcher where
  "term_here s =
     (let run = takeWhile is_ident s
      in if 3 \<le> length run \<and> (is_alpha (hd run) \<or> hd run = CHR ''_'') then Some (run, dropWhile is_ident s) else None)"

definition semantic_terms :: "string \<Rightarrow> string list" where
  "semantic_terms query = remdups (re_findall term_here (lower query))"

definition text_variants :: "string \<Rightarrow> string list" where
  "text_variants t = filter (\<lambda>item. item \<noteq> []) [t]"

subsection \<open>The context of a match\<close>

definition is_quote :: "char \<Rightarrow> bool" where
  "is_quote c = (c = CHR 0x22 \<or> c = CHR 0x27)"

text \<open>\<^verbatim>\<open>["']([^"']+)["']\<close>.\<close>

fun quoted_here :: group_matcher where
  "quoted_here [] = None"
| "quoted_here (q # s) =
     (let run = takeWhile (\<lambda>c. \<not> is_quote c) s; rest = dropWhile (\<lambda>c. \<not> is_quote c) s
      in if is_quote q \<and> run \<noteq> [] \<and> rest \<noteq> [] then Some (run, tl rest) else None)"

definition class_name_here :: group_matcher where
  "class_name_here s = (if startswith s ''className='' then quoted_here (drop 10 s) else None)"

definition label_here :: group_matcher where
  "label_here s = (if startswith s ''label:'' then quoted_here (dropWhile is_space (drop 6 s)) else None)"

text \<open>\<^verbatim>\<open>>([^<>{}]{1,24})<\<close>.\<close>

fun text_node_here :: group_matcher where
  "text_node_here [] = None"
| "text_node_here (c # s) =
     (let run = takeWhile (\<lambda>x. x \<notin> set ''<>{}'') s; rest = dropWhile (\<lambda>x. x \<notin> set ''<>{}'') s
      in if c = CHR ''>'' \<and> run \<noteq> [] \<and> length run \<le> 24 \<and> startswith rest ''<'' then Some (run, tl rest) else None)"

text \<open>\<^verbatim>\<open><([A-Za-z][A-Za-z0-9.]*)\b\<close>: the longest name that ends at a word boundary.\<close>

fun element_here :: group_matcher where
  "element_here [] = None"
| "element_here (c # s) =
     (let run = takeWhile (\<lambda>x. is_alnum x \<or> x = CHR ''.'') s
      in if c = CHR ''<'' \<and> run \<noteq> [] \<and> is_alpha (hd run)
         then map_option (\<lambda>k. (take k s, drop k s))
           (find (\<lambda>k. word_boundary (Some (s ! (k - 1))) (drop k s)) (rev [1..<Suc (length run)]))
         else None)"

fun keyword_sequence :: "string list \<Rightarrow> string \<Rightarrow> string option" where
  "keyword_sequence [] s = Some s"
| "keyword_sequence (w # ws) s =
     (let rest = drop (length w) s; spaced = dropWhile is_space rest
      in if startswith s w \<and> spaced \<noteq> rest then keyword_sequence ws spaced else None)"

text \<open>\<^verbatim>\<open>export\s+function\s+([A-Za-z0-9_]+)\<close> and the like; the last two patterns end with \<^verbatim>\<open>\s*=\<close>.\<close>

definition symbol_here :: "string list \<Rightarrow> bool \<Rightarrow> group_matcher" where
  "symbol_here ws assigned s =
     (case keyword_sequence ws s of
        None \<Rightarrow> None
      | Some t \<Rightarrow>
          (let rest = dropWhile is_ident t
           in if takeWhile is_ident t = [] \<or> (assigned \<and> \<not> startswith (dropWhile is_space rest) ''='') then None
              else Some (takeWhile is_ident t, rest)))"

definition symbol_patterns :: "group_matcher list" where
  "symbol_patterns = [symbol_here [''export'', ''function''] False, symbol_here [''function''] False,
     symbol_here [''export'', ''const''] True, symbol_here [''const''] True]"

fun first_some :: "('a \<Rightarrow> 'b option) \<Rightarrow> 'a list \<Rightarrow> 'b option" where
  "first_some f [] = None"
| "first_some f (x # xs) = (case f x of Some y \<Rightarrow> Some y | None \<Rightarrow> first_some f xs)"

definition nearest_symbol :: "string list \<Rightarrow> nat \<Rightarrow> string option" where
  "nearest_symbol ls line_number =
     first_some (\<lambda>l. first_some (\<lambda>pattern. re_search pattern l) symbol_patterns) (take 79 (rev (take line_number ls)))"

definition semantic_context ::
    "string \<Rightarrow> string \<Rightarrow> string \<Rightarrow> string option \<Rightarrow> string list \<Rightarrow> string list" where
  "semantic_context relative_path line joined symbol class_names =
     (let haystack = lower (join '' '' [relative_path, line, joined, (case symbol of None \<Rightarrow> [] | Some s \<Rightarrow> s),
            join '' '' class_names])
      in map fst (filter (\<lambda>(label, markers). list_ex (\<lambda>marker. py_in marker haystack) markers)
           [(''sidebar'', [''sidebar'', ''aside'', ''side-'']),
            (''navigation'', [''navitems'', ''navigation'', ''navitem'', ''nav-item'', ''<nav'', dquote ''classname=^nav'']),
            (''menu-item'', [''menu'', ''nav-item'', ''label:'', ''key:'']),
            (''page-heading'', [''page-title'', ''<h1'', ''heading'']),
            (''button'', [''<button'', ''button'']),
            (''tab'', [''tab'', dquote ''role=^tab^''])]))"

record candidate_context =
  cx_symbol :: "string option"
  cx_start :: nat
  cx_end :: nat
  cx_window :: string
  cx_jsx_element :: "string option"
  cx_class_names :: "string list"
  cx_sibling_labels :: "string list"
  cx_semantic :: "string list"

definition candidate_context :: "string list \<Rightarrow> nat \<Rightarrow> string \<Rightarrow> candidate_context" where
  "candidate_context ls line_number relative_path =
     (let start = max 1 (line_number - 8); stop = min (length ls) (line_number + 8);
          joined = join [CHR 0x0A] (drop (start - 1) (take stop ls)); line = ls ! (line_number - 1);
          symbol = nearest_symbol ls line_number; class_names = re_findall class_name_here joined;
          sibling_labels = re_findall label_here joined @ re_findall text_node_here joined
      in \<lparr>cx_symbol = symbol, cx_start = start, cx_end = stop, cx_window = take 500 joined,
          cx_jsx_element = re_search element_here line, cx_class_names = take 8 class_names,
          cx_sibling_labels = take 12 (filter (\<lambda>item. item \<noteq> []) (map strip sibling_labels)),
          cx_semantic = semantic_context relative_path line joined symbol class_names\<rparr>)"

definition candidate_score :: "string \<Rightarrow> string \<Rightarrow> string list \<Rightarrow> string list \<Rightarrow> string list \<Rightarrow> int" where
  "candidate_score relative_path line semantic sibling_labels query_terms =
     (if list_ex (\<lambda>l. l \<in> set semantic) [''sidebar'', ''navigation'', ''menu-item''] then 80 else 0) -
     (if ''page-heading'' \<in> set semantic then 30 else 0) +
     (if startswith relative_path ''frontend/src/app/'' then 20 else 0) +
     (if startswith relative_path ''frontend/src/pages/'' then 5 else 0) -
     (if startswith relative_path ''docs/'' \<or> startswith relative_path ''backend/'' \<or> startswith relative_path ''tests/'' \<or>
         py_in ''/test'' relative_path then 50 else 0) +
     (if 3 \<le> length (remdups sibling_labels) then 20 else 0) +
     2 * int (length (filter (\<lambda>t. py_in (lower t) (lower line)) query_terms))"

subsection \<open>Matches\<close>

record code_match =
  cm_path :: string
  cm_line :: nat
  cm_excerpt :: string
  cm_symbol :: "string option"
  cm_structural :: json
  cm_semantic :: "string list"
  cm_score :: int
  cm_evidence :: "string option"

definition opt_str :: "string option \<Rightarrow> json" where
  "opt_str v = (case v of None \<Rightarrow> JNull | Some s \<Rightarrow> JStr s)"

definition context_json :: "candidate_context \<Rightarrow> json" where
  "context_json c = JObj [(''class_names'', JList (map JStr (cx_class_names c))),
     (''jsx_element'', opt_str (cx_jsx_element c)),
     (''line_window'', JObj [(''end'', JInt (int (cx_end c))), (''excerpt'', JStr (cx_window c)),
        (''start'', JInt (int (cx_start c)))]),
     (''semantic_context'', JList (map JStr (cx_semantic c))),
     (''sibling_labels'', JList (map JStr (cx_sibling_labels c))), (''symbol'', opt_str (cx_symbol c))]"

definition match_json :: "code_match \<Rightarrow> json" where
  "match_json m = JObj ((case cm_evidence m of None \<Rightarrow> [] | Some e \<Rightarrow> [(''evidence'', JStr e)]) @
     [(''excerpt'', JStr (cm_excerpt m)), (''line'', JInt (int (cm_line m))), (''path'', JStr (cm_path m)),
      (''score'', JInt (cm_score m)), (''semantic_context'', JList (map JStr (cm_semantic m))),
      (''structural_context'', cm_structural m), (''symbol'', opt_str (cm_symbol m))])"

definition match_key :: "code_match \<Rightarrow> int \<times> int \<times> string" where
  "match_key m = (- cm_score m, search_path_rank (cm_path m), cm_path m)"

text \<open>The first line that contains a variant of the query, with its number.\<close>

fun first_match :: "string list \<Rightarrow> nat \<Rightarrow> string list \<Rightarrow> (nat \<times> string) option" where
  "first_match variants n [] = None"
| "first_match variants n (l # ls) =
     (if list_ex (\<lambda>v. py_in v l) variants then Some (n, l) else first_match variants (n + 1) ls)"

definition file_match :: "string list \<Rightarrow> string list \<Rightarrow> string \<Rightarrow> string \<Rightarrow> code_match list" where
  "file_match query_terms variants relative_path contents =
     (let ls = splitlines contents
      in case first_match variants 1 ls of
           None \<Rightarrow> []
         | Some (line_number, line) \<Rightarrow>
             (let context = candidate_context ls line_number relative_path
              in [\<lparr>cm_path = relative_path, cm_line = line_number, cm_excerpt = take 240 (strip line),
                   cm_symbol = cx_symbol context, cm_structural = context_json context, cm_semantic = cx_semantic context,
                   cm_score = candidate_score relative_path line (cx_semantic context) (cx_sibling_labels context) query_terms,
                   cm_evidence = None\<rparr>]))"

record scan_state =
  sc_matches :: "code_match list"
  sc_scanned :: nat
  sc_read :: nat
  sc_bytes :: nat
  sc_skipped :: nat
  sc_early_stop :: bool

definition scanned_file :: "string list \<Rightarrow> string list \<Rightarrow> string \<Rightarrow> string \<Rightarrow> string \<Rightarrow> scan_state \<Rightarrow> scan_state" where
  "scanned_file query_terms variants p bytes contents s =
     s\<lparr>sc_matches := sc_matches s @ file_match query_terms variants p contents, sc_scanned := sc_scanned s + 1,
       sc_read := sc_read s + 1, sc_bytes := sc_bytes s + length bytes\<rparr>"

text \<open>The scan of the ranked candidates, with the limits on files, on the size of a file, on all bytes and on matches.\<close>

fun scan_files ::
    "(path \<Rightarrow> path) \<Rightarrow> (string \<Rightarrow> string result) \<Rightarrow> path \<Rightarrow> world \<Rightarrow> string list \<Rightarrow> string list \<Rightarrow> string list \<Rightarrow>
     scan_state \<Rightarrow> scan_state" where
  "scan_files rsv text_of root w query_terms variants [] s = s"
| "scan_files rsv text_of root w query_terms variants (p # ps) s =
     (let continue = scan_files rsv text_of root w query_terms variants ps;
          skip = s\<lparr>sc_skipped := sc_skipped s + 1\<rparr>; target = resolve_in rsv root p
      in if SEARCH_CODE_MAX_FILES \<le> int (sc_scanned s) then s\<lparr>sc_early_stop := True\<rparr>
         else if \<not> prefix root target then continue skip
         else case file_at w target of
                None \<Rightarrow> continue skip
              | Some bytes \<Rightarrow>
                  if SEARCH_CODE_MAX_BYTES < int (length bytes) then continue skip
                  else if SEARCH_CODE_MAX_TOTAL_BYTES < int (sc_bytes s + length bytes) then s\<lparr>sc_early_stop := True\<rparr>
                  else
                    (case text_of bytes of
                       Inl _ \<Rightarrow> continue (skip\<lparr>sc_scanned := sc_scanned s + 1\<rparr>)
                     | Inr contents \<Rightarrow>
                         let s' = scanned_file query_terms variants p bytes contents s
                         in if SEARCH_CODE_MAX_MATCHES \<le> length (sc_matches s') then s'\<lparr>sc_early_stop := True\<rparr>
                            else continue s'))"

definition search_candidate_files ::
    "(path \<Rightarrow> path) \<Rightarrow> (string \<Rightarrow> string result) \<Rightarrow> path \<Rightarrow> world \<Rightarrow> string list \<Rightarrow> string list \<Rightarrow> string list \<Rightarrow>
     nat \<Rightarrow> scan_state" where
  "search_candidate_files rsv text_of root w candidate_paths query_terms variants skipped_files =
     (let s = scan_files rsv text_of root w query_terms variants
            (sort_key (\<lambda>p. (search_path_rank p, p)) candidate_paths)
            \<lparr>sc_matches = [], sc_scanned = 0, sc_read = 0, sc_bytes = 0, sc_skipped = skipped_files, sc_early_stop = False\<rparr>
      in s\<lparr>sc_matches := sort_key match_key (sc_matches s)\<rparr>)"

subsection \<open>The code index\<close>

datatype CodeIndexStatus = BUILDING | READY | STALE | FAILED

record CodeIndex =
  ci_id :: string
  ci_project_id :: string
  ci_revision :: string
  ci_status :: CodeIndexStatus

definition index_semantic_context :: "string \<Rightarrow> string list" where
  "index_semantic_context relative_path = semantic_context relative_path [] [] None []"

definition index_candidate_score :: "string \<Rightarrow> string \<Rightarrow> string list \<Rightarrow> int" where
  "index_candidate_score relative_path qualified_name query_terms =
     (let haystack = lower (relative_path @ '' '' @ qualified_name);
          hits = (\<lambda>t. int (length (filter (\<lambda>q. py_in (lower q) t) query_terms)))
      in 10 + 12 * hits (lower qualified_name) + 6 * hits (lower relative_path) + 2 * hits haystack +
         (if startswith relative_path ''frontend/src/'' then 10 else 0) -
         (if startswith relative_path ''backend/tests/'' \<or> startswith relative_path ''frontend/src/tests/'' then 20 else 0))"

definition index_match :: "string \<Rightarrow> string list \<Rightarrow> CodeSymbol \<Rightarrow> code_match" where
  "index_match revision terms symbol =
     (let context = index_semantic_context (cs_relative_path symbol)
      in \<lparr>cm_path = cs_relative_path symbol, cm_line = 1, cm_excerpt = cs_qualified_name symbol,
          cm_symbol = Some (cs_qualified_name symbol),
          cm_structural = JObj [(''semantic_context'', JList (map JStr context)), (''symbol'', JStr (cs_qualified_name symbol))],
          cm_semantic = context, cm_score = index_candidate_score (cs_relative_path symbol) (cs_qualified_name symbol) terms,
          cm_evidence = Some (''code-index://'' @ revision @ ''/'' @ cs_id symbol)\<rparr>)"

definition search_code_index ::
    "CodeIndex list \<Rightarrow> code_tables \<Rightarrow> ChangeTask \<Rightarrow> string \<Rightarrow> string \<Rightarrow> db \<Rightarrow> code_match list" where
  "search_code_index indexes code task query revision d =
     (let terms = semantic_terms query
      in if terms = [] then []
         else if \<not> list_ex (\<lambda>i. ci_project_id i = tk_project_id task \<and> ci_revision i = revision \<and> ci_status i = READY) indexes
         then []
         else
           let rows = sort_key (\<lambda>s. (cs_relative_path s, cs_qualified_name s))
                 (filter (\<lambda>s. cs_project_id s = tk_project_id task \<and> cs_revision s = revision) (code_symbols code));
               dirty_paths = task_changed_paths (tk_id task) None d;
               hit = (\<lambda>s. cs_relative_path s \<notin> set dirty_paths \<and>
                 list_ex (\<lambda>t. py_in (lower t) (lower (cs_relative_path s @ '' '' @ cs_qualified_name s))) terms)
           in sort_key match_key (map (index_match revision terms) (take SEARCH_CODE_INDEX_LIMIT (filter hit rows))))"

subsection \<open>The tool\<close>

definition search_result :: "string \<Rightarrow> code_match list \<Rightarrow> string \<Rightarrow> dict" where
  "search_result query found source =
     [(''cache'', JStr ''miss''), (''matches'', JList (map match_json (take 5 found))), (''query'', JStr query),
      (''source'', JStr source), (''total_matches'', JInt (int (length found)))]"

type_synonym search_cache = "((string \<times> string) \<times> dict) list"

definition search_code ::
    "(path \<Rightarrow> path) \<Rightarrow> (string \<Rightarrow> string result) \<Rightarrow> CodeIndex list \<Rightarrow> code_tables \<Rightarrow> string option \<Rightarrow> ChangeTask \<Rightarrow> path \<Rightarrow>
     string \<Rightarrow> string \<Rightarrow> search_cache \<Rightarrow> world \<Rightarrow> search_cache \<times> dict" where
  "search_code rsv text_of indexes code ls_files task root query revision cache w =
     (let key = (revision, query)
      in case map_of cache key of
           Some result \<Rightarrow> (cache, AList.update ''cache'' (JStr ''hit'') result)
         | None \<Rightarrow>
             (let indexed = search_code_index indexes code task query revision (wk_db w)
              in if indexed \<noteq> []
                 then (let result = search_result query indexed ''code_index'' in (AList.update key result cache, result))
                 else
                   (case search_code_candidate_paths ls_files (tk_id task) root w of
                      (candidates, source, skipped) \<Rightarrow>
                        let found = sc_matches (search_candidate_files rsv text_of root w candidates (semantic_terms query)
                              (text_variants query) skipped);
                            result = search_result query found source
                        in (AList.update key result cache, result))))"

subsection \<open>Grounding the target of a patch\<close>

definition candidate_path :: "dict \<Rightarrow> json" where
  "candidate_path c = Runtime.json_get c ''path''"

text \<open>The score of a candidate; the tools record an integer.\<close>

definition candidate_points :: "dict \<Rightarrow> int" where
  "candidate_points c = (case map_of c ''score'' of Some (JInt i) \<Rightarrow> i | _ \<Rightarrow> 0)"

definition read_result_candidate :: "dict \<Rightarrow> dict" where
  "read_result_candidate result =
     (let excerpt = excerpt_of result; path = json_str (Runtime.json_get result ''path'');
          context = semantic_context path excerpt excerpt None []
      in [(''excerpt'', JStr (take 500 excerpt)), (''line'', Runtime.json_get result ''start_line''), (''path'', JStr path),
          (''score'', JInt (candidate_score path excerpt context [] [])),
          (''semantic_context'', JList (map JStr context))])"

definition evidence_candidates :: "json_text \<Rightarrow> dict list" where
  "evidence_candidates evidence =
     (case json_loads evidence of
        Some (JObj kvs) \<Rightarrow>
          (case map_of kvs ''result'' of
             Some (JObj result) \<Rightarrow>
               (case map_of result ''matches'' of
                  Some (JList items) \<Rightarrow>
                    concat (map (\<lambda>item. case item of JObj m \<Rightarrow> if json_truth (candidate_path m) then [m] else [] | _ \<Rightarrow> []) items)
                | _ \<Rightarrow> if json_truth (candidate_path result) then [read_result_candidate result] else [])
           | _ \<Rightarrow> [])
      | _ \<Rightarrow> [])"

definition target_candidates_from_evidence :: "string \<Rightarrow> db \<Rightarrow> dict list" where
  "target_candidates_from_evidence task_id d =
     concat (map (\<lambda>e. evidence_candidates (te_evidence_json e))
       (sort_key (\<lambda>e. (te_created_at e, te_id e)) (filter (\<lambda>e. te_task_id e = task_id \<and>
          te_tool_name e \<in> set [''SEARCH_CODE'', ''READ_FILE'']) (executions d))))"

text \<open>\<^verbatim>\<open>max(candidates, key=...)\<close>: the first of the strongest candidates.\<close>

fun strongest_from :: "dict \<Rightarrow> dict list \<Rightarrow> dict" where
  "strongest_from best [] = best"
| "strongest_from best (c # cs) = strongest_from (if candidate_points best < candidate_points c then c else best) cs"

definition assert_grounded_target :: "string \<Rightarrow> string \<Rightarrow> dict option \<Rightarrow> db \<Rightarrow> unit result" where
  "assert_grounded_target task_id relative_path target_evidence d =
     (case target_candidates_from_evidence task_id d of
        [] \<Rightarrow> Inl (TargetGroundingError ''TARGET_EVIDENCE_MISSING: run SEARCH_CODE/READ_FILE first'')
      | c # cs \<Rightarrow>
          (case filter (\<lambda>k. candidate_path k = JStr relative_path) (c # cs) of
             [] \<Rightarrow> Inl (TargetGroundingError (''TARGET_EVIDENCE_MISSING: no repository evidence supports '' @ relative_path))
           | s # ss \<Rightarrow>
               (let selected_score = candidate_points (strongest_from s ss); strongest = strongest_from c cs;
                    strongest_score = candidate_points strongest
                in if candidate_path strongest \<noteq> JStr relative_path \<and> selected_score + 40 \<le> strongest_score
                   then Inl (TargetGroundingError (''TARGET_MISMATCH: stronger semantic candidate '' @
                     json_str (candidate_path strongest) @ '' score='' @ show_int strongest_score @ '' selected='' @
                     relative_path @ '' score='' @ show_int selected_score))
                   else if target_evidence = None \<and> cs \<noteq> []
                   then Inl (TargetGroundingError (''TARGET_EVIDENCE_REQUIRED: multiple literal candidates exist; include '' @
                     ''target_evidence explaining selected/rejected candidates''))
                   else Inr ())))"

subsection \<open>The read cache\<close>

text \<open>Every entry of the cache is what a reading of some bytes with the digest of its key returned.\<close>

definition cache_faithful :: "(string \<Rightarrow> string) \<Rightarrow> (string \<Rightarrow> string result) \<Rightarrow> read_cache \<Rightarrow> bool" where
  "cache_faithful sha text_of cache \<longleftrightarrow>
     (\<forall>rel a b h res. map_of cache (rel, a, b, h) = Some res \<longrightarrow>
        (\<exists>bytes contents. sha bytes = h \<and> text_of bytes = Inr contents \<and> res = read_result rel a b h contents))"

text \<open>The cache after a sequence of readings, each in a world of its own.\<close>

fun read_caches ::
    "(string \<Rightarrow> string) \<Rightarrow> (path \<Rightarrow> path) \<Rightarrow> (string \<Rightarrow> string result) \<Rightarrow> path \<Rightarrow> (string \<times> int \<times> int \<times> world) list \<Rightarrow>
     read_cache \<Rightarrow> read_cache" where
  "read_caches sha rsv text_of root [] cache = cache"
| "read_caches sha rsv text_of root ((rel, a, b, w) # reads) cache =
     read_caches sha rsv text_of root reads (fst (read_file sha rsv text_of root rel a b cache w))"

lemma cache_faithful_Nil [simp]: "cache_faithful sha text_of []"
  by (simp add: cache_faithful_def)

lemma read_file_cases:
  "(\<exists>e. read_file sha rsv text_of root rel a b cache w = (cache, Inl e) \<and>
      snd (read_file sha rsv text_of root rel a b [] w) = Inl e) \<or>
   (\<exists>bytes. file_at w (resolve_in rsv root rel) = Some bytes \<and>
      read_file sha rsv text_of root rel a b cache w =
        (case map_of cache (rel, a, b, sha bytes) of
           Some result \<Rightarrow> (cache, Inr (AList.update ''cache'' (JStr ''hit'') result))
         | None \<Rightarrow> (case text_of bytes of Inl e \<Rightarrow> (cache, Inl e)
             | Inr t \<Rightarrow> (AList.update (rel, a, b, sha bytes) (read_result rel a b (sha bytes) t) cache,
                 Inr (read_result rel a b (sha bytes) t)))) \<and>
      snd (read_file sha rsv text_of root rel a b [] w) =
        (case text_of bytes of Inl e \<Rightarrow> Inl e | Inr t \<Rightarrow> Inr (read_result rel a b (sha bytes) t)))"
  by (auto simp: read_file_def file_sha_def Let_def split: option.splits sum.splits)

lemma cache_faithful_update:
  "cache_faithful sha text_of cache \<Longrightarrow> text_of bytes = Inr t \<Longrightarrow>
   cache_faithful sha text_of (AList.update (rel, a, b, sha bytes) (read_result rel a b (sha bytes) t) cache)"
  unfolding cache_faithful_def update_conv' by (metis Pair_inject fun_upd_apply option.inject)

lemma read_file_faithful:
  assumes "cache_faithful sha text_of cache"
  shows "cache_faithful sha text_of (fst (read_file sha rsv text_of root rel a b cache w))"
  using read_file_cases [of sha rsv text_of root rel a b cache w] assms
  by (auto intro: cache_faithful_update split: option.splits sum.splits)

lemma read_caches_faithful:
  "cache_faithful sha text_of cache \<Longrightarrow> cache_faithful sha text_of (read_caches sha rsv text_of root reads cache)"
  by (induction sha rsv text_of root reads cache rule: read_caches.induct) (simp_all add: read_file_faithful)

lemma delete_cache_hit [simp]:
  "AList.delete ''cache'' (AList.update ''cache'' v (read_result rel a b h t)) = AList.delete ''cache'' (read_result rel a b h t)"
  by (simp add: read_result_def Let_def)

text \<open>
  (C33) The read cache is transparent: after any sequence of readings, in whatever states the files were at the time, a
  reading answers what a reading without the cache would answer, apart from the entry that says whether the cache was
  hit. The key holds the digest of the file, so a changed file is read again; the digest is assumed to be injective.
\<close>

theorem read_cache_transparent:
  assumes "inj sha"
  shows "map_sum id (AList.delete ''cache'')
      (snd (read_file sha rsv text_of root rel a b (read_caches sha rsv text_of root reads []) w)) =
    map_sum id (AList.delete ''cache'') (snd (read_file sha rsv text_of root rel a b [] w))"
proof -
  let ?c = "read_caches sha rsv text_of root reads []"
  have ok: "cache_faithful sha text_of ?c" by (simp add: read_caches_faithful)
  from read_file_cases [of sha rsv text_of root rel a b ?c w] show ?thesis
  proof (elim disjE exE conjE)
    fix bytes
    assume eq: "read_file sha rsv text_of root rel a b ?c w =
        (case map_of ?c (rel, a, b, sha bytes) of
           Some result \<Rightarrow> (?c, Inr (AList.update ''cache'' (JStr ''hit'') result))
         | None \<Rightarrow> (case text_of bytes of Inl e \<Rightarrow> (?c, Inl e)
             | Inr t \<Rightarrow> (AList.update (rel, a, b, sha bytes) (read_result rel a b (sha bytes) t) ?c,
                 Inr (read_result rel a b (sha bytes) t))))"
      and plain: "snd (read_file sha rsv text_of root rel a b [] w) =
        (case text_of bytes of Inl e \<Rightarrow> Inl e | Inr t \<Rightarrow> Inr (read_result rel a b (sha bytes) t))"
    show ?thesis
    proof (cases "map_of ?c (rel, a, b, sha bytes)")
      case None
      then show ?thesis by (simp add: eq plain split: sum.splits)
    next
      case (Some res)
      with ok obtain bytes' t where t: "sha bytes' = sha bytes" "text_of bytes' = Inr t"
          "res = read_result rel a b (sha bytes) t"
        unfolding cache_faithful_def by metis
      from t(1) assms have "bytes' = bytes" by (simp add: inj_eq)
      with t Some show ?thesis by (simp add: eq plain)
    qed
  qed simp
qed

theorem read_cache_transparent_witness:
  "let w = \<lparr>wk_db = empty_db, wk_files = Mapping.update [''p'', ''a''] ''one two'' Mapping.empty, wk_dirs = [], wk_manifests = Mapping.empty\<rparr>;
       cache = read_caches (\<lambda>x. x) (\<lambda>p. p) Inr [''p''] [(''a'', 1, 2, w)] []
   in length cache = 1 \<and>
      map_sum id (AList.delete ''cache'') (snd (read_file (\<lambda>x. x) (\<lambda>p. p) Inr [''p''] ''a'' 1 2 cache w)) =
      Inr (AList.delete ''cache'' (read_result ''a'' 1 2 ''one two'' ''one two''))"
proof -
  let ?w = "\<lparr>wk_db = empty_db, wk_files = Mapping.update [''p'', ''a''] ''one two'' Mapping.empty, wk_dirs = [],
    wk_manifests = Mapping.empty\<rparr> :: world"
  have "inj (\<lambda>x :: string. x)" by simp
  from read_cache_transparent [OF this, of "\<lambda>p. p" Inr "[''p'']" "''a''" 1 2 "[(''a'', 1, 2, ?w)]" ?w]
  have "map_sum id (AList.delete ''cache'') (snd (read_file (\<lambda>x. x) (\<lambda>p. p) Inr [''p''] ''a'' 1 2
      (read_caches (\<lambda>x. x) (\<lambda>p. p) Inr [''p''] [(''a'', 1, 2, ?w)] []) ?w)) =
    map_sum id (AList.delete ''cache'') (snd (read_file (\<lambda>x. x) (\<lambda>p. p) Inr [''p''] ''a'' 1 2 [] ?w))" .
  moreover have "snd (read_file (\<lambda>x. x) (\<lambda>p. p) Inr [''p''] ''a'' 1 2 [] ?w) = Inr (read_result ''a'' 1 2 ''one two'' ''one two'')"
    by code_simp
  moreover have "length (read_caches (\<lambda>x. x) (\<lambda>p. p) Inr [''p''] [(''a'', 1, 2, ?w)] []) = 1" by code_simp
  ultimately show ?thesis by (simp add: Let_def)
qed

subsection \<open>The bounds of a search\<close>

text \<open>A candidate that the search would report: inside the root, not too large, readable, with a line that matches.\<close>

definition file_hit ::
    "(path \<Rightarrow> path) \<Rightarrow> (string \<Rightarrow> string result) \<Rightarrow> path \<Rightarrow> world \<Rightarrow> string list \<Rightarrow> string \<Rightarrow> bool" where
  "file_hit rsv text_of root w variants p \<longleftrightarrow> prefix root (resolve_in rsv root p) \<and>
     (case file_at w (resolve_in rsv root p) of None \<Rightarrow> False
      | Some bytes \<Rightarrow> int (length bytes) \<le> SEARCH_CODE_MAX_BYTES \<and>
          (case text_of bytes of Inl _ \<Rightarrow> False
           | Inr contents \<Rightarrow> list_ex (\<lambda>l. list_ex (\<lambda>v. py_in v l) variants) (splitlines contents)))"

definition scan_within :: "scan_state \<Rightarrow> bool" where
  "scan_within s \<longleftrightarrow> length (sc_matches s) \<le> SEARCH_CODE_MAX_MATCHES \<and> int (sc_scanned s) \<le> SEARCH_CODE_MAX_FILES \<and>
     int (sc_bytes s) \<le> SEARCH_CODE_MAX_TOTAL_BYTES \<and> sc_read s \<le> sc_scanned s"

lemma first_match_None: "first_match variants n ls = None \<longleftrightarrow> \<not> list_ex (\<lambda>l. list_ex (\<lambda>v. py_in v l) variants) ls"
  by (induction ls arbitrary: n) auto

lemma file_match_paths:
  "map cm_path (file_match ts variants p contents) =
     (if list_ex (\<lambda>l. list_ex (\<lambda>v. py_in v l) variants) (splitlines contents) then [p] else [])"
  using first_match_None [of variants 1 "splitlines contents"]
  by (auto simp: file_match_def Let_def split: option.splits)

lemma length_file_match: "length (file_match ts variants p contents) \<le> 1"
  by (simp add: file_match_def Let_def split: option.split)

text \<open>What the scan does with its next candidate.\<close>

lemma scan_files_step:
  obtains (stop) "scan_files rsv text_of root w ts variants (p # ps) s = s\<lparr>sc_early_stop := True\<rparr>"
  | (skip) n where "scan_files rsv text_of root w ts variants (p # ps) s =
        scan_files rsv text_of root w ts variants ps (s\<lparr>sc_skipped := sc_skipped s + 1, sc_scanned := sc_scanned s + n\<rparr>)"
      "\<not> file_hit rsv text_of root w variants p" "n \<le> 1" "int (sc_scanned s) < SEARCH_CODE_MAX_FILES"
  | (found) bytes contents where "scan_files rsv text_of root w ts variants (p # ps) s =
        (let s' = scanned_file ts variants p bytes contents s
         in if SEARCH_CODE_MAX_MATCHES \<le> length (sc_matches s') then s'\<lparr>sc_early_stop := True\<rparr>
            else scan_files rsv text_of root w ts variants ps s')"
      "int (sc_scanned s) < SEARCH_CODE_MAX_FILES" "int (sc_bytes s + length bytes) \<le> SEARCH_CODE_MAX_TOTAL_BYTES"
      "file_hit rsv text_of root w variants p \<longleftrightarrow> map cm_path (file_match ts variants p contents) = [p]"
proof (cases "SEARCH_CODE_MAX_FILES \<le> int (sc_scanned s)")
  case True
  then show thesis by (intro stop) simp
next
  case False
  show thesis
  proof (cases "prefix root (resolve_in rsv root p)")
    case outside: False
    show thesis using False outside by (intro skip [of 0]) (simp_all add: file_hit_def)
  next
    case inside: True
    show thesis
    proof (cases "file_at w (resolve_in rsv root p)")
      case None
      then show thesis using False inside by (intro skip [of 0]) (simp_all add: file_hit_def)
    next
      case (Some bytes)
      consider "SEARCH_CODE_MAX_BYTES < int (length bytes)"
        | "int (length bytes) \<le> SEARCH_CODE_MAX_BYTES" "SEARCH_CODE_MAX_TOTAL_BYTES < int (sc_bytes s + length bytes)"
        | e where "int (length bytes) \<le> SEARCH_CODE_MAX_BYTES"
            "int (sc_bytes s + length bytes) \<le> SEARCH_CODE_MAX_TOTAL_BYTES" "text_of bytes = Inl e"
        | t where "int (length bytes) \<le> SEARCH_CODE_MAX_BYTES"
            "int (sc_bytes s + length bytes) \<le> SEARCH_CODE_MAX_TOTAL_BYTES" "text_of bytes = Inr t"
        by (meson not_le sum.exhaust)
      then show thesis
      proof cases
        case 1
        then show thesis using False inside Some by (intro skip [of 0]) (simp_all add: file_hit_def)
      next
        case 2
        then show thesis using False inside Some by (intro stop) simp
      next
        case 3
        then show thesis using False inside Some by (intro skip [of 1]) (simp_all add: file_hit_def)
      next
        case 4
        then show thesis using False inside Some
          by (intro found [of bytes t]) (simp_all add: file_hit_def file_match_paths Let_def)
      qed
    qed
  qed
qed

lemma scan_files_within:
  assumes "scan_within s" "length (sc_matches s) < SEARCH_CODE_MAX_MATCHES"
  shows "scan_within (scan_files rsv text_of root w ts variants ps s)"
  using assms
proof (induction ps arbitrary: s)
  case Nil
  then show ?case by simp
next
  case (Cons p ps)
  show ?case
  proof (cases rule: scan_files_step [of rsv text_of root w ts variants p ps s])
    case stop
    show ?thesis unfolding stop using Cons.prems by (simp add: scan_within_def)
  next
    case (skip n)
    show ?thesis unfolding skip(1)
      by (rule Cons.IH) (use Cons.prems skip(3,4) in \<open>auto simp: scan_within_def\<close>)
  next
    case (found bytes contents)
    let ?s = "scanned_file ts variants p bytes contents s"
    have "length (sc_matches ?s) \<le> Suc (length (sc_matches s))"
      using length_file_match [of ts variants p contents] by (simp add: scanned_file_def)
    then have ok: "scan_within ?s"
      using found(2,3) Cons.prems by (simp add: scan_within_def scanned_file_def)
    show ?thesis
    proof (cases "SEARCH_CODE_MAX_MATCHES \<le> length (sc_matches ?s)")
      case True
      then show ?thesis unfolding found(1) Let_def using ok by (simp add: scan_within_def)
    next
      case False
      then show ?thesis unfolding found(1) Let_def using ok by (simp add: Cons.IH)
    qed
  qed
qed

text \<open>Every reported path was a candidate with a hit; without an early stop every hit is reported.\<close>

lemma scan_files_paths:
  "set (map cm_path (sc_matches (scan_files rsv text_of root w ts variants ps s))) \<subseteq>
     set (map cm_path (sc_matches s)) \<union> {p \<in> set ps. file_hit rsv text_of root w variants p} \<and>
   (sc_early_stop (scan_files rsv text_of root w ts variants ps s) \<or>
    set (map cm_path (sc_matches s)) \<union> {p \<in> set ps. file_hit rsv text_of root w variants p} \<subseteq>
      set (map cm_path (sc_matches (scan_files rsv text_of root w ts variants ps s))))"
proof (induction ps arbitrary: s)
  case Nil
  then show ?case by simp
next
  case (Cons p ps)
  show ?case
  proof (cases rule: scan_files_step [of rsv text_of root w ts variants p ps s])
    case stop
    show ?thesis unfolding stop by simp
  next
    case (skip n)
    show ?thesis unfolding skip(1)
      using Cons.IH [of "s\<lparr>sc_skipped := sc_skipped s + 1, sc_scanned := sc_scanned s + n\<rparr>"] skip(2) by auto
  next
    case (found bytes contents)
    have hit: "{q \<in> set (p # ps). file_hit rsv text_of root w variants q} =
        set (map cm_path (file_match ts variants p contents)) \<union> {q \<in> set ps. file_hit rsv text_of root w variants q}"
      using found(4) by (auto simp: file_match_paths split: if_splits)
    show ?thesis
    proof (cases "SEARCH_CODE_MAX_MATCHES \<le> length (sc_matches (scanned_file ts variants p bytes contents s))")
      case True
      then show ?thesis unfolding found(1) hit Let_def by (auto simp: scanned_file_def)
    next
      case False
      then show ?thesis unfolding found(1) hit Let_def using Cons.IH [of "scanned_file ts variants p bytes contents s"]
        by (auto simp: scanned_file_def)
    qed
  qed
qed

text \<open>
  A search of the files is bounded and stays in the project: it looks at no more than 4000 files and two million
  bytes, reports at most 25 matches in the order of their score, rank and path, and each of them is a candidate whose
  resolved file lies inside the project root, is at most 512000 bytes long and has a line that contains the query.
\<close>

theorem search_bounded:
  "let s = search_candidate_files rsv text_of root w candidates ts variants skipped
   in length (sc_matches s) \<le> 25 \<and> sc_scanned s \<le> 4000 \<and> sc_read s \<le> sc_scanned s \<and> sc_bytes s \<le> 2000000 \<and>
      sorted (map match_key (sc_matches s)) \<and>
      list_all (\<lambda>m. cm_path m \<in> set candidates \<and> file_hit rsv text_of root w variants (cm_path m)) (sc_matches s)"
proof -
  define s0 where "s0 = \<lparr>sc_matches = [], sc_scanned = 0, sc_read = 0, sc_bytes = 0, sc_skipped = skipped, sc_early_stop = False\<rparr>"
  let ?ps = "sort_key (\<lambda>p. (search_path_rank p, p)) candidates"
  have "scan_within (scan_files rsv text_of root w ts variants ?ps s0)"
    by (rule scan_files_within) (simp_all add: s0_def scan_within_def SEARCH_CODE_MAX_MATCHES_def SEARCH_CODE_MAX_FILES_def SEARCH_CODE_MAX_TOTAL_BYTES_def)
  moreover have "set (map cm_path (sc_matches (scan_files rsv text_of root w ts variants ?ps s0))) \<subseteq>
      {p \<in> set candidates. file_hit rsv text_of root w variants p}"
    using scan_files_paths [of rsv text_of root w ts variants ?ps s0] by (auto simp: s0_def)
  ultimately show ?thesis
    unfolding search_candidate_files_def Let_def s0_def [symmetric]
    by (auto simp: scan_within_def SEARCH_CODE_MAX_MATCHES_def SEARCH_CODE_MAX_FILES_def SEARCH_CODE_MAX_TOTAL_BYTES_def
        list_all_iff)
qed

text \<open>
  (C34) A search that was not stopped by a limit is exact: the files it reports are the candidates with a hit, whatever
  the order in which the candidates come.
\<close>

theorem search_exact:
  assumes "\<not> sc_early_stop (search_candidate_files rsv text_of root w candidates ts variants skipped)"
  shows "set (map cm_path (sc_matches (search_candidate_files rsv text_of root w candidates ts variants skipped))) =
    {p \<in> set candidates. file_hit rsv text_of root w variants p}"
  using assms scan_files_paths [of rsv text_of root w ts variants "sort_key (\<lambda>p. (search_path_rank p, p)) candidates"
      "\<lparr>sc_matches = [], sc_scanned = 0, sc_read = 0, sc_bytes = 0, sc_skipped = skipped, sc_early_stop = False\<rparr>"]
  unfolding search_candidate_files_def Let_def by (simp add: subset_antisym)

definition sample_tree :: world where
  "sample_tree = \<lparr>wk_db = empty_db, wk_files = Mapping.update [''p'', ''src'', ''a.ts''] ''const menu = 1''
     (Mapping.update [''p'', ''src'', ''b.ts''] ''other'' Mapping.empty),
     wk_dirs = [[''p''], [''p'', ''src'']], wk_manifests = Mapping.empty\<rparr>"

theorem search_exact_witness:
  "let s = search_candidate_files (\<lambda>p. p) Inr [''p''] sample_tree [''src/b.ts'', ''src/a.ts''] [''menu''] [''menu''] 0
   in \<not> sc_early_stop s \<and> set (map cm_path (sc_matches s)) = {''src/a.ts''}"
proof -
  let ?s = "search_candidate_files (\<lambda>p. p) Inr [''p''] sample_tree [''src/b.ts'', ''src/a.ts''] [''menu''] [''menu''] 0"
  have stop: "\<not> sc_early_stop ?s" by code_simp
  have a: "file_hit (\<lambda>p. p) Inr [''p''] sample_tree [''menu''] ''src/a.ts''" by code_simp
  have b: "\<not> file_hit (\<lambda>p. p) Inr [''p''] sample_tree [''menu''] ''src/b.ts''" by code_simp
  have "{p \<in> set [''src/b.ts'', ''src/a.ts'']. file_hit (\<lambda>p. p) Inr [''p''] sample_tree [''menu''] p} = {''src/a.ts''}"
    using a b by auto
  with search_exact [OF stop] stop show ?thesis by (simp add: Let_def)
qed

subsection \<open>The candidates of the worktree\<close>

lemma collect_candidates_props:
  assumes "distinct merged" "length merged < SEARCH_CODE_MAX_CANDIDATE_FILES" "list_all (\<lambda>p. \<not> search_path_excluded p) merged"
  shows "distinct (collect_candidates norm merged ps) \<and>
    length (collect_candidates norm merged ps) \<le> SEARCH_CODE_MAX_CANDIDATE_FILES \<and>
    list_all (\<lambda>p. \<not> search_path_excluded p) (collect_candidates norm merged ps)"
  using assms
  by (induction norm merged ps rule: collect_candidates.induct) (auto simp: Let_def)

text \<open>
  The candidates of a search, from Git or from the worktree, are at most a thousand distinct paths, and none of
  them runs through an excluded directory.
\<close>

theorem candidates_bounded:
  "case search_code_candidate_paths ls_files task_id root w of
     (candidates, source, skipped) \<Rightarrow>
       length candidates \<le> 1000 \<and> distinct candidates \<and> list_all (\<lambda>p. \<not> search_path_excluded p) candidates"
  using collect_candidates_props [of "[]" path_posix] collect_candidates_props [of "[]" "\<lambda>p. p"]
  by (simp add: search_code_candidate_paths_def merge_candidate_paths_def bounded_worktree_paths_def Let_def
      SEARCH_CODE_MAX_CANDIDATE_FILES_def)

subsection \<open>Grounding\<close>

lemma strongest_from_in: "strongest_from c cs \<in> set (c # cs)"
  by (induction c cs rule: strongest_from.induct) auto

lemma strongest_from_points: "candidate_points (strongest_from c cs) = Max (candidate_points ` set (c # cs))"
proof (induction c cs rule: strongest_from.induct)
  case (2 best c cs)
  have "Max (candidate_points ` set ((if candidate_points best < candidate_points c then c else best) # cs)) =
      Max (candidate_points ` set (best # c # cs))"
    by (cases "cs = []") (auto simp: max_def Max_insert)
  with 2 show ?case by simp
qed simp

text \<open>
  A patch is grounded exactly if the read-only tools of the task have reported its target, no other candidate is the
  strongest one by forty points or more, and the choice is explained unless there is no other candidate.
\<close>

theorem grounding_rule:
  "assert_grounded_target task_id relative_path target_evidence d = Inr () \<longleftrightarrow>
     (let candidates = target_candidates_from_evidence task_id d;
          selected = filter (\<lambda>c. candidate_path c = JStr relative_path) candidates;
          strongest = strongest_from (hd candidates) (tl candidates)
      in selected \<noteq> [] \<and> (case target_evidence of None \<Rightarrow> length candidates = 1 | Some e \<Rightarrow> True) \<and>
         (candidate_path strongest = JStr relative_path \<or>
          Max (candidate_points ` set candidates) < Max (candidate_points ` set selected) + 40))"
proof (cases "target_candidates_from_evidence task_id d")
  case Nil
  then show ?thesis by (simp add: assert_grounded_target_def)
next
  case (Cons c cs)
  show ?thesis
  proof (cases "filter (\<lambda>k. candidate_path k = JStr relative_path) (c # cs)")
    case Nil
    with Cons show ?thesis by (simp add: assert_grounded_target_def Let_def del: filter.simps)
  next
    case sel: (Cons s ss)
    have p: "candidate_points (strongest_from c cs) = Max (candidate_points ` set (c # cs))"
      "candidate_points (strongest_from s ss) = Max (candidate_points ` set (s # ss))"
      by (simp_all only: strongest_from_points)
    show ?thesis
      unfolding assert_grounded_target_def Cons Let_def list.case list.sel sel p
      by (cases "candidate_path (strongest_from c cs) = JStr relative_path"; cases target_evidence; cases cs)
        (auto simp del: Max_insert set_simps image_insert strongest_from.simps simp add: not_le [symmetric])
  qed
qed

end
