(* ===== verification/Knowledge.thy ===== *)
theory Knowledge
  imports Context
begin

section \<open>Knowledge: what the harness remembers of a project\<close>

text \<open>
  The services of \<^verbatim>\<open>knowledge/\<close> and \<^verbatim>\<open>governance/memory_writeback.py\<close>: knowledge enters as a candidate or as a verified
  record, is promoted by evidence, found to conflict, found to be stale, and retrieved. Python's parser of source
  texts and the digest are parameters of the signatures.
\<close>

subsection \<open>\<^verbatim>\<open>knowledge/repository.py\<close> and \<^verbatim>\<open>knowledge/extractor.py\<close>\<close>

definition source_ref_json :: "string \<Rightarrow> json_text" where
  "source_ref_json ref = JText (JObj [(''source_ref'', JStr ref)])"

definition add_sources :: "KnowledgeSource list \<Rightarrow> db \<Rightarrow> db" where
  "add_sources rows d = d\<lparr>knowledge_sources := knowledge_sources d @ rows\<rparr>"

definition knowledge_add ::
    "string \<Rightarrow> string \<Rightarrow> string \<Rightarrow> KnowledgeType \<Rightarrow> KnowledgeStatus \<Rightarrow> string list \<Rightarrow> string \<Rightarrow> string list \<Rightarrow> json list \<Rightarrow> int \<Rightarrow>
     KnowledgeSourceType \<Rightarrow> db \<Rightarrow> db \<times> EngineeringKnowledge" where
  "knowledge_add new_id project_id key knowledge_type status scope summary evidence payloads version source_type d =
     (let k = \<lparr>ek_id = new_id, ek_project_id = project_id, ek_knowledge_key = key, ek_knowledge_type = knowledge_type,
            ek_status = status, ek_version = version, ek_scope_json = json_dumps_strings scope, ek_summary = summary,
            ek_verified_evidence_json =
              (if status = KnowledgeStatus.VERIFIED
               then Some (JText (JList (if evidence \<noteq> [] then map JStr evidence else payloads))) else None)\<rparr>;
          source = (\<lambda>ref ev. \<lparr>ks_knowledge_id = new_id, ks_source_type = source_type, ks_source_ref = ref, ks_evidence_json = ev\<rparr>)
      in (add_sources (map (\<lambda>ref. source ref (source_ref_json ref)) evidence @
            map (\<lambda>(index, payload). source (key @ '':evidence:'' @ show_nat index) (JText payload)) (enumerate 1 payloads))
            (d\<lparr>knowledge := knowledge d @ [k]\<rparr>), k))"

definition from_llm_summary ::
    "string \<Rightarrow> string \<Rightarrow> string \<Rightarrow> string \<Rightarrow> KnowledgeType \<Rightarrow> string \<Rightarrow> string list \<Rightarrow> string \<Rightarrow> bool \<Rightarrow> db \<Rightarrow>
     db \<times> EngineeringKnowledge" where
  "from_llm_summary new_id project_id task_id key knowledge_type summary scope source_ref rollback_task d =
     (let k = \<lparr>ek_id = new_id, ek_project_id = project_id, ek_knowledge_key = key, ek_knowledge_type = knowledge_type,
            ek_status = (if rollback_task then KnowledgeStatus.FAILED_EXPERIENCE else KnowledgeStatus.CANDIDATE),
            ek_version = 1, ek_scope_json = json_dumps_strings scope, ek_summary = redact_assignments summary,
            ek_verified_evidence_json = None\<rparr>
      in (add_sources [\<lparr>ks_knowledge_id = new_id, ks_source_type = KnowledgeSourceType.LLM_SUMMARY,
              ks_source_ref = source_ref,
              ks_evidence_json = JText (JObj [(''task_id'', JStr task_id), (''source_ref'', JStr source_ref)])\<rparr>]
            (d\<lparr>knowledge := knowledge d @ [k]\<rparr>), k))"

subsection \<open>\<^verbatim>\<open>knowledge/promotion.py\<close>\<close>

datatype PromotionDecision = NEEDS_EVIDENCE | VERIFIED | REVIEWED

definition set_knowledge :: "string \<Rightarrow> (EngineeringKnowledge \<Rightarrow> EngineeringKnowledge) \<Rightarrow> db \<Rightarrow> db" where
  "set_knowledge i f d = d\<lparr>knowledge := set_row ek_id i f (knowledge d)\<rparr>"

definition promote :: "string \<Rightarrow> string list \<Rightarrow> KnowledgeSourceType \<Rightarrow> db \<Rightarrow> PromotionDecision action_result" where
  "promote knowledge_id evidence_refs source_type d =
     (case get_row ek_id knowledge_id (knowledge d) of
        None \<Rightarrow> (d, Inl (ValueError ''knowledge not found''))
      | Some k \<Rightarrow>
          let evidence = filter (\<lambda>ref. strip ref \<noteq> []) evidence_refs
          in if evidence = [] then (d, Inr NEEDS_EVIDENCE)
             else
               let reviewed = (source_type = KnowledgeSourceType.USER_REVIEW);
                   d1 = add_sources (map (\<lambda>ref. \<lparr>ks_knowledge_id = ek_id k, ks_source_type = source_type, ks_source_ref = ref,
                          ks_evidence_json = source_ref_json ref\<rparr>) evidence) d
               in (set_knowledge knowledge_id (\<lambda>x. x\<lparr>ek_verified_evidence_json := Some (json_dumps_strings evidence),
                     ek_status := (if reviewed then KnowledgeStatus.REVIEWED else KnowledgeStatus.VERIFIED)\<rparr>) d1,
                   Inr (if reviewed then PromotionDecision.REVIEWED else PromotionDecision.VERIFIED)))"

subsection \<open>\<^verbatim>\<open>knowledge/conflicts.py\<close>\<close>

datatype ConflictDecision = NO_CONFLICT | CONSERVATIVE_GOVERNANCE_REQUIRED

definition same_scope :: "EngineeringKnowledge \<Rightarrow> EngineeringKnowledge \<Rightarrow> bool" where
  "same_scope l r = (ek_scope_json l = ek_scope_json r)"

definition add_conflict :: "EngineeringKnowledge \<Rightarrow> EngineeringKnowledge \<Rightarrow> db \<Rightarrow> db" where
  "add_conflict candidate old d =
     (if list_ex (\<lambda>r. kr_source_knowledge_id r = ek_id candidate \<and> kr_target_knowledge_id r = ek_id old \<and>
           kr_relation_type r = CONFLICTS_WITH) (knowledge_relations d)
      then d
      else d\<lparr>knowledge_relations := knowledge_relations d @
        [\<lparr>kr_project_id = ek_project_id candidate, kr_source_knowledge_id = ek_id candidate, kr_target_knowledge_id = ek_id old,
          kr_relation_type = CONFLICTS_WITH,
          kr_evidence_json = JText (JObj [(''candidate'', JStr (ek_knowledge_key candidate)),
            (''candidate_version'', JInt (ek_version candidate)), (''governance'', JStr ''WARN_OR_BLOCK''),
            (''old_version'', JInt (ek_version old))])\<rparr>]\<rparr>)"

definition contradicts :: "EngineeringKnowledge \<Rightarrow> EngineeringKnowledge \<Rightarrow> bool" where
  "contradicts candidate old \<longleftrightarrow> ek_project_id old = ek_project_id candidate \<and> ek_knowledge_key old = ek_knowledge_key candidate \<and>
     ek_id old \<noteq> ek_id candidate \<and> same_scope old candidate \<and> strip (ek_summary old) \<noteq> strip (ek_summary candidate)"

definition evaluate_candidate :: "string \<Rightarrow> db \<Rightarrow> ConflictDecision action_result" where
  "evaluate_candidate candidate_id d =
     (case get_row ek_id candidate_id (knowledge d) of
        None \<Rightarrow> (d, Inl (ValueError ''candidate knowledge not found''))
      | Some candidate \<Rightarrow>
          (case find (contradicts candidate) (knowledge d) of
             None \<Rightarrow> (d, Inr NO_CONFLICT)
           | Some old \<Rightarrow>
               (add_conflict candidate old
                  (set_knowledge candidate_id (\<lambda>k. k\<lparr>ek_status := KnowledgeStatus.CONFLICTING\<rparr>) d),
                Inr CONSERVATIVE_GOVERNANCE_REQUIRED)))"

subsection \<open>\<^verbatim>\<open>knowledge/refresh_queue.py\<close> and \<^verbatim>\<open>knowledge/freshness.py\<close>\<close>

type_synonym RefreshQueue = "string list"

definition enqueue :: "string \<Rightarrow> RefreshQueue \<Rightarrow> RefreshQueue" where
  "enqueue knowledge_id q = (if knowledge_id \<notin> set q then q @ [knowledge_id] else q)"

datatype FreshnessStatus = FRESH | DRIFTED | STALE | MISSING | UNKNOWN

record FreshnessResult =
  fr_status :: FreshnessStatus
  fr_can_auto_allow :: bool

definition emit_stale_events :: "EngineeringKnowledge \<Rightarrow> db \<Rightarrow> db" where
  "emit_stale_events k d =
     (let evidence = JText (JObj [(''knowledge_id'', JStr (ek_id k)), (''knowledge_key'', JStr (ek_knowledge_key k))])
      in d\<lparr>audit_events := audit_events d @ [\<lparr>ae_task_id = None, ae_correlation_id = ''knowledge-stale:'' @ ek_id k,
              ae_actor_type = AuditActorType.SYSTEM, ae_actor_id = ''freshness-service'',
              ae_event_type = EventType.TOOL_EXECUTED, ae_payload_summary = ''knowledge marked stale'',
              ae_evidence_json = evidence\<rparr>],
           alert_events := alert_events d @ [\<lparr>al_task_id = None, al_system_scope = True, al_severity = AlertSeverity.WARNING,
              al_status = AlertStatus.OPEN, al_summary = ''knowledge freshness drifted'', al_evidence_json = evidence,
              al_resolved_at = None\<rparr>]\<rparr>)"

definition evaluate_freshness ::
    "string \<Rightarrow> string option \<Rightarrow> db \<times> RefreshQueue \<Rightarrow> (db \<times> RefreshQueue) \<times> FreshnessResult" where
  "evaluate_freshness knowledge_id current st =
     (let (d, q) = st; outcome = (\<lambda>s ok. \<lparr>fr_status = s, fr_can_auto_allow = ok\<rparr>)
      in case (get_row ek_id knowledge_id (knowledge d), current,
             find (\<lambda>s. kg_knowledge_id s = knowledge_id) (knowledge_signatures d)) of
           (None, _, _) \<Rightarrow> ((d, q), outcome MISSING False)
         | (Some k, None, _) \<Rightarrow> ((d, q), outcome UNKNOWN False)
         | (Some k, Some h, None) \<Rightarrow> ((d, q), outcome UNKNOWN False)
         | (Some k, Some h, Some stored) \<Rightarrow>
             if ek_status k = KnowledgeStatus.STALE then ((d, enqueue knowledge_id q), outcome FreshnessStatus.STALE False)
             else if kg_signature_hash stored = h then ((d, q), outcome FRESH True)
             else ((emit_stale_events k (set_knowledge knowledge_id (\<lambda>x. x\<lparr>ek_status := KnowledgeStatus.STALE\<rparr>) d),
                    enqueue knowledge_id q), outcome DRIFTED False))"

subsection \<open>\<^verbatim>\<open>knowledge/retrieval.py\<close>\<close>

record KnowledgeHit =
  kh_knowledge_id :: string
  kh_knowledge_key :: string
  kh_score :: int
  kh_reasons :: "string list"
  kh_can_inform_success :: bool

definition knowledge_scope :: "json_text \<Rightarrow> string list" where
  "knowledge_scope t = (case json_loads t of Some (JList xs) \<Rightarrow> map json_str xs | _ \<Rightarrow> [])"

fun status_score :: "KnowledgeStatus \<Rightarrow> int \<times> string list" where
  "status_score KnowledgeStatus.VERIFIED = (100, [''verified''])"
| "status_score KnowledgeStatus.REVIEWED = (70, [''reviewed''])"
| "status_score KnowledgeStatus.STALE = (- 10, [''stale''])"
| "status_score FAILED_EXPERIENCE = (10, [''failed experience''])"
| "status_score _ = (0, [])"

definition match_score :: "string list \<Rightarrow> string list \<Rightarrow> EngineeringKnowledge \<Rightarrow> int \<times> string list" where
  "match_score paths keywords row =
     (let direct = list_ex (\<lambda>p. p \<in> set (knowledge_scope (ek_scope_json row))) paths;
          matched = filter (\<lambda>w. py_in (lower w) (lower (ek_summary row))) keywords
      in ((if direct then 80 else 0) + 20 * int (length matched),
          (if direct then [''direct path''] else []) @ (if matched \<noteq> [] then [''keyword''] else [])))"

definition score_hit :: "string list \<Rightarrow> string list \<Rightarrow> EngineeringKnowledge \<Rightarrow> KnowledgeHit" where
  "score_hit paths keywords row =
     (let (score, reasons) = match_score paths keywords row; (bonus, why) = status_score (ek_status row)
      in if score = 0
         then \<lparr>kh_knowledge_id = ek_id row, kh_knowledge_key = ek_knowledge_key row, kh_score = 0, kh_reasons = [],
               kh_can_inform_success = False\<rparr>
         else \<lparr>kh_knowledge_id = ek_id row, kh_knowledge_key = ek_knowledge_key row, kh_score = score + bonus,
               kh_reasons = reasons @ why,
               kh_can_inform_success = (ek_status row \<notin> {FAILED_EXPERIENCE, KnowledgeStatus.STALE})\<rparr>)"

text \<open>The slice \<^verbatim>\<open>[:limit]\<close> of Python drops from the end for a negative limit.\<close>

definition slice_to :: "int \<Rightarrow> 'a list \<Rightarrow> 'a list" where
  "slice_to n xs = take (nat (if n < 0 then int (length xs) + n else n)) xs"

definition hit_key :: "KnowledgeHit \<Rightarrow> int \<times> string \<times> string" where
  "hit_key h = (- kh_score h, kh_knowledge_key h, kh_knowledge_id h)"

definition knowledge_search :: "string \<Rightarrow> string list \<Rightarrow> string list \<Rightarrow> int \<Rightarrow> db \<Rightarrow> KnowledgeHit list" where
  "knowledge_search project_id paths keywords limit d =
     slice_to limit (sort_key hit_key (filter (\<lambda>h. 0 < kh_score h)
       (map (score_hit paths keywords) (filter (\<lambda>k. ek_project_id k = project_id) (knowledge d)))))"

subsection \<open>\<^verbatim>\<open>knowledge/signature.py\<close>\<close>

datatype SignatureStatus = OK | DEGRADED_PARSE_ERROR | MISSING_SYMBOL | OUTSIDE_PROJECT | NOT_FOUND

fun signature_status_str :: "SignatureStatus \<Rightarrow> string" where
  "signature_status_str SignatureStatus.OK = ''OK''"
| "signature_status_str DEGRADED_PARSE_ERROR = ''DEGRADED_PARSE_ERROR''"
| "signature_status_str MISSING_SYMBOL = ''MISSING_SYMBOL''"
| "signature_status_str OUTSIDE_PROJECT = ''OUTSIDE_PROJECT''"
| "signature_status_str NOT_FOUND = ''NOT_FOUND''"

record CodeKnowledgeSignature =
  sg_status :: SignatureStatus
  sg_revision :: string
  sg_relative_path :: string
  sg_file_hash :: string
  sg_ast_hash :: "string option"
  sg_symbol_hash :: "string option"
  sg_signature_hash :: string

text \<open>
  What a builder sees: the file system and the policy of the project, the texts of files, the digest, and Python's
  parser: the dump of a text that parses, with the dump of the first definition of a name in it.
\<close>

record signature_env =
  sv_fs :: fs_view
  sv_policy :: PathPolicy
  sv_text :: "string list \<Rightarrow> string result"
  sv_sha :: "string \<Rightarrow> string"
  sv_parse :: "string \<Rightarrow> (string \<times> (string \<Rightarrow> string option)) option"

definition hash_text :: "string option \<Rightarrow> string" where
  "hash_text h = (case h of None \<Rightarrow> ''None'' | Some x \<Rightarrow> x)"

definition empty_signature :: "signature_env \<Rightarrow> SignatureStatus \<Rightarrow> string \<Rightarrow> string \<Rightarrow> CodeKnowledgeSignature" where
  "empty_signature env status revision relative_path =
     \<lparr>sg_status = status, sg_revision = revision, sg_relative_path = relative_path, sg_file_hash = [], sg_ast_hash = None,
      sg_symbol_hash = None, sg_signature_hash = sv_sha env (join '':'' [revision, relative_path, signature_status_str status])\<rparr>"

definition file_signature ::
    "signature_env \<Rightarrow> string \<Rightarrow> string \<Rightarrow> string \<Rightarrow> string option \<Rightarrow> CodeKnowledgeSignature" where
  "file_signature env relative_path content revision symbol_name =
     (let sha = sv_sha env; file_hash = sha content;
          signed = (\<lambda>status ast sy parts. \<lparr>sg_status = status, sg_revision = revision, sg_relative_path = relative_path,
            sg_file_hash = file_hash, sg_ast_hash = ast, sg_symbol_hash = sy,
            sg_signature_hash = sha (join '':'' ([revision, relative_path, file_hash] @ parts))\<rparr>)
      in case sv_parse env content of
           None \<Rightarrow> signed DEGRADED_PARSE_ERROR None None [''degraded'']
         | Some (tree, symbols) \<Rightarrow>
             let ast_hash = sha tree;
                 ok = (\<lambda>symbol_hash. signed SignatureStatus.OK (Some ast_hash) symbol_hash [ast_hash, hash_text symbol_hash])
             in (case symbol_name of
                   None \<Rightarrow> ok None
                 | Some name \<Rightarrow>
                     (case symbols name of
                        None \<Rightarrow> signed MISSING_SYMBOL (Some ast_hash) None [''missing'']
                      | Some symbol \<Rightarrow> ok (Some (sha symbol)))))"

definition for_file ::
    "signature_env \<Rightarrow> string \<Rightarrow> string \<Rightarrow> string option \<Rightarrow> CodeKnowledgeSignature result" where
  "for_file env relative_path revision symbol_name =
     (if is_absolute relative_path \<or> ''..'' \<in> set (path_parts relative_path)
      then Inr (empty_signature env OUTSIDE_PROJECT revision relative_path)
      else
        let decision = path_policy_resolve (sv_fs env) (sv_policy env) relative_path
        in if \<not> pd_allowed decision
           then Inr (empty_signature env
             (if PathDecision.pd_reason decision = ''REALPATH_OUTSIDE_PROJECT'' then OUTSIDE_PROJECT else NOT_FOUND) revision relative_path)
           else (case (pd_path decision, pd_relative_path decision) of
                   (Some path, Some rel) \<Rightarrow>
                     rbind (sv_text env path) (\<lambda>content. Inr (file_signature env rel content revision symbol_name))
                 | _ \<Rightarrow> Inl (ValueError ''assertion failed'')))"

subsection \<open>\<^verbatim>\<open>knowledge/update_success.py\<close> and \<^verbatim>\<open>knowledge/update_failure.py\<close>\<close>

record SuccessfulTaskResult =
  sr_task_id :: string
  sr_revision :: string
  sr_committed_diff :: string
  sr_changed_paths :: "string list"
  sr_passed_validation_refs :: "string list"
  sr_final_summary :: string

record SuccessKnowledgeRecord =
  sk_task_id :: string
  sk_relative_path :: string
  sk_summary :: string
  sk_status :: KnowledgeStatus
  sk_signature :: CodeKnowledgeSignature
  sk_evidence_refs :: "string list"

definition path_appears_in_diff :: "string \<Rightarrow> string \<Rightarrow> bool" where
  "path_appears_in_diff relative_path diff_text =
     (py_in (replace_char (CHR 0x5C) slash relative_path) diff_text \<or>
      startswith (strip diff_text) ''+'' \<or> startswith (strip diff_text) ''-'')"

definition extract_success :: "signature_env \<Rightarrow> SuccessfulTaskResult \<Rightarrow> SuccessKnowledgeRecord list result" where
  "extract_success env r =
     (let refs = filter (\<lambda>ref. strip ref \<noteq> []) (sr_passed_validation_refs r)
      in if strip (sr_committed_diff r) = [] \<or> refs = [] then Inr []
         else rmap (\<lambda>path. rbind (for_file env path (sr_revision r) None)
                (\<lambda>sig. Inr \<lparr>sk_task_id = sr_task_id r, sk_relative_path = sg_relative_path sig, sk_summary = sr_final_summary r,
                   sk_status = KnowledgeStatus.VERIFIED, sk_signature = sig, sk_evidence_refs = refs\<rparr>))
                (filter (\<lambda>path. path_appears_in_diff path (sr_committed_diff r)) (sr_changed_paths r)))"

record FailedTaskResult =
  fa_task_id :: string
  fa_outcome :: string
  fa_attempted_paths :: "string list"
  fa_failure_summary :: string
  fa_evidence_refs :: "string list"
  fa_log_text :: string

record FailureKnowledgeRecord =
  fk_task_id :: string
  fk_knowledge_type :: KnowledgeType
  fk_status :: KnowledgeStatus
  fk_outcome :: string
  fk_attempted_paths :: "string list"
  fk_evidence_refs :: "string list"
  fk_summary :: string
  fk_active_implementation_fact :: bool

text \<open>
  \<^verbatim>\<open>(?i)\b[\w-]*(?:api[_-]?key|token|secret|password)=[^\s]+\<close>: the equals sign ends the longest run of word
  characters and hyphens, so the keyword is the end of that run.
\<close>

definition secret_rewriter :: rewriter where
  "secret_rewriter prev s =
     (let wordy = (\<lambda>c. is_word c \<or> c = CHR ''-''); run = takeWhile wordy s; rest = dropWhile wordy s;
          body = takeWhile (\<lambda>c. \<not> is_space c) (tl rest)
      in if word_boundary prev s \<and> rest \<noteq> [] \<and> hd rest = CHR ''='' \<and> body \<noteq> [] \<and>
            list_ex (\<lambda>kw. endswith (lower run) kw)
              [''api_key'', ''api-key'', ''apikey'', ''token'', ''secret'', ''password'']
         then Some (''[REDACTED:SECRET]'', dropWhile (\<lambda>c. \<not> is_space c) (tl rest)) else None)"

definition redact_failure_text :: "string \<Rightarrow> string" where
  "redact_failure_text s = re_sub_at secret_rewriter None (redact_text s)"

definition extract_failure :: "FailedTaskResult \<Rightarrow> FailureKnowledgeRecord" where
  "extract_failure r =
     \<lparr>fk_task_id = fa_task_id r, fk_knowledge_type = KnowledgeType.FAILURE, fk_status = FAILED_EXPERIENCE,
      fk_outcome = fa_outcome r, fk_attempted_paths = map (replace_char (CHR 0x5C) slash) (fa_attempted_paths r),
      fk_evidence_refs = filter (\<lambda>ref. strip ref \<noteq> []) (fa_evidence_refs r),
      fk_summary = join [CHR 0x0A] (filter (\<lambda>part. strip part \<noteq> [])
        [fa_outcome r, redact_failure_text (fa_failure_summary r), redact_failure_text (fa_log_text r)]),
      fk_active_implementation_fact = False\<rparr>"

subsection \<open>\<^verbatim>\<open>governance/memory_writeback.py\<close>\<close>

record GovernanceMemoryWritebackResult =
  mw_knowledge_id :: string
  mw_category :: string
  mw_statement :: string

record memory_candidate =
  mc_project_id :: string
  mc_key :: string
  mc_category :: string
  mc_knowledge_type :: KnowledgeType
  mc_related_paths :: "string list"
  mc_statement :: string
  mc_evidence :: json

text \<open>A whole word somewhere in a text.\<close>

definition word_here :: "string \<Rightarrow> char option \<Rightarrow> string \<Rightarrow> bool" where
  "word_here w prev s = (startswith s w \<and> word_boundary prev s \<and>
     word_boundary (if w = [] then prev else Some (last w)) (drop (length w) s))"

fun word_search :: "string \<Rightarrow> char option \<Rightarrow> string \<Rightarrow> bool" where
  "word_search w prev [] = word_here w prev []"
| "word_search w prev (c # cs) = (word_here w prev (c # cs) \<or> word_search w (Some c) cs)"

definition is_disposable :: "string \<Rightarrow> bool" where
  "is_disposable reason = list_ex (\<lambda>w. word_search w None (lower reason))
     [''provider'', ''timeout'', ''network'', ''temporarygrant'', ''temporary'', ''disposable'', ''unverified'']"

definition json_object :: "json_text \<Rightarrow> (string \<times> json) list" where
  "json_object t = (case json_loads t of Some (JObj kvs) \<Rightarrow> kvs | _ \<Rightarrow> [])"

definition paths_from_json :: "json_text option \<Rightarrow> string list" where
  "paths_from_json t = (case t of
       None \<Rightarrow> []
     | Some x \<Rightarrow> (case json_loads x of Some (JList xs) \<Rightarrow> map (replace_char (CHR 0x5C) slash \<circ> json_str) xs | _ \<Rightarrow> []))"

definition memory_category :: "GovernanceDecision \<Rightarrow> string \<times> KnowledgeType" where
  "memory_category dec =
     (if gd_decision dec = GovernanceVerdict.BLOCK then (''confirmed_safety_risk'', KnowledgeType.CONSTRAINT)
      else if gd_approval_required dec then (''reusable_engineering_constraint'', KnowledgeType.CONSTRAINT)
      else (''important_engineering_decision'', KnowledgeType.DECISION))"

definition memory_statement :: "GovernanceDecision \<Rightarrow> string list \<Rightarrow> string" where
  "memory_statement dec matched =
     ''Governance '' @ verdict_str (gd_decision dec) @ '' from '' @ join '', '' matched @ '': '' @ gd_reason_summary dec"

definition memory_proposal :: "GovernanceDecision \<Rightarrow> db \<Rightarrow> ChangeProposal option" where
  "memory_proposal dec d =
     Option.bind (gd_impact_report_id dec) (\<lambda>i. Option.bind (get_row ir_id i (impact_reports d))
       (\<lambda>r. get_row pr_id (ir_proposal_id r) (proposals d)))"

fun risk_level_str :: "RiskLevel \<Rightarrow> string" where
  "risk_level_str RiskLevel.LOW = ''LOW''"
| "risk_level_str RiskLevel.MEDIUM = ''MEDIUM''"
| "risk_level_str RiskLevel.HIGH = ''HIGH''"
| "risk_level_str RiskLevel.CRITICAL = ''CRITICAL''"

definition memory_candidate_of :: "GovernanceDecision \<Rightarrow> ChangeTask \<Rightarrow> ChangeProposal \<Rightarrow> string list \<Rightarrow> memory_candidate" where
  "memory_candidate_of dec task proposal matched =
     (let related = sorted_set (filter (\<lambda>p. p \<noteq> [])
            (paths_from_json (gd_allowed_scope_json dec) @ paths_from_json (gd_denied_scope_json dec)));
          (category, knowledge_type) = memory_category dec; statement = memory_statement dec matched
      in \<lparr>mc_project_id = tk_project_id task, mc_key = ''governance:'' @ gd_id dec, mc_category = category,
          mc_knowledge_type = knowledge_type, mc_related_paths = related, mc_statement = statement,
          mc_evidence = JObj [(''sourceTaskId'', JStr (gd_task_id dec)), (''sourceProposalId'', JStr (pr_id proposal)),
            (''sourceGovernanceDecisionId'', JStr (gd_id dec)), (''category'', JStr category), (''statement'', JStr statement),
            (''reason'', JStr (gd_reason_summary dec)),
            (''evidence'', JObj [(''matchedRules'', JList (map JStr matched)), (''decision'', JStr (verdict_str (gd_decision dec))),
              (''riskLevel'', JStr (risk_level_str (gd_risk_level dec))), (''approvalRequired'', JBool (gd_approval_required dec)),
              (''ruleSetVersion'', JStr (gd_rule_set_version dec)), (''revision'', JStr (gd_revision dec))]),
            (''relatedPaths'', JList (map JStr related)), (''freshness'', JStr ''fresh''), (''confidence'', JStr ''verified'')]\<rparr>)"

definition matched_rule_names :: "GovernanceDecision \<Rightarrow> string list result" where
  "matched_rule_names dec =
     (case map_of (json_object (gd_evidence_json dec)) ''matched_rules'' of
        None \<Rightarrow> Inr []
      | Some v \<Rightarrow> rbind (json_iter v) (\<lambda>xs. Inr (filter (\<lambda>x. x \<noteq> []) xs)))"

definition memory_candidate_for :: "GovernanceDecision \<Rightarrow> db \<Rightarrow> memory_candidate option result" where
  "memory_candidate_for dec d =
     (if gd_status dec \<noteq> GovernanceDecisionStatus.ACTIVE \<or> is_disposable (gd_reason_summary dec) then Inr None
      else rbind (matched_rule_names dec) (\<lambda>matched.
        Inr (if matched = [] then None
          else Option.bind (get_row tk_id (gd_task_id dec) (tasks d)) (\<lambda>task.
            map_option (\<lambda>proposal. memory_candidate_of dec task proposal matched) (memory_proposal dec d)))))"

definition write_back :: "string \<Rightarrow> GovernanceDecision \<Rightarrow> db \<Rightarrow> GovernanceMemoryWritebackResult option action_result" where
  "write_back new_id dec d =
     (case memory_candidate_for dec d of
        Inl e \<Rightarrow> (d, Inl e)
      | Inr None \<Rightarrow> (d, Inr None)
      | Inr (Some c) \<Rightarrow>
          (case find (\<lambda>k. ek_project_id k = mc_project_id c \<and> ek_knowledge_key k = mc_key c \<and> ek_version k = 1) (knowledge d) of
             Some k \<Rightarrow> (d, Inr (Some \<lparr>mw_knowledge_id = ek_id k, mw_category = mc_category c, mw_statement = ek_summary k\<rparr>))
           | None \<Rightarrow>
               (case knowledge_add new_id (mc_project_id c) (mc_key c) (mc_knowledge_type c) KnowledgeStatus.VERIFIED
                    (mc_related_paths c) (mc_statement c) [] [mc_evidence c] 1 GOVERNANCE_AUDIT d of
                  (d', k) \<Rightarrow> (d', Inr (Some \<lparr>mw_knowledge_id = ek_id k, mw_category = mc_category c,
                               mw_statement = ek_summary k\<rparr>)))))"

subsection \<open>Verified knowledge has evidence\<close>

definition evidenced :: "EngineeringKnowledge \<Rightarrow> bool" where
  "evidenced k \<longleftrightarrow> (ek_status k = KnowledgeStatus.VERIFIED \<longrightarrow>
     (\<exists>x xs. ek_verified_evidence_json k = Some (JText (JList (x # xs)))))"

text \<open>The services that run on the database and the refresh queue of a process.\<close>

inductive knowledge_step :: "db \<times> RefreshQueue \<Rightarrow> db \<times> RefreshQueue \<Rightarrow> bool" where
  extracted: "knowledge_step (d, q) (fst (from_llm_summary i p t key ty summary scope ref rolled_back d), q)"
| promoted: "knowledge_step (d, q) (fst (promote i refs src d), q)"
| judged: "knowledge_step (d, q) (fst (evaluate_candidate i d), q)"
| checked: "knowledge_step (d, q) (fst (evaluate_freshness i current (d, q)))"
| remembered: "knowledge_step (d, q) (fst (write_back i dec d), q)"

lemma knowledge_simps [simp]:
  "knowledge (add_sources rows d) = knowledge d" "knowledge (set_knowledge i f d) = set_row ek_id i f (knowledge d)"
  "knowledge (add_conflict a b d) = knowledge d" "knowledge (emit_stale_events k d) = knowledge d"
  "knowledge_signatures (add_conflict a b d) = knowledge_signatures d"
  "knowledge_signatures (set_knowledge i f d) = knowledge_signatures d"
  "knowledge_signatures (emit_stale_events k d) = knowledge_signatures d"
  by (simp_all add: add_sources_def set_knowledge_def add_conflict_def emit_stale_events_def Let_def)

definition all_evidenced :: "db \<Rightarrow> bool" where
  "all_evidenced d \<longleftrightarrow> (\<forall>k \<in> set (knowledge d). evidenced k)"

lemma all_evidenced_simps [simp]:
  "all_evidenced (add_sources rows d) = all_evidenced d" "all_evidenced (add_conflict a b d) = all_evidenced d"
  "all_evidenced (emit_stale_events k d) = all_evidenced d"
  "all_evidenced (d\<lparr>knowledge := knowledge d @ [k]\<rparr>) \<longleftrightarrow> all_evidenced d \<and> evidenced k"
  by (auto simp: all_evidenced_def)

lemma all_evidenced_set_knowledge:
  assumes "all_evidenced d" and "\<And>k. evidenced (f k)"
  shows "all_evidenced (set_knowledge i f d)"
  using assms unfolding all_evidenced_def knowledge_simps by (intro ball_set_rowI)

lemma promote_evidenced:
  assumes "all_evidenced d"
  shows "all_evidenced (fst (promote i refs src d))"
proof (cases "get_row ek_id i (knowledge d)")
  case None
  with assms show ?thesis by (simp add: promote_def)
next
  case (Some k)
  show ?thesis
  proof (cases "filter (\<lambda>ref. strip ref \<noteq> []) refs")
    case Nil
    with assms Some show ?thesis by (simp add: promote_def)
  next
    case (Cons x xs)
    with assms Some show ?thesis
      by (simp add: promote_def Let_def all_evidenced_set_knowledge evidenced_def json_dumps_strings_def)
  qed
qed

lemma knowledge_step_evidenced:
  assumes "knowledge_step s s'" and "all_evidenced (fst s)"
  shows "all_evidenced (fst s')"
  using assms
proof (cases rule: knowledge_step.cases)
  case extracted
  then show ?thesis using assms(2) by (simp add: from_llm_summary_def evidenced_def Let_def)
next
  case promoted
  then show ?thesis using assms(2) promote_evidenced by simp
next
  case judged
  then show ?thesis using assms(2)
    by (auto simp: evaluate_candidate_def evidenced_def split: option.splits intro!: all_evidenced_set_knowledge)
next
  case checked
  then show ?thesis using assms(2)
    by (auto simp: evaluate_freshness_def evidenced_def Let_def split: option.splits intro!: all_evidenced_set_knowledge)
next
  case remembered
  then show ?thesis using assms(2)
    by (auto simp: write_back_def knowledge_add_def evidenced_def Let_def split: sum.splits option.splits)
qed

text \<open>
  (C37) However the extraction of candidates, promotion, the search for conflicts, the checks of freshness and the
  writeback of governance are interleaved, knowledge that counts as verified names its evidence.
\<close>

theorem verified_has_evidence:
  assumes "knowledge_step\<^sup>*\<^sup>* s s'" and "\<forall>k \<in> set (knowledge (fst s)). evidenced k"
    and "k \<in> set (knowledge (fst s'))" and "ek_status k = KnowledgeStatus.VERIFIED"
  shows "\<exists>x xs. ek_verified_evidence_json k = Some (JText (JList (x # xs)))"
proof -
  have "all_evidenced (fst s')"
    using assms(1,2) by (induction rule: rtranclp_induct) (auto simp: all_evidenced_def [symmetric] dest: knowledge_step_evidenced)
  with assms(3,4) show ?thesis by (auto simp: evidenced_def all_evidenced_def)
qed

definition sample_candidate_db :: db where
  "sample_candidate_db =
     fst (from_llm_summary ''k1'' ''p1'' ''t1'' ''orders'' KnowledgeType.PATTERN ''orders are cached'' [''src/orders.py''] ''ref'' False empty_db)"

definition sample_promoted :: "PromotionDecision action_result" where
  "sample_promoted = promote ''k1'' [''test:1''] KnowledgeSourceType.TEST sample_candidate_db"

theorem verified_has_evidence_witness:
  "\<exists>x xs. ek_verified_evidence_json (hd (knowledge (fst sample_promoted))) = Some (JText (JList (x # xs)))"
proof (rule verified_has_evidence)
  have "knowledge_step (empty_db, []) (sample_candidate_db, [])"
    unfolding sample_candidate_db_def by (rule extracted)
  moreover have "knowledge_step (sample_candidate_db, []) (fst sample_promoted, [])"
    unfolding sample_promoted_def by (rule promoted)
  ultimately show "knowledge_step\<^sup>*\<^sup>* (empty_db, []) (fst sample_promoted, [])" by (meson r_into_rtranclp rtranclp_trans)
  show "\<forall>k \<in> set (knowledge (fst (empty_db, [] :: string list))). evidenced k" by (simp add: empty_db_def)
  show "hd (knowledge (fst sample_promoted)) \<in> set (knowledge (fst (fst sample_promoted, [] :: string list)))" by code_simp
  show "ek_status (hd (knowledge (fst sample_promoted))) = KnowledgeStatus.VERIFIED" by code_simp
qed

subsection \<open>Freshness\<close>

definition stale :: "string \<Rightarrow> db \<Rightarrow> bool" where
  "stale i d \<longleftrightarrow> map_option ek_status (get_row ek_id i (knowledge d)) = Some KnowledgeStatus.STALE"

lemma freshness_cases:
  "fr_can_auto_allow (snd (evaluate_freshness i cur (d, q))) \<longleftrightarrow>
     (\<exists>k h s. get_row ek_id i (knowledge d) = Some k \<and> ek_status k \<noteq> KnowledgeStatus.STALE \<and> cur = Some h \<and>
        find (\<lambda>s. kg_knowledge_id s = i) (knowledge_signatures d) = Some s \<and> kg_signature_hash s = h)"
  "fr_can_auto_allow (snd (evaluate_freshness i cur (d, q))) \<longleftrightarrow> fr_status (snd (evaluate_freshness i cur (d, q))) = FRESH"
  by (auto simp: evaluate_freshness_def Let_def split: option.splits)

lemma freshness_keeps_stale: "stale i d \<Longrightarrow> stale i (fst (fst (evaluate_freshness j cur (d, q))))"
  by (auto simp: evaluate_freshness_def stale_def Let_def get_row_set_row split: option.splits)

lemma freshness_queue:
  "set q \<subseteq> set (snd (fst (evaluate_freshness j cur (d, q))))"
  "distinct q \<Longrightarrow> distinct (snd (fst (evaluate_freshness j cur (d, q))))"
  by (auto simp: evaluate_freshness_def enqueue_def Let_def split: option.splits)

text \<open>
  Knowledge may support an automatic decision exactly when its stored signature is the current one and it is not
  stale. Once its source has drifted, no sequence of later checks allows it again, whatever the signatures, and it
  waits in the refresh queue.
\<close>

theorem drift_blocks_auto_allow:
  assumes drift: "evaluate_freshness i cur (d, q) = ((d1, q1), r)" and r: "fr_status r = DRIFTED"
    and later: "(d2, q2) = fold (\<lambda>(j, c) st. fst (evaluate_freshness j c st)) checks (d1, q1)"
  shows "\<not> fr_can_auto_allow (snd (evaluate_freshness i cur' (d2, q2))) \<and> stale i d2 \<and> i \<in> set q2 \<and> (distinct q \<longrightarrow> distinct q2)"
proof -
  have "stale i d1 \<and> i \<in> set q1 \<and> (distinct q \<longrightarrow> distinct q1)"
    using drift r by (auto simp: evaluate_freshness_def stale_def enqueue_def Let_def get_row_set_row split: option.splits if_splits)
  then have "stale i d2 \<and> i \<in> set q2 \<and> (distinct q \<longrightarrow> distinct q2)"
    using later
  proof (induction checks arbitrary: d1 q1)
    case (Cons c cs)
    obtain j cur where c: "c = (j, cur)" by (cases c)
    obtain d' q' where e: "fst (evaluate_freshness j cur (d1, q1)) = (d', q')" by (metis prod.collapse)
    have "stale i d' \<and> i \<in> set q' \<and> (distinct q \<longrightarrow> distinct q')"
      using Cons.prems(1) freshness_keeps_stale [of i d1 j cur q1] freshness_queue [of q1 j cur d1] e by auto
    from Cons.IH [OF this] Cons.prems(2) c e show ?case by simp
  qed simp
  then show ?thesis by (auto simp: freshness_cases(1) stale_def)
qed

definition sample_signed_db :: "KnowledgeStatus \<Rightarrow> db" where
  "sample_signed_db status = empty_db\<lparr>knowledge := [\<lparr>ek_id = ''k1'', ek_project_id = ''p1'', ek_knowledge_key = ''orders'',
       ek_knowledge_type = KnowledgeType.PATTERN, ek_status = status, ek_version = 1,
       ek_scope_json = json_dumps_strings [''src/orders.py''], ek_summary = ''orders are cached'', ek_verified_evidence_json = None\<rparr>],
     knowledge_signatures := [\<lparr>kg_knowledge_id = ''k1'', kg_signature_hash = ''h1''\<rparr>]\<rparr>"

theorem drift_blocks_auto_allow_witness:
  "\<not> fr_can_auto_allow (snd (evaluate_freshness ''k1'' (Some ''h1'')
     (fst (evaluate_freshness ''k1'' (Some ''h2'') (sample_signed_db KnowledgeStatus.VERIFIED, [])))))"
proof -
  let ?out = "evaluate_freshness ''k1'' (Some ''h2'') (sample_signed_db KnowledgeStatus.VERIFIED, [])"
  obtain d1 q1 r where out: "?out = ((d1, q1), r)" by (metis prod.collapse)
  have "fr_status (snd ?out) = DRIFTED" by code_simp
  with out have "fr_status r = DRIFTED" by simp
  from drift_blocks_auto_allow [OF out this, of d1 q1 "[]" "Some ''h1''"] out show ?thesis by simp
qed

text \<open>
  Conflicting and deprecated knowledge passes both gates: with an unchanged signature it is fresh and may support an
  automatic decision, and a search offers it as able to inform success.
\<close>

theorem conflicting_knowledge_auto_allowed:
  "fr_can_auto_allow (snd (evaluate_freshness ''k1'' (Some ''h1'') (sample_signed_db CONFLICTING, []))) \<and>
   fr_can_auto_allow (snd (evaluate_freshness ''k1'' (Some ''h1'') (sample_signed_db DEPRECATED, []))) \<and>
   map kh_can_inform_success (knowledge_search ''p1'' [''src/orders.py''] [] 20 (sample_signed_db CONFLICTING)) = [True]"
  by code_simp

subsection \<open>Conflicts\<close>

lemma contradicts_status [simp]:
  "contradicts (c\<lparr>ek_status := s\<rparr>) old = contradicts c old" "contradicts c (old\<lparr>ek_status := s\<rparr>) = contradicts c old"
  by (simp_all add: contradicts_def same_scope_def)

text \<open>
  A candidate is sent to conservative governance exactly when other knowledge of the project has the same key and
  scope and says something else. The candidate is then marked, a relation to such knowledge is recorded, no other
  knowledge is touched, and the conflict keeps being reported.
\<close>

theorem conflict_detected:
  assumes c: "get_row ek_id i (knowledge d) = Some c" and out: "evaluate_candidate i d = (d', r)"
  shows "if \<exists>old \<in> set (knowledge d). contradicts c old
    then r = Inr CONSERVATIVE_GOVERNANCE_REQUIRED \<and> get_row ek_id i (knowledge d') = Some (c\<lparr>ek_status := CONFLICTING\<rparr>) \<and>
      (\<exists>old rel. old \<in> set (knowledge d) \<and> contradicts c old \<and> rel \<in> set (knowledge_relations d') \<and>
         kr_source_knowledge_id rel = i \<and> kr_target_knowledge_id rel = ek_id old \<and> kr_relation_type rel = CONFLICTS_WITH) \<and>
      (\<forall>j. j \<noteq> i \<longrightarrow> get_row ek_id j (knowledge d') = get_row ek_id j (knowledge d))
    else r = Inr NO_CONFLICT \<and> d' = d"
proof -
  have i: "ek_id c = i" using c by auto
  show ?thesis
  proof (cases "find (contradicts c) (knowledge d)")
    case None
    then have "d' = d" "r = Inr NO_CONFLICT" using out c by (simp_all add: evaluate_candidate_def)
    moreover have "\<not> (\<exists>old \<in> set (knowledge d). contradicts c old)" using None by (auto simp: find_None_iff)
    ultimately show ?thesis by simp
  next
    case (Some old)
    then have old: "old \<in> set (knowledge d)" "contradicts c old" by (auto simp: find_Some_iff)
    have d': "d' = add_conflict c old (set_knowledge i (\<lambda>k. k\<lparr>ek_status := CONFLICTING\<rparr>) d)" and r: "r = Inr CONSERVATIVE_GOVERNANCE_REQUIRED"
      using out c Some by (simp_all add: evaluate_candidate_def)
    have "\<exists>rel. rel \<in> set (knowledge_relations d') \<and> kr_source_knowledge_id rel = i \<and>
        kr_target_knowledge_id rel = ek_id old \<and> kr_relation_type rel = CONFLICTS_WITH"
      unfolding d' add_conflict_def i by (auto simp: list_ex_iff)
    with old r c show ?thesis unfolding d' by (auto simp: get_row_set_row)
  qed
qed

definition sample_conflict_db :: db where
  "sample_conflict_db = (sample_signed_db KnowledgeStatus.VERIFIED)\<lparr>knowledge := knowledge (sample_signed_db KnowledgeStatus.VERIFIED) @
     [(hd (knowledge (sample_signed_db CANDIDATE)))\<lparr>ek_id := ''k2'', ek_summary := ''orders are never cached''\<rparr>]\<rparr>"

theorem conflict_detected_witness:
  "\<exists>rel. rel \<in> set (knowledge_relations (fst (evaluate_candidate ''k2'' sample_conflict_db))) \<and>
     kr_source_knowledge_id rel = ''k2'' \<and> kr_relation_type rel = CONFLICTS_WITH"
proof -
  let ?c = "(hd (knowledge (sample_signed_db CANDIDATE)))\<lparr>ek_id := ''k2'', ek_summary := ''orders are never cached''\<rparr>"
  have "get_row ek_id ''k2'' (knowledge sample_conflict_db) = Some ?c" by code_simp
  moreover have "contradicts ?c (hd (knowledge sample_conflict_db))" by code_simp
  moreover have "hd (knowledge sample_conflict_db) \<in> set (knowledge sample_conflict_db)" by code_simp
  ultimately show ?thesis
    using conflict_detected [of "''k2''" sample_conflict_db ?c, OF _ prod.collapse [symmetric]] by (auto split: if_splits)
qed

subsection \<open>Governance memory\<close>

lemma memory_candidate_cong:
  "tasks d' = tasks d \<Longrightarrow> impact_reports d' = impact_reports d \<Longrightarrow> proposals d' = proposals d \<Longrightarrow>
   memory_candidate_for dec d' = memory_candidate_for dec d"
  by (simp add: memory_candidate_for_def memory_proposal_def cong: if_cong)

lemma find_append_None: "find P xs = None \<Longrightarrow> find P (xs @ [y]) = (if P y then Some y else None)"
  by (induction xs) (auto split: if_splits)

text \<open>
  Writing a decision back to memory twice leaves the same database and gives the same answer as writing it once,
  whichever identifier the second call draws.
\<close>

theorem writeback_idempotent:
  assumes "write_back i dec d = (d', Inr r)"
  shows "write_back j dec d' = (d', Inr r)"
proof (cases "memory_candidate_for dec d")
  case (Inl e)
  with assms show ?thesis by (simp add: write_back_def)
next
  case (Inr c)
  show ?thesis
  proof (cases c)
    case None
    with assms Inr show ?thesis by (simp add: write_back_def)
  next
    case (Some m)
    let ?P = "\<lambda>k. ek_project_id k = mc_project_id m \<and> ek_knowledge_key k = mc_key m \<and> ek_version k = 1"
    show ?thesis
    proof (cases "find ?P (knowledge d)")
      case None
      define k where "k = snd (knowledge_add i (mc_project_id m) (mc_key m) (mc_knowledge_type m) KnowledgeStatus.VERIFIED
          (mc_related_paths m) (mc_statement m) [] [mc_evidence m] 1 GOVERNANCE_AUDIT d)"
      have k: "?P k" by (simp add: k_def knowledge_add_def Let_def)
      have d': "d' = fst (knowledge_add i (mc_project_id m) (mc_key m) (mc_knowledge_type m) KnowledgeStatus.VERIFIED
          (mc_related_paths m) (mc_statement m) [] [mc_evidence m] 1 GOVERNANCE_AUDIT d)"
        and r: "r = Some \<lparr>mw_knowledge_id = ek_id k, mw_category = mc_category m, mw_statement = ek_summary k\<rparr>"
        using assms Inr Some None by (auto simp: write_back_def k_def split: prod.splits)
      have same: "memory_candidate_for dec d' = Inr (Some m)" and new: "knowledge d' = knowledge d @ [k]"
        using memory_candidate_cong [of d' d dec] Inr Some
        by (simp_all add: d' k_def knowledge_add_def add_sources_def Let_def)
      have "find ?P (knowledge d') = Some k" using find_append_None [OF None, of k] k unfolding new by simp
      then show ?thesis by (simp add: write_back_def same r)
    next
      case found: (Some k)
      with assms Inr Some show ?thesis by (auto simp: write_back_def)
    qed
  qed
qed

definition sample_memory_db :: db where
  "sample_memory_db = empty_db\<lparr>tasks := [new_task ''t1'' sample_request], proposals := [sample_proposal ''pr1'' 1 ProposalStatus.CONFIRMED],
     impact_reports := [\<lparr>ir_id = ''ir1'', ir_task_id = ''t1'', ir_proposal_id = ''pr1'', ir_base_revision = None,
       ir_direct_impacts_json = JText (JList []), ir_indirect_impacts_json = None, ir_uncertainties_json = None,
       ir_evidence_json = JText (JList []), ir_status = ImpactReportStatus.CURRENT\<rparr>]\<rparr>"

definition sample_audited :: GovernanceDecision where
  "sample_audited = (sample_decision GovernanceVerdict.BLOCK)\<lparr>gd_task_id := ''t1'', gd_impact_report_id := Some ''ir1'',
     gd_reason_summary := ''migrations are protected'', gd_status := GovernanceDecisionStatus.ACTIVE,
     gd_evidence_json := JText (JObj [(''matched_rules'', JList [JStr ''migrations''])])\<rparr>"

definition sample_memory :: "GovernanceMemoryWritebackResult option action_result" where
  "sample_memory = write_back ''k1'' sample_audited sample_memory_db"

theorem writeback_idempotent_witness:
  "fst (write_back ''k2'' sample_audited (fst sample_memory)) = fst sample_memory \<and> length (knowledge (fst sample_memory)) = 1"
proof -
  have ok: "length (knowledge (fst sample_memory)) = 1" "isl (snd sample_memory) = False" by (code_simp, code_simp)
  then obtain r where "snd sample_memory = Inr r" by (cases "snd sample_memory") auto
  then have "write_back ''k1'' sample_audited sample_memory_db = (fst sample_memory, Inr r)"
    by (metis sample_memory_def prod.collapse)
  from writeback_idempotent [OF this] ok(1) show ?thesis by simp
qed

subsection \<open>Retrieval\<close>

definition knowledge_hits :: "string \<Rightarrow> string list \<Rightarrow> string list \<Rightarrow> db \<Rightarrow> KnowledgeHit set" where
  "knowledge_hits project_id paths keywords d =
     {h. \<exists>k \<in> set (knowledge d). ek_project_id k = project_id \<and> h = score_hit paths keywords k \<and> 0 < kh_score h}"

lemma score_hit_informs:
  "kh_knowledge_id (score_hit paths keywords k) = ek_id k"
  "kh_can_inform_success (score_hit paths keywords k) \<Longrightarrow> ek_status k \<noteq> KnowledgeStatus.STALE \<and> ek_status k \<noteq> FAILED_EXPERIENCE"
  by (cases "match_score paths keywords k"; cases "status_score (ek_status k)";
      auto simp: score_hit_def Let_def split: if_splits)+

lemma slice_to_prefix: "prefix (slice_to n xs) xs"
  by (simp add: slice_to_def take_is_prefix)

lemma sorted_prefix_split:
  assumes "sorted (map f xs)" and "prefix ys xs" and "y \<in> set ys" and "x \<in> set xs" and "x \<notin> set ys"
  shows "f y \<le> f x"
proof -
  obtain zs where "xs = ys @ zs" using assms(2) by (auto simp: prefix_def)
  with assms show ?thesis by (auto simp: sorted_append)
qed

text \<open>
  A search returns hits of the project that match a path or a keyword, best first, no hit left out ranks before one
  returned, and nothing is left out below the limit; stale knowledge and failed experience never inform success.
\<close>

theorem search_ranked:
  assumes limit: "0 \<le> n" and r: "r = knowledge_search p paths keywords n d"
  shows "int (length r) \<le> n \<and> sorted (map hit_key r) \<and> set r \<subseteq> knowledge_hits p paths keywords d \<and>
    (\<forall>h \<in> knowledge_hits p paths keywords d - set r. \<forall>h' \<in> set r. hit_key h' \<le> hit_key h) \<and>
    (int (length r) < n \<longrightarrow> set r = knowledge_hits p paths keywords d) \<and>
    (\<forall>h \<in> set r. kh_can_inform_success h \<longrightarrow> (\<exists>k \<in> set (knowledge d). ek_id k = kh_knowledge_id h \<and>
       ek_status k \<noteq> KnowledgeStatus.STALE \<and> ek_status k \<noteq> FAILED_EXPERIENCE))"
proof -
  define all where "all = sort_key hit_key (filter (\<lambda>h. 0 < kh_score h)
       (map (score_hit paths keywords) (filter (\<lambda>k. ek_project_id k = p) (knowledge d))))"
  have hits: "set all = knowledge_hits p paths keywords d" by (auto simp: all_def knowledge_hits_def)
  have all: "r = slice_to n all" "sorted (map hit_key all)" by (simp_all add: r knowledge_search_def all_def)
  have pre: "prefix r all" using slice_to_prefix all(1) by simp
  have len: "length r = min (nat n) (length all)" using limit by (auto simp: all(1) slice_to_def min_def)
  have sub: "set r \<subseteq> set all" using pre by (metis set_mono_prefix)
  have "set r = knowledge_hits p paths keywords d" if "int (length r) < n" using that len limit hits by (auto simp: all(1) slice_to_def)
  moreover have "sorted (map hit_key r)" using all by (simp add: slice_to_def sorted_map take_map sorted_wrt_take)
  moreover have "hit_key h' \<le> hit_key h" if "h \<in> set all - set r" "h' \<in> set r" for h h'
    using sorted_prefix_split [OF all(2) pre] that by blast
  moreover have "\<exists>k \<in> set (knowledge d). ek_id k = kh_knowledge_id h \<and> ek_status k \<noteq> KnowledgeStatus.STALE \<and> ek_status k \<noteq> FAILED_EXPERIENCE"
    if "h \<in> set all" "kh_can_inform_success h" for h
    using that score_hit_informs unfolding hits knowledge_hits_def by fastforce
  moreover have "int (length r) \<le> n" using len limit by simp
  ultimately show ?thesis using sub unfolding hits by blast
qed

theorem search_ranked_witness:
  "int (length (knowledge_search ''p1'' [''src/orders.py''] [''CACHED''] 1 sample_conflict_db)) \<le> 1"
  using search_ranked [of 1, OF _ refl, of "''p1''" "[''src/orders.py'']" "[''CACHED'']" sample_conflict_db] by simp

end
