(* ===== verification/Evaluation.thy ===== *)
theory Evaluation
  imports Runtime Knowledge
begin

section \<open>Evaluation: the record of a finished task\<close>

text \<open>
  \<^verbatim>\<open>evaluation/service.py\<close> over \<^verbatim>\<open>models/evaluation.py\<close>: the evaluation of a task is put together from the rows of its
  proposal, impact report, governance, validation, changes and transactions, stored once per task, and projected into
  the engineering memory. The table of evaluations, which nothing else reads, is kept beside the database. Rows are
  inserted in the order of their creation times, so the latest row is the last one. The labels of the interface that are
  outside the alphabet of the model stand in the escaped form of their code points (\<open>uni\<close>).
\<close>

definition uni :: "string \<Rightarrow> string" where
  "uni s = concat (map (\<lambda>c. if c = CHR ''^'' then [CHR 0x5C, CHR ''u''] else [c]) s)"

datatype TaskEvaluationStatus = COMPLETED | PARTIAL | FAILED

record TaskEvaluation =
  tv_project_id :: string
  tv_task_id :: string
  tv_status :: TaskEvaluationStatus
  tv_summary :: json_text

definition FAILED_LABEL :: string where
  "FAILED_LABEL = (uni ''^5931^8d25'')"

subsection \<open>Rows of the task\<close>

definition last_of :: "'a list \<Rightarrow> 'a option" where
  "last_of xs = (if xs = [] then None else Some (last xs))"

definition eval_proposal :: "string \<Rightarrow> db \<Rightarrow> ChangeProposal option" where
  "eval_proposal task_id d = last_of (sort_key pr_version
     (filter (\<lambda>p. pr_task_id p = task_id \<and> pr_status p \<noteq> ProposalStatus.SUPERSEDED) (proposals d)))"

definition eval_impact :: "string \<Rightarrow> db \<Rightarrow> ImpactReport option" where
  "eval_impact task_id d = last_of (filter (\<lambda>r. ir_task_id r = task_id) (impact_reports d))"

definition eval_governance :: "string \<Rightarrow> db \<Rightarrow> GovernanceDecision option" where
  "eval_governance task_id d = last_of (filter (\<lambda>g. gd_task_id g = task_id) (decisions d))"

definition eval_plans :: "string \<Rightarrow> db \<Rightarrow> ValidationPlan list" where
  "eval_plans task_id d = rev (filter (\<lambda>p. vp_task_id p = task_id) (validation_plans d))"

definition eval_runs :: "string \<Rightarrow> db \<Rightarrow> ValidationRun list" where
  "eval_runs task_id d =
     rev (filter (\<lambda>r. list_ex (\<lambda>p. vp_id p = vr_validation_plan_id r \<and> vp_task_id p = task_id) (validation_plans d))
       (validation_runs d))"

definition eval_changes :: "string \<Rightarrow> db \<Rightarrow> FileChange list" where
  "eval_changes task_id d = sort_key fc_created_at (filter (\<lambda>c. fc_task_id c = task_id) (file_changes d))"

definition eval_transactions :: "string \<Rightarrow> db \<Rightarrow> TaskTransaction list" where
  "eval_transactions task_id d = rev (filter (\<lambda>t. tx_task_id t = task_id) (transactions d))"

subsection \<open>Decoding\<close>

fun json_items_of :: "json_text \<Rightarrow> json list" where
  "json_items_of v =
     (case json_loads v of
        None \<Rightarrow> []
      | Some (JList xs) \<Rightarrow> xs
      | Some (JObj kvs) \<Rightarrow> [JObj kvs]
      | Some x \<Rightarrow> [JStr (json_str x)])"

definition json_object_of :: "json_text option \<Rightarrow> (string \<times> json) list" where
  "json_object_of v =
     (case Option.bind v json_loads of
        None \<Rightarrow> []
      | Some (JObj kvs) \<Rightarrow> kvs
      | Some x \<Rightarrow> [(''value'', x)])"

definition object_items :: "string \<Rightarrow> (string \<times> json) list \<Rightarrow> json list" where
  "object_items key kvs =
     (case map_of kvs key of
        Some (JList xs) \<Rightarrow> xs
      | Some x \<Rightarrow> if json_truth x then [JStr (json_str x)] else []
      | None \<Rightarrow> [])"

definition risk_items :: "json_text option \<Rightarrow> json list" where
  "risk_items v = (let kvs = json_object_of v in object_items ''risks'' kvs @ object_items ''inferences'' kvs)"

definition uncertainty_items :: "json_text option \<Rightarrow> json list" where
  "uncertainty_items v =
     (let kvs = json_object_of v
      in object_items ''risks'' kvs @ object_items ''unknowns'' kvs @
         (case map_of kvs ''narrative'' of
            Some n \<Rightarrow> if json_truth n then [JObj [(''kind'', JStr ''narrative''), (''summary'', JStr (json_str n))]] else []
          | None \<Rightarrow> []))"

fun item_key :: "json \<Rightarrow> string" where
  "item_key (JObj kvs) = json_dumps_ascii (JObj kvs)"
| "item_key (JList xs) = json_dumps_ascii (JList xs)"
| "item_key v = json_str v"

fun dedupe_items :: "string list \<Rightarrow> json list \<Rightarrow> json list" where
  "dedupe_items seen [] = []"
| "dedupe_items seen (v # vs) =
     (if item_key v \<in> set seen then dedupe_items seen vs else v # dedupe_items (item_key v # seen) vs)"

subsection \<open>Labels\<close>

definition decision_label :: "GovernanceVerdict \<Rightarrow> string" where
  "decision_label v = (case v of GovernanceVerdict.ALLOW \<Rightarrow> (uni ''^5141^8bb8'') | GovernanceVerdict.WARN \<Rightarrow> (uni ''^9700^8981^786e^8ba4'')
     | GovernanceVerdict.BLOCK \<Rightarrow> (uni ''^963b^6b62''))"

definition governance_reason :: "string \<Rightarrow> string" where
  "governance_reason value =
     (if value = ''Allowed within finite changed path scope.'' then (uni ''^4fee^6539^8303^56f4^6709^9650^ff0c^7b26^5408^5f53^524d^6279^51c6^8303^56f4^3002'')
      else if value = ''Public or authentication-related changes require user approval.'' then (uni ''^516c^5171^63a5^53e3^6216^8ba4^8bc1^76f8^5173^4fee^6539^9700^8981^4f60^7684^786e^8ba4^3002'')
      else if value = ''Sensitive credential or environment files are blocked.'' then (uni ''^654f^611f^51ed^636e^6216^73af^5883^6587^4ef6^4fee^6539^5df2^88ab^963b^6b62^3002'')
      else value)"

definition run_status_label :: "ValidationRunStatus \<Rightarrow> string" where
  "run_status_label s = (case s of ValidationRunStatus.PASSED \<Rightarrow> (uni ''^5df2^901a^8fc7'') | ValidationRunStatus.FAILED \<Rightarrow> (uni ''^5931^8d25'')
     | ValidationRunStatus.ERROR \<Rightarrow> (uni ''^9519^8bef'') | ValidationRunStatus.SKIPPED \<Rightarrow> (uni ''^5df2^8df3^8fc7'')
     | ValidationRunStatus.INCONCLUSIVE \<Rightarrow> (uni ''^65e0^7ed3^8bba''))"

definition failed_run :: "ValidationRun \<Rightarrow> bool" where
  "failed_run r \<longleftrightarrow> vr_status r \<in> {ValidationRunStatus.FAILED, ValidationRunStatus.ERROR}"

subsection \<open>The parts of the payload\<close>

definition overall_status :: "ChangeTask \<Rightarrow> GovernanceDecision option \<Rightarrow> ValidationRun list \<Rightarrow> bool \<Rightarrow> string" where
  "overall_status task governance runs has_evaluation =
     (if \<not> has_evaluation then ''EMPTY''
      else if list_ex failed_run runs then ''ATTENTION_REQUIRED''
      else if (case governance of None \<Rightarrow> False | Some g \<Rightarrow> gd_decision g = GovernanceVerdict.BLOCK) then ''BLOCKED''
      else if tk_status task = TaskStatus.COMPLETED then ''COMPLETED''
      else ''IN_PROGRESS'')"

definition overall_title :: "string \<Rightarrow> string" where
  "overall_title status =
     (if status = ''EMPTY'' then (uni ''^6682^65e0^8bc4^4f30^7ed3^679c'') else if status = ''ATTENTION_REQUIRED'' then (uni ''^9700^8981^5173^6ce8'')
      else if status = ''BLOCKED'' then (uni ''^6cbb^7406^963b^6b62'') else if status = ''COMPLETED'' then (uni ''^4efb^52a1^5df2^5b8c^6210'') else (uni ''^8bc4^4f30^8fdb^884c^4e2d''))"

definition overall_json :: "ChangeTask \<Rightarrow> GovernanceDecision option \<Rightarrow> ValidationRun list \<Rightarrow> bool \<Rightarrow> json" where
  "overall_json task governance runs has_evaluation =
     (let status = overall_status task governance runs has_evaluation
      in JObj [(''status'', JStr status),
          (''summary'', JStr (if has_evaluation then (uni ''^5f53^524d^4efb^52a1^72b6^6001^ff1a'') @ task_status_str (tk_status task)
             else (uni ''^4efb^52a1^5b8c^6210^5e76^4ea7^751f^8bc4^4f30^8bb0^5f55^540e^4f1a^663e^793a^5728^8fd9^91cc^3002''))),
          (''title'', JStr (overall_title status))])"

definition requirement_coverage :: "ChangeTask \<Rightarrow> ChangeProposal option \<Rightarrow> json" where
  "requirement_coverage task proposal =
     (case proposal of
        None \<Rightarrow> JObj [(''covered'', JList []), (''summary'', JStr (uni ''^5c1a^672a^751f^6210^4fee^6539^65b9^6848^ff0c^65e0^6cd5^8bc4^4f30^9700^6c42^8986^76d6^3002'')),
          (''uncovered'', JList [JStr (tk_original_request task)])]
      | Some p \<Rightarrow> JObj [(''covered'', JList (json_items_of (pr_acceptance_criteria_json p))),
          (''summary'', JStr (uni ''^9700^6c42^8986^76d6^6765^81ea^5f53^524d^65b9^6848^7684^9a8c^6536^6761^4ef6^4e0e^8303^56f4^3002'')), (''uncovered'', JList [])])"

definition quality_scope :: "ChangeProposal option \<Rightarrow> ImpactReport option \<Rightarrow> FileChange list \<Rightarrow> json list" where
  "quality_scope proposal impact changes =
     dedupe_items [] ((case proposal of None \<Rightarrow> [] | Some p \<Rightarrow> json_items_of (pr_initial_scope_json p)) @
       (case impact of None \<Rightarrow> [] | Some i \<Rightarrow> json_items_of (ir_direct_impacts_json i)) @
       map (\<lambda>c. JStr (fc_relative_path c)) changes)"

definition quality_risks :: "ChangeProposal option \<Rightarrow> ImpactReport option \<Rightarrow> json list" where
  "quality_risks proposal impact =
     dedupe_items [] ((case proposal of None \<Rightarrow> [] | Some p \<Rightarrow> risk_items (pr_risks_json p)) @
       (case impact of None \<Rightarrow> [] | Some i \<Rightarrow> uncertainty_items (ir_uncertainties_json i)))"

definition change_quality :: "ChangeProposal option \<Rightarrow> ImpactReport option \<Rightarrow> FileChange list \<Rightarrow> json" where
  "change_quality proposal impact changes =
     (let scope = quality_scope proposal impact changes; risks = quality_risks proposal impact
      in JObj [(''risks'', JList risks), (''scope'', JList scope),
          (''summary'', JStr (if scope = [] \<and> risks = [] then (uni ''^5c1a^65e0^4fee^6539^8d28^91cf^8bb0^5f55^3002'')
             else (uni ''^4fee^6539^8d28^91cf^6839^636e^65b9^6848^8303^56f4^3001^5f71^54cd^5206^6790^548c^771f^5b9e^6587^4ef6^53d8^66f4^7ec4^7ec7^3002'')))])"

definition governance_payload :: "GovernanceDecision option \<Rightarrow> json" where
  "governance_payload governance =
     (case governance of
        None \<Rightarrow> JObj [(''decision'', JStr (uni ''^672a^8bc4^4f30'')), (''reason'', JStr (uni ''^5c1a^65e0^6cbb^7406^7ed3^679c^3002'')), (''requiresApproval'', JBool False)]
      | Some g \<Rightarrow> JObj [(''decision'', JStr (decision_label (gd_decision g))),
          (''reason'', JStr (governance_reason (gd_reason_summary g))), (''requiresApproval'', JBool (gd_approval_required g))])"

definition validation_payload :: "ValidationPlan list \<Rightarrow> ValidationRun list \<Rightarrow> json" where
  "validation_payload plans runs =
     (if plans = [] \<and> runs = []
      then JObj [(''executed'', JList []), (''failed'', JList []), (''notRun'', JList [JStr (uni ''^5c1a^65e0^9a8c^8bc1^8ba1^5212^6216^6267^884c^8bb0^5f55^3002'')]),
        (''planned'', JList [])]
      else JObj [(''executed'', JList (map (\<lambda>r. JStr (vr_command_summary r @ (uni ''^ff1a'') @ run_status_label (vr_status r))) runs)),
        (''failed'', JList (map (\<lambda>r. JStr (vr_command_summary r @ (uni ''^ff1a'') @
           (case vr_failure_category r of None \<Rightarrow> FAILED_LABEL | Some c \<Rightarrow> if c = [] then FAILED_LABEL else c)))
           (filter failed_run runs))),
        (''notRun'', JList (if runs \<noteq> [] then [] else [JStr (uni ''^9a8c^8bc1^8ba1^5212^5c1a^672a^6267^884c^3002'')])),
        (''planned'', JList (dedupe_items [] (concat (map (\<lambda>p. json_items_of (vp_required_checks_json p)) plans))))])"

definition path_list :: "FileChange list \<Rightarrow> json" where
  "path_list changes = JList (map (\<lambda>c. JStr (fc_relative_path c)) changes)"

definition execution_summary :: "FileChange list \<Rightarrow> TaskTransaction list \<Rightarrow> json" where
  "execution_summary changes txs =
     JObj [(''changedFiles'', path_list changes),
       (''committed'', JBool (list_ex (\<lambda>t. tx_state t = TransactionState.COMMITTED) txs)),
       (''summary'', JStr (uni ''^6267^884c^7ed3^679c^6765^81ea^771f^5b9e^4e8b^52a1^4e0e^6587^4ef6^53d8^66f4^8bb0^5f55^3002''))]"

definition memory_candidates :: "ChangeTask \<Rightarrow> GovernanceDecision option \<Rightarrow> FileChange list \<Rightarrow> json" where
  "memory_candidates task governance changes =
     (if changes = [] then JList []
      else JList [JObj [(''affectedPaths'', path_list changes),
        (''governanceDecision'', (case governance of None \<Rightarrow> JNull | Some g \<Rightarrow> JStr (verdict_str (gd_decision g)))),
        (''sourceTaskId'', JStr (tk_id task)), (''summary'', JStr (tk_original_request task)), (''type'', JStr (uni ''^5de5^7a0b^51b3^7b56''))]])"

definition eval_evidence ::
    "ChangeProposal option \<Rightarrow> ImpactReport option \<Rightarrow> GovernanceDecision option \<Rightarrow> ValidationPlan list \<Rightarrow> ValidationRun list \<Rightarrow>
     FileChange list \<Rightarrow> json" where
  "eval_evidence proposal impact governance plans runs changes =
     JObj [(''summary'', JList (map JStr (
         (if proposal \<noteq> None then [(uni ''^5f53^524d^65b9^6848'')] else []) @ (if impact \<noteq> None then [(uni ''^5f71^54cd^5206^6790'')] else []) @
         (if governance \<noteq> None then [(uni ''^6cbb^7406^51b3^7b56'')] else []) @
         (if changes \<noteq> [] then [show_nat (length changes) @ (uni '' ^4e2a^6587^4ef6^53d8^66f4'')] else []) @
         (if plans \<noteq> [] then [show_nat (length plans) @ (uni '' ^4e2a^9a8c^8bc1^8ba1^5212'')] else []) @
         (if runs \<noteq> [] then [show_nat (length runs) @ (uni '' ^6761^9a8c^8bc1^6267^884c^8bb0^5f55'')] else [])))),
       (''technical'', JObj (
         (if changes \<noteq> [] then [(''changedFiles'', path_list changes)] else []) @
         (case governance of None \<Rightarrow> [] | Some g \<Rightarrow> [(''governanceEvidence'', JObj (json_object_of (Some (gd_evidence_json g))))]) @
         (case impact of None \<Rightarrow> [] | Some i \<Rightarrow> [(''impactEvidence'', JObj (json_object_of (Some (ir_evidence_json i))))]) @
         (case proposal of None \<Rightarrow> [] | Some p \<Rightarrow> [(''proposalId'', JStr (pr_id p))])))]"

subsection \<open>\<^verbatim>\<open>EvaluationService\<close>\<close>

text \<open>The time of the payload: the end of the task or, before it, the time \<open>updated\<close> of its last update; \<open>isoformat\<close> is
  \<^verbatim>\<open>datetime.isoformat\<close>.\<close>

definition build_payload :: "(int \<Rightarrow> string) \<Rightarrow> int \<Rightarrow> ChangeTask \<Rightarrow> db \<Rightarrow> (string \<times> json) list" where
  "build_payload isoformat updated task d =
     (let proposal = eval_proposal (tk_id task) d; impact = eval_impact (tk_id task) d;
          governance = eval_governance (tk_id task) d; plans = eval_plans (tk_id task) d; runs = eval_runs (tk_id task) d;
          changes = eval_changes (tk_id task) d; txs = eval_transactions (tk_id task) d;
          has_evaluation = (proposal \<noteq> None \<or> impact \<noteq> None \<or> governance \<noteq> None \<or> plans \<noteq> [] \<or> runs \<noteq> [] \<or>
            changes \<noteq> [] \<or> txs \<noteq> [])
      in [(''changeQuality'', change_quality proposal impact changes),
          (''createdAt'', JStr (isoformat (case tk_finished_at task of None \<Rightarrow> updated | Some t \<Rightarrow> t))),
          (''evaluationId'', JStr (''task:'' @ tk_id task)),
          (''evidence'', eval_evidence proposal impact governance plans runs changes),
          (''execution'', execution_summary changes txs), (''governance'', governance_payload governance),
          (''hasEvaluation'', JBool has_evaluation), (''memoryCandidates'', memory_candidates task governance changes),
          (''overall'', overall_json task governance runs has_evaluation), (''projectId'', JStr (tk_project_id task)),
          (''requirementCoverage'', requirement_coverage task proposal), (''taskId'', JStr (tk_id task)),
          (''taskTitle'', JStr (tk_original_request task)), (''validation'', validation_payload plans runs)])"

definition evaluation_status :: "(string \<times> json) list \<Rightarrow> TaskEvaluationStatus" where
  "evaluation_status payload =
     (if (case map_of payload ''overall'' of Some (JObj kvs) \<Rightarrow> map_of kvs ''status'' = Some (JStr ''ATTENTION_REQUIRED'') | _ \<Rightarrow> False)
      then TaskEvaluationStatus.PARTIAL
      else if (case map_of payload ''hasEvaluation'' of Some v \<Rightarrow> json_truth v | None \<Rightarrow> False)
      then TaskEvaluationStatus.COMPLETED else TaskEvaluationStatus.PARTIAL)"

definition memory_evidence :: "(string \<times> json) list \<Rightarrow> json" where
  "memory_evidence payload = JObj (map (\<lambda>k. (k, json_get payload k))
     [''changeQuality'', ''evaluationId'', ''execution'', ''governance'', ''taskId'', ''taskTitle''])"

definition payload_scope :: "(string \<times> json) list \<Rightarrow> json list" where
  "payload_scope payload =
     (case map_of payload ''changeQuality'' of
        Some (JObj kvs) \<Rightarrow> (case map_of kvs ''scope'' of Some (JList xs) \<Rightarrow> xs | _ \<Rightarrow> [])
      | _ \<Rightarrow> [])"

definition memory_key :: "ChangeTask \<Rightarrow> string" where
  "memory_key task = ''task-evaluation:'' @ tk_id task"

definition write_memory_projection :: "string \<Rightarrow> ChangeTask \<Rightarrow> (string \<times> json) list \<Rightarrow> db \<Rightarrow> db" where
  "write_memory_projection new_id task payload d =
     (let scope = payload_scope payload
      in if scope = [] then d
         else if list_ex (\<lambda>k. ek_project_id k = tk_project_id task \<and> ek_knowledge_key k = memory_key task \<and> ek_version k = 1)
           (knowledge d) then d
         else fst (knowledge_add new_id (tk_project_id task) (memory_key task) KnowledgeType.DECISION
           KnowledgeStatus.REVIEWED (concat (map (\<lambda>v. case v of JStr s \<Rightarrow> [s] | _ \<Rightarrow> []) scope))
           ((uni ''^4efb^52a1^5b8c^6210^540e^6c89^6dc0^7684^5de5^7a0b^8bb0^5fc6^ff1a'') @ take 160 (tk_original_request task)) [] [memory_evidence payload] 1
           KnowledgeSourceType.TEST d))"

definition store_evaluation :: "TaskEvaluation \<Rightarrow> TaskEvaluation list \<Rightarrow> TaskEvaluation list" where
  "store_evaluation row evaluations =
     (if list_ex (\<lambda>e. tv_task_id e = tv_task_id row) evaluations
      then map (\<lambda>e. if tv_task_id e = tv_task_id row then e\<lparr>tv_status := tv_status row, tv_summary := tv_summary row\<rparr> else e)
        evaluations
      else evaluations @ [row])"

definition persist_for_task ::
    "(int \<Rightarrow> string) \<Rightarrow> int \<Rightarrow> string \<Rightarrow> string \<Rightarrow> TaskEvaluation list \<Rightarrow> db \<Rightarrow> TaskEvaluation list \<times> db" where
  "persist_for_task isoformat updated new_id task_id evaluations d =
     (case get_task d task_id of
        None \<Rightarrow> (evaluations, d)
      | Some task \<Rightarrow>
          (let payload = build_payload isoformat updated task d
           in (store_evaluation \<lparr>tv_project_id = tk_project_id task, tv_task_id = tk_id task,
                 tv_status = evaluation_status payload, tv_summary = JText (JObj payload)\<rparr> evaluations,
               write_memory_projection new_id task payload d)))"

definition get_task_payload ::
    "(int \<Rightarrow> string) \<Rightarrow> int \<Rightarrow> string \<Rightarrow> TaskEvaluation list \<Rightarrow> db \<Rightarrow> (string \<times> json) list option" where
  "get_task_payload isoformat updated task_id evaluations d =
     (case find (\<lambda>e. tv_task_id e = task_id) evaluations of
        None \<Rightarrow> map_option (\<lambda>task. build_payload isoformat updated task d) (get_task d task_id)
      | Some row \<Rightarrow> Some (json_object_of (Some (tv_summary row))))"

definition list_project_payloads :: "string \<Rightarrow> TaskEvaluation list \<Rightarrow> (string \<times> json) list list" where
  "list_project_payloads project_id evaluations =
     map (\<lambda>row. json_object_of (Some (tv_summary row))) (rev (filter (\<lambda>e. tv_project_id e = project_id) evaluations))"

subsection \<open>What the service guarantees\<close>

lemma get_task_id: "get_task d t = Some task \<Longrightarrow> tk_id task = t"
  by (auto simp: get_row_def find_Some_iff)

lemma list_ex_store: "list_ex (\<lambda>e. tv_task_id e = tv_task_id row) (store_evaluation row es)"
  unfolding store_evaluation_def by (induction es) auto

lemma find_store: "\<exists>r. find (\<lambda>e. tv_task_id e = tv_task_id row) (store_evaluation row es) = Some r \<and> tv_summary r = tv_summary row"
proof (cases "list_ex (\<lambda>e. tv_task_id e = tv_task_id row) es")
  case True
  then have "\<exists>r. find (\<lambda>e. tv_task_id e = tv_task_id row)
      (map (\<lambda>e. if tv_task_id e = tv_task_id row then e\<lparr>tv_status := tv_status row, tv_summary := tv_summary row\<rparr> else e) es) = Some r \<and>
      tv_summary r = tv_summary row"
    by (induction es) auto
  with True show ?thesis by (simp add: store_evaluation_def)
next
  case False
  then have "find (\<lambda>e. tv_task_id e = tv_task_id row) (es @ [row]) = Some row" by (induction es) auto
  with False show ?thesis by (simp add: store_evaluation_def)
qed

lemma store_idem: "store_evaluation row (store_evaluation row es) = store_evaluation row es"
proof -
  have "map (\<lambda>e. if tv_task_id e = tv_task_id row then e\<lparr>tv_status := tv_status row, tv_summary := tv_summary row\<rparr> else e)
      (store_evaluation row es) = store_evaluation row es"
    by (rule map_idI) (auto simp: store_evaluation_def list_ex_iff split: if_splits)
  then show ?thesis using list_ex_store [of row es] by (subst store_evaluation_def) simp
qed

text \<open>
  The evaluation of a task that has been stored is the one that is read back: the payload put together at the time,
  whatever the database holds later.
\<close>

theorem evaluation_read_back:
  assumes "get_task d t = Some task"
  shows "get_task_payload isoformat' updated' t (fst (persist_for_task isoformat updated new_id t evaluations d)) d' =
    Some (build_payload isoformat updated task d)"
proof -
  let ?row = "\<lparr>tv_project_id = tk_project_id task, tv_task_id = tk_id task,
    tv_status = evaluation_status (build_payload isoformat updated task d), tv_summary = JText (JObj (build_payload isoformat updated task d))\<rparr>"
  obtain r where "find (\<lambda>e. tv_task_id e = t) (store_evaluation ?row evaluations) = Some r"
      "tv_summary r = JText (JObj (build_payload isoformat updated task d))"
    using find_store [of ?row evaluations] get_task_id [OF assms] by auto
  then show ?thesis by (simp add: get_task_payload_def persist_for_task_def assms Let_def json_object_of_def)
qed

theorem evaluation_read_back_witness:
  "get_task_payload (\<lambda>n. []) 0 ''t1'' (fst (persist_for_task (\<lambda>n. []) 5 ''k1'' ''t1'' [] sample_memory_db)) empty_db \<noteq> None"
proof -
  have "get_task sample_memory_db ''t1'' \<noteq> None" by code_simp
  then obtain task where "get_task sample_memory_db ''t1'' = Some task" by blast
  from evaluation_read_back [OF this, of "\<lambda>n. []" 0 "\<lambda>n. []" 5 "''k1''" "[]" empty_db] show ?thesis by simp
qed

lemma write_memory_frame:
  "file_changes (write_memory_projection i task p d) = file_changes d" "proposals (write_memory_projection i task p d) = proposals d"
  "impact_reports (write_memory_projection i task p d) = impact_reports d" "decisions (write_memory_projection i task p d) = decisions d"
  "validation_plans (write_memory_projection i task p d) = validation_plans d" "tasks (write_memory_projection i task p d) = tasks d"
  "validation_runs (write_memory_projection i task p d) = validation_runs d" "transactions (write_memory_projection i task p d) = transactions d"
  by (simp_all add: write_memory_projection_def knowledge_add_def add_sources_def Let_def)

lemma payload_after_memory: "build_payload isoformat u task (write_memory_projection i task' p d) = build_payload isoformat u task d"
  unfolding build_payload_def eval_proposal_def eval_impact_def eval_governance_def eval_plans_def eval_runs_def
    eval_changes_def eval_transactions_def write_memory_frame by (rule refl)

lemma write_memory_idem: "write_memory_projection i task p (write_memory_projection j task p d) = write_memory_projection j task p d"
proof (cases "payload_scope p = []")
  case True
  then show ?thesis by (simp add: write_memory_projection_def)
next
  case False
  show ?thesis
  proof (cases "list_ex (\<lambda>k. ek_project_id k = tk_project_id task \<and> ek_knowledge_key k = memory_key task \<and> ek_version k = 1) (knowledge d)")
    case True
    with False have "write_memory_projection j task p d = d" for j by (simp add: write_memory_projection_def)
    then show ?thesis by simp
  next
    case new: False
    have "list_ex (\<lambda>k. ek_project_id k = tk_project_id task \<and> ek_knowledge_key k = memory_key task \<and> ek_version k = 1)
        (knowledge (write_memory_projection j task p d))"
      using False new by (simp add: write_memory_projection_def knowledge_add_def add_sources_def Let_def)
    with False show ?thesis unfolding write_memory_projection_def [of i] Let_def by simp
  qed
qed

text \<open>
  Evaluating a task again changes nothing: there is one evaluation per task, and the memory of the task is written once,
  whatever identifier the second evaluation draws.
\<close>

theorem evaluation_idempotent:
  "case persist_for_task isoformat updated i t evaluations d of
     (evaluations', d') \<Rightarrow> persist_for_task isoformat updated j t evaluations' d' = (evaluations', d')"
proof (cases "get_task d t")
  case None
  then show ?thesis by (simp add: persist_for_task_def)
next
  case (Some task)
  have "get_task (write_memory_projection i task p d) t = Some task" for p
    using Some by (simp add: write_memory_frame)
  then show ?thesis
    by (simp add: persist_for_task_def Some Let_def payload_after_memory write_memory_idem store_idem)
qed

definition sample_finished_db :: db where
  "sample_finished_db = empty_db\<lparr>tasks := [(new_task ''t1'' sample_request)\<lparr>tk_status := TaskStatus.COMPLETED\<rparr>], file_changes := [sample_write]\<rparr>"

text \<open>
  The memory of a completed task is stored as reviewed knowledge although nobody has reviewed it and no validation has
  run: its only source is the evaluation itself, recorded as a test.
\<close>

theorem unreviewed_memory_is_reviewed:
  "let d = snd (persist_for_task (\<lambda>n. []) 5 ''k1'' ''t1'' [] sample_finished_db)
   in validation_runs d = [] \<and> approval_decisions d = [] \<and>
      map ek_status (knowledge d) = [KnowledgeStatus.REVIEWED] \<and>
      map ks_source_type (knowledge_sources d) = [KnowledgeSourceType.TEST]"
  by code_simp

end
