(* ===== verification/Preservation.thy ===== *)
theory Preservation
  imports Runtime
begin

section \<open>Preservation: invariants of the agent loop\<close>

text \<open>
  What a turn and the loop do to the database besides running a tool: they add iterations, calls of the model, actions,
  decisions and executions, and may pause or cancel the task. A predicate on the database and the world that these rows
  do not concern, and that every handler of the environment keeps, is kept by the whole run. The locale states what a
  client has to show of its predicate; the orchestrator interprets it.
\<close>

text \<open>The part of the database that the turn leaves to governance and to the handlers.\<close>

definition run_view ::
    "string \<Rightarrow> db \<Rightarrow> ExecutionPolicy list \<times> GovernanceDecision list \<times> TaskTransaction list \<times> WorkspaceLock list \<times>
       FileChange list \<times> Project list \<times> string option option" where
  "run_view t d = (policies d, decisions d, transactions d, locks d, file_changes d, projects d,
     map_option tk_active_policy_id (get_task d t))"

lemma run_view_rows [simp]:
  "run_view t (set_iteration i f d) = run_view t d" "run_view t (set_action i g d) = run_view t d"
  "run_view t (set_llm_call i h d) = run_view t d" "run_view t (create_iteration i u d) = run_view t d"
  "run_view t (record_llm_call ids goal response d) = run_view t d" "run_view t (record_action ids u a d) = run_view t d"
  "run_view t (add_execution ex d) = run_view t d"
  by (simp_all add: run_view_def set_iteration_def set_action_def set_llm_call_def create_iteration_def record_llm_call_def
      record_action_def add_execution_def Let_def)

lemma run_view_update_task:
  assumes "\<And>k. tk_id (f k) = tk_id k" "\<And>k. tk_active_policy_id (f k) = tk_active_policy_id k"
  shows "run_view t (update_task u f d) = run_view t d"
proof -
  have "map_option tk_active_policy_id (map_option f o') = map_option tk_active_policy_id o'" for o'
    by (cases o') (simp_all add: assms(2))
  then show ?thesis
    using get_row_update_task [of f t u d] assms(1) by (simp add: run_view_def update_task_def)
qed

lemma pause_task_view: "pause_task u e d = (d', r) \<Longrightarrow> run_view t d' = run_view t d"
  by (auto simp: pause_task_def run_view_update_task split: option.splits)

lemma budgeted_complete_view: "run_view t (fst (budgeted_complete pr u pkg req a b c d)) = run_view t d"
  by (auto simp: budgeted_complete_def Let_def dest: pause_task_view split: prod.splits sum.splits)

lemma mark_cancelled_view: "run_view t (fst (mark_task_cancelled u s d)) = run_view t d"
  by (simp add: mark_task_cancelled_def run_view_update_task split: option.split)

locale turn_invariant =
  fixes env :: "'x turn_env" and t :: string and ids :: "nat \<Rightarrow> turn_ids" and Q :: "db \<times> 'x \<Rightarrow> bool"
  assumes bookkeeping: "\<And>d d' x. Q (d, x) \<Longrightarrow> run_view t d' = run_view t d \<Longrightarrow> Q (d', x)"
    and decided: "\<And>d x dec i. Q (d, x) \<Longrightarrow> gd_task_id dec = t \<Longrightarrow> gd_id dec = tu_decision (ids i) \<Longrightarrow>
        Q (d\<lparr>decisions := decisions d @ [dec]\<rparr>, x)"
    and activated: "\<And>d d' x r i ps. Q (d, x) \<Longrightarrow>
        activate_action_policy (tn_online_safe env) (tu_policy (ids i)) (tu_decision (ids i)) ps d = (d', r) \<Longrightarrow> Q (d', x)"
    and handled: "\<And>action handler s. map_of (tn_handlers env) (action_type_str (action_type_of action)) = Some handler \<Longrightarrow>
        Q s \<Longrightarrow> Q (fst (handler action s))"
begin

definition holds :: "'x agent_state \<Rightarrow> bool" where
  "holds st \<longleftrightarrow> Q (as_db st, as_ext st)"

lemma holds_publish [simp]: "holds (publish_stage a b c st) = holds st"
  by (simp add: holds_def publish_stage_def)

lemma holds_artifacts [simp]: "holds (st\<lparr>as_artifacts := y\<rparr>) = holds st"
  by (simp add: holds_def)

lemma holds_view: "holds st \<Longrightarrow> run_view t d = run_view t (as_db st) \<Longrightarrow> holds (st\<lparr>as_db := d\<rparr>)"
  by (simp add: holds_def bookkeeping)

lemma with_db_eq: "with_db f st = st\<lparr>as_db := f (as_db st)\<rparr>"
  by (simp add: with_db_def)

lemma reject_turn_holds: "holds st \<Longrightarrow> holds (fst (reject_turn env i u c e m fb st))"
  by (simp add: reject_turn_def Let_def with_db_eq holds_view)

lemma dispatch_tool_holds:
  assumes "map_of (tn_handlers env) (action_type_str (action_type_of action)) = Some handler" and "Q s"
  shows "Q (fst (dispatch_tool now new_id reg u aid name ps enforcer reason (handler action) s))"
proof -
  have more: "Q (add_execution ex d, x)" if "Q (d, x)" for ex d x
    using that bookkeeping [of d x] by simp
  have run: "Q (fst (handler action (fst s, snd s)))" using handled [OF assms] by (simp only: prod.collapse)
  obtain d1 x1 r where h: "handler action (fst s, snd s) = ((d1, x1), r)" by (metis prod.collapse)
  have q1: "Q (d1, x1)" using run by (simp only: h fst_conv)
  have q0: "Q (fst s, snd s)" using assms(2) by simp
  show ?thesis
    unfolding dispatch_tool_def Let_def h
    using more [OF q0] more [OF q1] q1 by (auto split: option.split sum.split)
qed

lemma dispatch_action_holds:
  assumes "holds st"
  shows "holds (fst (dispatch_action env i u ctx action st))"
proof (cases "map_of (tn_handlers env) (action_type_str (action_type_of action))")
  case None
  then show ?thesis using assms by (simp add: dispatch_action_def)
next
  case (Some handler)
  obtain d2 x2 res where dt: "dispatch_tool (tu_now i) (tu_execution i) (tn_registry env) u (tu_action i)
      (action_type_str (action_type_of action)) (action_json action)
      (\<lambda>d. enforcement_allowed (case map_of (tn_enforcers env) (action_type_str (action_type_of action)) of None \<Rightarrow> Flag True | Some f \<Rightarrow> f action d))
      (Some (\<lambda>d. enforcement_text (case map_of (tn_enforcers env) (action_type_str (action_type_of action)) of None \<Rightarrow> Flag True | Some f \<Rightarrow> f action d)))
      (handler action) (as_db st, as_ext st) = ((d2, x2), res)" by (metis prod.collapse)
  have "Q (d2, x2)"
    using dispatch_tool_holds [OF Some, of "(as_db st, as_ext st)"] assms dt by (metis fst_conv holds_def)
  then have "Q (set_iteration (tu_iteration i) f (set_action (tu_action i) g d2), x2)" for f g
    by (rule bookkeeping) simp
  then show ?thesis
    unfolding dispatch_action_def Let_def Some option.case by (simp add: turn_frame dt holds_def)
qed

lemma govern_action_holds:
  assumes "holds st"
  shows "holds (fst (govern_action env (ids i) t ph revision ctx action st))"
proof (cases "canonical_project_paths (changed_paths action)")
  case (Inl e)
  then show ?thesis using assms
    by (simp add: govern_action_def Let_def evaluate_def with_db_eq holds_view)
next
  case (Inr cps)
  let ?st1 = "with_db (record_action (ids i) t action) st"
  let ?dec = "decision_row (tn_digest env) (tu_decision (ids i)) t (Some (tu_action (ids i))) ph revision (tn_rules env) cps
      GovernanceVerdict.ALLOW None"
  let ?d2 = "(as_db ?st1)\<lparr>decisions := decisions (as_db ?st1) @ [?dec]\<rparr>"
  have ev: "evaluate (tn_digest env) (tu_decision (ids i)) t (Some (tu_action (ids i))) ph revision (tn_rules env)
      (changed_paths action) GovernanceVerdict.ALLOW None (as_db ?st1) = (?d2, Inr ?dec)"
    using Inr by (simp add: evaluate_def Let_def)
  have dec: "gd_task_id ?dec = t" "gd_id ?dec = tu_decision (ids i)"
    by (simp_all add: decision_row_def Let_def split: prod.splits)
  have "Q (as_db ?st1, as_ext st)" using assms by (simp add: holds_def with_db_eq bookkeeping)
  then have q2: "Q (?d2, as_ext st)" by (rule decided [OF _ dec])
  show ?thesis
  proof (cases "gd_decision ?dec = GovernanceVerdict.ALLOW")
    case False
    have "Q (set_iteration k f (set_action j g ?d2), as_ext st)" for k f j g
      using q2 by (rule bookkeeping) simp
    with False show ?thesis
      unfolding govern_action_def Let_def ev by (simp add: holds_def turn_frame)
  next
    case True
    let ?d3 = "set_action (tu_action (ids i)) (\<lambda>a. a\<lparr>ac_status := AgentActionStatus.EXECUTING\<rparr>) ?d2"
    obtain d4 r4 where a: "activate_action_policy (tn_online_safe env) (tu_policy (ids i)) (gd_id ?dec) (changed_paths action) ?d3 = (d4, r4)"
      by (metis prod.collapse)
    have "Q (?d3, as_ext st)" using q2 by (rule bookkeeping) simp
    then have q4: "holds (?st1\<lparr>as_db := d4\<rparr>)"
      using activated a [unfolded dec(2)] by (fastforce simp: holds_def turn_frame)
    have "govern_action env (ids i) t ph revision ctx action st =
        (case r4 of Inl e \<Rightarrow> (?st1\<lparr>as_db := d4\<rparr>, Inl e) | Inr _ \<Rightarrow> dispatch_action env (ids i) t ctx action (?st1\<lparr>as_db := d4\<rparr>))"
      using True unfolding govern_action_def Let_def ev by (simp add: a)
    then show ?thesis using q4 dispatch_action_holds [OF q4] by (simp split: sum.split)
  qed
qed

lemma handle_response_holds:
  "holds st \<Longrightarrow> holds (fst (handle_response env (ids i) t ph revision ctx content st))"
  unfolding handle_response_def handle_payload_def Let_def
  by (simp add: reject_turn_holds govern_action_holds split: sum.splits option.splits)

lemma run_turn_holds:
  assumes "holds st"
  shows "holds (fst (run_turn env (ids i) t ph revision goal fb st))"
proof (cases "get_row tk_id t (tasks (as_db st)) = None")
  case True
  then show ?thesis using assms by (simp add: run_turn_def)
next
  case False
  define st1 where "st1 = publish_stage ''LLM_REQUESTED'' ''OK'' (Some (''iteration_id='' @ tu_iteration (ids i)))
      (with_db (create_iteration (tu_iteration (ids i)) t) st)"
  define b where "b = budgeted_complete (tn_provider env (it_iteration_number (new_iteration (tu_iteration (ids i)) t (as_db st)))) t
      (turn_context env goal fb) \<lparr>lq_prompt_summary = goal, lq_input_text = goal\<rparr> 8192 512 128 (as_db st1)"
  have st1: "holds st1" using assms by (simp add: st1_def with_db_eq holds_view)
  have v: "run_view t (fst b) = run_view t (as_db st1)" by (simp add: b_def budgeted_complete_view)
  have "holds (st1\<lparr>as_db := fst b\<rparr>)" "holds (st1\<lparr>as_db := record_llm_call (ids i) goal r (fst b)\<rparr>)" for r
    using st1 v by (simp_all add: holds_view)
  moreover have "fst (run_turn env (ids i) t ph revision goal fb st) =
      (case snd b of Inl e \<Rightarrow> st1\<lparr>as_db := fst b\<rparr>
       | Inr response \<Rightarrow> fst (handle_response env (ids i) t ph revision (turn_context env goal fb) (ls_content response)
           (publish_stage ''LLM_RESPONDED'' ''OK'' (Some (''iteration_id='' @ tu_iteration (ids i)))
             (st1\<lparr>as_db := record_llm_call (ids i) goal response (fst b)\<rparr>))))"
    using False unfolding run_turn_def Let_def st1_def [symmetric] b_def [symmetric]
    by (auto simp: case_prod_beta split: sum.split)
  ultimately show ?thesis by (simp add: handle_response_holds split: sum.split)
qed

lemma run_task_holds:
  assumes "holds st"
  shows "holds (fst (run_task p (Some (agent_runner env ids t ph revision goal)) cancelled txid t st))"
proof (cases "cancelled 0 = None")
  case True
  have "\<exists>k \<le> rp_max_iterations p. holds st \<longrightarrow> holds (fst (runtime_loop p (agent_runner env ids t ph revision goal) cancelled txid t
      (rp_max_iterations p) 1 initial_vars st))"
    by (rule runtime_loop_relates [where R = "\<lambda>n st st'. holds st \<longrightarrow> holds st'" and n = 0])
       (auto simp: agent_runner_def quiet_def holds_def run_turn_holds [unfolded holds_def])
  with True assms show ?thesis by (auto simp: run_task_def)
next
  case False
  obtain d r where m: "mark_task_cancelled t ''CANCELLED_BEFORE_LLM'' (as_db st) = (d, r)" by (metis prod.collapse)
  have "run_view t d = run_view t (as_db st)" using mark_cancelled_view [of t t "''CANCELLED_BEFORE_LLM''" "as_db st"] by (simp add: m)
  with False assms show ?thesis by (auto simp: run_task_def m holds_view split: sum.split)
qed

end

end
