(* ===== verification/Orchestrator.thy ===== *)
theory Orchestrator
  imports Search Evaluation Preservation
begin

section \<open>Orchestrator: the execution of an approved task\<close>

text \<open>
  The second half of \<^verbatim>\<open>execution/orchestrator.py\<close>: admission of a task, the lazily acquired lock and transaction, the
  handlers and enforcers that the agent loop is given, the loop itself (\<open>Runtime.run_task\<close> with \<open>Turn.run_turn\<close>),
  completion, failure, the published events and the stored evaluation.

  The external state of a run holds the files, the identifiers of the lock and the transaction of the write context and
  the two caches. An identifier or a time that a handler draws is a function of the database at that point. The stages
  that the loop publishes reach the bus in their order when it ends; of this task nothing else is published meanwhile.
  The iteration id in the payload of a stage is not modelled.
\<close>

subsection \<open>Results\<close>

record ExecutionResult =
  xr_task_id :: string
  xr_status :: string
  xr_event_id :: int
  xr_command :: "string option"
  xr_lock_id :: "string option"
  xr_policy_id :: "string option"
  xr_code :: "string option"
  xr_error :: "string option"

definition result_payload :: "ExecutionResult \<Rightarrow> dict" where
  "result_payload r =
     (let item = (\<lambda>k v. case v of None \<Rightarrow> [] | Some s \<Rightarrow> [(k, JStr s)])
      in [(''taskId'', JStr (xr_task_id r))] @ item ''command'' (xr_command r) @ [(''status'', JStr (xr_status r)),
          (''eventId'', JInt (xr_event_id r))] @ item ''lockId'' (xr_lock_id r) @ item ''policyId'' (xr_policy_id r) @
         item ''code'' (xr_code r) @ item ''error'' (xr_error r))"

definition error_code :: "py_error \<Rightarrow> string" where
  "error_code e = (case err_code e of None \<Rightarrow> ''EXECUTION_FAILED'' | Some c \<Rightarrow> c)"

definition safe_error :: "py_error \<Rightarrow> string" where
  "safe_error e = take 360 (join '' '' (py_split (if err_message e = [] then err_class e else err_message e)))"

subsection \<open>Policy and authorization\<close>

definition active_policy :: "string \<Rightarrow> db \<Rightarrow> ExecutionPolicy option" where
  "active_policy task_id d =
     (case Option.bind (Option.bind (get_task d task_id) tk_active_policy_id) (get_policy d) of
        Some policy \<Rightarrow>
          if ep_status policy = ExecutionPolicyStatus.ACTIVE then Some policy else find (active_policy_of task_id) (policies d)
      | None \<Rightarrow> find (active_policy_of task_id) (policies d))"

definition current_authorization :: "string \<Rightarrow> ExecutionAuthorization \<Rightarrow> db \<Rightarrow> ExecutionAuthorization result" where
  "current_authorization task_id fallback d =
     (case active_policy task_id d of
        None \<Rightarrow> Inr fallback
      | Some active \<Rightarrow> if ep_id active = ea_policy_id fallback then Inr fallback else from_policy active None)"

definition policy_allows_path :: "ExecutionAuthorization \<Rightarrow> string \<Rightarrow> string \<Rightarrow> db \<Rightarrow> enforcement" where
  "policy_allows_path grant relative_path revision d =
     (case snd (dispatch_write d (ea_policy_id grant) (Authorization grant) relative_path revision True (\<lambda>s. (s, Inr ())) ()) of
        Inr res \<Rightarrow> Reasoned (er_allowed res) (er_reason res)
      | Inl e \<Rightarrow> Reasoned False (err_class e))"

text \<open>An enforcer; a policy row whose columns do not decode, which the compiler never writes, denies.\<close>

definition path_enforcer :: "string \<Rightarrow> ExecutionAuthorization \<Rightarrow> (AgentAction \<Rightarrow> string) \<Rightarrow> AgentAction \<Rightarrow> db \<Rightarrow> enforcement" where
  "path_enforcer task_id fallback target action d =
     (case current_authorization task_id fallback d of
        Inl e \<Rightarrow> Reasoned False (err_class e)
      | Inr grant \<Rightarrow> policy_allows_path grant (target action) (ea_revision grant) d)"

fun write_target :: "AgentAction \<Rightarrow> string" where
  "write_target (ApplyPatchAction p _) = sy_relative_path p"
| "write_target (CreateFileAction path _ _) = path"
| "write_target (DeleteFileAction path _) = path"
| "write_target _ = []"

definition current_action_id :: "string \<Rightarrow> db \<Rightarrow> string result" where
  "current_action_id task_id d =
     (case last_of (sort_key ac_created_at (filter (\<lambda>a. ac_task_id a = task_id) (actions d))) of
        None \<Rightarrow> Inl (ValueError ''agent action not found'')
      | Some a \<Rightarrow> Inr (ac_id a))"

subsection \<open>The write context\<close>

record exec_ext =
  xw_files :: "(path, string) mapping"
  xw_dirs :: "path list"
  xw_manifests :: "(path, json) mapping"
  xw_lock_id :: "string option"
  xw_transaction_id :: "string option"
  xw_reads :: read_cache
  xw_searches :: search_cache

definition to_world :: "db \<times> exec_ext \<Rightarrow> world" where
  "to_world s = \<lparr>wk_db = fst s, wk_files = xw_files (snd s), wk_dirs = xw_dirs (snd s), wk_manifests = xw_manifests (snd s)\<rparr>"

definition of_world :: "world \<Rightarrow> exec_ext \<Rightarrow> db \<times> exec_ext" where
  "of_world w x = (wk_db w, x\<lparr>xw_files := wk_files w, xw_dirs := wk_dirs w, xw_manifests := wk_manifests w\<rparr>)"

text \<open>What the code relies on outside the repository, and the identifiers and times that are drawn.\<close>

record exec_env =
  xe_turn :: "exec_ext turn_env"
  xe_local_full :: bool
  xe_sha :: "string \<Rightarrow> string"
  xe_diff :: "string \<Rightarrow> string \<Rightarrow> string \<Rightarrow> string"
  xe_rsv :: "path \<Rightarrow> path"
  xe_text_of :: "string \<Rightarrow> string result"
  xe_indexes :: "CodeIndex list"
  xe_code :: code_tables
  xe_ls_files :: "string option"
  xe_parent_env :: "(string \<times> string) list"
  xe_proc :: "string list \<Rightarrow> path \<Rightarrow> (string \<times> string) list \<Rightarrow> proc_outcome"
  xe_ids :: "db \<Rightarrow> tool_ids"
  xe_new_lock :: "db \<Rightarrow> string"
  xe_new_transaction :: "db \<Rightarrow> string"
  xe_now :: "db \<Rightarrow> int"
  xe_isoformat :: "int \<Rightarrow> string"
  xe_new_knowledge :: "db \<Rightarrow> string"

definition lock_status_str :: "LockAcquireStatus \<Rightarrow> string" where
  "lock_status_str s = (case s of ACQUIRED \<Rightarrow> ''ACQUIRED'' | LockAcquireStatus.CONFLICT \<Rightarrow> ''CONFLICT''
     | RECOVERY_REQUIRED \<Rightarrow> ''RECOVERY_REQUIRED'')"

definition ensure_prepared ::
    "exec_env \<Rightarrow> ChangeTask \<Rightarrow> string \<Rightarrow> db \<times> exec_ext \<Rightarrow> (db \<times> exec_ext) \<times> string result" where
  "ensure_prepared env task revision s =
     (let d = fst s; x = snd s
      in case xw_transaction_id x of
           Some tid \<Rightarrow>
             (case get_transaction d tid of
                None \<Rightarrow> (s, Inl (ExecutionRejected ''TRANSACTION_NOT_FOUND'' ''prepared transaction not found''))
              | Some tx \<Rightarrow> (s, Inr (tx_id tx)))
         | None \<Rightarrow>
             (case acquire (xe_now env d) (xe_new_lock env d) (tk_project_id task) (tk_id task) WorkspaceLockMode.WRITE
                 ''execution-orchestrator'' ''execute write action'' 300 d of
                (d1, Inl e) \<Rightarrow> ((d1, x), Inl e)
              | (d1, Inr res) \<Rightarrow>
                  (case (la_status res, la_lock res) of
                     (ACQUIRED, Some lock) \<Rightarrow>
                       (let d2 = update_task (tk_id task) (\<lambda>t. t\<lparr>tk_workspace_lock_id := Some (sn_id lock)\<rparr>) d1;
                            x2 = x\<lparr>xw_lock_id := Some (sn_id lock)\<rparr>
                        in case prepare (xe_sha env) (xe_rsv env) None (xe_now env d2) (xe_new_transaction env d2) (tk_id task)
                               (tk_project_id task) (sn_id lock) revision (to_world (d2, x2)) of
                             (w, Inl e) \<Rightarrow> (of_world w x2, Inl e)
                           | (w, Inr prepared) \<Rightarrow>
                               (of_world w (x2\<lparr>xw_transaction_id := Some (pt_transaction_id prepared)\<rparr>),
                                Inr (pt_transaction_id prepared)))
                   | _ \<Rightarrow> ((d1, x), Inl (ExecutionRejected ''LOCK_CONFLICT'' (lock_status_str (la_status res)))))))"

definition release_lock :: "int \<Rightarrow> string option \<Rightarrow> db \<Rightarrow> db" where
  "release_lock now lock_id d =
     (case lock_id of
        None \<Rightarrow> d
      | Some i \<Rightarrow> d\<lparr>locks := set_row wl_id i (\<lambda>l. if wl_status l = WorkspaceLockStatus.ACTIVE
          then l\<lparr>wl_status := WorkspaceLockStatus.RELEASED, wl_released_at := Some now\<rparr> else l) (locks d)\<rparr>)"

subsection \<open>The handlers\<close>

text \<open>A returned data class prints as its \<^verbatim>\<open>repr\<close>; a returned dictionary is itself.\<close>

definition dataclass_repr :: "string \<Rightarrow> dict \<Rightarrow> string" where
  "dataclass_repr name attrs = name @ ''('' @ join '', '' (map (\<lambda>kv. fst kv @ ''='' @ json_repr (snd kv)) attrs) @ '')''"

definition dict_value :: "dict \<Rightarrow> tool_value" where
  "dict_value kvs = \<lparr>va_json = JObj kvs, va_truth = kvs \<noteq> [], va_tool_execution_id = None, va_stdout = None, va_stderr = None\<rparr>"

definition object_value :: "string \<Rightarrow> dict \<Rightarrow> string option \<Rightarrow> tool_value" where
  "object_value name attrs execution_id =
     \<lparr>va_json = JStr (dataclass_repr name attrs), va_truth = True, va_tool_execution_id = execution_id, va_stdout = None, va_stderr = None\<rparr>"

definition create_value :: "CreateFileResult \<Rightarrow> tool_value" where
  "create_value r = object_value ''CreateFileResult'' [(''relative_path'', JStr (cf_relative_path r)),
     (''after_sha256'', JStr (cf_after_sha256 r)), (''rollback_delete_path'', JStr (cf_rollback_delete_path r)),
     (''tool_execution_id'', JStr (cf_tool_execution_id r))] (Some (cf_tool_execution_id r))"

definition delete_value :: "DeleteFileResult \<Rightarrow> tool_value" where
  "delete_value r = object_value ''DeleteFileResult'' [(''relative_path'', JStr (df_relative_path r)),
     (''deleted'', JBool (df_deleted r)), (''before_sha256'', opt_str (df_before_sha256 r)),
     (''backup_ref'', opt_str (df_backup_ref r)), (''tool_execution_id'', JStr (df_tool_execution_id r))]
     (Some (df_tool_execution_id r))"

definition patch_value :: "ApplyPatchResult \<Rightarrow> tool_value" where
  "patch_value r = object_value ''ApplyPatchResult'' [(''relative_path'', JStr (ap_relative_path r)),
     (''before_sha256'', JStr (ap_before_sha256 r)), (''after_sha256'', JStr (ap_after_sha256 r)), (''diff'', JStr (ap_diff r)),
     (''tool_execution_id'', JStr (ap_tool_execution_id r))] (Some (ap_tool_execution_id r))"

definition shell_value :: "ShellResult \<Rightarrow> tool_value" where
  "shell_value r = (object_value ''ShellResult'' [(''exit_code'', (case sh_exit_code r of None \<Rightarrow> JNull | Some c \<Rightarrow> JInt c)),
     (''stdout'', JStr (sh_stdout r)), (''stderr'', JStr (sh_stderr r)), (''timed_out'', JBool (sh_timed_out r)),
     (''truncated'', JBool (sh_truncated r)), (''tool_execution_id'', opt_str (sh_tool_execution_id r))]
     (sh_tool_execution_id r))\<lparr>va_stdout := Some (sh_stdout r), va_stderr := Some (sh_stderr r)\<rparr>"

text \<open>
  The steps that precede a write, in the order in which the arguments of the tools are evaluated: the id of the current
  action, the prepared transaction, the authorization.
\<close>

definition with_write_context ::
    "exec_env \<Rightarrow> ChangeTask \<Rightarrow> ExecutionAuthorization \<Rightarrow>
     (string \<Rightarrow> string \<Rightarrow> ExecutionAuthorization \<Rightarrow> world \<Rightarrow> world \<times> tool_value result) \<Rightarrow> db \<times> exec_ext \<Rightarrow>
     (db \<times> exec_ext) \<times> tool_value option result" where
  "with_write_context env task fallback run s =
     (case current_action_id (tk_id task) (fst s) of
        Inl e \<Rightarrow> (s, Inl e)
      | Inr action_id \<Rightarrow>
          (case ensure_prepared env task (ea_revision fallback) s of
             (s1, Inl e) \<Rightarrow> (s1, Inl e)
           | (s1, Inr tid) \<Rightarrow>
               (case current_authorization (tk_id task) fallback (fst s1) of
                  Inl e \<Rightarrow> (s1, Inl e)
                | Inr grant \<Rightarrow>
                    (case run action_id tid grant (to_world s1) of
                       (w, r) \<Rightarrow> (of_world w (snd s1), map_sum id Some r)))))"

fun read_handler :: "exec_env \<Rightarrow> path \<Rightarrow> AgentAction \<Rightarrow> db \<times> exec_ext \<Rightarrow> (db \<times> exec_ext) \<times> tool_value option result" where
  "read_handler env root (ReadFileAction path a b _) s =
     (case read_file (xe_sha env) (xe_rsv env) (xe_text_of env) root path a b (xw_reads (snd s)) (to_world s) of
        (cache, r) \<Rightarrow> ((fst s, (snd s)\<lparr>xw_reads := cache\<rparr>), map_sum id (\<lambda>kvs. Some (dict_value kvs)) r))"
| "read_handler env root _ s = (s, Inl (AttributeError ''path''))"

fun search_handler ::
    "exec_env \<Rightarrow> path \<Rightarrow> ChangeTask \<Rightarrow> ExecutionAuthorization \<Rightarrow> AgentAction \<Rightarrow> db \<times> exec_ext \<Rightarrow>
     (db \<times> exec_ext) \<times> tool_value option result" where
  "search_handler env root task fallback (SearchCodeAction query _) s =
     (case current_authorization (tk_id task) fallback (fst s) of
        Inl e \<Rightarrow> (s, Inl e)
      | Inr grant \<Rightarrow>
          (case search_code (xe_rsv env) (xe_text_of env) (xe_indexes env) (xe_code env) (xe_ls_files env) task root query
              (ea_revision grant) (xw_searches (snd s)) (to_world s) of
             (cache, kvs) \<Rightarrow> ((fst s, (snd s)\<lparr>xw_searches := cache\<rparr>), Inr (Some (dict_value kvs)))))"
| "search_handler env root task fallback _ s = (s, Inl (AttributeError ''query''))"

fun create_handler ::
    "exec_env \<Rightarrow> path \<Rightarrow> ChangeTask \<Rightarrow> ExecutionAuthorization \<Rightarrow> AgentAction \<Rightarrow> db \<times> exec_ext \<Rightarrow>
     (db \<times> exec_ext) \<times> tool_value option result" where
  "create_handler env root task fallback (CreateFileAction path content _) s =
     with_write_context env task fallback (\<lambda>action_id tid grant w.
       (case create_file (xe_sha env) (xe_rsv env) root (xe_ids env (wk_db w)) (tk_id task) action_id tid
           (Authorization grant) path content (ea_revision grant) w of (w', r) \<Rightarrow> (w', map_sum id create_value r))) s"
| "create_handler env root task fallback _ s = (s, Inl (AttributeError ''path''))"

fun delete_handler ::
    "exec_env \<Rightarrow> path \<Rightarrow> ChangeTask \<Rightarrow> ExecutionAuthorization \<Rightarrow> AgentAction \<Rightarrow> db \<times> exec_ext \<Rightarrow>
     (db \<times> exec_ext) \<times> tool_value option result" where
  "delete_handler env root task fallback (DeleteFileAction path _) s =
     with_write_context env task fallback (\<lambda>action_id tid grant w.
       (case delete_file (xe_sha env) (xe_rsv env) root (xe_ids env (wk_db w)) (tk_id task) action_id tid
           (Authorization grant) path (ea_revision grant) w of (w', r) \<Rightarrow> (w', map_sum id delete_value r))) s"
| "delete_handler env root task fallback _ s = (s, Inl (AttributeError ''path''))"

text \<open>
  \<^verbatim>\<open>_apply_patch_action\<close>: the authorization is the argument of the call, so it is read first; then the target is grounded,
  its digest taken (against the unresolved root path of the project), the transaction prepared and the patch applied.
\<close>

fun patch_handler ::
    "exec_env \<Rightarrow> string \<Rightarrow> ChangeTask \<Rightarrow> ExecutionAuthorization \<Rightarrow> AgentAction \<Rightarrow> db \<times> exec_ext \<Rightarrow>
     (db \<times> exec_ext) \<times> tool_value option result" where
  "patch_handler env root_path task fallback (ApplyPatchAction p _) s =
     (case current_authorization (tk_id task) fallback (fst s) of
        Inl e \<Rightarrow> (s, Inl e)
      | Inr grant \<Rightarrow>
          (case assert_grounded_target (tk_id task) (sy_relative_path p) (sy_target_evidence p) (fst s) of
             Inl e \<Rightarrow> (s, Inl e)
           | Inr _ \<Rightarrow>
               (case (case sy_expected_sha256 p of
                        Some h \<Rightarrow> if h \<noteq> [] then Inr h
                          else file_sha (xe_sha env) (xe_rsv env) (path_parts root_path) (sy_relative_path p) (to_world s)
                      | None \<Rightarrow> file_sha (xe_sha env) (xe_rsv env) (path_parts root_path) (sy_relative_path p) (to_world s)) of
                  Inl e \<Rightarrow> (s, Inl e)
                | Inr expected \<Rightarrow>
                    (case ensure_prepared env task (ea_revision fallback) s of
                       (s1, Inl e) \<Rightarrow> (s1, Inl e)
                     | (s1, Inr tid) \<Rightarrow>
                         (case current_action_id (tk_id task) (fst s1) of
                            Inl e \<Rightarrow> (s1, Inl e)
                          | Inr action_id \<Rightarrow>
                              (case apply_patch (xe_sha env) (xe_diff env) (xe_rsv env) (xe_rsv env (path_parts root_path))
                                  (xe_ids env (fst s1)) (tk_id task) action_id tid (Authorization grant)
                                  \<lparr>sp_relative_path = sy_relative_path p, sp_expected_sha256 = expected,
                                   sp_replacements = map (\<lambda>r. (px_old r, px_new r)) (sy_replacements p)\<rparr>
                                  (ea_revision grant) None False (to_world s1) of
                                 (w, r) \<Rightarrow> (of_world w (snd s1), map_sum id (\<lambda>v. Some (patch_value v)) r)))))))"
| "patch_handler env root_path task fallback _ s = (s, Inl (AttributeError ''relative_path''))"

fun command_handler ::
    "exec_env \<Rightarrow> path \<Rightarrow> ChangeTask \<Rightarrow> ExecutionAuthorization \<Rightarrow> AgentAction \<Rightarrow> db \<times> exec_ext \<Rightarrow>
     (db \<times> exec_ext) \<times> tool_value option result" where
  "command_handler env root task fallback (RunCommandAction program args _) s =
     (case current_action_id (tk_id task) (fst s) of
        Inl e \<Rightarrow> (s, Inl e)
      | Inr action_id \<Rightarrow>
          (case current_authorization (tk_id task) fallback (fst s) of
             Inl e \<Rightarrow> (s, Inl e)
           | Inr grant \<Rightarrow>
               (case shell_run (xe_rsv env) root (xe_parent_env env) 4096 (xe_proc env) (xe_now env (fst s))
                   (ti_execution (xe_ids env (fst s))) (tk_id task) action_id None (Authorization grant) program args ''.''
                   (ea_revision grant) (fst s) of
                  (d, r) \<Rightarrow> ((d, snd s), map_sum id (\<lambda>v. Some (shell_value v)) r))))"
| "command_handler env root task fallback _ s = (s, Inl (AttributeError ''program''))"

subsection \<open>Admission and the goal\<close>

definition admit :: "string \<Rightarrow> string \<Rightarrow> db \<Rightarrow> (ChangeTask \<times> ExecutionPolicy) result" where
  "admit task_id command d =
     (case get_task d task_id of
        None \<Rightarrow> Inl (ExecutionRejected ''TASK_NOT_FOUND'' ''task not found'')
      | Some task \<Rightarrow>
          if tk_status task = TaskStatus.BLOCKED
          then Inl (ExecutionRejected ''TASK_BLOCKED'' ''blocked tasks cannot execute tools'')
          else
            (case active_policy task_id d of
               None \<Rightarrow> Inl (ExecutionRejected ''EXECUTION_REJECTED'' ''explicit approval required before execution'')
             | Some policy \<Rightarrow>
                 if \<not> ep_executable policy
                 then Inl (ExecutionRejected ''EXECUTION_REJECTED'' ''explicit approval required before execution'')
                 else rbind (json_list (ep_commands_json policy)) (\<lambda>commands.
                   if command \<notin> set commands
                   then Inl (ExecutionRejected ''EXECUTION_REJECTED'' ''command outside execution policy'')
                   else Inr (task, policy))))"

definition active_proposal :: "ChangeTask \<Rightarrow> db \<Rightarrow> ChangeProposal option" where
  "active_proposal task d =
     (let mine = filter (\<lambda>p. pr_task_id p = tk_id task) (proposals d);
          chosen = (case tk_active_proposal_id task of
            None \<Rightarrow> None | Some i \<Rightarrow> if i = [] then None else find (\<lambda>p. pr_id p = i) mine)
      in case chosen of Some p \<Rightarrow> Some p | None \<Rightarrow> last_of mine)"

definition goal_instructions :: "string list" where
  "goal_instructions =
     [''Return exactly one valid AgentAction JSON object.'',
      ''The discriminator field is action_type and enum values must exactly match the schema.'',
      ''Every action MUST contain action_type, parameters, and reason.'',
      ''You are executing an already confirmed coding change. Investigation is not the endpoint.'',
      ''If the relevant file is not certain, use SEARCH_CODE/READ_FILE to gather evidence. Once the exact '' @
        ''edit is known and policy permits it, use APPLY_PATCH for existing files.'',
      ''Do not modify the first literal text match. When the user describes a UI location, component, '' @
        ''module, route, behavior, or structural role, verify the selected code location corresponds to that '' @
        ''description using repository evidence.'',
      ''If multiple literal matches exist, inspect enough candidates to distinguish them. Before WRITE, make '' @
        ''sure the chosen target is supported by the semantic description, not only by matching text. Include '' @
        ''target_evidence in APPLY_PATCH when alternatives were seen.'',
      ''For APPLY_PATCH replacements, old text must be copied exactly from current source evidence. Preserve '' @
        ''literal source spelling, including indentation, quotes, and unicode escape sequences such as '' @
        [CHR 0x5C] @
        ''u4efb'' @
        [CHR 0x5C] @
        ''u52a1; do not substitute the rendered UI text if the file stores an escaped string.'',
      ''When SEARCH_CODE returns multiple candidates, prefer files under frontend/src/pages, '' @
        ''frontend/src/app, or frontend/src/components that directly match the UI text. Do not choose '' @
        ''backend/docs/tests matches for a frontend label change unless no frontend source match exists.'',
      ''The confirmed proposal scope and initial write hints are planning evidence, not a semantic override. '' @
        ''If SEARCH_CODE or READ_FILE proves the requested UI target lives in a different frontend source '' @
        ''file, choose that proven file for APPLY_PATCH instead of looping on the initial proposal path. '' @
        ''Execution-time governance will recompile an action-scoped policy for the concrete WRITE target '' @
        ''before dispatch, and the dispatcher will still enforce the final policy decision.'',
      ''Do not use RUN_COMMAND to edit files. RUN_COMMAND is only for validation or read-only inspection; '' @
        ''sed/perl/python rewrite commands are not acceptable write actions.'',
      ''A coding task is incomplete until FileChange exists.'',
      dquote (''Schema-correct READ_FILE example: '' @
        ''{^action_type^:^READ_FILE^,^parameters^:{^path^:^frontend/src/app/App.tsx^,^start_line^:1,^end_line^:200},^reason^:^Need '' @
        ''to inspect the current implementation before editing it.^}.''),
      dquote (''Schema-correct APPLY_PATCH example: '' @
        ''{^action_type^:^APPLY_PATCH^,^parameters^:{^relative_path^:^frontend/src/app/App.tsx^,^expected_sha256^:null,^replacements^:[{^old^:^old '' @
        ''text^,^new^:^new '' @
        ''text^}],^target_evidence^:{^selected_path^:^frontend/src/app/App.tsx^,^selection_reason^:^The '' @
        ''selected code location matches the user-described UI role.^}},^reason^:^Apply the confirmed text '' @
        ''replacement in the existing file.^}.'')]"

definition execution_goal :: "ChangeTask \<Rightarrow> ExecutionPolicy \<Rightarrow> string \<Rightarrow> db \<Rightarrow> string result" where
  "execution_goal task policy command d =
     rbind (json_list (ep_write_paths_json policy)) (\<lambda>items.
       let write_paths = (if join '', '' items = [] then ''no initial write hints'' else join '', '' items);
           proposal = active_proposal task d
       in rbind (case proposal of None \<Rightarrow> Inr write_paths
                 | Some p \<Rightarrow> rbind (json_list (pr_initial_scope_json p)) (\<lambda>scope. Inr (join '', '' scope))) (\<lambda>proposal_scope.
            Inr (join [CHR 0x0A] (goal_instructions @
              [''Task request: '' @ tk_original_request task,
               ''Confirmed proposal: '' @ (case proposal of None \<Rightarrow> tk_original_request task | Some p \<Rightarrow> pr_goal p),
               ''Confirmed proposal scope hint: '' @ proposal_scope,
               ''requires_code_change=true'',
               ''Initial write path hints: '' @ write_paths,
               ''changed_files=[]'',
               ''write_tool_executions=0'',
               ''Execution command: '' @ command]))))"

subsection \<open>The runtime of an execution\<close>

definition execution_registry :: "bool \<Rightarrow> ToolRegistry" where
  "execution_registry local_full =
     fold (\<lambda>name. registry_register \<lparr>ts_name = name, ts_risk = ''domain-policy'', ts_timeout_seconds = 30\<rparr>)
       ([''READ_FILE'', ''SEARCH_CODE'', ''APPLY_PATCH'', ''CREATE_FILE'', ''DELETE_FILE''] @
        (if local_full then [''RUN_COMMAND''] else [])) []"

definition execution_turn_env ::
    "exec_env \<Rightarrow> string \<Rightarrow> ChangeTask \<Rightarrow> ExecutionAuthorization \<Rightarrow> exec_ext turn_env" where
  "execution_turn_env env root_path task fallback =
     (let root = xe_rsv env (path_parts root_path)
      in (xe_turn env)\<lparr>tn_max_chars := 16000, tn_registry := execution_registry (xe_local_full env),
           tn_handlers := [(''READ_FILE'', read_handler env root), (''SEARCH_CODE'', search_handler env root task fallback),
             (''APPLY_PATCH'', patch_handler env root_path task fallback),
             (''CREATE_FILE'', create_handler env root task fallback),
             (''DELETE_FILE'', delete_handler env root task fallback),
             (''RUN_COMMAND'', command_handler env root task fallback)],
           tn_enforcers := map (\<lambda>name. (name, path_enforcer (tk_id task) fallback write_target))
             [''APPLY_PATCH'', ''CREATE_FILE'', ''DELETE_FILE'']\<rparr>)"

subsection \<open>Events\<close>

definition stage_payload :: "ChangeTask \<Rightarrow> string \<Rightarrow> string \<Rightarrow> string option \<Rightarrow> dict" where
  "stage_payload task stage result detail =
     [(''message'', JStr (case detail of None \<Rightarrow> stage | Some m \<Rightarrow> if m = [] then stage else m)),
      (''projectId'', JStr (tk_project_id task)), (''stage'', JStr stage), (''state'', JStr result), (''taskId'', JStr (tk_id task))]"

definition bus_stage :: "ChangeTask \<Rightarrow> string \<times> string \<times> string option \<Rightarrow> EventBus \<Rightarrow> EventBus" where
  "bus_stage task entry bus = fst (publish (tk_id task) (fst entry)
     (stage_payload task (fst entry) (fst (snd entry)) (snd (snd entry))) bus)"

definition action_message :: "string \<Rightarrow> string" where
  "action_message action_type =
     (if action_type = ''READ_FILE'' then ''reading repository context''
      else if action_type = ''SEARCH_CODE'' then ''locating relevant code''
      else if action_type \<in> set [''APPLY_PATCH'', ''CREATE_FILE'', ''DELETE_FILE''] then ''changing files''
      else if action_type = ''RUN_COMMAND'' then ''running approved command''
      else ''processing action'')"

definition action_done_message :: "string \<Rightarrow> string \<Rightarrow> string" where
  "action_done_message action_type status =
     action_message action_type @ '' '' @ (if status = ''SUCCEEDED'' then ''completed'' else ''failed'')"

definition action_events :: "string \<Rightarrow> string option \<Rightarrow> db \<Rightarrow> (string \<times> dict) list" where
  "action_events task_id transaction_id d =
     (let tools = sort_key (\<lambda>e. (te_created_at e, te_id e))
            (filter (\<lambda>e. te_task_id e = task_id \<and> te_transaction_id e = transaction_id) (executions d));
          rows = sort_key (\<lambda>a. (ac_created_at a, ac_id a))
            (filter (\<lambda>a. ac_task_id a = task_id \<and> ac_id a \<in> set (map te_action_id tools)) (actions d));
          status = (\<lambda>a. case map_of (rev (map (\<lambda>e. (te_action_id e, e)) tools)) (ac_id a) of
            None \<Rightarrow> ''UNKNOWN'' | Some e \<Rightarrow> execution_status_str (te_status e))
      in concat (map (\<lambda>a. let name = action_type_str (ac_action_type a) in
           [(''ACTION_STARTED'', [(''actionId'', JStr (ac_id a)), (''actionType'', JStr name), (''message'', JStr (action_message name)),
              (''state'', JStr ''RUNNING''), (''taskId'', JStr task_id)]),
            (''ACTION_COMPLETED'', [(''actionId'', JStr (ac_id a)), (''actionType'', JStr name),
              (''message'', JStr (action_done_message name (status a))),
              (''state'', JStr (if status a = ''SUCCEEDED'' then ''COMPLETED'' else ''FAILED'')), (''taskId'', JStr task_id)])]) rows))"

fun change_type_str :: "FileChangeType \<Rightarrow> string" where
  "change_type_str FileChangeType.CREATE = ''CREATE''"
| "change_type_str FileChangeType.MODIFY = ''MODIFY''"
| "change_type_str FileChangeType.DELETE = ''DELETE''"

definition file_change_events :: "string \<Rightarrow> string option \<Rightarrow> db \<Rightarrow> (string \<times> dict) list" where
  "file_change_events task_id transaction_id d =
     map (\<lambda>c. (''FILE_CHANGED'', [(''changeId'', JStr (fc_id c)), (''changeType'', JStr (change_type_str (fc_change_type c))),
         (''message'', JStr (''changed '' @ fc_relative_path c)), (''path'', JStr (fc_relative_path c)),
         (''state'', JStr ''COMPLETED''), (''taskId'', JStr task_id)]))
       (sort_key (\<lambda>c. (fc_created_at c, fc_id c)) (filter (\<lambda>c. fc_task_id c = task_id \<and>
          list_ex (\<lambda>e. te_id e = fc_tool_execution_id c \<and> te_transaction_id e = transaction_id) (executions d)) (file_changes d)))"

definition publish_all :: "string \<Rightarrow> (string \<times> dict) list \<Rightarrow> EventBus \<Rightarrow> EventBus" where
  "publish_all task_id events bus = fold (\<lambda>ev b. fst (publish task_id (fst ev) (snd ev) b)) events bus"

definition task_event :: "ChangeTask \<Rightarrow> string \<Rightarrow> string \<Rightarrow> dict" where
  "task_event task state message =
     [(''message'', JStr message), (''projectId'', JStr (tk_project_id task)), (''state'', JStr state), (''taskId'', JStr (tk_id task))]"

subsection \<open>Completion and failure\<close>

definition set_transaction_state :: "string option \<Rightarrow> TransactionState \<Rightarrow> db \<Rightarrow> db" where
  "set_transaction_state transaction_id state d =
     (case transaction_id of None \<Rightarrow> d
      | Some t \<Rightarrow> d\<lparr>transactions := set_row tx_id t (\<lambda>x. x\<lparr>tx_state := state\<rparr>) (transactions d)\<rparr>)"

definition mark_execution_failed :: "string \<Rightarrow> string option \<Rightarrow> py_error \<Rightarrow> db \<Rightarrow> db" where
  "mark_execution_failed task_id transaction_id e d =
     update_task task_id (\<lambda>t. t\<lparr>tk_status := TaskStatus.FAILED, tk_failure_code := Some (error_code e),
       tk_failure_message := Some (safe_error e)\<rparr>)
       (set_transaction_state transaction_id TransactionState.CONFLICT d)"

record exec_system =
  es_db :: db
  es_files :: "(path, string) mapping"
  es_dirs :: "path list"
  es_manifests :: "(path, json) mapping"
  es_artifacts :: "(string \<times> json) list"
  es_evaluations :: "TaskEvaluation list"
  es_bus :: EventBus

definition fail_execution ::
    "exec_env \<Rightarrow> ChangeTask \<Rightarrow> ExecutionPolicy \<Rightarrow> string \<Rightarrow> exec_ext \<Rightarrow> py_error \<Rightarrow> exec_system \<Rightarrow> exec_system \<times> ExecutionResult" where
  "fail_execution env task policy command x e s =
     (let d1 = mark_execution_failed (tk_id task) (xw_transaction_id x) e (es_db s);
          d2 = release_lock (xe_now env d1) (xw_lock_id x) d1;
          bus1 = bus_stage task (''TASK_FAILED'', error_code e, Some (safe_error e)) (es_bus s)
      in case publish (tk_id task) ''EXECUTION_FAILED'' (task_event task ''FAILED'' (safe_error e)) bus1 of
           (bus2, event) \<Rightarrow>
             (s\<lparr>es_db := d2, es_bus := bus2\<rparr>,
              \<lparr>xr_task_id = tk_id task, xr_status = ''FAILED'', xr_event_id = bus_event_id event, xr_command = Some command,
               xr_lock_id = xw_lock_id x, xr_policy_id = Some (ep_id policy), xr_code = Some (error_code e),
               xr_error = Some (safe_error e)\<rparr>))"

definition complete_execution ::
    "exec_env \<Rightarrow> ChangeTask \<Rightarrow> ExecutionPolicy \<Rightarrow> string \<Rightarrow> Event \<Rightarrow> exec_ext \<Rightarrow> exec_system \<Rightarrow> exec_system \<times> ExecutionResult" where
  "complete_execution env task policy command started x s =
     (let t = tk_id task; tid = xw_transaction_id x; d = es_db s;
          s1 = s\<lparr>es_bus := publish_all t (action_events t tid d) (es_bus s)\<rparr>;
          changed = task_changed_paths t tid d
      in if changed = []
         then fail_execution env task policy command x
           (CompletionInvariantViolation ''execution completed without real file changes'') s1
         else
           let bus1 = publish_all t (file_change_events t tid d) (es_bus s1);
               d1 = set_transaction_state tid TransactionState.COMMITTED d;
               d2 = release_lock (xe_now env d1) (xw_lock_id x) d1;
               d3 = update_task t (\<lambda>k. k\<lparr>tk_status := TaskStatus.COMPLETED\<rparr>) d2;
               bus2 = bus_stage task (''TASK_COMPLETED'', ''COMPLETED'', Some (join '','' changed)) bus1;
               bus3 = fst (publish t ''EXECUTION_COMPLETED'' (task_event task ''COMPLETED'' (''changed files: '' @ join '', '' changed)) bus2)
           in case persist_for_task (xe_isoformat env) (xe_now env d3) (xe_new_knowledge env d3) t (es_evaluations s) d3 of
                (evaluations, d4) \<Rightarrow>
                  (s1\<lparr>es_db := d4, es_bus := bus3, es_evaluations := evaluations\<rparr>,
                   \<lparr>xr_task_id = t, xr_status = ''COMPLETED'', xr_event_id = bus_event_id started, xr_command = Some command,
                    xr_lock_id = xw_lock_id x, xr_policy_id = Some (ep_id policy), xr_code = None, xr_error = None\<rparr>))"

subsection \<open>\<^verbatim>\<open>ExecutionOrchestrator\<close>\<close>

text \<open>
  The loop of an execution on the database after admission. The runtime is made for this run, so no other thread holds
  its cancellation tokens: the run is never cancelled.
\<close>

definition run_execution ::
    "exec_env \<Rightarrow> (nat \<Rightarrow> turn_ids) \<Rightarrow> RuntimePolicy option \<Rightarrow> string \<Rightarrow> ChangeTask \<Rightarrow> ExecutionPolicy \<Rightarrow> ExecutionAuthorization \<Rightarrow>
     string \<Rightarrow> exec_ext agent_state \<Rightarrow> exec_ext agent_state \<times> RuntimeRunResult result" where
  "run_execution env ids limits root_path task policy authorization command st =
     (case execution_goal task policy command (as_db st) of
        Inl e \<Rightarrow> (st, Inl e)
      | Inr goal \<Rightarrow>
          run_task (case limits of None \<Rightarrow> default_policy | Some p \<Rightarrow> p)
            (Some (agent_runner (execution_turn_env env root_path task authorization) ids (tk_id task)
               (ea_proposal_hash authorization) (ea_revision authorization) goal))
            (\<lambda>i. None) (\<lambda>s. xw_transaction_id (snd s)) (tk_id task) st)"

definition initial_ext :: "exec_system \<Rightarrow> exec_ext" where
  "initial_ext s = \<lparr>xw_files = es_files s, xw_dirs = es_dirs s, xw_manifests = es_manifests s, xw_lock_id = None,
     xw_transaction_id = None, xw_reads = [], xw_searches = []\<rparr>"

definition after_run :: "ChangeTask \<Rightarrow> exec_ext agent_state \<Rightarrow> exec_system \<Rightarrow> exec_system" where
  "after_run task st s =
     s\<lparr>es_db := as_db st, es_files := xw_files (as_ext st), es_dirs := xw_dirs (as_ext st), es_manifests := xw_manifests (as_ext st),
       es_artifacts := as_artifacts st, es_bus := fold (bus_stage task) (as_stages st) (es_bus s)\<rparr>"

text \<open>An exception that leaves the method rolls the session back; events that were published stay published.\<close>

definition execute_task ::
    "exec_env \<Rightarrow> (nat \<Rightarrow> turn_ids) \<Rightarrow> RuntimePolicy option \<Rightarrow> string \<Rightarrow> string \<Rightarrow> exec_system \<Rightarrow>
     exec_system \<times> ExecutionResult result" where
  "execute_task env ids limits task_id command s =
     (case admit task_id command (es_db s) of
        Inl e \<Rightarrow> (s, Inl e)
      | Inr (task, policy) \<Rightarrow>
          (let d1 = update_task task_id (\<lambda>t. t\<lparr>tk_active_policy_id := Some (ep_id policy)\<rparr>) (es_db s);
               bus1 = bus_stage task (''EXECUTION_STARTED'', ''PREPARING'', Some ''preparing confirmed proposal execution'') (es_bus s)
           in case from_policy policy None of
                Inl e \<Rightarrow> (s\<lparr>es_bus := bus1\<rparr>, Inl e)
              | Inr authorization \<Rightarrow>
                  (case get_row pj_id (tk_project_id task) (projects d1) of
                     None \<Rightarrow> (s\<lparr>es_bus := bus1\<rparr>, Inl (AttributeError ''root_path''))
                   | Some project \<Rightarrow>
                       (case publish task_id ''EXECUTION_STARTED'' (task_event task ''EXECUTING'' ''execution started'') bus1 of
                          (bus2, started) \<Rightarrow>
                            (let d2 = update_task task_id (\<lambda>t. t\<lparr>tk_status := TaskStatus.EXECUTING\<rparr>) d1
                             in case run_execution env ids limits (pj_root_path project) task policy authorization command
                                    \<lparr>as_db = d2, as_ext = initial_ext s, as_artifacts = es_artifacts s, as_stages = []\<rparr> of
                                  (st, r) \<Rightarrow>
                                    (let s1 = after_run task st (s\<lparr>es_bus := bus2\<rparr>)
                                     in case r of
                                          Inl e \<Rightarrow> map_prod id Inr (fail_execution env task policy command (as_ext st) e s1)
                                        | Inr _ \<Rightarrow> map_prod id Inr (complete_execution env task policy command started (as_ext st) s1)))))))"

text \<open>Without a shared runtime the request goes to the tokens of a new one, which no run looks at.\<close>

definition cancel_task :: "string \<Rightarrow> exec_system \<Rightarrow> exec_system \<times> ExecutionResult" where
  "cancel_task task_id s =
     (case publish task_id ''CANCEL_REQUESTED'' [(''message'', JStr ''cancel requested''), (''state'', JStr ''CANCEL_REQUESTED''),
         (''taskId'', JStr task_id)] (es_bus s) of
        (bus, event) \<Rightarrow>
          (s\<lparr>es_bus := bus\<rparr>,
           \<lparr>xr_task_id = task_id, xr_status = ''CANCEL_REQUESTED'', xr_event_id = bus_event_id event, xr_command = None,
            xr_lock_id = None, xr_policy_id = None, xr_code = None, xr_error = None\<rparr>))"

subsection \<open>What the handlers may change\<close>

text \<open>
  The files an execution may touch: the resolved target of a path that the authorization permits, inside the project
  root, or the temporary file beside it, or a file of the backup area of a transaction.
\<close>

definition may_touch :: "exec_env \<Rightarrow> path \<Rightarrow> ExecutionAuthorization \<Rightarrow> TaskTransaction list \<Rightarrow> path \<Rightarrow> bool" where
  "may_touch env root auth txs p \<longleftrightarrow>
     (\<exists>n. authorization_allows_write auth n (ea_revision auth) \<and> prefix root (xe_rsv env (root @ path_parts n)) \<and>
        (p = xe_rsv env (root @ path_parts n) \<or> (\<exists>hex. p = temp_path (xe_rsv env (root @ path_parts n)) hex))) \<or>
     (\<exists>tx \<in> set txs. \<exists>ref. tx_manifest_artifact_ref tx = Some ref \<and> prefix (butlast (path_parts ref)) p)"

lemma may_touch_mono: "set txs \<subseteq> set txs' \<Longrightarrow> may_touch env root auth txs p \<Longrightarrow> may_touch env root auth txs' p"
  unfolding may_touch_def by blast

lemma prepared_in: "prepared_transaction tid t d = Some (tx, ref) \<Longrightarrow> tx \<in> set (transactions d) \<and> tx_manifest_artifact_ref tx = Some ref"
  by (auto simp: prepared_transaction_def split: option.splits if_splits)

text \<open>The part of the database that no file tool changes.\<close>

definition tool_view :: "db \<Rightarrow> ExecutionPolicy list \<times> GovernanceDecision list \<times> TaskTransaction list \<times> ChangeTask list" where
  "tool_view d = (policies d, decisions d, transactions d, tasks d)"

lemma store_backup_db: "store_backup a b w = (w1, r) \<Longrightarrow> wk_db w1 = wk_db w"
  by (auto simp: store_backup_def make_dirs_def write_bytes_def split: if_splits)

lemma write_bytes_db: "write_bytes p b w = (w1, r) \<Longrightarrow> wk_db w1 = wk_db w"
  by (auto simp: write_bytes_def split: if_splits)

lemma log_change_view [simp]: "tool_view (wk_db (log_change ex bks ch w)) = tool_view (wk_db w)"
  by (simp add: log_change_def tool_view_def)

lemma create_file_view: "tool_view (wk_db (fst (create_file sha rsv root i t a tid g rel c revision w))) = tool_view (wk_db w)"
  by (simp add: create_file_def Let_def log_change_def tool_view_def split: option.split sum.split)

lemma delete_file_view: "tool_view (wk_db (fst (delete_file sha rsv root i t a tid g rel revision w))) = tool_view (wk_db w)"
  by (auto simp: delete_file_def Let_def remove_file_def log_change_def tool_view_def dest: store_backup_db
      split: option.split sum.split prod.split)

lemma replace_target_view:
  "tool_view (wk_db (fst (replace_target sha i t a tx rel target art h d None False w))) = tool_view (wk_db w)"
  by (simp add: replace_target_def Let_def remove_file_def log_change_def tool_view_def split: option.split)

lemma apply_patch_view:
  "tool_view (wk_db (fst (apply_patch sha df rsv root i t a tid g patch revision None False w))) = tool_view (wk_db w)"
  by (auto simp: apply_patch_def Let_def replace_target_view dest!: store_backup_db write_bytes_db
      split: option.split sum.split prod.split)

lemma replace_target_at:
  assumes "file_at (fst (replace_target sha i t a tx rel target art h d None False w)) p \<noteq> file_at w p"
  shows "p = target \<or> p = temp_path target (ti_temp i)"
  using assms
  by (auto simp: replace_target_def Let_def remove_file_def lookup_update' lookup_delete_if split: option.splits if_splits)

lemma apply_patch_at:
  assumes "file_at (fst (apply_patch sha df rsv root i t a tid g patch revision None False w)) p \<noteq> file_at w p"
  shows "\<exists>n tx ref. canonical_project_path (sp_relative_path patch) = Inr n \<and> wg_allows_write g n revision \<and>
    prefix root (rsv (root @ path_parts n)) \<and> prepared_transaction tid t (wk_db w) = Some (tx, ref) \<and>
    (p = rsv (root @ path_parts n) \<or> p = temp_path (rsv (root @ path_parts n)) (ti_temp i) \<or> p = artifact_path ref ''files'' n)"
proof (rule ccontr)
  assume no: "\<not> ?thesis"
  obtain tx ref n before after where n: "prepared_transaction tid t (wk_db w) = Some (tx, ref)"
      "canonical_project_path (sp_relative_path patch) = Inr n" "wg_allows_write g n revision"
      "prefix root (rsv (root @ path_parts n))"
    and m: "file_at w (rsv (root @ path_parts n)) = Some before" "sha before = sp_expected_sha256 patch" "utf8_valid before"
      "apply_replacements before (sp_replacements patch) = Inr after"
    using assms by (auto simp: apply_patch_def Let_def split: option.splits sum.splits if_splits)
  have r: "apply_patch sha df rsv root i t a tid g patch revision None False w =
      (case store_backup (artifact_path ref ''files'' n) before w of
         (w1, Inl e) \<Rightarrow> (w1, Inl e)
       | (w1, Inr _) \<Rightarrow>
           (case write_bytes (temp_path (rsv (root @ path_parts n)) (ti_temp i)) after w1 of
              (w2, Inl e) \<Rightarrow> (w2, Inl e)
            | (w2, Inr _) \<Rightarrow> replace_target sha i t a tx n (rsv (root @ path_parts n)) (artifact_path ref ''files'' n)
                (sp_expected_sha256 patch) (df n before after) None False w2))"
    by (simp add: apply_patch_def Let_def n m)
  let ?t = "rsv (root @ path_parts n)" and ?a = "artifact_path ref ''files'' n"
  let ?m = "temp_path ?t (ti_temp i)"
  have p: "p \<noteq> ?t" "p \<noteq> ?m" "p \<noteq> ?a" using no n by auto
  obtain w1 r1 where s: "store_backup ?a before w = (w1, r1)" by (metis prod.collapse)
  obtain w2 r2 where b: "write_bytes ?m after w1 = (w2, r2)" by (metis prod.collapse)
  have "file_at w1 p = file_at w p" using store_backup_at [OF s] p by blast
  moreover have "file_at w2 p = file_at w1 p" using write_bytes_at [OF b] p by blast
  moreover have "file_at (fst (replace_target sha i t a tx n ?t ?a (sp_expected_sha256 patch) (df n before after) None False w2)) p = file_at w2 p"
    using replace_target_at p by blast
  ultimately show False using assms r s b by (auto split: sum.splits)
qed

lemma create_may_touch:
  assumes "file_at (fst (create_file sha (xe_rsv env) root i t a tid (Authorization g) rel c (ea_revision g) w)) p \<noteq> file_at w p"
  shows "may_touch env root g (transactions (wk_db w)) p"
  using create_file_touches [OF assms] unfolding may_touch_def by (auto simp: wg_allows_write.simps)

lemma delete_may_touch:
  assumes "file_at (fst (delete_file sha (xe_rsv env) root i t a tid (Authorization g) rel (ea_revision g) w)) p \<noteq> file_at w p"
  shows "may_touch env root g (transactions (wk_db w)) p"
  using delete_file_touches [OF assms] prepared_in unfolding may_touch_def by (fastforce simp: wg_allows_write.simps)

lemma patch_may_touch:
  assumes "file_at (fst (apply_patch sha df (xe_rsv env) root i t a tid (Authorization g) patch (ea_revision g) None False w)) p \<noteq> file_at w p"
  shows "may_touch env root g (transactions (wk_db w)) p"
proof -
  from apply_patch_at [OF assms] obtain n tx ref where n: "wg_allows_write (Authorization g) n (ea_revision g)"
      "prefix root (xe_rsv env (root @ path_parts n))" "prepared_transaction tid t (wk_db w) = Some (tx, ref)"
      "p = xe_rsv env (root @ path_parts n) \<or> p = temp_path (xe_rsv env (root @ path_parts n)) (ti_temp i) \<or> p = artifact_path ref ''files'' n"
    by blast
  show ?thesis
  proof (cases "p = artifact_path ref ''files'' n")
    case True
    then have "prefix (butlast (path_parts ref)) p" by (simp add: artifact_path_def)
    then show ?thesis using prepared_in [OF n(3)] unfolding may_touch_def by blast
  next
    case False
    then show ?thesis using n unfolding may_touch_def by (auto simp: wg_allows_write.simps)
  qed
qed

subsection \<open>The invariant of an execution\<close>

text \<open>The policy that admitted the execution, in a table of policies with distinct identifiers.\<close>

definition sole_policy :: "string \<Rightarrow> ExecutionAuthorization \<Rightarrow> ExecutionPolicy list \<Rightarrow> bool" where
  "sole_policy t auth ps \<longleftrightarrow> (\<exists>policy. get_row ep_id (ea_policy_id auth) ps = Some policy \<and> ep_task_id policy = t \<and>
     ep_status policy = ExecutionPolicyStatus.ACTIVE)"

definition own_decisions :: "(nat \<Rightarrow> turn_ids) \<Rightarrow> string \<Rightarrow> GovernanceDecision list \<Rightarrow> bool" where
  "own_decisions ids t decs \<longleftrightarrow> (\<forall>dec \<in> set decs. \<forall>i. gd_id dec = tu_decision (ids i) \<longrightarrow> gd_task_id dec = t)"

definition exec_inv ::
    "exec_env \<Rightarrow> path \<Rightarrow> string \<Rightarrow> (nat \<Rightarrow> turn_ids) \<Rightarrow> ExecutionAuthorization \<Rightarrow> ExecutionPolicy list \<Rightarrow> (path, string) mapping \<Rightarrow>
     TaskTransaction list \<Rightarrow> db \<times> exec_ext \<Rightarrow> bool" where
  "exec_inv env root t ids auth ps files0 txs0 s \<longleftrightarrow>
     policies (fst s) = ps \<and> sole_policy t auth ps \<and> own_decisions ids t (decisions (fst s)) \<and>
     map_option tk_active_policy_id (get_task (fst s) t) = Some (Some (ea_policy_id auth)) \<and>
     (\<forall>tid. xw_transaction_id (snd s) = Some tid \<longrightarrow> get_transaction (fst s) tid \<noteq> None) \<and>
     (\<forall>tx \<in> set (transactions (fst s)). tx \<in> set txs0 \<or> xw_transaction_id (snd s) = Some (tx_id tx)) \<and>
     (\<forall>p. Mapping.lookup (xw_files (snd s)) p \<noteq> Mapping.lookup files0 p \<longrightarrow> may_touch env root auth (transactions (fst s)) p)"

lemma exec_inv_authorization:
  assumes "exec_inv env root t ids auth ps files0 txs0 (d, x)"
  shows "current_authorization t auth d = Inr auth"
proof -
  obtain policy where p: "get_policy d (ea_policy_id auth) = Some policy" "ep_status policy = ExecutionPolicyStatus.ACTIVE"
    using assms by (auto simp: exec_inv_def sole_policy_def)
  obtain task where "get_task d t = Some task" "tk_active_policy_id task = Some (ea_policy_id auth)"
    using assms by (auto simp: exec_inv_def)
  then have "active_policy t d = Some policy" using p by (simp add: active_policy_def)
  moreover have "ep_id policy = ea_policy_id auth" using p(1) by auto
  ultimately show ?thesis by (simp add: current_authorization_def)
qed

lemma find_active:
  assumes "exec_inv env root t ids auth ps files0 txs0 (d, x)"
  shows "find (active_policy_of t) (policies d) \<noteq> None"
  using assms by (auto simp: exec_inv_def sole_policy_def find_None_iff active_policy_of_def)

lemma get_decision_task:
  "own_decisions ids t (decisions d) \<Longrightarrow> get_decision d (tu_decision (ids i)) = Some dec \<Longrightarrow> gd_task_id dec = t"
  by (auto simp: own_decisions_def dest!: get_row_Some)

text \<open>The steps of the turn keep the invariant; in particular no policy is activated for the action.\<close>

lemma exec_inv_view:
  "exec_inv env root t ids auth ps files0 txs0 (d, x) \<Longrightarrow> run_view t d' = run_view t d \<Longrightarrow> exec_inv env root t ids auth ps files0 txs0 (d', x)"
  by (auto simp: exec_inv_def run_view_def)

lemma exec_inv_decided:
  "exec_inv env root t ids auth ps files0 txs0 (d, x) \<Longrightarrow> gd_task_id dec = t \<Longrightarrow>
   exec_inv env root t ids auth ps files0 txs0 (d\<lparr>decisions := decisions d @ [dec]\<rparr>, x)"
  by (auto simp: exec_inv_def own_decisions_def)

lemma exec_inv_activated:
  assumes "exec_inv env root t ids auth ps files0 txs0 (d, x)"
    and "activate_action_policy b i (tu_decision (ids j)) paths d = (d', r)"
  shows "d' = d"
proof -
  have "own_decisions ids t (decisions d)" using assms(1) by (simp add: exec_inv_def)
  then show ?thesis
    using assms(2) find_active [OF assms(1)] get_decision_task [of ids t d j]
    by (auto simp: activate_action_policy_def split: option.splits if_splits)
qed

text \<open>A tool of the library keeps the invariant, whatever it answers.\<close>

lemma exec_inv_tool:
  assumes inv: "exec_inv env root t ids auth ps files0 txs0 s"
    and view: "tool_view (wk_db w) = tool_view (fst s)"
    and touch: "\<And>p. file_at w p \<noteq> file_at (to_world s) p \<Longrightarrow> may_touch env root auth (transactions (fst s)) p"
  shows "exec_inv env root t ids auth ps files0 txs0 (of_world w (snd s))"
proof -
  have v: "policies (wk_db w) = policies (fst s)" "decisions (wk_db w) = decisions (fst s)"
      "transactions (wk_db w) = transactions (fst s)" "tasks (wk_db w) = tasks (fst s)"
    using view by (simp_all add: tool_view_def)
  have "may_touch env root auth (transactions (fst s)) p" if "file_at w p \<noteq> Mapping.lookup files0 p" for p
    using that inv touch [of p] by (cases "file_at w p = file_at (to_world s) p") (auto simp: exec_inv_def to_world_def)
  with inv show ?thesis by (simp add: exec_inv_def of_world_def v)
qed

lemma to_world_db [simp]: "wk_db (to_world s) = fst s" by (simp add: to_world_def)

lemma exec_inv_create:
  assumes "exec_inv env root t ids auth ps files0 txs0 s"
  shows "exec_inv env root t ids auth ps files0 txs0 (of_world (fst (create_file sha (xe_rsv env) root i u a tid (Authorization auth) rel c
    (ea_revision auth) (to_world s))) (snd s))"
  by (rule exec_inv_tool [OF assms]) (auto simp: create_file_view dest: create_may_touch)

lemma exec_inv_delete:
  assumes "exec_inv env root t ids auth ps files0 txs0 s"
  shows "exec_inv env root t ids auth ps files0 txs0 (of_world (fst (delete_file sha (xe_rsv env) root i u a tid (Authorization auth) rel
    (ea_revision auth) (to_world s))) (snd s))"
  by (rule exec_inv_tool [OF assms]) (auto simp: delete_file_view dest: delete_may_touch)

lemma exec_inv_patch:
  assumes "exec_inv env root t ids auth ps files0 txs0 s"
  shows "exec_inv env root t ids auth ps files0 txs0 (of_world (fst (apply_patch sha df (xe_rsv env) root i u a tid (Authorization auth) patch
    (ea_revision auth) None False (to_world s))) (snd s))"
  by (rule exec_inv_tool [OF assms]) (auto simp: apply_patch_view dest: patch_may_touch)

subsection \<open>Preparing the transaction keeps the invariant\<close>

lemma acquire_view:
  "acquire now i p u m ow re ttl d = (d', r) \<Longrightarrow>
   policies d' = policies d \<and> decisions d' = decisions d \<and> transactions d' = transactions d \<and> tasks d' = tasks d"
  by (auto simp: acquire_def Let_def mark_expired_def emit_recovery_audit_def split: if_splits)

text \<open>What preparing a transaction does: it may add one, and it names one that is there; no file changes.\<close>

definition prepares :: "world \<Rightarrow> world \<times> PreparedTransaction result \<Rightarrow> bool" where
  "prepares w out \<longleftrightarrow>
     policies (wk_db (fst out)) = policies (wk_db w) \<and> decisions (wk_db (fst out)) = decisions (wk_db w) \<and>
     tasks (wk_db (fst out)) = tasks (wk_db w) \<and> set (transactions (wk_db w)) \<subseteq> set (transactions (wk_db (fst out))) \<and>
     wk_files (fst out) = wk_files w \<and>
     (case snd out of Inl _ \<Rightarrow> transactions (wk_db (fst out)) = transactions (wk_db w)
      | Inr pt \<Rightarrow> (\<exists>tx \<in> set (transactions (wk_db (fst out))). tx_id tx = pt_transaction_id pt) \<and>
          (\<forall>tx \<in> set (transactions (wk_db (fst out))). tx \<in> set (transactions (wk_db w)) \<or> tx_id tx = pt_transaction_id pt))"

lemma prepare_new_prepares: "prepares w (prepare_new sha rsv b i u p l revision root w)"
  by (auto simp: prepares_def prepare_new_def Let_def make_dirs_def)

lemma from_existing_prepares:
  assumes "tx \<in> set (transactions (wk_db w))"
  shows "prepares w (w, from_existing sha root tx ref w)"
proof -
  have "tx_id tx = pt_transaction_id pt" if "from_existing sha root tx ref w = Inr pt" for pt
    using that by (auto simp: from_existing_def rbind_eq_Inr split: option.splits json.splits)
  with assms show ?thesis by (auto simp: prepares_def split: sum.split)
qed

lemma prepares_refused: "prepares w (w, Inl e)"
  by (simp add: prepares_def)

lemma prepare_prepares: "prepares w (prepare sha rsv b now i u p l revision w)"
proof -
  have f: "find P xs = Some tx \<Longrightarrow> tx \<in> set xs" for P tx and xs :: "TaskTransaction list"
    by (auto simp: find_Some_iff)
  show ?thesis
    unfolding prepare_def Let_def
    by (auto simp: prepares_refused prepare_new_prepares intro!: from_existing_prepares f
        split: option.splits sum.splits)
qed

lemma exec_inv_fields [simp]:
  "exec_inv env root t ids auth ps files0 txs0 (d, x\<lparr>xw_lock_id := j\<rparr>) = exec_inv env root t ids auth ps files0 txs0 (d, x)"
  "exec_inv env root t ids auth ps files0 txs0 (d, x\<lparr>xw_reads := r\<rparr>) = exec_inv env root t ids auth ps files0 txs0 (d, x)"
  "exec_inv env root t ids auth ps files0 txs0 (d, x\<lparr>xw_searches := c\<rparr>) = exec_inv env root t ids auth ps files0 txs0 (d, x)"
  by (simp_all add: exec_inv_def)

lemma exec_inv_prepared:
  assumes "exec_inv env root t ids auth ps files0 txs0 s" and "prepares (to_world s) (w, r)" and "xw_transaction_id (snd s) = None"
  shows "r = Inl e \<Longrightarrow> exec_inv env root t ids auth ps files0 txs0 (of_world w (snd s))"
    and "r = Inr pt \<Longrightarrow> exec_inv env root t ids auth ps files0 txs0 (of_world w ((snd s)\<lparr>xw_transaction_id := Some (pt_transaction_id pt)\<rparr>))"
proof -
  have p: "policies (wk_db w) = policies (fst s)" "decisions (wk_db w) = decisions (fst s)" "tasks (wk_db w) = tasks (fst s)"
      "set (transactions (fst s)) \<subseteq> set (transactions (wk_db w))" "wk_files w = xw_files (snd s)"
    using assms(2) by (simp_all add: prepares_def to_world_def)
  show "exec_inv env root t ids auth ps files0 txs0 (of_world w (snd s))" if "r = Inl e"
    using assms that by (simp add: exec_inv_def of_world_def p prepares_def)
  assume pt: "r = Inr pt"
  then have "get_transaction (wk_db w) (pt_transaction_id pt) \<noteq> None"
    using assms(2) unfolding get_row_None_iff by (auto simp: prepares_def)
  then show "exec_inv env root t ids auth ps files0 txs0 (of_world w ((snd s)\<lparr>xw_transaction_id := Some (pt_transaction_id pt)\<rparr>))"
    using assms pt may_touch_mono [OF p(4)] by (auto simp: exec_inv_def of_world_def p prepares_def)
qed

lemma ensure_prepared_inv:
  assumes inv: "exec_inv env root t ids auth ps files0 txs0 s"
  shows "exec_inv env root t ids auth ps files0 txs0 (fst (ensure_prepared env task revision s))"
proof (cases "xw_transaction_id (snd s)")
  case (Some tid)
  then show ?thesis using inv by (simp add: ensure_prepared_def split: option.split)
next
  case None
  obtain d1 r1 where a: "acquire (xe_now env (fst s)) (xe_new_lock env (fst s)) (tk_project_id task) (tk_id task)
      WorkspaceLockMode.WRITE ''execution-orchestrator'' ''execute write action'' 300 (fst s) = (d1, r1)"
    by (metis prod.collapse)
  note v = acquire_view [OF a]
  have inv1: "exec_inv env root t ids auth ps files0 txs0 (d1, snd s)"
    using inv v by (simp add: exec_inv_def)
  define d2 where "d2 l = update_task (tk_id task) (\<lambda>t. t\<lparr>tk_workspace_lock_id := Some (sn_id l)\<rparr>) d1" for l :: LockSnapshot
  have inv2: "exec_inv env root t ids auth ps files0 txs0 (d2 l, (snd s)\<lparr>xw_lock_id := Some (sn_id l)\<rparr>)" for l
    using exec_inv_view [OF inv1] by (simp add: d2_def run_view_update_task)
  show ?thesis
  proof (cases r1)
    case (Inl e)
    then show ?thesis using inv1 None by (simp add: ensure_prepared_def Let_def a)
  next
    case (Inr res)
    show ?thesis
    proof (cases "\<exists>l. la_status res = ACQUIRED \<and> la_lock res = Some l")
      case False
      then show ?thesis using inv1 None Inr
        by (auto simp: ensure_prepared_def Let_def a split: LockAcquireStatus.split option.split)
    next
      case True
      then obtain l where l: "la_status res = ACQUIRED" "la_lock res = Some l" by blast
      let ?x2 = "(snd s)\<lparr>xw_lock_id := Some (sn_id l)\<rparr>"
      obtain w r where p: "prepare (xe_sha env) (xe_rsv env) None (xe_now env (d2 l)) (xe_new_transaction env (d2 l)) (tk_id task)
          (tk_project_id task) (sn_id l) revision (to_world (d2 l, ?x2)) = (w, r)" by (metis prod.collapse)
      have pr: "prepares (to_world (d2 l, ?x2)) (w, r)" using prepare_prepares p by metis
      have "fst (ensure_prepared env task revision s) =
          (case r of Inl e \<Rightarrow> of_world w ?x2
           | Inr pt \<Rightarrow> of_world w (?x2\<lparr>xw_transaction_id := Some (pt_transaction_id pt)\<rparr>))"
        using None Inr l p by (simp add: ensure_prepared_def Let_def a d2_def split: sum.split)
      then show ?thesis using exec_inv_prepared [OF inv2 pr] None by (simp split: sum.split)
    qed
  qed
qed

subsection \<open>Every handler keeps the invariant\<close>

lemma with_write_context_inv:
  assumes inv: "exec_inv env root (tk_id task) ids auth ps files0 txs0 s"
    and run: "\<And>a tid s1. exec_inv env root (tk_id task) ids auth ps files0 txs0 s1 \<Longrightarrow>
        exec_inv env root (tk_id task) ids auth ps files0 txs0 (of_world (fst (run a tid auth (to_world s1))) (snd s1))"
  shows "exec_inv env root (tk_id task) ids auth ps files0 txs0 (fst (with_write_context env task auth run s))"
proof -
  obtain s1 r1 where e: "ensure_prepared env task (ea_revision auth) s = (s1, r1)" by (metis prod.collapse)
  have i1: "exec_inv env root (tk_id task) ids auth ps files0 txs0 s1"
    using ensure_prepared_inv [OF inv, of task "ea_revision auth"] by (simp add: e)
  have c: "current_authorization (tk_id task) auth (fst s1) = Inr auth"
    using exec_inv_authorization i1 by (metis prod.collapse)
  show ?thesis
    using inv i1 run [OF i1] by (auto simp: with_write_context_def e c case_prod_beta split: sum.split)
qed

lemma read_handler_inv:
  "exec_inv env root t ids auth ps files0 txs0 s \<Longrightarrow> exec_inv env root t ids auth ps files0 txs0 (fst (read_handler env r action s))"
  by (cases action) (auto split: prod.split)

lemma search_handler_inv:
  "exec_inv env root t ids auth ps files0 txs0 s \<Longrightarrow> exec_inv env root t ids auth ps files0 txs0 (fst (search_handler env r task g action s))"
  by (cases action) (auto split: prod.split sum.split)

lemma create_handler_inv:
  assumes "exec_inv env root (tk_id task) ids auth ps files0 txs0 s"
  shows "exec_inv env root (tk_id task) ids auth ps files0 txs0 (fst (create_handler env root task auth action s))"
proof (cases action)
  case (CreateFileAction path content reason)
  show ?thesis
    unfolding CreateFileAction create_handler.simps
    by (rule with_write_context_inv [OF assms]) (simp add: case_prod_beta exec_inv_create)
qed (use assms in simp_all)

lemma delete_handler_inv:
  assumes "exec_inv env root (tk_id task) ids auth ps files0 txs0 s"
  shows "exec_inv env root (tk_id task) ids auth ps files0 txs0 (fst (delete_handler env root task auth action s))"
proof (cases action)
  case (DeleteFileAction path reason)
  show ?thesis
    unfolding DeleteFileAction delete_handler.simps
    by (rule with_write_context_inv [OF assms]) (simp add: case_prod_beta exec_inv_delete)
qed (use assms in simp_all)

lemma patch_handler_inv:
  assumes "exec_inv env (xe_rsv env (path_parts root_path)) (tk_id task) ids auth ps files0 txs0 s"
  shows "exec_inv env (xe_rsv env (path_parts root_path)) (tk_id task) ids auth ps files0 txs0 (fst (patch_handler env root_path task auth action s))"
proof (cases action)
  case (ApplyPatchAction p reason)
  obtain s1 r1 where e: "ensure_prepared env task (ea_revision auth) s = (s1, r1)" by (metis prod.collapse)
  have i1: "exec_inv env (xe_rsv env (path_parts root_path)) (tk_id task) ids auth ps files0 txs0 s1"
    using ensure_prepared_inv [OF assms, of task "ea_revision auth"] by (simp add: e)
  have c: "current_authorization (tk_id task) auth (fst s) = Inr auth"
    using exec_inv_authorization assms by (metis prod.collapse)
  show ?thesis
    unfolding ApplyPatchAction patch_handler.simps c e
    using assms i1 exec_inv_patch [OF i1] by (simp add: case_prod_beta split: sum.split)
qed (use assms in simp_all)

lemma shell_run_view: "run_view t (fst (shell_run rsv root pe m proc now i u a tid g program args cwd revision d)) = run_view t d"
  by (simp add: shell_run_def Let_def)

lemma command_handler_inv:
  assumes "exec_inv env root t ids auth ps files0 txs0 s"
  shows "exec_inv env root t ids auth ps files0 txs0 (fst (command_handler env r task g action s))"
proof (cases action)
  case (RunCommandAction program args reason)
  have "exec_inv env root t ids auth ps files0 txs0 (fst (shell_run rsv r pe m proc now i u a tid grant program args cwd revision (fst s)), snd s)"
    for rsv pe m proc now i u a tid grant cwd revision
    using assms exec_inv_view [OF _ shell_run_view] by (metis prod.collapse)
  then show ?thesis using assms by (simp add: RunCommandAction case_prod_beta split: sum.split)
qed (use assms in simp_all)

lemma execution_handled:
  assumes "map_of (tn_handlers (execution_turn_env env root_path task auth)) name = Some handler"
    and "exec_inv env (xe_rsv env (path_parts root_path)) (tk_id task) ids auth ps files0 txs0 s"
  shows "exec_inv env (xe_rsv env (path_parts root_path)) (tk_id task) ids auth ps files0 txs0 (fst (handler action s))"
  using assms
  by (auto simp: execution_turn_env_def Let_def read_handler_inv search_handler_inv create_handler_inv delete_handler_inv
      patch_handler_inv command_handler_inv split: if_splits)

interpretation execution: turn_invariant "execution_turn_env env root_path task auth" "tk_id task" ids
    "exec_inv env (xe_rsv env (path_parts root_path)) (tk_id task) ids auth ps files0 txs0"
  for env root_path task auth ids ps files0 txs0
  by unfold_locales (auto intro: exec_inv_view exec_inv_decided execution_handled dest: exec_inv_activated)

lemma run_execution_inv:
  assumes "exec_inv env (xe_rsv env (path_parts root_path)) (tk_id task) ids auth ps files0 txs0 (as_db st, as_ext st)"
    and "run_execution env ids limits root_path task policy auth command st = (st', r)"
  shows "exec_inv env (xe_rsv env (path_parts root_path)) (tk_id task) ids auth ps files0 txs0 (as_db st', as_ext st')"
proof -
  have "execution.holds env root_path task ids auth ps files0 txs0 (fst (run_task p (Some (agent_runner
      (execution_turn_env env root_path task auth) ids (tk_id task) ph revision goal)) cancelled txid (tk_id task) st))"
    for p ph revision goal cancelled txid
    by (rule execution.run_task_holds) (simp add: execution.holds_def assms(1))
  then have "execution.holds env root_path task ids auth ps files0 txs0 (fst (run_execution env ids limits root_path task policy auth command st))"
    by (simp add: run_execution_def execution.holds_def assms(1) split: sum.split)
  with assms(2) show ?thesis by (simp add: execution.holds_def)
qed

subsection \<open>Executions from admission to the end\<close>

text \<open>
  What the theorems ask of the database at the start: policies have distinct identifiers, the active policy of the task
  is a policy of this task, and the identifiers that the turns draw for their decisions are not those of decisions of
  other tasks.
\<close>

definition execution_ready :: "(nat \<Rightarrow> turn_ids) \<Rightarrow> string \<Rightarrow> db \<Rightarrow> bool" where
  "execution_ready ids t d \<longleftrightarrow> keys_distinct ep_id (policies d) \<and> own_decisions ids t (decisions d) \<and>
     (\<forall>policy. active_policy t d = Some policy \<longrightarrow> ep_task_id policy = t)"

lemma active_policy_Some:
  "active_policy t d = Some policy \<Longrightarrow> policy \<in> set (policies d) \<and> ep_status policy = ExecutionPolicyStatus.ACTIVE"
  by (auto simp: active_policy_def find_Some_iff active_policy_of_def split: option.splits if_splits bind_splits)

lemma admit_Inr:
  assumes "admit t command d = Inr (task, policy)"
  shows "get_task d t = Some task" "tk_id task = t" "active_policy t d = Some policy" "ep_executable policy"
    "tk_status task \<noteq> TaskStatus.BLOCKED" "\<exists>cs. json_list (ep_commands_json policy) = Inr cs \<and> command \<in> set cs"
  using assms by (auto simp: admit_def rbind_eq_Inr split: option.splits if_splits)

lemma from_policy_id: "from_policy policy g = Inr auth \<Longrightarrow> ea_policy_id auth = ep_id policy"
  by (auto simp: from_policy_def rbind_eq_Inr)

definition started_db :: "string \<Rightarrow> ExecutionPolicy \<Rightarrow> db \<Rightarrow> db" where
  "started_db t policy d = update_task t (\<lambda>k. k\<lparr>tk_status := TaskStatus.EXECUTING\<rparr>)
     (update_task t (\<lambda>k. k\<lparr>tk_active_policy_id := Some (ep_id policy)\<rparr>) d)"

lemma initial_inv:
  assumes ready: "execution_ready ids t (es_db s)" and adm: "admit t command (es_db s) = Inr (task, policy)"
    and auth: "from_policy policy None = Inr auth"
  shows "exec_inv env root t ids auth (policies (es_db s)) (es_files s) (transactions (es_db s)) (started_db t policy (es_db s), initial_ext s)"
proof -
  note a = admit_Inr [OF adm]
  have "get_row ep_id (ep_id policy) (policies (es_db s)) = Some policy"
    using ready active_policy_Some [OF a(3)] by (simp add: execution_ready_def get_row_Some_iff)
  then have "sole_policy t auth (policies (es_db s))"
    using ready a(3) active_policy_Some [OF a(3)] from_policy_id [OF auth] by (auto simp: sole_policy_def execution_ready_def)
  moreover have "map_option tk_active_policy_id (get_task (started_db t policy (es_db s)) t) = Some (Some (ep_id policy))"
    using a(1) by (simp add: started_db_def get_row_update_task)
  ultimately show ?thesis
    using ready from_policy_id [OF auth]
    by (simp add: exec_inv_def initial_ext_def execution_ready_def started_db_def update_task_def)
qed

text \<open>The end of an execution changes no file and no policy and keeps the backup areas.\<close>

lemma may_touch_state:
  "may_touch env root auth (set_row tx_id i (\<lambda>x. x\<lparr>tx_state := st\<rparr>) txs) p = may_touch env root auth txs p"
proof -
  have "(\<exists>tx \<in> set (set_row tx_id i (\<lambda>x. x\<lparr>tx_state := st\<rparr>) txs). \<exists>ref. tx_manifest_artifact_ref tx = Some ref \<and> P ref) \<longleftrightarrow>
      (\<exists>tx \<in> set txs. \<exists>ref. tx_manifest_artifact_ref tx = Some ref \<and> P ref)" for P
    by (induction txs) (auto simp: set_row_def set_where_def)
  then show ?thesis by (simp add: may_touch_def)
qed

lemma end_frame [simp]:
  "policies (set_transaction_state i st d) = policies d" "policies (release_lock now l d) = policies d"
  "policies (update_task t f d) = policies d" "transactions (release_lock now l d) = transactions d"
  "transactions (update_task t f d) = transactions d" "tasks (release_lock now l d) = tasks d"
  "tasks (set_transaction_state i st d) = tasks d" "locks (set_transaction_state i st d) = locks d"
  "locks (update_task t f d) = locks d" "file_changes (set_transaction_state i st d) = file_changes d"
  "file_changes (release_lock now l d) = file_changes d" "file_changes (update_task t f d) = file_changes d"
  "executions (set_transaction_state i st d) = executions d" "executions (release_lock now l d) = executions d"
  "executions (update_task t f d) = executions d"
  by (simp_all add: set_transaction_state_def release_lock_def update_task_def split: option.split)

lemma may_touch_transaction_state [simp]:
  "may_touch env root auth (transactions (set_transaction_state i st d)) p = may_touch env root auth (transactions d) p"
  by (simp add: set_transaction_state_def may_touch_state split: option.split)

lemma persist_frame:
  assumes "persist_for_task isoformat u i t evs d = (evs', d')"
  shows "policies d' = policies d" "transactions d' = transactions d" "tasks d' = tasks d" "locks d' = locks d"
    "file_changes d' = file_changes d" "executions d' = executions d"
  using assms
  by (auto simp: persist_for_task_def write_memory_projection_def knowledge_add_def add_sources_def Let_def split: option.splits)

lemma fail_frame:
  "es_files (fst (fail_execution env task policy command x e s)) = es_files s"
  "policies (es_db (fst (fail_execution env task policy command x e s))) = policies (es_db s)"
  "may_touch ev root auth (transactions (es_db (fst (fail_execution env task policy command x e s)))) p =
     may_touch ev root auth (transactions (es_db s)) p"
  by (simp_all add: fail_execution_def Let_def mark_execution_failed_def split: prod.split)

lemma complete_frame:
  "es_files (fst (complete_execution env task policy command ev0 x s)) = es_files s \<and>
   policies (es_db (fst (complete_execution env task policy command ev0 x s))) = policies (es_db s) \<and>
   may_touch ev root auth (transactions (es_db (fst (complete_execution env task policy command ev0 x s)))) p =
     may_touch ev root auth (transactions (es_db s)) p"
  by (auto simp: complete_execution_def Let_def fail_frame dest: persist_frame split: prod.split)

text \<open>An execution is a rejection, or a run followed by its completion or failure.\<close>

lemma execute_task_cases:
  assumes "execute_task env ids limits t command s = (s', r)"
  obtains (rejected) e where "r = Inl e" "s' = s\<lparr>es_bus := es_bus s'\<rparr>"
  | (ran) task policy auth project bus st out event where
      "admit t command (es_db s) = Inr (task, policy)" "from_policy policy None = Inr auth"
      "get_row pj_id (tk_project_id task) (projects (es_db s)) = Some project"
      "run_execution env ids limits (pj_root_path project) task policy auth command
         \<lparr>as_db = started_db t policy (es_db s), as_ext = initial_ext s, as_artifacts = es_artifacts s, as_stages = []\<rparr> = (st, out)"
      "(s', r) = map_prod id Inr (case out of
         Inl e \<Rightarrow> fail_execution env task policy command (as_ext st) e (after_run task st (s\<lparr>es_bus := bus\<rparr>))
       | Inr _ \<Rightarrow> complete_execution env task policy command event (as_ext st) (after_run task st (s\<lparr>es_bus := bus\<rparr>)))"
proof (cases "admit t command (es_db s)")
  case (Inl e)
  then show thesis using assms rejected by (auto simp: execute_task_def)
next
  case (Inr tp)
  obtain task policy where tp: "tp = (task, policy)" by (cases tp)
  let ?d1 = "update_task t (\<lambda>t. t\<lparr>tk_active_policy_id := Some (ep_id policy)\<rparr>) (es_db s)"
  have proj: "projects ?d1 = projects (es_db s)" by (simp add: update_task_def)
  show thesis
  proof (cases "from_policy policy None")
    case (Inl e)
    then show thesis using assms Inr tp rejected by (auto simp: execute_task_def Let_def)
  next
    case auth: (Inr auth)
    show thesis
    proof (cases "get_row pj_id (tk_project_id task) (projects (es_db s))")
      case None
      then show thesis using assms Inr tp auth proj rejected by (auto simp: execute_task_def Let_def)
    next
      case (Some project)
      obtain bus event where b: "publish t ''EXECUTION_STARTED'' (task_event task ''EXECUTING'' ''execution started'')
          (bus_stage task (''EXECUTION_STARTED'', ''PREPARING'', Some ''preparing confirmed proposal execution'') (es_bus s)) = (bus, event)"
        by (metis prod.collapse)
      obtain st out where run: "run_execution env ids limits (pj_root_path project) task policy auth command
          \<lparr>as_db = started_db t policy (es_db s), as_ext = initial_ext s, as_artifacts = es_artifacts s, as_stages = []\<rparr> = (st, out)"
        by (metis prod.collapse)
      have "execute_task env ids limits t command s = map_prod id Inr (case out of
         Inl e \<Rightarrow> fail_execution env task policy command (as_ext st) e (after_run task st (s\<lparr>es_bus := bus\<rparr>))
       | Inr _ \<Rightarrow> complete_execution env task policy command event (as_ext st) (after_run task st (s\<lparr>es_bus := bus\<rparr>)))"
        unfolding execute_task_def Inr tp auth sum.case prod.case Let_def proj Some option.case b started_db_def [symmetric] run
        by (simp split: sum.split)
      then show thesis using ran [OF Inr [unfolded tp] auth Some run] assms by metis
    qed
  qed
qed

lemma execution_end:
  assumes ready: "execution_ready ids t (es_db s)"
    and adm: "admit t command (es_db s) = Inr (task, policy)" and auth: "from_policy policy None = Inr auth"
    and run: "run_execution env ids limits root_path task policy auth command
         \<lparr>as_db = started_db t policy (es_db s), as_ext = initial_ext s, as_artifacts = es_artifacts s, as_stages = []\<rparr> = (st, out)"
  shows "exec_inv env (xe_rsv env (path_parts root_path)) t ids auth (policies (es_db s)) (es_files s) (transactions (es_db s)) (as_db st, as_ext st)"
proof -
  have t: "tk_id task = t" using admit_Inr(2) [OF adm] .
  note i = initial_inv [OF ready adm auth, of env "xe_rsv env (path_parts root_path)"]
  show ?thesis
    using run_execution_inv [OF _ run, of "policies (es_db s)" "es_files s" "transactions (es_db s)"] i unfolding t by simp
qed

lemma execution_touches:
  assumes "execution_ready ids t (es_db s)"
    and "execute_task env ids limits t command s = (s', r)"
  shows "Mapping.lookup (es_files s') p = Mapping.lookup (es_files s) p \<or>
    (\<exists>task policy auth project.
      admit t command (es_db s) = Inr (task, policy) \<and> from_policy policy None = Inr auth \<and>
      get_row pj_id (tk_project_id task) (projects (es_db s)) = Some project \<and>
      may_touch env (xe_rsv env (path_parts (pj_root_path project))) auth (transactions (es_db s')) p)"
  using assms(2)
proof (cases rule: execute_task_cases)
  case (rejected e)
  then have "es_files s' = es_files s" by (metis exec_system.select_convs(2) exec_system.surjective exec_system.update_convs(7))
  then show ?thesis by simp
next
  case (ran task policy auth project bus st out event)
  note inv = execution_end [OF assms(1) ran(1,2,4)]
  have f: "es_files (after_run task st (s\<lparr>es_bus := bus\<rparr>)) = xw_files (as_ext st)"
      "es_db (after_run task st (s\<lparr>es_bus := bus\<rparr>)) = as_db st" by (simp_all add: after_run_def)
  have s': "s' = fst (case out of
         Inl e \<Rightarrow> fail_execution env task policy command (as_ext st) e (after_run task st (s\<lparr>es_bus := bus\<rparr>))
       | Inr _ \<Rightarrow> complete_execution env task policy command event (as_ext st) (after_run task st (s\<lparr>es_bus := bus\<rparr>)))"
    using ran(5) by (metis fst_conv fst_map_prod id_apply)
  have "es_files s' = xw_files (as_ext st)"
      "may_touch ev root g (transactions (es_db s')) q = may_touch ev root g (transactions (as_db st)) q" for ev root g q
    unfolding s' using complete_frame f by (simp_all add: fail_frame split: sum.split)
  with inv ran(1-3) show ?thesis by (auto simp: exec_inv_def)
qed


text \<open>
  An execution neither creates nor changes a policy: every write of the run is judged against the policy that was active
  when it began.
\<close>

theorem execution_keeps_policies:
  assumes "execution_ready ids t (es_db s)"
    and "execute_task env ids limits t command s = (s', r)"
  shows "policies (es_db s') = policies (es_db s)"
  using assms(2)
proof (cases rule: execute_task_cases)
  case (rejected e)
  then show ?thesis by (metis exec_system.select_convs(1) exec_system.surjective exec_system.update_convs(7))
next
  case (ran task policy auth project bus st out event)
  have s': "s' = fst (case out of
         Inl e \<Rightarrow> fail_execution env task policy command (as_ext st) e (after_run task st (s\<lparr>es_bus := bus\<rparr>))
       | Inr _ \<Rightarrow> complete_execution env task policy command event (as_ext st) (after_run task st (s\<lparr>es_bus := bus\<rparr>)))"
    using ran(5) by (metis fst_conv fst_map_prod id_apply)
  have "policies (es_db s') = policies (as_db st)"
    unfolding s' using complete_frame by (simp add: fail_frame after_run_def split: sum.split)
  with execution_end [OF assms(1) ran(1,2,4)] show ?thesis by (simp add: exec_inv_def)
qed

subsection \<open>How an execution ends\<close>

text \<open>
  The state in which an execution leaves the task, its transactions and its lock, where \<open>txs0\<close> are the transactions there
  were before. Completed: there are changes of the task and what the execution opened is committed. Failed: the task
  carries the code and the message of the result, and what the execution opened is in conflict. In both cases the lock is
  no longer active.
\<close>

definition opened_are :: "TaskTransaction list \<Rightarrow> TransactionState \<Rightarrow> db \<Rightarrow> bool" where
  "opened_are txs0 state d \<longleftrightarrow> list_all (\<lambda>tx. tx \<in> set txs0 \<or> tx_state tx = state) (transactions d)"

definition lock_free :: "string option \<Rightarrow> db \<Rightarrow> bool" where
  "lock_free lock_id d = (case lock_id of None \<Rightarrow> True
     | Some l \<Rightarrow> list_all (\<lambda>k. wl_id k = l \<longrightarrow> wl_status k \<noteq> WorkspaceLockStatus.ACTIVE) (locks d))"

definition settled :: "string \<Rightarrow> TaskTransaction list \<Rightarrow> ExecutionResult \<Rightarrow> db \<Rightarrow> bool" where
  "settled t txs0 res d \<longleftrightarrow> lock_free (xr_lock_id res) d \<and>
     (if xr_status res = ''COMPLETED''
      then map_option tk_status (get_task d t) = Some TaskStatus.COMPLETED \<and> task_changed_paths t None d \<noteq> [] \<and>
        opened_are txs0 TransactionState.COMMITTED d
      else xr_status res = ''FAILED'' \<and> opened_are txs0 TransactionState.CONFLICT d \<and>
        map_option (\<lambda>k. (tk_status k, tk_failure_code k, tk_failure_message k)) (get_task d t) =
          Some (TaskStatus.FAILED, xr_code res, xr_error res))"

lemma lock_free_release: "lock_free l (release_lock now l d)"
proof (cases l)
  case (Some i)
  have "list_all (\<lambda>k. wl_id k = i \<longrightarrow> wl_status k \<noteq> WorkspaceLockStatus.ACTIVE)
      (set_row wl_id i (\<lambda>l. if wl_status l = WorkspaceLockStatus.ACTIVE
         then l\<lparr>wl_status := WorkspaceLockStatus.RELEASED, wl_released_at := Some now\<rparr> else l) ls)" for ls
    by (induction ls) (simp_all add: set_row_def set_where_def)
  with Some show ?thesis by (simp add: lock_free_def release_lock_def)
qed (simp add: lock_free_def)

lemma opened_are_set:
  assumes "\<forall>tx \<in> set (transactions d). tx \<in> set txs0 \<or> tid = Some (tx_id tx)"
  shows "opened_are txs0 st (set_transaction_state tid st d)"
proof (cases tid)
  case None
  with assms show ?thesis by (simp add: opened_are_def set_transaction_state_def list_all_iff)
next
  case (Some i)
  have "list_all (\<lambda>tx. tx \<in> set txs0 \<or> tx_state tx = st) (set_row tx_id i (\<lambda>x. x\<lparr>tx_state := st\<rparr>) txs)"
    if "\<forall>tx \<in> set txs. tx \<in> set txs0 \<or> tx_id tx = i" for txs
    using that by (induction txs) (auto simp: set_row_def set_where_def)
  with assms Some show ?thesis by (auto simp: opened_are_def set_transaction_state_def)
qed

lemma settled_simps [simp]:
  "lock_free l (update_task t f d) = lock_free l d"
  "opened_are txs0 st (update_task t f d) = opened_are txs0 st d"
  "opened_are txs0 st (release_lock now l d) = opened_are txs0 st d"
  "task_changed_paths t tid (update_task u f d) = task_changed_paths t tid d"
  "task_changed_paths t tid (release_lock now l d) = task_changed_paths t tid d"
  "task_changed_paths t tid (set_transaction_state i st d) = task_changed_paths t tid d"
  by (simp_all add: lock_free_def opened_are_def task_changed_paths_def file_change_rows_def split: option.split)

lemma fail_settled:
  assumes "get_task (es_db s) (tk_id task) \<noteq> None"
    and "\<forall>tx \<in> set (transactions (es_db s)). tx \<in> set txs0 \<or> xw_transaction_id x = Some (tx_id tx)"
  shows "settled (tk_id task) txs0 (snd (fail_execution env task policy command x e s))
    (es_db (fst (fail_execution env task policy command x e s)))"
proof -
  let ?d = "set_transaction_state (xw_transaction_id x) TransactionState.CONFLICT (es_db s)"
  obtain k where k: "get_task (es_db s) (tk_id task) = Some k" using assms(1) by blast
  have "opened_are txs0 TransactionState.CONFLICT ?d" by (rule opened_are_set [OF assms(2)])
  moreover have "get_task ?d (tk_id task) = Some k" using k by simp
  ultimately show ?thesis
    by (simp add: fail_execution_def Let_def settled_def mark_execution_failed_def lock_free_release get_row_update_task
        case_prod_beta)
qed

lemma task_changed_paths_None:
  assumes "task_changed_paths t tid d \<noteq> []"
  shows "task_changed_paths t None d \<noteq> []"
proof -
  have "sort_key f (filter P xs) = [] \<longleftrightarrow> filter P xs = []" for P and f :: "FileChange \<Rightarrow> int" and xs :: "FileChange list"
    by (metis length_0_conv length_sort)
  with assms show ?thesis
    by (cases tid) (auto simp: task_changed_paths_def file_change_rows_def filter_empty_conv)
qed

lemma complete_settled:
  assumes "get_task (es_db s) (tk_id task) \<noteq> None"
    and "\<forall>tx \<in> set (transactions (es_db s)). tx \<in> set txs0 \<or> xw_transaction_id x = Some (tx_id tx)"
  shows "settled (tk_id task) txs0 (snd (complete_execution env task policy command event x s))
    (es_db (fst (complete_execution env task policy command event x s)))"
proof (cases "task_changed_paths (tk_id task) (xw_transaction_id x) (es_db s) = []")
  case True
  then show ?thesis
    using fail_settled [where s = "s\<lparr>es_bus := b\<rparr>" and task = task and x = x for b] assms
    by (simp add: complete_execution_def Let_def)
next
  case False
  define d3 where "d3 = update_task (tk_id task) (\<lambda>k. k\<lparr>tk_status := TaskStatus.COMPLETED\<rparr>)
      (release_lock (xe_now env (set_transaction_state (xw_transaction_id x) TransactionState.COMMITTED (es_db s))) (xw_lock_id x)
        (set_transaction_state (xw_transaction_id x) TransactionState.COMMITTED (es_db s)))"
  obtain evs d4 where p: "persist_for_task (xe_isoformat env) (xe_now env d3) (xe_new_knowledge env d3) (tk_id task)
      (es_evaluations s) d3 = (evs, d4)" by (metis prod.collapse)
  note f = persist_frame [OF p]
  have d3: "lock_free (xw_lock_id x) d3" "opened_are txs0 TransactionState.COMMITTED d3"
      "task_changed_paths (tk_id task) None d3 \<noteq> []"
      "map_option tk_status (get_task d3 (tk_id task)) = Some TaskStatus.COMPLETED"
    using False [THEN task_changed_paths_None] assms opened_are_set [OF assms(2)]
    by (auto simp: d3_def lock_free_release get_row_update_task)
  have "lock_free (xw_lock_id x) d4" "opened_are txs0 TransactionState.COMMITTED d4"
      "task_changed_paths (tk_id task) None d4 \<noteq> []"
      "map_option tk_status (get_task d4 (tk_id task)) = Some TaskStatus.COMPLETED"
    using d3 unfolding lock_free_def opened_are_def task_changed_paths_def file_change_rows_def f by auto
  then show ?thesis
    using False by (simp add: complete_execution_def Let_def d3_def [symmetric] p settled_def)
qed

text \<open>
  (C6) Every execution that is admitted ends, in one of two ways. It reports COMPLETED: then the task is completed, there are
  recorded changes of its files and every transaction it opened is committed. Or it reports FAILED: then the task is
  failed with the reported code and message and every transaction it opened is marked as a conflict. In both cases the lock it took is released.
\<close>

theorem execution_outcome:
  assumes "execution_ready ids t (es_db s)"
    and "execute_task env ids limits t command s = (s', Inr res)"
  shows "settled t (transactions (es_db s)) res (es_db s')"
  using assms(2)
proof (cases rule: execute_task_cases)
  case (rejected e)
  then show ?thesis by simp
next
  case (ran task policy auth project bus st out event)
  have t: "tk_id task = t" using admit_Inr(2) [OF ran(1)] .
  let ?s = "after_run task st (s\<lparr>es_bus := bus\<rparr>)"
  have db: "es_db ?s = as_db st" by (simp add: after_run_def)
  note inv = execution_end [OF assms(1) ran(1,2,4)]
  have a: "get_task (es_db ?s) (tk_id task) \<noteq> None" 
      "\<forall>tx \<in> set (transactions (es_db ?s)). tx \<in> set (transactions (es_db s)) \<or> xw_transaction_id (as_ext st) = Some (tx_id tx)"
    using inv by (auto simp: exec_inv_def db t)
  have "(s', res) = (case out of Inl e \<Rightarrow> fail_execution env task policy command (as_ext st) e ?s
       | Inr _ \<Rightarrow> complete_execution env task policy command event (as_ext st) ?s)"
    using ran(5) by (cases out) (auto simp: map_prod_def split: prod.splits)
  then have "settled (tk_id task) (transactions (es_db s)) res (es_db s')"
    using fail_settled [OF a, of env policy command] complete_settled [OF a, of env policy command event]
    by (cases out) (metis fst_conv snd_conv sum.case)+
  then show ?thesis unfolding t .
qed

lemma execute_admitted:
  assumes "admit t command (es_db s) = Inr (task, policy)" "from_policy policy None = Inr auth"
    "get_row pj_id (tk_project_id task) (projects (es_db s)) = Some project"
  shows "\<not> isl (snd (execute_task env ids limits t command s))"
proof -
  have "projects (update_task t f (es_db s)) = projects (es_db s)" for f by (simp add: update_task_def)
  with assms show ?thesis by (simp add: execute_task_def Let_def case_prod_beta split: sum.split)
qed


subsection \<open>Executions on samples\<close>

definition sample_exec_turn :: "AgentAction \<Rightarrow> exec_ext turn_env" where
  "sample_exec_turn action = \<lparr>tn_artifact_root = ''/srv/.sementor/llm-parse-failures'', tn_max_chars = 0, tn_action_defs = [],
     tn_registry = [], tn_rules = [], tn_handlers = [], tn_enforcers = [],
     tn_provider = (\<lambda>n req. Inr \<lparr>ls_content = ''act'', ls_input_tokens = 1, ls_output_tokens = 1, ls_model = ''m'', ls_provider = ''p''\<rparr>),
     tn_loads = (\<lambda>s. Inr (JObj [])), tn_validate = (\<lambda>_. Inr action), tn_digest = json_str, tn_online_safe = False\<rparr>"

definition sample_exec_env :: "AgentAction \<Rightarrow> exec_env" where
  "sample_exec_env action = \<lparr>xe_turn = sample_exec_turn action, xe_local_full = True, xe_sha = (\<lambda>s. s), xe_diff = (\<lambda>p a b. []),
     xe_rsv = (\<lambda>p. p), xe_text_of = Inr, xe_indexes = [], xe_code = \<lparr>code_symbols = [], code_relations = []\<rparr>, xe_ls_files = None,
     xe_parent_env = [], xe_proc = (\<lambda>args cwd e. Completed 0 [] []),
     xe_ids = (\<lambda>d. \<lparr>ti_now = 7, ti_execution = ''e1'', ti_backup = ''b1'', ti_change = ''c1'', ti_temp = ''h''\<rparr>),
     xe_new_lock = (\<lambda>d. ''l1''), xe_new_transaction = (\<lambda>d. ''x1''), xe_now = (\<lambda>d. 9), xe_isoformat = (\<lambda>n. []),
     xe_new_knowledge = (\<lambda>d. ''k1'')\<rparr>"

definition sample_system :: exec_system where
  "sample_system = \<lparr>es_db = empty_db\<lparr>projects := [\<lparr>pj_id = ''p1'', pj_root_path = ''/srv/app'', pj_normalized_root_path = ''/srv/app'', pj_owner_session_hash = None\<rparr>],
       tasks := [(new_task ''t1'' sample_request)\<lparr>tk_base_revision := Some ''r''\<rparr>], policies := [sample_policy]\<rparr>,
     es_files = Mapping.update [''srv'', ''app'', ''src'', ''a.py''] ''one'' Mapping.empty,
     es_dirs = [[], [''srv''], [''srv'', ''app''], [''srv'', ''app'', ''src'']], es_manifests = Mapping.empty, es_artifacts = [],
     es_evaluations = [], es_bus = empty_bus\<rparr>"

definition sample_execution :: "AgentAction \<Rightarrow> exec_system \<Rightarrow> exec_system \<times> ExecutionResult result" where
  "sample_execution action s = execute_task (sample_exec_env action) (\<lambda>i. sample_turn_ids) None ''t1'' ''pytest'' s"

lemma sample_ready: "execution_ready (\<lambda>i. sample_turn_ids) ''t1'' (es_db sample_system)"
proof -
  have "active_policy ''t1'' (es_db sample_system) = Some sample_policy" by code_simp
  moreover have "ep_task_id sample_policy = ''t1''" "keys_distinct ep_id (policies (es_db sample_system))" by (code_simp, code_simp)
  moreover have "decisions (es_db sample_system) = []" by code_simp
  ultimately show ?thesis by (simp add: execution_ready_def own_decisions_def)
qed

lemma sample_execution_split:
  "execute_task (sample_exec_env a) (\<lambda>i. sample_turn_ids) None ''t1'' ''pytest'' s = (fst (sample_execution a s), snd (sample_execution a s))"
  by (simp add: sample_execution_def)


theorem execution_keeps_policies_witness:
  "policies (es_db (fst (sample_execution (DeleteFileAction ''src/a.py'' ''drop'') sample_system))) = [sample_policy]"
proof -
  have "policies (es_db sample_system) = [sample_policy]" by (simp add: sample_system_def)
  then show ?thesis
    using execution_keeps_policies [OF sample_ready sample_execution_split, of "DeleteFileAction ''src/a.py'' ''drop''"] by simp
qed

lemma sample_admitted: "snd (sample_execution a sample_system) = Inr (projr (snd (sample_execution a sample_system)))"
proof -
  have "admit ''t1'' ''pytest'' (es_db sample_system) = Inr (hd (tasks (es_db sample_system)), sample_policy)" by code_simp
  moreover have "\<not> isl (from_policy sample_policy None)" by code_simp
  then obtain auth where "from_policy sample_policy None = Inr auth" by (cases "from_policy sample_policy None") auto
  moreover have "get_row pj_id (tk_project_id (hd (tasks (es_db sample_system)))) (projects (es_db sample_system)) =
      Some \<lparr>pj_id = ''p1'', pj_root_path = ''/srv/app'', pj_normalized_root_path = ''/srv/app'', pj_owner_session_hash = None\<rparr>" by code_simp
  ultimately have "\<not> isl (snd (sample_execution a sample_system))"
    unfolding sample_execution_def by (rule execute_admitted)
  then show ?thesis by simp
qed

theorem execution_outcome_witness:
  "settled ''t1'' [] (projr (snd (sample_execution (DeleteFileAction ''src/a.py'' ''drop'') sample_system)))
    (es_db (fst (sample_execution (DeleteFileAction ''src/a.py'' ''drop'') sample_system)))"
proof -
  let ?a = "DeleteFileAction ''src/a.py'' ''drop''"
  have "execute_task (sample_exec_env ?a) (\<lambda>i. sample_turn_ids) None ''t1'' ''pytest'' sample_system =
      (fst (sample_execution ?a sample_system), Inr (projr (snd (sample_execution ?a sample_system))))"
    using sample_execution_split [of ?a sample_system] sample_admitted [of ?a] by (simp only:)
  note execution_outcome [OF sample_ready this]
  moreover have "transactions (es_db sample_system) = []"
    by (simp add: sample_system_def empty_db_def)
  ultimately show ?thesis by simp
qed

definition sample_reader :: "exec_ext turn_runner" where
  "sample_reader i feedback st = (st, Inr \<lparr>ti_iteration_id = ''i'', ti_action_id = Some ''a1'',
     ti_tool_result = Some \<lparr>dr_status = ToolStatus.OK, dr_summary = Plain ''READ_FILE completed'', dr_error_code = None,
       dr_value = None, dr_tool_execution_id = Some ''e2''\<rparr>,
     ti_paused = False, ti_feedback = None, ti_feedback_artifact_ref = None\<rparr>)"

text \<open>
  The loop looks at the changes of the task as long as no transaction is prepared, so a task that is executed again
  completes as soon as a tool has succeeded: here after a reading, on the strength of a change of an earlier run.
\<close>

theorem earlier_change_completes:
  "let st = \<lparr>as_db = (es_db sample_system)\<lparr>file_changes := [sample_write]\<rparr>, as_ext = initial_ext sample_system,
         as_artifacts = [], as_stages = []\<rparr>;
       out = run_task default_policy (Some sample_reader) (\<lambda>i. None) (\<lambda>s. xw_transaction_id (snd s)) ''t1'' st
   in map_sum (\<lambda>e. ()) rt_terminal_state (snd out) = Inr ''COMPLETED'' \<and> file_changes (as_db (fst out)) = [sample_write]"
  by code_simp

text \<open>A request to cancel a task reaches no run: it is published and nothing else changes.\<close>

theorem cancel_reaches_no_run:
  "fst (cancel_task t s) = s\<lparr>es_bus := es_bus (fst (cancel_task t s))\<rparr> \<and> xr_status (snd (cancel_task t s)) = ''CANCEL_REQUESTED''"
  by (simp add: cancel_task_def split: prod.split)

end
