(* ===== verification/Git.thy ===== *)
theory Git
  imports Search
begin

section \<open>Git: the state of the repository around a task\<close>

text \<open>
  \<^verbatim>\<open>git/git_service.py\<close> and \<^verbatim>\<open>tools/git_tools.py\<close>. The git command line is a parameter: a function from its arguments to
  the text it prints, or the error that \<^verbatim>\<open>subprocess.run\<close> raises. A set of paths that is only tested for membership is a
  list.
\<close>

type_synonym git_cli = "string list \<Rightarrow> string result"

record GitStatus =
  gs_modified :: "string list"
  gs_untracked :: "string list"

record GitTaskSnapshot =
  gt_base_revision :: string
  gt_preexisting_changes :: "string list"
  gt_file_hashes :: "(string \<times> string) list"

record GitChangeDetection =
  gc_agent_changes :: "string list"
  gc_external_changes :: "string list"
  gc_preexisting_changes :: "string list"

definition git_text :: "git_cli \<Rightarrow> string list \<Rightarrow> string result" where
  "git_text git args = map_sum id strip (git args)"

definition base_revision :: "git_cli \<Rightarrow> string result" where
  "base_revision git = git_text git [''rev-parse'', ''HEAD'']"

text \<open>The entries of \<^verbatim>\<open>git status --porcelain=v1 -z\<close>, each taken to be two letters, a blank and a path.\<close>

definition parse_status :: "string \<Rightarrow> GitStatus" where
  "parse_status text =
     (let entries = filter (\<lambda>e. e \<noteq> []) (split_on (CHR 0x00) text)
      in \<lparr>gs_modified = sort (map (drop 3) (filter (\<lambda>e. take 2 e \<noteq> ''??'') entries)),
          gs_untracked = sort (map (drop 3) (filter (\<lambda>e. take 2 e = ''??'') entries))\<rparr>)"

definition git_status :: "git_cli \<Rightarrow> GitStatus result" where
  "git_status git = map_sum id parse_status (git [''status'', ''--porcelain=v1'', ''-z''])"

definition git_hash :: "(string \<Rightarrow> string) \<Rightarrow> (path \<Rightarrow> path) \<Rightarrow> path \<Rightarrow> world \<Rightarrow> string \<Rightarrow> string result" where
  "git_hash sha rsv root w relative_path =
     (let p = resolve_in rsv root relative_path
      in if \<not> path_exists w p then Inr []
         else case file_at w p of None \<Rightarrow> Inl (FileSystemError ''is a directory'') | Some b \<Rightarrow> Inr (sha b))"

definition capture_task_baseline :: "git_cli \<Rightarrow> (string \<Rightarrow> string) \<Rightarrow> (path \<Rightarrow> path) \<Rightarrow> path \<Rightarrow> world \<Rightarrow> GitTaskSnapshot result" where
  "capture_task_baseline git sha rsv root w =
     rbind (git_status git) (\<lambda>status.
       let paths = sort (gs_modified status @ gs_untracked status)
       in rbind (base_revision git) (\<lambda>revision.
          rbind (rmap (git_hash sha rsv root w) paths) (\<lambda>hashes.
            Inr \<lparr>gt_base_revision = revision, gt_preexisting_changes = paths, gt_file_hashes = zip paths hashes\<rparr>)))"

definition record_agent_write :: "string \<Rightarrow> string list \<Rightarrow> string list" where
  "record_agent_write relative_path written = List.insert (path_posix relative_path) written"

text \<open>The test whether a path of the current status was changed from outside; it may raise while it hashes the file.\<close>

definition externally_changed ::
    "(string \<Rightarrow> string) \<Rightarrow> (path \<Rightarrow> path) \<Rightarrow> path \<Rightarrow> world \<Rightarrow> string list \<Rightarrow> (string \<times> string) list \<Rightarrow> string \<Rightarrow> bool result" where
  "externally_changed sha rsv root w written hashes p =
     (if p \<in> set written then Inr False
      else case map_of hashes p of
        None \<Rightarrow> Inr True
      | Some h \<Rightarrow> rbind (git_hash sha rsv root w p) (\<lambda>h'. Inr (h' \<noteq> h)))"

definition detect_external_modifications ::
    "git_cli \<Rightarrow> (string \<Rightarrow> string) \<Rightarrow> (path \<Rightarrow> path) \<Rightarrow> path \<Rightarrow> world \<Rightarrow> string list \<Rightarrow> GitTaskSnapshot \<Rightarrow> GitChangeDetection result" where
  "detect_external_modifications git sha rsv root w written snapshot =
     rbind (git_status git) (\<lambda>status.
       let current = dedupe (gs_modified status @ gs_untracked status)
       in rbind (rmap (externally_changed sha rsv root w written (gt_file_hashes snapshot)) current) (\<lambda>flags.
            Inr \<lparr>gc_agent_changes = sort (filter (\<lambda>p. p \<in> set written) current),
                 gc_external_changes = sort (map fst (filter snd (zip current flags))),
                 gc_preexisting_changes = gt_preexisting_changes snapshot\<rparr>))"

definition scoped_diff :: "git_cli \<Rightarrow> string list \<Rightarrow> string result" where
  "scoped_diff git relative_paths = git_text git ([''diff'', ''--''] @ relative_paths)"

definition file_history :: "git_cli \<Rightarrow> string \<Rightarrow> int \<Rightarrow> string list result" where
  "file_history git relative_path max_entries =
     map_sum id (\<lambda>out. filter (\<lambda>l. l \<noteq> []) (splitlines out))
       (git_text git [''log'', ''--max-count='' @ show_int max_entries, ''--format=%H %s'', ''--'', relative_path])"

subsection \<open>\<^verbatim>\<open>tools/git_tools.py\<close>\<close>

definition READ_ONLY_GIT_TOOL_SPECS :: "ToolSpec list" where
  "READ_ONLY_GIT_TOOL_SPECS = map (\<lambda>name. \<lparr>ts_name = name, ts_risk = ''read'', ts_timeout_seconds = 10\<rparr>)
     [''git_status'', ''git_revision'', ''git_diff'', ''git_history'', ''git_external_changes'']"

definition register_read_only_git_tools :: "ToolRegistry \<Rightarrow> ToolRegistry" where
  "register_read_only_git_tools registry = fold registry_register READ_ONLY_GIT_TOOL_SPECS registry"

record GitStatusSummary =
  gy_modified :: "string list"
  gy_untracked :: "string list"
  gy_porcelain :: string

record GitDiffSummary =
  gf_text :: string
  gf_line_count :: int
  gf_truncated :: bool

definition validate_pathspec :: "(path \<Rightarrow> path) \<Rightarrow> path \<Rightarrow> string \<Rightarrow> string result" where
  "validate_pathspec rsv root raw =
     (if is_absolute raw \<or> ''..'' \<in> set (path_parts raw) then Inl (GitToolError ''pathspec outside project'')
      else if \<not> prefix root (rsv (root @ path_parts raw)) then Inl (GitToolError ''pathspec outside project'')
      else Inr (as_posix (path_parts raw)))"

definition validate_pathspecs :: "(path \<Rightarrow> path) \<Rightarrow> path \<Rightarrow> string list \<Rightarrow> string list result" where
  "validate_pathspecs rsv root pathspec = rmap (validate_pathspec rsv root) pathspec"

text \<open>A command that exits with an error has written to its error channel; \<open>cli\<close> answers that text as the message of a \<open>GitToolError\<close>.\<close>

definition tool_git :: "git_cli \<Rightarrow> string list \<Rightarrow> string result" where
  "tool_git cli args =
     (case cli args of
        Inl (GitToolError m) \<Rightarrow> Inl (GitToolError (if strip m = [] then ''git command failed'' else strip m))
      | Inl e \<Rightarrow> Inl e
      | Inr out \<Rightarrow> Inr (strip out))"

definition tool_status :: "git_cli \<Rightarrow> git_cli \<Rightarrow> (path \<Rightarrow> path) \<Rightarrow> path \<Rightarrow> string list \<Rightarrow> GitStatusSummary result" where
  "tool_status git cli rsv root pathspec =
     rbind (validate_pathspecs rsv root pathspec) (\<lambda>normalized.
     rbind (tool_git cli ([''status'', ''--porcelain=v1'', ''--''] @ normalized)) (\<lambda>porcelain.
     rbind (git_status git) (\<lambda>status.
       if normalized = []
       then Inr \<lparr>gy_modified = gs_modified status, gy_untracked = gs_untracked status, gy_porcelain = porcelain\<rparr>
       else Inr \<lparr>gy_modified = filter (\<lambda>p. p \<in> set normalized) (gs_modified status),
                 gy_untracked = filter (\<lambda>p. p \<in> set normalized) (gs_untracked status), gy_porcelain = porcelain\<rparr>)))"

definition tool_revision :: "git_cli \<Rightarrow> string result" where
  "tool_revision git = base_revision git"

definition tool_diff :: "git_cli \<Rightarrow> (path \<Rightarrow> path) \<Rightarrow> path \<Rightarrow> string list \<Rightarrow> nat \<Rightarrow> GitDiffSummary result" where
  "tool_diff cli rsv root pathspec max_lines =
     rbind (validate_pathspecs rsv root pathspec) (\<lambda>normalized.
     rbind (tool_git cli ([''diff'', ''--''] @ normalized)) (\<lambda>text.
       let lines = splitlines_keep text; truncated = max_lines < length lines
       in Inr \<lparr>gf_text = (if truncated then concat (take max_lines lines) else text),
               gf_line_count = int (length lines), gf_truncated = truncated\<rparr>))"

definition tool_history :: "git_cli \<Rightarrow> (path \<Rightarrow> path) \<Rightarrow> path \<Rightarrow> string \<Rightarrow> int \<Rightarrow> string list result" where
  "tool_history git rsv root relative_path max_entries =
     rbind (validate_pathspecs rsv root [relative_path]) (\<lambda>normalized. file_history git (hd normalized) max_entries)"

definition tool_external_changes ::
    "git_cli \<Rightarrow> (string \<Rightarrow> string) \<Rightarrow> (path \<Rightarrow> path) \<Rightarrow> path \<Rightarrow> world \<Rightarrow> string list \<Rightarrow> GitTaskSnapshot \<Rightarrow> GitChangeDetection result" where
  "tool_external_changes git sha rsv root w written snapshot = detect_external_modifications git sha rsv root w written snapshot"

subsection \<open>External changes are detected exactly\<close>

text \<open>The content of a path, as far as the hash sees it.\<close>

definition content_of :: "(path \<Rightarrow> path) \<Rightarrow> path \<Rightarrow> world \<Rightarrow> string \<Rightarrow> string option" where
  "content_of rsv root w p = file_at w (resolve_in rsv root p)"

lemma git_hash_content:
  assumes "git_hash sha rsv root w p = Inr h"
  shows "h = (case content_of rsv root w p of None \<Rightarrow> [] | Some b \<Rightarrow> sha b)"
  using assms by (auto simp: git_hash_def content_of_def Let_def path_exists_def split: if_splits option.splits)

lemma hash_eq_content:
  assumes "git_hash sha rsv root w p = Inr h" and "git_hash sha rsv root w' p = Inr h'" and "inj sha" and "\<forall>b. sha b \<noteq> []"
  shows "h' = h \<longleftrightarrow> content_of rsv root w' p = content_of rsv root w p"
proof -
  have "\<And>b c. sha b = sha c \<longleftrightarrow> b = c" using assms(3) by (simp add: inj_eq)
  moreover have "sha b \<noteq> []" "[] \<noteq> sha b" for b using assms(4) by (metis)+
  ultimately show ?thesis
    using git_hash_content [OF assms(1)] git_hash_content [OF assms(2)] by (auto split: option.splits)
qed

lemma zip_flags:
  assumes "rmap f xs = Inr bs"
  shows "set (map fst (filter snd (zip xs bs))) = {x \<in> set xs. f x = Inr True}"
  using assms
proof (induction xs arbitrary: bs)
  case (Cons x xs)
  then obtain b cs where c: "f x = Inr b" "rmap f xs = Inr cs" "bs = b # cs" by (auto split: sum.splits)
  have "set (map fst (filter snd (zip (x # xs) bs))) = (if b then {x} else {}) \<union> set (map fst (filter snd (zip xs cs)))"
    unfolding c by simp
  then show ?case using Cons.IH [OF c(2)] c(1) by auto
qed simp

lemma rmap_zip: "rmap f xs = Inr ys \<Longrightarrow> map_of (zip xs ys) x = Some y \<Longrightarrow> f x = Inr y"
  by (induction xs arbitrary: ys) (auto split: sum.splits if_splits)

lemma rmap_zip_dom: "rmap f xs = Inr ys \<Longrightarrow> map_of (zip xs ys) x = None \<longleftrightarrow> x \<notin> set xs"
  by (induction xs arbitrary: ys) (fastforce split: sum.splits if_splits)+

lemma rmap_member: "rmap f xs = Inr ys \<Longrightarrow> x \<in> set xs \<Longrightarrow> \<exists>y. f x = Inr y"
  by (induction xs arbitrary: ys) (auto split: sum.splits)


definition sample_git :: git_cli where
  "sample_git args = Inr (if args = [''rev-parse'', ''HEAD''] then ''r1'' else '' M a.py'' @ [CHR 0x00] @ '' M b.py'' @ [CHR 0x00])"

definition sample_checkout :: "string \<Rightarrow> world" where
  "sample_checkout a = \<lparr>wk_db = empty_db, wk_files = Mapping.update [''p'', ''a.py''] a (Mapping.update [''p'', ''b.py''] ''two'' Mapping.empty),
     wk_dirs = [[''p'']], wk_manifests = Mapping.empty\<rparr>"


text \<open>
  The porcelain format gives a renamed file as two entries, the second one a bare path: it is read as a status entry and
  three characters of the old name are lost. An untracked directory is listed by git but cannot be hashed, so the
  baseline of a task cannot be captured.
\<close>

theorem git_status_misread:
  "parse_status (''R  new.py'' @ [CHR 0x00] @ ''old.py'' @ [CHR 0x00]) = \<lparr>gs_modified = [''.py'', ''new.py''], gs_untracked = []\<rparr> \<and>
   isl (capture_task_baseline (\<lambda>args. Inr (''?? lib/'' @ [CHR 0x00])) (\<lambda>b. b) (\<lambda>p. p) [''p'']
     \<lparr>wk_db = empty_db, wk_files = Mapping.empty, wk_dirs = [[''p''], [''p'', ''lib'']], wk_manifests = Mapping.empty\<rparr>)"
  by code_simp

text \<open>A path that the read-only tools pass to git is relative, does not climb and resolves inside the project.\<close>

theorem pathspecs_confined:
  assumes "validate_pathspecs rsv root pathspec = Inr normalized"
  shows "length normalized = length pathspec \<and> list_all (\<lambda>p. \<not> is_absolute p) pathspec \<and>
    list_all (\<lambda>p. ''..'' \<notin> set (path_parts p) \<and> prefix root (rsv (root @ path_parts p))) pathspec \<and>
    normalized = map (\<lambda>p. as_posix (path_parts p)) pathspec"
  using assms
proof (induction pathspec arbitrary: normalized)
  case (Cons p ps)
  then show ?case
    using Cons.IH unfolding validate_pathspecs_def by (simp add: validate_pathspec_def split: sum.splits if_splits) force
qed (simp add: validate_pathspecs_def)

theorem pathspecs_confined_witness:
  "\<exists>n. validate_pathspecs (\<lambda>p. p) [''p''] [''src/a.py''] = Inr n \<and> n = [''src/a.py'']"
proof -
  have "\<not> isl (validate_pathspecs (\<lambda>p. p) [''p''] [''src/a.py''])" by code_simp
  then have v: "validate_pathspecs (\<lambda>p. p) [''p''] [''src/a.py''] = Inr (projr (validate_pathspecs (\<lambda>p. p) [''p''] [''src/a.py'']))" by simp
  have "map (\<lambda>p. as_posix (path_parts p)) [''src/a.py''] = [''src/a.py'']" by code_simp
  then have "projr (validate_pathspecs (\<lambda>p. p) [''p''] [''src/a.py'']) = [''src/a.py'']" using pathspecs_confined [OF v] by simp
  with v show ?thesis by simp
qed

end
