(* ===== verification/Endpoints.thy ===== *)
theory Endpoints
  imports Prelude "HOL-Library.Word"
begin

section \<open>Endpoints: which model providers the hosted service may contact\<close>

text \<open>
  \<^verbatim>\<open>runtime/online_provider_security.py\<close>: the normalisation and the validation of the base URL of a provider, with what
  it uses of the standard library: \<^verbatim>\<open>urllib.parse.urlparse\<close> (scheme, user, host and port) and \<^verbatim>\<open>ipaddress\<close> (the
  reading of addresses and \<^verbatim>\<open>is_global\<close>, as of Python 3.13). An IPv4 address is a 32 bit word, an IPv6 address a 128
  bit word with an optional scope.

  The resolver of host names is a parameter: it answers a list of socket addresses, or fails. The printed form of an
  address literal differs between releases of the library and is a parameter as well.
\<close>

unbundle bit_operations_syntax

subsection \<open>Texts\<close>

definition rstrip_char :: "char \<Rightarrow> string \<Rightarrow> string" where
  "rstrip_char c s = rev (dropWhile (\<lambda>d. d = c) (rev s))"

text \<open>\<^verbatim>\<open>str.partition\<close> and \<^verbatim>\<open>str.rpartition\<close>: the text before and after a separator, if there is one.\<close>

fun partition_at :: "char \<Rightarrow> string \<Rightarrow> string \<times> bool \<times> string" where
  "partition_at c [] = ([], False, [])"
| "partition_at c (d # s) =
     (if d = c then ([], True, s) else (case partition_at c s of (a, found, b) \<Rightarrow> (d # a, found, b)))"

definition rpartition_at :: "char \<Rightarrow> string \<Rightarrow> string \<times> bool \<times> string" where
  "rpartition_at c s =
     (case partition_at c (rev s) of (a, found, b) \<Rightarrow> if found then (rev b, True, rev a) else ([], False, s))"

definition is_ascii_alpha :: "char \<Rightarrow> bool" where
  "is_ascii_alpha c = (let n = (of_char c :: nat) in (65 \<le> n \<and> n \<le> 90) \<or> (97 \<le> n \<and> n \<le> 122))"

definition is_digit :: "char \<Rightarrow> bool" where
  "is_digit c \<longleftrightarrow> c \<in> set ''0123456789''"

subsection \<open>\<^verbatim>\<open>ipaddress\<close>\<close>

datatype ip_address = V4 "32 word" | V6 "128 word" "string option"

definition positional :: "int \<Rightarrow> int list \<Rightarrow> int" where
  "positional b ds = foldl (\<lambda>n d. n * b + d) 0 ds"

definition char_code :: "char \<Rightarrow> int" where
  "char_code c = of_char c"

definition decimal :: "string \<Rightarrow> int" where
  "decimal s = positional 10 (map (\<lambda>c. char_code c - 48) s)"

definition parse_octet :: "string \<Rightarrow> int option" where
  "parse_octet s =
     (if s = [] \<or> \<not> list_all is_digit s \<or> 3 < length s \<or> (s \<noteq> ''0'' \<and> hd s = CHR ''0'') \<or> 255 < decimal s then None
      else Some (decimal s))"

definition v4_number :: "string \<Rightarrow> int option" where
  "v4_number s =
     (let octets = split_on (CHR ''.'') s
      in if CHR ''/'' \<in> set s \<or> length octets \<noteq> 4 then None
         else map_option (positional 256) (those (map parse_octet octets)))"

definition hex_value :: "char \<Rightarrow> int option" where
  "hex_value c =
     (let n = char_code c
      in if 48 \<le> n \<and> n \<le> 57 then Some (n - 48) else if 97 \<le> n \<and> n \<le> 102 then Some (n - 87)
         else if 65 \<le> n \<and> n \<le> 70 then Some (n - 55) else None)"

definition parse_hextet :: "string \<Rightarrow> int option" where
  "parse_hextet s = (if s = [] \<or> 4 < length s then None else map_option (positional 16) (those (map hex_value s)))"

text \<open>The text after the last colon may be an IPv4 address; it stands for two groups.\<close>

definition hextet_texts :: "string \<Rightarrow> (string list \<times> int list) option" where
  "hextet_texts s =
     (let parts = split_on (CHR '':'') s
      in if length parts < 3 then None
         else if CHR ''.'' \<in> set (last parts)
         then map_option (\<lambda>n. (butlast parts, [n div 65536, n mod 65536])) (v4_number (last parts))
         else Some (parts, []))"

definition parse_hextets :: "string list \<Rightarrow> int list option" where
  "parse_hextets parts = those (map parse_hextet parts)"

text \<open>
  The groups of an address: \<open>parts\<close> as written, followed by the groups \<open>tail\<close> of an IPv4 suffix. An empty part that is
  not the first and not the last one stands for the groups that are left out.
\<close>

definition v6_groups :: "string list \<Rightarrow> int list \<Rightarrow> int list option" where
  "v6_groups parts tail =
     (let n = length parts + length tail;
          gaps = filter (\<lambda>i. i < length parts \<and> parts ! i = []) [1..<n - 1];
          first_empty = (hd parts = []); last_empty = (tail = [] \<and> last parts = [])
      in if 9 < n then None
         else case gaps of
           [] \<Rightarrow> if n \<noteq> 8 \<or> first_empty \<or> last_empty then None
                else map_option (\<lambda>hi. hi @ tail) (parse_hextets parts)
         | [k] \<Rightarrow>
             (let hi = (if first_empty then k - 1 else k); lo = (if last_empty then n - k - 2 else n - k - 1)
              in if (first_empty \<and> hi \<noteq> 0) \<or> (last_empty \<and> lo \<noteq> 0) \<or> 8 \<le> hi + lo then None
                 else case (parse_hextets (take hi parts), parse_hextets (drop (n - lo) parts)) of
                        (Some his, Some los) \<Rightarrow> Some (his @ replicate (8 - (hi + lo)) 0 @ los @ tail)
                      | _ \<Rightarrow> None)
         | _ \<Rightarrow> None)"

definition v6_number :: "string \<Rightarrow> int option" where
  "v6_number s =
     (case hextet_texts s of None \<Rightarrow> None
      | Some (parts, tail) \<Rightarrow> map_option (positional 65536) (v6_groups parts tail))"

definition ip_of :: "string \<Rightarrow> ip_address option" where
  "ip_of s =
     (case v4_number s of
        Some n \<Rightarrow> Some (V4 (word_of_int n))
      | None \<Rightarrow>
          (case partition_at (CHR 0x25) s of
             (addr, scoped, scope) \<Rightarrow>
               if CHR ''/'' \<in> set s \<or> (scoped \<and> (scope = [] \<or> CHR 0x25 \<in> set scope)) then None
               else map_option (\<lambda>n. V6 (word_of_int n) (if scoped then Some scope else None)) (v6_number addr)))"

definition in_network :: "'a::len word \<Rightarrow> 'a word \<times> nat \<Rightarrow> bool" where
  "in_network a net = (let host = LENGTH('a) - snd net in drop_bit host a = drop_bit host (fst net))"

definition PRIVATE_V4 :: "(32 word \<times> nat) list" where
  "PRIVATE_V4 = [(0x00000000, 8), (0x0A000000, 8), (0x7F000000, 8), (0xA9FE0000, 16), (0xAC100000, 12), (0xC0000000, 24),
     (0xC00000AA, 31), (0xC0000200, 24), (0xC0A80000, 16), (0xC6120000, 15), (0xC6336400, 24), (0xCB007100, 24),
     (0xF0000000, 4), (0xFFFFFFFF, 32)]"

definition PRIVATE_V4_EXCEPTIONS :: "(32 word \<times> nat) list" where
  "PRIVATE_V4_EXCEPTIONS = [(0xC0000009, 32), (0xC000000A, 32)]"

definition PRIVATE_V6 :: "(128 word \<times> nat) list" where
  "PRIVATE_V6 = [(1, 128), (0, 128), (0xFFFF00000000, 96), (0x0064FF9B000100000000000000000000, 48),
     (0x01000000000000000000000000000000, 64), (0x20010000000000000000000000000000, 23), (0x20010DB8000000000000000000000000, 32),
     (0x20020000000000000000000000000000, 16),
     (0xFC000000000000000000000000000000, 7), (0xFE800000000000000000000000000000, 10)]"

definition PRIVATE_V6_EXCEPTIONS :: "(128 word \<times> nat) list" where
  "PRIVATE_V6_EXCEPTIONS = [(0x20010001000000000000000000000001, 128), (0x20010001000000000000000000000002, 128),
     (0x20010003000000000000000000000000, 32), (0x20010004011200000000000000000000, 48), (0x20010020000000000000000000000000, 28),
     (0x20010030000000000000000000000000, 28)]"

definition private_v4 :: "32 word \<Rightarrow> bool" where
  "private_v4 a \<longleftrightarrow> list_ex (in_network a) PRIVATE_V4 \<and> \<not> list_ex (in_network a) PRIVATE_V4_EXCEPTIONS"

definition global_v4 :: "32 word \<Rightarrow> bool" where
  "global_v4 a \<longleftrightarrow> \<not> in_network a (0x64400000, 10) \<and> \<not> private_v4 a"

text \<open>An IPv4-mapped address is judged as the IPv4 address it carries.\<close>

definition is_global :: "ip_address \<Rightarrow> bool" where
  "is_global ip =
     (case ip of
        V4 a \<Rightarrow> global_v4 a
      | V6 a scope \<Rightarrow>
          if drop_bit 32 a = 0xFFFF then global_v4 (ucast a)
          else \<not> (list_ex (in_network a) PRIVATE_V6 \<and> \<not> list_ex (in_network a) PRIVATE_V6_EXCEPTIONS))"

subsection \<open>\<^verbatim>\<open>urllib.parse.urlparse\<close>\<close>

record parsed_url =
  pu_scheme :: string
  pu_netloc :: string

definition is_scheme_char :: "char \<Rightarrow> bool" where
  "is_scheme_char c \<longleftrightarrow> is_ascii_alpha c \<or> is_digit c \<or> c \<in> set ''+-.''"

definition future_ip :: "string \<Rightarrow> bool" where
  "future_ip s =
     (case partition_at (CHR ''.'') (tl s) of
        (digits, dot, rest) \<Rightarrow> dot \<and> digits \<noteq> [] \<and> list_all (\<lambda>c. hex_value c \<noteq> None) digits \<and> rest \<noteq> [] \<and> CHR 0x0A \<notin> set rest)"

definition bracketed_ok :: "string \<Rightarrow> bool" where
  "bracketed_ok netloc =
     (let op = CHR 0x5B \<in> set netloc; cl = CHR 0x5D \<in> set netloc
      in op = cl \<and>
         (op \<longrightarrow>
            (let host = fst (partition_at (CHR 0x5D) (snd (snd (partition_at (CHR 0x5B) netloc))))
             in if startswith host ''v'' then future_ip host
                else (case ip_of host of Some (V6 a scope) \<Rightarrow> True | _ \<Rightarrow> False))))"

definition urlparse :: "string \<Rightarrow> parsed_url result" where
  "urlparse url0 =
     (let url1 = filter (\<lambda>c. c \<notin> {CHR 0x09, CHR 0x0A, CHR 0x0D}) (dropWhile (\<lambda>c. (of_char c :: nat) \<le> 32) url0);
          (scheme, url) =
            (case partition_at (CHR '':'') url1 of
               (a, found, b) \<Rightarrow> if found \<and> a \<noteq> [] \<and> is_ascii_alpha (hd a) \<and> list_all is_scheme_char a then (lower a, b) else ([], url1));
          netloc = (if prefix ''//'' url then takeWhile (\<lambda>c. c \<notin> set ''/?#'') (drop 2 url) else [])
      in if bracketed_ok netloc then Inr \<lparr>pu_scheme = scheme, pu_netloc = netloc\<rparr>
         else Inl (ValueError ''Invalid IPv6 URL''))"

definition pu_userinfo :: "parsed_url \<Rightarrow> string option \<times> string option" where
  "pu_userinfo u =
     (case rpartition_at (CHR 0x40) (pu_netloc u) of
        (info, found, host) \<Rightarrow>
          if \<not> found then (None, None)
          else case partition_at (CHR '':'') info of (user, have, pass) \<Rightarrow> (Some user, if have then Some pass else None))"

definition pu_hostinfo :: "parsed_url \<Rightarrow> string \<times> string option" where
  "pu_hostinfo u =
     (let hostinfo = snd (snd (rpartition_at (CHR 0x40) (pu_netloc u)))
      in case partition_at (CHR 0x5B) hostinfo of
           (before, bracket, bracketed) \<Rightarrow>
             (let (host, port) =
                (if bracket
                 then (case partition_at (CHR 0x5D) bracketed of (h, f, rest) \<Rightarrow> (h, snd (snd (partition_at (CHR '':'') rest))))
                 else (case partition_at (CHR '':'') hostinfo of (h, f, p) \<Rightarrow> (h, p)))
              in (host, if port = [] then None else Some port)))"

definition pu_hostname :: "parsed_url \<Rightarrow> string option" where
  "pu_hostname u =
     (let host = fst (pu_hostinfo u)
      in if host = [] then None
         else case partition_at (CHR 0x25) host of
                (name, found, zone) \<Rightarrow> Some (lower name @ (if found then CHR 0x25 # zone else [])))"

definition pu_port :: "parsed_url \<Rightarrow> int option result" where
  "pu_port u =
     (case snd (pu_hostinfo u) of
        None \<Rightarrow> Inr None
      | Some p \<Rightarrow>
          if \<not> list_all is_digit p then Inl (ValueError ''Port could not be cast to integer value'')
          else if decimal p \<le> 65535 then Inr (Some (decimal p))
          else Inl (ValueError ''Port out of range 0-65535''))"

subsection \<open>\<^verbatim>\<open>OnlineProviderEndpointPolicy\<close>\<close>

definition ONLINE_SAFE_PROVIDER_CREDENTIAL_REQUIRED :: string where
  "ONLINE_SAFE_PROVIDER_CREDENTIAL_REQUIRED = ''ONLINE_SAFE_PROVIDER_CREDENTIAL_REQUIRED''"

definition ONLINE_SAFE_PROVIDER_ENDPOINT_INVALID :: string where
  "ONLINE_SAFE_PROVIDER_ENDPOINT_INVALID = ''ONLINE_SAFE_PROVIDER_ENDPOINT_INVALID''"

definition ONLINE_SAFE_PROVIDER_ENDPOINT_FORBIDDEN :: string where
  "ONLINE_SAFE_PROVIDER_ENDPOINT_FORBIDDEN = ''ONLINE_SAFE_PROVIDER_ENDPOINT_FORBIDDEN''"

definition ONLINE_SAFE_PROVIDER_ENDPOINT_RESOLUTION_FAILED :: string where
  "ONLINE_SAFE_PROVIDER_ENDPOINT_RESOLUTION_FAILED = ''ONLINE_SAFE_PROVIDER_ENDPOINT_RESOLUTION_FAILED''"

definition ONLINE_SAFE_PROVIDER_TRANSPORT_REQUIRED :: string where
  "ONLINE_SAFE_PROVIDER_TRANSPORT_REQUIRED = ''ONLINE_SAFE_PROVIDER_TRANSPORT_REQUIRED''"

record OnlineProviderEndpoint =
  oe_base_url :: string
  oe_hostname :: string
  oe_port :: "int option"
  oe_resolved_addresses :: "string list"

text \<open>A socket address is empty or begins with a text or with something else.\<close>

datatype sockaddr = NoAddress | TextAddress string | OtherAddress

type_synonym address_resolver = "string \<Rightarrow> int \<Rightarrow> sockaddr list option"

text \<open>The text \<^verbatim>\<open>normalized\<close> of the two functions \<^verbatim>\<open>_normalize_base_url\<close>, which differ in the error for an empty one.\<close>

definition trim_base_url :: "string \<Rightarrow> string" where
  "trim_base_url v =
     (let s = rstrip_char (CHR ''/'') (strip v)
      in if endswith s ''/chat/completions'' then rstrip_char (CHR ''/'') (take (length s - 17) s) else s)"

definition normalize_base_url :: "string \<Rightarrow> string result" where
  "normalize_base_url v =
     (let s = trim_base_url v
      in if s = [] then Inl (OnlineProviderEndpointError ONLINE_SAFE_PROVIDER_ENDPOINT_INVALID ''ONLINE_SAFE provider base_url is required'')
         else Inr s)"

definition is_localhost_name :: "string \<Rightarrow> bool" where
  "is_localhost_name hostname =
     (let lowered = rstrip_char (CHR ''.'') (lower hostname)
      in lowered = ''localhost'' \<or> endswith lowered ''.localhost'')"

definition ip_literal :: "string \<Rightarrow> ip_address option" where
  "ip_literal hostname =
     (let bracket = (\<lambda>c. c = CHR 0x5B \<or> c = CHR 0x5D)
      in ip_of (rev (dropWhile bracket (rev (dropWhile bracket hostname)))))"

fun text_addresses :: "sockaddr list \<Rightarrow> string list \<Rightarrow> string list" where
  "text_addresses [] found = found"
| "text_addresses (TextAddress a # rest) found = text_addresses rest (if a \<in> set found then found else found @ [a])"
| "text_addresses (_ # rest) found = text_addresses rest found"

definition resolved_addresses :: "(ip_address \<Rightarrow> string) \<Rightarrow> address_resolver \<Rightarrow> string \<Rightarrow> int option \<Rightarrow> string list result" where
  "resolved_addresses ip_text resolver hostname port =
     (case ip_literal hostname of
        Some ip \<Rightarrow> Inr [ip_text ip]
      | None \<Rightarrow>
          (case resolver hostname (case port of None \<Rightarrow> 443 | Some p \<Rightarrow> if p = 0 then 443 else p) of
             None \<Rightarrow> Inl (OnlineProviderEndpointError ONLINE_SAFE_PROVIDER_ENDPOINT_RESOLUTION_FAILED
               ''ONLINE_SAFE provider hostname resolution failed'')
           | Some infos \<Rightarrow>
               (let addresses = text_addresses infos []
                in if addresses = []
                   then Inl (OnlineProviderEndpointError ONLINE_SAFE_PROVIDER_ENDPOINT_RESOLUTION_FAILED
                     ''ONLINE_SAFE provider hostname resolution returned no addresses'')
                   else Inr addresses)))"

definition validate_public_address :: "string \<Rightarrow> unit result" where
  "validate_public_address address =
     (case ip_of address of
        None \<Rightarrow> Inl (OnlineProviderEndpointError ONLINE_SAFE_PROVIDER_ENDPOINT_RESOLUTION_FAILED
          ''ONLINE_SAFE provider hostname resolved to an invalid address'')
      | Some ip \<Rightarrow>
          if is_global ip then Inr ()
          else Inl (OnlineProviderEndpointError ONLINE_SAFE_PROVIDER_ENDPOINT_FORBIDDEN
            ''ONLINE_SAFE provider hostname resolved to a non-public address''))"

definition truthy :: "string option \<Rightarrow> bool" where
  "truthy v = (case v of None \<Rightarrow> False | Some s \<Rightarrow> s \<noteq> [])"

definition validate_endpoint :: "(ip_address \<Rightarrow> string) \<Rightarrow> address_resolver \<Rightarrow> string \<Rightarrow> OnlineProviderEndpoint result" where
  "validate_endpoint ip_text resolver base_url =
     rbind (normalize_base_url base_url) (\<lambda>normalized.
     rbind (urlparse normalized) (\<lambda>parsed.
       if pu_scheme parsed \<noteq> ''https''
       then Inl (OnlineProviderEndpointError ONLINE_SAFE_PROVIDER_TRANSPORT_REQUIRED ''ONLINE_SAFE provider base_url must use HTTPS'')
       else if truthy (fst (pu_userinfo parsed)) \<or> truthy (snd (pu_userinfo parsed))
       then Inl (OnlineProviderEndpointError ONLINE_SAFE_PROVIDER_ENDPOINT_INVALID
         ''ONLINE_SAFE provider base_url must not include URL credentials'')
       else case pu_hostname parsed of
         None \<Rightarrow> Inl (OnlineProviderEndpointError ONLINE_SAFE_PROVIDER_ENDPOINT_INVALID
           ''ONLINE_SAFE provider base_url must include a hostname'')
       | Some hostname \<Rightarrow>
           (case pu_port parsed of
              Inl _ \<Rightarrow> Inl (OnlineProviderEndpointError ONLINE_SAFE_PROVIDER_ENDPOINT_INVALID
                ''ONLINE_SAFE provider base_url includes an invalid port'')
            | Inr port \<Rightarrow>
                if is_localhost_name hostname
                then Inl (OnlineProviderEndpointError ONLINE_SAFE_PROVIDER_ENDPOINT_FORBIDDEN ''ONLINE_SAFE provider hostname is not public'')
                else rbind (resolved_addresses ip_text resolver hostname port) (\<lambda>resolved.
                  rbind (rmap validate_public_address resolved) (\<lambda>_.
                    Inr \<lparr>oe_base_url = normalized, oe_hostname = rstrip_char (CHR ''.'') (lower hostname), oe_port = port,
                      oe_resolved_addresses = resolved\<rparr>)))))"

subsection \<open>No endpoint inside a private network\<close>

lemma drop_bit_mono:
  fixes a b :: "'a::len word"
  assumes "a \<le> b"
  shows "drop_bit h a \<le> drop_bit h b"
proof -
  have u: "uint (drop_bit h x) = uint x div 2 ^ h" for x :: "'a word"
  proof -
    have "take_bit LENGTH('a) (uint x) = uint x" by (rule take_bit_int_eq_self) simp_all
    then show ?thesis unfolding unsigned_drop_bit_eq by (simp add: drop_bit_eq_div)
  qed
  show ?thesis using assms unfolding word_le_def u by (simp add: zdiv_mono1)
qed

text \<open>A range \<open>lo, \<dots>, hi\<close> lies in a network if its ends do, and outside one that its ends pass by.\<close>

lemma range_in_network:
  fixes a lo hi :: "'a::len word"
  assumes "lo \<le> a" and "a \<le> hi" and "in_network hi (lo, n)"
  shows "in_network a (lo, n)"
  using drop_bit_mono [OF assms(1), of "LENGTH('a) - n"] drop_bit_mono [OF assms(2), of "LENGTH('a) - n"] assms(3)
  by (simp add: in_network_def Let_def)

definition misses :: "'a::len word \<Rightarrow> 'a word \<Rightarrow> 'a word \<times> nat \<Rightarrow> bool" where
  "misses lo hi net = (let h = LENGTH('a) - snd net
     in \<not> (drop_bit h lo \<le> drop_bit h (fst net) \<and> drop_bit h (fst net) \<le> drop_bit h hi))"

lemma range_misses:
  fixes a lo hi :: "'a::len word"
  assumes "lo \<le> a" and "a \<le> hi" and "misses lo hi net"
  shows "\<not> in_network a net"
  using drop_bit_mono [OF assms(1), of "LENGTH('a) - snd net"] drop_bit_mono [OF assms(2), of "LENGTH('a) - snd net"] assms(3)
  by (auto simp: in_network_def misses_def Let_def)

text \<open>
  The address ranges that must never be reached, by their first and last address: the unspecified block, 10/8, loopback,
  link-local with the metadata service, 172.16/12 and 192.168/16; for IPv6 the two lowest addresses, the unique local
  and the link-local ones. An IPv4-mapped address is the IPv4 address it carries.
\<close>

definition INTERNAL_V4 :: "(32 word \<times> 32 word \<times> nat) list" where
  "INTERNAL_V4 = [(0x00000000, 0x00FFFFFF, 8), (0x0A000000, 0x0AFFFFFF, 8), (0x7F000000, 0x7FFFFFFF, 8), (0xA9FE0000, 0xA9FEFFFF, 16),
     (0xAC100000, 0xAC1FFFFF, 12), (0xC0A80000, 0xC0A8FFFF, 16)]"

definition INTERNAL_V6 :: "(128 word \<times> 128 word \<times> nat) list" where
  "INTERNAL_V6 = [(0, 0, 128), (1, 1, 128), (0xFC000000000000000000000000000000, 0xFDFFFFFFFFFFFFFFFFFFFFFFFFFFFFFF, 7),
     (0xFE800000000000000000000000000000, 0xFEBFFFFFFFFFFFFFFFFFFFFFFFFFFFFF, 10)]"

definition in_ranges :: "'a::len word \<Rightarrow> ('a word \<times> 'a word \<times> nat) list \<Rightarrow> bool" where
  "in_ranges a ranges = list_ex (\<lambda>r. fst r \<le> a \<and> a \<le> fst (snd r)) ranges"

definition internal :: "ip_address \<Rightarrow> bool" where
  "internal ip =
     (case ip of
        V4 a \<Rightarrow> in_ranges a INTERNAL_V4
      | V6 a scope \<Rightarrow> in_ranges a INTERNAL_V6 \<or> drop_bit 32 a = 0xFFFF \<and> in_ranges (ucast a) INTERNAL_V4)"

definition covered_by :: "('a::len word \<times> nat) list \<Rightarrow> ('a word \<times> nat) list \<Rightarrow> 'a word \<times> 'a word \<times> nat \<Rightarrow> bool" where
  "covered_by nets exceptions r = (case r of (lo, hi, n) \<Rightarrow>
     in_network hi (lo, n) \<and> (lo, n) \<in> set nets \<and> list_all (misses lo hi) exceptions)"

lemma in_ranges_private:
  assumes "list_all (covered_by nets exceptions) ranges" and "in_ranges a ranges"
  shows "list_ex (in_network a) nets \<and> \<not> list_ex (in_network a) exceptions"
proof -
  obtain lo hi n where r: "(lo, hi, n) \<in> set ranges" "lo \<le> a" "a \<le> hi"
    using assms(2) by (auto simp: in_ranges_def list_ex_iff)
  have c: "in_network hi (lo, n)" "(lo, n) \<in> set nets" "list_all (misses lo hi) exceptions"
    using assms(1) r(1) by (auto simp: list_all_iff covered_by_def)
  have "list_ex (in_network a) nets" using range_in_network [OF r(2,3) c(1)] c(2) by (auto simp: list_ex_iff)
  moreover have "\<not> list_ex (in_network a) exceptions" using range_misses [OF r(2,3)] c(3) by (auto simp: list_ex_iff list_all_iff)
  ultimately show ?thesis by blast
qed

lemma internal_v4_private: "in_ranges a INTERNAL_V4 \<Longrightarrow> private_v4 a"
  unfolding private_v4_def by (rule in_ranges_private [where ranges = INTERNAL_V4]) code_simp

lemma internal_v6_private: "in_ranges a INTERNAL_V6 \<Longrightarrow> list_ex (in_network a) PRIVATE_V6 \<and> \<not> list_ex (in_network a) PRIVATE_V6_EXCEPTIONS"
  by (rule in_ranges_private [where ranges = INTERNAL_V6]) code_simp

lemma internal_v6_not_mapped: "in_ranges a INTERNAL_V6 \<Longrightarrow> drop_bit 32 a \<noteq> 0xFFFF"
proof -
  assume "in_ranges a INTERNAL_V6"
  moreover have "list_all (\<lambda>r. misses (fst r) (fst (snd r)) (0xFFFF00000000, 96)) INTERNAL_V6" by code_simp
  ultimately have "\<not> in_network a (0xFFFF00000000, 96)" by (fastforce simp: in_ranges_def list_ex_iff list_all_iff dest: range_misses)
  moreover have "drop_bit 32 (0xFFFF00000000 :: 128 word) = 0xFFFF" by code_simp
  ultimately show ?thesis by (simp add: in_network_def)
qed

lemma global_not_internal: "is_global ip \<Longrightarrow> \<not> internal ip"
proof (cases ip)
  case (V4 a)
  then show "is_global ip \<Longrightarrow> ?thesis" using internal_v4_private [of a] by (auto simp: is_global_def internal_def global_v4_def)
next
  case (V6 a scope)
  then show "is_global ip \<Longrightarrow> ?thesis"
    using internal_v4_private [of "ucast a"] internal_v6_private [of a] internal_v6_not_mapped [of a]
    by (auto simp: is_global_def internal_def global_v4_def split: if_splits)
qed

lemma rmap_all: "rmap f xs = Inr ys \<Longrightarrow> x \<in> set xs \<Longrightarrow> \<exists>y. f x = Inr y"
  by (induction xs arbitrary: ys) (auto split: sum.splits)

lemma resolved_nonempty: "resolved_addresses ip_text resolver hostname port = Inr xs \<Longrightarrow> xs \<noteq> []"
  by (auto simp: resolved_addresses_def Let_def split: option.splits if_splits)



text \<open>
  The metadata service and the loopback address are refused as literals, in the IPv4-mapped form and behind a host
  name; a multicast address is taken for public.
\<close>

theorem endpoint_examples:
  "isl (validate_endpoint (\<lambda>ip. ''169.254.169.254'') (\<lambda>host port. None) ''https://169.254.169.254/latest'') \<and>
   isl (validate_endpoint (\<lambda>ip. ''::ffff:127.0.0.1'') (\<lambda>host port. None) ''https://[::ffff:127.0.0.1]:8080'') \<and>
   isl (validate_endpoint (\<lambda>ip. []) (\<lambda>host port. Some [TextAddress ''8.8.8.8'', TextAddress ''10.0.0.5'']) ''https://x.example.com'') \<and>
   \<not> isl (validate_endpoint (\<lambda>ip. []) (\<lambda>host port. Some [TextAddress ''224.0.0.1'']) ''https://x.example.com'')"
  by code_simp

end
