(* ===== verification/Sessions.thy ===== *)
theory Sessions
  imports Endpoints "HOL-Library.AList"
begin

section \<open>Sessions: runtime profiles and the sessions of the hosted service\<close>

text \<open>
  \<^verbatim>\<open>runtime/profiles.py\<close> and \<^verbatim>\<open>runtime/online_sessions.py\<close>. The store of sessions is the dictionary from identifiers to
  session objects; a session that an operation has looked up is changed in the dictionary itself, as the code changes
  the shared object. The clock is the argument \<open>now\<close>. Every operation of the store runs under its lock up to the
  return of the session, so operations are atomic steps.

  The identifiers that are drawn are a sequence; the loop that draws until an identifier is free may not end, and is
  a partial function of the position in the sequence.
\<close>

subsection \<open>Profiles\<close>

datatype RuntimeProfile = LOCAL_FULL | CLOUD_DEMO | ONLINE_SAFE

primrec profile_str :: "RuntimeProfile \<Rightarrow> string" where
  "profile_str LOCAL_FULL = ''LOCAL_FULL''"
| "profile_str CLOUD_DEMO = ''CLOUD_DEMO''"
| "profile_str ONLINE_SAFE = ''ONLINE_SAFE''"

type_synonym environ = "(string \<times> string) list"

definition get_runtime_profile :: "environ \<Rightarrow> RuntimeProfile result" where
  "get_runtime_profile env =
     (case map_of env ''SE_MENTOR_RUNTIME_PROFILE'' of
        None \<Rightarrow> Inr LOCAL_FULL
      | Some raw \<Rightarrow>
          if strip raw = [] then Inr LOCAL_FULL
          else case find (\<lambda>p. profile_str p = upper (strip raw)) [LOCAL_FULL, CLOUD_DEMO, ONLINE_SAFE] of
                 Some p \<Rightarrow> Inr p
               | None \<Rightarrow> Inl (RuntimeProfileError
                   ''SE_MENTOR_RUNTIME_PROFILE must be one of: LOCAL_FULL, CLOUD_DEMO, ONLINE_SAFE''))"

record RuntimeSettings =
  rs_profile :: RuntimeProfile
  rs_runtime_root :: string
  rs_demo_workspace_root :: string
  rs_trust_proxy :: bool

definition truthy_flag :: "string option \<Rightarrow> bool" where
  "truthy_flag v = (case v of None \<Rightarrow> False | Some s \<Rightarrow> lower (strip s) \<in> set [''1'', ''true'', ''yes'', ''on''])"

text \<open>A configured root, or the default; \<open>expand\<close> stands for \<^verbatim>\<open>Path(...).expanduser().resolve()\<close>, \<open>repo\<close> and \<open>backend\<close> for the roots of the installation.\<close>

definition configured_or :: "(string \<Rightarrow> string) \<Rightarrow> string option \<Rightarrow> string \<Rightarrow> string" where
  "configured_or expand v fallback = (case v of None \<Rightarrow> expand fallback | Some s \<Rightarrow> if s = [] then expand fallback else expand s)"

definition runtime_root :: "(string \<Rightarrow> string) \<Rightarrow> string \<Rightarrow> string \<Rightarrow> RuntimeProfile \<Rightarrow> environ \<Rightarrow> string" where
  "runtime_root expand repo backend profile env =
     (case profile of
        CLOUD_DEMO \<Rightarrow> configured_or expand (map_of env ''SE_MENTOR_DEMO_RUNTIME_ROOT'') (repo @ ''/.tmp/cloud-demo-runtime'')
      | ONLINE_SAFE \<Rightarrow> configured_or expand (map_of env ''SE_MENTOR_RUNTIME_ROOT'') (repo @ ''/.tmp/online-safe-runtime'')
      | LOCAL_FULL \<Rightarrow> configured_or expand (map_of env ''SE_MENTOR_RUNTIME_ROOT'') (backend @ ''/.sementor''))"

definition demo_workspace_root :: "(string \<Rightarrow> string) \<Rightarrow> string \<Rightarrow> environ \<Rightarrow> string" where
  "demo_workspace_root expand repo env = configured_or expand (map_of env ''SE_MENTOR_DEMO_WORKSPACE'') (repo @ ''/deploy/demo-workspace'')"

definition get_runtime_settings :: "(string \<Rightarrow> string) \<Rightarrow> string \<Rightarrow> string \<Rightarrow> environ \<Rightarrow> RuntimeSettings result" where
  "get_runtime_settings expand repo backend env =
     rbind (get_runtime_profile env) (\<lambda>profile.
       Inr \<lparr>rs_profile = profile, rs_runtime_root = runtime_root expand repo backend profile env,
         rs_demo_workspace_root = demo_workspace_root expand repo env,
         rs_trust_proxy = truthy_flag (map_of env ''SE_MENTOR_TRUST_PROXY'')\<rparr>)"

subsection \<open>Sessions and credentials\<close>

record OnlineCredentialMetadata =
  om_provider :: string
  om_base_url :: string
  om_model :: string

record OnlineCredential =
  oc_metadata :: OnlineCredentialMetadata
  oc_secret :: string

record OnlineSession =
  os_session_id :: string
  os_created_at :: int
  os_last_seen_at :: int
  os_expires_at :: int
  os_credential :: "OnlineCredential option"

definition ONLINE_SESSION_TTL_SECONDS :: int where
  "ONLINE_SESSION_TTL_SECONDS = 12 * 60 * 60"

definition ONLINE_SESSION_MAX_ACTIVE :: int where
  "ONLINE_SESSION_MAX_ACTIVE = 128"

record session_store =
  ss_ttl :: int
  ss_max :: int
  ss_sessions :: "(string \<times> OnlineSession) list"

definition new_store :: "int \<Rightarrow> int \<Rightarrow> session_store result" where
  "new_store ttl_seconds max_active_sessions =
     (if ttl_seconds \<le> 0 then Inl (ValueError ''ttl_seconds must be positive'')
      else if max_active_sessions \<le> 0 then Inl (ValueError ''max_active_sessions must be positive'')
      else Inr \<lparr>ss_ttl = ttl_seconds, ss_max = max_active_sessions, ss_sessions = []\<rparr>)"

definition is_expired :: "OnlineSession \<Rightarrow> int \<Rightarrow> bool" where
  "is_expired session now \<longleftrightarrow> os_expires_at session \<le> now"

definition cleanup :: "int \<Rightarrow> session_store \<Rightarrow> session_store" where
  "cleanup now s = s\<lparr>ss_sessions := filter (\<lambda>e. \<not> is_expired (snd e) now) (ss_sessions s)\<rparr>"

definition pop_session :: "string \<Rightarrow> session_store \<Rightarrow> session_store" where
  "pop_session i s = s\<lparr>ss_sessions := AList.delete i (ss_sessions s)\<rparr>"

definition put_session :: "OnlineSession \<Rightarrow> session_store \<Rightarrow> session_store" where
  "put_session x s = s\<lparr>ss_sessions := AList.update (os_session_id x) x (ss_sessions s)\<rparr>"

abbreviation find_session :: "string \<Rightarrow> session_store \<Rightarrow> OnlineSession option" where
  "find_session i s \<equiv> map_of (ss_sessions s) i"

definition active_session_ids :: "int \<Rightarrow> session_store \<Rightarrow> session_store \<times> string list" where
  "active_session_ids now s = (let s' = cleanup now s in (s', map fst (ss_sessions s')))"

definition active_count :: "int \<Rightarrow> session_store \<Rightarrow> session_store \<times> int" where
  "active_count now s = (let s' = cleanup now s in (s', int (length (ss_sessions s'))))"

definition touch :: "int \<Rightarrow> OnlineSession \<Rightarrow> session_store \<Rightarrow> session_store \<times> OnlineSession" where
  "touch now x s = (let x' = x\<lparr>os_last_seen_at := now, os_expires_at := now + ss_ttl s\<rparr> in (put_session x' s, x'))"

partial_function (option) draw_id :: "(nat \<Rightarrow> string) \<Rightarrow> string list \<Rightarrow> nat \<Rightarrow> string option" where
  "draw_id tokens used n = (if tokens n \<in> set used then draw_id tokens used (Suc n) else Some (tokens n))"

definition create_session :: "(nat \<Rightarrow> string) \<Rightarrow> int \<Rightarrow> session_store \<Rightarrow> (session_store \<times> OnlineSession result) option" where
  "create_session tokens now s =
     (if ss_max s \<le> int (length (ss_sessions s))
      then Some (s, Inl (OnlineSessionLimitExceeded ''ONLINE_SAFE active session limit reached''))
      else case draw_id tokens (map fst (ss_sessions s)) 0 of
             None \<Rightarrow> None
           | Some i \<Rightarrow>
               (let x = \<lparr>os_session_id = i, os_created_at = now, os_last_seen_at = now, os_expires_at = now + ss_ttl s, os_credential = None\<rparr>
                in Some (put_session x s, Inr x)))"

definition get_or_create :: "(nat \<Rightarrow> string) \<Rightarrow> int \<Rightarrow> string option \<Rightarrow> session_store \<Rightarrow> (session_store \<times> OnlineSession result) option" where
  "get_or_create tokens now session_id s0 =
     (let s = cleanup now s0
      in case (case session_id of None \<Rightarrow> None | Some i \<Rightarrow> if i = [] then None else find_session i s) of
           None \<Rightarrow> create_session tokens now s
         | Some existing \<Rightarrow>
             if is_expired existing now then create_session tokens now (pop_session (the session_id) s)
             else Some (case touch now existing s of (s', x) \<Rightarrow> (s', Inr x)))"

definition require :: "int \<Rightarrow> string option \<Rightarrow> session_store \<Rightarrow> session_store \<times> OnlineSession result" where
  "require now session_id s =
     (case session_id of
        None \<Rightarrow> (s, Inl (OnlineSessionRequired ''ONLINE_SAFE session cookie is required''))
      | Some i \<Rightarrow>
          if i = [] then (s, Inl (OnlineSessionRequired ''ONLINE_SAFE session cookie is required''))
          else case find_session i s of
                 None \<Rightarrow> (cleanup now s, Inl (OnlineSessionRequired ''ONLINE_SAFE session is missing''))
               | Some existing \<Rightarrow>
                   if is_expired existing now
                   then (cleanup now (pop_session i s), Inl (OnlineSessionExpired ''ONLINE_SAFE session expired''))
                   else (case touch now existing (cleanup now s) of (s', x) \<Rightarrow> (s', Inr x)))"

text \<open>\<^verbatim>\<open>_normalize_base_url\<close> of this module, and the validation of the metadata; \<open>ip_text\<close> and \<open>resolver\<close> as in \<open>Endpoints\<close>.\<close>

definition session_base_url :: "string \<Rightarrow> string result" where
  "session_base_url v =
     (let s = trim_base_url v in if s = [] then Inl (OnlineCredentialValidationError ''base_url is required'') else Inr s)"

definition validate_metadata ::
    "(ip_address \<Rightarrow> string) \<Rightarrow> address_resolver \<Rightarrow> string \<Rightarrow> string \<Rightarrow> string \<Rightarrow> OnlineCredentialMetadata result" where
  "validate_metadata ip_text resolver provider base_url model =
     (if lower (strip provider) \<notin> set [''openai'', ''openai-compatible'']
      then Inl (OnlineCredentialValidationError ''only OpenAI provider is supported'')
      else rbind (session_base_url base_url) (\<lambda>normalized.
        rbind (validate_endpoint ip_text resolver normalized) (\<lambda>endpoint.
          if strip model = [] then Inl (OnlineCredentialValidationError ''model is required'')
          else Inr \<lparr>om_provider = ''OpenAI'', om_base_url = oe_base_url endpoint, om_model = strip model\<rparr>)))"

definition set_credential ::
    "(ip_address \<Rightarrow> string) \<Rightarrow> address_resolver \<Rightarrow> int \<Rightarrow> string option \<Rightarrow> string \<Rightarrow> string \<Rightarrow> string \<Rightarrow> string \<Rightarrow> session_store \<Rightarrow>
     session_store \<times> OnlineSession result" where
  "set_credential ip_text resolver now session_id provider base_url model key s =
     (case require now session_id s of
        (s1, Inl e) \<Rightarrow> (s1, Inl e)
      | (s1, Inr session) \<Rightarrow>
          (case validate_metadata ip_text resolver provider base_url model of
             Inl e \<Rightarrow> (s1, Inl e)
           | Inr metadata \<Rightarrow>
               if strip key = [] then (s1, Inl (OnlineCredentialValidationError ''credential key is required''))
               else (let x = session\<lparr>os_credential := Some \<lparr>oc_metadata = metadata, oc_secret = strip key\<rparr>\<rparr>
                     in (put_session x s1, Inr x))))"

definition update_credential ::
    "(ip_address \<Rightarrow> string) \<Rightarrow> address_resolver \<Rightarrow> int \<Rightarrow> string option \<Rightarrow> string \<Rightarrow> string \<Rightarrow> string \<Rightarrow> string option \<Rightarrow> session_store \<Rightarrow>
     session_store \<times> OnlineSession result" where
  "update_credential ip_text resolver now session_id provider base_url model key s =
     (case require now session_id s of
        (s1, Inl e) \<Rightarrow> (s1, Inl e)
      | (s1, Inr session) \<Rightarrow>
          (case validate_metadata ip_text resolver provider base_url model of
             Inl e \<Rightarrow> (s1, Inl e)
           | Inr metadata \<Rightarrow>
               (let trimmed = (case key of None \<Rightarrow> [] | Some k \<Rightarrow> strip k)
                in if trimmed \<noteq> []
                   then (let x = session\<lparr>os_credential := Some \<lparr>oc_metadata = metadata, oc_secret = trimmed\<rparr>\<rparr>
                         in (put_session x s1, Inr x))
                   else case os_credential session of
                     None \<Rightarrow> (s1, Inl (OnlineSessionRequired ''ONLINE_SAFE credential key is required''))
                   | Some c \<Rightarrow>
                       (let x = session\<lparr>os_credential := Some (c\<lparr>oc_metadata := metadata\<rparr>)\<rparr>
                        in (put_session x s1, Inr x)))))"

definition clear_credential :: "(nat \<Rightarrow> string) \<Rightarrow> int \<Rightarrow> string option \<Rightarrow> session_store \<Rightarrow> (session_store \<times> OnlineSession result) option" where
  "clear_credential tokens now session_id s =
     map_option (\<lambda>(s1, r). case r of
        Inl e \<Rightarrow> (s1, Inl e)
      | Inr session \<Rightarrow> (let x = session\<lparr>os_credential := None\<rparr> in (put_session x s1, Inr x)))
       (get_or_create tokens now session_id s)"

definition credential_for :: "int \<Rightarrow> string option \<Rightarrow> session_store \<Rightarrow> session_store \<times> OnlineCredential option" where
  "credential_for now session_id s =
     (case require now session_id s of (s1, Inl e) \<Rightarrow> (s1, None) | (s1, Inr session) \<Rightarrow> (s1, os_credential session))"

definition reset_store :: "session_store \<Rightarrow> session_store" where
  "reset_store s = s\<lparr>ss_sessions := []\<rparr>"

subsection \<open>The drawing of an identifier ends\<close>

lemma draw_id_from:
  assumes "tokens n \<notin> set used" and "k \<le> n"
  shows "\<exists>m. draw_id tokens used k = Some (tokens m) \<and> tokens m \<notin> set used"
  using assms(2)
proof (induction "n - k" arbitrary: k)
  case 0
  then show ?case using assms(1) by (subst draw_id.simps) auto
next
  case (Suc d)
  show ?case
  proof (cases "tokens k \<in> set used")
    case True
    have "\<exists>m. draw_id tokens used (Suc k) = Some (tokens m) \<and> tokens m \<notin> set used" using Suc by (intro Suc.hyps) auto
    with True show ?thesis by (subst draw_id.simps) simp
  next
    case False
    then show ?thesis by (subst draw_id.simps) auto
  qed
qed

lemma draw_id_total:
  assumes "inj tokens"
  shows "\<exists>m. draw_id tokens used k = Some (tokens m) \<and> tokens m \<notin> set used"
proof -
  have "infinite (tokens ` {k..})" using assms by (simp add: finite_image_iff inj_on_subset infinite_Ici)
  then obtain n where "k \<le> n" "tokens n \<notin> set used"
    by (metis (no_types, lifting) List.finite_set atLeast_iff finite_subset image_subsetI)
  then show ?thesis by (rule draw_id_from [rotated])
qed

lemma draw_id_fresh:
  assumes "draw_id tokens used k = Some i"
  shows "i \<notin> set used"
  by (rule draw_id.raw_induct [OF _ assms]) (auto split: if_splits)

subsection \<open>The invariant of the store\<close>

lemma endpoint_https:
  assumes "validate_endpoint ip_text resolver url = Inr e"
  shows "\<exists>u host. urlparse (oe_base_url e) = Inr u \<and> pu_scheme u = ''https'' \<and> pu_hostname u = Some host \<and> \<not> is_localhost_name host"
  using assms by (auto simp: validate_endpoint_def rbind_eq_Inr split: if_splits option.splits sum.splits)

text \<open>A credential that may be stored: a key, a model and a public HTTPS endpoint of the only provider.\<close>

definition credential_ok :: "OnlineCredential \<Rightarrow> bool" where
  "credential_ok c \<longleftrightarrow> oc_secret c \<noteq> [] \<and> om_model (oc_metadata c) \<noteq> [] \<and> om_provider (oc_metadata c) = ''OpenAI'' \<and>
     (\<exists>u host. urlparse (om_base_url (oc_metadata c)) = Inr u \<and> pu_scheme u = ''https'' \<and> pu_hostname u = Some host \<and>
        \<not> is_localhost_name host)"

definition session_ok :: "int \<Rightarrow> string \<times> OnlineSession \<Rightarrow> bool" where
  "session_ok ttl e \<longleftrightarrow> os_session_id (snd e) = fst e \<and> os_expires_at (snd e) = os_last_seen_at (snd e) + ttl \<and>
     (case os_credential (snd e) of None \<Rightarrow> True | Some c \<Rightarrow> credential_ok c)"

definition store_inv :: "session_store \<Rightarrow> bool" where
  "store_inv s \<longleftrightarrow> distinct (map fst (ss_sessions s)) \<and> int (length (ss_sessions s)) \<le> ss_max s \<and>
     list_all (session_ok (ss_ttl s)) (ss_sessions s)"

lemma validate_metadata_ok:
  assumes "validate_metadata ip_text resolver provider base_url model = Inr m" and "key \<noteq> []"
  shows "credential_ok \<lparr>oc_metadata = m, oc_secret = key\<rparr>"
  using assms endpoint_https
  by (auto simp: validate_metadata_def credential_ok_def rbind_eq_Inr split: if_splits)

lemma distinct_filter_fst: "distinct (map fst xs) \<Longrightarrow> distinct (map fst (filter P xs))"
  by (induction xs) auto

lemma filter_inv:
  assumes "store_inv s"
  shows "store_inv (s\<lparr>ss_sessions := filter P (ss_sessions s)\<rparr>)"
proof -
  have "int (length (filter P (ss_sessions s))) \<le> int (length (ss_sessions s))" by simp
  also have "\<dots> \<le> ss_max s" using assms by (simp add: store_inv_def)
  finally show ?thesis using assms by (auto simp: store_inv_def list_all_iff distinct_filter_fst)
qed

lemma cleanup_inv [intro]: "store_inv s \<Longrightarrow> store_inv (cleanup now s)"
  unfolding cleanup_def by (rule filter_inv)

lemma pop_inv [intro]: "store_inv s \<Longrightarrow> store_inv (pop_session i s)"
  unfolding pop_session_def AList.delete_eq by (rule filter_inv)

text \<open>An entry that is replaced keeps the number of sessions; a new one needs room.\<close>

lemma list_all_update: "list_all P xs \<Longrightarrow> P (k, v) \<Longrightarrow> list_all P (AList.update k v xs)"
  by (induction xs) auto

lemma length_update: "length (AList.update k v xs) = (if k \<in> fst ` set xs then length xs else Suc (length xs))"
  by (induction xs) auto

lemma put_inv:
  assumes "store_inv s" and "session_ok (ss_ttl s) (os_session_id x, x)"
    and "find_session (os_session_id x) s \<noteq> None \<or> int (length (ss_sessions s)) < ss_max s"
  shows "store_inv (put_session x s)"
proof -
  have "os_session_id x \<in> fst ` set (ss_sessions s) \<or> int (length (ss_sessions s)) < ss_max s"
    using assms(3) by (auto simp: map_of_eq_None_iff)
  then have "int (length (AList.update (os_session_id x) x (ss_sessions s))) \<le> ss_max s"
    using assms(1) by (auto simp: length_update store_inv_def)
  then show ?thesis
    using assms(1,2) by (simp add: store_inv_def put_session_def list_all_update distinct_update)
qed

lemma store_frame [simp]:
  "ss_ttl (cleanup now s) = ss_ttl s" "ss_max (cleanup now s) = ss_max s"
  "ss_ttl (pop_session i s) = ss_ttl s" "ss_max (pop_session i s) = ss_max s"
  "ss_ttl (put_session x s) = ss_ttl s" "ss_max (put_session x s) = ss_max s"
  "find_session j (put_session x s) = (if j = os_session_id x then Some x else find_session j s)"
  by (simp_all add: cleanup_def pop_session_def put_session_def update_conv')

lemma find_cleanup:
  "store_inv s \<Longrightarrow> find_session i (cleanup now s) =
    (case find_session i s of None \<Rightarrow> None | Some x \<Rightarrow> if is_expired x now then None else Some x)"
proof -
  have "distinct (map fst xs) \<Longrightarrow> map_of (filter (\<lambda>e. \<not> is_expired (snd e) now) xs) i =
      (case map_of xs i of None \<Rightarrow> None | Some x \<Rightarrow> if is_expired x now then None else Some x)" for xs
    by (induction xs) (auto simp: map_of_eq_None_iff split: option.split)
  then show "store_inv s \<Longrightarrow> ?thesis" by (simp add: cleanup_def store_inv_def)
qed

lemma find_ok: "store_inv s \<Longrightarrow> find_session i s = Some x \<Longrightarrow> session_ok (ss_ttl s) (i, x)"
  by (auto simp: store_inv_def list_all_iff dest: map_of_SomeD)

lemma session_ok_id: "session_ok ttl (i, x) \<Longrightarrow> os_session_id x = i"
  by (simp add: session_ok_def)

subsection \<open>Every operation keeps the invariant\<close>

lemma touch_inv:
  assumes "store_inv s" and "find_session i s = Some x"
  shows "store_inv (fst (touch now x s))" "find_session i (fst (touch now x s)) = Some (snd (touch now x s))"
    "os_credential (snd (touch now x s)) = os_credential x" "os_session_id (snd (touch now x s)) = i"
    "os_expires_at (snd (touch now x s)) = now + ss_ttl s"
proof -
  note ok = find_ok [OF assms]
  show "store_inv (fst (touch now x s))"
    unfolding touch_def Let_def fst_conv
    by (rule put_inv [OF assms(1)]) (use ok assms(2) in \<open>simp_all add: session_ok_def\<close>)
  show "find_session i (fst (touch now x s)) = Some (snd (touch now x s))" "os_credential (snd (touch now x s)) = os_credential x"
    "os_session_id (snd (touch now x s)) = i" "os_expires_at (snd (touch now x s)) = now + ss_ttl s"
    using session_ok_id [OF ok] by (simp_all add: touch_def Let_def)
qed

text \<open>What a request for a session answers: the live session of that identifier, with its time renewed.\<close>

lemma require_spec:
  assumes inv: "store_inv s" and r: "require now sid s = (s', r)"
  shows "store_inv s'" and "ss_ttl s' = ss_ttl s" and "ss_max s' = ss_max s"
    and "r = Inr x \<Longrightarrow> \<exists>i y. sid = Some i \<and> find_session i s = Some y \<and> \<not> is_expired y now \<and> find_session i s' = Some x \<and>
       os_session_id x = i \<and> os_credential x = os_credential y \<and> os_expires_at x = now + ss_ttl s"
    and "sid \<noteq> Some j \<Longrightarrow> find_session j s = Some z \<Longrightarrow> \<not> is_expired z now \<Longrightarrow> find_session j s' = Some z"
proof -
  have "store_inv s' \<and> ss_ttl s' = ss_ttl s \<and> ss_max s' = ss_max s \<and>
      (\<forall>x. r = Inr x \<longrightarrow> (\<exists>i y. sid = Some i \<and> find_session i s = Some y \<and> \<not> is_expired y now \<and> find_session i s' = Some x \<and>
         os_session_id x = i \<and> os_credential x = os_credential y \<and> os_expires_at x = now + ss_ttl s)) \<and>
      (\<forall>j z. sid \<noteq> Some j \<longrightarrow> find_session j s = Some z \<longrightarrow> \<not> is_expired z now \<longrightarrow> find_session j s' = Some z)"
  proof (cases "\<exists>i y. sid = Some i \<and> i \<noteq> [] \<and> find_session i s = Some y")
    case False
    then have "r = Inl (OnlineSessionRequired ''ONLINE_SAFE session cookie is required'') \<and> s' = s \<or>
        r = Inl (OnlineSessionRequired ''ONLINE_SAFE session is missing'') \<and> s' = cleanup now s"
      using r by (auto simp: require_def split: option.splits if_splits)
    then show ?thesis using inv cleanup_inv [OF inv] find_cleanup [OF inv] by auto
  next
    case True
    then obtain i y where i: "sid = Some i" "i \<noteq> []" "find_session i s = Some y" by blast
    show ?thesis
    proof (cases "is_expired y now")
      case True
      then have s': "s' = cleanup now (pop_session i s)" "isl r" using r i by (auto simp: require_def)
      have "store_inv (pop_session i s)" using inv by blast
      then have "find_session j s' = (case find_session j (pop_session i s) of None \<Rightarrow> None | Some x \<Rightarrow> if is_expired x now then None else Some x)" for j
        unfolding s' by (rule find_cleanup)
      moreover have "find_session j (pop_session i s) = (if j = i then None else find_session j s)" for j
        by (simp add: pop_session_def delete_conv')
      ultimately show ?thesis using s' i cleanup_inv [OF \<open>store_inv (pop_session i s)\<close>] by (cases r) auto
    next
      case False
      let ?s = "cleanup now s"
      have c: "find_session i ?s = Some y" using False i(3) by (simp add: find_cleanup [OF inv])
      have e: "s' = fst (touch now y ?s)" "r = Inr (snd (touch now y ?s))"
        using r i False by (auto simp: require_def split: prod.splits)
      note t = touch_inv [OF cleanup_inv [OF inv] c, of now]
      have "find_session j s' = find_session j ?s" if "j \<noteq> i" for j
        using that t(4) unfolding e by (simp add: touch_def Let_def)
      then show ?thesis using e t i False find_cleanup [OF inv] by (auto simp: touch_def Let_def)
    qed
  qed
  then show "store_inv s'" "ss_ttl s' = ss_ttl s" "ss_max s' = ss_max s"
    "r = Inr x \<Longrightarrow> \<exists>i y. sid = Some i \<and> find_session i s = Some y \<and> \<not> is_expired y now \<and> find_session i s' = Some x \<and>
       os_session_id x = i \<and> os_credential x = os_credential y \<and> os_expires_at x = now + ss_ttl s"
    "sid \<noteq> Some j \<Longrightarrow> find_session j s = Some z \<Longrightarrow> \<not> is_expired z now \<Longrightarrow> find_session j s' = Some z" by blast+
qed

lemma put_credential_inv:
  assumes "store_inv s" and "find_session i s = Some x" and "case c of None \<Rightarrow> True | Some k \<Rightarrow> credential_ok k"
  shows "store_inv (put_session (x\<lparr>os_credential := c\<rparr>) s)"
  by (rule put_inv [OF assms(1)]) (use find_ok [OF assms(1,2)] assms(2,3) in \<open>simp_all add: session_ok_def\<close>)

lemma set_credential_cases:
  assumes "set_credential ip_text resolver now sid provider base_url model key s = (s', r)"
  obtains s1 q where "require now sid s = (s1, q)" "s' = s1"
  | s1 x c where "require now sid s = (s1, Inr x)" "s' = put_session (x\<lparr>os_credential := Some c\<rparr>) s1" "credential_ok c"
  using assms validate_metadata_ok
  by (auto simp: set_credential_def Let_def split: prod.splits sum.splits if_splits)

lemma update_credential_cases:
  assumes "update_credential ip_text resolver now sid provider base_url model key s = (s', r)"
  obtains s1 q where "require now sid s = (s1, q)" "s' = s1"
  | s1 x c where "require now sid s = (s1, Inr x)" "s' = put_session (x\<lparr>os_credential := Some c\<rparr>) s1"
      "(\<forall>k. os_credential x = Some k \<longrightarrow> oc_secret k \<noteq> []) \<longrightarrow> credential_ok c"
proof (cases "require now sid s")
  case (Pair s1 q)
  show thesis
  proof (cases q)
    case (Inl e)
    then show thesis using that(1) [OF Pair] assms Pair by (simp add: update_credential_def)
  next
    case (Inr x)
    show thesis
    proof (cases "validate_metadata ip_text resolver provider base_url model")
      case (Inl e)
      then show thesis using that(1) [OF Pair] assms Pair Inr by (simp add: update_credential_def)
    next
      case m: (Inr m)
      have ok: "k \<noteq> [] \<Longrightarrow> credential_ok \<lparr>oc_metadata = m, oc_secret = k\<rparr>" for k by (rule validate_metadata_ok [OF m])
      have up: "credential_ok (k\<lparr>oc_metadata := m\<rparr>)" if "oc_secret k \<noteq> []" for k :: OnlineCredential
        using ok [OF that] by (simp add: credential_ok_def)
      define t where "t = (case key of None \<Rightarrow> [] | Some k \<Rightarrow> strip k)"
      have e: "(s', r) = (if t \<noteq> [] then (put_session (x\<lparr>os_credential := Some \<lparr>oc_metadata = m, oc_secret = t\<rparr>\<rparr>) s1,
            Inr (x\<lparr>os_credential := Some \<lparr>oc_metadata = m, oc_secret = t\<rparr>\<rparr>))
          else case os_credential x of
            None \<Rightarrow> (s1, Inl (OnlineSessionRequired ''ONLINE_SAFE credential key is required''))
          | Some c \<Rightarrow> (put_session (x\<lparr>os_credential := Some (c\<lparr>oc_metadata := m\<rparr>)\<rparr>) s1, Inr (x\<lparr>os_credential := Some (c\<lparr>oc_metadata := m\<rparr>)\<rparr>)))"
        unfolding assms [symmetric] update_credential_def Pair Inr m Let_def t_def prod.case sum.case ..
      consider "t \<noteq> []" | "t = []" "os_credential x = None" | c where "t = []" "os_credential x = Some c" by blast
      then show thesis
      proof cases
        case 1
        then show thesis using that(2) [OF Pair [unfolded Inr]] e ok by simp
      next
        case 2
        then show thesis using that(1) [OF Pair] e by simp
      next
        case (3 c)
        then show thesis using that(2) [OF Pair [unfolded Inr], of "c\<lparr>oc_metadata := m\<rparr>"] e up by simp
      qed
    qed
  qed
qed

lemma create_session_cases:
  assumes "create_session tokens now s = Some (s', r)"
  obtains e where "s' = s" "r = Inl e"
  | i where "i \<notin> fst ` set (ss_sessions s)" "int (length (ss_sessions s)) < ss_max s"
      "r = Inr \<lparr>os_session_id = i, os_created_at = now, os_last_seen_at = now, os_expires_at = now + ss_ttl s, os_credential = None\<rparr>"
      "s' = put_session (projr r) s"
  using assms draw_id_fresh [of tokens "map fst (ss_sessions s)" 0]
  by (auto simp: create_session_def Let_def split: if_splits option.splits)

lemma get_or_create_cases:
  assumes inv: "store_inv s" and g: "get_or_create tokens now sid s = Some (s', r)"
  obtains (created) "create_session tokens now (cleanup now s) = Some (s', r)"
      "\<And>i. sid = Some i \<Longrightarrow> i \<noteq> [] \<Longrightarrow> find_session i (cleanup now s) = None"
  | (found) i y where "sid = Some i" "find_session i (cleanup now s) = Some y" "s' = fst (touch now y (cleanup now s))"
      "r = Inr (snd (touch now y (cleanup now s)))"
proof (cases "\<exists>i y. sid = Some i \<and> i \<noteq> [] \<and> find_session i (cleanup now s) = Some y")
  case True
  then obtain i y where i: "sid = Some i" "i \<noteq> []" "find_session i (cleanup now s) = Some y" by blast
  then have "\<not> is_expired y now" using find_cleanup [OF inv, where i = i and now = now] by (auto split: option.splits if_splits)
  then show thesis using found [OF i(1,3)] g i by (auto simp: get_or_create_def Let_def split: prod.splits)
next
  case False
  then have "find_session i (cleanup now s) = None" if "sid = Some i" "i \<noteq> []" for i using that by auto
  moreover have "create_session tokens now (cleanup now s) = Some (s', r)"
    using g False by (cases sid) (auto simp: get_or_create_def Let_def split: if_splits option.splits)
  ultimately show thesis using created by blast
qed

lemma get_or_create_spec:
  assumes inv: "store_inv s" and g: "get_or_create tokens now sid s = Some (s', r)"
  shows "store_inv s'" and "ss_ttl s' = ss_ttl s" and "ss_max s' = ss_max s"
    and "r = Inr x \<Longrightarrow> find_session (os_session_id x) s' = Some x"
proof -
  have "store_inv s' \<and> ss_ttl s' = ss_ttl s \<and> ss_max s' = ss_max s \<and> (\<forall>x. r = Inr x \<longrightarrow> find_session (os_session_id x) s' = Some x)"
    using inv g
  proof (cases rule: get_or_create_cases)
    case created
    from created(1) show ?thesis
    proof (cases rule: create_session_cases)
      case (1 e)
      then show ?thesis using cleanup_inv [OF inv, of now] by simp
    next
      case (2 i)
      have "store_inv s'" unfolding 2(4)
        by (rule put_inv [OF cleanup_inv [OF inv]]) (use 2 in \<open>simp_all add: session_ok_def\<close>)
      with 2 show ?thesis by simp
    qed
  next
    case (found i y)
    note t = touch_inv [OF cleanup_inv [OF inv] found(2), of now]
    with found show ?thesis by (simp add: touch_def Let_def)
  qed
  then show "store_inv s'" "ss_ttl s' = ss_ttl s" "ss_max s' = ss_max s" "r = Inr x \<Longrightarrow> find_session (os_session_id x) s' = Some x"
    by blast+
qed

text \<open>The operations on the store as steps.\<close>

inductive store_step :: "session_store \<Rightarrow> session_store \<Rightarrow> bool" where
  opened: "get_or_create tokens now sid s = Some (s', r) \<Longrightarrow> store_step s s'"
| required: "require now sid s = (s', r) \<Longrightarrow> store_step s s'"
| credential_set: "set_credential ip_text resolver now sid provider base_url model key s = (s', r) \<Longrightarrow> store_step s s'"
| credential_updated: "update_credential ip_text resolver now sid provider base_url model k s = (s', r) \<Longrightarrow> store_step s s'"
| credential_cleared: "clear_credential tokens now sid s = Some (s', r) \<Longrightarrow> store_step s s'"
| credential_read: "credential_for now sid s = (s', c) \<Longrightarrow> store_step s s'"
| ids_listed: "active_session_ids now s = (s', ids) \<Longrightarrow> store_step s s'"
| counted: "active_count now s = (s', n) \<Longrightarrow> store_step s s'"
| emptied: "store_step s (reset_store s)"

lemma clear_credential_inv:
  assumes inv: "store_inv s" and c: "clear_credential tokens now sid s = Some (s', r)"
  shows "store_inv s' \<and> ss_ttl s' = ss_ttl s \<and> ss_max s' = ss_max s"
proof -
  obtain s1 q where g: "get_or_create tokens now sid s = Some (s1, q)"
      and e: "(s', r) = (case q of Inl e \<Rightarrow> (s1, Inl e) | Inr x \<Rightarrow> (put_session (x\<lparr>os_credential := None\<rparr>) s1, Inr (x\<lparr>os_credential := None\<rparr>)))"
    using c by (auto simp: clear_credential_def Let_def)
  note p = get_or_create_spec [OF inv g]
  show ?thesis
  proof (cases q)
    case (Inl x)
    then show ?thesis using p e by simp
  next
    case (Inr x)
    have "store_inv (put_session (x\<lparr>os_credential := None\<rparr>) s1)"
      by (rule put_credential_inv [OF p(1) p(4) [OF Inr]]) simp
    then show ?thesis using p e Inr by simp
  qed
qed

lemma store_step_inv:
  assumes "store_step s s'" and inv: "store_inv s"
  shows "store_inv s' \<and> ss_ttl s' = ss_ttl s \<and> ss_max s' = ss_max s"
  using assms(1)
proof cases
  case opened
  then show ?thesis using get_or_create_spec [OF inv] by blast
next
  case required
  then show ?thesis using require_spec [OF inv] by blast
next
  case credential_set
  then show ?thesis
  proof (cases rule: set_credential_cases)
    case (1 s1 q)
    then show ?thesis using require_spec [OF inv] by blast
  next
    case (2 s1 x c)
    note p = require_spec [OF inv 2(1)]
    obtain i where i: "find_session i s1 = Some x" using p(4) by blast
    show ?thesis using p(2,3) 2 put_credential_inv [OF p(1) i, of "Some c"] by simp
  qed
next
  case credential_updated
  then show ?thesis
  proof (cases rule: update_credential_cases)
    case (1 s1 q)
    then show ?thesis using require_spec [OF inv] by blast
  next
    case (2 s1 x c)
    note p = require_spec [OF inv 2(1)]
    obtain i where i: "find_session i s1 = Some x" using p(4) by blast
    have "credential_ok c" using 2(3) find_ok [OF p(1) i] by (auto simp: session_ok_def credential_ok_def)
    then show ?thesis using p(2,3) 2 put_credential_inv [OF p(1) i, of "Some c"] by simp
  qed
next
  case credential_cleared
  then show ?thesis using clear_credential_inv [OF inv] by blast
next
  case credential_read
  then show ?thesis using require_spec [OF inv] by (auto simp: credential_for_def split: prod.splits sum.splits)
next
  case ids_listed
  then show ?thesis using cleanup_inv [OF inv] by (auto simp: active_session_ids_def Let_def)
next
  case counted
  then show ?thesis using cleanup_inv [OF inv] by (auto simp: active_count_def Let_def)
next
  case emptied
  then show ?thesis using inv by (auto simp: reset_store_def store_inv_def)
qed

text \<open>
  (C38) However the requests of the clients interleave, the store never holds more sessions than its limit, every session is
  found under its own identifier and expires one term after it was last seen, and every credential it holds has a key, a
  model and a public HTTPS endpoint.
\<close>

theorem session_store_invariant:
  assumes "new_store ttl_seconds max_active = Inr s0" and "store_step\<^sup>*\<^sup>* s0 s"
  shows "store_inv s \<and> ss_ttl s = ttl_seconds \<and> ss_max s = max_active"
  using assms(2)
proof (induction rule: rtranclp_induct)
  case base
  then show ?case using assms(1) by (auto simp: new_store_def store_inv_def split: if_splits)
next
  case (step s1 s2)
  then show ?case using store_step_inv by metis
qed

theorem session_store_invariant_witness:
  "\<exists>s0 s r. new_store 60 1 = Inr s0 \<and> get_or_create (\<lambda>n. ''abc'') 5 None s0 = Some (s, Inr r) \<and> os_session_id r = ''abc'' \<and> store_inv s"
proof -
  let ?s0 = "\<lparr>ss_ttl = 60, ss_max = 1, ss_sessions = []\<rparr>"
  let ?r = "\<lparr>os_session_id = ''abc'', os_created_at = 5, os_last_seen_at = 5, os_expires_at = 65, os_credential = None\<rparr>"
  have n: "new_store 60 1 = Inr ?s0" by (simp add: new_store_def)
  have d: "draw_id (\<lambda>n. ''abc'') [] 0 = Some ''abc''" by (subst draw_id.simps) simp
  have g: "get_or_create (\<lambda>n. ''abc'') 5 None ?s0 = Some (put_session ?r ?s0, Inr ?r)"
    by (simp add: get_or_create_def create_session_def cleanup_def d Let_def)
  have "store_step\<^sup>*\<^sup>* ?s0 (put_session ?r ?s0)" using opened [OF g] by blast
  from session_store_invariant [OF n this] g n show ?thesis by auto
qed

text \<open>
  A session is handed out only while it has not expired, with its time renewed; an expired one is refused and removed,
  and no operation on behalf of one client changes the session of another that has not expired.
\<close>

theorem session_isolated:
  assumes inv: "store_inv s" and op: "require now sid s = (s', r) \<or>
      set_credential ip_text resolver now sid provider base_url model key s = (s', r) \<or>
      update_credential ip_text resolver now sid provider base_url model k s = (s', r)"
    and other: "sid \<noteq> Some j" "find_session j s = Some z" "\<not> is_expired z now"
  shows "find_session j s' = Some z \<and> (case r of Inl e \<Rightarrow> True | Inr x \<Rightarrow> \<exists>i y. sid = Some i \<and> os_session_id x = i \<and>
    find_session i s = Some y \<and> \<not> is_expired y now \<and> os_expires_at x = now + ss_ttl s)"
proof -
  have req: "find_session j s1 = Some z \<and> (\<forall>x. q = Inr x \<longrightarrow> (\<exists>i y. sid = Some i \<and> os_session_id x = i \<and>
      find_session i s = Some y \<and> \<not> is_expired y now \<and> os_expires_at x = now + ss_ttl s))"
    if "require now sid s = (s1, q)" for s1 q
    using require_spec(4,5) [OF inv that] other by blast
  obtain s1 q where q: "require now sid s = (s1, q)" by (metis prod.collapse)
  have "(s', r) = (s1, q) \<or> (s' = s1 \<and> isl r) \<or> (\<exists>x c. q = Inr x \<and> s' = put_session (x\<lparr>os_credential := c\<rparr>) s1 \<and> r = Inr (x\<lparr>os_credential := c\<rparr>))"
    using op q
    by (auto simp: set_credential_def update_credential_def Let_def split: sum.splits if_splits option.splits)
  then show ?thesis
  proof (elim disjE conjE exE)
    assume "(s', r) = (s1, q)"
    then show ?thesis using req [OF q] by (simp split: sum.split)
  next
    assume "s' = s1" "isl r"
    then show ?thesis using req [OF q] by (cases r) simp_all
  next
    fix x c assume x: "q = Inr x" "s' = put_session (x\<lparr>os_credential := c\<rparr>) s1" "r = Inr (x\<lparr>os_credential := c\<rparr>)"
    then have "os_session_id x \<noteq> j" using req [OF q] other(1) by auto
    then show ?thesis using req [OF q] x by auto
  qed
qed

definition sample_session :: "string \<Rightarrow> OnlineSession" where
  "sample_session i = \<lparr>os_session_id = i, os_created_at = 0, os_last_seen_at = 0, os_expires_at = 60, os_credential = None\<rparr>"

definition sample_store :: session_store where
  "sample_store = \<lparr>ss_ttl = 60, ss_max = 2, ss_sessions = [(''a'', sample_session ''a''), (''b'', sample_session ''b'')]\<rparr>"

theorem session_isolated_witness:
  "find_session ''b'' (fst (require 10 (Some ''a'') sample_store)) = Some (sample_session ''b'') \<and>
   snd (require 70 (Some ''a'') sample_store) = Inl (OnlineSessionExpired ''ONLINE_SAFE session expired'')"
proof
  have inv: "store_inv sample_store" by (simp add: store_inv_def sample_store_def sample_session_def session_ok_def)
  have b: "find_session ''b'' sample_store = Some (sample_session ''b'')" "\<not> is_expired (sample_session ''b'') 10"
    by (simp_all add: sample_store_def sample_session_def is_expired_def)
  have "require 10 (Some ''a'') sample_store = (fst (require 10 (Some ''a'') sample_store), snd (require 10 (Some ''a'') sample_store))"
    by simp
  from session_isolated [OF inv disjI1 [OF this] _ b] show "find_session ''b'' (fst (require 10 (Some ''a'') sample_store)) = Some (sample_session ''b'')"
    by simp
  show "snd (require 70 (Some ''a'') sample_store) = Inl (OnlineSessionExpired ''ONLINE_SAFE session expired'')"
    by (simp add: require_def sample_store_def sample_session_def is_expired_def)
qed

text \<open>
  When the identifiers that are drawn never repeat, opening a session always answers: the live session that was asked
  for, a new one, or the error that the limit is reached, and the latter exactly when as many sessions are alive.
\<close>

theorem session_opened:
  assumes inv: "store_inv s" and inj: "inj tokens"
  shows "\<exists>s' r. get_or_create tokens now sid s = Some (s', r) \<and>
    ((\<exists>e. r = Inl e) = (ss_max s \<le> int (length (ss_sessions (cleanup now s))) \<and>
       (case sid of None \<Rightarrow> True | Some i \<Rightarrow> i = [] \<or> find_session i (cleanup now s) = None)))"
proof -
  let ?s = "cleanup now s"
  obtain m where m: "draw_id tokens (map fst (ss_sessions ?s)) 0 = Some (tokens m)" using draw_id_total [OF inj] by blast
  have alive: "\<not> is_expired y now" if "find_session i ?s = Some y" for i y
    using that find_cleanup [OF inv, where i = i and now = now] by (auto split: option.splits if_splits)
  show ?thesis
  proof (cases "case sid of None \<Rightarrow> True | Some i \<Rightarrow> i = [] \<or> find_session i ?s = None")
    case True
    then have "get_or_create tokens now sid s = create_session tokens now ?s"
      by (auto simp: get_or_create_def Let_def split: option.splits)
    then show ?thesis using m True by (auto simp: create_session_def Let_def)
  next
    case False
    then obtain i y where i: "sid = Some i" "i \<noteq> []" "find_session i ?s = Some y" by (auto split: option.splits)
    then have "get_or_create tokens now sid s = Some (fst (touch now y ?s), Inr (snd (touch now y ?s)))"
      using alive by (simp add: get_or_create_def Let_def split: prod.split)
    then show ?thesis using False by auto
  qed
qed

theorem session_opened_witness:
  "\<exists>s' r. get_or_create (\<lambda>n. replicate (Suc n) (CHR ''x'')) 70 (Some ''a'') sample_store = Some (s', Inr r)"
proof -
  have inv: "store_inv sample_store" by (simp add: store_inv_def sample_store_def sample_session_def session_ok_def)
  have inj: "inj (\<lambda>n. replicate (Suc n) (CHR ''x''))" by (rule injI) (metis length_replicate nat.inject)
  have "ss_sessions (cleanup 70 sample_store) = []" "ss_max sample_store = 2"
    by (simp_all add: cleanup_def sample_store_def sample_session_def is_expired_def)
  with session_opened [OF inv inj, of 70 "Some ''a''"] obtain s' r where
      r: "get_or_create (\<lambda>n. replicate (Suc n) (CHR ''x'')) 70 (Some ''a'') sample_store = Some (s', r)" "\<not> (\<exists>e. r = Inl e)"
    by auto
  then show ?thesis by (cases r) auto
qed

end
