(* ===== verification/ChangeFlow.thy ===== *)
theory ChangeFlow
  imports Git Impact Sessions
begin

section \<open>ChangeFlow: from a confirmed proposal to the authority to change files\<close>

text \<open>
  \<^verbatim>\<open>orchestration/change_flow.py\<close>: the confirmation of a proposal, the analysis of its impact, the decision about
  it and what follows from the decision. The operation composes the review of proposals, the git service, the impact
  analyses, the evidence bundle, the report service, the decision service, the approval requests and the policy
  compiler. What the program does not compute is in \<open>flow_env\<close>: the git command line and the files of a project root,
  the index tables, the digests, the decoder and the provider of the report service, the environment variables, and
  the ids and the time of the new rows.
\<close>

subsection \<open>The parameters and the rules\<close>

record flow_env =
  fe_git :: "string \<Rightarrow> git_cli"
  fe_reader :: "string \<Rightarrow> string \<Rightarrow> string option"
  fe_tests :: "string \<Rightarrow> (string \<times> string) list"
  fe_tables :: code_tables
  fe_digest :: "json \<Rightarrow> string"
  fe_proposal_digest :: "string \<times> int \<times> json_text \<times> json_text \<Rightarrow> string"
  fe_decoder :: decoder
  fe_provider :: "LLMRequest \<Rightarrow> LLMResponse result"
  fe_expand :: "string \<Rightarrow> string"
  fe_repo :: string
  fe_backend :: string
  fe_environ :: environ
  fe_report_id :: string
  fe_iteration_id :: string
  fe_action_id :: string
  fe_decision_id :: string
  fe_request_id :: string
  fe_policy_id :: string
  fe_now :: int

record ConfirmFlowResult =
  fr_proposal :: ChangeProposal
  fr_impact_report :: ImpactReport
  fr_governance_decision :: GovernanceDecision
  fr_approval_request :: "ApprovalRequest option"

definition sensitive_env_rule :: RuleDefinition where
  "sensitive_env_rule = \<lparr>rd_key = ''sensitive-env'', rd_name = ''Sensitive env files'', rd_scope = GovernanceRuleScope.SYSTEM,
     rd_effect = GovernanceRuleEffect.DENY_HARD, rd_priority = 100, rd_patterns = [''.env'', ''*.env'', ''*secret*''],
     rd_conditions = JObj [], rd_reason = ''Sensitive credential or environment files are blocked.'',
     rd_overridable = False, rd_project_id = None, rd_enabled = True, rd_version = 1\<rparr>"

definition auth_public_rule :: RuleDefinition where
  "auth_public_rule = \<lparr>rd_key = ''auth-public'', rd_name = ''Auth or public behavior'', rd_scope = GovernanceRuleScope.SYSTEM,
     rd_effect = GovernanceRuleEffect.REQUIRE_APPROVAL, rd_priority = 50, rd_patterns = [''*auth*'', ''*public*''],
     rd_conditions = JObj [], rd_reason = ''Public or authentication-related changes require user approval.'',
     rd_overridable = True, rd_project_id = None, rd_enabled = True, rd_version = 1\<rparr>"

definition flow_rules :: "RuleDefinition list" where
  "flow_rules = [sensitive_env_rule, auth_public_rule]"

definition flow_commands :: "flow_env \<Rightarrow> string list result" where
  "flow_commands env =
     rbind (get_runtime_settings (fe_expand env) (fe_repo env) (fe_backend env) (fe_environ env)) (\<lambda>settings.
       Inr (if rs_profile settings = RuntimeProfile.ONLINE_SAFE then [''APPLY_APPROVED_CHANGES''] else [''RUN_COMMAND'']))"

definition proposal_digest :: "flow_env \<Rightarrow> ChangeProposal \<Rightarrow> string" where
  "proposal_digest env proposal =
     fe_proposal_digest env (pr_id proposal, pr_version proposal, pr_initial_scope_json proposal, pr_acceptance_criteria_json proposal)"

fun flow_json_tuple :: "json_text \<Rightarrow> string list result" where
  "flow_json_tuple JBlank = Inr []"
| "flow_json_tuple JGarbage = Inl (ValueError ''JSONDecodeError'')"
| "flow_json_tuple (JText (JList data)) = Inr (map json_str data)"
| "flow_json_tuple (JText _) = Inr []"

subsection \<open>Evidence\<close>

definition kind_for_ref :: "string \<Rightarrow> string" where
  "kind_for_ref ref =
     (if startswith ref ''code-index://'' then ''code-index''
      else if startswith ref ''relation://'' then ''relation''
      else if startswith ref ''source://'' then ''source''
      else if startswith ref ''diff://'' then ''diff''
      else ''repository'')"

definition flow_evidence_item :: "string \<Rightarrow> string \<Rightarrow> EvidenceItem" where
  "flow_evidence_item revision ref =
     \<lparr>ei_evidence_id = ref, ei_kind = kind_for_ref ref, ei_revision = revision, ei_uri = ref,
      ei_summary = ''Repository evidence '' @ ref, ei_freshness = ''fresh'',
      ei_confidence = (if py_in ''unknown'' ref then ''unknown'' else ''confirmed''), ei_verified = True\<rparr>"

definition flow_evidence_items :: "string \<Rightarrow> DirectImpact list \<Rightarrow> string list \<Rightarrow> EvidenceItem list" where
  "flow_evidence_items revision direct_impacts indirect_refs =
     map (flow_evidence_item revision) (dedupe (concat (map di_evidence_refs direct_impacts) @ indirect_refs))"

subsection \<open>The steps of the flow\<close>

text \<open>The two analyses with the default limits of the expansion, the bundle and the report.\<close>

definition analyze_proposal :: "flow_env \<Rightarrow> string \<Rightarrow> string \<Rightarrow> Project \<Rightarrow> string \<Rightarrow> string list \<Rightarrow> db \<Rightarrow> ImpactReport action_result" where
  "analyze_proposal env task_id proposal_id project revision scope d =
     (let prepared =
        rbind (scoped_diff (fe_git env (pj_root_path project)) scope) (\<lambda>diff_text.
        rbind (analyze (fe_reader env (pj_root_path project)) (fe_tests env (pj_root_path project)) d (fe_tables env)
                 (pj_id project) revision scope diff_text) (\<lambda>direct.
          let indirect = expand d (fe_tables env) (pj_id project) revision (dr_impacts direct) 3 50;
              items = flow_evidence_items revision (dr_impacts direct) (concat (map ii_evidence_refs (in_impacts indirect)));
              unknowns = dr_unknowns direct @ in_unknowns indirect
          in rbind (bundle_build (fe_digest env) items task_id revision (map ei_evidence_id items) unknowns) (\<lambda>bundle.
               Inr (direct, indirect, unknowns, bundle))))
      in case prepared of
           Inl e \<Rightarrow> (d, Inl e)
         | Inr (direct, indirect, unknowns, bundle) \<Rightarrow>
             generate_report (fe_decoder env) (fe_provider env) (fe_report_id env) task_id proposal_id revision bundle
               (dr_impacts direct) (in_impacts indirect) unknowns d)"

definition governance_key :: "string \<Rightarrow> string" where
  "governance_key proposal_id = ''proposal-governance:'' @ proposal_id"

definition ensure_proposal_action :: "flow_env \<Rightarrow> string \<Rightarrow> string \<Rightarrow> string list \<Rightarrow> db \<Rightarrow> db \<times> AgentActionRow" where
  "ensure_proposal_action env task_id proposal_id scope d =
     (case find (\<lambda>a. ac_task_id a = task_id \<and> ac_idempotency_key a = governance_key proposal_id) (actions d) of
        Some existing \<Rightarrow> (d, existing)
      | None \<Rightarrow>
          let iteration_number =
                max_or_0 (map it_iteration_number (filter (\<lambda>i. it_task_id i = task_id) (iterations d))) + 1;
              iteration = \<lparr>it_id = fe_iteration_id env, it_task_id = task_id, it_iteration_number = iteration_number,
                it_phase = TaskIterationPhase.ANALYZE, it_context_token_count = None, it_result = None\<rparr>;
              action = \<lparr>ac_id = fe_action_id env, ac_task_id = task_id, ac_iteration_id = fe_iteration_id env,
                ac_llm_call_id = None, ac_action_sequence = 1, ac_action_type = ActionType.RUN_COMMAND,
                ac_parameters_summary = JText (JObj [(''command'', JStr ''RUN_COMMAND''), (''proposal_id'', JStr proposal_id),
                  (''scope'', JList (map JStr scope))]),
                ac_parameters_artifact_ref = None, ac_schema_version = ''proposal-governance-v1'',
                ac_parse_status = ParseStatus.VALID, ac_risk_level = Some RiskLevel.LOW,
                ac_status = AgentActionStatus.GOVERNING, ac_idempotency_key = governance_key proposal_id,
                ac_created_at = fe_now env\<rparr>
          in (d\<lparr>iterations := iterations d @ [iteration], actions := actions d @ [action]\<rparr>, action))"

text \<open>What follows from the decision: a request, and a policy, a wait for approval or a block.\<close>

definition settle_decision :: "flow_env \<Rightarrow> string \<Rightarrow> string list \<Rightarrow> GovernanceDecision \<Rightarrow> db \<Rightarrow> ApprovalRequest option action_result" where
  "settle_decision env task_id scope decision d =
     (case create_for_decision (fe_request_id env) (gd_id decision) scope d of
        (d1, Inl e) \<Rightarrow> (d1, Inl e)
      | (d1, Inr approval) \<Rightarrow>
          if gd_decision decision = GovernanceVerdict.ALLOW then
            (case flow_commands env of
               Inl e \<Rightarrow> (d1, Inl e)
             | Inr commands \<Rightarrow>
                 (case compile (fe_policy_id env) (gd_id decision) scope scope commands [] (JObj []) (JObj []) d1 of
                    (d2, Inl e) \<Rightarrow> (d2, Inl e)
                  | (d2, Inr policy) \<Rightarrow>
                      (update_task task_id (\<lambda>t. t\<lparr>tk_active_policy_id := Some (ep_id policy),
                         tk_status := TaskStatus.ACTION_PENDING\<rparr>) d2, Inr approval)))
          else if gd_decision decision = GovernanceVerdict.WARN
          then (update_task task_id (\<lambda>t. t\<lparr>tk_status := TaskStatus.APPROVAL_REQUIRED\<rparr>) d1, Inr approval)
          else (update_task task_id (\<lambda>t. t\<lparr>tk_status := TaskStatus.BLOCKED\<rparr>) d1, Inr approval))"

definition govern_proposal ::
    "flow_env \<Rightarrow> string \<Rightarrow> ChangeProposal \<Rightarrow> string \<Rightarrow> string list \<Rightarrow> ImpactReport \<Rightarrow> db \<Rightarrow> ConfirmFlowResult action_result" where
  "govern_proposal env task_id proposal revision scope report d =
     (let (d1, action) = ensure_proposal_action env task_id (pr_id proposal) scope d
      in case evaluate (fe_digest env) (fe_decision_id env) task_id (Some (ac_id action)) (proposal_digest env proposal) revision
           flow_rules scope GovernanceVerdict.ALLOW None d1 of
           (d2, Inl e) \<Rightarrow> (d2, Inl e)
         | (d2, Inr evaluated) \<Rightarrow>
             let decision = evaluated\<lparr>gd_impact_report_id := Some (ir_id report)\<rparr>;
                 d3 = d2\<lparr>decisions := set_row gd_id (gd_id decision)
                   (\<lambda>g. g\<lparr>gd_impact_report_id := Some (ir_id report)\<rparr>) (decisions d2)\<rparr>
             in case settle_decision env task_id scope decision d3 of
                  (d4, Inl e) \<Rightarrow> (d4, Inl e)
                | (d4, Inr approval) \<Rightarrow>
                    (d4, Inr \<lparr>fr_proposal = proposal, fr_impact_report = report, fr_governance_decision = decision,
                       fr_approval_request = approval\<rparr>))"

definition flow_revision :: "flow_env \<Rightarrow> ChangeTask \<Rightarrow> Project \<Rightarrow> string result" where
  "flow_revision env task project =
     (case tk_base_revision task of
        None \<Rightarrow> base_revision (fe_git env (pj_root_path project))
      | Some r \<Rightarrow> if r = [] then base_revision (fe_git env (pj_root_path project)) else Inr r)"

definition confirm_and_analyze :: "flow_env \<Rightarrow> string \<Rightarrow> string \<Rightarrow> db \<Rightarrow> ConfirmFlowResult action_result" where
  "confirm_and_analyze env proposal_id actor_id d =
     (case get_proposal d proposal_id of
        None \<Rightarrow> (d, Inl (ValueError ''proposal not found''))
      | Some _ \<Rightarrow>
          (case confirm_new_version proposal_id actor_id d of
             (d1, Inl e) \<Rightarrow> (d1, Inl e)
           | (d1, Inr _) \<Rightarrow>
               (case get_proposal d1 proposal_id of
                  None \<Rightarrow> (d1, Inl (ValueError ''proposal not found''))
                | Some proposal \<Rightarrow>
                    (let task_id = pr_task_id proposal;
                         d2 = update_task task_id (\<lambda>t. t\<lparr>tk_status := TaskStatus.GOVERNING\<rparr>) d1
                     in case get_task d2 task_id of
                          None \<Rightarrow> (d1, Inl (AttributeError ''status''))
                        | Some task \<Rightarrow>
                            (case rbind (flow_json_tuple (pr_initial_scope_json proposal)) canonical_project_paths of
                               Inl e \<Rightarrow> (d2, Inl e)
                             | Inr scope \<Rightarrow>
                                 if scope = [] then (d2, Inl (ValueError ''confirmed proposal has no impact scope''))
                                 else
                                   (case get_row pj_id (tk_project_id task) (projects d2) of
                                      None \<Rightarrow> (d2, Inl (ValueError ''project not found''))
                                    | Some project \<Rightarrow>
                                        (case flow_revision env task project of
                                           Inl e \<Rightarrow> (d2, Inl e)
                                         | Inr revision \<Rightarrow>
                                             (case analyze_proposal env task_id (pr_id proposal) project revision scope d2 of
                                                (d3, Inl e) \<Rightarrow> (d3, Inl e)
                                              | (d3, Inr report) \<Rightarrow>
                                                  govern_proposal env task_id proposal revision scope report d3))))))))"

subsection \<open>Which paths the rules of the flow stop\<close>

definition rule_covers :: "RuleDefinition \<Rightarrow> string \<Rightarrow> bool" where
  "rule_covers rule path = list_ex (\<lambda>pattern. fnmatch path pattern \<or> py_in pattern path) (rd_patterns rule)"

definition flow_verdict :: "string list \<Rightarrow> GovernanceVerdict" where
  "flow_verdict paths =
     (if list_ex (rule_covers sensitive_env_rule) paths then GovernanceVerdict.BLOCK
      else if list_ex (rule_covers auth_public_rule) paths then GovernanceVerdict.WARN
      else GovernanceVerdict.ALLOW)"

lemma rule_effects [simp]:
  "rd_effect sensitive_env_rule = GovernanceRuleEffect.DENY_HARD"
  "rd_effect auth_public_rule = GovernanceRuleEffect.REQUIRE_APPROVAL"
  by (simp_all add: sensitive_env_rule_def auth_public_rule_def)

lemma set_matched_flow_rules:
  "r \<in> set (matched_rules flow_rules paths) \<longleftrightarrow> (r = sensitive_env_rule \<or> r = auth_public_rule) \<and> list_ex (rule_covers r) paths"
  by (auto simp: set_matched_rules flow_rules_def pattern_matches_def rule_covers_def list_ex_iff)

lemma matched_flow_rules:
  "(\<forall>r \<in> set (matched_rules flow_rules paths). P r) \<longleftrightarrow>
     (list_ex (rule_covers sensitive_env_rule) paths \<longrightarrow> P sensitive_env_rule) \<and> (list_ex (rule_covers auth_public_rule) paths \<longrightarrow> P auth_public_rule)"
  "(\<exists>r \<in> set (matched_rules flow_rules paths). P r) \<longleftrightarrow>
     list_ex (rule_covers sensitive_env_rule) paths \<and> P sensitive_env_rule \<or> list_ex (rule_covers auth_public_rule) paths \<and> P auth_public_rule"
  by (auto simp: Ball_def Bex_def set_matched_flow_rules)

lemma flow_decision:
  assumes "canonical_project_paths scope = Inr paths"
  obtains dec where
    "evaluate digest i t (Some a) ph revision flow_rules scope GovernanceVerdict.ALLOW None d = (d\<lparr>decisions := decisions d @ [dec]\<rparr>, Inr dec)"
    "gd_decision dec = flow_verdict paths" "gd_approval_required dec \<longleftrightarrow> flow_verdict paths = GovernanceVerdict.WARN"
    "gd_id dec = i" "gd_task_id dec = t" "gd_action_id dec = Some a" "gd_status dec = GovernanceDecisionStatus.ACTIVE" "gd_revision dec = revision"
proof -
  let ?v = "decide_verdict (matched_rules flow_rules paths) paths GovernanceVerdict.ALLOW None"
  let ?dec = "decision_row digest i t (Some a) ph revision flow_rules paths GovernanceVerdict.ALLOW None"
  obtain verdict risk approval reason allowed denied where v: "?v = (verdict, risk, approval, reason, allowed, denied)"
    by (cases ?v)
  from v have "verdict = flow_verdict paths \<and> (approval \<longleftrightarrow> flow_verdict paths = GovernanceVerdict.WARN)"
    by (cases rule: decide_verdict_cases) (auto simp: matched_flow_rules flow_verdict_def)
  with v show thesis
    by (intro that [of ?dec]) (simp_all add: evaluate_def assms decision_row_def Let_def)
qed

subsection \<open>What the steps leave alone\<close>

lemma report_frame: "generate_report dc pv i t p rv b ds ins us d = (d', r) \<Longrightarrow> \<exists>rs. d' = d\<lparr>impact_reports := rs\<rparr>"
  by (auto simp: generate_report_def stale_current_reports_def Let_def split: sum.splits if_splits prod.splits)
     (metis (no_types, lifting) db.surjective db.update_convs(7))+

lemma analyze_frame:
  assumes "analyze_proposal env t p project revision scope d = (d', r)"
  shows "\<exists>rs. d' = d\<lparr>impact_reports := rs\<rparr>"
proof -
  have self: "d = d\<lparr>impact_reports := impact_reports d\<rparr>" by simp
  show ?thesis
    using assms unfolding analyze_proposal_def Let_def
    by (auto split: sum.splits prod.splits dest: report_frame intro: exI [of _ "impact_reports d"])
qed

lemma action_frame:
  assumes "ensure_proposal_action env t p scope d = (d', a)"
  shows "d' = d\<lparr>iterations := iterations d', actions := actions d'\<rparr>"
  using assms by (auto simp: ensure_proposal_action_def Let_def split: option.splits)

lemma map_set_where: "(\<And>r. k (f r) = k r) \<Longrightarrow> map k (set_where P f rows) = map k rows"
  by (induction rows) (simp_all add: set_where_def)

lemma confirm_keeps_ids:
  assumes "confirm_new_version pid actor d = (d', Inr res)"
  shows "map gd_id (decisions d') = map gd_id (decisions d)"
    and "map ar_governance_decision_id (approval_requests d') = map ar_governance_decision_id (approval_requests d)"
  using assms
  by (auto simp: confirm_new_version_def supersede_other_proposals_def invalidate_downstream_state_def supersede_policies_def
      supersede_requests_def supersede_decisions_def map_set_where Let_def split: option.splits if_splits)
subsection \<open>The authority a confirmation gives\<close>

text \<open>
  What a settled decision leaves for the paths that were judged: an allowed change has one active, executable policy
  that permits writing exactly these paths; a change that needs approval has a pending request and no active policy; a
  blocked one has neither.
\<close>

definition settled_authority :: "flow_env \<Rightarrow> string list \<Rightarrow> string list \<Rightarrow> ChangeTask \<Rightarrow> GovernanceDecision \<Rightarrow> ApprovalRequest option \<Rightarrow> db \<Rightarrow> bool" where
  "settled_authority env scope paths task dec approval d =
     (let active = filter (active_policy_of (tk_id task)) (policies d)
      in case gd_decision dec of
           GovernanceVerdict.ALLOW \<Rightarrow> tk_status task = TaskStatus.ACTION_PENDING \<and> approval = None \<and>
             (\<exists>p commands. active = [p] \<and> ep_executable p \<and> ep_governance_decision_id p = gd_id dec \<and>
                ep_write_paths_json p = json_dumps_strings (sort paths) \<and>
                flow_commands env = Inr commands \<and> ep_commands_json p = json_dumps_strings (sort commands) \<and>
                tk_active_policy_id task = Some (ep_id p))
         | GovernanceVerdict.WARN \<Rightarrow> tk_status task = TaskStatus.APPROVAL_REQUIRED \<and> active = [] \<and>
             (\<exists>q. approval = Some q \<and> q \<in> set (approval_requests d) \<and> ar_governance_decision_id q = gd_id dec \<and>
                ar_status q = ApprovalRequestStatus.PENDING \<and> ar_requested_scope_json q = json_dumps_strings (sort scope))
         | GovernanceVerdict.BLOCK \<Rightarrow> tk_status task = TaskStatus.BLOCKED \<and> active = [] \<and> approval = None)"

lemma create_fresh:
  assumes "create_for_decision i (gd_id dec) scope d = (d', Inr a)" and "get_decision d (gd_id dec) = Some dec"
    and "gd_action_id dec = Some x" and "gd_approval_required dec \<longleftrightarrow> gd_decision dec = GovernanceVerdict.WARN"
    and "gd_id dec \<notin> set (map ar_governance_decision_id (approval_requests d))"
  shows "if gd_decision dec = GovernanceVerdict.WARN
    then a = Some (request_row i dec x (sort scope)) \<and> d' = d\<lparr>approval_requests := approval_requests d @ [request_row i dec x (sort scope)]\<rparr>
    else a = None \<and> d' = d"
proof -
  have "find (\<lambda>r. ar_governance_decision_id r = gd_id dec \<and> Some (ar_action_id r) = gd_action_id dec \<and>
     ar_proposal_hash r = gd_proposal_hash dec \<and> ar_decision_revision r = gd_revision dec \<and> open_request (ar_status r))
     (approval_requests d) = None"
    using assms(5) by (auto simp: find_None_iff image_iff)
  then show ?thesis
    using assms(1-4) by (auto simp: create_for_decision_def Let_def split: if_splits)
qed

lemma settle_decision_settles:
  assumes run: "settle_decision env t scope dec d = (d', Inr a)"
    and row: "get_decision d (gd_id dec) = Some dec" "gd_task_id dec = t" "gd_action_id dec = Some x"
      "gd_approval_required dec \<longleftrightarrow> gd_decision dec = GovernanceVerdict.WARN"
    and fresh: "gd_id dec \<notin> set (map ar_governance_decision_id (approval_requests d))"
    and none: "filter (active_policy_of t) (policies d) = []"
    and paths: "canonical_project_paths scope = Inr paths" and task: "get_task d t = Some task"
  shows "\<exists>task'. get_task d' t = Some task' \<and> settled_authority env scope paths task' dec a d'"
proof -
  have t: "tk_id task = t" using task by auto
  obtain d1 where c: "create_for_decision (fe_request_id env) (gd_id dec) scope d = (d1, Inr a)"
    using run by (auto simp: settle_decision_def split: prod.splits sum.splits if_splits)
  note cf = create_fresh [OF c row(1,3,4) fresh]
  show ?thesis
  proof (cases "gd_decision dec")
    case ALLOW
    then have d1: "d1 = d" "a = None" using cf by auto
    obtain commands d2 p where r: "flow_commands env = Inr commands"
        "compile (fe_policy_id env) (gd_id dec) scope scope commands [] (JObj []) (JObj []) d = (d2, Inr p)"
        "d' = update_task t (\<lambda>t. t\<lparr>tk_active_policy_id := Some (ep_id p), tk_status := TaskStatus.ACTION_PENDING\<rparr>) d2"
      using run c ALLOW unfolding d1 by (auto simp: settle_decision_def split: prod.splits sum.splits)
    from r(2) obtain dec0 action_id reads writes prots where w: "get_decision d (gd_id dec) = Some dec0"
        "gd_action_id dec0 = Some action_id" "canonical_project_paths scope = Inr reads" "canonical_project_paths scope = Inr writes"
        "p = policy_row (fe_policy_id env) dec0 action_id (approved_request dec0 d)
          (gd_decision dec0 \<noteq> GovernanceVerdict.BLOCK \<and> (gd_decision dec0 = GovernanceVerdict.ALLOW \<or> approved_request dec0 d \<noteq> None)) (sort reads)
          (if gd_decision dec0 \<noteq> GovernanceVerdict.BLOCK \<and> (gd_decision dec0 = GovernanceVerdict.ALLOW \<or> approved_request dec0 d \<noteq> None) then sort writes else [])
          (if gd_decision dec0 \<noteq> GovernanceVerdict.BLOCK \<and> (gd_decision dec0 = GovernanceVerdict.ALLOW \<or> approved_request dec0 d \<noteq> None) then sort commands else [])
          (sort prots) (JObj []) (JObj [])"
        "d2 = d\<lparr>policies := set_where (active_policy_of (gd_task_id dec0)) (\<lambda>p. p\<lparr>ep_status := ExecutionPolicyStatus.SUPERSEDED\<rparr>) (policies d) @ [p]\<rparr>"
      by (rule compile_Inr)
    have eq: "dec0 = dec" "writes = paths" using w(1,4) row(1) paths by auto
    have "filter (active_policy_of t) (policies d') = [p]"
      using w(6) row(2) unfolding eq r(3) by (simp add: update_task_def no_active_after_supersede) (simp add: active_policy_of_def w(5) eq)
    moreover have "get_task d' t = Some (task\<lparr>tk_active_policy_id := Some (ep_id p), tk_status := TaskStatus.ACTION_PENDING\<rparr>)"
      using task w(6) r(3) by (simp add: update_task_def table_simps)
    ultimately show ?thesis
      using ALLOW d1 r(1) w(5) eq t by (auto simp: settled_authority_def Let_def)
  next
    case WARN
    then have d': "d' = update_task t (\<lambda>t. t\<lparr>tk_status := TaskStatus.APPROVAL_REQUIRED\<rparr>)
        (d\<lparr>approval_requests := approval_requests d @ [request_row (fe_request_id env) dec x (sort scope)]\<rparr>)"
        "a = Some (request_row (fe_request_id env) dec x (sort scope))"
      using run c cf by (auto simp: settle_decision_def)
    then show ?thesis
      using WARN task none t by (auto simp: settled_authority_def update_task_def table_simps request_row_def)
  next
    case BLOCK
    then have "d' = update_task t (\<lambda>t. t\<lparr>tk_status := TaskStatus.BLOCKED\<rparr>) d" "a = None"
      using run c cf by (auto simp: settle_decision_def)
    then show ?thesis
      using BLOCK task none t by (auto simp: settled_authority_def update_task_def table_simps)
  qed
qed
definition judged_scope :: "ChangeProposal \<Rightarrow> string list result" where
  "judged_scope proposal = rbind (flow_json_tuple (pr_initial_scope_json proposal)) canonical_project_paths"

lemma govern_settles:
  assumes run: "govern_proposal env t proposal revision scope report d = (d', Inr r)"
    and fresh: "fe_decision_id env \<notin> set (map gd_id (decisions d))"
      "fe_decision_id env \<notin> set (map ar_governance_decision_id (approval_requests d))"
    and none: "filter (active_policy_of t) (policies d) = []" and task: "get_task d t = Some task"
  shows "\<exists>paths task'. canonical_project_paths scope = Inr paths \<and> get_task d' t = Some task' \<and>
    gd_decision (fr_governance_decision r) = flow_verdict paths \<and> fr_impact_report r = report \<and> fr_proposal r = proposal \<and>
    gd_impact_report_id (fr_governance_decision r) = Some (ir_id report) \<and> gd_revision (fr_governance_decision r) = revision \<and>
    settled_authority env scope paths task' (fr_governance_decision r) (fr_approval_request r) d'"
proof -
  obtain d1 action where a: "ensure_proposal_action env t (pr_id proposal) scope d = (d1, action)" by (metis prod.collapse)
  have same: "decisions d1 = decisions d" "approval_requests d1 = approval_requests d" "policies d1 = policies d" "tasks d1 = tasks d"
    by (subst action_frame [OF a], simp)+
  obtain paths where paths: "canonical_project_paths scope = Inr paths"
    using run a by (cases "canonical_project_paths scope") (auto simp: govern_proposal_def evaluate_def)
  obtain dec where e: "evaluate (fe_digest env) (fe_decision_id env) t (Some (ac_id action)) (proposal_digest env proposal) revision
        flow_rules scope GovernanceVerdict.ALLOW None d1 = (d1\<lparr>decisions := decisions d1 @ [dec]\<rparr>, Inr dec)"
      "gd_decision dec = flow_verdict paths" "gd_approval_required dec \<longleftrightarrow> flow_verdict paths = GovernanceVerdict.WARN"
      "gd_id dec = fe_decision_id env" "gd_task_id dec = t" "gd_action_id dec = Some (ac_id action)" "gd_revision dec = revision"
    by (rule flow_decision [OF paths])
  let ?dec = "dec\<lparr>gd_impact_report_id := Some (ir_id report)\<rparr>"
  let ?d3 = "d1\<lparr>decisions := set_row gd_id (gd_id dec) (\<lambda>g. g\<lparr>gd_impact_report_id := Some (ir_id report)\<rparr>) (decisions d1 @ [dec])\<rparr>"
  obtain q where s: "settle_decision env t scope ?dec ?d3 = (d', Inr q)"
      "r = \<lparr>fr_proposal = proposal, fr_impact_report = report, fr_governance_decision = ?dec, fr_approval_request = q\<rparr>"
    using run a e(1) by (auto simp: govern_proposal_def Let_def split: prod.splits sum.splits)
  have "get_row gd_id (gd_id dec) (decisions d1) = None"
    using fresh(1) unfolding get_row_None_iff same e(4) by force
  then have row: "get_decision ?d3 (gd_id ?dec) = Some ?dec" by (simp add: table_simps)
  have "\<exists>task'. get_task d' t = Some task' \<and> settled_authority env scope paths task' ?dec q d'"
    using settle_decision_settles [OF s(1) row _ _ _ _ _ paths, of "ac_id action" task] e fresh(2) none task by (simp add: same)
  then show ?thesis using paths s(2) e by auto
qed

text \<open>The steps of a run that succeeds.\<close>

lemma flow_steps:
  assumes run: "confirm_and_analyze env pid actor d = (d', Inr r)"
  obtains proposal q task scope project revision report d1 d2 d3 res where
    "get_proposal d pid = Some proposal" "pr_completeness proposal = ProposalCompleteness.COMPLETE"
    "confirm_new_version pid actor d = (d1, Inr res)" "authority_revoked (pr_task_id proposal) d1"
    "d2 = update_task (pr_task_id proposal) (\<lambda>t. t\<lparr>tk_status := TaskStatus.GOVERNING\<rparr>) d1"
    "get_task d2 (pr_task_id proposal) = Some task" "judged_scope proposal = Inr scope" "scope \<noteq> []"
    "analyze_proposal env (pr_task_id proposal) pid project revision scope d2 = (d3, Inr report)"
    "govern_proposal env (pr_task_id proposal) q revision scope report d3 = (d', Inr r)"
proof -
  obtain d1 res where c: "confirm_new_version pid actor d = (d1, Inr res)"
    using run by (auto simp: confirm_and_analyze_def split: option.splits prod.splits sum.splits)
  from c obtain proposal task where p: "get_proposal d pid = Some proposal" "pr_completeness proposal = ProposalCompleteness.COMPLETE"
      "get_task d (pr_task_id proposal) = Some task"
      "tasks d1 = set_row tk_id (pr_task_id proposal) (\<lambda>t. t\<lparr>tk_active_proposal_id := Some pid, tk_status := TaskStatus.GOVERNING,
         tk_failure_code := None, tk_failure_message := Some (''Proposal confirmed by '' @ actor)\<rparr>) (tasks d)"
      "proposals d1 = set_row pr_id pid (\<lambda>p. p\<lparr>pr_status := ProposalStatus.CONFIRMED\<rparr>)
         (set_where (other_proposal proposal) (\<lambda>p. p\<lparr>pr_status := ProposalStatus.SUPERSEDED\<rparr>) (proposals d))"
      "authority_revoked (pr_task_id proposal) d1"
    by (rule confirm_new_version_Inr)
  let ?t = "pr_task_id proposal"
  let ?d2 = "update_task ?t (\<lambda>t. t\<lparr>tk_status := TaskStatus.GOVERNING\<rparr>) d1"
  have self: "\<not> other_proposal proposal proposal" by (simp add: other_proposal_def)
  obtain q where q: "get_proposal d1 pid = Some q" "pr_task_id q = ?t" "judged_scope q = judged_scope proposal" "pr_id q = pid"
    using p(1,5) self by (auto simp: table_simps judged_scope_def)
  obtain task2 where t2: "get_task ?d2 ?t = Some task2" using p(3,4) by (auto simp: update_task_def table_simps)
  obtain scope project revision d3 report where g: "judged_scope proposal = Inr scope" "scope \<noteq> []"
      "analyze_proposal env ?t pid project revision scope ?d2 = (d3, Inr report)"
      "govern_proposal env ?t q revision scope report d3 = (d', Inr r)"
    using run p(1) c q t2 unfolding confirm_and_analyze_def q(3) [symmetric] judged_scope_def
    by (auto simp: Let_def split: option.splits prod.splits sum.splits if_splits)
  show thesis by (rule that [OF p(1,2) c p(6) HOL.refl t2 g])
qed

lemma confirmation_settles:
  assumes run: "confirm_and_analyze env pid actor d = (d', Inr r)"
    and fresh: "fe_decision_id env \<notin> set (map gd_id (decisions d))"
      "fe_decision_id env \<notin> set (map ar_governance_decision_id (approval_requests d))"
  shows "\<exists>proposal scope paths task. get_proposal d pid = Some proposal \<and> pr_completeness proposal = ProposalCompleteness.COMPLETE \<and>
    judged_scope proposal = Inr scope \<and> scope \<noteq> [] \<and> canonical_project_paths scope = Inr paths \<and>
    get_task d' (pr_task_id proposal) = Some task \<and> gd_decision (fr_governance_decision r) = flow_verdict paths \<and>
    settled_authority env scope paths task (fr_governance_decision r) (fr_approval_request r) d'"
proof -
  from run obtain proposal q task scope project revision report d1 d2 d3 res where
      p: "get_proposal d pid = Some proposal" "pr_completeness proposal = ProposalCompleteness.COMPLETE"
    and c: "confirm_new_version pid actor d = (d1, Inr res)" and rev: "authority_revoked (pr_task_id proposal) d1"
    and d2: "d2 = update_task (pr_task_id proposal) (\<lambda>t. t\<lparr>tk_status := TaskStatus.GOVERNING\<rparr>) d1"
    and t: "get_task d2 (pr_task_id proposal) = Some task" and sc: "judged_scope proposal = Inr scope" "scope \<noteq> []"
    and g: "analyze_proposal env (pr_task_id proposal) pid project revision scope d2 = (d3, Inr report)"
      "govern_proposal env (pr_task_id proposal) q revision scope report d3 = (d', Inr r)"
    by (rule flow_steps)
  obtain rs where d3: "d3 = d2\<lparr>impact_reports := rs\<rparr>" using analyze_frame [OF g(1)] by blast
  have "filter (active_policy_of (pr_task_id proposal)) (policies d3) = []"
    using rev by (simp add: d3 d2 update_task_def authority_revoked_def filter_empty_conv)
  moreover have "get_task d3 (pr_task_id proposal) = Some task" using t by (simp add: d3)
  moreover have "decisions d3 = decisions d1" "approval_requests d3 = approval_requests d1" by (simp_all add: d3 d2 update_task_def)
  ultimately show ?thesis
    using govern_settles [OF g(2)] fresh confirm_keeps_ids [OF c] p sc by (metis (no_types, lifting))
qed

text \<open>The rows a run adds, by their ids; the projects stay.\<close>

lemma settle_ids:
  assumes "settle_decision env t scope dec d = (d', Inr a)"
  shows "projects d' = projects d" and "decisions d' = decisions d"
    and "map ep_id (policies d') = map ep_id (policies d) @ (if gd_decision dec = GovernanceVerdict.ALLOW then [fe_policy_id env] else [])"
proof -
  obtain d1 where c: "create_for_decision (fe_request_id env) (gd_id dec) scope d = (d1, Inr a)"
    using assms by (auto simp: settle_decision_def split: prod.splits sum.splits if_splits)
  have d1: "projects d1 = projects d" "decisions d1 = decisions d" "policies d1 = policies d"
    using c by (auto simp: create_for_decision_def Let_def split: option.splits if_splits)
  have pol: "projects d2 = projects d1 \<and> decisions d2 = decisions d1 \<and> map ep_id (policies d2) = map ep_id (policies d1) @ [i]"
    if "compile i g rs ws cs ps n l d1 = (d2, Inr p)" for i g rs ws cs ps n l d2 p
    using that by (rule compile_Inr) (simp add: map_set_where)
  have "projects d' = projects d1 \<and> decisions d' = decisions d1 \<and>
      map ep_id (policies d') = map ep_id (policies d1) @ (if gd_decision dec = GovernanceVerdict.ALLOW then [fe_policy_id env] else [])"
    using assms c by (auto simp: settle_decision_def update_task_def dest!: pol split: prod.splits sum.splits if_splits)
  with d1 show "projects d' = projects d" and "decisions d' = decisions d"
    and "map ep_id (policies d') = map ep_id (policies d) @ (if gd_decision dec = GovernanceVerdict.ALLOW then [fe_policy_id env] else [])"
    by simp_all
qed

lemma govern_ids:
  assumes run: "govern_proposal env t proposal revision scope report d = (d', Inr r)"
  shows "projects d' = projects d" and "map gd_id (decisions d') = map gd_id (decisions d) @ [fe_decision_id env]"
    and "map ep_id (policies d') = map ep_id (policies d) @ (if gd_decision (fr_governance_decision r) = GovernanceVerdict.ALLOW then [fe_policy_id env] else [])"
proof -
  obtain d1 action where a: "ensure_proposal_action env t (pr_id proposal) scope d = (d1, action)" by (metis prod.collapse)
  have same: "projects d1 = projects d" "decisions d1 = decisions d" "policies d1 = policies d"
    by (subst action_frame [OF a], simp)+
  obtain paths where paths: "canonical_project_paths scope = Inr paths"
    using run a by (cases "canonical_project_paths scope") (auto simp: govern_proposal_def evaluate_def)
  obtain dec where e: "evaluate (fe_digest env) (fe_decision_id env) t (Some (ac_id action)) (proposal_digest env proposal) revision
        flow_rules scope GovernanceVerdict.ALLOW None d1 = (d1\<lparr>decisions := decisions d1 @ [dec]\<rparr>, Inr dec)" "gd_id dec = fe_decision_id env"
    by (rule flow_decision [OF paths])
  obtain q where s: "settle_decision env t scope (dec\<lparr>gd_impact_report_id := Some (ir_id report)\<rparr>)
        (d1\<lparr>decisions := set_row gd_id (gd_id dec) (\<lambda>g. g\<lparr>gd_impact_report_id := Some (ir_id report)\<rparr>) (decisions d1 @ [dec])\<rparr>) = (d', Inr q)"
      "fr_governance_decision r = dec\<lparr>gd_impact_report_id := Some (ir_id report)\<rparr>"
    using run a e(1) by (auto simp: govern_proposal_def Let_def split: prod.splits sum.splits)
  show "projects d' = projects d" and "map gd_id (decisions d') = map gd_id (decisions d) @ [fe_decision_id env]"
    and "map ep_id (policies d') = map ep_id (policies d) @ (if gd_decision (fr_governance_decision r) = GovernanceVerdict.ALLOW then [fe_policy_id env] else [])"
    using settle_ids [OF s(1)] by (simp_all add: same s(2) e(2) set_row_def map_set_where)
qed

lemma flow_ids:
  assumes "confirm_and_analyze env pid actor d = (d', Inr r)"
  shows "projects d' = projects d" and "map gd_id (decisions d') = map gd_id (decisions d) @ [fe_decision_id env]"
    and "map ep_id (policies d') = map ep_id (policies d) @ (if gd_decision (fr_governance_decision r) = GovernanceVerdict.ALLOW then [fe_policy_id env] else [])"
proof -
  from assms obtain proposal q task scope project revision report d1 d2 d3 res where
      "get_proposal d pid = Some proposal" "pr_completeness proposal = ProposalCompleteness.COMPLETE"
    and c: "confirm_new_version pid actor d = (d1, Inr res)" and "authority_revoked (pr_task_id proposal) d1"
    and d2: "d2 = update_task (pr_task_id proposal) (\<lambda>t. t\<lparr>tk_status := TaskStatus.GOVERNING\<rparr>) d1"
    and "get_task d2 (pr_task_id proposal) = Some task" "judged_scope proposal = Inr scope" "scope \<noteq> []"
    and g: "analyze_proposal env (pr_task_id proposal) pid project revision scope d2 = (d3, Inr report)"
      "govern_proposal env (pr_task_id proposal) q revision scope report d3 = (d', Inr r)"
    by (rule flow_steps)
  obtain rs where d3: "d3 = d2\<lparr>impact_reports := rs\<rparr>" using analyze_frame [OF g(1)] by blast
  have "map ep_id (policies d1) = map ep_id (policies d)" "projects d1 = projects d"
    using c by (auto simp: confirm_new_version_def supersede_other_proposals_def invalidate_downstream_state_def supersede_policies_def
        supersede_requests_def supersede_decisions_def map_set_where Let_def split: option.splits if_splits)
  then show "projects d' = projects d" and "map gd_id (decisions d') = map gd_id (decisions d) @ [fe_decision_id env]"
    and "map ep_id (policies d') = map ep_id (policies d) @ (if gd_decision (fr_governance_decision r) = GovernanceVerdict.ALLOW then [fe_policy_id env] else [])"
    using govern_ids [OF g(2)] confirm_keeps_ids(1) [OF c] by (simp_all add: d3 d2 update_task_def)
qed

text \<open>
  (C2) Confirming a proposal gives exactly the authority its paths deserve, whatever the model reports about the impact. A
  successful run of the flow belongs to a complete proposal with a non-empty scope; its verdict depends on the judged
  paths alone: a path of an environment or secret file blocks the change, a path of authentication or public behaviour
  makes it wait for approval, all others are allowed. An allowed change has one active, executable policy that permits
  writing exactly the judged paths; a waiting one has a pending request and no active policy; a blocked one has
  neither. Whatever an earlier confirmation of the task had granted is gone.
\<close>

theorem confirmed_change_authority:
  assumes run: "confirm_and_analyze env pid actor d = (d', Inr r)"
    and fresh: "fe_decision_id env \<notin> set (map gd_id (decisions d))"
      "fe_decision_id env \<notin> set (map ar_governance_decision_id (approval_requests d))"
  shows "\<exists>proposal scope paths task. get_proposal d pid = Some proposal \<and> pr_completeness proposal = ProposalCompleteness.COMPLETE \<and>
    judged_scope proposal = Inr scope \<and> scope \<noteq> [] \<and> canonical_project_paths scope = Inr paths \<and>
    get_task d' (pr_task_id proposal) = Some task \<and> gd_decision (fr_governance_decision r) = flow_verdict paths \<and>
    settled_authority env scope paths task (fr_governance_decision r) (fr_approval_request r) d'"
  using assms by (rule confirmation_settles)

definition sample_flow_env :: flow_env where
  "sample_flow_env = \<lparr>fe_git = (\<lambda>root args. Inr []), fe_reader = (\<lambda>root rel. None), fe_tests = (\<lambda>root. []),
     fe_tables = \<lparr>code_symbols = [], code_relations = []\<rparr>, fe_digest = (\<lambda>v. ''h''), fe_proposal_digest = (\<lambda>v. ''p''),
     fe_decoder = \<lparr>dc_loads = (\<lambda>s. Some (JObj [(''fact_refs'', JList [])])), dc_raw = (\<lambda>s. None)\<rparr>,
     fe_provider = (\<lambda>req. Inr \<lparr>ls_content = ''{}'', ls_input_tokens = 1, ls_output_tokens = 1, ls_model = ''m'', ls_provider = ''p''\<rparr>),
     fe_expand = (\<lambda>s. s), fe_repo = ''/r'', fe_backend = ''/b'', fe_environ = [], fe_report_id = ''i1'', fe_iteration_id = ''n1'',
     fe_action_id = ''a1'', fe_decision_id = ''g1'', fe_request_id = ''q1'', fe_policy_id = ''e1'', fe_now = 7\<rparr>"

definition sample_flow_db :: "string list \<Rightarrow> db" where
  "sample_flow_db scope = empty_db\<lparr>projects := [\<lparr>pj_id = ''j1'', pj_root_path = ''/p'', pj_normalized_root_path = ''/p'', pj_owner_session_hash = None\<rparr>],
     tasks := [\<lparr>tk_id = ''t1'', tk_project_id = ''j1'', tk_requester_id = None, tk_original_request = ''x'', tk_base_revision = Some ''r1'',
       tk_base_workspace_hash = None, tk_status = TaskStatus.PROPOSAL_REVIEW, tk_active_proposal_id = None, tk_active_policy_id = None,
       tk_workspace_lock_id = None, tk_transaction_id = None, tk_iteration_count = 0, tk_repair_count = 0, tk_stagnation_count = 0,
       tk_finished_at = None, tk_failure_code = None, tk_failure_message = None, tk_version = 1\<rparr>],
     proposals := [\<lparr>pr_id = ''p1'', pr_task_id = ''t1'', pr_version = 1, pr_goal = ''g'', pr_current_problem = None,
       pr_expected_behavior = ''b'', pr_initial_scope_json = json_dumps_strings scope, pr_excluded_scope_json = None,
       pr_constraints_json = None, pr_assumptions_json = None, pr_risks_json = None, pr_acceptance_criteria_json = json_dumps_strings [''c''],
       pr_validation_plan_json = None, pr_completeness = ProposalCompleteness.COMPLETE, pr_status = ProposalStatus.DRAFT,
       pr_created_by_type = ProposalCreatedByType.LLM, pr_supersedes_id = None\<rparr>]\<rparr>"

definition sample_flow :: "string list \<Rightarrow> ConfirmFlowResult action_result" where
  "sample_flow scope = confirm_and_analyze sample_flow_env ''p1'' ''u1'' (sample_flow_db scope)"

theorem confirmed_change_authority_witness:
  "\<exists>r task. snd (sample_flow [''src/a.py'']) = Inr r \<and> get_task (fst (sample_flow [''src/a.py''])) ''t1'' = Some task \<and>
     tk_status task = TaskStatus.ACTION_PENDING \<and> gd_decision (fr_governance_decision r) = flow_verdict [''src/a.py''] \<and>
     settled_authority sample_flow_env [''src/a.py''] [''src/a.py''] task (fr_governance_decision r) (fr_approval_request r)
       (fst (sample_flow [''src/a.py'']))"
proof -
  let ?run = "sample_flow [''src/a.py'']" and ?db = "sample_flow_db [''src/a.py'']"
  have "\<not> isl (snd ?run)" by code_simp
  then obtain r where r: "snd ?run = Inr r" by (cases "snd ?run") auto
  have run: "confirm_and_analyze sample_flow_env ''p1'' ''u1'' ?db = (fst ?run, Inr r)"
    unfolding r [symmetric] by (simp add: sample_flow_def)
  obtain proposal scope paths task where c: "get_proposal ?db ''p1'' = Some proposal" "judged_scope proposal = Inr scope"
      "canonical_project_paths scope = Inr paths" "get_task (fst ?run) (pr_task_id proposal) = Some task"
      "gd_decision (fr_governance_decision r) = flow_verdict paths"
      "settled_authority sample_flow_env scope paths task (fr_governance_decision r) (fr_approval_request r) (fst ?run)"
    using confirmed_change_authority [OF run] by (auto simp: sample_flow_env_def sample_flow_db_def empty_db_def)
  have "map_option (\<lambda>p. (pr_task_id p, judged_scope p)) (get_proposal ?db ''p1'') = Some (''t1'', Inr [''src/a.py''])"
      "canonical_project_paths [''src/a.py''] = Inr [''src/a.py'']" "flow_verdict [''src/a.py''] = GovernanceVerdict.ALLOW"
    by (code_simp, code_simp, code_simp)
  with c r show ?thesis by (auto simp: settled_authority_def Let_def)
qed

text \<open>
  The rules compare letters as they are: the file names of classes and components, which begin with a capital, escape
  both of them.
\<close>

theorem capital_letters_escape_rules:
  "map (\<lambda>path. flow_verdict [path]) [''config/.env.local'', ''config/secrets.json'', ''src/auth/login.py''] =
     [GovernanceVerdict.BLOCK, GovernanceVerdict.BLOCK, GovernanceVerdict.WARN] \<and>
   map (\<lambda>path. flow_verdict [path]) [''config/Secrets.json'', ''src/AuthService.py'', ''src/PublicApi.py''] =
     [GovernanceVerdict.ALLOW, GovernanceVerdict.ALLOW, GovernanceVerdict.ALLOW]"
  by code_simp
end
