(* ===== verification/Proposals.thy ===== *)
theory Proposals
  imports Evaluation Impact Context
begin

section \<open>Proposals: generation, completeness and the technical supplement\<close>

text \<open>
  \<^verbatim>\<open>proposals/completeness.py\<close>, \<^verbatim>\<open>proposals/generator.py\<close> and \<^verbatim>\<open>proposals/supplement.py\<close>: the answer of the
  model becomes a proposal of the next version, and the proposal is judged complete, in need of more analysis or in
  need of a decision of the user. The decoder of JSON texts, the validation of the schema by pydantic with the JSON
  schema it publishes, and the provider are parameters. Markers outside the alphabet of the model stand in the escaped
  form of their code points.
\<close>

subsection \<open>\<^verbatim>\<open>proposals/completeness.py\<close>\<close>

datatype CompletenessDecision = COMPLETE | NEEDS_MORE_TECHNICAL_ANALYSIS | NEEDS_USER_CLARIFICATION

record CompletenessResult =
  cr_decision :: CompletenessDecision
  cr_can_enter_analysis :: bool
  cr_missing :: "string list"
  cr_technical_unknowns :: "string list"
  cr_user_decisions :: "string list"

definition valid_json_list :: "json_text option \<Rightarrow> json list" where
  "valid_json_list v = (case Option.bind v json_loads of Some (JList data) \<Rightarrow> data | _ \<Rightarrow> [])"

definition valid_json_object :: "json_text option \<Rightarrow> (string \<times> json) list" where
  "valid_json_object v = (case Option.bind v json_loads of Some (JObj data) \<Rightarrow> data | _ \<Rightarrow> [])"

fun flatten :: "json \<Rightarrow> string" where
  "flatten (JObj kvs) = join '' '' (map (\<lambda>kv. json_str (snd kv)) kvs)"
| "flatten v = json_str v"

definition PLACEHOLDERS :: "string list" where
  "PLACEHOLDERS = [''unknown'', ''tbd'', ''todo'', ''n/a'', (uni ''^5f85^8865^5145''), (uni ''^6682^672a^786e^5b9a''), (uni ''^4e0d^786e^5b9a''), (uni ''^5f85^5206^6790'')]"

definition is_placeholder :: "string \<Rightarrow> bool" where
  "is_placeholder s = (let normalized = lower (strip s) in normalized = [] \<or> list_ex (\<lambda>item. py_in item normalized) PLACEHOLDERS)"

definition has_substantive_text :: "json option \<Rightarrow> bool" where
  "has_substantive_text v = (case v of Some (JStr s) \<Rightarrow> strip s \<noteq> [] \<and> \<not> is_placeholder s | _ \<Rightarrow> False)"

text \<open>The items of a value that is a list, and none of any other value.\<close>

definition list_items :: "json option \<Rightarrow> json list" where
  "list_items v = (case v of Some (JList xs) \<Rightarrow> xs | _ \<Rightarrow> [])"

definition stored_user_decisions :: "ChangeProposal \<Rightarrow> string list" where
  "stored_user_decisions proposal =
     (let assumptions = valid_json_object (pr_assumptions_json proposal)
      in case map_of assumptions ''user_decisions'' of
           Some (JList items) \<Rightarrow> filter (\<lambda>s. strip s \<noteq> []) (map json_str items)
         | _ \<Rightarrow> (case map_of assumptions ''missing_information_question'' of
                  Some (JStr q) \<Rightarrow> if strip q \<noteq> [] then [strip q] else []
                | _ \<Rightarrow> []))"

record proposal_signal =
  ps_missing :: "string list"
  ps_technical_unknowns :: "string list"
  ps_user_decisions :: "string list"

definition proposal_lists :: "ChangeProposal \<Rightarrow> (string \<times> json list) list" where
  "proposal_lists proposal =
     (let constraints = valid_json_object (pr_constraints_json proposal);
          risks = valid_json_object (pr_risks_json proposal)
      in [(''scope'', valid_json_list (Some (pr_initial_scope_json proposal))),
          (''changes'', list_items (map_of constraints ''changes'')),
          (''steps'', list_items (map_of constraints ''steps'')),
          (''validation'', valid_json_list (pr_validation_plan_json proposal)),
          (''risks'', list_items (map_of risks ''risks'')),
          (''constraints'', list_items (map_of constraints ''constraints''))])"

definition missing_signals :: "ChangeProposal \<Rightarrow> string list" where
  "missing_signals proposal =
     (let items = (\<lambda>label. the (map_of (proposal_lists proposal) label));
          when_empty = (\<lambda>label. if items label = [] then [label] else [])
      in (if strip (pr_goal proposal) = [] then [''goal''] else []) @
         (if strip (pr_expected_behavior proposal) = [] then [''expected_behavior''] else []) @
         when_empty ''scope'' @
         (if valid_json_list (Some (pr_acceptance_criteria_json proposal)) = [] then [''acceptance''] else []) @
         when_empty ''validation'' @ when_empty ''changes'' @ when_empty ''steps'' @ when_empty ''risks'' @
         (if has_substantive_text (map_of (valid_json_object (pr_current_problem proposal)) ''understanding'') then []
          else [''understanding'']))"

definition unknown_signals :: "ChangeProposal \<Rightarrow> string list" where
  "unknown_signals proposal =
     concat (map (\<lambda>(label, values). map (\<lambda>v. label @ '': '' @ flatten v) (filter (\<lambda>v. is_placeholder (flatten v)) values))
       (proposal_lists proposal))"

definition proposal_signals :: "ChangeProposal \<Rightarrow> proposal_signal" where
  "proposal_signals proposal =
     \<lparr>ps_missing = dedupe (missing_signals proposal), ps_technical_unknowns = dedupe (unknown_signals proposal),
      ps_user_decisions = dedupe (stored_user_decisions proposal)\<rparr>"

definition completeness_message :: "string \<Rightarrow> string list \<Rightarrow> string list \<Rightarrow> string" where
  "completeness_message pre missing technical_unknowns =
     (let parts = (if missing \<noteq> [] then [''missing: '' @ join '', '' missing] else []) @
            (if technical_unknowns \<noteq> [] then [''technical unknowns: '' @ join ''; '' technical_unknowns] else [])
      in pre @ (if parts \<noteq> [] then '' ('' @ join '' | '' parts @ '')'' else []))"

text \<open>The proposal is marked first; a proposal without a task then raises.\<close>

definition mark_completeness ::
    "ProposalCompleteness \<Rightarrow> TaskStatus \<Rightarrow> string option \<Rightarrow> string option \<Rightarrow> ChangeProposal \<Rightarrow> CompletenessResult \<Rightarrow> db \<Rightarrow>
     CompletenessResult action_result" where
  "mark_completeness completeness status code message proposal res d =
     (let d1 = d\<lparr>proposals := set_row pr_id (pr_id proposal) (\<lambda>p. p\<lparr>pr_completeness := completeness\<rparr>) (proposals d)\<rparr>
      in case get_task d1 (pr_task_id proposal) of
           None \<Rightarrow> (d1, Inl (AttributeError ''status''))
         | Some _ \<Rightarrow>
             (update_task (pr_task_id proposal) (\<lambda>t. t\<lparr>tk_status := status, tk_failure_code := code, tk_failure_message := message\<rparr>) d1,
              Inr res))"

definition evaluate_completeness :: "string \<Rightarrow> db \<Rightarrow> CompletenessResult action_result" where
  "evaluate_completeness proposal_id d =
     (case get_proposal d proposal_id of
        None \<Rightarrow> (d, Inl (ValueError ''proposal not found''))
      | Some proposal \<Rightarrow>
          let s = proposal_signals proposal; missing = ps_missing s; unknowns = ps_technical_unknowns s; asked = ps_user_decisions s
          in if missing \<noteq> [] \<or> unknowns \<noteq> [] then
               mark_completeness ProposalCompleteness.INCOMPLETE TaskStatus.DECIDING (Some ''NEEDS_MORE_TECHNICAL_ANALYSIS'')
                 (Some (completeness_message ''Proposal needs more Mentor technical analysis'' missing unknowns)) proposal
                 \<lparr>cr_decision = NEEDS_MORE_TECHNICAL_ANALYSIS, cr_can_enter_analysis = False, cr_missing = missing,
                  cr_technical_unknowns = unknowns, cr_user_decisions = asked\<rparr> d
             else if asked \<noteq> [] then
               mark_completeness ProposalCompleteness.PARTIALLY_COMPLETE TaskStatus.NEEDS_INFORMATION (Some ''NEEDS_USER_CLARIFICATION'')
                 (Some (''User decision required: '' @ join ''; '' asked)) proposal
                 \<lparr>cr_decision = NEEDS_USER_CLARIFICATION, cr_can_enter_analysis = False, cr_missing = [],
                  cr_technical_unknowns = [], cr_user_decisions = asked\<rparr> d
             else
               mark_completeness ProposalCompleteness.COMPLETE TaskStatus.PROPOSAL_REVIEW None None proposal
                 \<lparr>cr_decision = COMPLETE, cr_can_enter_analysis = True, cr_missing = [], cr_technical_unknowns = [],
                  cr_user_decisions = []\<rparr> d)"

subsection \<open>\<^verbatim>\<open>proposals/generator.py\<close>: the draft\<close>

record ProposalChangeDraft =
  cd_path :: string
  cd_symbol :: "string option"
  cd_action :: string
  cd_reason :: string

record ProposalDraft =
  pd_goal :: string
  pd_understanding :: string
  pd_expected_behavior :: string
  pd_scope :: "string list"
  pd_changes :: "ProposalChangeDraft list"
  pd_steps :: "string list"
  pd_non_goals :: "string list"
  pd_constraints :: "string list"
  pd_acceptance :: "string list"
  pd_validation :: "string list"
  pd_user_facts :: "string list"
  pd_inferences :: "string list"
  pd_risks :: "string list"

definition expected_keys :: "string list" where
  "expected_keys = [''goal'', ''understanding'', ''expected_behavior'', ''scope'', ''changes'', ''steps'', ''non_goals'',
     ''constraints'', ''acceptance'', ''validation'', ''user_facts'', ''inferences'', ''risks'']"

text \<open>An error of the validation: its location, its type and its message.\<close>

record validation_error =
  ve_loc :: "string list"
  ve_type :: string
  ve_msg :: string

record generator_env =
  ge_provider :: "LLMRequest \<Rightarrow> LLMResponse result"
  ge_decoder :: decoder
  ge_model_validate :: "json \<Rightarrow> validation_error list + ProposalDraft"
  ge_schema :: json
  ge_proposal_id :: string

definition DECISION_MARKERS :: "string list" where
  "DECISION_MARKERS = [''user decision'', ''product decision'', ''ask user'', ''confirm whether'', ''needs user'',
     (uni ''^7528^6237^51b3^5b9a''), (uni ''^4ea7^54c1^51b3^7b56''), (uni ''^9700^8981^7528^6237''), (uni ''^7531^7528^6237''),
     (uni ''^662f^5426^5305^542b''), (uni ''^662f^5426^5141^8bb8''), (uni ''^662f^5426^516c^5f00'')]"

definition TECHNICAL_MARKERS :: "string list" where
  "TECHNICAL_MARKERS = [''api'', ''dto'', ''test'', ''frontend'', ''backend'', ''database'', ''schema'', ''module'', ''dependency'',
     (uni ''^63a5^53e3''), (uni ''^6d4b^8bd5''), (uni ''^524d^7aef''), (uni ''^540e^7aef''), (uni ''^6570^636e^5e93''), (uni ''^4f9d^8d56''), (uni ''^6a21^5757''), (uni ''^6587^4ef6'')]"

definition asks_user :: "string \<Rightarrow> bool" where
  "asks_user s =
     (let lowered = lower s
      in s \<noteq> [] \<and> list_ex (\<lambda>m. py_in m lowered) DECISION_MARKERS \<and> \<not> list_ex (\<lambda>m. py_in m lowered) TECHNICAL_MARKERS)"

definition draft_user_decisions :: "ProposalDraft \<Rightarrow> string list" where
  "draft_user_decisions draft = dedupe (filter asks_user (map strip (pd_constraints draft @ pd_inferences draft @ pd_risks draft)))"

definition loads_proposal_json :: "decoder \<Rightarrow> string \<Rightarrow> json option" where
  "loads_proposal_json dec content =
     (case dc_loads dec content of
        Some v \<Rightarrow> Some v
      | None \<Rightarrow> Option.bind
          (let stripped = strip content; ls = splitlines stripped
           in if startswith stripped fence \<and> 3 \<le> length ls \<and> strip (last ls) = fence
              then Some (strip (join [CHR 0x0A] (butlast (tl ls))))
              else first_object (dc_raw dec) content) (dc_loads dec))"

definition error_path :: "validation_error \<Rightarrow> string" where
  "error_path e = (if ve_loc e = [] then ''<root>'' else join ''.'' (ve_loc e))"

definition schema_error_message :: "validation_error list \<Rightarrow> string" where
  "schema_error_message errors =
     (let missing = map error_path (filter (\<lambda>e. ve_type e = ''missing'') errors); locations = map error_path errors
      in if missing \<noteq> [] then ''Proposal response missing required field(s): '' @ join '', '' missing
         else if locations \<noteq> [] then ''Proposal response failed schema validation at: '' @ join '', '' locations
         else ''Proposal response failed schema validation'')"

subsection \<open>The prompt\<close>

definition prompt_sections :: "string list" where
  "prompt_sections =
    [''Generate a repository-specific engineering proposal.'',
     ''Return only one JSON object that matches the canonical ProposalDraft schema.'',
     ''Do not add markdown fences, explanations, comments, or extra properties.'',
     ''All user-facing natural-language proposal content MUST be Simplified Chinese (zh-CN).'',
     ''Keep user-facing zh-CN values concise: short phrases or one compact sentence per item.'',
     ''Keep arrays small and only include implementation-relevant evidence.'',
     ''Keep JSON property names and enum values unchanged. Do not translate schema keys.'',
     ''Use snake_case property names exactly as shown in the schema.'',
     ''Code identifiers, file paths, API names, library names, and proper technical nouns may remain '' @
      ''English.'',
     ''The proposal is a scope contract for later impact analysis, governance, and execution.'',
     ''understanding must state how Mentor interprets the user'' @ [CHR 0x27] @ ''s desired change.'',
     ''changes must name existing repository paths from evidenced_existing_paths whenever a path is '' @
      ''certain.'',
     ''For simple UI text changes, prefer the direct frontend source file that contains the requested text '' @
      ''over broad app shells, docs, tests, or backend files.'',
     ''When repository context includes semantic_context, prefer paths whose semantic role matches the '' @
      ''user'' @ [CHR 0x27] @ ''s location or component wording, such as sidebar, navigation, menu-item, button, or '' @
      ''page-heading.'',
     ''Each change must explain the intended modification and why it belongs in scope.'',
     ''steps must be concrete implementation steps, not one-line generic workflow filler.'',
     ''risks must name likely impact/risk areas from the repository context.'',
     ''validation must state concrete checks the finished change should pass.'',
     ''If a required list has no positive items, return an empty array rather than omitting the property.'',
     ''Do not invent files. If exact files are uncertain, choose the nearest real candidate source path and '' @
      ''let execution-phase SEARCH_CODE/READ_FILE localize the exact line.'',
     ''Do not include UNKNOWN/TBD/TODO placeholder risks when evidenced_existing_paths contains a plausible '' @
      ''real source candidate.'']"

definition schema_instruction :: "json \<Rightarrow> string list \<Rightarrow> json" where
  "schema_instruction schema evidenced_paths =
     JObj [(''canonical_contract'', JStr ''ProposalDraft''),
       (''evidenced_existing_paths'', JList (map JStr evidenced_paths)), (''json_schema'', schema),
       (''path_rule'', JStr (''scope entries must be selected from evidenced_existing_paths only; '' @
          ''choose the smallest executable frontend/source scope that can satisfy the user request'')),
       (''required_json_fields'', JList (map JStr expected_keys))]"

definition proposal_prompt :: "json \<Rightarrow> string \<Rightarrow> ContextPackage option \<Rightarrow> string list \<Rightarrow> string" where
  "proposal_prompt schema user_request context_package evidenced_paths =
     join [CHR 0x0A] (prompt_sections @
       [''User request: '' @ user_request, ''Schema contract: '' @ json_dumps (schema_instruction schema evidenced_paths)] @
       (case context_package of None \<Rightarrow> [] | Some package \<Rightarrow> [''Repository context:'', render package]))"

definition with_context :: "json \<Rightarrow> LLMRequest \<Rightarrow> ContextPackage option \<Rightarrow> string list \<Rightarrow> LLMRequest" where
  "with_context schema request context_package evidenced_paths =
     \<lparr>lq_prompt_summary = lq_prompt_summary request,
      lq_input_text = proposal_prompt schema (lq_input_text request) context_package evidenced_paths\<rparr>"

text \<open>\<^verbatim>\<open>text.split(marker, 1)[1]\<close>: what follows the first occurrence of the marker, if there is one.\<close>

fun after_marker :: "string \<Rightarrow> string \<Rightarrow> string option" where
  "after_marker marker [] = (if marker = [] then Some [] else None)"
| "after_marker marker (c # cs) =
     (if startswith (c # cs) marker then Some (drop (length marker) (c # cs)) else after_marker marker cs)"

definition conversation_metadata :: "ChangeTask \<Rightarrow> string \<Rightarrow> json" where
  "conversation_metadata task input_text =
     JObj [(''follow_up_instruction'', case after_marker ''Follow-up instruction:'' input_text of None \<Rightarrow> JNull | Some t \<Rightarrow> JStr (strip t)),
       (''original_request'', JStr (tk_original_request task)), (''proposal_input'', JStr input_text)]"

subsection \<open>Generation\<close>

definition texts_json :: "string list \<Rightarrow> json" where
  "texts_json xs = JList (map JStr xs)"

definition change_json :: "ProposalChangeDraft \<Rightarrow> json" where
  "change_json c = JObj [(''action'', JStr (cd_action c)), (''path'', JStr (cd_path c)), (''reason'', JStr (cd_reason c)),
     (''symbol'', case cd_symbol c of None \<Rightarrow> JNull | Some s \<Rightarrow> JStr s)]"

definition next_version :: "string \<Rightarrow> db \<Rightarrow> int" where
  "next_version task_id d = max_or_0 (map pr_version (filter (\<lambda>p. pr_task_id p = task_id) (proposals d))) + 1"

definition proposal_row :: "string \<Rightarrow> int \<Rightarrow> ChangeTask \<Rightarrow> string \<Rightarrow> ProposalDraft \<Rightarrow> ChangeProposal" where
  "proposal_row new_id version task input_text draft =
     \<lparr>pr_id = new_id, pr_task_id = tk_id task, pr_version = version, pr_goal = pd_goal draft,
      pr_current_problem = Some (JText (JObj [(''understanding'', JStr (pd_understanding draft)), (''user_facts'', texts_json (pd_user_facts draft))])),
      pr_expected_behavior = pd_expected_behavior draft,
      pr_initial_scope_json = JText (texts_json (pd_scope draft)),
      pr_excluded_scope_json = Some (JText (texts_json (pd_non_goals draft))),
      pr_constraints_json = Some (JText (JObj [(''changes'', JList (map change_json (pd_changes draft))),
        (''constraints'', texts_json (pd_constraints draft)), (''steps'', texts_json (pd_steps draft))])),
      pr_assumptions_json = Some (JText (JObj [(''conversation'', conversation_metadata task input_text),
        (''user_decisions'', texts_json (draft_user_decisions draft)), (''user_facts'', texts_json (pd_user_facts draft))])),
      pr_risks_json = Some (JText (JObj [(''inferences'', texts_json (pd_inferences draft)), (''risks'', texts_json (pd_risks draft))])),
      pr_acceptance_criteria_json = JText (texts_json (pd_acceptance draft)),
      pr_validation_plan_json = Some (JText (texts_json (pd_validation draft))),
      pr_completeness = ProposalCompleteness.COMPLETE, pr_status = ProposalStatus.DRAFT,
      pr_created_by_type = ProposalCreatedByType.LLM, pr_supersedes_id = None\<rparr>"

text \<open>The draft that an answer of the provider gives, or the error of its code.\<close>

definition draft_of_response :: "generator_env \<Rightarrow> LLMResponse \<Rightarrow> ProposalDraft result" where
  "draft_of_response env response =
     (let content = strip (ls_content response)
      in if content = [] then Inl (ProposalGenerationError ''PROPOSAL_RESPONSE_EMPTY'' ''provider returned empty assistant content'')
         else case loads_proposal_json (ge_decoder env) content of
                None \<Rightarrow> Inl (ProposalGenerationError ''PROPOSAL_RESPONSE_INVALID'' ''provider returned non-JSON proposal content'')
              | Some payload \<Rightarrow>
                  (case ge_model_validate env payload of
                     Inl errors \<Rightarrow> Inl (ProposalGenerationError ''PROPOSAL_SCHEMA_VALIDATION_FAILED'' (schema_error_message errors))
                   | Inr draft \<Rightarrow> Inr draft))"

text \<open>Every exception of the storage and of the judgement is reported as a failure to persist.\<close>

definition generate ::
    "generator_env \<Rightarrow> string \<Rightarrow> LLMRequest \<Rightarrow> ContextPackage option \<Rightarrow> string list \<Rightarrow> db \<Rightarrow> ChangeProposal action_result" where
  "generate env task_id request context_package evidenced_paths d =
     (case get_task d task_id of
        None \<Rightarrow> (d, Inl (ProposalGenerationError ''PROPOSAL_GENERATION_FAILED'' ''task not found''))
      | Some task \<Rightarrow>
          (case rbind (ge_provider env (with_context (ge_schema env) request context_package evidenced_paths)) (draft_of_response env) of
             Inl e \<Rightarrow> (d, Inl e)
           | Inr draft \<Rightarrow>
               let row = proposal_row (ge_proposal_id env) (next_version task_id d) task (lq_input_text request) draft;
                   (d1, judged) = evaluate_completeness (pr_id row) (d\<lparr>proposals := proposals d @ [row]\<rparr>)
               in case judged of
                    Inl e \<Rightarrow> (d1, Inl (ProposalGenerationError ''PROPOSAL_PERSIST_FAILED'' ''proposal persistence failed''))
                  | Inr res \<Rightarrow>
                      (case get_proposal d1 (pr_id row) of
                         None \<Rightarrow> (d1, Inl (ProposalGenerationError ''PROPOSAL_PERSIST_FAILED'' ''proposal persistence failed''))
                       | Some proposal \<Rightarrow> (d1, Inr proposal))))"

subsection \<open>\<^verbatim>\<open>proposals/supplement.py\<close>\<close>

definition supplement_request :: "ChangeTask \<Rightarrow> ChangeProposal \<Rightarrow> LLMRequest" where
  "supplement_request task proposal =
     (let reason = (case tk_failure_message task of
                      Some m \<Rightarrow> if m = [] then ''Proposal needs one bounded technical supplement.'' else m
                    | None \<Rightarrow> ''Proposal needs one bounded technical supplement.'')
      in \<lparr>lq_prompt_summary = ''structured technical proposal supplement'',
          lq_input_text = join [CHR 0x0A]
            [''Bounded technical supplement for the existing proposal.'',
             ''Original request: '' @ tk_original_request task,
             ''Current proposal version: '' @ show_int (pr_version proposal),
             ''Missing technical analysis: '' @ reason,
             ''Reuse the existing selected context and fill only missing technical details.'']\<rparr>)"

definition supplement_task :: "ProposalCompleteness \<Rightarrow> ChangeTask \<Rightarrow> ChangeTask" where
  "supplement_task completeness t =
     (if completeness = ProposalCompleteness.COMPLETE then t\<lparr>tk_failure_code := None, tk_failure_message := None\<rparr>
      else if completeness = ProposalCompleteness.PARTIALLY_COMPLETE then t\<lparr>tk_status := TaskStatus.NEEDS_INFORMATION\<rparr>
      else t\<lparr>tk_status := TaskStatus.FAILED, tk_failure_code := Some ''PROPOSAL_INCOMPLETE_AFTER_SUPPLEMENT'',
             tk_failure_message := Some
               ''Proposal technical supplement completed but did not produce a confirmable proposal.''\<rparr>)"

definition run_bounded_technical_supplement ::
    "generator_env \<Rightarrow> ChangeTask \<Rightarrow> ChangeProposal \<Rightarrow> ContextPackage option \<Rightarrow> string list \<Rightarrow> db \<Rightarrow> ChangeProposal action_result" where
  "run_bounded_technical_supplement env task proposal context_package evidenced_paths d =
     (case generate env (tk_id task) (supplement_request task proposal) context_package evidenced_paths d of
        (d1, Inl e) \<Rightarrow> (d1, Inl e)
      | (d1, Inr supplemented) \<Rightarrow>
          (let d2 = d1\<lparr>proposals := set_row pr_id (pr_id proposal) (\<lambda>p. p\<lparr>pr_status := ProposalStatus.SUPERSEDED\<rparr>) (proposals d1)\<rparr>;
               d3 = d2\<lparr>proposals := set_row pr_id (pr_id supplemented) (\<lambda>p. p\<lparr>pr_supersedes_id := Some (pr_id proposal)\<rparr>) (proposals d2)\<rparr>
           in (update_task (tk_id task) (supplement_task (pr_completeness supplemented)) d3,
               Inr (supplemented\<lparr>pr_supersedes_id := Some (pr_id proposal)\<rparr>))))"

subsection \<open>What the judgement of a proposal decides\<close>

text \<open>The status that the task takes, and the failure code it carries, for each outcome.\<close>

definition judged_status :: "ProposalCompleteness \<Rightarrow> TaskStatus \<times> string option" where
  "judged_status completeness =
     (if completeness = ProposalCompleteness.COMPLETE then (TaskStatus.PROPOSAL_REVIEW, None)
      else if completeness = ProposalCompleteness.PARTIALLY_COMPLETE then (TaskStatus.NEEDS_INFORMATION, Some ''NEEDS_USER_CLARIFICATION'')
      else (TaskStatus.DECIDING, Some ''NEEDS_MORE_TECHNICAL_ANALYSIS''))"

definition judged_completeness :: "ChangeProposal \<Rightarrow> ProposalCompleteness" where
  "judged_completeness proposal =
     (if missing_signals proposal \<noteq> [] \<or> unknown_signals proposal \<noteq> [] then ProposalCompleteness.INCOMPLETE
      else if stored_user_decisions proposal \<noteq> [] then ProposalCompleteness.PARTIALLY_COMPLETE
      else ProposalCompleteness.COMPLETE)"

lemma dedupe_eq_Nil [simp]: "dedupe xs = [] \<longleftrightarrow> xs = []"
  by (cases xs) simp_all

lemma evaluate_completeness_effect:
  assumes "get_proposal d pid = Some proposal" and "get_task d (pr_task_id proposal) = Some task"
  shows "\<exists>r message. evaluate_completeness pid d =
      (d\<lparr>proposals := set_row pr_id pid (\<lambda>p. p\<lparr>pr_completeness := judged_completeness proposal\<rparr>) (proposals d),
         tasks := set_row tk_id (pr_task_id proposal) (\<lambda>t. t\<lparr>tk_status := fst (judged_status (judged_completeness proposal)),
           tk_failure_code := snd (judged_status (judged_completeness proposal)), tk_failure_message := message\<rparr>) (tasks d)\<rparr>, Inr r) \<and>
    cr_can_enter_analysis r = (judged_completeness proposal = ProposalCompleteness.COMPLETE)"
proof -
  have pid: "pr_id proposal = pid" using assms(1) by auto
  show ?thesis
    using assms
    by (auto simp: evaluate_completeness_def mark_completeness_def proposal_signals_def judged_completeness_def judged_status_def
        update_task_def Let_def pid)
qed

lemma evaluate_completeness_Inr:
  assumes "evaluate_completeness pid d = (d', Inr r)"
  obtains proposal task where "get_proposal d pid = Some proposal" "get_task d (pr_task_id proposal) = Some task"
  using assms
  by (auto simp: evaluate_completeness_def mark_completeness_def Let_def split: option.splits if_splits)

text \<open>
  (C21) The judgement is the gate of the confirmation: after a proposal was judged, it can be confirmed exactly when the
  judgement let it enter the analysis, that is when nothing is missing, no entry is a placeholder and no decision of
  the user is open; the task then waits for the review of the proposal.
\<close>

theorem completeness_gates_confirmation:
  assumes "evaluate_completeness pid d = (d', Inr r)"
  shows "\<exists>proposal task. get_proposal d pid = Some proposal \<and> get_task d' (pr_task_id proposal) = Some task \<and>
    (cr_can_enter_analysis r \<longleftrightarrow> missing_signals proposal = [] \<and> unknown_signals proposal = [] \<and> stored_user_decisions proposal = []) \<and>
    (cr_can_enter_analysis r \<longleftrightarrow> (\<exists>d'' res. confirm_new_version pid actor d' = (d'', Inr res))) \<and>
    (cr_can_enter_analysis r \<longleftrightarrow> tk_status task = TaskStatus.PROPOSAL_REVIEW)"
proof -
  from assms obtain proposal task where p: "get_proposal d pid = Some proposal" "get_task d (pr_task_id proposal) = Some task"
    by (rule evaluate_completeness_Inr)
  obtain message where e: "d' = d\<lparr>proposals := set_row pr_id pid (\<lambda>p. p\<lparr>pr_completeness := judged_completeness proposal\<rparr>) (proposals d),
         tasks := set_row tk_id (pr_task_id proposal) (\<lambda>t. t\<lparr>tk_status := fst (judged_status (judged_completeness proposal)),
           tk_failure_code := snd (judged_status (judged_completeness proposal)), tk_failure_message := message\<rparr>) (tasks d)\<rparr>"
      "cr_can_enter_analysis r = (judged_completeness proposal = ProposalCompleteness.COMPLETE)"
    using evaluate_completeness_effect [OF p] assms by auto
  have q: "get_proposal d' pid = Some (proposal\<lparr>pr_completeness := judged_completeness proposal\<rparr>)"
    using p(1) by (simp add: e(1) table_simps)
  obtain task' where t: "get_task d' (pr_task_id proposal) = Some task'" "tk_status task' = fst (judged_status (judged_completeness proposal))"
    using p(2) by (simp add: e(1) table_simps)
  have "(\<exists>d'' res. confirm_new_version pid actor d' = (d'', Inr res)) \<longleftrightarrow> judged_completeness proposal = ProposalCompleteness.COMPLETE"
    using q t(1) by (auto simp: confirm_new_version_def supersede_other_proposals_def Let_def)
  then show ?thesis
    using p(1) t e(2) by (auto simp: judged_completeness_def judged_status_def split: if_splits)
qed
subsection \<open>What a generated proposal is\<close>

text \<open>The gaps of a draft, read off the draft itself.\<close>

definition change_text :: "ProposalChangeDraft \<Rightarrow> string" where
  "change_text c = join '' '' [cd_action c, cd_path c, cd_reason c, case cd_symbol c of None \<Rightarrow> ''None'' | Some s \<Rightarrow> s]"

definition draft_complete :: "ProposalDraft \<Rightarrow> bool" where
  "draft_complete draft \<longleftrightarrow>
     strip (pd_goal draft) \<noteq> [] \<and> strip (pd_expected_behavior draft) \<noteq> [] \<and> \<not> is_placeholder (pd_understanding draft) \<and>
     pd_scope draft \<noteq> [] \<and> pd_acceptance draft \<noteq> [] \<and> pd_validation draft \<noteq> [] \<and> pd_changes draft \<noteq> [] \<and>
     pd_steps draft \<noteq> [] \<and> pd_risks draft \<noteq> [] \<and>
     list_all (\<lambda>s. \<not> is_placeholder s) (pd_scope draft @ map change_text (pd_changes draft) @ pd_steps draft @ pd_validation draft @
       pd_risks draft @ pd_constraints draft)"

definition draft_completeness :: "ProposalDraft \<Rightarrow> ProposalCompleteness" where
  "draft_completeness draft =
     (if \<not> draft_complete draft then ProposalCompleteness.INCOMPLETE
      else if draft_user_decisions draft \<noteq> [] then ProposalCompleteness.PARTIALLY_COMPLETE
      else ProposalCompleteness.COMPLETE)"

lemma strip_idem_placeholder: "strip s = [] \<Longrightarrow> is_placeholder s"
  by (simp add: is_placeholder_def lower_def)

lemma row_lists:
  "proposal_lists (proposal_row i v task inp draft) =
     [(''scope'', map JStr (pd_scope draft)), (''changes'', map change_json (pd_changes draft)), (''steps'', map JStr (pd_steps draft)),
      (''validation'', map JStr (pd_validation draft)), (''risks'', map JStr (pd_risks draft)), (''constraints'', map JStr (pd_constraints draft))]"
  by (simp add: proposal_lists_def proposal_row_def valid_json_list_def valid_json_object_def list_items_def texts_json_def Let_def)

lemma flatten_change: "flatten (change_json c) = change_text c"
  by (simp add: change_json_def change_text_def split: option.split)

lemma row_missing:
  "missing_signals (proposal_row i v task inp draft) = [] \<longleftrightarrow>
     strip (pd_goal draft) \<noteq> [] \<and> strip (pd_expected_behavior draft) \<noteq> [] \<and> \<not> is_placeholder (pd_understanding draft) \<and>
     pd_scope draft \<noteq> [] \<and> pd_acceptance draft \<noteq> [] \<and> pd_validation draft \<noteq> [] \<and> pd_changes draft \<noteq> [] \<and>
     pd_steps draft \<noteq> [] \<and> pd_risks draft \<noteq> []"
  using strip_idem_placeholder [of "pd_understanding draft"]
  by (auto simp: missing_signals_def row_lists Let_def)
     (auto simp: proposal_row_def valid_json_list_def valid_json_object_def texts_json_def has_substantive_text_def split: if_splits)

lemma row_unknown:
  "unknown_signals (proposal_row i v task inp draft) = [] \<longleftrightarrow>
     list_all (\<lambda>s. \<not> is_placeholder s) (pd_scope draft @ map change_text (pd_changes draft) @ pd_steps draft @ pd_validation draft @
       pd_risks draft @ pd_constraints draft)"
  by (auto simp: unknown_signals_def row_lists filter_empty_conv list_all_iff flatten_change)

lemma strip_eq_Nil: "strip s = [] \<longleftrightarrow> (\<forall>c \<in> set s. is_space c)"
proof -
  have "set s \<subseteq> Collect is_space \<union> set (dropWhile is_space s)" by (induction s) auto
  then show ?thesis by (auto simp: strip_def dest: set_dropWhileD)
qed

lemma strip_strip_Nil: "strip (strip s) = [] \<longleftrightarrow> strip s = []"
proof
  assume blank: "strip (strip s) = []"
  show "strip s = []"
  proof (rule ccontr)
    assume "strip s \<noteq> []"
    then have n: "dropWhile is_space (rev (dropWhile is_space s)) \<noteq> []" by (simp add: strip_def)
    then have "hd (dropWhile is_space (rev (dropWhile is_space s))) \<in> set (strip s)" by (metis hd_in_set set_rev strip_def)
    then show False using blank hd_dropWhile [OF n] by (auto simp: strip_eq_Nil)
  qed
qed (use strip_eq_Nil [of "[]"] in simp)

lemma draft_decisions_stripped: "x \<in> set (draft_user_decisions draft) \<Longrightarrow> strip x \<noteq> []"
  by (auto simp: draft_user_decisions_def asks_user_def Let_def strip_strip_Nil)

lemma row_decisions: "stored_user_decisions (proposal_row i v task inp draft) = draft_user_decisions draft"
  using draft_decisions_stripped map_json_str_JStr [of "draft_user_decisions draft"]
  by (auto simp: stored_user_decisions_def proposal_row_def valid_json_object_def texts_json_def filter_id_conv simp del: map_map)

lemma row_completeness: "judged_completeness (proposal_row i v task inp draft) = draft_completeness draft"
  unfolding judged_completeness_def draft_completeness_def draft_complete_def row_decisions
  using row_missing [of i v task inp draft] row_unknown [of i v task inp draft] by auto
lemma get_row_fresh: "i \<notin> set (map key rows) \<Longrightarrow> get_row key i rows = None"
  by (force simp: get_row_None_iff)

lemma set_row_fresh: "i \<notin> set (map key rows) \<Longrightarrow> set_row key i f (rows @ [r]) = rows @ [if key r = i then f r else r]"
  by (induction rows) (auto simp: set_row_def set_where_def)

definition stored_row :: "generator_env \<Rightarrow> string \<Rightarrow> LLMRequest \<Rightarrow> ChangeTask \<Rightarrow> ProposalDraft \<Rightarrow> db \<Rightarrow> ChangeProposal" where
  "stored_row env t request task draft d =
     (proposal_row (ge_proposal_id env) (next_version t d) task (lq_input_text request) draft)\<lparr>pr_completeness := draft_completeness draft\<rparr>"

lemma generate_stores:
  assumes task: "get_task d t = Some task" and response: "ge_provider env (with_context (ge_schema env) request ctx eps) = Inr response"
    and draft: "draft_of_response env response = Inr draft" and fresh: "ge_proposal_id env \<notin> set (map pr_id (proposals d))"
  obtains message where "generate env t request ctx eps d =
    (d\<lparr>proposals := proposals d @ [stored_row env t request task draft d],
       tasks := set_row tk_id t (\<lambda>t. t\<lparr>tk_status := fst (judged_status (draft_completeness draft)),
         tk_failure_code := snd (judged_status (draft_completeness draft)), tk_failure_message := message\<rparr>) (tasks d)\<rparr>,
     Inr (stored_row env t request task draft d))"
proof -
  let ?row = "proposal_row (ge_proposal_id env) (next_version t d) task (lq_input_text request) draft"
  let ?d = "d\<lparr>proposals := proposals d @ [?row]\<rparr>"
  have "tk_id task = t" using task by auto
  then have row: "pr_id ?row = ge_proposal_id env" "pr_task_id ?row = t" by (simp_all add: proposal_row_def)
  have g: "get_proposal ?d (pr_id ?row) = Some ?row" using get_row_fresh [OF fresh] by (simp add: table_simps row)
  have k: "get_task ?d (pr_task_id ?row) = Some task" by (simp add: task row)
  obtain res message where e: "evaluate_completeness (pr_id ?row) ?d =
      (?d\<lparr>proposals := set_row pr_id (pr_id ?row) (\<lambda>p. p\<lparr>pr_completeness := judged_completeness ?row\<rparr>) (proposals ?d),
         tasks := set_row tk_id (pr_task_id ?row) (\<lambda>t. t\<lparr>tk_status := fst (judged_status (judged_completeness ?row)),
           tk_failure_code := snd (judged_status (judged_completeness ?row)), tk_failure_message := message\<rparr>) (tasks ?d)\<rparr>, Inr res)"
    using evaluate_completeness_effect [OF g k] by blast
  have fr: "set_row pr_id (ge_proposal_id env) (\<lambda>p. p\<lparr>pr_completeness := draft_completeness draft\<rparr>) (proposals d @ [?row]) =
      proposals d @ [?row\<lparr>pr_completeness := draft_completeness draft\<rparr>]"
    using set_row_fresh [OF fresh] row by simp
  have d: "rbind (ge_provider env (with_context (ge_schema env) request ctx eps)) (draft_of_response env) = Inr draft"
    by (simp add: response draft)
  show thesis
    using task d e get_row_fresh [OF fresh]
    by (intro that [of message]) (auto simp: generate_def Let_def row_completeness row fr table_simps stored_row_def)
qed

lemma generate_cases:
  assumes "generate env t request ctx eps d = (d', r)" and fresh: "ge_proposal_id env \<notin> set (map pr_id (proposals d))"
  obtains (refused) e where "d' = d" "r = Inl e"
  | (generated) task draft response message where "get_task d t = Some task"
      "ge_provider env (with_context (ge_schema env) request ctx eps) = Inr response" "draft_of_response env response = Inr draft"
      "r = Inr (stored_row env t request task draft d)"
      "d' = d\<lparr>proposals := proposals d @ [stored_row env t request task draft d],
         tasks := set_row tk_id t (\<lambda>t. t\<lparr>tk_status := fst (judged_status (draft_completeness draft)),
           tk_failure_code := snd (judged_status (draft_completeness draft)), tk_failure_message := message\<rparr>) (tasks d)\<rparr>"
proof (cases "get_task d t")
  case None
  with assms refused show thesis by (auto simp: generate_def)
next
  case (Some task)
  show thesis
  proof (cases "rbind (ge_provider env (with_context (ge_schema env) request ctx eps)) (draft_of_response env)")
    case (Inl e)
    with assms Some refused show thesis by (auto simp: generate_def)
  next
    case (Inr draft)
    then obtain response where rs: "ge_provider env (with_context (ge_schema env) request ctx eps) = Inr response"
        "draft_of_response env response = Inr draft"
      by (auto simp: rbind_eq_Inr)
    from generate_stores [OF Some this fresh] assms(1) generated [OF Some rs] show thesis by (metis prod.inject)
  qed
qed

text \<open>
  (C20) A generated proposal stores the draft of the model's answer: it is added after the proposals of the database, none of
  which changes, with a version above every earlier one of its task; its completeness, and the status of the task, are
  those of the draft; and the scope that the change flow will read from it is the scope of the draft. A generation that
  fails leaves the database as it was.
\<close>

theorem generated_proposal_stores_draft:
  assumes "generate env t request ctx eps d = (d', r)" and "ge_proposal_id env \<notin> set (map pr_id (proposals d))"
  shows "case r of
      Inl e \<Rightarrow> d' = d
    | Inr p \<Rightarrow> \<exists>response draft task. ge_provider env (with_context (ge_schema env) request ctx eps) = Inr response \<and>
        draft_of_response env response = Inr draft \<and> proposals d' = proposals d @ [p] \<and> pr_task_id p = t \<and>
        list_all (\<lambda>q. pr_version q < pr_version p) (filter (\<lambda>q. pr_task_id q = t) (proposals d)) \<and>
        pr_completeness p = draft_completeness draft \<and> get_task d' t = Some task \<and>
        tk_status task = fst (judged_status (draft_completeness draft)) \<and>
        valid_json_list (Some (pr_initial_scope_json p)) = map JStr (pd_scope draft)"
  using assms
proof (cases rule: generate_cases)
  case (refused e)
  then show ?thesis by simp
next
  case (generated task draft response message)
  have "tk_id task = t" using generated(1) by auto
  moreover have "list_all (\<lambda>q. pr_version q < next_version t d) (filter (\<lambda>q. pr_task_id q = t) (proposals d))"
  proof -
    have "pr_version q \<le> max_or_0 (map pr_version (filter (\<lambda>p. pr_task_id p = t) (proposals d)))"
      if "q \<in> set (filter (\<lambda>p. pr_task_id p = t) (proposals d))" for q
      using that by (intro max_or_0_ge) auto
    then show ?thesis unfolding list_all_iff next_version_def by (metis zle_add1_eq_le)
  qed
  ultimately show ?thesis
    using generated by (auto simp: table_simps stored_row_def proposal_row_def valid_json_list_def texts_json_def)
qed
definition sample_draft :: "string list \<Rightarrow> ProposalDraft" where
  "sample_draft scope = \<lparr>pd_goal = ''g'', pd_understanding = ''u'', pd_expected_behavior = ''b'', pd_scope = scope,
     pd_changes = [\<lparr>cd_path = ''a.py'', cd_symbol = None, cd_action = ''edit'', cd_reason = ''r''\<rparr>], pd_steps = [''s''], pd_non_goals = [],
     pd_constraints = [], pd_acceptance = [''c''], pd_validation = [''v''], pd_user_facts = [], pd_inferences = [], pd_risks = [''k'']\<rparr>"

definition sample_generator :: "string list \<Rightarrow> generator_env" where
  "sample_generator scope = \<lparr>ge_provider = (\<lambda>req. Inr \<lparr>ls_content = ''{}'', ls_input_tokens = 1, ls_output_tokens = 1, ls_model = ''m'', ls_provider = ''p''\<rparr>),
     ge_decoder = \<lparr>dc_loads = (\<lambda>s. Some JNull), dc_raw = (\<lambda>s. None)\<rparr>, ge_model_validate = (\<lambda>v. Inr (sample_draft scope)),
     ge_schema = JNull, ge_proposal_id = ''p2''\<rparr>"

definition sample_request :: LLMRequest where
  "sample_request = \<lparr>lq_prompt_summary = ''s'', lq_input_text = ''i''\<rparr>"

definition sample_proposal_db :: db where
  "sample_proposal_db = empty_db\<lparr>tasks := [\<lparr>tk_id = ''t1'', tk_project_id = ''j1'', tk_requester_id = None, tk_original_request = ''x'',
     tk_base_revision = Some ''r1'', tk_base_workspace_hash = None, tk_status = TaskStatus.DECIDING, tk_active_proposal_id = None,
     tk_active_policy_id = None, tk_workspace_lock_id = None, tk_transaction_id = None, tk_iteration_count = 0, tk_repair_count = 0,
     tk_stagnation_count = 0, tk_finished_at = None, tk_failure_code = None, tk_failure_message = None, tk_version = 1\<rparr>]\<rparr>"

lemma sample_generated:
  obtains message where "generate (sample_generator scope) ''t1'' sample_request None [] sample_proposal_db =
    (sample_proposal_db\<lparr>proposals := [stored_row (sample_generator scope) ''t1'' sample_request (hd (tasks sample_proposal_db)) (sample_draft scope) sample_proposal_db],
       tasks := set_row tk_id ''t1'' (\<lambda>t. t\<lparr>tk_status := fst (judged_status (draft_completeness (sample_draft scope))),
         tk_failure_code := snd (judged_status (draft_completeness (sample_draft scope))), tk_failure_message := message\<rparr>) (tasks sample_proposal_db)\<rparr>,
     Inr (stored_row (sample_generator scope) ''t1'' sample_request (hd (tasks sample_proposal_db)) (sample_draft scope) sample_proposal_db))"
proof -
  have t: "get_task sample_proposal_db ''t1'' = Some (hd (tasks sample_proposal_db))" by code_simp
  have s: "strip ''{}'' = ''{}''" by code_simp
  have "draft_of_response (sample_generator scope) \<lparr>ls_content = ''{}'', ls_input_tokens = 1, ls_output_tokens = 1, ls_model = ''m'', ls_provider = ''p''\<rparr> =
      Inr (sample_draft scope)"
    by (simp add: draft_of_response_def sample_generator_def loads_proposal_json_def s)
  from generate_stores [OF t _ this, of sample_request None "[]"] that show thesis
    by (auto simp: sample_generator_def sample_proposal_db_def empty_db_def)
qed

theorem generated_proposal_stores_draft_witness:
  "\<exists>p. snd (generate (sample_generator [''a.py'']) ''t1'' sample_request None [] sample_proposal_db) = Inr p \<and>
     pr_completeness p = ProposalCompleteness.COMPLETE \<and> valid_json_list (Some (pr_initial_scope_json p)) = [JStr ''a.py'']"
proof -
  obtain message where g: "generate (sample_generator [''a.py'']) ''t1'' sample_request None [] sample_proposal_db =
    (sample_proposal_db\<lparr>proposals := [stored_row (sample_generator [''a.py'']) ''t1'' sample_request (hd (tasks sample_proposal_db)) (sample_draft [''a.py'']) sample_proposal_db],
       tasks := set_row tk_id ''t1'' (\<lambda>t. t\<lparr>tk_status := fst (judged_status (draft_completeness (sample_draft [''a.py'']))),
         tk_failure_code := snd (judged_status (draft_completeness (sample_draft [''a.py'']))), tk_failure_message := message\<rparr>) (tasks sample_proposal_db)\<rparr>,
     Inr (stored_row (sample_generator [''a.py'']) ''t1'' sample_request (hd (tasks sample_proposal_db)) (sample_draft [''a.py'']) sample_proposal_db))"
    by (rule sample_generated)
  have d: "draft_completeness (sample_draft [''a.py'']) = ProposalCompleteness.COMPLETE" by code_simp
  have "valid_json_list (Some (pr_initial_scope_json (stored_row (sample_generator [''a.py'']) ''t1'' sample_request
      (hd (tasks sample_proposal_db)) (sample_draft [''a.py'']) sample_proposal_db))) = [JStr ''a.py'']"
    using generated_proposal_stores_draft [OF g]
    by (auto simp: sample_generator_def sample_proposal_db_def empty_db_def draft_of_response_def sample_draft_def Let_def split: if_splits option.splits)
  with g d show ?thesis by (simp add: stored_row_def)
qed
theorem completeness_gates_confirmation_witness:
  "\<exists>d1 p d' r d'' res. generate (sample_generator [''a.py'']) ''t1'' sample_request None [] sample_proposal_db = (d1, Inr p) \<and>
     evaluate_completeness (pr_id p) d1 = (d', Inr r) \<and> cr_can_enter_analysis r \<and> confirm_new_version (pr_id p) ''u1'' d' = (d'', Inr res)"
proof -
  let ?row = "stored_row (sample_generator [''a.py'']) ''t1'' sample_request (hd (tasks sample_proposal_db)) (sample_draft [''a.py'']) sample_proposal_db"
  obtain message where g: "generate (sample_generator [''a.py'']) ''t1'' sample_request None [] sample_proposal_db =
    (sample_proposal_db\<lparr>proposals := [?row],
       tasks := set_row tk_id ''t1'' (\<lambda>t. t\<lparr>tk_status := fst (judged_status (draft_completeness (sample_draft [''a.py'']))),
         tk_failure_code := snd (judged_status (draft_completeness (sample_draft [''a.py'']))), tk_failure_message := message\<rparr>) (tasks sample_proposal_db)\<rparr>,
     Inr ?row)" (is "_ = (?d1, _)")
    by (rule sample_generated)
  have row: "pr_id ?row = ''p2''" "pr_task_id ?row = ''t1''" by (code_simp, code_simp)
  have p: "get_proposal ?d1 ''p2'' = Some ?row" using row by (simp add: get_row_def)
  have t: "\<exists>task. get_task ?d1 (pr_task_id ?row) = Some task"
    by (simp add: row table_simps) (simp add: sample_proposal_db_def get_row_def)
  have "judged_completeness ?row = ProposalCompleteness.COMPLETE" by code_simp
  with evaluate_completeness_effect [OF p] t obtain d' r where
    e: "evaluate_completeness ''p2'' ?d1 = (d', Inr r)" "cr_can_enter_analysis r" by metis
  with completeness_gates_confirmation [OF e(1), of "''u1''"] g row show ?thesis by (metis (no_types, lifting))
qed

subsection \<open>The supplement ends the analysis\<close>

definition sample_task :: ChangeTask where
  "sample_task = hd (tasks sample_proposal_db)"

definition sample_old_proposal :: ChangeProposal where
  "sample_old_proposal = proposal_row ''p1'' 1 sample_task ''i'' (sample_draft [''unknown''])"

definition sample_supplement_db :: db where
  "sample_supplement_db = sample_proposal_db\<lparr>proposals := [sample_old_proposal]\<rparr>"


text \<open>
  The markers are looked for anywhere in an entry, so the path of a real file can be taken for a placeholder: a
  directory that ends in n with a file that begins with a, or anything called todo. Such a proposal is never complete.
\<close>

theorem path_taken_for_placeholder:
  "draft_completeness (sample_draft [''src/main.py'']) = ProposalCompleteness.COMPLETE \<and>
   map (\<lambda>path. draft_completeness (sample_draft [path])) [''src/main/app.py'', ''src/admin/auth.py'', ''src/todo/list.py''] =
     replicate 3 ProposalCompleteness.INCOMPLETE"
  by code_simp

end
