(* ===== verification/Harness.thy ===== *)
theory Harness
  imports Orchestrator ChangeFlow Proposals
begin

section \<open>Harness: the application facade\<close>

text \<open>
  \<^verbatim>\<open>application/harness.py\<close> with \<^verbatim>\<open>api/workbench_presentation.py\<close>: creating a task, and confirming a prepared proposal
  and executing it, with the summaries handed to the command line. A block of \<^verbatim>\<open>session_scope\<close> that raises is rolled
  back. The messages of the workbench are kept beside the database. The git command line, the decoder of JSON texts, the
  ids and the environments of the change flow and of the execution are parameters.
\<close>

subsection \<open>\<^verbatim>\<open>api/workbench_presentation.py\<close>\<close>

definition QUESTION_ANSWER_FAILURE :: string where
  "QUESTION_ANSWER_FAILURE = (uni ''^56de^7b54^751f^6210^5931^8d25^ff0c^8bf7^91cd^8bd5^3002'')"

definition json_payload_text :: "string \<Rightarrow> string option" where
  "json_payload_text t =
     (if startswith t ''{'' then Some t
      else if \<not> startswith t fence then None
      else let ls = splitlines t
           in if length ls < 3 \<or> strip (last ls) \<noteq> fence then None
              else if lower (strip (hd ls)) \<notin> {fence, fence @ ''json''} then None
              else let body = strip (join [CHR 0x0A] (butlast (tl ls))) in if startswith body ''{'' then Some body else None)"

definition message_object :: "(string \<Rightarrow> json option) \<Rightarrow> string \<Rightarrow> (string \<times> json) list option" where
  "message_object loads t = (case Option.bind (json_payload_text t) loads of Some (JObj kvs) \<Rightarrow> Some kvs | _ \<Rightarrow> None)"

definition field_or :: "(string \<times> json) list \<Rightarrow> string \<Rightarrow> string \<Rightarrow> string" where
  "field_or payload key fallback =
     (case map_of payload key of Some (JStr s) \<Rightarrow> if strip s \<noteq> [] then strip s else fallback | _ \<Rightarrow> fallback)"

definition workbench_message_text :: "(string \<Rightarrow> json option) \<Rightarrow> string \<Rightarrow> string \<Rightarrow> string \<Rightarrow> string" where
  "workbench_message_text loads role kind t =
     (let stripped = strip t
      in if role \<noteq> ''MENTOR'' then stripped
         else case message_object loads stripped of
                None \<Rightarrow> stripped
              | Some payload \<Rightarrow>
                  if kind = ''TEXT'' then field_or payload ''answer'' QUESTION_ANSWER_FAILURE
                  else if kind = ''PROPOSAL'' then (uni ''^6211^5df2^7ecf^66f4^65b0^4e86^5f53^524d^65b9^6848^ff0c^8bf7^67e5^770b^4e0b^65b9 Proposal ^5361^7247^3002'')
                  else if kind = ''ERROR'' then field_or payload ''message'' (uni ''^64cd^4f5c^5931^8d25^ff0c^8bf7^91cd^8bd5^3002'')
                  else stripped)"

record WorkbenchMessage =
  wm_task_id :: string
  wm_sequence :: int
  wm_role :: string
  wm_kind :: string
  wm_status :: string
  wm_text :: string
  wm_proposal_id :: "string option"

definition add_workbench_message ::
    "(string \<Rightarrow> json option) \<Rightarrow> string \<Rightarrow> string \<Rightarrow> string \<Rightarrow> string \<Rightarrow> string \<Rightarrow> string option \<Rightarrow> WorkbenchMessage list \<Rightarrow> WorkbenchMessage list" where
  "add_workbench_message loads task_id role kind status t proposal_id messages =
     messages @ [\<lparr>wm_task_id = task_id,
       wm_sequence = max_or_0 (map wm_sequence (filter (\<lambda>m. wm_task_id m = task_id) messages)) + 1,
       wm_role = role, wm_kind = kind, wm_status = status, wm_text = workbench_message_text loads role kind t,
       wm_proposal_id = proposal_id\<rparr>]"

subsection \<open>Summaries\<close>

record TaskSummary =
  sm_id :: string
  sm_project_id :: string
  sm_request :: string
  sm_status :: string

definition task_summary_of :: "ChangeTask \<Rightarrow> TaskSummary" where
  "task_summary_of task = \<lparr>sm_id = tk_id task, sm_project_id = tk_project_id task, sm_request = tk_original_request task,
     sm_status = task_status_str (tk_status task)\<rparr>"

definition task_summary :: "string \<Rightarrow> db \<Rightarrow> TaskSummary result" where
  "task_summary task_id d =
     (case get_task d task_id of
        None \<Rightarrow> Inl (HarnessError ''TASK_NOT_FOUND'' ''task not found'')
      | Some task \<Rightarrow> Inr (task_summary_of task))"

definition harness_json_list :: "json_text option \<Rightarrow> string list result" where
  "harness_json_list v = (case v of None \<Rightarrow> Inr [] | Some t \<Rightarrow> flow_json_tuple t)"

fun harness_json_items :: "json_text option \<Rightarrow> json list result" where
  "harness_json_items None = Inr []"
| "harness_json_items (Some JBlank) = Inr []"
| "harness_json_items (Some JGarbage) = Inl (ValueError ''JSONDecodeError'')"
| "harness_json_items (Some (JText (JList data))) = Inr data"
| "harness_json_items (Some (JText (JObj kvs))) = Inr [JObj kvs]"
| "harness_json_items (Some (JText v)) = Inr (if json_truth v then [v] else [])"

fun harness_json_object :: "json_text option \<Rightarrow> (string \<times> json) list result" where
  "harness_json_object (Some JGarbage) = Inl (ValueError ''JSONDecodeError'')"
| "harness_json_object (Some (JText (JObj kvs))) = Inr kvs"
| "harness_json_object _ = Inr []"

definition json_dicts :: "json option \<Rightarrow> json list" where
  "json_dicts v = filter (\<lambda>x. case x of JObj _ \<Rightarrow> True | _ \<Rightarrow> False) (list_items v)"

definition json_strings :: "json option \<Rightarrow> string list" where
  "json_strings v = map json_str (list_items v)"

record ProposalSummary =
  os_id :: string
  os_task_id :: string
  os_version :: int
  os_goal :: string
  os_understanding :: string
  os_expected_behavior :: string
  os_scope :: "string list"
  os_changes :: "json list"
  os_steps :: "string list"
  os_risks :: "string list"
  os_acceptance :: "string list"
  os_validation :: "string list"
  os_completeness :: ProposalCompleteness
  os_status :: ProposalStatus

definition proposal_summary :: "ChangeProposal \<Rightarrow> ProposalSummary result" where
  "proposal_summary proposal =
     rbind (harness_json_object (pr_constraints_json proposal)) (\<lambda>constraints.
     rbind (harness_json_object (pr_risks_json proposal)) (\<lambda>risks.
     rbind (harness_json_object (pr_current_problem proposal)) (\<lambda>current_problem.
     rbind (harness_json_list (Some (pr_initial_scope_json proposal))) (\<lambda>scope.
     rbind (harness_json_list (Some (pr_acceptance_criteria_json proposal))) (\<lambda>acceptance.
     rbind (harness_json_list (pr_validation_plan_json proposal)) (\<lambda>validation.
       Inr \<lparr>os_id = pr_id proposal, os_task_id = pr_task_id proposal, os_version = pr_version proposal, os_goal = pr_goal proposal,
            os_understanding = (case map_of current_problem ''understanding'' of
               Some v \<Rightarrow> if json_truth v then json_str v else pr_goal proposal | None \<Rightarrow> pr_goal proposal),
            os_expected_behavior = pr_expected_behavior proposal, os_scope = scope,
            os_changes = json_dicts (map_of constraints ''changes''), os_steps = json_strings (map_of constraints ''steps''),
            os_risks = json_strings (map_of risks ''risks''), os_acceptance = acceptance, os_validation = validation,
            os_completeness = pr_completeness proposal, os_status = pr_status proposal\<rparr>))))))"

record ImpactSummary =
  im_id :: string
  im_direct_count :: nat
  im_indirect_count :: nat
  im_unknown_count :: nat

definition impact_summary :: "ImpactReport \<Rightarrow> ImpactSummary result" where
  "impact_summary report =
     rbind (harness_json_items (Some (ir_direct_impacts_json report))) (\<lambda>direct.
     rbind (harness_json_items (ir_indirect_impacts_json report)) (\<lambda>indirect.
     rbind (harness_json_items (ir_uncertainties_json report)) (\<lambda>unknowns.
       Inr \<lparr>im_id = ir_id report, im_direct_count = length direct, im_indirect_count = length indirect,
            im_unknown_count = length unknowns\<rparr>)))"

text \<open>No code writes rows of the table of rule hits, so the hits of a decision are none.\<close>

record GovernanceSummary =
  gs_id :: string
  gs_decision :: string
  gs_reason :: string
  gs_approval_required :: bool
  gs_allowed_scope :: "string list"
  gs_denied_scope :: "string list"

definition governance_summary :: "GovernanceDecision \<Rightarrow> GovernanceSummary result" where
  "governance_summary decision =
     rbind (harness_json_list (gd_allowed_scope_json decision)) (\<lambda>allowed.
     rbind (harness_json_list (gd_denied_scope_json decision)) (\<lambda>denied.
       Inr \<lparr>gs_id = gd_id decision, gs_decision = verdict_str (gd_decision decision), gs_reason = gd_reason_summary decision,
            gs_approval_required = gd_approval_required decision, gs_allowed_scope = allowed, gs_denied_scope = denied\<rparr>))"

record ExecutionSummary =
  xs_task_id :: string
  xs_status :: string
  xs_command :: "string option"
  xs_code :: "string option"
  xs_error :: "string option"
  xs_tools :: "(string \<times> ToolExecutionStatus \<times> string \<times> int option) list"
  xs_changed_files :: "string list"
  xs_validation :: "(string \<times> ValidationRunStatus \<times> int option) list"

definition harness_execution_summary :: "string \<Rightarrow> ExecutionResult option \<Rightarrow> db \<Rightarrow> ExecutionSummary" where
  "harness_execution_summary task_id res d =
     (let tools = sort_key (\<lambda>t. (te_created_at t, te_id t)) (filter (\<lambda>t. te_task_id t = task_id) (executions d));
          changes = sort_key (\<lambda>c. (fc_created_at c, fc_id c)) (filter (\<lambda>c. fc_task_id c = task_id) (file_changes d));
          plans = map vp_id (filter (\<lambda>p. vp_task_id p = task_id) (validation_plans d));
          runs = filter (\<lambda>r. vr_validation_plan_id r \<in> set plans) (validation_runs d)
      in \<lparr>xs_task_id = task_id, xs_status = (case res of None \<Rightarrow> ''NOT_EXECUTED'' | Some r \<Rightarrow> xr_status r),
          xs_command = Option.bind res xr_command, xs_code = Option.bind res xr_code, xs_error = Option.bind res xr_error,
          xs_tools = map (\<lambda>t. (te_tool_name t, te_status t, te_command_summary t, te_exit_code t)) tools,
          xs_changed_files = map fc_relative_path changes,
          xs_validation = map (\<lambda>r. (vr_command_summary r, vr_status r, vr_exit_code r)) runs\<rparr>)"

subsection \<open>The commands\<close>

record harness_env =
  he_flow :: flow_env
  he_exec :: exec_env
  he_turn_ids :: "nat \<Rightarrow> turn_ids"
  he_limits :: "RuntimePolicy option"
  he_loads :: "string \<Rightarrow> json option"
  he_actor_id :: string
  he_task_id :: string
  he_task_key :: string

record harness_state =
  hs_system :: exec_system
  hs_messages :: "WorkbenchMessage list"

definition set_harness_db :: "db \<Rightarrow> harness_state \<Rightarrow> harness_state" where
  "set_harness_db d s = s\<lparr>hs_system := (hs_system s)\<lparr>es_db := d\<rparr>\<rparr>"

definition DEFAULT_TOKEN_BUDGET :: int where
  "DEFAULT_TOKEN_BUDGET = 8192"

text \<open>Every call makes a new task service, so its dictionary of idempotency keys is empty.\<close>

definition harness_create_task :: "harness_env \<Rightarrow> string \<Rightarrow> string \<Rightarrow> harness_state \<Rightarrow> harness_state \<times> TaskSummary result" where
  "harness_create_task env project_id request s =
     (let d = es_db (hs_system s)
      in case get_row pj_id project_id (projects d) of
           None \<Rightarrow> (s, Inl (HarnessError ''PROJECT_NOT_FOUND'' ''project not found''))
         | Some project \<Rightarrow>
             (case base_revision (fe_git (he_flow env) (pj_root_path project)) of
                Inl e \<Rightarrow> (s, Inl (HarnessError ''TASK_CREATE_FAILED'' (err_message e)))
              | Inr revision \<Rightarrow>
                  (case create_task (he_task_id env) \<lparr>rq_project_id = project_id, rq_original_request = request,
                         rq_requester_id = Some (he_actor_id env), rq_base_revision = Some revision, rq_token_budget = DEFAULT_TOKEN_BUDGET\<rparr>
                       (he_actor_id env) (he_task_key env) \<lparr>ts_idempotency = (\<lambda>k. None), ts_db = d\<rparr> of
                     (svc, Inl e) \<Rightarrow> (set_harness_db (ts_db svc) s, Inl (HarnessError ''TASK_CREATE_FAILED'' (err_message e)))
                   | (svc, Inr created) \<Rightarrow>
                       (let s1 = set_harness_db (ts_db svc) s
                        in case get_task (ts_db svc) (cr_task_id created) of
                             None \<Rightarrow> (s1, Inl (HarnessError ''TASK_NOT_FOUND'' ''task not found''))
                           | Some task \<Rightarrow>
                               (s1\<lparr>hs_messages := add_workbench_message (he_loads env) (tk_id task) ''USER'' ''TEXT'' ''DONE''
                                  (tk_original_request task) None (hs_messages s1)\<rparr>, Inr (task_summary_of task))))))"

record CompletedRun =
  cu_impact :: ImpactSummary
  cu_governance :: GovernanceSummary
  cu_execution :: "ExecutionSummary option"
  cu_task :: TaskSummary

text \<open>The flow and its summaries run in one block of the session, which is rolled back when one of them raises.\<close>

definition confirm_in_session ::
    "harness_env \<Rightarrow> string \<Rightarrow> harness_state \<Rightarrow> harness_state \<times> (GovernanceSummary \<times> ImpactSummary) result" where
  "confirm_in_session env proposal_id s =
     (case confirm_and_analyze (he_flow env) proposal_id (he_actor_id env) (es_db (hs_system s)) of
        (d1, Inl e) \<Rightarrow> (s, Inl e)
      | (d1, Inr flow) \<Rightarrow>
          (case rbind (governance_summary (fr_governance_decision flow)) (\<lambda>decision.
                  rbind (impact_summary (fr_impact_report flow)) (\<lambda>impact. Inr (decision, impact))) of
             Inl e \<Rightarrow> (s, Inl e)
           | Inr summaries \<Rightarrow> (set_harness_db d1 s, Inr summaries)))"

definition finish_run ::
    "string \<Rightarrow> GovernanceSummary \<Rightarrow> ImpactSummary \<Rightarrow> ExecutionSummary option \<Rightarrow> harness_state \<Rightarrow> harness_state \<times> CompletedRun result" where
  "finish_run task_id decision impact execution s =
     (s, rbind (task_summary task_id (es_db (hs_system s))) (\<lambda>task.
        Inr \<lparr>cu_impact = impact, cu_governance = decision, cu_execution = execution, cu_task = task\<rparr>))"

definition confirm_and_execute ::
    "harness_env \<Rightarrow> string \<Rightarrow> string \<Rightarrow> string \<Rightarrow> harness_state \<Rightarrow> harness_state \<times> CompletedRun result" where
  "confirm_and_execute env task_id proposal_id command s =
     (case confirm_in_session env proposal_id s of
        (s1, Inl e) \<Rightarrow> (s1, Inl e)
      | (s1, Inr (decision, impact)) \<Rightarrow>
          if gs_decision decision = verdict_str GovernanceVerdict.ALLOW then
            (case execute_task (he_exec env) (he_turn_ids env) (he_limits env) task_id command (hs_system s1) of
               (sys, Inl e) \<Rightarrow> (s1\<lparr>hs_system := sys\<rparr>, Inl e)
             | (sys, Inr res) \<Rightarrow>
                 finish_run task_id decision impact (Some (harness_execution_summary task_id (Some res) (es_db sys))) (s1\<lparr>hs_system := sys\<rparr>))
          else finish_run task_id decision impact None s1)"

definition proposal_message_text :: "ChangeProposal \<Rightarrow> string" where
  "proposal_message_text proposal =
     (let head = ''Proposal v'' @ show_int (pr_version proposal)
      in case pr_completeness proposal of
           ProposalCompleteness.COMPLETE \<Rightarrow> head @ '' is ready for review.''
         | ProposalCompleteness.PARTIALLY_COMPLETE \<Rightarrow> head @ '' needs a user decision before confirmation.''
         | _ \<Rightarrow> head @ '' still needs technical analysis before confirmation.'')"

subsection \<open>From a confirmed proposal to the files of the project\<close>

text \<open>The ids that a run draws are new, and the ids of the policies are distinct.\<close>

definition fresh_run :: "harness_env \<Rightarrow> db \<Rightarrow> bool" where
  "fresh_run env d \<longleftrightarrow>
     fe_decision_id (he_flow env) \<notin> set (map gd_id (decisions d)) \<union> set (map ar_governance_decision_id (approval_requests d)) \<and>
     keys_distinct ep_id (policies d) \<and> fe_policy_id (he_flow env) \<notin> set (map ep_id (policies d)) \<and>
     (\<forall>i. tu_decision (he_turn_ids env i) \<notin> set (map gd_id (decisions d) @ [fe_decision_id (he_flow env)]))"

lemma governance_summary_decision:
  "governance_summary dec = Inr g \<Longrightarrow> gs_decision g = verdict_str GovernanceVerdict.ALLOW \<longleftrightarrow> gd_decision dec = GovernanceVerdict.ALLOW"
  by (cases "gd_decision dec") (auto simp: governance_summary_def rbind_eq_Inr)

lemma sole_active_policy:
  assumes "filter (active_policy_of t) (policies d) = [p]" and "get_task d t = Some task" and "tk_active_policy_id task = Some (ep_id p)"
    and "keys_distinct ep_id (policies d)"
  shows "active_policy t d = Some p" and "ep_task_id p = t"
proof -
  have "p \<in> set (filter (active_policy_of t) (policies d))" by (simp add: assms(1))
  then have p: "p \<in> set (policies d)" "active_policy_of t p" by auto
  then have "get_policy d (ep_id p) = Some p" using assms(4) by (simp add: get_row_Some_iff)
  with p assms(2,3) show "active_policy t d = Some p" and "ep_task_id p = t"
    by (auto simp: active_policy_def active_policy_of_def)
qed

lemma confirm_in_session_cases:
  assumes "confirm_in_session env pid s = (s1, r)"
  obtains (failed) e where "s1 = s" "r = Inl e"
  | (confirmed) d1 flow decision impact where
      "confirm_and_analyze (he_flow env) pid (he_actor_id env) (es_db (hs_system s)) = (d1, Inr flow)"
      "governance_summary (fr_governance_decision flow) = Inr decision" "s1 = set_harness_db d1 s" "r = Inr (decision, impact)"
proof -
  obtain d1 x where f: "confirm_and_analyze (he_flow env) pid (he_actor_id env) (es_db (hs_system s)) = (d1, x)" by (metis prod.collapse)
  show thesis
  proof (cases x)
    case (Inl e)
    then show thesis using assms f failed by (auto simp: confirm_in_session_def)
  next
    case (Inr flow)
    let ?r = "rbind (governance_summary (fr_governance_decision flow)) (\<lambda>decision.
      rbind (impact_summary (fr_impact_report flow)) (\<lambda>impact. Inr (decision, impact)))"
    show thesis
    proof (cases ?r)
      case (Inl e)
      then have "s1 = s" "r = Inl e" using assms f \<open>x = Inr flow\<close> by (simp_all add: confirm_in_session_def)
      then show thesis by (rule failed)
    next
      case (Inr y)
      then obtain decision impact where g: "governance_summary (fr_governance_decision flow) = Inr decision" "y = (decision, impact)"
        by (auto simp: rbind_eq_Inr)
      have "s1 = set_harness_db d1 s" "r = Inr y" using assms f \<open>x = Inr flow\<close> Inr by (simp_all add: confirm_in_session_def)
      with confirmed f \<open>x = Inr flow\<close> g show thesis by blast
    qed
  qed
qed

lemma allowed_execution_ready:
  assumes flow: "confirm_and_analyze (he_flow env) pid (he_actor_id env) d = (d1, Inr fr)" and fresh: "fresh_run env d"
    and allow: "gd_decision (fr_governance_decision fr) = GovernanceVerdict.ALLOW" and given: "get_proposal d pid = Some proposal"
  obtains scope paths p where "judged_scope proposal = Inr scope" "canonical_project_paths scope = Inr paths"
    "flow_verdict paths = GovernanceVerdict.ALLOW" "active_policy (pr_task_id proposal) d1 = Some p"
    "ep_write_paths_json p = json_dumps_strings (sort paths)" "execution_ready (he_turn_ids env) (pr_task_id proposal) d1"
    "projects d1 = projects d"
proof -
  let ?t = "pr_task_id proposal"
  obtain scope paths task where s: "judged_scope proposal = Inr scope" "canonical_project_paths scope = Inr paths"
      "get_task d1 ?t = Some task" "flow_verdict paths = GovernanceVerdict.ALLOW"
      "settled_authority (he_flow env) scope paths task (fr_governance_decision fr) (fr_approval_request fr) d1"
    using confirmation_settles [OF flow] fresh given allow by (auto simp: fresh_run_def)
  have t: "tk_id task = ?t" using s(3) by auto
  obtain p where p: "filter (active_policy_of ?t) (policies d1) = [p]" "ep_write_paths_json p = json_dumps_strings (sort paths)"
      "tk_active_policy_id task = Some (ep_id p)"
    using s(5) allow by (auto simp: settled_authority_def Let_def t)
  have keys: "keys_distinct ep_id (policies d1)"
    using fresh flow_ids(3) [OF flow] by (simp add: keys_distinct_def fresh_run_def)
  note a = sole_active_policy [OF p(1) s(3) p(3) keys]
  have own: "own_decisions (he_turn_ids env) ?t (decisions d1)"
  proof -
    have "gd_id dec \<in> set (map gd_id (decisions d) @ [fe_decision_id (he_flow env)])" if "dec \<in> set (decisions d1)" for dec
      using that flow_ids(2) [OF flow] by (metis image_eqI list.set_map)
    then show ?thesis using fresh unfolding own_decisions_def fresh_run_def by metis
  qed
  have "execution_ready (he_turn_ids env) ?t d1" using keys own a by (auto simp: execution_ready_def)
  with that s(1,2,4) a(1) p(2) flow_ids(1) [OF flow] show thesis by blast
qed

definition sample_harness_env :: harness_env where
  "sample_harness_env = \<lparr>he_flow = sample_flow_env, he_exec = sample_exec_env (DeleteFileAction ''src/a.py'' ''drop''),
     he_turn_ids = (\<lambda>i. sample_turn_ids), he_limits = None, he_loads = (\<lambda>s. None), he_actor_id = ''u1'', he_task_id = ''t2'',
     he_task_key = ''k''\<rparr>"

definition sample_harness :: harness_state where
  "sample_harness = \<lparr>hs_system = sample_system\<lparr>es_db := sample_flow_db [''src/a.py'']\<rparr>, hs_messages = []\<rparr>"

subsection \<open>The messages of the workbench\<close>

text \<open>The unique index and the CHECK constraint of the table of messages.\<close>

definition messages_ok :: "WorkbenchMessage list \<Rightarrow> bool" where
  "messages_ok ms \<longleftrightarrow> distinct (map (\<lambda>m. (wm_task_id m, wm_sequence m)) ms) \<and> list_all (\<lambda>m. 1 \<le> wm_sequence m) ms"

lemma add_message_ok:
  assumes "messages_ok ms"
  shows "messages_ok (add_workbench_message loads t role kind status txt0 p ms)"
proof -
  let ?n = "max_or_0 (map wm_sequence (filter (\<lambda>m. wm_task_id m = t) ms))"
  have le: "wm_sequence m \<le> ?n" if "m \<in> set ms" "wm_task_id m = t" for m
    using that by (intro max_or_0_ge) auto
  have "0 \<le> ?n"
  proof (cases "filter (\<lambda>m. wm_task_id m = t) ms")
    case Nil
    then show ?thesis by (simp add: max_or_0_def)
  next
    case (Cons m rest)
    then have "m \<in> set (filter (\<lambda>m. wm_task_id m = t) ms)" by simp
    then have "m \<in> set ms" "wm_task_id m = t" by auto
    then show ?thesis using le [of m] assms by (auto simp: messages_ok_def list_all_iff)
  qed
  with le assms show ?thesis by (fastforce simp: messages_ok_def add_workbench_message_def list_all_iff)
qed

text \<open>
  Creating a task through the facade either reports an error of the facade and changes nothing, or adds one task in its
  initial state at the revision of the checkout, with one message of the user that keeps the sequence of the workbench.
\<close>

theorem harness_task_created:
  assumes "harness_create_task env project_id request s = (s', r)" and "messages_ok (hs_messages s)"
    and "he_task_id env \<notin> set (map tk_id (tasks (es_db (hs_system s))))"
  shows "messages_ok (hs_messages s') \<and>
    (case r of
       Inl e \<Rightarrow> s' = s \<and> (\<exists>code m. e = HarnessError code m)
     | Inr summary \<Rightarrow> \<exists>task project revision. tasks (es_db (hs_system s')) = tasks (es_db (hs_system s)) @ [task] \<and>
         get_row pj_id project_id (projects (es_db (hs_system s))) = Some project \<and>
         base_revision (fe_git (he_flow env) (pj_root_path project)) = Inr revision \<and>
         tk_id task = he_task_id env \<and> tk_status task = TaskStatus.CREATED \<and> tk_base_revision task = Some revision \<and>
         summary = task_summary_of task \<and> es_files (hs_system s') = es_files (hs_system s) \<and>
         policies (es_db (hs_system s')) = policies (es_db (hs_system s)))"
  using assms get_row_fresh [OF assms(3)] add_message_ok [OF assms(2)]
  by (auto simp: harness_create_task_def create_task_def new_task_def set_harness_db_def table_simps Let_def
      split: option.splits sum.splits)

theorem harness_task_created_witness:
  "\<exists>summary. snd (harness_create_task sample_harness_env ''j1'' ''do it'' sample_harness) = Inr summary \<and>
     length (tasks (es_db (hs_system (fst (harness_create_task sample_harness_env ''j1'' ''do it'' sample_harness))))) = 2"
proof -
  let ?run = "harness_create_task sample_harness_env ''j1'' ''do it'' sample_harness"
  have b: "base_revision (\<lambda>args. Inr []) = Inr []" by code_simp
  have "\<not> isl (snd ?run)"
    by (simp add: harness_create_task_def create_task_def set_harness_db_def sample_harness_env_def sample_harness_def sample_flow_env_def
        sample_flow_db_def empty_db_def get_row_def new_task_def b Let_def)
  then obtain summary where r: "snd ?run = Inr summary" by (cases "snd ?run") auto
  have run: "harness_create_task sample_harness_env ''j1'' ''do it'' sample_harness = (fst ?run, Inr summary)"
    unfolding r [symmetric] by simp
  have m: "messages_ok (hs_messages sample_harness)"
      "he_task_id sample_harness_env \<notin> set (map tk_id (tasks (es_db (hs_system sample_harness))))"
      "length (tasks (es_db (hs_system sample_harness))) = 1"
    by (simp_all add: messages_ok_def sample_harness_env_def sample_harness_def sample_flow_db_def)
  with harness_task_created [OF run m(1,2)] r show ?thesis by auto
qed

end
