(* ===== verification/Approving.thy ===== *)
theory Approving
  imports Orchestrator ChangeFlow
begin

section \<open>Approving: the decisions of the user on approval requests\<close>

text \<open>
  \<^verbatim>\<open>api/approvals.py\<close>: approving a request records the decision, compiles the policy of the approved scope unless the
  request has an active one, and creates a temporary grant; rejecting records the decision. Both run in one block of
  \<^verbatim>\<open>session_scope\<close> (\<^verbatim>\<open>db/session.py\<close>), which is rolled back when a step raises. The ids and the time of the new rows are
  parameters.
\<close>

definition session_scope :: "(db \<Rightarrow> 'a action_result) \<Rightarrow> db \<Rightarrow> 'a action_result" where
  "session_scope block d =
     (case block d of
        (d', Inr v) \<Rightarrow> (d', Inr v)
      | (d', Inl e) \<Rightarrow> (d, Inl e))"

record approval_env =
  ae_now :: int
  ae_approval_id :: string
  ae_policy_id :: string

fun policy_status_str :: "ExecutionPolicyStatus \<Rightarrow> string" where
  "policy_status_str ExecutionPolicyStatus.ACTIVE = ''ACTIVE''"
| "policy_status_str ExecutionPolicyStatus.EXPIRED = ''EXPIRED''"
| "policy_status_str ExecutionPolicyStatus.SUPERSEDED = ''SUPERSEDED''"
| "policy_status_str ExecutionPolicyStatus.REVOKED = ''REVOKED''"

definition active_policy_for_request :: "ApprovalRequest \<Rightarrow> db \<Rightarrow> ExecutionPolicy option" where
  "active_policy_for_request request d =
     find (\<lambda>p. ep_approval_request_id p = Some (ar_id request) \<and> ep_status p = ExecutionPolicyStatus.ACTIVE) (policies d)"

definition approval_payload :: "string \<Rightarrow> string list \<Rightarrow> ApprovalDecision \<Rightarrow> TemporaryGrant \<Rightarrow> ExecutionPolicy \<Rightarrow> json" where
  "approval_payload approval_id approved_scope decision grant policy =
     JObj [(''id'', JStr approval_id), (''status'', JStr (outcome_str (ad_outcome decision))),
       (''approvedScope'', JList (map JStr approved_scope)),
       (''temporaryGrant'', JObj [(''id'', JStr (tg_policy_id grant)), (''approvalId'', JStr approval_id),
          (''scope'', JList (map JStr (tg_write_paths grant))), (''status'', JStr ''ACTIVE''), (''taskId'', JStr (tg_task_id grant)),
          (''policyId'', JStr (tg_policy_id grant)), (''revision'', JStr (tg_revision grant))]),
       (''executionPolicy'', JObj [(''id'', JStr (ep_id policy)), (''approvalId'', JStr approval_id),
          (''writeAllowed'', JBool (ep_executable policy \<and> tg_write_paths grant \<noteq> [])),
          (''commands'', JList (map JStr (tg_commands grant))), (''writePaths'', JList (map JStr (tg_write_paths grant))),
          (''status'', JStr (policy_status_str (ep_status policy)))])]"

text \<open>The policy of the request: the active one, or a new one for the approved scope.\<close>

definition policy_for_request :: "approval_env \<Rightarrow> ApprovalRequest \<Rightarrow> string list \<Rightarrow> db \<Rightarrow> ExecutionPolicy action_result" where
  "policy_for_request env request approved_scope d =
     (case active_policy_for_request request d of
        Some policy \<Rightarrow> (d, Inr policy)
      | None \<Rightarrow> compile (ae_policy_id env) (ar_governance_decision_id request) [] approved_scope [''RUN_COMMAND''] [] (JObj []) (JObj []) d)"

definition approve_block :: "approval_env \<Rightarrow> string \<Rightarrow> string list \<Rightarrow> db \<Rightarrow> json action_result" where
  "approve_block env approval_id approved_scope d =
     (case get_request d approval_id of
        None \<Rightarrow> (d, Inl (ValueError ''approval request not found''))
      | Some request \<Rightarrow>
          (case record_approval (ae_now env) (ae_approval_id env) (ar_task_id request) approval_id ''api-user''
                  ApprovalDecisionOutcome.APPROVED approved_scope d of
             (d1, Inl e) \<Rightarrow> (d1, Inl e)
           | (d1, Inr decision) \<Rightarrow>
               (case policy_for_request env request approved_scope d1 of
                  (d2, Inl e) \<Rightarrow> (d2, Inl e)
                | (d2, Inr policy) \<Rightarrow>
                    (d2, rbind (json_list (ep_commands_json policy)) (\<lambda>commands.
                      rbind (grant_create (ep_id policy) approved_scope commands d2) (\<lambda>grant.
                        Inr (approval_payload approval_id approved_scope decision grant policy)))))))"

definition approve :: "approval_env \<Rightarrow> string \<Rightarrow> string list \<Rightarrow> db \<Rightarrow> json action_result" where
  "approve env approval_id approved_scope = session_scope (approve_block env approval_id approved_scope)"

definition reject_block :: "approval_env \<Rightarrow> string \<Rightarrow> db \<Rightarrow> json action_result" where
  "reject_block env approval_id d =
     (case get_request d approval_id of
        None \<Rightarrow> (d, Inl (ValueError ''approval request not found''))
      | Some request \<Rightarrow>
          (case record_approval (ae_now env) (ae_approval_id env) (ar_task_id request) approval_id ''api-user''
                  ApprovalDecisionOutcome.REJECTED [] d of
             (d1, Inl e) \<Rightarrow> (d1, Inl e)
           | (d1, Inr decision) \<Rightarrow>
               (d1, Inr (JObj [(''id'', JStr approval_id), (''status'', JStr (outcome_str (ad_outcome decision)))]))))"

definition reject :: "approval_env \<Rightarrow> string \<Rightarrow> db \<Rightarrow> json action_result" where
  "reject env approval_id = session_scope (reject_block env approval_id)"

subsection \<open>What an approval grants\<close>

lemma session_scope_cases:
  assumes "session_scope block d = (d', r)"
  obtains (kept) v where "r = Inr v" "block d = (d', Inr v)" | (undone) e where "r = Inl e" "d' = d"
  using assms by (auto simp: session_scope_def split: prod.splits sum.splits)

text \<open>The approval of a request: its decision does not block, the request is approved, and the scope rests on the policy \<open>p\<close>.\<close>

definition approval_state ::
    "string \<Rightarrow> string list \<Rightarrow> ApprovalRequest \<Rightarrow> GovernanceDecision \<Rightarrow> string list \<Rightarrow> ExecutionPolicy \<Rightarrow> db \<Rightarrow> bool" where
  "approval_state aid scope request gov paths p d \<longleftrightarrow>
     gd_decision gov \<noteq> GovernanceVerdict.BLOCK \<and>
     get_request d aid = Some (request\<lparr>ar_status := ApprovalRequestStatus.APPROVED\<rparr>) \<and>
     canonical_project_paths scope = Inr paths \<and> get_policy d (ep_id p) = Some p \<and>
     ep_status p = ExecutionPolicyStatus.ACTIVE \<and> ep_executable p \<and>
     (\<exists>allowed. json_tuple (ep_write_paths_json p) = Inr allowed \<and> set paths \<subseteq> set allowed)"

definition approved_db :: "approval_env \<Rightarrow> ApprovalRequest \<Rightarrow> string list \<Rightarrow> db \<Rightarrow> db" where
  "approved_db env request scope d =
     d\<lparr>approval_requests := set_row ar_id (ar_id request) (\<lambda>r. r\<lparr>ar_status := ApprovalRequestStatus.APPROVED\<rparr>) (approval_requests d),
       approval_decisions := approval_decisions d @ [approval_row (ae_approval_id env) request (next_sequence (ar_id request) d)
         ApprovalDecisionOutcome.APPROVED ''api-user'' (sort scope)]\<rparr>"

lemma grant_scope:
  assumes "grant_create pid ws cs d = Inr g"
  shows "\<exists>policy paths allowed. get_policy d pid = Some policy \<and> ep_status policy = ExecutionPolicyStatus.ACTIVE \<and> ep_executable policy \<and>
    canonical_project_paths ws = Inr paths \<and> json_tuple (ep_write_paths_json policy) = Inr allowed \<and> set paths \<subseteq> set allowed"
  using assms by (auto simp: grant_create_def rbind_eq_Inr split: option.splits if_splits)

lemma approve_cases:
  assumes run: "approve env aid scope d = (d', r)"
    and ids: "keys_distinct ep_id (policies d)" "ae_policy_id env \<notin> set (map ep_id (policies d))"
  obtains (refused) e where "r = Inl e" "d' = d"
  | (reused) v request gov paths p where "r = Inr v" "get_request d aid = Some request"
      "get_decision d (ar_governance_decision_id request) = Some gov" "approval_state aid scope request gov paths p d'"
      "active_policy_for_request request d = Some p" "d' = approved_db env request scope d"
  | (compiled) v request gov paths p where "r = Inr v" "get_request d aid = Some request"
      "get_decision d (ar_governance_decision_id request) = Some gov" "approval_state aid scope request gov paths p d'"
      "active_policy_for_request request d = None"
      "compile (ae_policy_id env) (ar_governance_decision_id request) [] scope [''RUN_COMMAND''] [] (JObj []) (JObj [])
         (approved_db env request scope d) = (d', Inr p)"
  using run [unfolded approve_def]
proof (cases rule: session_scope_cases)
  case (undone e)
  then show thesis by (rule refused)
next
  case (kept v)
  obtain request where q: "get_request d aid = Some request"
    using kept(2) by (cases "get_request d aid") (auto simp: approve_block_def)
  let ?d1 = "approved_db env request scope d"
  have id: "ar_id request = aid" using q by auto
  obtain gov row where g: "get_decision d (ar_governance_decision_id request) = Some gov" "gd_decision gov \<noteq> GovernanceVerdict.BLOCK"
      "record_approval (ae_now env) (ae_approval_id env) (ar_task_id request) aid ''api-user'' ApprovalDecisionOutcome.APPROVED scope d = (?d1, Inr row)"
    using kept(2) q
    by (cases rule: record_approval_cases [of "ae_now env" "ae_approval_id env" "ar_task_id request" aid "''api-user''" ApprovalDecisionOutcome.APPROVED scope d])
      (auto simp: approve_block_def approved_db_def id)
  obtain d2 x where p2: "policy_for_request env request scope ?d1 = (d2, x)" by (metis prod.collapse)
  obtain p where x: "x = Inr p" using kept(2) q g(3) p2 by (cases x) (auto simp: approve_block_def)
  from kept(2) have d2: "d2 = d'" "rbind (json_list (ep_commands_json p)) (\<lambda>commands. rbind (grant_create (ep_id p) scope commands d2) (\<lambda>grant.
       Inr (approval_payload aid scope row grant p))) = Inr v"
    by (auto simp: approve_block_def q g(3) p2 x)
  then obtain cs gr where gr: "grant_create (ep_id p) scope cs d' = Inr gr" by (auto simp: rbind_eq_Inr)
  then obtain policy paths allowed where gs: "get_policy d' (ep_id p) = Some policy" "ep_status policy = ExecutionPolicyStatus.ACTIVE" "ep_executable policy"
      "canonical_project_paths scope = Inr paths" "json_tuple (ep_write_paths_json policy) = Inr allowed" "set paths \<subseteq> set allowed"
    using grant_scope by blast
  have r1: "get_request ?d1 aid = Some (request\<lparr>ar_status := ApprovalRequestStatus.APPROVED\<rparr>)" "policies ?d1 = policies d"
    using q by (simp_all add: approved_db_def id table_simps)
  show thesis
  proof (cases "active_policy_for_request request d")
    case (Some p')
    then have e: "p' = p" "d' = ?d1" using p2 x d2(1) r1(2) by (auto simp: policy_for_request_def active_policy_for_request_def)
    have "p \<in> set (policies d)" using Some e(1) by (auto simp: active_policy_for_request_def find_Some_iff)
    then have "get_policy d (ep_id p) = Some p" using ids(1) by (simp add: get_row_Some_iff)
    then have "policy = p" using gs(1) by (simp add: e(2) r1(2))
    with gs r1(1) g(2) have "approval_state aid scope request gov paths p d'" by (auto simp: approval_state_def e(2))
    with kept(1) q g(1) Some e show thesis by (intro reused) auto
  next
    case None
    then have c: "compile (ae_policy_id env) (ar_governance_decision_id request) [] scope [''RUN_COMMAND''] [] (JObj []) (JObj []) ?d1 = (d', Inr p)"
      using p2 x d2(1) r1(2) by (auto simp: policy_for_request_def active_policy_for_request_def)
    have "policy = p \<and> approval_requests d' = approval_requests ?d1"
      using c
    proof (cases rule: compile_Inr)
      case (1 dec action_id reads writes prots)
      have "get_policy d (ae_policy_id env) = None" using ids(2) by (auto simp: get_row_None_iff image_iff)
      moreover have "ep_id p = ae_policy_id env" by (simp add: 1(6) policy_row_def)
      ultimately have "get_policy d' (ep_id p) = Some p" by (simp add: 1(7) r1(2) table_simps)
      then show ?thesis using gs(1) 1(7) by simp
    qed
    with gs r1(1) g(2) have "approval_state aid scope request gov paths p d'" by (auto simp: approval_state_def)
    with kept(1) q g(1) None c show thesis by (intro compiled) auto
  qed
qed

text \<open>
  (C4) An approval that fails leaves the database as it was. One that succeeds belongs to a request whose decision does not
  block; the request is then approved, and an active, executable policy permits writing the approved paths. When the
  request had no active policy before, the new one permits exactly these paths and is the only active policy of the task.
\<close>

theorem approval_grants_scope:
  assumes "approve env aid scope d = (d', r)"
    and "keys_distinct ep_id (policies d)" "ae_policy_id env \<notin> set (map ep_id (policies d))"
  shows "case r of
      Inl e \<Rightarrow> d' = d
    | Inr v \<Rightarrow> \<exists>request gov paths p. get_request d aid = Some request \<and>
        get_decision d (ar_governance_decision_id request) = Some gov \<and> approval_state aid scope request gov paths p d' \<and>
        (active_policy_for_request request d = None \<longrightarrow>
           ep_write_paths_json p = json_dumps_strings (sort paths) \<and> filter (active_policy_of (gd_task_id gov)) (policies d') = [p])"
  using assms
proof (cases rule: approve_cases)
  case (compiled v request gov paths p)
  have e: "ep_executable p" "canonical_project_paths scope = Inr paths" using compiled(4) by (simp_all add: approval_state_def)
  from compiled(6) have "ep_write_paths_json p = json_dumps_strings (sort paths) \<and> filter (active_policy_of (gd_task_id gov)) (policies d') = [p]"
  proof (cases rule: compile_Inr)
    case (1 dec action_id reads writes prots)
    have "dec = gov" using 1(1) compiled(3) by (simp add: approved_db_def)
    moreover have "writes = paths" using 1(4) e(2) by simp
    ultimately show ?thesis using e(1) unfolding 1(7) by (simp add: 1(6) no_active_after_supersede) (simp add: policy_row_def active_policy_of_def)
  qed
  with compiled show ?thesis by auto
qed auto

subsection \<open>The execution after an approval\<close>

lemma find_filter: "find P xs = (case filter P xs of [] \<Rightarrow> None | x # _ \<Rightarrow> Some x)"
  by (induction xs) auto

lemma compiled_active:
  assumes c: "compile pid gid rs ws cs ps net lim d = (d', Inr p)" and gov: "get_decision d gid = Some gov" "gd_task_id gov = t"
    and ready: "execution_ready ids t d" and fresh: "pid \<notin> set (map ep_id (policies d))"
  shows "active_policy t d' = Some p" and "execution_ready ids t d'"
proof -
  from c show "active_policy t d' = Some p"
  proof (cases rule: compile_Inr)
    case (1 dec action_id reads writes prots)
    have t: "gd_task_id dec = t" using gov 1(1) by simp
    have p: "ep_task_id p = t" "ep_status p = ExecutionPolicyStatus.ACTIVE" by (simp_all add: 1(6) policy_row_def t)
    have f: "find (active_policy_of t) (policies d') = Some p"
      by (simp add: find_filter 1(7) t no_active_after_supersede) (simp add: p active_policy_of_def)
    have "x = p" if q: "Option.bind (get_task d t) tk_active_policy_id = Some q" "get_policy d' q = Some x" "ep_status x = ExecutionPolicyStatus.ACTIVE" for q x
    proof (cases "get_policy d q")
      case None
      then show ?thesis using q(2) by (auto simp: 1(7) table_simps split: if_splits)
    next
      case (Some pol)
      then have x: "x = (if active_policy_of t pol then pol\<lparr>ep_status := ExecutionPolicyStatus.SUPERSEDED\<rparr> else pol)"
        using q(2) by (auto simp: 1(7) t table_simps)
      then have a: "\<not> active_policy_of t pol" "x = pol" using q(3) by (auto split: if_splits)
      then have "active_policy t d = Some pol" using q Some by (simp add: active_policy_def)
      then have "ep_task_id pol = t" using ready by (simp add: execution_ready_def)
      with a q(3) show ?thesis by (simp add: active_policy_of_def)
    qed
    moreover have "tasks d' = tasks d" by (simp add: 1(7))
    ultimately show ?thesis using f unfolding active_policy_def
      by (cases "Option.bind (Option.bind (get_task d t) tk_active_policy_id) (get_policy d')") (auto split: Option.bind_splits)
  qed
  from c show "execution_ready ids t d'"
  proof (cases rule: compile_Inr)
    case (1 dec action_id reads writes prots)
    have "get_row ep_id pid (policies d) = None" using fresh by (auto simp: get_row_None_iff image_iff)
    then have k: "keys_distinct ep_id (policies d')" using ready by (simp add: 1(6,7) policy_row_def execution_ready_def table_simps)
    have "ep_task_id p = t" using gov 1(1) by (simp add: 1(6) policy_row_def)
    with k \<open>active_policy t d' = Some p\<close> ready show ?thesis by (simp add: execution_ready_def 1(7))
  qed
qed


subsection \<open>Examples\<close>

text \<open>A task that waits for the approval of a change of an authentication file.\<close>

definition sample_warned_db :: db where
  "sample_warned_db = (sample_flow_db [''auth.py''])\<lparr>decisions := [sample_decision GovernanceVerdict.WARN],
     approval_requests := [request_row ''q1'' (sample_decision GovernanceVerdict.WARN) ''a1'' [''auth.py'']]\<rparr>"

definition sample_approval_env :: approval_env where
  "sample_approval_env = \<lparr>ae_now = 9, ae_approval_id = ''ad1'', ae_policy_id = ''e2''\<rparr>"


lemma sample_request: "get_request sample_warned_db ''q1'' = Some (the (get_request sample_warned_db ''q1''))"
proof -
  have "get_request sample_warned_db ''q1'' \<noteq> None" by code_simp
  then show ?thesis by auto
qed

lemma sample_gov:
  "get_decision sample_warned_db (ar_governance_decision_id (the (get_request sample_warned_db ''q1''))) = Some (the (get_decision sample_warned_db ''d1''))"
  "gd_task_id (the (get_decision sample_warned_db ''d1'')) = ''t1''"
proof -
  have "get_decision sample_warned_db ''d1'' \<noteq> None" "ar_governance_decision_id (the (get_request sample_warned_db ''q1'')) = ''d1''"
    by (code_simp, code_simp)
  then show "get_decision sample_warned_db (ar_governance_decision_id (the (get_request sample_warned_db ''q1''))) = Some (the (get_decision sample_warned_db ''d1''))"
    by auto
  show "gd_task_id (the (get_decision sample_warned_db ''d1'')) = ''t1''" by code_simp
qed

lemma sample_warned_ready:
  "execution_ready (\<lambda>i. sample_turn_ids) ''t1'' sample_warned_db" "ae_policy_id sample_approval_env \<notin> set (map ep_id (policies sample_warned_db))"
proof -
  have "policies sample_warned_db = []" "active_policy ''t1'' sample_warned_db = None" "map gd_id (decisions sample_warned_db) = [''d1'']"
    by (code_simp, code_simp, code_simp)
  then show "execution_ready (\<lambda>i. sample_turn_ids) ''t1'' sample_warned_db" "ae_policy_id sample_approval_env \<notin> set (map ep_id (policies sample_warned_db))"
    by (auto simp: execution_ready_def keys_distinct_def own_decisions_def sample_turn_ids_def)
qed

lemma sample_approved:
  "approve sample_approval_env ''q1'' [''auth.py''] sample_warned_db =
     (fst (approve sample_approval_env ''q1'' [''auth.py''] sample_warned_db), Inr (projr (snd (approve sample_approval_env ''q1'' [''auth.py''] sample_warned_db))))"
proof -
  have "\<not> isl (snd (approve sample_approval_env ''q1'' [''auth.py''] sample_warned_db))" by code_simp
  then show ?thesis by (metis prod.collapse sum.collapse(2))
qed

theorem approval_grants_scope_witness:
  "let d' = fst (approve sample_approval_env ''q1'' [''auth.py''] sample_warned_db)
   in \<exists>request gov paths p. get_request sample_warned_db ''q1'' = Some request \<and>
     approval_state ''q1'' [''auth.py''] request gov paths p d' \<and> ep_write_paths_json p = json_dumps_strings (sort paths)"
proof -
  have k: "keys_distinct ep_id (policies sample_warned_db)" using sample_warned_ready(1) by (simp add: execution_ready_def)
  have n: "active_policy_for_request (the (get_request sample_warned_db ''q1'')) sample_warned_db = None" by code_simp
  from approval_grants_scope [OF sample_approved k sample_warned_ready(2), unfolded sum.case] obtain request gov paths p where
      a: "get_request sample_warned_db ''q1'' = Some request" "approval_state ''q1'' [''auth.py''] request gov paths p (fst (approve sample_approval_env ''q1'' [''auth.py''] sample_warned_db))"
      "active_policy_for_request request sample_warned_db = None \<longrightarrow> ep_write_paths_json p = json_dumps_strings (sort paths)"
    by (elim exE conjE) (rule that, assumption, assumption, simp)
  from a(1) n have "active_policy_for_request request sample_warned_db = None" by simp
  with a show ?thesis unfolding Let_def by blast
qed


text \<open>
  The approved scope is not compared with the requested one: a request for one file can be approved with the scope of
  another, and the policy then permits writing that one.
\<close>

theorem approved_scope_unchecked:
  "let (d, r) = approve sample_approval_env ''q1'' [''src/db.py''] sample_warned_db
   in \<not> isl r \<and> map ar_requested_scope_json (approval_requests d) = [json_dumps_strings [''auth.py'']] \<and>
      map ep_write_paths_json (filter (active_policy_of ''t1'') (policies d)) = [json_dumps_strings [''src/db.py'']]"
  by code_simp

text \<open>
  A request can be decided again: rejecting an approved request leaves its policy active and executable, and the task can
  still be executed under it.
\<close>

theorem rejected_policy_stays:
  "let d = fst (approve sample_approval_env ''q1'' [''auth.py''] sample_warned_db);
       (d', r) = reject (sample_approval_env\<lparr>ae_approval_id := ''ad2''\<rparr>) ''q1'' d
   in \<not> isl r \<and> map ar_status (approval_requests d') = [ApprovalRequestStatus.REJECTED] \<and>
      map ep_executable (filter (active_policy_of ''t1'') (policies d')) = [True] \<and> \<not> isl (admit ''t1'' ''RUN_COMMAND'' d')"
  by code_simp

end
