(* ===== verification/Config.thy ===== *)
theory Config
  imports Prelude "HOL-Library.AList"
begin

section \<open>Config: layered configuration\<close>

text \<open>
  \<^verbatim>\<open>config/schema.py\<close>, \<^verbatim>\<open>config/loader.py\<close> and \<^verbatim>\<open>config/profiles.py\<close>: configuration values, the merging of layers in
  their order and the configuration that is frozen for a task. A dictionary is an association list in the order of
  insertion; an update of a key that is there keeps its place.
\<close>

subsection \<open>Values\<close>

datatype PolicyValue = ALLOW | DENY | DENY_HARD

primrec policy_rank :: "PolicyValue \<Rightarrow> int" where
  "policy_rank ALLOW = 0"
| "policy_rank DENY = 1"
| "policy_rank DENY_HARD = 2"

primrec policy_name :: "PolicyValue \<Rightarrow> string" where
  "policy_name ALLOW = ''ALLOW''"
| "policy_name DENY = ''DENY''"
| "policy_name DENY_HARD = ''DENY_HARD''"

lemma policy_rank_eq: "policy_rank a = policy_rank b \<longleftrightarrow> a = b"
  by (cases a; cases b) simp_all

text \<open>The order of the enumeration is that of its values: the stricter value is the larger one.\<close>

instantiation PolicyValue :: linorder
begin

definition less_eq_PolicyValue :: "PolicyValue \<Rightarrow> PolicyValue \<Rightarrow> bool" where
  "less_eq_PolicyValue a b \<longleftrightarrow> policy_rank a \<le> policy_rank b"

definition less_PolicyValue :: "PolicyValue \<Rightarrow> PolicyValue \<Rightarrow> bool" where
  "less_PolicyValue a b \<longleftrightarrow> policy_rank a < policy_rank b"

instance
  by standard (auto simp: less_eq_PolicyValue_def less_PolicyValue_def policy_rank_eq)

end

datatype ConfigValue = PolicySetting PolicyValue | Text string | Flag bool

type_synonym 'v dict_of = "(string \<times> 'v) list"

definition POLICY_KEYS :: "string list" where
  "POLICY_KEYS = [''shell_policy'', ''network_policy'']"

definition BOOLEAN_RESTRICTIVE_KEYS :: "string list" where
  "BOOLEAN_RESTRICTIVE_KEYS = [''allow_arbitrary_repo_paths'', ''allow_repository_upload'']"

definition STRING_KEYS :: "string list" where
  "STRING_KEYS = [''llm_provider'']"

definition KNOWN_CONFIG_KEYS :: "string list" where
  "KNOWN_CONFIG_KEYS = POLICY_KEYS @ BOOLEAN_RESTRICTIVE_KEYS @ STRING_KEYS"

primrec json_safe_value :: "ConfigValue \<Rightarrow> json" where
  "json_safe_value (PolicySetting p) = JStr (policy_name p)"
| "json_safe_value (Text s) = JStr s"
| "json_safe_value (Flag b) = JBool b"

subsection \<open>Layers\<close>

record ConfigLayer =
  cl_name :: string
  cl_values :: "ConfigValue dict_of"

record EffectiveConfig =
  ec_values :: "ConfigValue dict_of"
  ec_sources :: "string dict_of"
  ec_notes :: "string list dict_of"
  ec_version :: int

definition empty_config :: EffectiveConfig where
  "empty_config = \<lparr>ec_values = [], ec_sources = [], ec_notes = [], ec_version = 1\<rparr>"

definition put_value :: "string \<Rightarrow> ConfigValue \<Rightarrow> string \<Rightarrow> EffectiveConfig \<Rightarrow> EffectiveConfig" where
  "put_value key v layer c = c\<lparr>ec_values := AList.update key v (ec_values c), ec_sources := AList.update key layer (ec_sources c)\<rparr>"

text \<open>\<^verbatim>\<open>notes.setdefault(key, []).append(text)\<close>.\<close>

definition add_note :: "string \<Rightarrow> string \<Rightarrow> EffectiveConfig \<Rightarrow> EffectiveConfig" where
  "add_note key note c =
     c\<lparr>ec_notes := AList.update key ((case map_of (ec_notes c) key of None \<Rightarrow> [] | Some ns \<Rightarrow> ns) @ [note]) (ec_notes c)\<rparr>"

definition source_of :: "string \<Rightarrow> EffectiveConfig \<Rightarrow> string result" where
  "source_of key c = (case map_of (ec_sources c) key of None \<Rightarrow> Inl (KeyError key) | Some s \<Rightarrow> Inr s)"

fun merge_policy :: "string \<Rightarrow> ConfigValue \<Rightarrow> string \<Rightarrow> EffectiveConfig \<Rightarrow> EffectiveConfig result" where
  "merge_policy key (PolicySetting incoming) layer c =
     (case map_of (ec_values c) key of
        Some (PolicySetting current) \<Rightarrow>
          if current < incoming then Inr (put_value key (PolicySetting incoming) layer c)
          else if incoming < current
          then rbind (source_of key c) (\<lambda>source.
            Inr (add_note key (layer @ '' attempted to relax '' @ key @ '' from '' @ policy_name current @ '' to '' @
              policy_name incoming @ ''; kept '' @ source) c))
          else Inr c
      | _ \<Rightarrow> Inr (put_value key (PolicySetting incoming) layer c))"
| "merge_policy key _ layer c = Inl (ConfigMergeError (key @ '' must be a PolicyValue''))"

fun merge_restrictive_bool :: "string \<Rightarrow> ConfigValue \<Rightarrow> string \<Rightarrow> EffectiveConfig \<Rightarrow> EffectiveConfig result" where
  "merge_restrictive_bool key (Flag incoming) layer c =
     (let current = map_of (ec_values c) key
      in if current = Some (Flag False) \<and> incoming
         then rbind (source_of key c) (\<lambda>source.
           Inr (add_note key (layer @ '' attempted to relax '' @ key @ ''; kept '' @ source) c))
         else if current = None \<or> \<not> incoming then Inr (put_value key (Flag incoming) layer c)
         else Inr c)"
| "merge_restrictive_bool key _ layer c = Inl (ConfigMergeError (key @ '' must be a bool''))"

fun merge_llm_provider :: "string \<Rightarrow> ConfigValue \<Rightarrow> string \<Rightarrow> EffectiveConfig \<Rightarrow> EffectiveConfig result" where
  "merge_llm_provider key (Text incoming) layer c =
     (if map_of (ec_values c) key = Some (Text ''mock'') \<and> incoming \<noteq> ''mock'' \<and>
         map_of (ec_sources c) key = Some ''profile:CLOUD_DEMO''
      then Inr (add_note key (layer @ '' attempted to relax '' @ key @ ''; kept profile:CLOUD_DEMO'') c)
      else Inr (put_value key (Text incoming) layer c))"
| "merge_llm_provider key _ layer c = Inl (ConfigMergeError (key @ '' must be a string''))"

definition merge_value :: "string \<Rightarrow> string \<times> ConfigValue \<Rightarrow> EffectiveConfig \<Rightarrow> EffectiveConfig result" where
  "merge_value layer kv c =
     (let key = fst kv; incoming = snd kv
      in if key \<notin> set KNOWN_CONFIG_KEYS then Inl (ConfigMergeError (''unknown config key: '' @ key))
         else if key \<in> set POLICY_KEYS then merge_policy key incoming layer c
         else if key \<in> set BOOLEAN_RESTRICTIVE_KEYS then merge_restrictive_bool key incoming layer c
         else merge_llm_provider key incoming layer c)"

fun merge_values :: "(string \<times> string \<times> ConfigValue) list \<Rightarrow> EffectiveConfig \<Rightarrow> EffectiveConfig result" where
  "merge_values [] c = Inr c"
| "merge_values ((layer, kv) # rest) c = rbind (merge_value layer kv c) (merge_values rest)"

text \<open>The entries of the layers in the order in which the two loops meet them.\<close>

definition entries :: "ConfigLayer list \<Rightarrow> (string \<times> string \<times> ConfigValue) list" where
  "entries layers = concat (map (\<lambda>l. map (\<lambda>kv. (cl_name l, kv)) (cl_values l)) layers)"

definition merge_config :: "ConfigLayer list \<Rightarrow> EffectiveConfig result" where
  "merge_config layers = merge_values (entries layers) empty_config"

subsection \<open>Explanations and frozen configurations\<close>

definition explain :: "string \<Rightarrow> EffectiveConfig \<Rightarrow> string" where
  "explain key c =
     (let source = (case map_of (ec_sources c) key of None \<Rightarrow> ''unknown'' | Some s \<Rightarrow> s);
          notes = join ''; '' (case map_of (ec_notes c) key of None \<Rightarrow> [] | Some ns \<Rightarrow> ns)
      in key @ '' from '' @ source @ (if notes = [] then [] else ''; '' @ notes))"

text \<open>\<^verbatim>\<open>dict(sorted(d.items()))\<close>: the keys of a dictionary are distinct, so the values are not compared.\<close>

definition sorted_items :: "'v dict_of \<Rightarrow> 'v dict_of" where
  "sorted_items d = sort_key fst d"

definition to_json_safe_dict :: "EffectiveConfig \<Rightarrow> json" where
  "to_json_safe_dict c = JObj
     [(''version'', JInt (ec_version c)),
      (''values'', JObj (map (\<lambda>(k, v). (k, json_safe_value v)) (sorted_items (ec_values c)))),
      (''sources'', JObj (map (\<lambda>(k, s). (k, JStr s)) (sorted_items (ec_sources c)))),
      (''explanations'', JObj (map (\<lambda>(k, v). (k, JStr (explain k c))) (sorted_items (ec_values c))))]"

record FrozenTaskConfig =
  fz_task_id :: string
  fz_version :: int
  fz_config_hash :: string
  fz_values :: "ConfigValue dict_of"
  fz_sources :: "string dict_of"

text \<open>The digest of the canonical encoding of a JSON value is a parameter.\<close>

definition freeze_task_config :: "(json \<Rightarrow> string) \<Rightarrow> string \<Rightarrow> EffectiveConfig \<Rightarrow> FrozenTaskConfig" where
  "freeze_task_config digest task_id c =
     \<lparr>fz_task_id = task_id, fz_version = ec_version c, fz_config_hash = digest (to_json_safe_dict c),
      fz_values = ec_values c, fz_sources = ec_sources c\<rparr>"

definition frozen_to_json_safe_dict :: "FrozenTaskConfig \<Rightarrow> json" where
  "frozen_to_json_safe_dict f = JObj
     [(''task_id'', JStr (fz_task_id f)), (''version'', JInt (fz_version f)), (''config_hash'', JStr (fz_config_hash f)),
      (''values'', JObj (map (\<lambda>(k, v). (k, json_safe_value v)) (sorted_items (fz_values f)))),
      (''sources'', JObj (map (\<lambda>(k, s). (k, JStr s)) (sorted_items (fz_sources f))))]"

subsection \<open>Profiles\<close>

datatype ProfileName = LOCAL_FULL | CLOUD_DEMO

definition profile_layer :: "ProfileName \<Rightarrow> ConfigLayer" where
  "profile_layer profile =
     (if profile = LOCAL_FULL
      then \<lparr>cl_name = ''profile:LOCAL_FULL'', cl_values = [(''shell_policy'', PolicySetting ALLOW), (''network_policy'', PolicySetting ALLOW),
        (''llm_provider'', Text ''configured''), (''allow_arbitrary_repo_paths'', Flag True), (''allow_repository_upload'', Flag False)]\<rparr>
      else \<lparr>cl_name = ''profile:CLOUD_DEMO'', cl_values = [(''shell_policy'', PolicySetting DENY_HARD), (''network_policy'', PolicySetting DENY_HARD),
        (''llm_provider'', Text ''mock''), (''allow_arbitrary_repo_paths'', Flag False), (''allow_repository_upload'', Flag False)]\<rparr>)"

subsection \<open>The strictest value wins\<close>

text \<open>What the entries say about a key: the policies and the flags that were given for it.\<close>

definition given :: "string \<Rightarrow> (string \<times> string \<times> ConfigValue) list \<Rightarrow> ConfigValue set" where
  "given key es = {v. \<exists>layer. (layer, key, v) \<in> set es}"

text \<open>The reference: the strictest of the given values of a policy, the conjunction of the given flags.\<close>

definition strictest :: "string \<Rightarrow> (string \<times> string \<times> ConfigValue) list \<Rightarrow> ConfigValue option" where
  "strictest key es =
     (if given key es = {} then None
      else if key \<in> set POLICY_KEYS then Some (PolicySetting (Max {p. PolicySetting p \<in> given key es}))
      else Some (Flag (\<forall>b. Flag b \<in> given key es \<longrightarrow> b)))"

lemma given_append: "given key (es @ [(layer, k, v)]) = given key es \<union> (if k = key then {v} else {})"
  by (auto simp: given_def)

lemma keys_disjoint [simp]:
  "k \<in> set POLICY_KEYS \<Longrightarrow> k \<notin> set BOOLEAN_RESTRICTIVE_KEYS" "k \<in> set BOOLEAN_RESTRICTIVE_KEYS \<Longrightarrow> k \<notin> set POLICY_KEYS"
  "k \<in> set POLICY_KEYS \<Longrightarrow> k \<in> set KNOWN_CONFIG_KEYS" "k \<in> set BOOLEAN_RESTRICTIVE_KEYS \<Longrightarrow> k \<in> set KNOWN_CONFIG_KEYS"
  by (auto simp: POLICY_KEYS_def BOOLEAN_RESTRICTIVE_KEYS_def KNOWN_CONFIG_KEYS_def)

lemma put_value_simps [simp]:
  "map_of (ec_values (put_value k v l c)) = (map_of (ec_values c))(k \<mapsto> v)"
  "map_of (ec_sources (put_value k v l c)) = (map_of (ec_sources c))(k \<mapsto> l)"
  "ec_values (add_note k n c) = ec_values c" "ec_sources (add_note k n c) = ec_sources c"
  by (simp_all add: put_value_def add_note_def update_conv')

text \<open>An entry of another key leaves the value of a key as it is.\<close>

lemma merge_value_other:
  assumes "merge_value layer (k, v) c = Inr c'" and "k \<noteq> key"
  shows "map_of (ec_values c') key = map_of (ec_values c) key"
  using assms
  by (cases v) (auto simp: merge_value_def Let_def rbind_eq_Inr split: if_splits option.splits ConfigValue.splits)

lemma finite_policies [simp]: "finite (A :: PolicyValue set)"
proof (rule finite_subset)
  show "A \<subseteq> {ALLOW, DENY, DENY_HARD}" using PolicyValue.exhaust by blast
qed simp

lemma merge_values_snoc: "merge_values (es @ [(layer, kv)]) c = rbind (merge_values es c) (merge_value layer kv)"
proof (induction es arbitrary: c)
  case Nil
  then show ?case by (cases "merge_value layer kv c") simp_all
next
  case (Cons e es)
  obtain l x where "e = (l, x)" by (cases e)
  with Cons show ?case by (cases "merge_value l x c") simp_all
qed

text \<open>A policy moves up to the stricter value, a flag stays off once it is off.\<close>

lemma merge_policy_value:
  assumes "merge_policy key v layer c = Inr c'"
  shows "\<exists>p. v = PolicySetting p \<and> map_of (ec_values c') key =
    Some (PolicySetting (case map_of (ec_values c) key of Some (PolicySetting m) \<Rightarrow> max m p | _ \<Rightarrow> p))"
  using assms by (cases v) (auto simp: rbind_eq_Inr max_def split: option.splits ConfigValue.splits if_splits)

lemma merge_bool_value:
  assumes "merge_restrictive_bool key v layer c = Inr c'" and "map_of (ec_values c) key \<in> {None, Some (Flag True), Some (Flag False)}"
  shows "\<exists>b. v = Flag b \<and> map_of (ec_values c') key = Some (Flag (b \<and> map_of (ec_values c) key \<noteq> Some (Flag False)))"
  using assms by (cases v) (auto simp: rbind_eq_Inr Let_def split: if_splits)

lemma strictest_policy:
  assumes "key \<in> set POLICY_KEYS" and "given key es \<subseteq> range PolicySetting"
  shows "strictest key (es @ [(layer, key, PolicySetting p)]) =
    Some (PolicySetting (case strictest key es of Some (PolicySetting m) \<Rightarrow> max m p | _ \<Rightarrow> p))"
proof (cases "given key es = {}")
  case True
  then have "{q. PolicySetting q \<in> given key (es @ [(layer, key, PolicySetting p)])} = {p}" by (auto simp: given_append)
  with True assms(1) show ?thesis by (simp add: strictest_def given_append)
next
  case False
  let ?S = "{q. PolicySetting q \<in> given key es}"
  have "?S \<noteq> {}" using False assms(2) by blast
  moreover have "{q. PolicySetting q \<in> given key (es @ [(layer, key, PolicySetting p)])} = insert p ?S" by (auto simp: given_append)
  ultimately show ?thesis using False assms(1) by (simp add: strictest_def given_append max.commute)
qed

lemma merge_values_strictest:
  assumes "merge_values es empty_config = Inr c" and "key \<in> set (POLICY_KEYS @ BOOLEAN_RESTRICTIVE_KEYS)"
  shows "map_of (ec_values c) key = strictest key es \<and> given key es \<subseteq> (if key \<in> set POLICY_KEYS then range PolicySetting else range Flag)"
  using assms
proof (induction es arbitrary: c rule: rev_induct)
  case Nil
  then show ?case by (auto simp: empty_config_def strictest_def given_def)
next
  case (snoc e es)
  obtain layer k v where e: "e = (layer, k, v)" by (cases e) auto
  obtain c1 where c1: "merge_values es empty_config = Inr c1" "merge_value layer (k, v) c1 = Inr c"
    using snoc.prems(1) by (auto simp: e merge_values_snoc rbind_eq_Inr)
  note ih = snoc.IH [OF c1(1) snoc.prems(2)]
  show ?case
  proof (cases "k = key")
    case False
    then have "given key (es @ [e]) = given key es" by (simp add: e given_append)
    then show ?thesis using ih merge_value_other [OF c1(2) False] by (simp add: strictest_def)
  next
    case True
    show ?thesis
    proof (cases "key \<in> set POLICY_KEYS")
      case p: True
      then have "merge_policy key v layer c1 = Inr c" using c1(2) True by (simp add: merge_value_def)
      from merge_policy_value [OF this] obtain p where "v = PolicySetting p"
          "map_of (ec_values c) key = Some (PolicySetting (case strictest key es of Some (PolicySetting m) \<Rightarrow> max m p | _ \<Rightarrow> p))"
        using ih by auto
      then show ?thesis using p ih True strictest_policy [of key es layer p] by (auto simp: e given_append)
    next
      case p: False
      then have b: "key \<in> set BOOLEAN_RESTRICTIVE_KEYS" using snoc.prems(2) by simp
      have cur: "map_of (ec_values c1) key = (if given key es = {} then None else Some (Flag (\<forall>b. Flag b \<in> given key es \<longrightarrow> b)))"
        using ih p by (simp add: strictest_def)
      have "merge_restrictive_bool key v layer c1 = Inr c" using c1(2) True p b by (simp add: merge_value_def)
      from merge_bool_value [OF this] obtain b where "v = Flag b"
          "map_of (ec_values c) key = Some (Flag (b \<and> map_of (ec_values c1) key \<noteq> Some (Flag False)))"
        using cur by (auto split: if_splits)
      then show ?thesis using ih p True cur by (auto simp: e given_append strictest_def split: if_splits)
    qed
  qed
qed

text \<open>
  (C27) The effective value of a policy is the strictest one that any layer gives, that of a restrictive flag is the
  conjunction of all: no layer can relax what another has set, in whatever order the layers come.
\<close>

theorem config_strictest:
  assumes "merge_config layers = Inr c" and "key \<in> set (POLICY_KEYS @ BOOLEAN_RESTRICTIVE_KEYS)"
  shows "map_of (ec_values c) key = strictest key (entries layers)"
  using merge_values_strictest assms unfolding merge_config_def by blast

definition sample_user :: ConfigLayer where
  "sample_user = \<lparr>cl_name = ''user'', cl_values = [(''shell_policy'', PolicySetting ALLOW), (''allow_repository_upload'', Flag True)]\<rparr>"

theorem config_strictest_witness:
  "map_of (ec_values (projr (merge_config [profile_layer CLOUD_DEMO, sample_user]))) ''shell_policy'' =
    strictest ''shell_policy'' (entries [profile_layer CLOUD_DEMO, sample_user])"
proof -
  let ?r = "merge_config [profile_layer CLOUD_DEMO, sample_user]"
  have "\<not> isl ?r" by code_simp
  then have "?r = Inr (projr ?r)" by simp
  moreover have "''shell_policy'' \<in> set (POLICY_KEYS @ BOOLEAN_RESTRICTIVE_KEYS)" by code_simp
  ultimately show ?thesis by (rule config_strictest)
qed

subsection \<open>Which layers are accepted\<close>

definition well_typed :: "string \<times> string \<times> ConfigValue \<Rightarrow> bool" where
  "well_typed e = (case e of (layer, key, v) \<Rightarrow>
     (case v of PolicySetting p \<Rightarrow> key \<in> set POLICY_KEYS | Flag b \<Rightarrow> key \<in> set BOOLEAN_RESTRICTIVE_KEYS | Text s \<Rightarrow> key \<in> set STRING_KEYS))"

definition sourced :: "EffectiveConfig \<Rightarrow> bool" where
  "sourced c \<longleftrightarrow> dom (map_of (ec_values c)) = dom (map_of (ec_sources c))"

lemma source_of_sourced: "sourced c \<Longrightarrow> map_of (ec_values c) key = Some v \<Longrightarrow> \<exists>s. source_of key c = Inr s"
  unfolding sourced_def source_of_def by (metis domD domI option.case(2))

lemma merge_value_typed:
  assumes "sourced c"
  shows "(\<exists>c'. merge_value layer (k, v) c = Inr c') \<longleftrightarrow> well_typed (layer, k, v)"
proof (cases v)
  case (PolicySetting p)
  then show ?thesis using source_of_sourced [OF assms, of k]
    by (auto simp: merge_value_def well_typed_def STRING_KEYS_def KNOWN_CONFIG_KEYS_def Let_def split: option.split ConfigValue.split)
next
  case (Text s)
  then show ?thesis
    by (auto simp: merge_value_def well_typed_def STRING_KEYS_def POLICY_KEYS_def BOOLEAN_RESTRICTIVE_KEYS_def KNOWN_CONFIG_KEYS_def Let_def)
next
  case (Flag b)
  then show ?thesis using source_of_sourced [OF assms, of k]
    by (auto simp: merge_value_def well_typed_def STRING_KEYS_def KNOWN_CONFIG_KEYS_def Let_def)
qed

text \<open>Merging an entry sets its key, or changes neither values nor sources.\<close>

definition puts_or_keeps :: "string \<Rightarrow> string \<Rightarrow> EffectiveConfig \<Rightarrow> EffectiveConfig \<Rightarrow> bool" where
  "puts_or_keeps k layer c c' \<longleftrightarrow> (\<exists>v. c' = put_value k v layer c) \<or> (ec_values c' = ec_values c \<and> ec_sources c' = ec_sources c)"

lemma merge_puts_or_keeps:
  "merge_policy k v layer c = Inr c' \<Longrightarrow> puts_or_keeps k layer c c'"
  "merge_restrictive_bool k v layer c = Inr c' \<Longrightarrow> puts_or_keeps k layer c c'"
  "merge_llm_provider k v layer c = Inr c' \<Longrightarrow> puts_or_keeps k layer c c'"
  unfolding puts_or_keeps_def
  by (cases v; auto simp: rbind_eq_Inr Let_def split: option.splits ConfigValue.splits if_splits)+

lemma merge_value_sourced:
  assumes "sourced c" and "merge_value layer kv c = Inr c'"
  shows "sourced c'"
proof -
  have "puts_or_keeps (fst kv) layer c c'"
    using assms(2) by (auto simp: merge_value_def Let_def intro: merge_puts_or_keeps split: if_splits)
  with assms(1) show ?thesis unfolding puts_or_keeps_def sourced_def by (elim disjE exE conjE) (simp_all add: dom_fun_upd)
qed

lemma merge_values_typed:
  "sourced c \<Longrightarrow> (\<exists>c'. merge_values es c = Inr c') \<longleftrightarrow> list_all well_typed es"
proof (induction es arbitrary: c)
  case (Cons e es)
  obtain layer k v where e: "e = (layer, k, v)" by (cases e) auto
  show ?case
  proof (cases "merge_value layer (k, v) c")
    case (Inl x)
    then show ?thesis using merge_value_typed [OF Cons.prems, of layer k v] by (simp add: e)
  next
    case (Inr c1)
    then show ?thesis
      using merge_value_typed [OF Cons.prems, of layer k v] Cons.IH [OF merge_value_sourced [OF Cons.prems Inr]] by (simp add: e)
  qed
qed simp

text \<open>
  Merging succeeds exactly when every entry of every layer has a known key and a value of the type of that key; no
  other error can occur.
\<close>

theorem config_typed:
  "(\<exists>c. merge_config layers = Inr c) \<longleftrightarrow> list_all well_typed (entries layers)"
  unfolding merge_config_def by (rule merge_values_typed) (simp add: sourced_def empty_config_def)

text \<open>
  The pin of the demonstration profile on the mock provider is lost when a layer repeats it: the value then counts as
  that layer's, and the next layer replaces it.
\<close>

theorem mock_pin_lost:
  "let user = \<lparr>cl_name = ''user'', cl_values = [(''llm_provider'', Text ''mock'')]\<rparr>;
       task = \<lparr>cl_name = ''task'', cl_values = [(''llm_provider'', Text ''openai'')]\<rparr>;
       provider = (\<lambda>layers. map_of (ec_values (projr (merge_config layers))) ''llm_provider'')
   in provider [profile_layer CLOUD_DEMO, task] = Some (Text ''mock'') \<and>
      provider [profile_layer CLOUD_DEMO, user, task] = Some (Text ''openai'')"
  by code_simp

end
