(* ===== verification/OnlineWorkspaces.thy ===== *)
theory OnlineWorkspaces
  imports Sessions Paths
begin

unbundle bit_operations_syntax

section \<open>OnlineWorkspaces: the workspaces of the hosted service\<close>

text \<open>
  \<^verbatim>\<open>runtime/online_workspaces.py\<close>: every session has a directory of its own below the sessions root, filled from the
  baseline or from an uploaded archive, exported, reset and removed. The disk is the list of its entries in the order
  in which a recursive listing meets them. Parameters are \<open>rsv\<close>, what \<^verbatim>\<open>Path.resolve\<close> makes of a path, the reader of
  ZIP archives, the git command line with its effect on the disk, the digest and the clock. The baseline does not
  contain the sessions root, so a listing of the baseline is not changed by copying it.
\<close>

subsection \<open>The disk\<close>

datatype node = FileNode string | DirNode | LinkNode | SpecialNode

type_synonym disk = "(string list \<times> node) list"

definition is_dir_at :: "disk \<Rightarrow> string list \<Rightarrow> bool" where
  "is_dir_at d p \<longleftrightarrow> p = [] \<or> map_of d p = Some DirNode"

text \<open>\<^verbatim>\<open>root.rglob("*")\<close> with the paths relative to the root.\<close>

definition rglob :: "disk \<Rightarrow> string list \<Rightarrow> (string list \<times> node) list" where
  "rglob d root = map (\<lambda>e. (drop (length root) (fst e), snd e)) (filter (\<lambda>e. strict_prefix root (fst e)) d)"

definition remove_tree :: "string list \<Rightarrow> disk \<Rightarrow> disk" where
  "remove_tree root d = filter (\<lambda>e. \<not> prefix root (fst e)) d"

definition add_dir :: "string list \<Rightarrow> disk \<Rightarrow> disk" where
  "add_dir p d = (if is_dir_at d p then d else AList.update p DirNode d)"

text \<open>\<^verbatim>\<open>mkdir(parents=True, exist_ok=True)\<close>.\<close>

definition make_dirs :: "string list \<Rightarrow> disk \<Rightarrow> disk \<times> unit result" where
  "make_dirs p d =
     (if list_ex (\<lambda>q. map_of d q \<noteq> None \<and> \<not> is_dir_at d q) (prefixes p)
      then (d, Inl (FileSystemError ''not a directory''))
      else (fold add_dir (prefixes p) d, Inr ()))"

definition write_file :: "string list \<Rightarrow> string \<Rightarrow> disk \<Rightarrow> disk \<times> unit result" where
  "write_file p content d =
     (if is_dir_at d p then (d, Inl (FileSystemError ''is a directory''))
      else if \<not> is_dir_at d (butlast p) then (d, Inl (FileSystemError ''no such directory''))
      else (AList.update p (FileNode content) d, Inr ()))"

definition write_below :: "string list \<Rightarrow> string \<Rightarrow> disk \<Rightarrow> disk \<times> unit result" where
  "write_below p content d =
     (case make_dirs (butlast p) d of (d1, Inl e) \<Rightarrow> (d1, Inl e) | (d1, Inr _) \<Rightarrow> write_file p content d1)"

subsection \<open>Names and limits\<close>

definition ONLINE_SAFE_USER_PATH_ERROR :: string where
  "ONLINE_SAFE_USER_PATH_ERROR = ''ONLINE_SAFE_USER_PATH_NOT_ALLOWED''"

definition ONLINE_SAFE_WORKSPACE_LIMIT_ERROR :: string where
  "ONLINE_SAFE_WORKSPACE_LIMIT_ERROR = ''ONLINE_SAFE_WORKSPACE_LIMIT_EXCEEDED''"

definition ONLINE_SAFE_WORKSPACE_BOUNDARY_ERROR :: string where
  "ONLINE_SAFE_WORKSPACE_BOUNDARY_ERROR = ''ONLINE_SAFE_WORKSPACE_BOUNDARY_VIOLATION''"

definition ONLINE_SAFE_WORKSPACE_BASELINE_ERROR :: string where
  "ONLINE_SAFE_WORKSPACE_BASELINE_ERROR = ''ONLINE_SAFE_WORKSPACE_BASELINE_INVALID''"

definition ONLINE_SAFE_WORKSPACE_ZIP_ERROR :: string where
  "ONLINE_SAFE_WORKSPACE_ZIP_ERROR = ''ONLINE_SAFE_WORKSPACE_ZIP_INVALID''"

definition ONLINE_SAFE_WORKSPACE_IMPORT_NAME :: string where
  "ONLINE_SAFE_WORKSPACE_IMPORT_NAME = ''zip-import''"

definition EXCLUDED_NAMES :: "string list" where
  "EXCLUDED_NAMES = [''.git'', ''.hg'', ''.svn'', ''.venv'', ''__pycache__'', ''build'', ''coverage'', ''dist'', ''node_modules'']"

definition EXCLUDED_FILES :: "string list" where
  "EXCLUDED_FILES = [''.env'', ''.env.local'', ''.env.production'', ''.env.test'', ''.npmrc'', ''.pypirc'', ''credentials'',
     ''credentials.json'', ''id_rsa'', ''id_ed25519'', ''known_hosts'', ''se_mentor_api.sqlite3'', ''se_mentor_api.sqlite3-shm'',
     ''se_mentor_api.sqlite3-wal'']"

definition EXCLUDED_SUFFIXES :: "string list" where
  "EXCLUDED_SUFFIXES = [''.log'', ''.key'', ''.pem'']"

definition EXCLUDED_IMPORT_SUFFIXES :: "string list" where
  "EXCLUDED_IMPORT_SUFFIXES = [''.p12'', ''.pfx'', ''.crt'', ''.cer'']"

definition is_excluded :: "string list \<Rightarrow> bool" where
  "is_excluded relative =
     (let name = (if relative = [] then [] else last relative)
      in list_ex (\<lambda>part. part \<in> set EXCLUDED_NAMES) relative \<or> name \<in> set EXCLUDED_FILES \<or> startswith name ''.env.'' \<or>
         list_ex (endswith name) (EXCLUDED_SUFFIXES @ EXCLUDED_IMPORT_SUFFIXES))"

record WorkspaceHandle =
  wh_session_id :: string
  wh_root :: "string list"
  wh_created_at :: int
  wh_last_used_at :: int
  wh_baseline_name :: string
  wh_baseline_revision :: "string option"

text \<open>The configuration of the factory, after the constructor has resolved the roots, with its parameters.\<close>

record workspace_env =
  we_sessions_root :: "string list"
  we_baseline_root :: "string list"
  we_baseline_name :: string
  we_max_bytes :: int
  we_max_files :: int
  we_rsv :: "string list \<Rightarrow> string list"
  we_git :: "string list \<Rightarrow> string list \<Rightarrow> disk \<Rightarrow> disk \<times> (int \<times> string) result"
  we_digest :: "string \<Rightarrow> string"

record workspace_state =
  ws_disk :: disk
  ws_handles :: "(string \<times> WorkspaceHandle) list"

definition set_disk :: "disk \<Rightarrow> workspace_state \<Rightarrow> workspace_state" where
  "set_disk d s = s\<lparr>ws_disk := d\<rparr>"

definition new_factory ::
    "(string list \<Rightarrow> string list) \<Rightarrow> (string list \<Rightarrow> string list \<Rightarrow> disk \<Rightarrow> disk \<times> (int \<times> string) result) \<Rightarrow> (string \<Rightarrow> string) \<Rightarrow>
     string list \<Rightarrow> string list \<Rightarrow> string \<Rightarrow> int \<Rightarrow> int \<Rightarrow> workspace_env result" where
  "new_factory rsv git digest root0 baseline0 baseline_name max_bytes max_files =
     (if max_bytes \<le> 0 then Inl (ValueError ''max_bytes must be positive'')
      else if max_files \<le> 0 then Inl (ValueError ''max_files must be positive'')
      else Inr \<lparr>we_sessions_root = rsv (rsv root0 @ [''sessions'']), we_baseline_root = rsv baseline0,
                we_baseline_name = baseline_name, we_max_bytes = max_bytes, we_max_files = max_files, we_rsv = rsv,
                we_git = git, we_digest = digest\<rparr>)"

subsection \<open>Boundaries\<close>

definition workspace_error :: "string \<Rightarrow> string \<Rightarrow> 'a result" where
  "workspace_error code message = Inl (OnlineWorkspaceError code message)"

definition ensure_inside :: "string list \<Rightarrow> string list \<Rightarrow> unit result" where
  "ensure_inside target root =
     (if prefix root target then Inr ()
      else workspace_error ONLINE_SAFE_WORKSPACE_BOUNDARY_ERROR ''ONLINE_SAFE workspace path escaped its boundary'')"

definition session_id_ok :: "string \<Rightarrow> bool" where
  "session_id_ok s \<longleftrightarrow> 16 \<le> length s \<and> list_all (\<lambda>c. is_ascii_alpha c \<or> is_digit c \<or> c = CHR ''_'' \<or> c = CHR ''-'') s"

definition session_root :: "workspace_env \<Rightarrow> string \<Rightarrow> string list result" where
  "session_root env session_id =
     (if \<not> session_id_ok session_id
      then workspace_error ONLINE_SAFE_WORKSPACE_BOUNDARY_ERROR ''ONLINE_SAFE session id is not a valid workspace identifier''
      else let root = we_rsv env (we_sessions_root env @ [we_digest env session_id])
           in rbind (ensure_inside root (we_sessions_root env)) (\<lambda>_. Inr root))"

definition workspace_root_of :: "workspace_env \<Rightarrow> string list \<Rightarrow> string list" where
  "workspace_root_of env root = we_rsv env (root @ [''workspace''])"

definition safe_rmtree :: "workspace_env \<Rightarrow> string list \<Rightarrow> disk \<Rightarrow> disk \<times> unit result" where
  "safe_rmtree env target d =
     (let resolved = we_rsv env target
      in case ensure_inside resolved (we_sessions_root env) of
           Inl e \<Rightarrow> (d, Inl e)
         | Inr _ \<Rightarrow>
             if resolved = we_sessions_root env
             then (d, workspace_error ONLINE_SAFE_WORKSPACE_BOUNDARY_ERROR ''ONLINE_SAFE cleanup target cannot be the sessions root'')
             else (remove_tree resolved d, Inr ()))"

definition resolve_workspace_path :: "workspace_env \<Rightarrow> WorkspaceHandle \<Rightarrow> string \<Rightarrow> string list result" where
  "resolve_workspace_path env handle relative_path =
     (if is_absolute relative_path \<or> ''..'' \<in> set (path_parts relative_path)
      then workspace_error ONLINE_SAFE_USER_PATH_ERROR ''ONLINE_SAFE workspace paths must be relative to the session workspace''
      else let target = we_rsv env (wh_root handle @ path_parts relative_path)
           in rbind (ensure_inside target (wh_root handle)) (\<lambda>_. Inr target))"

subsection \<open>The baseline\<close>

definition node_size :: "node \<Rightarrow> int" where
  "node_size n = (case n of FileNode content \<Rightarrow> int (length content) | _ \<Rightarrow> 0)"

definition over_limits :: "workspace_env \<Rightarrow> int \<Rightarrow> int \<Rightarrow> bool" where
  "over_limits env files total_bytes \<longleftrightarrow> we_max_files env < files \<or> we_max_bytes env < total_bytes"

fun validate_entries :: "workspace_env \<Rightarrow> int \<Rightarrow> int \<Rightarrow> (string list \<times> node) list \<Rightarrow> unit result" where
  "validate_entries env files total_bytes [] = Inr ()"
| "validate_entries env files total_bytes ((relative, n) # rest) =
     (if n = LinkNode then workspace_error ONLINE_SAFE_WORKSPACE_BASELINE_ERROR ''ONLINE_SAFE baseline symlinks are not allowed''
      else if is_excluded relative then validate_entries env files total_bytes rest
      else case n of
             FileNode content \<Rightarrow>
               if over_limits env (files + 1) (total_bytes + node_size n)
               then workspace_error ONLINE_SAFE_WORKSPACE_LIMIT_ERROR ''ONLINE_SAFE baseline workspace exceeds configured limits''
               else validate_entries env (files + 1) (total_bytes + node_size n) rest
           | _ \<Rightarrow> validate_entries env files total_bytes rest)"

definition validate_baseline :: "workspace_env \<Rightarrow> disk \<Rightarrow> unit result" where
  "validate_baseline env d = validate_entries env 0 0 (rglob d (we_baseline_root env))"

fun copy_entries :: "workspace_env \<Rightarrow> string list \<Rightarrow> int \<Rightarrow> int \<Rightarrow> (string list \<times> node) list \<Rightarrow> disk \<Rightarrow> disk \<times> unit result" where
  "copy_entries env destination files total_bytes [] d = (d, Inr ())"
| "copy_entries env destination files total_bytes ((relative, n) # rest) d =
     (if n = LinkNode
      then (d, workspace_error ONLINE_SAFE_WORKSPACE_BASELINE_ERROR ''ONLINE_SAFE baseline symlinks are not allowed'')
      else if is_excluded relative then copy_entries env destination files total_bytes rest d
      else case n of
             DirNode \<Rightarrow>
               (case make_dirs (destination @ relative) d of
                  (d1, Inl e) \<Rightarrow> (d1, Inl e)
                | (d1, Inr _) \<Rightarrow> copy_entries env destination files total_bytes rest d1)
           | FileNode content \<Rightarrow>
               if over_limits env (files + 1) (total_bytes + node_size n)
               then (d, workspace_error ONLINE_SAFE_WORKSPACE_LIMIT_ERROR ''ONLINE_SAFE baseline workspace exceeds configured limits'')
               else (case write_below (destination @ relative) content d of
                       (d1, Inl e) \<Rightarrow> (d1, Inl e)
                     | (d1, Inr _) \<Rightarrow> copy_entries env destination (files + 1) (total_bytes + node_size n) rest d1)
           | _ \<Rightarrow> (d, workspace_error ONLINE_SAFE_WORKSPACE_BASELINE_ERROR
                     ''ONLINE_SAFE baseline contains unsupported filesystem entries''))"

text \<open>\<^verbatim>\<open>destination.mkdir(parents=True, exist_ok=False)\<close> fails when there is an entry already.\<close>

definition make_new_dirs :: "string list \<Rightarrow> disk \<Rightarrow> disk \<times> unit result" where
  "make_new_dirs p d =
     (if map_of d p \<noteq> None \<or> p = [] then (d, Inl (FileSystemError ''file exists'')) else make_dirs p d)"

definition copy_baseline :: "workspace_env \<Rightarrow> string list \<Rightarrow> disk \<Rightarrow> disk \<times> unit result" where
  "copy_baseline env destination d =
     (if \<not> is_dir_at d (we_baseline_root env)
      then (d, workspace_error ONLINE_SAFE_WORKSPACE_BASELINE_ERROR ''ONLINE_SAFE baseline workspace is missing'')
      else case validate_baseline env d of
             Inl e \<Rightarrow> (d, Inl e)
           | Inr _ \<Rightarrow>
               (case make_new_dirs destination d of
                  (d1, Inl e) \<Rightarrow> (d1, Inl e)
                | (d1, Inr _) \<Rightarrow> copy_entries env destination 0 0 (rglob d (we_baseline_root env)) d1))"

definition GIT_COMMANDS :: "string list list" where
  "GIT_COMMANDS = [[''git'', ''init''], [''git'', ''config'', ''user.email'', ''online-safe@example.invalid''],
     [''git'', ''config'', ''user.name'', ''SE-Mentor Online Safe''], [''git'', ''config'', ''--unset-all'', ''credential.helper''],
     [''git'', ''add'', ''.''], [''git'', ''commit'', ''-m'', ''baseline'']]"

fun run_git_commands :: "workspace_env \<Rightarrow> string list \<Rightarrow> string list list \<Rightarrow> disk \<Rightarrow> disk \<times> unit result" where
  "run_git_commands env root [] d = (d, Inr ())"
| "run_git_commands env root (command # rest) d =
     (case we_git env command root d of
        (d1, Inl e) \<Rightarrow> (d1, Inl e)
      | (d1, Inr (code, out)) \<Rightarrow>
          if code = 0 \<or> take 3 command = [''git'', ''config'', ''--unset-all''] \<and> code = 5 then run_git_commands env root rest d1
          else (d1, workspace_error ONLINE_SAFE_WORKSPACE_BASELINE_ERROR ''ONLINE_SAFE session Git baseline could not be initialized''))"

definition init_session_git_repo :: "workspace_env \<Rightarrow> string list \<Rightarrow> disk \<Rightarrow> disk \<times> unit result" where
  "init_session_git_repo env root d = run_git_commands env root GIT_COMMANDS d"

definition workspace_baseline_revision :: "workspace_env \<Rightarrow> disk \<Rightarrow> string" where
  "workspace_baseline_revision env d =
     take 16 (we_digest env (concat (map (\<lambda>(relative, n). case n of
        FileNode content \<Rightarrow> if is_excluded relative then [] else as_posix relative @ content | _ \<Rightarrow> [])
       (sort_key fst (rglob d (we_baseline_root env))))))"

definition git_revision :: "workspace_env \<Rightarrow> string list \<Rightarrow> disk \<Rightarrow> disk \<times> string option result" where
  "git_revision env root d =
     (case we_git env [''git'', ''rev-parse'', ''HEAD''] root d of
        (d1, Inl e) \<Rightarrow> (d1, Inl e)
      | (d1, Inr (code, out)) \<Rightarrow> (d1, Inr (if code = 0 then Some (strip out) else None)))"

subsection \<open>The current workspace of a session\<close>

definition workspace_get_or_create :: "workspace_env \<Rightarrow> int \<Rightarrow> string \<Rightarrow> workspace_state \<Rightarrow> workspace_state \<times> WorkspaceHandle result" where
  "workspace_get_or_create env now sid s =
     (case session_root env sid of
        Inl e \<Rightarrow> (s, Inl e)
      | Inr root \<Rightarrow>
          let workspace = workspace_root_of env root; d = ws_disk s
          in case (if is_dir_at d workspace then map_of (ws_handles s) sid else None) of
               Some handle \<Rightarrow>
                 let used = handle\<lparr>wh_last_used_at := now\<rparr>
                 in (s\<lparr>ws_handles := AList.update sid used (ws_handles s)\<rparr>, Inr used)
             | None \<Rightarrow>
                 (case ensure_inside workspace root of
                    Inl e \<Rightarrow> (s, Inl e)
                  | Inr _ \<Rightarrow>
                      let (d1, made) =
                        (if is_dir_at d workspace then (d, Inr ())
                         else case make_dirs root d of
                                (d2, Inl e) \<Rightarrow> (d2, Inl e)
                              | (d2, Inr _) \<Rightarrow>
                                  (case copy_baseline env workspace d2 of
                                     (d3, Inl e) \<Rightarrow> (d3, Inl e)
                                   | (d3, Inr _) \<Rightarrow> init_session_git_repo env workspace d3))
                      in case made of
                           Inl e \<Rightarrow>
                             (case safe_rmtree env root d1 of
                                (d2, Inl e2) \<Rightarrow> (set_disk d2 s, Inl e2)
                              | (d2, Inr _) \<Rightarrow> (set_disk d2 s, Inl e))
                         | Inr _ \<Rightarrow>
                             let handle = \<lparr>wh_session_id = sid, wh_root = workspace, wh_created_at = now, wh_last_used_at = now,
                                   wh_baseline_name = we_baseline_name env, wh_baseline_revision = Some (workspace_baseline_revision env d1)\<rparr>
                             in (s\<lparr>ws_disk := d1, ws_handles := AList.update sid handle (ws_handles s)\<rparr>, Inr handle)))"

definition reset_current_workspace :: "workspace_env \<Rightarrow> int \<Rightarrow> string \<Rightarrow> workspace_state \<Rightarrow> workspace_state \<times> WorkspaceHandle result" where
  "reset_current_workspace env now sid s =
     (case session_root env sid of
        Inl e \<Rightarrow> (s, Inl e)
      | Inr root \<Rightarrow>
          let workspace = workspace_root_of env root
          in case (if map_of (ws_disk s) workspace \<noteq> None then safe_rmtree env workspace (ws_disk s) else (ws_disk s, Inr ())) of
               (d1, Inl e) \<Rightarrow> (set_disk d1 s, Inl e)
             | (d1, Inr _) \<Rightarrow>
                 workspace_get_or_create env now sid (s\<lparr>ws_disk := d1, ws_handles := AList.delete sid (ws_handles s)\<rparr>))"

subsection \<open>Importing an archive\<close>

text \<open>
  An entry as \<^verbatim>\<open>zipfile\<close> lists it; \<open>ze_content\<close> is what reading it gives, or the exception. A text that is not an
  archive is \<open>None\<close>.
\<close>

record zip_entry =
  ze_filename :: string
  ze_external_attr :: "32 word"
  ze_flag_bits :: "16 word"
  ze_file_size :: int
  ze_content :: "string result"

type_synonym zip_reader = "string \<Rightarrow> zip_entry list option"

definition file_type_of :: "zip_entry \<Rightarrow> 32 word" where
  "file_type_of entry = drop_bit 16 (ze_external_attr entry) AND 0xF000"

definition windows_drive :: "string \<Rightarrow> bool" where
  "windows_drive name = (case name of c # CHR '':'' # _ \<Rightarrow> is_ascii_alpha c | _ \<Rightarrow> False)"

definition validate_zip_entry :: "zip_entry \<Rightarrow> string list option result" where
  "validate_zip_entry entry =
     (let normalized_name = replace_char (CHR 0x5C) slash (ze_filename entry); file_type = file_type_of entry
      in if normalized_name = [] \<or> startswith normalized_name ''/'' \<or> startswith normalized_name [CHR 0x5C] \<or> windows_drive normalized_name
         then workspace_error ONLINE_SAFE_WORKSPACE_ZIP_ERROR ''ONLINE_SAFE project ZIP contains an absolute path''
         else if list_ex (\<lambda>part. part \<in> {'''', ''.'', ''..''}) (path_parts normalized_name)
         then workspace_error ONLINE_SAFE_WORKSPACE_ZIP_ERROR ''ONLINE_SAFE project ZIP contains path traversal''
         else if file_type = 0xA000
         then workspace_error ONLINE_SAFE_WORKSPACE_ZIP_ERROR ''ONLINE_SAFE project ZIP symlinks are not allowed''
         else if file_type \<noteq> 0 \<and> file_type \<notin> {0x8000, 0x4000}
         then workspace_error ONLINE_SAFE_WORKSPACE_ZIP_ERROR ''ONLINE_SAFE project ZIP contains unsupported filesystem entries''
         else if ze_flag_bits entry AND 1 \<noteq> 0
         then workspace_error ONLINE_SAFE_WORKSPACE_ZIP_ERROR ''ONLINE_SAFE project ZIP encryption is not supported''
         else if endswith (ze_filename entry) ''/'' then Inr None
         else Inr (Some (path_parts normalized_name)))"

definition raw_zip_paths :: "zip_entry list \<Rightarrow> (zip_entry \<times> string list) list result" where
  "raw_zip_paths entries =
     rbind (rmap validate_zip_entry entries) (\<lambda>rels.
       Inr (concat (map (\<lambda>(entry, rel). case rel of None \<Rightarrow> [] | Some p \<Rightarrow> if is_excluded p then [] else [(entry, p)]) (zip entries rels))))"

definition common_project_root :: "string list list \<Rightarrow> string option" where
  "common_project_root ps =
     (case ps of
        [] \<Rightarrow> None
      | first # _ \<Rightarrow>
          if length first \<le> 1 then None
          else if list_all (\<lambda>parts. 1 < length parts \<and> hd parts = hd first) ps then Some (hd first) else None)"

definition strip_project_root :: "string option \<Rightarrow> string list \<Rightarrow> string list" where
  "strip_project_root root relative =
     (case root of None \<Rightarrow> relative | Some r \<Rightarrow> if r \<noteq> [] \<and> hd relative = r then tl relative else relative)"

fun plan_entries ::
    "workspace_env \<Rightarrow> string option \<Rightarrow> string list \<Rightarrow> int \<Rightarrow> int \<Rightarrow> (zip_entry \<times> string list) list \<Rightarrow> (zip_entry \<times> string list) list result" where
  "plan_entries env root seen files total_bytes [] = Inr []"
| "plan_entries env root seen files total_bytes ((entry, relative) # rest) =
     (let target = strip_project_root root relative
      in if target = [] \<or> is_excluded target then plan_entries env root seen files total_bytes rest
         else if as_posix target \<in> set seen
         then workspace_error ONLINE_SAFE_WORKSPACE_ZIP_ERROR ''ONLINE_SAFE project ZIP contains duplicate target paths''
         else if over_limits env (files + 1) (total_bytes + ze_file_size entry)
         then workspace_error ONLINE_SAFE_WORKSPACE_LIMIT_ERROR ''ONLINE_SAFE imported project exceeds configured workspace limits''
         else rbind (plan_entries env root (as_posix target # seen) (files + 1) (total_bytes + ze_file_size entry) rest) (\<lambda>plan.
           Inr ((entry, target) # plan)))"

definition zip_import_plan :: "workspace_env \<Rightarrow> zip_reader \<Rightarrow> string \<Rightarrow> (zip_entry \<times> string list) list result" where
  "zip_import_plan env infolist archive =
     (if archive = [] then workspace_error ONLINE_SAFE_WORKSPACE_ZIP_ERROR ''ONLINE_SAFE project ZIP is empty''
      else if we_max_bytes env < int (length archive)
      then workspace_error ONLINE_SAFE_WORKSPACE_LIMIT_ERROR ''ONLINE_SAFE project ZIP exceeds configured upload size limit''
      else case infolist archive of
             None \<Rightarrow> workspace_error ONLINE_SAFE_WORKSPACE_ZIP_ERROR ''ONLINE_SAFE project upload must be a valid ZIP archive''
           | Some entries \<Rightarrow>
               rbind (raw_zip_paths entries) (\<lambda>raw.
               rbind (plan_entries env (common_project_root (map snd raw)) [] 0 0 raw) (\<lambda>plan.
                 if plan = [] then workspace_error ONLINE_SAFE_WORKSPACE_ZIP_ERROR ''ONLINE_SAFE project ZIP contains no importable source files''
                 else Inr plan)))"

fun extract_entries :: "workspace_env \<Rightarrow> string list \<Rightarrow> (zip_entry \<times> string list) list \<Rightarrow> disk \<Rightarrow> disk \<times> unit result" where
  "extract_entries env workspace [] d = (d, Inr ())"
| "extract_entries env workspace ((entry, relative) # rest) d =
     (let target = we_rsv env (workspace @ relative)
      in case ensure_inside target workspace of
           Inl e \<Rightarrow> (d, Inl e)
         | Inr _ \<Rightarrow>
             (case make_dirs (butlast target) d of
                (d1, Inl e) \<Rightarrow> (d1, Inl e)
              | (d1, Inr _) \<Rightarrow>
                  (case ze_content entry of
                     Inl e \<Rightarrow> (d1, Inl e)
                   | Inr content \<Rightarrow>
                       (case write_file target content d1 of
                          (d2, Inl e) \<Rightarrow> (d2, Inl e)
                        | (d2, Inr _) \<Rightarrow> extract_entries env workspace rest d2))))"

definition fill_workspace :: "workspace_env \<Rightarrow> string list \<Rightarrow> (zip_entry \<times> string list) list \<Rightarrow> disk \<Rightarrow> disk \<times> unit result" where
  "fill_workspace env workspace plan d =
     (case extract_entries env workspace plan d of
        (d1, Inl e) \<Rightarrow> (d1, Inl e)
      | (d1, Inr _) \<Rightarrow> init_session_git_repo env workspace d1)"

definition safe_archive_label :: "string \<Rightarrow> string" where
  "safe_archive_label archive_name =
     (let name = path_name (replace_char (CHR 0x5C) slash archive_name);
          stem = (if endswith (lower name) ''.zip'' then take (length name - 4) name else name);
          label = take 80 (strip stem)
      in if label = [] then ONLINE_SAFE_WORKSPACE_IMPORT_NAME else label)"

definition import_zip ::
    "workspace_env \<Rightarrow> zip_reader \<Rightarrow> int \<Rightarrow> string \<Rightarrow> string \<Rightarrow> string \<Rightarrow> workspace_state \<Rightarrow> workspace_state \<times> WorkspaceHandle result" where
  "import_zip env infolist now sid archive archive_name s =
     (case rbind (zip_import_plan env infolist archive) (\<lambda>plan. rbind (session_root env sid) (\<lambda>root.
             rbind (ensure_inside (workspace_root_of env root) root) (\<lambda>_. Inr (plan, root)))) of
        Inl e \<Rightarrow> (s, Inl e)
      | Inr (plan, root) \<Rightarrow>
          let workspace = workspace_root_of env root; d = ws_disk s
          in case (if map_of d workspace \<noteq> None then safe_rmtree env workspace d else (d, Inr ())) of
               (d1, Inl e) \<Rightarrow> (set_disk d1 s, Inl e)
             | (d1, Inr _) \<Rightarrow>
                 (case make_dirs root d1 of
                    (d2, Inl e) \<Rightarrow> (set_disk d2 s, Inl e)
                  | (d2, Inr _) \<Rightarrow>
                      (case make_new_dirs workspace d2 of
                         (d3, Inl e) \<Rightarrow> (set_disk d3 s, Inl e)
                       | (d3, Inr _) \<Rightarrow>
                           let (d4, made) = fill_workspace env workspace plan d3
                           in case made of
                                Inl e \<Rightarrow>
                                  (case safe_rmtree env workspace d4 of
                                     (d5, Inl e2) \<Rightarrow> (set_disk d5 s, Inl e2)
                                   | (d5, Inr _) \<Rightarrow> (s\<lparr>ws_disk := d5, ws_handles := AList.delete sid (ws_handles s)\<rparr>, Inl e))
                              | Inr _ \<Rightarrow>
                                  (case git_revision env workspace d4 of
                                     (d5, Inl e) \<Rightarrow> (set_disk d5 s, Inl e)
                                   | (d5, Inr revision) \<Rightarrow>
                                       let handle = \<lparr>wh_session_id = sid, wh_root = workspace, wh_created_at = now, wh_last_used_at = now,
                                             wh_baseline_name = safe_archive_label archive_name, wh_baseline_revision = revision\<rparr>
                                       in (s\<lparr>ws_disk := d5, ws_handles := AList.update sid handle (ws_handles s)\<rparr>, Inr handle)))))"

subsection \<open>Exporting and cleaning up\<close>

fun export_entries :: "workspace_env \<Rightarrow> int \<Rightarrow> int \<Rightarrow> (string list \<times> node) list \<Rightarrow> (string \<times> string) list result" where
  "export_entries env files total_bytes [] = Inr []"
| "export_entries env files total_bytes ((relative, n) # rest) =
     (if is_excluded relative then export_entries env files total_bytes rest
      else case n of
             LinkNode \<Rightarrow> workspace_error ONLINE_SAFE_WORKSPACE_BOUNDARY_ERROR ''ONLINE_SAFE export cannot include symlinks''
           | DirNode \<Rightarrow> export_entries env files total_bytes rest
           | SpecialNode \<Rightarrow> workspace_error ONLINE_SAFE_WORKSPACE_BOUNDARY_ERROR ''ONLINE_SAFE export cannot include unsupported filesystem entries''
           | FileNode content \<Rightarrow>
               if over_limits env (files + 1) (total_bytes + node_size n)
               then workspace_error ONLINE_SAFE_WORKSPACE_LIMIT_ERROR ''ONLINE_SAFE export exceeds configured workspace limits''
               else rbind (export_entries env (files + 1) (total_bytes + node_size n) rest) (\<lambda>out. Inr ((as_posix relative, content) # out)))"

definition export_zip :: "workspace_env \<Rightarrow> WorkspaceHandle \<Rightarrow> disk \<Rightarrow> (string \<times> string) list result" where
  "export_zip env handle d = export_entries env 0 0 (sort_key fst (rglob d (wh_root handle)))"

fun remove_children :: "workspace_env \<Rightarrow> string list \<Rightarrow> string list \<Rightarrow> disk \<Rightarrow> disk \<times> unit result" where
  "remove_children env active [] d = (d, Inr ())"
| "remove_children env active (name # rest) d =
     (if name \<in> set active then remove_children env active rest d
      else case safe_rmtree env (we_sessions_root env @ [name]) d of
             (d1, Inl e) \<Rightarrow> (d1, Inl e)
           | (d1, Inr _) \<Rightarrow> remove_children env active rest d1)"

definition child_names :: "disk \<Rightarrow> string list \<Rightarrow> string list" where
  "child_names d root = map (last \<circ> fst) (filter (\<lambda>e. fst e \<noteq> [] \<and> butlast (fst e) = root) d)"

definition cleanup_expired :: "workspace_env \<Rightarrow> string list \<Rightarrow> workspace_state \<Rightarrow> workspace_state \<times> unit result" where
  "cleanup_expired env live_ids s =
     (let active = map (we_digest env) live_ids
      in case make_dirs (we_sessions_root env) (ws_disk s) of
           (d1, Inl e) \<Rightarrow> (set_disk d1 s, Inl e)
         | (d1, Inr _) \<Rightarrow>
             (case remove_children env active (child_names d1 (we_sessions_root env)) d1 of
                (d2, Inl e) \<Rightarrow> (set_disk d2 s, Inl e)
              | (d2, Inr _) \<Rightarrow>
                  (s\<lparr>ws_disk := d2, ws_handles := filter (\<lambda>h. we_digest env (fst h) \<in> set active) (ws_handles s)\<rparr>, Inr ())))"

subsection \<open>What an operation may change\<close>

text \<open>Outside the tree of \<open>root\<close> nothing changes, except that missing directories on the way to it are made.\<close>

definition only_below :: "string list \<Rightarrow> disk \<Rightarrow> disk \<Rightarrow> bool" where
  "only_below root d d' \<longleftrightarrow> (\<forall>p. \<not> prefix root p \<longrightarrow> map_of d' p = map_of d p \<or>
     strict_prefix p root \<and> map_of d p = None \<and> map_of d' p = Some DirNode)"

lemma only_below_refl [intro, simp]: "only_below root d d"
  by (simp add: only_below_def)

lemma only_below_trans [trans]: "only_below root d d' \<Longrightarrow> only_below root d' d'' \<Longrightarrow> only_below root d d''"
  unfolding only_below_def by (metis option.distinct(1))

lemma map_of_remove_tree: "map_of (remove_tree q d) p = (if prefix q p then None else map_of d p)"
  by (induction d) (auto simp: remove_tree_def)

lemma only_below_remove: "prefix root q \<Longrightarrow> only_below root d (remove_tree q d)"
  by (auto simp: only_below_def map_of_remove_tree dest: prefix_order.trans)

lemma only_below_write: "prefix root q \<Longrightarrow> write_file q content d = (d', r) \<Longrightarrow> only_below root d d'"
  by (auto simp: write_file_def only_below_def update_conv' split: if_splits)

lemma only_below_add_dir:
  assumes "prefix q p" "prefix root p \<or> prefix p root" "map_of d q = None \<or> is_dir_at d q"
  shows "only_below root d (add_dir q d)"
proof -
  have "prefix root q \<or> strict_prefix q root" using assms(1,2) by (metis prefix_order.order_trans prefix_same_cases strict_prefixI)
  then show ?thesis using assms(3) by (auto simp: only_below_def add_dir_def is_dir_at_def update_conv')
qed

lemma add_dir_keeps:
  assumes "map_of d q = None \<or> is_dir_at d q"
  shows "map_of (add_dir r d) q = None \<or> is_dir_at (add_dir r d) q"
  using assms by (auto simp: add_dir_def is_dir_at_def update_conv')

lemma only_below_fold_dirs:
  assumes "\<forall>q \<in> set qs. prefix q p \<and> (map_of d q = None \<or> is_dir_at d q)" "prefix root p \<or> prefix p root"
  shows "only_below root d (fold add_dir qs d)"
  using assms(1)
proof (induction qs arbitrary: d)
  case (Cons q qs)
  have "only_below root d (add_dir q d)" using Cons.prems assms(2) by (intro only_below_add_dir [of q p]) auto
  moreover have "only_below root (add_dir q d) (fold add_dir qs (add_dir q d))"
    using Cons.prems add_dir_keeps by (intro Cons.IH) (metis list.set_intros(2))
  ultimately show ?case by (simp add: only_below_trans)
qed simp

lemma only_below_make_dirs: "prefix root p \<or> prefix p root \<Longrightarrow> make_dirs p d = (d', r) \<Longrightarrow> only_below root d d'"
  by (auto simp: make_dirs_def list_ex_iff in_set_prefixes intro!: only_below_fold_dirs [of _ p] split: if_splits)

lemma only_below_make_new_dirs: "prefix root p \<Longrightarrow> make_new_dirs p d = (d', r) \<Longrightarrow> only_below root d d'"
  by (auto simp: make_new_dirs_def intro: only_below_make_dirs split: if_splits)

lemma only_below_safe_rmtree: "prefix root (we_rsv env q) \<Longrightarrow> safe_rmtree env q d = (d', r) \<Longrightarrow> only_below root d d'"
  by (auto simp: safe_rmtree_def Let_def intro: only_below_remove split: sum.splits if_splits)

lemma prefix_butlast: "prefix root p \<Longrightarrow> prefix root (butlast p) \<or> prefix (butlast p) root"
  using prefix_order.trans prefix_same_cases prefixeq_butlast by blast

lemma only_below_write_below:
  assumes "prefix root p" "write_below p content d = (d', r)"
  shows "only_below root d d'"
proof -
  obtain d1 x where m: "make_dirs (butlast p) d = (d1, x)" by (metis prod.collapse)
  have "only_below root d d1" using only_below_make_dirs [OF prefix_butlast [OF assms(1)] m] .
  with assms m show ?thesis by (auto simp: write_below_def intro: only_below_trans only_below_write split: sum.splits)
qed

text \<open>What is assumed of resolving and of git: a resolved path resolves to itself, and git works below its directory.\<close>

definition tools_confined :: "workspace_env \<Rightarrow> bool" where
  "tools_confined env \<longleftrightarrow> (\<forall>p. we_rsv env (we_rsv env p) = we_rsv env p) \<and>
     (\<forall>args cwd d p. \<not> prefix cwd p \<longrightarrow> map_of (fst (we_git env args cwd d)) p = map_of d p)"

lemma only_below_git:
  assumes "tools_confined env" "prefix root cwd" "we_git env args cwd d = (d', r)"
  shows "only_below root d d'"
proof -
  have "map_of d' p = map_of d p" if "\<not> prefix root p" for p
  proof -
    have "\<not> prefix cwd p" using that assms(2) by (metis prefix_order.trans)
    then show ?thesis using assms(1,3) unfolding tools_confined_def by (metis fst_conv)
  qed
  then show ?thesis by (simp add: only_below_def)
qed

lemma only_below_git_commands:
  assumes "tools_confined env" "prefix root cwd" "run_git_commands env cwd commands d = (d', r)"
  shows "only_below root d d'"
  using assms(3)
proof (induction commands arbitrary: d)
  case (Cons command rest)
  obtain d1 x where g: "we_git env command cwd d = (d1, x)" by (metis prod.collapse)
  have "only_below root d d1" using only_below_git [OF assms(1,2) g] .
  then show ?case using Cons g by (auto intro: only_below_trans split: sum.splits if_splits)
qed simp

lemma only_below_copy:
  assumes "prefix root dest" "copy_entries env dest files bytes entries d = (d', r)"
  shows "only_below root d d'"
  using assms(2)
proof (induction entries arbitrary: files bytes d)
  case (Cons e rest)
  obtain relative n where e: "e = (relative, n)" by (cases e)
  have p: "prefix root (dest @ relative)" using assms(1) by (rule prefix_prefix)
  obtain d1 x where m: "make_dirs (dest @ relative) d = (d1, x)" by (metis prod.collapse)
  have step: "only_below root d d1" using only_below_make_dirs [OF disjI1 [OF p] m] .
  have w: "only_below root d d2" if "write_below (dest @ relative) c d = (d2, y)" for c d2 y
    using only_below_write_below [OF p that] .
  have ih: "only_below root d d'" if "copy_entries env dest f b rest d2 = (d', r)" "only_below root d d2" for d2 f b
    using that(2) Cons.IH [OF that(1)] by (rule only_below_trans)
  show ?case
    using Cons.prems step w ih m Cons.IH unfolding e
    by (auto simp: workspace_error_def split: node.splits prod.splits sum.splits if_splits)
qed simp

lemma only_below_copy_baseline:
  assumes "prefix root dest" "copy_baseline env dest d = (d', r)"
  shows "only_below root d d'"
proof -
  obtain d1 x where m: "make_new_dirs dest d = (d1, x)" by (metis prod.collapse)
  have m': "only_below root d d1" using only_below_make_new_dirs [OF assms(1) m] .
  obtain d2 y where c: "copy_entries env dest 0 0 (rglob d (we_baseline_root env)) d1 = (d2, y)" by (metis prod.collapse)
  have "only_below root d1 d2" using only_below_copy [OF assms(1) c] .
  with m' m c assms(2) show ?thesis
    by (auto simp: copy_baseline_def intro: only_below_trans split: sum.splits if_splits)
qed

lemma only_below_extract:
  assumes "prefix root ws" "extract_entries env ws plan d = (d', r)"
  shows "only_below root d d'"
  using assms(2)
proof (induction plan arbitrary: d)
  case (Cons e rest)
  obtain entry relative where e: "e = (entry, relative)" by (cases e)
  let ?target = "we_rsv env (ws @ relative)"
  show ?case
  proof (cases "prefix ws ?target")
    case False
    then show ?thesis using Cons.prems by (simp add: e ensure_inside_def workspace_error_def)
  next
    case True
    have p: "prefix root ?target" using assms(1) True prefix_order.trans by blast
    obtain d1 x where m: "make_dirs (butlast ?target) d = (d1, x)" by (metis prod.collapse)
    have step: "only_below root d d1" using only_below_make_dirs [OF prefix_butlast [OF p] m] .
    have w: "only_below root d d2" if "write_file ?target c d1 = (d2, y)" for c d2 y
      using step only_below_write [OF p that] by (rule only_below_trans)
    have ih: "only_below root d d'" if "extract_entries env ws rest d2 = (d', r)" "only_below root d d2" for d2
      using that(2) Cons.IH [OF that(1)] by (rule only_below_trans)
    show ?thesis
      using Cons.prems True m step w ih unfolding e by (auto simp: ensure_inside_def Let_def split: sum.splits prod.splits)
  qed
qed simp

lemma session_root_Inr: "session_root env sid = Inr root \<Longrightarrow> root = we_rsv env (we_sessions_root env @ [we_digest env sid]) \<and> session_id_ok sid"
  by (auto simp: session_root_def rbind_eq_Inr workspace_error_def Let_def split: if_splits)

lemma root_resolved:
  assumes "tools_confined env" "session_root env sid = Inr root"
  shows "we_rsv env root = root" and "we_rsv env (workspace_root_of env root) = workspace_root_of env root"
  using assms session_root_Inr [OF assms(2)] by (auto simp: tools_confined_def workspace_root_of_def)

lemma get_or_create_below:
  assumes tools: "tools_confined env" and root: "session_root env sid = Inr root"
    and run: "workspace_get_or_create env now sid s = (s', r)"
  shows "only_below root (ws_disk s) (ws_disk s')"
proof -
  let ?ws = "workspace_root_of env root" and ?d = "ws_disk s"
  show ?thesis
  proof (cases "(if is_dir_at ?d ?ws then map_of (ws_handles s) sid else None) \<noteq> None \<or> \<not> prefix root ?ws")
    case True
    then have "ws_disk s' = ?d"
      using run root by (auto simp: workspace_get_or_create_def Let_def ensure_inside_def workspace_error_def split: if_splits option.splits)
    then show ?thesis by simp
  next
    case False
    then have w: "prefix root ?ws" and none: "(if is_dir_at ?d ?ws then map_of (ws_handles s) sid else None) = None" by auto
    let ?make = "(if is_dir_at ?d ?ws then (?d, Inr ())
      else case make_dirs root ?d of (d2, Inl e) \<Rightarrow> (d2, Inl e)
        | (d2, Inr _) \<Rightarrow> (case copy_baseline env ?ws d2 of (d3, Inl e) \<Rightarrow> (d3, Inl e) | (d3, Inr _) \<Rightarrow> init_session_git_repo env ?ws d3))"
    obtain d1 made where m: "?make = (d1, made)" by (cases ?make) auto
    have made: "only_below root ?d d1"
    proof -
      obtain d2 x where a: "make_dirs root ?d = (d2, x)" by (metis prod.collapse)
      obtain d3 y where b: "copy_baseline env ?ws d2 = (d3, y)" by (metis prod.collapse)
      obtain d4 z where c: "init_session_git_repo env ?ws d3 = (d4, z)" by (metis prod.collapse)
      have ab: "only_below root ?d d2" using only_below_make_dirs [OF _ a, of root] by simp
      have ac: "only_below root ?d d3" using ab only_below_copy_baseline [OF w b] by (rule only_below_trans)
      have "only_below root ?d d4"
        using ac only_below_git_commands [OF tools w c [unfolded init_session_git_repo_def]] by (rule only_below_trans)
      with ab ac m show ?thesis unfolding a b c by (auto simp: b c split: if_splits sum.splits)
    qed
    obtain d2 x where t: "safe_rmtree env root d1 = (d2, x)" by (metis prod.collapse)
    have removed: "only_below root ?d d2"
      using made only_below_safe_rmtree [OF _ t, of root] root_resolved(1) [OF tools root] by (auto intro: only_below_trans)
    have "ws_disk s' \<in> {d1, d2}"
      using run root w none m t
      by (auto simp: workspace_get_or_create_def ensure_inside_def set_disk_def Let_def split: sum.splits option.splits)
    with made removed show ?thesis by auto
  qed
qed

lemma reset_below:
  assumes tools: "tools_confined env" and root: "session_root env sid = Inr root" and w: "prefix root (workspace_root_of env root)"
    and run: "reset_current_workspace env now sid s = (s', r)"
  shows "only_below root (ws_disk s) (ws_disk s')"
proof -
  let ?ws = "workspace_root_of env root" and ?d = "ws_disk s"
  obtain d1 x where a: "(if map_of ?d ?ws \<noteq> None then safe_rmtree env ?ws ?d else (?d, Inr ())) = (d1, x)" by (metis prod.collapse)
  have d1: "only_below root ?d d1"
    using a only_below_safe_rmtree [of root env ?ws ?d] w root_resolved(2) [OF tools root] by (auto split: if_splits)
  have "only_below root ?d (ws_disk s')" if "workspace_get_or_create env now sid (s\<lparr>ws_disk := d1, ws_handles := h\<rparr>) = (s', r)" for h
    using d1 get_or_create_below [OF tools root that] by (auto intro: only_below_trans)
  with run root a d1 show ?thesis
    by (auto simp: reset_current_workspace_def set_disk_def Let_def split: sum.splits)
qed

lemma only_below_fill:
  assumes "tools_confined env" "prefix root ws" "fill_workspace env ws plan d = (d', r)"
  shows "only_below root d d'"
proof -
  obtain d1 x where e: "extract_entries env ws plan d = (d1, x)" by (metis prod.collapse)
  have o: "only_below root d d1" using only_below_extract [OF assms(2) e] .
  have "only_below root d1 d'" if "init_session_git_repo env ws d1 = (d', r)"
    using only_below_git_commands [OF assms(1,2) that [unfolded init_session_git_repo_def]] .
  with o e assms(3) show ?thesis by (auto simp: fill_workspace_def intro: only_below_trans split: sum.splits)
qed

lemma import_below:
  assumes tools: "tools_confined env" and root: "session_root env sid = Inr root"
    and run: "import_zip env infolist now sid archive name s = (s', r)"
  shows "only_below root (ws_disk s) (ws_disk s')"
proof -
  let ?ws = "workspace_root_of env root" and ?d = "ws_disk s"
  let ?ok = "rbind (zip_import_plan env infolist archive) (\<lambda>plan. rbind (session_root env sid) (\<lambda>root.
             rbind (ensure_inside (workspace_root_of env root) root) (\<lambda>_. Inr (plan, root))))"
  show ?thesis
  proof (cases ?ok)
    case (Inl e)
    then have "s' = s" using run by (simp add: import_zip_def)
    then show ?thesis by simp
  next
    case (Inr y)
    then obtain plan where y: "y = (plan, root)" and w: "prefix root ?ws"
      using root by (auto simp: rbind_eq_Inr ensure_inside_def workspace_error_def split: if_splits)
    obtain d1 x where a: "(if map_of ?d ?ws \<noteq> None then safe_rmtree env ?ws ?d else (?d, Inr ())) = (d1, x)" by (metis prod.collapse)
    obtain d2 x2 where b: "make_dirs root d1 = (d2, x2)" by (metis prod.collapse)
    obtain d3 x3 where c: "make_new_dirs ?ws d2 = (d3, x3)" by (metis prod.collapse)
    obtain d4 x4 where f: "fill_workspace env ?ws plan d3 = (d4, x4)" by (metis prod.collapse)
    obtain d6 x6 where v: "git_revision env ?ws d4 = (d6, x6)" by (metis prod.collapse)
    obtain d7 x7 where t: "safe_rmtree env ?ws d4 = (d7, x7)" by (metis prod.collapse)
    note rs = root_resolved(2) [OF tools root]
    have o1: "only_below root ?d d1" using a only_below_safe_rmtree [of root env ?ws ?d] w rs by (auto split: if_splits)
    have o2: "only_below root ?d d2" using o1 only_below_make_dirs [OF _ b, of root] by (auto intro: only_below_trans)
    have o3: "only_below root ?d d3" using o2 only_below_make_new_dirs [OF w c] by (rule only_below_trans)
    have o4: "only_below root ?d d4" using o3 only_below_fill [OF tools w f] by (rule only_below_trans)
    obtain z where z: "we_git env [''git'', ''rev-parse'', ''HEAD''] ?ws d4 = (d6, z)"
      using v by (auto simp: git_revision_def split: prod.splits sum.splits)
    have o6: "only_below root ?d d6" using o4 only_below_git [OF tools w z] by (rule only_below_trans)
    have o7: "only_below root ?d d7" using o4 only_below_safe_rmtree [OF _ t, of root] w rs by (auto intro: only_below_trans)
    have run': "(case x of Inl e \<Rightarrow> (set_disk d1 s, Inl e) | Inr _ \<Rightarrow>
        (case x2 of Inl e \<Rightarrow> (set_disk d2 s, Inl e) | Inr _ \<Rightarrow>
        (case x3 of Inl e \<Rightarrow> (set_disk d3 s, Inl e) | Inr _ \<Rightarrow>
        (case x4 of
           Inl e \<Rightarrow> (case x7 of Inl e2 \<Rightarrow> (set_disk d7 s, Inl e2)
             | Inr _ \<Rightarrow> (s\<lparr>ws_disk := d7, ws_handles := AList.delete sid (ws_handles s)\<rparr>, Inl e))
         | Inr _ \<Rightarrow> (case x6 of Inl e \<Rightarrow> (set_disk d6 s, Inl e)
             | Inr revision \<Rightarrow> (s\<lparr>ws_disk := d6, ws_handles := AList.update sid
                 \<lparr>wh_session_id = sid, wh_root = ?ws, wh_created_at = now, wh_last_used_at = now,
                  wh_baseline_name = safe_archive_label name, wh_baseline_revision = revision\<rparr> (ws_handles s)\<rparr>,
                 Inr \<lparr>wh_session_id = sid, wh_root = ?ws, wh_created_at = now, wh_last_used_at = now,
                  wh_baseline_name = safe_archive_label name, wh_baseline_revision = revision\<rparr>)))))) = (s', r)"
      using run unfolding import_zip_def Inr y sum.case prod.case Let_def a b c f v t .
    have "ws_disk s' \<in> {d1, d2, d3, d6, d7}" using run' by (auto simp: set_disk_def split: sum.splits)
    with o1 o2 o3 o6 o7 show ?thesis by auto
  qed
qed

subsection \<open>The plan of an import\<close>

lemma validate_zip_entry_Some:
  assumes "validate_zip_entry entry = Inr (Some p)"
  shows "list_all (\<lambda>c. c \<noteq> [] \<and> c \<noteq> ''.'' \<and> c \<noteq> ''..'' \<and> slash \<notin> set c) p \<and> file_type_of entry \<in> {0, 0x8000, 0x4000} \<and> ze_flag_bits entry AND 1 = 0"
  using assms
  by (auto simp: validate_zip_entry_def workspace_error_def path_parts_def list_all_iff list_ex_iff Let_def dest: split_on_parts split: if_splits)

definition safe_entry :: "zip_entry \<times> string list \<Rightarrow> bool" where
  "safe_entry e \<longleftrightarrow> list_all (\<lambda>c. c \<noteq> [] \<and> c \<noteq> ''.'' \<and> c \<noteq> ''..'' \<and> slash \<notin> set c) (snd e) \<and> file_type_of (fst e) \<in> {0, 0x8000, 0x4000} \<and>
     ze_flag_bits (fst e) AND 1 = 0"

lemma raw_zip_paths_safe:
  assumes "raw_zip_paths entries = Inr raw"
  shows "list_all safe_entry raw"
proof -
  obtain rels where r: "rmap validate_zip_entry entries = Inr rels"
      "raw = concat (map (\<lambda>(entry, rel). case rel of None \<Rightarrow> [] | Some p \<Rightarrow> if is_excluded p then [] else [(entry, p)]) (zip entries rels))"
    using assms by (auto simp: raw_zip_paths_def rbind_eq_Inr)
  have "validate_zip_entry entry = Inr rel" if "(entry, rel) \<in> set (zip entries rels)" for entry rel
    using r(1) that by (induction entries arbitrary: rels) (auto split: sum.splits)
  then show ?thesis
    using validate_zip_entry_Some by (fastforce simp: list_all_iff safe_entry_def r(2) split: option.splits if_splits)
qed

lemma safe_entry_strip:
  assumes "safe_entry (e, p)"
  shows "safe_entry (e, strip_project_root root p)"
proof -
  have "set (tl p) \<subseteq> set p" by (cases p) auto
  then have "set (strip_project_root root p) \<subseteq> set p" by (auto simp: strip_project_root_def split: option.splits)
  then show ?thesis using assms by (auto simp: safe_entry_def list_all_iff)
qed

lemma plan_entries_props:
  assumes "plan_entries env root seen files bytes raw = Inr plan" and "list_all safe_entry raw"
  shows "distinct (map (as_posix \<circ> snd) plan) \<and> set (map (as_posix \<circ> snd) plan) \<inter> set seen = {} \<and>
    list_all (\<lambda>e. safe_entry e \<and> snd e \<noteq> [] \<and> \<not> is_excluded (snd e)) plan \<and>
    (plan = [] \<or> files + int (length plan) \<le> we_max_files env \<and> bytes + sum_list (map (ze_file_size \<circ> fst) plan) \<le> we_max_bytes env)"
  using assms
proof (induction env root seen files bytes raw arbitrary: plan rule: plan_entries.induct)
  case (2 env root seen files bytes entry relative rest)
  let ?t = "strip_project_root root relative"
  have safe: "safe_entry (entry, ?t)" "list_all safe_entry rest" using "2.prems"(2) by (auto intro: safe_entry_strip)
  show ?case
  proof (cases "?t = [] \<or> is_excluded ?t")
    case True
    then show ?thesis using "2.IH"(1) [OF HOL.refl] "2.prems"(1) safe(2) by auto
  next
    case False
    then obtain tail where t: "as_posix ?t \<notin> set seen" "\<not> over_limits env (files + 1) (bytes + ze_file_size entry)"
        "plan_entries env root (as_posix ?t # seen) (files + 1) (bytes + ze_file_size entry) rest = Inr tail" "plan = (entry, ?t) # tail"
      using "2.prems"(1) by (auto simp: Let_def workspace_error_def rbind_eq_Inr split: if_splits)
    note ih = "2.IH"(2) [OF HOL.refl False t(1,2,3) safe(2)]
    then show ?thesis using t(1,2,4) False safe(1) by (auto simp: over_limits_def)
  qed
qed simp

text \<open>
  (C12) The plan of an import is safe to extract: it is not empty, the archive and the files it declares stay within the
  limits, no two entries have the same target, and every target is a non-empty relative path without empty, dot or
  parent components that is not excluded, of an entry that is neither a link nor a special file nor encrypted.
\<close>

theorem zip_plan_safe:
  assumes "zip_import_plan env infolist archive = Inr plan"
  shows "plan \<noteq> [] \<and> int (length archive) \<le> we_max_bytes env \<and> int (length plan) \<le> we_max_files env \<and>
    sum_list (map (ze_file_size \<circ> fst) plan) \<le> we_max_bytes env \<and> distinct (map (as_posix \<circ> snd) plan) \<and>
    list_all (\<lambda>(entry, target). target \<noteq> [] \<and> list_all (\<lambda>c. c \<noteq> [] \<and> c \<noteq> ''.'' \<and> c \<noteq> ''..'' \<and> slash \<notin> set c) target \<and> \<not> is_excluded target \<and>
      file_type_of entry \<in> {0, 0x8000, 0x4000} \<and> ze_flag_bits entry AND 1 = 0) plan"
proof -
  obtain entries raw where r: "raw_zip_paths entries = Inr raw" "plan \<noteq> []" "int (length archive) \<le> we_max_bytes env"
      "plan_entries env (common_project_root (map snd raw)) [] 0 0 raw = Inr plan"
    using assms by (auto simp: zip_import_plan_def workspace_error_def rbind_eq_Inr split: if_splits option.splits)
  from plan_entries_props [OF r(4) raw_zip_paths_safe [OF r(1)]] r(2,3) show ?thesis
    by (fastforce simp: list_all_iff safe_entry_def)
qed
subsection \<open>Cleaning up and exporting\<close>

lemma fold_add_dir_other: "p \<notin> set qs \<Longrightarrow> map_of (fold add_dir qs d) p = map_of d p"
  by (induction qs arbitrary: d) (auto simp: add_dir_def update_conv')

lemma remove_children_spec:
  assumes "remove_children env active names d = (d', Inr ())" and plain: "\<forall>x. we_rsv env (we_sessions_root env @ [x]) = we_sessions_root env @ [x]"
  shows "map_of d' p = (if \<exists>n \<in> set names. n \<notin> set active \<and> prefix (we_sessions_root env @ [n]) p then None else map_of d p)"
  using assms(1)
proof (induction names arbitrary: d)
  case (Cons n names)
  show ?case
  proof (cases "n \<in> set active")
    case True
    then show ?thesis using Cons by auto
  next
    case False
    have s: "safe_rmtree env (we_sessions_root env @ [n]) d = (remove_tree (we_sessions_root env @ [n]) d, Inr ())"
      using plain by (simp add: safe_rmtree_def ensure_inside_def Let_def)
    have "remove_children env active names (remove_tree (we_sessions_root env @ [n]) d) = (d', Inr ())" using Cons.prems False s by simp
    from Cons.IH [OF this] show ?thesis using False by (auto simp: map_of_remove_tree)
  qed
qed simp

text \<open>
  The clean-up leaves the directories of the active sessions alone and removes all others: when the sessions root has no
  links, an entry below the directory of an active session is as before, and no directory of the sessions root remains
  that does not belong to one; the handles that stay are those of active sessions.
\<close>

theorem cleanup_exact:
  assumes run: "cleanup_expired env live s = (s', Inr ())"
    and plain: "\<forall>x. we_rsv env (we_sessions_root env @ [x]) = we_sessions_root env @ [x]"
  shows "list_all (\<lambda>sid. \<forall>rest. map_of (ws_disk s') (we_sessions_root env @ we_digest env sid # rest) =
        map_of (ws_disk s) (we_sessions_root env @ we_digest env sid # rest)) live \<and>
    list_all (\<lambda>name. name \<in> we_digest env ` set live) (child_names (ws_disk s') (we_sessions_root env)) \<and>
    list_all (\<lambda>h. we_digest env (fst h) \<in> we_digest env ` set live) (ws_handles s')"
proof -
  let ?S = "we_sessions_root env" and ?A = "map (we_digest env) live"
  obtain d1 d2 where m: "make_dirs ?S (ws_disk s) = (d1, Inr ())" "remove_children env ?A (child_names d1 ?S) d1 = (d2, Inr ())"
      "ws_disk s' = d2" "ws_handles s' = filter (\<lambda>h. we_digest env (fst h) \<in> set ?A) (ws_handles s)"
    using run by (auto simp: cleanup_expired_def set_disk_def Let_def split: prod.splits sum.splits)
  note r = remove_children_spec [OF m(2) plain]
  have below: "map_of d1 p = map_of (ws_disk s) p" if "strict_prefix ?S p" for p
  proof -
    have "p \<notin> set (prefixes ?S)" using that by (auto simp: in_set_prefixes)
    then show ?thesis using m(1) by (auto simp: make_dirs_def fold_add_dir_other split: if_splits)
  qed
  have kept: "map_of d2 (?S @ we_digest env sid # rest) = map_of (ws_disk s) (?S @ we_digest env sid # rest)" if "sid \<in> set live" for sid rest
    using that below [of "?S @ we_digest env sid # rest"] by (auto simp: r strict_prefix_def)
  have gone: "name \<in> we_digest env ` set live" if "name \<in> set (child_names d2 ?S)" for name
  proof -
    from that obtain q n where e: "(q, n) \<in> set d2" "q \<noteq> []" "butlast q = ?S" "name = last q" by (auto simp: child_names_def)
    then have q: "q = ?S @ [name]" by (metis append_butlast_last_id)
    have "map_of d2 q \<noteq> None" using e(1) by (metis map_of_eq_None_iff image_eqI fst_conv)
    moreover from this have "map_of d1 q \<noteq> None" by (auto simp: r split: if_splits)
    then obtain n' where "(?S @ [name], n') \<in> set d1" by (auto simp: q dest: map_of_SomeD)
    then have "name \<in> set (child_names d1 ?S)" by (force simp: child_names_def)
    ultimately show ?thesis by (auto simp: r q split: if_splits)
  qed
  show ?thesis using kept gone m(3,4) by (auto simp: list_all_iff)
qed
text \<open>
  An export contains exactly the regular files of the workspace that are not excluded, with their contents, within the
  limits.
\<close>

lemma export_entries_spec:
  assumes "export_entries env files total0 entries = Inr out"
  shows "set out = {(as_posix relative, content) | relative content. (relative, FileNode content) \<in> set entries \<and> \<not> is_excluded relative} \<and>
    (out = [] \<or> files + int (length out) \<le> we_max_files env \<and> total0 + sum_list (map (int \<circ> length \<circ> snd) out) \<le> we_max_bytes env)"
  using assms
proof (induction entries arbitrary: files total0 out)
  case (Cons e rest)
  obtain relative n where e: "e = (relative, n)" by (cases e)
  show ?case
  proof (cases "is_excluded relative \<or> n = DirNode")
    case True
    then show ?thesis using Cons.IH [of files total0 out] Cons.prems unfolding e by (cases n) (auto split: if_splits)
  next
    case False
    then obtain content tail where f: "n = FileNode content" "\<not> over_limits env (files + 1) (total0 + int (length content))"
        "export_entries env (files + 1) (total0 + int (length content)) rest = Inr tail" "out = (as_posix relative, content) # tail"
      using Cons.prems unfolding e by (cases n) (auto simp: workspace_error_def rbind_eq_Inr node_size_def split: if_splits)
    show ?thesis using Cons.IH [OF f(3)] f(1,2,4) False unfolding e by (auto simp: over_limits_def)
  qed
qed simp

theorem export_exact:
  assumes "export_zip env handle d = Inr out"
  shows "set out = {(as_posix relative, content) | relative content.
      (wh_root handle @ relative, FileNode content) \<in> set d \<and> relative \<noteq> [] \<and> \<not> is_excluded relative} \<and>
    (out = [] \<or> int (length out) \<le> we_max_files env \<and> sum_list (map (int \<circ> length \<circ> snd) out) \<le> we_max_bytes env)"
proof -
  have "(relative, n) \<in> set (rglob d root) \<longleftrightarrow> (root @ relative, n) \<in> set d \<and> relative \<noteq> []" for relative n root
    by (force simp: rglob_def strict_prefix_def prefix_def image_iff)
  then show ?thesis using export_entries_spec [OF assms [unfolded export_zip_def]] by auto
qed

subsection \<open>Examples\<close>

definition sample_workspace_env :: "(string list \<Rightarrow> string list) \<Rightarrow> workspace_env" where
  "sample_workspace_env rsv = \<lparr>we_sessions_root = [''s''], we_baseline_root = [''b''], we_baseline_name = ''demo'', we_max_bytes = 100,
     we_max_files = 5, we_rsv = rsv, we_git = (\<lambda>args cwd d. (d, Inr (0, []))), we_digest = take 1\<rparr>"

definition session_a :: string where
  "session_a = replicate 16 (CHR ''a'')"

definition session_b :: string where
  "session_b = replicate 16 (CHR ''b'')"

definition sample_zip :: zip_reader where
  "sample_zip archive = Some [\<lparr>ze_filename = ''proj/src/a.py'', ze_external_attr = 0x81A40000, ze_flag_bits = 0, ze_file_size = 3, ze_content = Inr ''new''\<rparr>,
     \<lparr>ze_filename = ''proj/.env'', ze_external_attr = 0, ze_flag_bits = 0, ze_file_size = 3, ze_content = Inr ''key''\<rparr>]"

definition sample_workspaces :: workspace_state where
  "sample_workspaces = \<lparr>ws_disk = [([''b''], DirNode), ([''b'', ''r.md''], FileNode ''r''), ([''s''], DirNode), ([''s'', ''b''], DirNode),
     ([''s'', ''b'', ''workspace''], DirNode), ([''s'', ''b'', ''workspace'', ''x''], FileNode ''mine'')], ws_handles = []\<rparr>"

theorem zip_plan_safe_witness:
  "\<exists>plan. zip_import_plan (sample_workspace_env (\<lambda>p. p)) sample_zip ''zip'' = Inr plan \<and> map snd plan = [[''src'', ''a.py'']] \<and>
     sum_list (map (ze_file_size \<circ> fst) plan) \<le> 100"
proof -
  let ?p = "zip_import_plan (sample_workspace_env (\<lambda>p. p)) sample_zip ''zip''"
  have "map_sum (\<lambda>e. ()) (map snd) ?p = Inr [[''src'', ''a.py'']]" by code_simp
  then obtain plan where p: "?p = Inr plan" "map snd plan = [[''src'', ''a.py'']]" by (cases ?p) auto
  have "we_max_bytes (sample_workspace_env (\<lambda>p. p)) = 100" by (simp add: sample_workspace_env_def)
  with zip_plan_safe [OF p(1)] p show ?thesis by auto
qed


text \<open>
  Resetting a workspace does not check that the resolved workspace lies in the directory of its session, as opening and
  importing do: when \<^verbatim>\<open>workspace\<close> of one session is a link into another session, the reset removes the other session's
  files.
\<close>

theorem reset_follows_links:
  "let env = sample_workspace_env (\<lambda>p. if p = [''s'', ''a'', ''workspace''] then [''s'', ''b'', ''workspace''] else p);
       s' = fst (reset_current_workspace env 7 session_a sample_workspaces)
   in map_of (ws_disk sample_workspaces) [''s'', ''b'', ''workspace'', ''x''] = Some (FileNode ''mine'') \<and>
      map_of (ws_disk s') [''s'', ''b'', ''workspace'', ''x''] = None \<and>
      isl (snd (workspace_get_or_create env 7 session_a sample_workspaces)) \<and>
      isl (snd (import_zip env sample_zip 7 session_a ''zip'' ''proj.zip'' sample_workspaces))"
  by code_simp

end
